(* ===== verification/Prelude.thy ===== *)
theory Prelude
  imports Main "HOL-Library.Word" "HOL-Library.List_Lexorder" "HOL-Library.Char_ord"
begin

text \<open>
  Shared vocabulary of the development: the machine integer types of the native code, the
  model of pointers to output variables, the short-circuit evaluation of the
  \<^verbatim>\<open>if (!a() || !b() || ...)\<close> chains that every codec is written with, the model of
  \<^verbatim>\<open>std::memcpy\<close> into a span, and byte strings.
\<close>

named_theorems wire_simps \<open>unfolding rules of the serialisation primitives\<close>

section \<open>Machine integers\<close>

type_synonym byte = "8 word"
type_synonym u8 = "8 word"
type_synonym u16 = "16 word"
type_synonym u32 = "32 word"
type_synonym u64 = "64 word"
type_synonym i32 = "32 word"

text \<open>
  \<^verbatim>\<open>std::size_t\<close> values are natural numbers; the supported targets are 64 bit, so
  \<^verbatim>\<open>std::numeric_limits<std::size_t>::max()\<close> is the following number, and the code's
  overflow checks against it are written out.
\<close>

definition size_max :: nat where
  "size_max = 2 ^ 64 - 1"

text \<open>Bounds of unsigned values, in the decimal form the source writes them.\<close>

lemma unat_u16_le: "unat (w :: u16) \<le> 65535"
  using unsigned_less [of w, where 'a = nat] by simp

lemma unat_u32_le: "unat (w :: u32) \<le> 4294967295"
  using unsigned_less [of w, where 'a = nat] by simp

lemma eq_word_of_nat_u16_iff: "n \<le> 65535 \<Longrightarrow> w = (word_of_nat n :: u16) \<longleftrightarrow> unat w = n"
  by (auto simp: unat_of_nat)

lemma eq_word_of_nat_u32_iff: "n \<le> 4294967295 \<Longrightarrow> w = (word_of_nat n :: u32) \<longleftrightarrow> unat w = n"
  by (auto simp: unat_of_nat)

section \<open>Pointers to output variables\<close>

text \<open>
  An output parameter \<^verbatim>\<open>T* value\<close> is \<open>None\<close> for the null pointer and \<open>Some v\<close> for a
  pointer to a variable that holds \<open>v\<close>; the operation returns the updated pointer.
\<close>

type_synonym 'a ptr = "'a option"

section \<open>Short-circuit chains\<close>

text \<open>
  \<open>chain [f, g, \<dots>] s\<close> runs the state-changing conditions in order and stops at the first
  that returns false, as \<^verbatim>\<open>f() && g() && ...\<close> (and the negated \<^verbatim>\<open>||\<close> form) does.
\<close>

primrec chain :: "('s \<Rightarrow> bool \<times> 's) list \<Rightarrow> 's \<Rightarrow> bool \<times> 's" where
  "chain [] s = (True, s)"
| "chain (f # fs) s = (case f s of (ok, s') \<Rightarrow> if ok then chain fs s' else (False, s'))"

lemma chain_Cons_True:
  "f s = (True, s') \<Longrightarrow> chain (f # fs) s = chain fs s'"
  by simp

lemma chain_Cons_False:
  "f s = (False, s') \<Longrightarrow> chain (f # fs) s = (False, s')"
  by simp

lemma chain_Cons_iff:
  "chain (f # fs) s = (True, t) \<longleftrightarrow> (\<exists>s'. f s = (True, s') \<and> chain fs s' = (True, t))"
  by (auto split: prod.splits if_splits)

lemma chain_append:
  "chain (fs @ gs) s = (case chain fs s of (ok, s') \<Rightarrow> if ok then chain gs s' else (False, s'))"
  by (induction fs arbitrary: s) (auto split: prod.splits)

text \<open>An invariant that every step keeps is kept by the chain, whether it stops early or not.\<close>

lemma chain_invariant:
  assumes "\<And>f s. f \<in> set fs \<Longrightarrow> P s \<Longrightarrow> P (snd (f s))" and "P s"
  shows "P (snd (chain fs s))"
  using assms
proof (induction fs arbitrary: s)
  case Nil
  then show ?case by simp
next
  case (Cons f fs)
  obtain ok s' where f: "f s = (ok, s')" by fastforce
  with Cons.prems(1)[of f s] Cons.prems(2) have "P s'" by simp
  with Cons show ?case by (cases ok) (simp_all add: f)
qed

section \<open>Copying into a span\<close>

text \<open>
  \<open>memcpy_at off bs buf\<close> overwrites \<open>buf\<close> from index \<open>off\<close> with \<open>bs\<close>. A copy that ran past
  the end of the buffer would make the list longer, so that the length of the result tells a
  copy that stays inside from one that does not.
\<close>

definition memcpy_at :: "nat \<Rightarrow> byte list \<Rightarrow> byte list \<Rightarrow> byte list" where
  "memcpy_at off bs buf = take off buf @ bs @ drop (off + length bs) buf"

lemma length_memcpy_at:
  "off \<le> length buf \<Longrightarrow> length (memcpy_at off bs buf) = length buf \<longleftrightarrow> off + length bs \<le> length buf"
  by (auto simp: memcpy_at_def)

lemma length_memcpy_at_in [simp]:
  "off + length bs \<le> length buf \<Longrightarrow> length (memcpy_at off bs buf) = length buf"
  by (simp add: memcpy_at_def)

lemma memcpy_at_Nil [simp]: "memcpy_at off [] buf = buf"
  by (simp add: memcpy_at_def)

lemma take_memcpy_at:
  "off + length bs \<le> length buf \<Longrightarrow> take (off + length bs) (memcpy_at off bs buf) = take off buf @ bs"
  by (simp add: memcpy_at_def)

lemma drop_memcpy_at:
  "off + length bs \<le> length buf \<Longrightarrow> drop (off + length bs) (memcpy_at off bs buf) = drop (off + length bs) buf"
  by (simp add: memcpy_at_def)

lemma memcpy_at_memcpy_at:
  "off + length bs + length cs \<le> length buf \<Longrightarrow>
   memcpy_at (off + length bs) cs (memcpy_at off bs buf) = memcpy_at off (bs @ cs) buf"
  by (simp add: memcpy_at_def add.assoc add.commute add.left_commute)

text \<open>The same with the free room written as the code computes it.\<close>

lemma length_memcpy_at_room:
  "length bs \<le> length buf - off \<Longrightarrow> length (memcpy_at off bs buf) = length buf"
  by (cases "off \<le> length buf") simp_all

lemma memcpy_at_append_room:
  "length bs + length cs \<le> length buf - off \<Longrightarrow>
   memcpy_at (off + length bs) cs (memcpy_at off bs buf) = memcpy_at off (bs @ cs) buf"
  by (cases "off \<le> length buf") (simp_all add: memcpy_at_memcpy_at)

lemma memcpy_at_0:
  "memcpy_at 0 bs buf = bs @ drop (length bs) buf"
  by (simp add: memcpy_at_def)

section \<open>Byte strings\<close>

text \<open>\<^verbatim>\<open>std::string\<close> is a sequence of bytes; the model's \<open>string\<close> is a list of 8-bit characters.\<close>

definition byte_of_char :: "char \<Rightarrow> byte" where
  "byte_of_char c = word_of_nat (of_char c)"

definition char_of_byte :: "byte \<Rightarrow> char" where
  "char_of_byte b = char_of (unat b)"

lemma char_of_byte_of_char [simp]: "char_of_byte (byte_of_char c) = c"
  by (simp add: char_of_byte_def byte_of_char_def unat_of_nat)

lemma byte_of_char_of_byte [simp]: "byte_of_char (char_of_byte b) = b"
proof -
  have "unat b < 2 ^ LENGTH(8)" by (rule unsigned_less)
  then have "unat b mod 256 = unat b" by simp
  then show ?thesis
    by (simp add: char_of_byte_def byte_of_char_def)
qed

definition bytes_of_string :: "string \<Rightarrow> byte list" where
  "bytes_of_string = map byte_of_char"

definition string_of_bytes :: "byte list \<Rightarrow> string" where
  "string_of_bytes = map char_of_byte"

lemma string_of_bytes_of_string [simp]: "string_of_bytes (bytes_of_string s) = s"
  by (simp add: string_of_bytes_def bytes_of_string_def comp_def)

lemma bytes_of_string_of_bytes [simp]: "bytes_of_string (string_of_bytes bs) = bs"
  by (simp add: string_of_bytes_def bytes_of_string_def comp_def)

lemma length_bytes_of_string [simp]: "length (bytes_of_string s) = length s"
  by (simp add: bytes_of_string_def)

lemma length_string_of_bytes [simp]: "length (string_of_bytes bs) = length bs"
  by (simp add: string_of_bytes_def)

lemma bytes_of_string_Nil_iff [simp]: "bytes_of_string s = [] \<longleftrightarrow> s = []"
  by (simp add: bytes_of_string_def)

section \<open>Components that handle one event after the other\<close>

text \<open>
  A node role handles the events of its loop one after the other, a session the operations its owner
  calls. What one event keeps of an invariant and how it may change the state holds for every run.
\<close>

locale role_loop =
  fixes handle :: "'e \<Rightarrow> 's \<Rightarrow> 's"
    and inv :: "'s \<Rightarrow> bool"
    and change :: "'s \<Rightarrow> 's \<Rightarrow> bool"
  assumes inv_handle: "inv s \<Longrightarrow> inv (handle e s)"
    and change_handle: "inv s \<Longrightarrow> change s (handle e s)"
    and change_refl: "inv s \<Longrightarrow> change s s"
    and change_trans: "change s s' \<Longrightarrow> change s' s'' \<Longrightarrow> change s s''"
begin

lemma inv_run: "inv s \<Longrightarrow> inv (fold handle es s)"
  by (induction es arbitrary: s) (simp_all add: inv_handle)

lemma change_run: "inv s \<Longrightarrow> change s (fold handle es s)"
proof (induction es arbitrary: s)
  case (Cons e es)
  then have "change (handle e s) (fold handle es (handle e s))" by (simp add: inv_handle)
  with change_handle [OF Cons.prems] show ?case by (auto intro: change_trans)
qed (simp add: change_refl)

end

end
