(* ===== verification/ByteOrder.thy ===== *)
theory ByteOrder
  imports Prelude
begin

text \<open>
  \<^verbatim>\<open>net/ByteOrder.h\<close>: the byte swaps and \<^verbatim>\<open>HostToNetwork\<close> / \<^verbatim>\<open>NetworkToHost\<close>. The
  object representation that \<^verbatim>\<open>std::memcpy\<close> reads and writes is made explicit: it is the
  little-endian or the big-endian byte list of the value, by the platform. The main result is
  that the bytes put on the wire are the big-endian ones on either platform.
\<close>

unbundle bit_operations_syntax

section \<open>Object representations\<close>

primrec le_bytes :: "nat \<Rightarrow> 'a::len word \<Rightarrow> byte list" where
  "le_bytes 0 w = []"
| "le_bytes (Suc n) w = ucast w # le_bytes n (drop_bit 8 w)"

primrec le_word :: "byte list \<Rightarrow> 'a::len word" where
  "le_word [] = 0"
| "le_word (b # bs) = ucast b OR push_bit 8 (le_word bs)"

definition be_bytes :: "nat \<Rightarrow> 'a::len word \<Rightarrow> byte list" where
  "be_bytes n w = rev (le_bytes n w)"

definition be_word :: "byte list \<Rightarrow> 'a::len word" where
  "be_word bs = le_word (rev bs)"

text \<open>\<^verbatim>\<open>std::endian::native\<close> is one of two values; mixed-endian platforms are refused at compile time.\<close>

datatype endian = Little | Big

definition object_bytes :: "endian \<Rightarrow> nat \<Rightarrow> 'a::len word \<Rightarrow> byte list" where
  "object_bytes en n w = (case en of Little \<Rightarrow> le_bytes n w | Big \<Rightarrow> be_bytes n w)"

definition object_word :: "endian \<Rightarrow> byte list \<Rightarrow> 'a::len word" where
  "object_word en bs = (case en of Little \<Rightarrow> le_word bs | Big \<Rightarrow> be_word bs)"

section \<open>The swaps of the source\<close>

definition ByteSwap16 :: "u16 \<Rightarrow> u16" where
  "ByteSwap16 value = push_bit 8 value OR drop_bit 8 value"

definition ByteSwap32 :: "u32 \<Rightarrow> u32" where
  "ByteSwap32 value =
     push_bit 24 (value AND 0x000000FF) OR
     push_bit 8 (value AND 0x0000FF00) OR
     drop_bit 8 (value AND 0x00FF0000) OR
     drop_bit 24 (value AND 0xFF000000)"

definition ByteSwap64 :: "u64 \<Rightarrow> u64" where
  "ByteSwap64 value =
     push_bit 56 (value AND 0x00000000000000FF) OR
     push_bit 40 (value AND 0x000000000000FF00) OR
     push_bit 24 (value AND 0x0000000000FF0000) OR
     push_bit 8 (value AND 0x00000000FF000000) OR
     drop_bit 8 (value AND 0x000000FF00000000) OR
     drop_bit 24 (value AND 0x0000FF0000000000) OR
     drop_bit 40 (value AND 0x00FF000000000000) OR
     drop_bit 56 (value AND 0xFF00000000000000)"

definition HostToNetwork16 :: "endian \<Rightarrow> u16 \<Rightarrow> u16" where
  "HostToNetwork16 en value = (case en of Little \<Rightarrow> ByteSwap16 value | Big \<Rightarrow> value)"

definition HostToNetwork32 :: "endian \<Rightarrow> u32 \<Rightarrow> u32" where
  "HostToNetwork32 en value = (case en of Little \<Rightarrow> ByteSwap32 value | Big \<Rightarrow> value)"

definition HostToNetwork64 :: "endian \<Rightarrow> u64 \<Rightarrow> u64" where
  "HostToNetwork64 en value = (case en of Little \<Rightarrow> ByteSwap64 value | Big \<Rightarrow> value)"

text \<open>One-byte values are not swapped: \<^verbatim>\<open>ByteSwap\<close> returns its argument.\<close>

definition HostToNetwork8 :: "endian \<Rightarrow> u8 \<Rightarrow> u8" where
  "HostToNetwork8 en value = value"

definition NetworkToHost16 :: "endian \<Rightarrow> u16 \<Rightarrow> u16" where
  "NetworkToHost16 en value = HostToNetwork16 en value"

definition NetworkToHost32 :: "endian \<Rightarrow> u32 \<Rightarrow> u32" where
  "NetworkToHost32 en value = HostToNetwork32 en value"

definition NetworkToHost64 :: "endian \<Rightarrow> u64 \<Rightarrow> u64" where
  "NetworkToHost64 en value = HostToNetwork64 en value"

section \<open>Bits of byte lists\<close>

lemma length_le_bytes [simp]: "length (le_bytes n w) = n"
  by (induction n arbitrary: w) simp_all

lemma length_be_bytes [simp]: "length (be_bytes n w) = n"
  by (simp add: be_bytes_def)

lemma nth_le_bytes: "i < n \<Longrightarrow> le_bytes n w ! i = ucast (drop_bit (8 * i) w)"
proof (induction n arbitrary: w i)
  case (Suc n)
  then show ?case by (cases i) (simp_all add: add.commute)
qed simp

lemma bit_le_word:
  "bit (le_word bs :: 'a::len word) k \<longleftrightarrow>
     k < LENGTH('a) \<and> k div 8 < length bs \<and> bit (bs ! (k div 8)) (k mod 8)"
proof (induction bs arbitrary: k)
  case (Cons b bs)
  show ?case
  proof (cases "k < 8")
    case True
    then show ?thesis
      by (auto simp: bit_or_iff bit_ucast_iff bit_push_bit_iff)
  next
    case False
    then obtain j where k: "k = j + 8"
      by (metis add.commute le_Suc_ex not_less)
    have "\<not> bit b k"
      using False bit_imp_le_length[of b k] by auto
    then show ?thesis
      using Cons.IH[of j] bit_imp_le_length[of "le_word bs :: 'a word" j]
      by (auto simp: k bit_or_iff bit_ucast_iff bit_push_bit_iff div_add_self2)
  qed
qed simp

lemma le_word_le_bytes:
  fixes w :: "'a::len word"
  assumes "LENGTH('a) \<le> 8 * n"
  shows "le_word (le_bytes n w) = w"
proof (rule bit_word_eqI)
  fix k assume k: "k < LENGTH('a)"
  with assms have "k div 8 < n" by auto
  then show "bit (le_word (le_bytes n w) :: 'a word) k = bit w k"
    using k by (simp add: bit_le_word nth_le_bytes bit_ucast_iff bit_drop_bit_eq)
qed

lemma le_bytes_le_word:
  assumes "length bs = n" and "8 * n \<le> LENGTH('a)"
  shows "le_bytes n (le_word bs :: 'a::len word) = bs"
proof (rule nth_equalityI)
  show "length (le_bytes n (le_word bs :: 'a word)) = length bs" using assms by simp
next
  fix i assume "i < length (le_bytes n (le_word bs :: 'a word))"
  then have i: "i < n" by simp
  show "le_bytes n (le_word bs :: 'a word) ! i = bs ! i"
  proof (rule bit_word_eqI)
    fix k assume "k < LENGTH(8)"
    then have k: "k < 8" by simp
    with i assms(2) have "8 * i + k < LENGTH('a)" by linarith
    with i k assms(1) show "bit (le_bytes n (le_word bs :: 'a word) ! i) k = bit (bs ! i) k"
      by (simp add: nth_le_bytes bit_ucast_iff bit_drop_bit_eq bit_le_word)
  qed
qed

lemma be_word_be_bytes:
  fixes w :: "'a::len word"
  assumes "LENGTH('a) \<le> 8 * n"
  shows "be_word (be_bytes n w) = w"
  using assms by (simp add: be_word_def be_bytes_def le_word_le_bytes)

lemma be_bytes_be_word:
  assumes "length bs = n" and "8 * n \<le> LENGTH('a)"
  shows "be_bytes n (be_word bs :: 'a::len word) = bs"
  using assms by (simp add: be_word_def be_bytes_def le_bytes_le_word)

section \<open>The swaps reverse the object representation\<close>

text \<open>The masks of the source as shifted runs of ones, the form the bit rules work on.\<close>

lemma byte_masks32:
  "(0x000000FF :: u32) = mask 8"
  "(0x0000FF00 :: u32) = push_bit 8 (mask 8)"
  "(0x00FF0000 :: u32) = push_bit 16 (mask 8)"
  "(0xFF000000 :: u32) = push_bit 24 (mask 8)"
  by (simp_all add: mask_eq_exp_minus_1 push_bit_eq_mult)

lemma byte_masks64:
  "(0x00000000000000FF :: u64) = mask 8"
  "(0x000000000000FF00 :: u64) = push_bit 8 (mask 8)"
  "(0x0000000000FF0000 :: u64) = push_bit 16 (mask 8)"
  "(0x00000000FF000000 :: u64) = push_bit 24 (mask 8)"
  "(0x000000FF00000000 :: u64) = push_bit 32 (mask 8)"
  "(0x0000FF0000000000 :: u64) = push_bit 40 (mask 8)"
  "(0x00FF000000000000 :: u64) = push_bit 48 (mask 8)"
  "(0xFF00000000000000 :: u64) = push_bit 56 (mask 8)"
  by (simp_all add: mask_eq_exp_minus_1 push_bit_eq_mult)

lemmas swap_bit_simps =
  bit_or_iff bit_and_iff bit_push_bit_iff bit_drop_bit_eq bit_mask_iff bit_ucast_iff

text \<open>The representation of the three widths, byte by byte.\<close>

lemma le_bytes_2: "le_bytes 2 w = [ucast w, ucast (drop_bit 8 w)]"
  by (simp add: numeral_2_eq_2)

lemma le_bytes_4:
  "le_bytes 4 w = [ucast w, ucast (drop_bit 8 w), ucast (drop_bit 16 w), ucast (drop_bit 24 w)]"
proof -
  have "le_bytes 4 w = le_bytes (Suc (Suc (Suc (Suc 0)))) w" by (simp add: eval_nat_numeral)
  then show ?thesis by simp
qed

lemma le_bytes_8:
  "le_bytes 8 w =
     [ucast w, ucast (drop_bit 8 w), ucast (drop_bit 16 w), ucast (drop_bit 24 w),
      ucast (drop_bit 32 w), ucast (drop_bit 40 w), ucast (drop_bit 48 w), ucast (drop_bit 56 w)]"
proof -
  have "le_bytes 8 w = le_bytes (Suc (Suc (Suc (Suc (Suc (Suc (Suc (Suc 0)))))))) w"
    by (simp add: eval_nat_numeral)
  then show ?thesis by simp
qed

lemma le_bytes_ByteSwap16: "le_bytes 2 (ByteSwap16 v) = be_bytes 2 v"
  unfolding be_bytes_def ByteSwap16_def le_bytes_2
  by (auto simp: swap_bit_simps intro!: bit_word_eqI dest: bit_imp_le_length)

lemma le_bytes_ByteSwap32: "le_bytes 4 (ByteSwap32 v) = be_bytes 4 v"
  unfolding be_bytes_def ByteSwap32_def byte_masks32 le_bytes_4
  by (auto simp: swap_bit_simps intro!: bit_word_eqI dest: bit_imp_le_length)

lemma le_bytes_ByteSwap64: "le_bytes 8 (ByteSwap64 v) = be_bytes 8 v"
  unfolding be_bytes_def ByteSwap64_def byte_masks64 le_bytes_8
  by (auto simp: swap_bit_simps intro!: bit_word_eqI dest: bit_imp_le_length)

section \<open>Network byte order\<close>

text \<open>The copies the rest of the library rests on, as rewrite rules.\<close>

lemma object_bytes_HostToNetwork [wire_simps]:
  "object_bytes en (Suc 0) (HostToNetwork8 en v8) = be_bytes (Suc 0) v8"
  "object_bytes en 2 (HostToNetwork16 en v16) = be_bytes 2 v16"
  "object_bytes en 4 (HostToNetwork32 en v32) = be_bytes 4 v32"
  "object_bytes en 8 (HostToNetwork64 en v64) = be_bytes 8 v64"
  by (cases en, simp_all add: object_bytes_def HostToNetwork8_def HostToNetwork16_def
      HostToNetwork32_def HostToNetwork64_def le_bytes_ByteSwap16 le_bytes_ByteSwap32
      le_bytes_ByteSwap64 be_bytes_def)+

text \<open>
  C25. On a little-endian and on a big-endian platform alike, copying
  \<^verbatim>\<open>HostToNetwork(value)\<close> into a buffer puts the big-endian bytes of the value there, for
  every width the codecs use.
\<close>

theorem HostToNetwork_big_endian:
  "object_bytes en 1 (HostToNetwork8 en v8) = be_bytes 1 v8 \<and>
   object_bytes en 2 (HostToNetwork16 en v16) = be_bytes 2 v16 \<and>
   object_bytes en 4 (HostToNetwork32 en v32) = be_bytes 4 v32 \<and>
   object_bytes en 8 (HostToNetwork64 en v64) = be_bytes 8 v64"
  by (simp add: object_bytes_HostToNetwork)

lemma ByteSwap_of_le_bytes:
  "ByteSwap16 v16 = le_word (be_bytes 2 v16)"
  "ByteSwap32 v32 = le_word (be_bytes 4 v32)"
  "ByteSwap64 v64 = le_word (be_bytes 8 v64)"
  using le_word_le_bytes[of 2 "ByteSwap16 v16"] le_word_le_bytes[of 4 "ByteSwap32 v32"]
    le_word_le_bytes[of 8 "ByteSwap64 v64"]
  by (simp_all add: le_bytes_ByteSwap16 le_bytes_ByteSwap32 le_bytes_ByteSwap64)

lemma be_bytes_ByteSwap:
  "be_bytes 2 (ByteSwap16 v16) = le_bytes 2 v16"
  "be_bytes 4 (ByteSwap32 v32) = le_bytes 4 v32"
  "be_bytes 8 (ByteSwap64 v64) = le_bytes 8 v64"
  by (simp_all add: be_bytes_def le_bytes_ByteSwap16 le_bytes_ByteSwap32 le_bytes_ByteSwap64)

lemma ByteSwap_ByteSwap:
  "ByteSwap16 (ByteSwap16 v16) = v16"
  "ByteSwap32 (ByteSwap32 v32) = v32"
  "ByteSwap64 (ByteSwap64 v64) = v64"
  by (subst ByteSwap_of_le_bytes, simp add: be_bytes_ByteSwap le_word_le_bytes)+

text \<open>
  \<^verbatim>\<open>NetworkToHost\<close> undoes \<^verbatim>\<open>HostToNetwork\<close> on either platform, for every width
  that is swapped.
\<close>

theorem NetworkToHost_HostToNetwork:
  "NetworkToHost16 en (HostToNetwork16 en v16) = v16 \<and>
   NetworkToHost32 en (HostToNetwork32 en v32) = v32 \<and>
   NetworkToHost64 en (HostToNetwork64 en v64) = v64"
  by (cases en)
    (simp_all add: NetworkToHost16_def NetworkToHost32_def NetworkToHost64_def HostToNetwork16_def
      HostToNetwork32_def HostToNetwork64_def ByteSwap_ByteSwap)

text \<open>Reading a value back: the object representation read with \<^verbatim>\<open>NetworkToHost\<close> is the big-endian value.\<close>

lemma NetworkToHost16_object_word:
  "length bs = 2 \<Longrightarrow> NetworkToHost16 en (object_word en bs) = be_word bs"
  by (cases en) (simp_all add: NetworkToHost16_def HostToNetwork16_def object_word_def
      ByteSwap_of_le_bytes be_bytes_def le_bytes_le_word be_word_def)

lemma NetworkToHost32_object_word:
  "length bs = 4 \<Longrightarrow> NetworkToHost32 en (object_word en bs) = be_word bs"
  by (cases en) (simp_all add: NetworkToHost32_def HostToNetwork32_def object_word_def
      ByteSwap_of_le_bytes be_bytes_def le_bytes_le_word be_word_def)

lemma NetworkToHost64_object_word:
  "length bs = 8 \<Longrightarrow> NetworkToHost64 en (object_word en bs) = be_word bs"
  by (cases en) (simp_all add: NetworkToHost64_def HostToNetwork64_def object_word_def
      ByteSwap_of_le_bytes be_bytes_def le_bytes_le_word be_word_def)

end
