(* ===== verification/BinarySerialization.thy ===== *)
theory BinarySerialization
  imports ByteOrder
begin

text \<open>
  \<^verbatim>\<open>net/BinarySerialization.h\<close> and \<^verbatim>\<open>.cpp\<close>: the bounds-checked \<^verbatim>\<open>BinaryWriter\<close> and
  \<^verbatim>\<open>BinaryReader\<close> over a span, their sticky error code and every read and write operation.
  The locale \<open>wire_value\<close> is the contract the codecs rely on: a pair of a write and a read
  operation implements one wire format. It is interpreted for each primitive of the source.
\<close>

section \<open>Errors, writer and reader\<close>

datatype SerializationErrorCode =
    Ser_None
  | Ser_BufferTooSmall
  | Ser_LengthOverflow
  | Ser_InvalidBoolValue
  | Ser_InvalidArgument

fun SerializationErrorMessage :: "SerializationErrorCode \<Rightarrow> string" where
  "SerializationErrorMessage Ser_None = ''Success.''"
| "SerializationErrorMessage Ser_BufferTooSmall =
     ''Buffer does not contain enough bytes for the requested operation.''"
| "SerializationErrorMessage Ser_LengthOverflow = ''Value length exceeds the supported prefix range.''"
| "SerializationErrorMessage Ser_InvalidBoolValue = ''Encoded bool must be 0 or 1.''"
| "SerializationErrorMessage Ser_InvalidArgument = ''Output argument must not be null.''"

record BinaryWriter =
  bw_buffer :: "byte list"
  bw_offset :: nat
  bw_error :: SerializationErrorCode

record BinaryReader =
  br_buffer :: "byte list"
  br_offset :: nat
  br_error :: SerializationErrorCode

definition new_BinaryWriter :: "byte list \<Rightarrow> BinaryWriter" where
  "new_BinaryWriter buffer = \<lparr>bw_buffer = buffer, bw_offset = 0, bw_error = Ser_None\<rparr>"

definition new_BinaryReader :: "byte list \<Rightarrow> BinaryReader" where
  "new_BinaryReader buffer = \<lparr>br_buffer = buffer, br_offset = 0, br_error = Ser_None\<rparr>"

text \<open>The platform the model runs on; \<open>ByteOrder\<close> shows that the wire bytes do not depend on it.\<close>

definition native_endian :: endian where
  "native_endian = Little"

section \<open>BinaryWriter\<close>

definition writer_remaining :: "BinaryWriter \<Rightarrow> nat" where
  "writer_remaining w = length (bw_buffer w) - bw_offset w"

definition writer_written :: "BinaryWriter \<Rightarrow> byte list" where
  "writer_written w = take (bw_offset w) (bw_buffer w)"

definition writer_SetError :: "SerializationErrorCode \<Rightarrow> BinaryWriter \<Rightarrow> bool \<times> BinaryWriter" where
  "writer_SetError error_code w = (False, w\<lparr>bw_error := error_code\<rparr>)"

definition writer_SetSuccess :: "BinaryWriter \<Rightarrow> bool \<times> BinaryWriter" where
  "writer_SetSuccess w = (True, w\<lparr>bw_error := Ser_None\<rparr>)"

definition CanWrite :: "nat \<Rightarrow> BinaryWriter \<Rightarrow> bool \<times> BinaryWriter" where
  "CanWrite sz w =
     (if sz > writer_remaining w then writer_SetError Ser_BufferTooSmall w else (True, w))"

text \<open>
  \<open>WriteIntegral obj w\<close> copies the object representation \<open>obj\<close> of the swapped value to the
  current offset and advances the offset by its size, as the template does with
  \<^verbatim>\<open>sizeof(network_value)\<close>.
\<close>

definition WriteIntegral :: "byte list \<Rightarrow> BinaryWriter \<Rightarrow> BinaryWriter" where
  "WriteIntegral obj w =
     w\<lparr>bw_buffer := memcpy_at (bw_offset w) obj (bw_buffer w), bw_offset := bw_offset w + length obj\<rparr>"

definition WriteUInt8 :: "u8 \<Rightarrow> BinaryWriter \<Rightarrow> bool \<times> BinaryWriter" where
  "WriteUInt8 value w =
     (case CanWrite 1 w of (ok, w) \<Rightarrow>
        if \<not> ok then (False, w)
        else writer_SetSuccess
          (WriteIntegral (object_bytes native_endian 1 (HostToNetwork8 native_endian value)) w))"

definition WriteUInt16 :: "u16 \<Rightarrow> BinaryWriter \<Rightarrow> bool \<times> BinaryWriter" where
  "WriteUInt16 value w =
     (case CanWrite 2 w of (ok, w) \<Rightarrow>
        if \<not> ok then (False, w)
        else writer_SetSuccess
          (WriteIntegral (object_bytes native_endian 2 (HostToNetwork16 native_endian value)) w))"

definition WriteUInt32 :: "u32 \<Rightarrow> BinaryWriter \<Rightarrow> bool \<times> BinaryWriter" where
  "WriteUInt32 value w =
     (case CanWrite 4 w of (ok, w) \<Rightarrow>
        if \<not> ok then (False, w)
        else writer_SetSuccess
          (WriteIntegral (object_bytes native_endian 4 (HostToNetwork32 native_endian value)) w))"

definition WriteUInt64 :: "u64 \<Rightarrow> BinaryWriter \<Rightarrow> bool \<times> BinaryWriter" where
  "WriteUInt64 value w =
     (case CanWrite 8 w of (ok, w) \<Rightarrow>
        if \<not> ok then (False, w)
        else writer_SetSuccess
          (WriteIntegral (object_bytes native_endian 8 (HostToNetwork64 native_endian value)) w))"

definition WriteInt32 :: "i32 \<Rightarrow> BinaryWriter \<Rightarrow> bool \<times> BinaryWriter" where
  "WriteInt32 value w =
     (case CanWrite 4 w of (ok, w) \<Rightarrow>
        if \<not> ok then (False, w)
        else writer_SetSuccess
          (WriteIntegral (object_bytes native_endian 4 (HostToNetwork32 native_endian value)) w))"

definition WriteBool :: "bool \<Rightarrow> BinaryWriter \<Rightarrow> bool \<times> BinaryWriter" where
  "WriteBool value w = WriteUInt8 (if value then 1 else 0) w"

text \<open>The copy of a span, skipped when the span is empty.\<close>

definition copy_span :: "byte list \<Rightarrow> BinaryWriter \<Rightarrow> BinaryWriter" where
  "copy_span value w =
     (if value \<noteq> [] then
        w\<lparr>bw_buffer := memcpy_at (bw_offset w) value (bw_buffer w), bw_offset := bw_offset w + length value\<rparr>
      else w)"

definition WriteBytes :: "byte list \<Rightarrow> BinaryWriter \<Rightarrow> bool \<times> BinaryWriter" where
  "WriteBytes value w =
     (case CanWrite (length value) w of (ok, w) \<Rightarrow>
        if \<not> ok then (False, w) else writer_SetSuccess (copy_span value w))"

definition WriteLengthPrefixedBytes16 :: "byte list \<Rightarrow> BinaryWriter \<Rightarrow> bool \<times> BinaryWriter" where
  "WriteLengthPrefixedBytes16 value w =
     (if length value > 65535 then writer_SetError Ser_LengthOverflow w
      else case CanWrite 2 w of (ok, w) \<Rightarrow>
        if \<not> ok then (False, w)
        else if length value > writer_remaining w - 2 then writer_SetError Ser_BufferTooSmall w
        else writer_SetSuccess (copy_span value
          (WriteIntegral (object_bytes native_endian 2
             (HostToNetwork16 native_endian (word_of_nat (length value)))) w)))"

definition WriteLengthPrefixedBytes32 :: "byte list \<Rightarrow> BinaryWriter \<Rightarrow> bool \<times> BinaryWriter" where
  "WriteLengthPrefixedBytes32 value w =
     (if length value > 4294967295 then writer_SetError Ser_LengthOverflow w
      else case CanWrite 4 w of (ok, w) \<Rightarrow>
        if \<not> ok then (False, w)
        else if length value > writer_remaining w - 4 then writer_SetError Ser_BufferTooSmall w
        else writer_SetSuccess (copy_span value
          (WriteIntegral (object_bytes native_endian 4
             (HostToNetwork32 native_endian (word_of_nat (length value)))) w)))"

definition WriteString16 :: "string \<Rightarrow> BinaryWriter \<Rightarrow> bool \<times> BinaryWriter" where
  "WriteString16 value w = WriteLengthPrefixedBytes16 (bytes_of_string value) w"

section \<open>BinaryReader\<close>

definition reader_remaining :: "BinaryReader \<Rightarrow> nat" where
  "reader_remaining r = length (br_buffer r) - br_offset r"

definition reader_SetError ::
    "SerializationErrorCode \<Rightarrow> 'v ptr \<Rightarrow> BinaryReader \<Rightarrow> bool \<times> 'v ptr \<times> BinaryReader" where
  "reader_SetError error_code value r = (False, value, r\<lparr>br_error := error_code\<rparr>)"

definition reader_SetSuccess :: "'v ptr \<Rightarrow> BinaryReader \<Rightarrow> bool \<times> 'v ptr \<times> BinaryReader" where
  "reader_SetSuccess value r = (True, value, r\<lparr>br_error := Ser_None\<rparr>)"

definition CanRead :: "nat \<Rightarrow> BinaryReader \<Rightarrow> bool \<times> BinaryReader" where
  "CanRead sz r =
     (if sz > reader_remaining r then (False, r\<lparr>br_error := Ser_BufferTooSmall\<rparr>) else (True, r))"

definition subspan :: "BinaryReader \<Rightarrow> nat \<Rightarrow> byte list" where
  "subspan r sz = take sz (drop (br_offset r) (br_buffer r))"

definition PeekIntegral16 :: "BinaryReader \<Rightarrow> u16" where
  "PeekIntegral16 r = NetworkToHost16 native_endian (object_word native_endian (subspan r 2))"

definition PeekIntegral32 :: "BinaryReader \<Rightarrow> u32" where
  "PeekIntegral32 r = NetworkToHost32 native_endian (object_word native_endian (subspan r 4))"

definition PeekIntegral64 :: "BinaryReader \<Rightarrow> u64" where
  "PeekIntegral64 r = NetworkToHost64 native_endian (object_word native_endian (subspan r 8))"

definition ReadUInt8 :: "u8 ptr \<Rightarrow> BinaryReader \<Rightarrow> bool \<times> u8 ptr \<times> BinaryReader" where
  "ReadUInt8 value r =
     (if value = None then reader_SetError Ser_InvalidArgument value r
      else case CanRead 1 r of (ok, r) \<Rightarrow>
        if \<not> ok then (False, value, r)
        else reader_SetSuccess (Some (br_buffer r ! br_offset r)) (r\<lparr>br_offset := br_offset r + 1\<rparr>))"

definition ReadUInt16 :: "u16 ptr \<Rightarrow> BinaryReader \<Rightarrow> bool \<times> u16 ptr \<times> BinaryReader" where
  "ReadUInt16 value r =
     (if value = None then reader_SetError Ser_InvalidArgument value r
      else case CanRead 2 r of (ok, r) \<Rightarrow>
        if \<not> ok then (False, value, r)
        else reader_SetSuccess (Some (PeekIntegral16 r)) (r\<lparr>br_offset := br_offset r + 2\<rparr>))"

definition ReadUInt32 :: "u32 ptr \<Rightarrow> BinaryReader \<Rightarrow> bool \<times> u32 ptr \<times> BinaryReader" where
  "ReadUInt32 value r =
     (if value = None then reader_SetError Ser_InvalidArgument value r
      else case CanRead 4 r of (ok, r) \<Rightarrow>
        if \<not> ok then (False, value, r)
        else reader_SetSuccess (Some (PeekIntegral32 r)) (r\<lparr>br_offset := br_offset r + 4\<rparr>))"

definition ReadUInt64 :: "u64 ptr \<Rightarrow> BinaryReader \<Rightarrow> bool \<times> u64 ptr \<times> BinaryReader" where
  "ReadUInt64 value r =
     (if value = None then reader_SetError Ser_InvalidArgument value r
      else case CanRead 8 r of (ok, r) \<Rightarrow>
        if \<not> ok then (False, value, r)
        else reader_SetSuccess (Some (PeekIntegral64 r)) (r\<lparr>br_offset := br_offset r + 8\<rparr>))"

definition ReadInt32 :: "i32 ptr \<Rightarrow> BinaryReader \<Rightarrow> bool \<times> i32 ptr \<times> BinaryReader" where
  "ReadInt32 value r =
     (if value = None then reader_SetError Ser_InvalidArgument value r
      else case CanRead 4 r of (ok, r) \<Rightarrow>
        if \<not> ok then (False, value, r)
        else reader_SetSuccess (Some (PeekIntegral32 r)) (r\<lparr>br_offset := br_offset r + 4\<rparr>))"

definition ReadBool :: "bool ptr \<Rightarrow> BinaryReader \<Rightarrow> bool \<times> bool ptr \<times> BinaryReader" where
  "ReadBool value r =
     (if value = None then reader_SetError Ser_InvalidArgument value r
      else case CanRead 1 r of (ok, r) \<Rightarrow>
        if \<not> ok then (False, value, r)
        else let raw_value = br_buffer r ! br_offset r in
        if raw_value > 1 then reader_SetError Ser_InvalidBoolValue value r
        else reader_SetSuccess (Some (raw_value = 1)) (r\<lparr>br_offset := br_offset r + 1\<rparr>))"

definition ReadBytes :: "nat \<Rightarrow> byte list ptr \<Rightarrow> BinaryReader \<Rightarrow> bool \<times> byte list ptr \<times> BinaryReader" where
  "ReadBytes sz value r =
     (if value = None then reader_SetError Ser_InvalidArgument value r
      else case CanRead sz r of (ok, r) \<Rightarrow>
        if \<not> ok then (False, value, r)
        else reader_SetSuccess (Some (subspan r sz)) (r\<lparr>br_offset := br_offset r + sz\<rparr>))"

definition ReadLengthPrefixedBytes16 ::
    "byte list ptr \<Rightarrow> BinaryReader \<Rightarrow> bool \<times> byte list ptr \<times> BinaryReader" where
  "ReadLengthPrefixedBytes16 value r =
     (if value = None then reader_SetError Ser_InvalidArgument value r
      else case CanRead 2 r of (ok, r) \<Rightarrow>
        if \<not> ok then (False, value, r)
        else let len = unat (PeekIntegral16 r) in
        if len > reader_remaining r - 2 then reader_SetError Ser_BufferTooSmall value r
        else let r = r\<lparr>br_offset := br_offset r + 2\<rparr> in
          reader_SetSuccess (Some (subspan r len)) (r\<lparr>br_offset := br_offset r + len\<rparr>))"

definition ReadLengthPrefixedBytes32 ::
    "byte list ptr \<Rightarrow> BinaryReader \<Rightarrow> bool \<times> byte list ptr \<times> BinaryReader" where
  "ReadLengthPrefixedBytes32 value r =
     (if value = None then reader_SetError Ser_InvalidArgument value r
      else case CanRead 4 r of (ok, r) \<Rightarrow>
        if \<not> ok then (False, value, r)
        else let len = unat (PeekIntegral32 r) in
        if len > reader_remaining r - 4 then reader_SetError Ser_BufferTooSmall value r
        else let r = r\<lparr>br_offset := br_offset r + 4\<rparr> in
          reader_SetSuccess (Some (subspan r len)) (r\<lparr>br_offset := br_offset r + len\<rparr>))"

definition ReadString16 :: "string ptr \<Rightarrow> BinaryReader \<Rightarrow> bool \<times> string ptr \<times> BinaryReader" where
  "ReadString16 value r =
     (if value = None then reader_SetError Ser_InvalidArgument value r
      else case ReadLengthPrefixedBytes16 (Some []) r of (ok, bytes, r) \<Rightarrow>
        if \<not> ok then (False, value, r)
        else reader_SetSuccess (map_option string_of_bytes bytes) r)"

section \<open>Effects of the operations\<close>

text \<open>
  \<open>put_bytes\<close> is the effect of a successful write and \<open>advance\<close> that of a successful read;
  \<open>unread\<close> is what a reader has still to deliver.
\<close>

definition put_bytes :: "byte list \<Rightarrow> BinaryWriter \<Rightarrow> BinaryWriter" where
  "put_bytes bs w =
     w\<lparr>bw_buffer := memcpy_at (bw_offset w) bs (bw_buffer w),
       bw_offset := bw_offset w + length bs, bw_error := Ser_None\<rparr>"

definition unread :: "BinaryReader \<Rightarrow> byte list" where
  "unread r = drop (br_offset r) (br_buffer r)"

definition advance :: "nat \<Rightarrow> BinaryReader \<Rightarrow> BinaryReader" where
  "advance n r = r\<lparr>br_offset := br_offset r + n, br_error := Ser_None\<rparr>"

lemma put_bytes_put_bytes [simp]:
  "length bs + length cs \<le> writer_remaining w \<Longrightarrow> put_bytes cs (put_bytes bs w) = put_bytes (bs @ cs) w"
  by (simp add: put_bytes_def writer_remaining_def memcpy_at_append_room add.assoc)

lemma remaining_put_bytes [simp]:
  "length bs \<le> writer_remaining w \<Longrightarrow> writer_remaining (put_bytes bs w) = writer_remaining w - length bs"
  by (simp add: put_bytes_def writer_remaining_def length_memcpy_at_room)

lemma buffer_put_bytes_new [simp]:
  "bw_buffer (put_bytes bs (new_BinaryWriter buf)) = bs @ drop (length bs) buf"
  by (simp add: put_bytes_def new_BinaryWriter_def memcpy_at_0)

lemma remaining_new_BinaryWriter [simp]: "writer_remaining (new_BinaryWriter buf) = length buf"
  by (simp add: new_BinaryWriter_def writer_remaining_def)

lemma buffer_error_update [simp]: "bw_buffer (w\<lparr>bw_error := e\<rparr>) = bw_buffer w"
  by simp

lemma length_buffer_put_bytes [simp]:
  "length bs \<le> writer_remaining w \<Longrightarrow> length (bw_buffer (put_bytes bs w)) = length (bw_buffer w)"
  by (simp add: put_bytes_def writer_remaining_def length_memcpy_at_room)

lemma reader_remaining_unread: "reader_remaining r = length (unread r)"
  by (simp add: reader_remaining_def unread_def)

lemma subspan_unread: "subspan r n = take n (unread r)"
  by (simp add: subspan_def unread_def)

lemma unread_new_BinaryReader [simp]: "unread (new_BinaryReader buf) = buf"
  by (simp add: unread_def new_BinaryReader_def)

lemma unread_advance [simp]: "unread (advance n r) = drop n (unread r)"
  by (simp add: unread_def advance_def add.commute)

lemma advance_advance [simp]: "advance m (advance n r) = advance (n + m) r"
  by (simp add: advance_def add.assoc)

lemma unread_nth: "0 < length (unread r) \<Longrightarrow> br_buffer r ! br_offset r = hd (unread r)"
  by (simp add: unread_def hd_drop_conv_nth)

lemma be_bytes_1: "be_bytes (Suc 0) (b :: u8) = [b]"
  by (simp add: be_bytes_def)

section \<open>Formats of the primitives\<close>

definition enc_u8 :: "u8 \<Rightarrow> byte list" where "enc_u8 v = [v]"
definition enc_u16 :: "u16 \<Rightarrow> byte list" where "enc_u16 v = be_bytes 2 v"
definition enc_u32 :: "u32 \<Rightarrow> byte list" where "enc_u32 v = be_bytes 4 v"
definition enc_u64 :: "u64 \<Rightarrow> byte list" where "enc_u64 v = be_bytes 8 v"
definition enc_bool :: "bool \<Rightarrow> byte list" where "enc_bool v = [if v then 1 else 0]"

definition enc_bytes16 :: "byte list \<Rightarrow> byte list" where
  "enc_bytes16 bs = be_bytes 2 (word_of_nat (length bs) :: u16) @ bs"

definition enc_bytes32 :: "byte list \<Rightarrow> byte list" where
  "enc_bytes32 bs = be_bytes 4 (word_of_nat (length bs) :: u32) @ bs"

definition enc_str16 :: "string \<Rightarrow> byte list" where
  "enc_str16 s = enc_bytes16 (bytes_of_string s)"

definition fits16 :: "'a list \<Rightarrow> bool" where "fits16 xs \<longleftrightarrow> length xs \<le> 65535"
definition fits32 :: "'a list \<Rightarrow> bool" where "fits32 xs \<longleftrightarrow> length xs \<le> 4294967295"

lemma length_enc [simp]:
  "length (enc_u8 v8) = 1" "length (enc_u16 v16) = 2" "length (enc_u32 v32) = 4"
  "length (enc_u64 v64) = 8" "length (enc_bool b) = 1"
  "length (enc_bytes16 bs) = 2 + length bs" "length (enc_bytes32 bs) = 4 + length bs"
  "length (enc_str16 s) = 2 + length s"
  by (simp_all add: enc_u8_def enc_u16_def enc_u32_def enc_u64_def enc_bool_def enc_bytes16_def
      enc_bytes32_def enc_str16_def)

lemma unat_word_of_nat_u16: "n \<le> 65535 \<Longrightarrow> unat (word_of_nat n :: u16) = n"
  by (simp add: unat_of_nat)

lemma unat_word_of_nat_u32: "n \<le> 4294967295 \<Longrightarrow> unat (word_of_nat n :: u32) = n"
  by (simp add: unat_of_nat)

lemma be_word_take_be_bytes:
  "be_word (take 2 (be_bytes 2 v16 @ bs)) = (v16 :: u16)"
  "be_word (take 4 (be_bytes 4 v32 @ bs)) = (v32 :: u32)"
  "be_word (take 8 (be_bytes 8 v64 @ bs)) = (v64 :: u64)"
  by (simp_all add: be_word_be_bytes)

lemma split_be_bytes:
  "2 \<le> length bs \<Longrightarrow> bs = be_bytes 2 (be_word (take 2 bs) :: u16) @ drop 2 bs"
  "4 \<le> length bs \<Longrightarrow> bs = be_bytes 4 (be_word (take 4 bs) :: u32) @ drop 4 bs"
  "8 \<le> length bs \<Longrightarrow> bs = be_bytes 8 (be_word (take 8 bs) :: u64) @ drop 8 bs"
  by (simp_all add: be_bytes_be_word)

section \<open>The operations by their effects\<close>

lemmas writer_defs =
  CanWrite_def writer_SetError_def writer_SetSuccess_def WriteIntegral_def copy_span_def
  object_bytes_HostToNetwork

lemmas reader_defs =
  CanRead_def reader_SetError_def reader_SetSuccess_def reader_remaining_unread subspan_unread

lemma WriteUInt_effect:
  "WriteUInt8 v8 w = (if 1 \<le> writer_remaining w then (True, put_bytes (enc_u8 v8) w)
     else (False, w\<lparr>bw_error := Ser_BufferTooSmall\<rparr>))"
  "WriteUInt16 v16 w = (if 2 \<le> writer_remaining w then (True, put_bytes (enc_u16 v16) w)
     else (False, w\<lparr>bw_error := Ser_BufferTooSmall\<rparr>))"
  "WriteUInt32 v32 w = (if 4 \<le> writer_remaining w then (True, put_bytes (enc_u32 v32) w)
     else (False, w\<lparr>bw_error := Ser_BufferTooSmall\<rparr>))"
  "WriteUInt64 v64 w = (if 8 \<le> writer_remaining w then (True, put_bytes (enc_u64 v64) w)
     else (False, w\<lparr>bw_error := Ser_BufferTooSmall\<rparr>))"
  "WriteInt32 v32 w = (if 4 \<le> writer_remaining w then (True, put_bytes (enc_u32 v32) w)
     else (False, w\<lparr>bw_error := Ser_BufferTooSmall\<rparr>))"
  by (auto simp: WriteUInt8_def WriteUInt16_def WriteUInt32_def WriteUInt64_def WriteInt32_def
      writer_defs put_bytes_def enc_u8_def enc_u16_def enc_u32_def enc_u64_def be_bytes_1)

lemma WriteBool_effect:
  "WriteBool b w = (if 1 \<le> writer_remaining w then (True, put_bytes (enc_bool b) w)
     else (False, w\<lparr>bw_error := Ser_BufferTooSmall\<rparr>))"
  by (simp add: WriteBool_def WriteUInt_effect enc_bool_def enc_u8_def)

lemma WriteBytes_effect:
  "WriteBytes bs w = (if length bs \<le> writer_remaining w then (True, put_bytes bs w)
     else (False, w\<lparr>bw_error := Ser_BufferTooSmall\<rparr>))"
  by (auto simp: WriteBytes_def writer_defs put_bytes_def)

lemma prefixed_copy:
  "length obj + length v \<le> writer_remaining w \<Longrightarrow>
   writer_SetSuccess (copy_span v (WriteIntegral obj w)) = (True, put_bytes (obj @ v) w)"
  by (simp add: writer_SetSuccess_def copy_span_def WriteIntegral_def put_bytes_def
      writer_remaining_def memcpy_at_append_room add.assoc)

lemma WriteLengthPrefixedBytes16_effect:
  "WriteLengthPrefixedBytes16 bs w =
     (if \<not> fits16 bs then (False, w\<lparr>bw_error := Ser_LengthOverflow\<rparr>)
      else if length (enc_bytes16 bs) \<le> writer_remaining w then (True, put_bytes (enc_bytes16 bs) w)
      else (False, w\<lparr>bw_error := Ser_BufferTooSmall\<rparr>))"
  by (auto simp: WriteLengthPrefixedBytes16_def CanWrite_def writer_SetError_def fits16_def
      enc_bytes16_def object_bytes_HostToNetwork prefixed_copy)

lemma WriteLengthPrefixedBytes32_effect:
  "WriteLengthPrefixedBytes32 bs w =
     (if \<not> fits32 bs then (False, w\<lparr>bw_error := Ser_LengthOverflow\<rparr>)
      else if length (enc_bytes32 bs) \<le> writer_remaining w then (True, put_bytes (enc_bytes32 bs) w)
      else (False, w\<lparr>bw_error := Ser_BufferTooSmall\<rparr>))"
  by (auto simp: WriteLengthPrefixedBytes32_def CanWrite_def writer_SetError_def fits32_def
      enc_bytes32_def object_bytes_HostToNetwork prefixed_copy)

text \<open>Reads, as functions of the bytes still unread.\<close>

lemma ReadUInt_effect:
  "ReadUInt8 (Some x8) r =
     (if unread r \<noteq> [] then (True, Some (hd (unread r)), advance 1 r)
      else (False, Some x8, r\<lparr>br_error := Ser_BufferTooSmall\<rparr>))"
  "ReadUInt16 (Some x16) r =
     (if 2 \<le> length (unread r) then (True, Some (be_word (take 2 (unread r))), advance 2 r)
      else (False, Some x16, r\<lparr>br_error := Ser_BufferTooSmall\<rparr>))"
  "ReadUInt32 (Some x32) r =
     (if 4 \<le> length (unread r) then (True, Some (be_word (take 4 (unread r))), advance 4 r)
      else (False, Some x32, r\<lparr>br_error := Ser_BufferTooSmall\<rparr>))"
  "ReadUInt64 (Some x64) r =
     (if 8 \<le> length (unread r) then (True, Some (be_word (take 8 (unread r))), advance 8 r)
      else (False, Some x64, r\<lparr>br_error := Ser_BufferTooSmall\<rparr>))"
  "ReadInt32 (Some x32) r =
     (if 4 \<le> length (unread r) then (True, Some (be_word (take 4 (unread r))), advance 4 r)
      else (False, Some x32, r\<lparr>br_error := Ser_BufferTooSmall\<rparr>))"
  by (auto simp: ReadUInt8_def ReadUInt16_def ReadUInt32_def ReadUInt64_def ReadInt32_def reader_defs
      PeekIntegral16_def PeekIntegral32_def PeekIntegral64_def NetworkToHost16_object_word
      NetworkToHost32_object_word NetworkToHost64_object_word advance_def unread_nth)

lemma ReadBool_effect:
  "ReadBool (Some x) r =
     (if unread r = [] then (False, Some x, r\<lparr>br_error := Ser_BufferTooSmall\<rparr>)
      else if hd (unread r) > 1 then (False, Some x, r\<lparr>br_error := Ser_InvalidBoolValue\<rparr>)
      else (True, Some (hd (unread r) = 1), advance 1 r))"
  by (auto simp: ReadBool_def reader_defs advance_def unread_nth Let_def)

lemma ReadBytes_effect:
  "ReadBytes n (Some x) r =
     (if n \<le> length (unread r) then (True, Some (take n (unread r)), advance n r)
      else (False, Some x, r\<lparr>br_error := Ser_BufferTooSmall\<rparr>))"
  by (auto simp: ReadBytes_def reader_defs advance_def)

text \<open>A length-prefixed read: too short, or the length announced and that many bytes.\<close>

lemma unread_offset_update [simp]:
  "unread (r\<lparr>br_offset := br_offset r + n\<rparr>) = drop n (unread r)"
  by (simp add: unread_def add.commute)

lemma unread_offset_update_2 [simp]:
  "unread (r\<lparr>br_offset := Suc (Suc (br_offset r))\<rparr>) = drop 2 (unread r)"
  using unread_offset_update[of r 2] by simp

lemma ReadLengthPrefixedBytes16_effect:
  "ReadLengthPrefixedBytes16 (Some x) r =
     (let bs = unread r; n = unat (be_word (take 2 bs) :: u16) in
      if 2 \<le> length bs \<and> n \<le> length bs - 2 then (True, Some (take n (drop 2 bs)), advance (2 + n) r)
      else (False, Some x, r\<lparr>br_error := Ser_BufferTooSmall\<rparr>))"
  by (auto simp: ReadLengthPrefixedBytes16_def reader_defs PeekIntegral16_def
      NetworkToHost16_object_word advance_def Let_def)

lemma ReadLengthPrefixedBytes32_effect:
  "ReadLengthPrefixedBytes32 (Some x) r =
     (let bs = unread r; n = unat (be_word (take 4 bs) :: u32) in
      if 4 \<le> length bs \<and> n \<le> length bs - 4 then (True, Some (take n (drop 4 bs)), advance (4 + n) r)
      else (False, Some x, r\<lparr>br_error := Ser_BufferTooSmall\<rparr>))"
  by (auto simp: ReadLengthPrefixedBytes32_def reader_defs PeekIntegral32_def
      NetworkToHost32_object_word advance_def Let_def)

lemma ReadString16_effect:
  "ReadString16 (Some x) r =
     (case ReadLengthPrefixedBytes16 (Some []) r of (ok, bytes, r') \<Rightarrow>
        if ok then (True, map_option string_of_bytes bytes, r') else (False, Some x, r'))"
  by (auto simp: ReadString16_def ReadLengthPrefixedBytes16_effect Let_def reader_SetSuccess_def
      advance_def)

lemma Read_null:
  "ReadUInt8 None r = (False, None, r\<lparr>br_error := Ser_InvalidArgument\<rparr>)"
  "ReadUInt16 None r = (False, None, r\<lparr>br_error := Ser_InvalidArgument\<rparr>)"
  "ReadUInt32 None r = (False, None, r\<lparr>br_error := Ser_InvalidArgument\<rparr>)"
  "ReadUInt64 None r = (False, None, r\<lparr>br_error := Ser_InvalidArgument\<rparr>)"
  "ReadInt32 None r = (False, None, r\<lparr>br_error := Ser_InvalidArgument\<rparr>)"
  "ReadBool None r = (False, None, r\<lparr>br_error := Ser_InvalidArgument\<rparr>)"
  "ReadLengthPrefixedBytes16 None r = (False, None, r\<lparr>br_error := Ser_InvalidArgument\<rparr>)"
  "ReadLengthPrefixedBytes32 None r = (False, None, r\<lparr>br_error := Ser_InvalidArgument\<rparr>)"
  "ReadString16 None r = (False, None, r\<lparr>br_error := Ser_InvalidArgument\<rparr>)"
  by (simp_all add: ReadUInt8_def ReadUInt16_def ReadUInt32_def ReadUInt64_def ReadInt32_def
      ReadBool_def ReadLengthPrefixedBytes16_def ReadLengthPrefixedBytes32_def ReadString16_def
      reader_SetError_def)

section \<open>The contract of a wire value\<close>

text \<open>
  \<open>wire_value enc fits wr rd\<close>: the write operation \<open>wr\<close> appends the format \<open>enc v\<close> of a
  value that fits, or fails without touching the buffer; the read operation \<open>rd\<close> succeeds
  exactly on input that starts with the format of some value that fits, delivers that value
  and moves past it; a failed read leaves the variable and the position alone; a null output
  pointer is an invalid argument.
\<close>

locale wire_value =
  fixes enc :: "'v \<Rightarrow> byte list"
    and fits :: "'v \<Rightarrow> bool"
    and wr :: "'v \<Rightarrow> BinaryWriter \<Rightarrow> bool \<times> BinaryWriter"
    and rd :: "'v ptr \<Rightarrow> BinaryReader \<Rightarrow> bool \<times> 'v ptr \<times> BinaryReader"
  assumes write_fits:
      "fits v \<Longrightarrow> wr v w =
         (if length (enc v) \<le> writer_remaining w then (True, put_bytes (enc v) w)
          else (False, w\<lparr>bw_error := Ser_BufferTooSmall\<rparr>))"
    and write_unfit: "\<not> fits v \<Longrightarrow> wr v w = (False, w\<lparr>bw_error := Ser_LengthOverflow\<rparr>)"
    and read_ok:
      "fits v \<Longrightarrow> unread r = enc v @ bs \<Longrightarrow> rd (Some x) r = (True, Some v, advance (length (enc v)) r)"
    and read_only:
      "rd (Some x) r = (True, p, r') \<Longrightarrow> \<exists>v bs. fits v \<and> unread r = enc v @ bs"
    and read_fail:
      "rd (Some x) r = (False, p, r') \<Longrightarrow>
         p = Some x \<and> (\<exists>e. e \<noteq> Ser_None \<and> r' = r\<lparr>br_error := e\<rparr>)"
    and read_null: "rd None r = (False, None, r\<lparr>br_error := Ser_InvalidArgument\<rparr>)"
begin

lemma write_True_iff:
  "wr v w = (True, w') \<longleftrightarrow>
     fits v \<and> length (enc v) \<le> writer_remaining w \<and> w' = put_bytes (enc v) w"
  by (cases "fits v") (auto simp: write_fits write_unfit)

lemma read_iff:
  "rd (Some x) r = (True, p, r') \<longleftrightarrow>
     (\<exists>v bs. fits v \<and> unread r = enc v @ bs \<and> p = Some v \<and> r' = advance (length (enc v)) r)"
proof
  assume rd: "rd (Some x) r = (True, p, r')"
  from read_only [OF rd] obtain v bs where v: "fits v" "unread r = enc v @ bs" by blast
  with rd read_ok [OF v] show
    "\<exists>v bs. fits v \<and> unread r = enc v @ bs \<and> p = Some v \<and> r' = advance (length (enc v)) r"
    by auto
next
  assume "\<exists>v bs. fits v \<and> unread r = enc v @ bs \<and> p = Some v \<and> r' = advance (length (enc v)) r"
  then show "rd (Some x) r = (True, p, r')" using read_ok by blast
qed

text \<open>The format is self-delimiting: no format of a value starts that of another.\<close>

lemma enc_prefix_free:
  assumes "fits v" "fits v'" "enc v @ bs = enc v' @ bs'"
  shows "v = v' \<and> bs = bs'"
proof -
  let ?r = "new_BinaryReader (enc v @ bs)"
  have "rd (Some v) ?r = (True, Some v, advance (length (enc v)) ?r)"
    by (rule read_ok [OF assms(1)]) simp
  moreover have "rd (Some v) ?r = (True, Some v', advance (length (enc v')) ?r)"
    by (rule read_ok [OF assms(2)]) (simp add: assms(3))
  ultimately have "v = v'" by simp
  with assms(3) show ?thesis by simp
qed

text \<open>What was written at the start of a buffer is what a reader of that buffer delivers first.\<close>

lemma read_back:
  assumes "wr v (new_BinaryWriter buf) = (True, w')"
  shows "rd (Some x) (new_BinaryReader (bw_buffer w')) =
    (True, Some v, advance (length (enc v)) (new_BinaryReader (bw_buffer w')))"
  using assms by (auto simp: write_True_iff intro: read_ok)

lemma write_keeps_length: "length (bw_buffer (snd (wr v w))) = length (bw_buffer w)"
  by (cases "fits v") (simp_all add: write_fits write_unfit)

end

lemma hd_bool: "\<not> (1 :: u8) < b \<Longrightarrow> b = 0 \<or> b = 1"
  by unat_arith

interpretation u8: wire_value enc_u8 "\<lambda>_. True" WriteUInt8 ReadUInt8
proof
  fix x r p r'
  assume "ReadUInt8 (Some x) r = (True, p, r')"
  then have "unread r = enc_u8 (hd (unread r)) @ tl (unread r)"
    by (auto simp: ReadUInt_effect enc_u8_def split: if_splits)
  then show "\<exists>v bs. True \<and> unread r = enc_u8 v @ bs" by blast
qed (auto simp: WriteUInt_effect ReadUInt_effect enc_u8_def Read_null
    split: if_splits)

interpretation u16: wire_value enc_u16 "\<lambda>_. True" WriteUInt16 ReadUInt16
proof
  fix x r p r'
  assume "ReadUInt16 (Some x) r = (True, p, r')"
  then have "2 \<le> length (unread r)" by (simp add: ReadUInt_effect split: if_splits)
  then show "\<exists>v bs. True \<and> unread r = enc_u16 v @ bs"
    unfolding enc_u16_def using split_be_bytes(1) by blast
qed (auto simp: WriteUInt_effect ReadUInt_effect enc_u16_def be_word_take_be_bytes Read_null
    be_word_be_bytes split: if_splits)

interpretation u32: wire_value enc_u32 "\<lambda>_. True" WriteUInt32 ReadUInt32
proof
  fix x r p r'
  assume "ReadUInt32 (Some x) r = (True, p, r')"
  then have "4 \<le> length (unread r)" by (simp add: ReadUInt_effect split: if_splits)
  then show "\<exists>v bs. True \<and> unread r = enc_u32 v @ bs"
    unfolding enc_u32_def using split_be_bytes(2) by blast
qed (auto simp: WriteUInt_effect ReadUInt_effect enc_u32_def be_word_take_be_bytes Read_null
    be_word_be_bytes split: if_splits)

interpretation i32: wire_value enc_u32 "\<lambda>_. True" WriteInt32 ReadInt32
proof
  fix x r p r'
  assume "ReadInt32 (Some x) r = (True, p, r')"
  then have "4 \<le> length (unread r)" by (simp add: ReadUInt_effect split: if_splits)
  then show "\<exists>v bs. True \<and> unread r = enc_u32 v @ bs"
    unfolding enc_u32_def using split_be_bytes(2) by blast
qed (auto simp: WriteUInt_effect ReadUInt_effect enc_u32_def be_word_take_be_bytes Read_null
    be_word_be_bytes split: if_splits)

interpretation u64: wire_value enc_u64 "\<lambda>_. True" WriteUInt64 ReadUInt64
proof
  fix x r p r'
  assume "ReadUInt64 (Some x) r = (True, p, r')"
  then have "8 \<le> length (unread r)" by (simp add: ReadUInt_effect split: if_splits)
  then show "\<exists>v bs. True \<and> unread r = enc_u64 v @ bs"
    unfolding enc_u64_def using split_be_bytes(3) by blast
qed (auto simp: WriteUInt_effect ReadUInt_effect enc_u64_def be_word_take_be_bytes Read_null
    be_word_be_bytes split: if_splits)

interpretation boolean: wire_value enc_bool "\<lambda>_. True" WriteBool ReadBool
proof
  fix x r p r'
  assume "ReadBool (Some x) r = (True, p, r')"
  then have "unread r = enc_bool (hd (unread r) = 1) @ tl (unread r)"
    by (auto simp: ReadBool_effect enc_bool_def neq_Nil_conv split: if_splits dest: hd_bool)
  then show "\<exists>v bs. True \<and> unread r = enc_bool v @ bs" by blast
qed (auto simp: WriteBool_effect ReadBool_effect enc_bool_def Read_null
    split: if_splits)

text \<open>The length prefix announces exactly the bytes that follow.\<close>

lemma enc_bytes16_split:
  assumes "2 \<le> length bs" and "unat (be_word (take 2 bs) :: u16) \<le> length bs - 2"
  defines "n \<equiv> unat (be_word (take 2 bs) :: u16)"
  shows "fits16 (take n (drop 2 bs))" and "bs = enc_bytes16 (take n (drop 2 bs)) @ drop (2 + n) bs"
proof -
  have n: "length (take n (drop 2 bs)) = n" using assms by simp
  have "n < 2 ^ LENGTH(16)" unfolding n_def by (rule unsigned_less)
  with n show "fits16 (take n (drop 2 bs))" by (simp add: fits16_def)
  have "bs = be_bytes 2 (be_word (take 2 bs) :: u16) @ drop 2 bs"
    by (rule split_be_bytes(1) [OF assms(1)])
  also have "drop 2 bs = take n (drop 2 bs) @ drop (2 + n) bs"
    by (metis append_take_drop_id drop_drop add.commute)
  finally show "bs = enc_bytes16 (take n (drop 2 bs)) @ drop (2 + n) bs"
    unfolding enc_bytes16_def n by (simp add: n_def)
qed

lemma enc_bytes32_split:
  assumes "4 \<le> length bs" and "unat (be_word (take 4 bs) :: u32) \<le> length bs - 4"
  defines "n \<equiv> unat (be_word (take 4 bs) :: u32)"
  shows "fits32 (take n (drop 4 bs))" and "bs = enc_bytes32 (take n (drop 4 bs)) @ drop (4 + n) bs"
proof -
  have n: "length (take n (drop 4 bs)) = n" using assms by simp
  have "n < 2 ^ LENGTH(32)" unfolding n_def by (rule unsigned_less)
  with n show "fits32 (take n (drop 4 bs))" by (simp add: fits32_def)
  have "bs = be_bytes 4 (be_word (take 4 bs) :: u32) @ drop 4 bs"
    by (rule split_be_bytes(2) [OF assms(1)])
  also have "drop 4 bs = take n (drop 4 bs) @ drop (4 + n) bs"
    by (metis append_take_drop_id drop_drop add.commute)
  finally show "bs = enc_bytes32 (take n (drop 4 bs)) @ drop (4 + n) bs"
    unfolding enc_bytes32_def n by (simp add: n_def)
qed

lemma be_word_enc_bytes:
  "fits16 v \<Longrightarrow> unat (be_word (take 2 (enc_bytes16 v)) :: u16) = length v"
  "fits32 v \<Longrightarrow> unat (be_word (take 4 (enc_bytes32 v)) :: u32) = length v"
  by (simp_all add: enc_bytes16_def enc_bytes32_def be_word_be_bytes fits16_def fits32_def
      unat_word_of_nat_u16 unat_word_of_nat_u32)

lemma drop_enc_bytes:
  "drop 2 (enc_bytes16 v) = v" "drop 4 (enc_bytes32 v) = v"
  by (simp_all add: enc_bytes16_def enc_bytes32_def)

interpretation bytes16: wire_value enc_bytes16 fits16 WriteLengthPrefixedBytes16 ReadLengthPrefixedBytes16
proof
  fix x r p r'
  assume "ReadLengthPrefixedBytes16 (Some x) r = (True, p, r')"
  then have "2 \<le> length (unread r)" "unat (be_word (take 2 (unread r)) :: u16) \<le> length (unread r) - 2"
    by (simp_all add: ReadLengthPrefixedBytes16_effect Let_def split: if_splits)
  from enc_bytes16_split [OF this] show "\<exists>v bs. fits16 v \<and> unread r = enc_bytes16 v @ bs" by blast
next
  fix v r bs x
  assume "fits16 v" "unread r = enc_bytes16 v @ bs"
  then show "ReadLengthPrefixedBytes16 (Some x) r = (True, Some v, advance (length (enc_bytes16 v)) r)"
    unfolding ReadLengthPrefixedBytes16_effect Let_def
    by (simp add: be_word_enc_bytes drop_enc_bytes)
qed (auto simp: WriteLengthPrefixedBytes16_effect ReadLengthPrefixedBytes16_effect Let_def Read_null
    split: if_splits)

interpretation bytes32: wire_value enc_bytes32 fits32 WriteLengthPrefixedBytes32 ReadLengthPrefixedBytes32
proof
  fix x r p r'
  assume "ReadLengthPrefixedBytes32 (Some x) r = (True, p, r')"
  then have "4 \<le> length (unread r)" "unat (be_word (take 4 (unread r)) :: u32) \<le> length (unread r) - 4"
    by (simp_all add: ReadLengthPrefixedBytes32_effect Let_def split: if_splits)
  from enc_bytes32_split [OF this] show "\<exists>v bs. fits32 v \<and> unread r = enc_bytes32 v @ bs" by blast
next
  fix v r bs x
  assume "fits32 v" "unread r = enc_bytes32 v @ bs"
  then show "ReadLengthPrefixedBytes32 (Some x) r = (True, Some v, advance (length (enc_bytes32 v)) r)"
    unfolding ReadLengthPrefixedBytes32_effect Let_def
    by (simp add: be_word_enc_bytes drop_enc_bytes)
qed (auto simp: WriteLengthPrefixedBytes32_effect ReadLengthPrefixedBytes32_effect Let_def Read_null
    split: if_splits)

lemma fits16_bytes_of_string [simp]: "fits16 (bytes_of_string s) = fits16 s"
  by (simp add: fits16_def)

interpretation string16: wire_value enc_str16 fits16 WriteString16 ReadString16
proof
  fix v w
  show "fits16 v \<Longrightarrow> WriteString16 v w =
      (if length (enc_str16 v) \<le> writer_remaining w then (True, put_bytes (enc_str16 v) w)
       else (False, w\<lparr>bw_error := Ser_BufferTooSmall\<rparr>))"
    using bytes16.write_fits[of "bytes_of_string v"] by (simp add: WriteString16_def enc_str16_def)
  show "\<not> fits16 v \<Longrightarrow> WriteString16 v w = (False, w\<lparr>bw_error := Ser_LengthOverflow\<rparr>)"
    using bytes16.write_unfit[of "bytes_of_string v"] by (simp add: WriteString16_def)
next
  fix v r bs x
  assume "fits16 v" "unread r = enc_str16 v @ bs"
  then show "ReadString16 (Some x) r = (True, Some v, advance (length (enc_str16 v)) r)"
    using bytes16.read_ok[of "bytes_of_string v" r bs] by (simp add: ReadString16_effect enc_str16_def)
next
  fix x r p r'
  assume "ReadString16 (Some x) r = (True, p, r')"
  then obtain q where "ReadLengthPrefixedBytes16 (Some []) r = (True, q, r')"
    by (auto simp: ReadString16_effect split: prod.splits if_splits)
  from bytes16.read_only [OF this] obtain b bs where "fits16 b" "unread r = enc_bytes16 b @ bs" by blast
  then have "fits16 (string_of_bytes b) \<and> unread r = enc_str16 (string_of_bytes b) @ bs"
    by (simp add: enc_str16_def fits16_def)
  then show "\<exists>v bs. fits16 v \<and> unread r = enc_str16 v @ bs" by blast
next
  fix x r p r'
  assume "ReadString16 (Some x) r = (False, p, r')"
  then obtain q where "ReadLengthPrefixedBytes16 (Some []) r = (False, q, r')" "p = Some x"
    by (auto simp: ReadString16_effect split: prod.splits if_splits)
  then show "p = Some x \<and> (\<exists>e. e \<noteq> Ser_None \<and> r' = r\<lparr>br_error := e\<rparr>)"
    using bytes16.read_fail by blast
qed (simp add: Read_null)

section \<open>Sequences of calls stay inside the span\<close>

datatype write_call =
    Do_WriteUInt8 u8 | Do_WriteUInt16 u16 | Do_WriteUInt32 u32 | Do_WriteUInt64 u64 | Do_WriteInt32 i32
  | Do_WriteBool bool | Do_WriteBytes "byte list" | Do_WriteLengthPrefixedBytes16 "byte list"
  | Do_WriteLengthPrefixedBytes32 "byte list" | Do_WriteString16 string

fun run_write :: "write_call \<Rightarrow> BinaryWriter \<Rightarrow> bool \<times> BinaryWriter" where
  "run_write (Do_WriteUInt8 v) = WriteUInt8 v"
| "run_write (Do_WriteUInt16 v) = WriteUInt16 v"
| "run_write (Do_WriteUInt32 v) = WriteUInt32 v"
| "run_write (Do_WriteUInt64 v) = WriteUInt64 v"
| "run_write (Do_WriteInt32 v) = WriteInt32 v"
| "run_write (Do_WriteBool v) = WriteBool v"
| "run_write (Do_WriteBytes v) = WriteBytes v"
| "run_write (Do_WriteLengthPrefixedBytes16 v) = WriteLengthPrefixedBytes16 v"
| "run_write (Do_WriteLengthPrefixedBytes32 v) = WriteLengthPrefixedBytes32 v"
| "run_write (Do_WriteString16 v) = WriteString16 v"

text \<open>A call appends bytes that fit, or only sets the error.\<close>

lemma run_write_cases:
  obtains (ok) bs where "length bs \<le> writer_remaining w" "run_write c w = (True, put_bytes bs w)"
  | (fail) e where "e \<noteq> Ser_None" "run_write c w = (False, w\<lparr>bw_error := e\<rparr>)"
proof -
  have "(\<exists>bs. length bs \<le> writer_remaining w \<and> run_write c w = (True, put_bytes bs w)) \<or>
    (\<exists>e. e \<noteq> Ser_None \<and> run_write c w = (False, w\<lparr>bw_error := e\<rparr>))"
    by (cases c) (auto simp: WriteUInt_effect WriteBool_effect WriteBytes_effect
        WriteLengthPrefixedBytes16_effect WriteLengthPrefixedBytes32_effect WriteString16_def
        intro: exI [of _ "enc_u8 v" for v] exI [of _ "enc_u16 v" for v] exI [of _ "enc_u32 v" for v]
          exI [of _ "enc_u64 v" for v] exI [of _ "enc_bool v" for v] exI [of _ "enc_bytes16 v" for v]
          exI [of _ "enc_bytes32 v" for v] exI [of _ "enc_bytes16 (bytes_of_string v)" for v])
  with that show thesis by blast
qed

definition writer_in_span :: "byte list \<Rightarrow> BinaryWriter \<Rightarrow> bool" where
  "writer_in_span buffer w \<longleftrightarrow> length (bw_buffer w) = length buffer \<and> bw_offset w \<le> length buffer \<and>
     drop (bw_offset w) (bw_buffer w) = drop (bw_offset w) buffer"

lemma run_write_in_span: "writer_in_span buffer w \<Longrightarrow> writer_in_span buffer (snd (run_write c w))"
proof (cases rule: run_write_cases [of w c])
  case (ok bs)
  assume w: "writer_in_span buffer w"
  then have "bw_offset w + length bs \<le> length (bw_buffer w)"
    using ok(1) by (auto simp: writer_in_span_def writer_remaining_def)
  moreover have "drop (length bs) (drop (bw_offset w) (bw_buffer w)) = drop (length bs) (drop (bw_offset w) buffer)"
    using w by (simp add: writer_in_span_def)
  ultimately show ?thesis using w ok(2)
    by (simp add: writer_in_span_def put_bytes_def memcpy_at_def add.commute)
qed (simp add: writer_in_span_def)

text \<open>
  C13. No sequence of write calls, whatever values and lengths they are given and whether earlier
  calls failed or not, writes outside the span the writer was made for: the buffer keeps its
  length, the offset never passes its end, and every byte from the offset on is as it was.
\<close>

theorem writer_never_overruns:
  "let w = fold (\<lambda>c w. snd (run_write c w)) calls (new_BinaryWriter buffer) in
     length (bw_buffer w) = length buffer \<and> bw_offset w \<le> length buffer \<and>
     drop (bw_offset w) (bw_buffer w) = drop (bw_offset w) buffer"
proof -
  have "writer_in_span buffer w \<Longrightarrow> writer_in_span buffer (fold (\<lambda>c w. snd (run_write c w)) calls w)" for w
    by (induction calls arbitrary: w) (simp_all add: run_write_in_span)
  moreover have "writer_in_span buffer (new_BinaryWriter buffer)"
    by (simp add: writer_in_span_def new_BinaryWriter_def)
  ultimately show ?thesis by (simp add: writer_in_span_def Let_def)
qed

text \<open>The reads, each into a variable of its own or through a null pointer.\<close>

datatype read_call =
    Do_ReadUInt8 "u8 ptr" | Do_ReadUInt16 "u16 ptr" | Do_ReadUInt32 "u32 ptr" | Do_ReadUInt64 "u64 ptr"
  | Do_ReadInt32 "i32 ptr" | Do_ReadBool "bool ptr" | Do_ReadBytes nat "byte list ptr"
  | Do_ReadLengthPrefixedBytes16 "byte list ptr" | Do_ReadLengthPrefixedBytes32 "byte list ptr"
  | Do_ReadString16 "string ptr"

fun run_read :: "read_call \<Rightarrow> BinaryReader \<Rightarrow> bool \<times> BinaryReader" where
  "run_read (Do_ReadUInt8 p) r = (case ReadUInt8 p r of (ok, _, r') \<Rightarrow> (ok, r'))"
| "run_read (Do_ReadUInt16 p) r = (case ReadUInt16 p r of (ok, _, r') \<Rightarrow> (ok, r'))"
| "run_read (Do_ReadUInt32 p) r = (case ReadUInt32 p r of (ok, _, r') \<Rightarrow> (ok, r'))"
| "run_read (Do_ReadUInt64 p) r = (case ReadUInt64 p r of (ok, _, r') \<Rightarrow> (ok, r'))"
| "run_read (Do_ReadInt32 p) r = (case ReadInt32 p r of (ok, _, r') \<Rightarrow> (ok, r'))"
| "run_read (Do_ReadBool p) r = (case ReadBool p r of (ok, _, r') \<Rightarrow> (ok, r'))"
| "run_read (Do_ReadBytes n p) r = (case ReadBytes n p r of (ok, _, r') \<Rightarrow> (ok, r'))"
| "run_read (Do_ReadLengthPrefixedBytes16 p) r = (case ReadLengthPrefixedBytes16 p r of (ok, _, r') \<Rightarrow> (ok, r'))"
| "run_read (Do_ReadLengthPrefixedBytes32 p) r = (case ReadLengthPrefixedBytes32 p r of (ok, _, r') \<Rightarrow> (ok, r'))"
| "run_read (Do_ReadString16 p) r = (case ReadString16 p r of (ok, _, r') \<Rightarrow> (ok, r'))"

definition reader_in_span :: "byte list \<Rightarrow> BinaryReader \<Rightarrow> bool" where
  "reader_in_span buffer r \<longleftrightarrow> br_buffer r = buffer \<and> br_offset r \<le> length buffer"

text \<open>Every read of a value advances by the bytes of its format, or only sets the error.\<close>

context wire_value
begin

lemma read_in_span:
  assumes "reader_in_span buffer r" "rd p r = (ok, p', r')"
  shows "reader_in_span buffer r'"
proof (cases p)
  case None
  with assms show ?thesis by (auto simp: read_null reader_in_span_def)
next
  case (Some x)
  show ?thesis
  proof (cases ok)
    case True
    with assms(2) Some obtain v bs where "unread r = enc v @ bs" "r' = advance (length (enc v)) r"
      by (auto simp: read_iff)
    moreover from this have "length (enc v) \<le> length (br_buffer r) - br_offset r"
      by (metis le_add1 length_append length_drop unread_def)
    ultimately show ?thesis using assms(1) by (auto simp: reader_in_span_def advance_def)
  next
    case False
    with assms(2) Some have "rd (Some x) r = (False, p', r')" by simp
    from read_fail [OF this] assms(1) show ?thesis by (auto simp: reader_in_span_def)
  qed
qed

end

lemma ReadBytes_in_span:
  "reader_in_span buffer r \<Longrightarrow> ReadBytes n p r = (ok, p', r') \<Longrightarrow> reader_in_span buffer r'"
proof (cases p)
  case (Some x)
  assume "reader_in_span buffer r" "ReadBytes n p r = (ok, p', r')"
  with Some show ?thesis
    by (auto simp: ReadBytes_effect reader_in_span_def advance_def unread_def split: if_splits)
qed (auto simp: ReadBytes_def reader_SetError_def reader_in_span_def)

lemma run_read_in_span: "reader_in_span buffer r \<Longrightarrow> reader_in_span buffer (snd (run_read c r))"
  by (cases c) (auto split: prod.splits intro: u8.read_in_span u16.read_in_span u32.read_in_span
      u64.read_in_span i32.read_in_span boolean.read_in_span ReadBytes_in_span bytes16.read_in_span
      bytes32.read_in_span string16.read_in_span)

text \<open>
  C20. No sequence of read calls, with null or non-null output pointers, on any input bytes moves
  the reader past the end of its span or changes the bytes it reads from.
\<close>

theorem reader_never_overruns:
  "let r = fold (\<lambda>c r. snd (run_read c r)) calls (new_BinaryReader buffer) in
     br_buffer r = buffer \<and> br_offset r \<le> length buffer"
proof -
  have "reader_in_span buffer r \<Longrightarrow> reader_in_span buffer (fold (\<lambda>c r. snd (run_read c r)) calls r)" for r
    by (induction calls arbitrary: r) (simp_all add: run_read_in_span)
  moreover have "reader_in_span buffer (new_BinaryReader buffer)"
    by (simp add: reader_in_span_def new_BinaryReader_def)
  ultimately show ?thesis by (simp add: reader_in_span_def Let_def)
qed

text \<open>
  C26. A string that was written comes back: whenever \<^verbatim>\<open>WriteString16\<close> succeeds at the start of
  a buffer, \<^verbatim>\<open>ReadString16\<close> on that buffer delivers the same string and stops right behind it,
  and it fails with \<^verbatim>\<open>LengthOverflow\<close> for every string longer than 65535 bytes.
\<close>

theorem string16_roundtrip:
  "(fst (WriteString16 s (new_BinaryWriter buffer)) =
      (length s \<le> 65535 \<and> 2 + length s \<le> length buffer)) \<and>
   (fst (WriteString16 s (new_BinaryWriter buffer)) \<longrightarrow>
      ReadString16 (Some x) (new_BinaryReader (bw_buffer (snd (WriteString16 s (new_BinaryWriter buffer))))) =
      (True, Some s, advance (2 + length s)
        (new_BinaryReader (bw_buffer (snd (WriteString16 s (new_BinaryWriter buffer))))))) \<and>
   (65535 < length s \<longrightarrow> bw_error (snd (WriteString16 s (new_BinaryWriter buffer))) = Ser_LengthOverflow)"
proof -
  let ?w = "new_BinaryWriter buffer"
  have "WriteString16 s ?w = (True, w') \<Longrightarrow> ReadString16 (Some x) (new_BinaryReader (bw_buffer w')) =
      (True, Some s, advance (2 + length s) (new_BinaryReader (bw_buffer w')))" for w'
    using string16.read_back [of s buffer w' x] by simp
  then have "fst (WriteString16 s ?w) \<Longrightarrow>
      ReadString16 (Some x) (new_BinaryReader (bw_buffer (snd (WriteString16 s ?w)))) =
      (True, Some s, advance (2 + length s) (new_BinaryReader (bw_buffer (snd (WriteString16 s ?w)))))"
    by (metis prod.collapse)
  then show ?thesis
    using string16.write_fits [of s ?w] string16.write_unfit [of s ?w]
    by (cases "fits16 s") (auto simp: fits16_def)
qed

theorem string16_roundtrip_witness:
  "ReadString16 (Some []) (new_BinaryReader (bw_buffer (snd (WriteString16 ''ab'' (new_BinaryWriter [9, 9, 9, 9, 9]))))) =
   (True, Some ''ab'', advance 4 (new_BinaryReader [0, 2, 97, 98, 9]))"
proof -
  have "enc_str16 ''ab'' = [0, 2, 97, 98]" by code_simp
  then have "WriteString16 ''ab'' (new_BinaryWriter [9, 9, 9, 9, 9]) =
      (True, put_bytes [0, 2, 97, 98] (new_BinaryWriter [9, 9, 9, 9, 9]))"
    by (simp add: string16.write_fits fits16_def)
  with string16_roundtrip [of "''ab''" "[9, 9, 9, 9, 9]" "[]"] show ?thesis by simp
qed

end
