(* ===== verification/Codec.thy ===== *)
theory Codec
  imports BinarySerialization
begin

text \<open>
  The shared theory of the message codecs. Every codec of \<^verbatim>\<open>net/message\<close> writes a message
  with a short-circuit chain of writes and reads it back with a chain of reads into the fields
  of a parsed message. \<open>writes\<close> and \<open>reads\<close> are the compositional specifications of such
  chains; the locale \<open>message_codec\<close> is what a codec promises its callers.
\<close>

section \<open>Chains of writes\<close>

text \<open>
  \<open>writes f bs p\<close>: the step \<open>f\<close> appends \<open>bs\<close> when every field fits its length prefix (\<open>p\<close>)
  and there is room, and otherwise fails with a reason, never touching a byte outside the
  buffer.
\<close>

definition writes :: "(BinaryWriter \<Rightarrow> bool \<times> BinaryWriter) \<Rightarrow> byte list \<Rightarrow> bool \<Rightarrow> bool" where
  "writes f bs p \<longleftrightarrow>
     (\<forall>w. if p \<and> length bs \<le> writer_remaining w then f w = (True, put_bytes bs w)
          else \<exists>w'. f w = (False, w') \<and> length (bw_buffer w') = length (bw_buffer w) \<and>
            (bw_error w' = Ser_BufferTooSmall \<or> bw_error w' = Ser_LengthOverflow) \<and>
            (p \<longrightarrow> bw_error w' = Ser_BufferTooSmall))"

named_theorems writes_intros \<open>introduction rules for \<open>writes\<close>\<close>

lemma writesD_ok:
  "writes f bs p \<Longrightarrow> p \<Longrightarrow> length bs \<le> writer_remaining w \<Longrightarrow> f w = (True, put_bytes bs w)"
  unfolding writes_def by (drule spec [of _ w]) simp

lemma writesD_short:
  assumes "writes f bs p" "p" "writer_remaining w < length bs"
  obtains w' where "f w = (False, w')" "length (bw_buffer w') = length (bw_buffer w)"
    "bw_error w' = Ser_BufferTooSmall"
  using assms unfolding writes_def by (metis not_le)

lemma writesD_unfit:
  assumes "writes f bs p" "\<not> p"
  obtains w' where "f w = (False, w')" "length (bw_buffer w') = length (bw_buffer w)"
    "bw_error w' = Ser_BufferTooSmall \<or> bw_error w' = Ser_LengthOverflow"
  using assms unfolding writes_def by metis

lemma writes_True_iff:
  "writes f bs p \<Longrightarrow>
   f w = (True, w') \<longleftrightarrow> p \<and> length bs \<le> writer_remaining w \<and> w' = put_bytes bs w"
  unfolding writes_def by (drule spec [of _ w]) (auto split: if_splits)

lemma writes_cong: "writes f bs p \<Longrightarrow> bs = bs' \<Longrightarrow> p = p' \<Longrightarrow> writes f bs' p'"
  by simp

text \<open>
  An empty chain succeeds and leaves the writer alone, error code included: \<open>chain []\<close> is not
  a write. A one-element chain is its element, and a longer chain appends what its steps append.
\<close>

lemma chain_single: "chain [f] s = f s"
  by (cases "f s") auto

lemma writes_single [writes_intros]: "writes f bs p \<Longrightarrow> writes (chain [f]) bs p"
  by (simp add: writes_def chain_single del: chain.simps)

lemma writes_Cons [writes_intros]:
  assumes f: "writes f bs p" and fs: "writes (chain (g # gs)) cs q"
  shows "writes (chain (f # g # gs)) (bs @ cs) (p \<and> q)"
  unfolding writes_def
proof (intro allI)
  fix w
  let ?fail = "\<exists>w'. chain (f # g # gs) w = (False, w') \<and> length (bw_buffer w') = length (bw_buffer w) \<and>
      (bw_error w' = Ser_BufferTooSmall \<or> bw_error w' = Ser_LengthOverflow) \<and>
      (p \<and> q \<longrightarrow> bw_error w' = Ser_BufferTooSmall)"
  show "if (p \<and> q) \<and> length (bs @ cs) \<le> writer_remaining w
    then chain (f # g # gs) w = (True, put_bytes (bs @ cs) w) else ?fail"
  proof (cases "p \<and> length bs \<le> writer_remaining w")
    case True
    then have w1: "f w = (True, put_bytes bs w)" using f by (simp add: writesD_ok)
    then have step: "chain (f # g # gs) w = chain (g # gs) (put_bytes bs w)" by (rule chain_Cons_True)
    show ?thesis
    proof (cases "q \<and> length cs \<le> writer_remaining w - length bs")
      case True
      with \<open>p \<and> length bs \<le> writer_remaining w\<close>
      have "chain (g # gs) (put_bytes bs w) = (True, put_bytes cs (put_bytes bs w))"
        by (intro writesD_ok [OF fs]) simp_all
      with True \<open>p \<and> length bs \<le> writer_remaining w\<close> show ?thesis by (simp only: step) auto
    next
      case False
      with \<open>p \<and> length bs \<le> writer_remaining w\<close>
      have "\<not> (q \<and> length cs \<le> writer_remaining (put_bytes bs w))" by simp
      with fs obtain w' where "chain (g # gs) (put_bytes bs w) = (False, w')"
        "length (bw_buffer w') = length (bw_buffer (put_bytes bs w))"
        "bw_error w' = Ser_BufferTooSmall \<or> bw_error w' = Ser_LengthOverflow"
        "q \<longrightarrow> bw_error w' = Ser_BufferTooSmall"
        unfolding writes_def by meson
      with False \<open>p \<and> length bs \<le> writer_remaining w\<close> show ?thesis by (simp only: step) auto
    qed
  next
    case False
    with f obtain w' where "f w = (False, w')" "length (bw_buffer w') = length (bw_buffer w)"
      "bw_error w' = Ser_BufferTooSmall \<or> bw_error w' = Ser_LengthOverflow"
      "p \<longrightarrow> bw_error w' = Ser_BufferTooSmall"
      unfolding writes_def by meson
    with False show ?thesis by auto
  qed
qed

context wire_value
begin

lemma writes_wr: "writes (wr v) (enc v) (fits v)"
  unfolding writes_def
proof (intro allI)
  fix w
  show "if fits v \<and> length (enc v) \<le> writer_remaining w then wr v w = (True, put_bytes (enc v) w)
    else \<exists>w'. wr v w = (False, w') \<and> length (bw_buffer w') = length (bw_buffer w) \<and>
      (bw_error w' = Ser_BufferTooSmall \<or> bw_error w' = Ser_LengthOverflow) \<and>
      (fits v \<longrightarrow> bw_error w' = Ser_BufferTooSmall)"
    by (cases "fits v") (simp_all add: write_fits write_unfit)
qed

end

lemmas writes_prims [writes_intros] =
  u8.writes_wr u16.writes_wr u32.writes_wr u64.writes_wr i32.writes_wr boolean.writes_wr
  bytes16.writes_wr bytes32.writes_wr string16.writes_wr

section \<open>Chains of reads into a message\<close>

text \<open>
  \<open>read_into rd sel upd\<close> is \<^verbatim>\<open>reader.Read(&parsed.field)\<close>: the operation gets a pointer to
  the field and what it stores there becomes the field's value.
\<close>

definition read_into ::
    "('v ptr \<Rightarrow> BinaryReader \<Rightarrow> bool \<times> 'v ptr \<times> BinaryReader) \<Rightarrow> ('m \<Rightarrow> 'v) \<Rightarrow> (('v \<Rightarrow> 'v) \<Rightarrow> 'm \<Rightarrow> 'm) \<Rightarrow>
     BinaryReader \<times> 'm \<Rightarrow> bool \<times> BinaryReader \<times> 'm" where
  "read_into rd sel upd s =
     (case s of (r, m) \<Rightarrow>
      case rd (Some (sel m)) r of (ok, p, r') \<Rightarrow>
        (ok, r', case p of Some v \<Rightarrow> upd (\<lambda>_. v) m | None \<Rightarrow> m))"

text \<open>
  \<open>reads st R\<close>: the step \<open>st\<close> turns the message \<open>m\<close> into \<open>m'\<close> exactly when the unread input
  starts with bytes \<open>bs\<close> such that \<open>R m bs m'\<close>, and consumes those bytes; a failed step sets
  the reader's error.
\<close>

definition reads ::
    "(BinaryReader \<times> 'm \<Rightarrow> bool \<times> BinaryReader \<times> 'm) \<Rightarrow> ('m \<Rightarrow> byte list \<Rightarrow> 'm \<Rightarrow> bool) \<Rightarrow> bool" where
  "reads st R \<longleftrightarrow>
     (\<forall>r m. (\<forall>bs m' rest. R m bs m' \<longrightarrow> unread r = bs @ rest \<longrightarrow> st (r, m) = (True, advance (length bs) r, m')) \<and>
            (\<forall>s. st (r, m) = (True, s) \<longrightarrow> (\<exists>bs m' rest. R m bs m' \<and> unread r = bs @ rest)) \<and>
            (\<forall>r' m'. st (r, m) = (False, r', m') \<longrightarrow> br_error r' \<noteq> Ser_None))"

named_theorems reads_intros \<open>introduction rules for \<open>reads\<close>\<close>

lemma readsD_ok:
  "reads st R \<Longrightarrow> R m bs m' \<Longrightarrow> unread r = bs @ rest \<Longrightarrow> st (r, m) = (True, advance (length bs) r, m')"
  unfolding reads_def by blast

lemma readsD_fail: "reads st R \<Longrightarrow> st (r, m) = (False, r', m') \<Longrightarrow> br_error r' \<noteq> Ser_None"
  unfolding reads_def by blast

lemma readsE:
  assumes "reads st R" "st (r, m) = (True, s)"
  obtains bs m' rest where "R m bs m'" "unread r = bs @ rest" "s = (advance (length bs) r, m')"
proof -
  from assms obtain bs m' rest where *: "R m bs m'" "unread r = bs @ rest"
    unfolding reads_def by blast
  with assms readsD_ok [OF assms(1) *] that show thesis by simp
qed

lemma reads_True_iff:
  assumes "reads st R"
  shows "st (r, m) = (True, s) \<longleftrightarrow>
    (\<exists>bs m' rest. R m bs m' \<and> unread r = bs @ rest \<and> s = (advance (length bs) r, m'))"
  using readsE [OF assms] readsD_ok [OF assms] by metis

lemma reads_cong: "reads st R \<Longrightarrow> (\<And>m bs m'. R m bs m' = R' m bs m') \<Longrightarrow> reads st R'"
  by (simp add: reads_def)

lemma reads_single [reads_intros]: "reads st R \<Longrightarrow> reads (chain [st]) R"
  unfolding reads_def by (simp add: chain_single del: chain.simps)

lemma reads_Cons [reads_intros]:
  assumes s: "reads s R" and ss: "reads (chain (t # ts)) S"
  shows "reads (chain (s # t # ts)) (\<lambda>m bs m'. \<exists>m1 b1 b2. bs = b1 @ b2 \<and> R m b1 m1 \<and> S m1 b2 m')"
  unfolding reads_def
proof (intro allI conjI impI)
  fix r m bs m' rest
  assume "\<exists>m1 b1 b2. bs = b1 @ b2 \<and> R m b1 m1 \<and> S m1 b2 m'" and u: "unread r = bs @ rest"
  then obtain m1 b1 b2 where R: "R m b1 m1" and S: "S m1 b2 m'" and bs: "bs = b1 @ b2" by blast
  have "s (r, m) = (True, advance (length b1) r, m1)"
    using u bs by (intro readsD_ok [OF s R]) simp
  moreover have "chain (t # ts) (advance (length b1) r, m1) = (True, advance (length b2) (advance (length b1) r), m')"
    using u bs by (intro readsD_ok [OF ss S]) simp
  ultimately show "chain (s # t # ts) (r, m) = (True, advance (length bs) r, m')"
    using bs by (simp add: chain_Cons_True del: chain.simps)
next
  fix r m x
  assume "chain (s # t # ts) (r, m) = (True, x)"
  then obtain y where y: "s (r, m) = (True, y)" "chain (t # ts) y = (True, x)"
    by (auto simp: chain_Cons_iff simp del: chain.simps)
  from readsE [OF s y(1)] obtain b1 m1 rest1 where 1: "R m b1 m1" "unread r = b1 @ rest1"
    "y = (advance (length b1) r, m1)" .
  from y(2) 1(3) have "chain (t # ts) (advance (length b1) r, m1) = (True, x)" by simp
  from readsE [OF ss this] obtain b2 m2 rest2 where 2: "S m1 b2 m2"
    "unread (advance (length b1) r) = b2 @ rest2" .
  from 1 2 have "unread r = (b1 @ b2) @ rest2" by simp
  with 1(1) 2(1) show "\<exists>bs m' rest. (\<exists>m1 b1 b2. bs = b1 @ b2 \<and> R m b1 m1 \<and> S m1 b2 m') \<and> unread r = bs @ rest"
    by blast
next
  fix r m r' m'
  assume c: "chain (s # t # ts) (r, m) = (False, r', m')"
  show "br_error r' \<noteq> Ser_None"
  proof (cases "fst (s (r, m))")
    case True
    then obtain r1 m1 where "s (r, m) = (True, r1, m1)" by (metis prod.collapse)
    with c have "chain (t # ts) (r1, m1) = (False, r', m')" by (simp add: chain_Cons_True del: chain.simps)
    then show ?thesis by (rule readsD_fail [OF ss])
  next
    case False
    then obtain y where "s (r, m) = (False, y)" by (metis prod.collapse)
    with c have "s (r, m) = (False, r', m')" by (simp add: chain_Cons_False del: chain.simps)
    then show ?thesis by (rule readsD_fail [OF s])
  qed
qed

context wire_value
begin

lemma reads_rd:
  "reads (read_into rd sel upd) (\<lambda>m bs m'. \<exists>v. bs = enc v \<and> m' = upd (\<lambda>_. v) m \<and> fits v)"
  unfolding reads_def
proof (intro allI conjI impI)
  fix r m bs m' rest
  assume "\<exists>v. bs = enc v \<and> m' = upd (\<lambda>_. v) m \<and> fits v" "unread r = bs @ rest"
  then show "read_into rd sel upd (r, m) = (True, advance (length bs) r, m')"
    using read_ok by (fastforce simp: read_into_def)
next
  fix r m s
  assume "read_into rd sel upd (r, m) = (True, s)"
  then obtain p r' where "rd (Some (sel m)) r = (True, p, r')"
    by (auto simp: read_into_def split: prod.splits)
  from read_only [OF this]
  show "\<exists>bs m' rest. (\<exists>v. bs = enc v \<and> m' = upd (\<lambda>_. v) m \<and> fits v) \<and> unread r = bs @ rest" by blast
next
  fix r m r' m'
  assume "read_into rd sel upd (r, m) = (False, r', m')"
  then obtain p where "rd (Some (sel m)) r = (False, p, r')"
    by (auto simp: read_into_def split: prod.splits)
  from read_fail [OF this] show "br_error r' \<noteq> Ser_None" by auto
qed

end

lemmas reads_prims [reads_intros] =
  u8.reads_rd u16.reads_rd u32.reads_rd u64.reads_rd i32.reads_rd boolean.reads_rd
  bytes16.reads_rd bytes32.reads_rd string16.reads_rd

section \<open>Sequences of fallible phases\<close>

text \<open>
  \<open>until_error none [f, g, \<dots>]\<close> is the sequence
  \<^verbatim>\<open>r = f(); if (r != None) return r; r = g(); if (r != None) return r; ...\<close>, and
  \<open>checked map_error err f\<close> is \<^verbatim>\<open>if (!f()) return MapSerializationError(x.error());\<close>.
\<close>

primrec until_error :: "'e \<Rightarrow> ('s \<Rightarrow> 'e \<times> 's) list \<Rightarrow> 's \<Rightarrow> 'e \<times> 's" where
  "until_error none [] s = (none, s)"
| "until_error none (f # fs) s =
     (case f s of (e, s') \<Rightarrow> if e \<noteq> none then (e, s') else until_error none fs s')"

lemma until_error_single: "until_error none [f] s = f s"
  by (cases "f s") auto

definition checked ::
    "(SerializationErrorCode \<Rightarrow> 'e) \<Rightarrow> ('s \<Rightarrow> SerializationErrorCode) \<Rightarrow> 'e \<Rightarrow>
     ('s \<Rightarrow> bool \<times> 's) \<Rightarrow> 's \<Rightarrow> 'e \<times> 's" where
  "checked map_error err none f s =
     (case f s of (ok, s') \<Rightarrow> if \<not> ok then (map_error (err s'), s') else (none, s'))"

text \<open>\<open>decode_into f sel upd\<close> is \<^verbatim>\<open>DecodePart(&reader, &parsed.part)\<close>.\<close>

definition decode_into ::
    "(BinaryReader \<Rightarrow> 'v ptr \<Rightarrow> 'e \<times> BinaryReader \<times> 'v ptr) \<Rightarrow> ('m \<Rightarrow> 'v) \<Rightarrow> (('v \<Rightarrow> 'v) \<Rightarrow> 'm \<Rightarrow> 'm) \<Rightarrow>
     BinaryReader \<times> 'm \<Rightarrow> 'e \<times> BinaryReader \<times> 'm" where
  "decode_into f sel upd s =
     (case s of (r, m) \<Rightarrow>
      case f r (Some (sel m)) of (e, r', p) \<Rightarrow>
        (e, r', case p of Some v \<Rightarrow> upd (\<lambda>_. v) m | None \<Rightarrow> m))"

text \<open>A validation of the message parsed so far, and the check that nothing is left to read.\<close>

definition check_message :: "('m \<Rightarrow> 'e) \<Rightarrow> BinaryReader \<times> 'm \<Rightarrow> 'e \<times> BinaryReader \<times> 'm" where
  "check_message v s = (v (snd s), s)"

definition check_reader :: "(BinaryReader \<Rightarrow> 'e) \<Rightarrow> BinaryReader \<times> 'm \<Rightarrow> 'e \<times> BinaryReader \<times> 'm" where
  "check_reader v s = (v (fst s), s)"

subsection \<open>Encoding phases\<close>

definition encodes :: "'e \<Rightarrow> (BinaryWriter \<Rightarrow> 'e \<times> BinaryWriter) \<Rightarrow> byte list \<Rightarrow> bool \<Rightarrow> bool" where
  "encodes none f bs p \<longleftrightarrow>
     (\<forall>w. if p \<and> length bs \<le> writer_remaining w then f w = (none, put_bytes bs w)
          else fst (f w) \<noteq> none \<and> length (bw_buffer (snd (f w))) = length (bw_buffer w))"

named_theorems encodes_intros \<open>introduction rules for \<open>encodes\<close>\<close>

lemma encodesD_ok:
  "encodes none f bs p \<Longrightarrow> p \<Longrightarrow> length bs \<le> writer_remaining w \<Longrightarrow> f w = (none, put_bytes bs w)"
  unfolding encodes_def by (drule spec [of _ w]) simp

lemma encodesD_fail:
  "encodes none f bs p \<Longrightarrow> \<not> (p \<and> length bs \<le> writer_remaining w) \<Longrightarrow>
     fst (f w) \<noteq> none \<and> length (bw_buffer (snd (f w))) = length (bw_buffer w)"
  unfolding encodes_def by (drule spec [of _ w]) (simp split: if_splits)

lemma encodes_none_iff:
  assumes "encodes none f bs p"
  shows "fst (f w) = none \<longleftrightarrow> p \<and> length bs \<le> writer_remaining w"
proof (cases "p \<and> length bs \<le> writer_remaining w")
  case True
  with encodesD_ok [OF assms] show ?thesis by simp
next
  case False
  with encodesD_fail [OF assms] show ?thesis by blast
qed

lemma encodes_keeps_length:
  assumes "encodes none f bs p"
  shows "length (bw_buffer (snd (f w))) = length (bw_buffer w)"
proof (cases "p \<and> length bs \<le> writer_remaining w")
  case True
  with encodesD_ok [OF assms] show ?thesis by simp
next
  case False
  with encodesD_fail [OF assms] show ?thesis by blast
qed

lemma encodes_cong: "encodes none f bs p \<Longrightarrow> bs = bs' \<Longrightarrow> p = p' \<Longrightarrow> encodes none f bs' p'"
  by simp

lemma encodes_checked [encodes_intros]:
  assumes f: "writes f bs p" and e: "map_error Ser_BufferTooSmall \<noteq> none" "map_error Ser_LengthOverflow \<noteq> none"
  shows "encodes none (checked map_error bw_error none f) bs p"
  unfolding encodes_def
proof (intro allI)
  fix w
  consider "p \<and> length bs \<le> writer_remaining w" | "\<not> (p \<and> length bs \<le> writer_remaining w)" by blast
  then show "if p \<and> length bs \<le> writer_remaining w
    then checked map_error bw_error none f w = (none, put_bytes bs w)
    else fst (checked map_error bw_error none f w) \<noteq> none \<and>
      length (bw_buffer (snd (checked map_error bw_error none f w))) = length (bw_buffer w)"
  proof cases
    case 1
    then have "f w = (True, put_bytes bs w)" by (simp add: writesD_ok [OF f])
    with 1 show ?thesis by (simp add: checked_def)
  next
    case 2
    with f obtain w' where "f w = (False, w')" "length (bw_buffer w') = length (bw_buffer w)"
      "bw_error w' = Ser_BufferTooSmall \<or> bw_error w' = Ser_LengthOverflow"
      unfolding writes_def by meson
    with 2 e show ?thesis by (auto simp: checked_def)
  qed
qed

lemma encodes_guard [encodes_intros]:
  assumes "encodes none f bs p"
  shows "encodes none (\<lambda>w. if e \<noteq> none then (e, w) else f w) bs (e = none \<and> p)"
  using assms unfolding encodes_def by auto

lemma encodes_single [encodes_intros]: "encodes none f bs p \<Longrightarrow> encodes none (until_error none [f]) bs p"
  by (simp add: encodes_def until_error_single del: until_error.simps)

lemma encodes_Cons [encodes_intros]:
  assumes f: "encodes none f bs p" and fs: "encodes none (until_error none (g # gs)) cs q"
  shows "encodes none (until_error none (f # g # gs)) (bs @ cs) (p \<and> q)"
  unfolding encodes_def
proof (intro allI)
  fix w
  let ?st = "until_error none (f # g # gs)"
  show "if (p \<and> q) \<and> length (bs @ cs) \<le> writer_remaining w then ?st w = (none, put_bytes (bs @ cs) w)
    else fst (?st w) \<noteq> none \<and> length (bw_buffer (snd (?st w))) = length (bw_buffer w)"
  proof (cases "p \<and> length bs \<le> writer_remaining w")
    case True
    then have step: "?st w = until_error none (g # gs) (put_bytes bs w)"
      by (subst until_error.simps(2)) (simp add: encodesD_ok [OF f] del: until_error.simps)
    show ?thesis
    proof (cases "q \<and> length cs \<le> writer_remaining w - length bs")
      case T: True
      with True have "until_error none (g # gs) (put_bytes bs w) = (none, put_bytes cs (put_bytes bs w))"
        by (intro encodesD_ok [OF fs]) simp_all
      with T True show ?thesis by (simp only: step) auto
    next
      case False
      with True have "\<not> (q \<and> length cs \<le> writer_remaining (put_bytes bs w))" by simp
      from encodesD_fail [OF fs this] True False show ?thesis
        by (simp only: step length_append length_buffer_put_bytes) auto
    qed
  next
    case False
    from encodesD_fail [OF f this] False show ?thesis by (auto split: prod.splits)
  qed
qed

text \<open>A loop over the elements of a list, with the phases that follow or precede it.\<close>

lemma encodes_loop:
  assumes g: "\<And>x. encodes none (g x) (e x) (p x)"
    and tail: "encodes none (until_error none (h # hs)) cs q"
  shows "encodes none (until_error none (map g xs @ h # hs)) (concat (map e xs) @ cs)
    ((\<forall>x\<in>set xs. p x) \<and> q)"
proof (induction xs)
  case Nil
  show ?case using tail by (simp del: until_error.simps)
next
  case (Cons x xs)
  obtain k ks where ks: "map g xs @ h # hs = k # ks" by (cases xs) auto
  from Cons have IH: "encodes none (until_error none (k # ks)) (concat (map e xs) @ cs) ((\<forall>x\<in>set xs. p x) \<and> q)"
    unfolding ks .
  from encodes_Cons [OF g [of x] IH] show ?case by (simp add: ks del: until_error.simps)
qed

lemma encodes_loop_end:
  assumes g: "\<And>x. encodes none (g x) (e x) (p x)" and f: "encodes none f bs q"
  shows "encodes none (until_error none (f # map g xs)) (bs @ concat (map e xs)) (q \<and> (\<forall>x\<in>set xs. p x))"
  using f
proof (induction xs arbitrary: f bs q)
  case Nil
  then show ?case by (simp add: encodes_single del: until_error.simps)
next
  case (Cons x xs)
  from encodes_Cons [OF Cons.prems Cons.IH [OF g [of x]]]
  show ?case by (simp del: until_error.simps)
qed

subsection \<open>Wire size computations\<close>

text \<open>
  \<^verbatim>\<open>AddWireSize\<close> and \<^verbatim>\<open>GetString16WireSize\<close>, which every codec with strings repeats for its
  own error codes: the running total is checked against the range of \<^verbatim>\<open>std::size_t\<close>.
\<close>

definition add_wire_size :: "'e \<Rightarrow> 'e \<Rightarrow> nat \<Rightarrow> nat \<Rightarrow> 'e \<times> nat" where
  "add_wire_size none overflow delta total_size =
     (if delta > size_max - total_size then (overflow, total_size) else (none, total_size + delta))"

definition string16_wire_size :: "'e \<Rightarrow> 'e \<Rightarrow> string \<Rightarrow> nat \<Rightarrow> 'e \<times> nat" where
  "string16_wire_size none overflow value wire_size =
     (if length value > 65535 then (overflow, wire_size) else (none, 2 + length value))"

text \<open>A field size is computed into a local variable and added to the total.\<close>

definition add_field :: "'e \<Rightarrow> 'e \<Rightarrow> 'e \<times> nat \<Rightarrow> nat \<Rightarrow> 'e \<times> nat" where
  "add_field none overflow field total_size =
     (case field of (e, field_wire_size) \<Rightarrow>
        if e \<noteq> none then (e, total_size) else add_wire_size none overflow field_wire_size total_size)"

definition sizes :: "'e \<Rightarrow> (nat \<Rightarrow> 'e \<times> nat) \<Rightarrow> nat \<Rightarrow> bool \<Rightarrow> bool" where
  "sizes none f n p \<longleftrightarrow>
     (\<forall>t \<le> size_max. if p \<and> t + n \<le> size_max then f t = (none, t + n) else fst (f t) \<noteq> none)"

named_theorems sizes_intros \<open>introduction rules for \<open>sizes\<close>\<close>

lemma sizesD: "sizes none f n p \<Longrightarrow> p \<Longrightarrow> t + n \<le> size_max \<Longrightarrow> f t = (none, t + n)"
  by (simp add: sizes_def)

lemma sizes_none_iff:
  "sizes none f n p \<Longrightarrow> t \<le> size_max \<Longrightarrow> fst (f t) = none \<longleftrightarrow> p \<and> t + n \<le> size_max"
  unfolding sizes_def by (drule spec [of _ t]) (auto split: if_splits)

lemma sizes_cong: "sizes none f n p \<Longrightarrow> n = n' \<Longrightarrow> p = p' \<Longrightarrow> sizes none f n' p'"
  by simp

lemma sizes_add [sizes_intros]: "overflow \<noteq> none \<Longrightarrow> sizes none (add_wire_size none overflow n) n True"
  by (auto simp: sizes_def add_wire_size_def)

lemma sizes_field:
  assumes "fst field = none \<longleftrightarrow> p" "p \<Longrightarrow> snd field = n" "overflow \<noteq> none"
  shows "sizes none (add_field none overflow field) n p"
  using assms by (cases field) (auto simp: sizes_def add_field_def add_wire_size_def)

lemma sizes_string [sizes_intros]:
  "overflow \<noteq> none \<Longrightarrow>
   sizes none (add_field none overflow (string16_wire_size none overflow s w)) (2 + length s) (fits16 s)"
  by (rule sizes_field) (simp_all add: string16_wire_size_def fits16_def not_less)

lemma sizes_Nil [sizes_intros]: "sizes none (until_error none []) 0 True"
  by (simp add: sizes_def)

lemma sizes_Cons [sizes_intros]:
  assumes f: "sizes none f n p" and fs: "sizes none (until_error none fs) k q"
  shows "sizes none (until_error none (f # fs)) (n + k) (p \<and> q)"
  unfolding sizes_def
proof (intro allI impI)
  fix t
  assume t: "t \<le> size_max"
  show "if (p \<and> q) \<and> t + (n + k) \<le> size_max then until_error none (f # fs) t = (none, t + (n + k))
    else fst (until_error none (f # fs) t) \<noteq> none"
  proof (cases "p \<and> t + n \<le> size_max")
    case True
    then have "until_error none (f # fs) t = until_error none fs (t + n)"
      using sizesD [OF f] by simp
    with True fs show ?thesis unfolding sizes_def by (simp add: add.assoc)
  next
    case False
    with f t have "fst (f t) \<noteq> none" unfolding sizes_def by simp
    with False show ?thesis by (auto split: prod.splits)
  qed
qed

lemma sizes_loop:
  assumes g: "\<And>x. sizes none (g x) (n x) (p x)" and tail: "sizes none (until_error none fs) k q"
  shows "sizes none (until_error none (map g xs @ fs)) (sum_list (map n xs) + k) ((\<forall>x\<in>set xs. p x) \<and> q)"
proof (induction xs)
  case Nil
  then show ?case using tail by simp
next
  case (Cons x xs)
  from sizes_Cons [OF g [of x] Cons] show ?case by (simp add: add.assoc conj_assoc del: until_error.simps)
qed

subsection \<open>Decoding phases\<close>

text \<open>
  \<open>decodes none st R\<close>: the phase turns \<open>m\<close> into \<open>m'\<close> exactly when it consumes bytes \<open>bs\<close> with
  \<open>R m bs m'\<close>; \<open>decodes_all\<close> says the same of a sequence of phases that ends with the check for
  trailing bytes and therefore consumes all of its input.
\<close>

definition decodes ::
    "'e \<Rightarrow> (BinaryReader \<times> 'm \<Rightarrow> 'e \<times> BinaryReader \<times> 'm) \<Rightarrow> ('m \<Rightarrow> byte list \<Rightarrow> 'm \<Rightarrow> bool) \<Rightarrow> bool" where
  "decodes none st R \<longleftrightarrow>
     (\<forall>r m. (\<forall>bs m' rest. R m bs m' \<longrightarrow> unread r = bs @ rest \<longrightarrow>
               (\<exists>r'. st (r, m) = (none, r', m') \<and> unread r' = rest)) \<and>
            (\<forall>r' m'. st (r, m) = (none, r', m') \<longrightarrow> (\<exists>bs. R m bs m' \<and> unread r = bs @ unread r')))"

definition decodes_all ::
    "'e \<Rightarrow> (BinaryReader \<times> 'm \<Rightarrow> 'e \<times> BinaryReader \<times> 'm) \<Rightarrow> ('m \<Rightarrow> byte list \<Rightarrow> 'm \<Rightarrow> bool) \<Rightarrow> bool" where
  "decodes_all none st R \<longleftrightarrow>
     (\<forall>r m m'. R m (unread r) m' \<longleftrightarrow> (\<exists>r'. st (r, m) = (none, r', m')))"

named_theorems decodes_intros \<open>introduction rules for \<open>decodes\<close> and \<open>decodes_all\<close>\<close>

lemma decodesD:
  "decodes none st R \<Longrightarrow> R m bs m' \<Longrightarrow> unread r = bs @ rest \<Longrightarrow>
     \<exists>r'. st (r, m) = (none, r', m') \<and> unread r' = rest"
  unfolding decodes_def by blast

lemma decodesE:
  assumes "decodes none st R" "st (r, m) = (none, r', m')"
  obtains bs where "R m bs m'" "unread r = bs @ unread r'"
  using assms unfolding decodes_def by blast

lemma decodes_cong: "decodes none st R \<Longrightarrow> (\<And>m bs m'. R m bs m' = R' m bs m') \<Longrightarrow> decodes none st R'"
  by (simp add: decodes_def)

lemma decodes_all_cong:
  "decodes_all none st R \<Longrightarrow> (\<And>m bs m'. R m bs m' = R' m bs m') \<Longrightarrow> decodes_all none st R'"
  by (simp add: decodes_all_def)

lemma decodes_checked [decodes_intros]:
  assumes st: "reads st R" and e: "\<And>x. x \<noteq> Ser_None \<Longrightarrow> map_error x \<noteq> none"
  shows "decodes none (checked map_error (\<lambda>s. br_error (fst s)) none st) R"
  unfolding decodes_def
proof (intro allI conjI impI)
  fix r m bs m' rest
  assume "R m bs m'" "unread r = bs @ rest"
  then have "st (r, m) = (True, advance (length bs) r, m')" by (rule readsD_ok [OF st])
  with \<open>unread r = bs @ rest\<close>
  show "\<exists>r'. checked map_error (\<lambda>s. br_error (fst s)) none st (r, m) = (none, r', m') \<and> unread r' = rest"
    by (simp add: checked_def)
next
  fix r m r' m'
  assume c: "checked map_error (\<lambda>s. br_error (fst s)) none st (r, m) = (none, r', m')"
  obtain ok r1 m1 where s: "st (r, m) = (ok, r1, m1)" by (metis prod_cases3)
  with c e have "ok" using readsD_fail [OF st] by (auto simp: checked_def split: if_splits)
  with s c have "st (r, m) = (True, r', m')" by (simp add: checked_def)
  from readsE [OF st this] obtain bs rest where "R m bs m'" "unread r = bs @ rest" "r' = advance (length bs) r"
    by auto
  then show "\<exists>bs. R m bs m' \<and> unread r = bs @ unread r'" by auto
qed

lemma decodes_Cons [decodes_intros]:
  assumes f: "decodes none f R" and fs: "decodes none (until_error none (g # gs)) S"
  shows "decodes none (until_error none (f # g # gs)) (\<lambda>m bs m'. \<exists>m1 b1 b2. bs = b1 @ b2 \<and> R m b1 m1 \<and> S m1 b2 m')"
  unfolding decodes_def
proof (intro allI conjI impI)
  fix r m bs m' rest
  assume "\<exists>m1 b1 b2. bs = b1 @ b2 \<and> R m b1 m1 \<and> S m1 b2 m'" and u: "unread r = bs @ rest"
  then obtain m1 b1 b2 where R: "R m b1 m1" and S: "S m1 b2 m'" and bs: "bs = b1 @ b2" by blast
  from u bs decodesD [OF f R, of r "b2 @ rest"] obtain r1
    where 1: "f (r, m) = (none, r1, m1)" "unread r1 = b2 @ rest" by auto
  from decodesD [OF fs S 1(2)] 1(1)
  show "\<exists>r'. until_error none (f # g # gs) (r, m) = (none, r', m') \<and> unread r' = rest" by auto
next
  fix r m r' m'
  assume c: "until_error none (f # g # gs) (r, m) = (none, r', m')"
  obtain e r1 m1 where s: "f (r, m) = (e, r1, m1)" by (metis prod_cases3)
  with c have 1: "f (r, m) = (none, r1, m1)" and 2: "until_error none (g # gs) (r1, m1) = (none, r', m')"
    by (auto split: if_splits)
  from decodesE [OF f 1] obtain b1 where b1: "R m b1 m1" "unread r = b1 @ unread r1" .
  from decodesE [OF fs 2] obtain b2 where b2: "S m1 b2 m'" "unread r1 = b2 @ unread r'" .
  from b1 b2 have "(\<exists>m1 ba bb. b1 @ b2 = ba @ bb \<and> R m ba m1 \<and> S m1 bb m') \<and> unread r = (b1 @ b2) @ unread r'"
    by auto
  then show "\<exists>bs. (\<exists>m1 b1 b2. bs = b1 @ b2 \<and> R m b1 m1 \<and> S m1 b2 m') \<and> unread r = bs @ unread r'" by blast
qed

lemma decodes_single [decodes_intros]: "decodes none f R \<Longrightarrow> decodes none (until_error none [f]) R"
  unfolding decodes_def until_error_single .

lemma decodes_all_Cons [decodes_intros]:
  assumes f: "decodes none f R" and fs: "decodes_all none (until_error none (g # gs)) S"
  shows "decodes_all none (until_error none (f # g # gs))
    (\<lambda>m bs m'. \<exists>m1 b1 b2. bs = b1 @ b2 \<and> R m b1 m1 \<and> S m1 b2 m')"
  unfolding decodes_all_def
proof (intro allI iffI)
  fix r m m'
  assume "\<exists>m1 b1 b2. unread r = b1 @ b2 \<and> R m b1 m1 \<and> S m1 b2 m'"
  then obtain m1 b1 b2 where R: "R m b1 m1" and S: "S m1 b2 m'" and u: "unread r = b1 @ b2" by blast
  from decodesD [OF f R u] obtain r1 where 1: "f (r, m) = (none, r1, m1)" "unread r1 = b2" by auto
  with S fs obtain r' where "until_error none (g # gs) (r1, m1) = (none, r', m')"
    unfolding decodes_all_def by blast
  with 1(1) show "\<exists>r'. until_error none (f # g # gs) (r, m) = (none, r', m')" by auto
next
  fix r m m'
  assume "\<exists>r'. until_error none (f # g # gs) (r, m) = (none, r', m')"
  then obtain r' where c: "until_error none (f # g # gs) (r, m) = (none, r', m')" by blast
  obtain e r1 m1 where s: "f (r, m) = (e, r1, m1)" by (metis prod_cases3)
  with c have 1: "f (r, m) = (none, r1, m1)" and 2: "until_error none (g # gs) (r1, m1) = (none, r', m')"
    by (auto split: if_splits)
  from decodesE [OF f 1] obtain b1 where b1: "R m b1 m1" "unread r = b1 @ unread r1" .
  from 2 fs have "S m1 (unread r1) m'" unfolding decodes_all_def by blast
  with b1 show "\<exists>m1 b1 b2. unread r = b1 @ b2 \<and> R m b1 m1 \<and> S m1 b2 m'" by blast
qed

lemma decodes_check [decodes_intros]:
  "decodes none (check_message v) (\<lambda>m bs m'. bs = [] \<and> m' = m \<and> v m = none)"
  by (auto simp: decodes_def check_message_def)

text \<open>
  The loop that reads \<open>n\<close> entries, each into a fresh variable, and appends them to a vector.
\<close>

primrec read_entries ::
    "'e \<Rightarrow> (BinaryReader \<Rightarrow> 'e \<times> BinaryReader \<times> 'v) \<Rightarrow> nat \<Rightarrow> 'v list \<Rightarrow> BinaryReader \<Rightarrow>
     'e \<times> BinaryReader \<times> 'v list" where
  "read_entries none g 0 acc r = (none, r, acc)"
| "read_entries none g (Suc n) acc r =
     (case g r of (e, r', v) \<Rightarrow>
        if e \<noteq> none then (e, r', acc) else read_entries none g n (acc @ [v]) r')"

lemma read_entries_ok:
  assumes g: "\<And>v r rest. p v \<Longrightarrow> unread r = enc v @ rest \<Longrightarrow> \<exists>r'. g r = (none, r', v) \<and> unread r' = rest"
    and "\<forall>v\<in>set vs. p v" "unread r = concat (map enc vs) @ rest"
  shows "\<exists>r'. read_entries none g (length vs) acc r = (none, r', acc @ vs) \<and> unread r' = rest"
  using assms(2,3)
proof (induction vs arbitrary: acc r)
  case Nil
  then show ?case by simp
next
  case (Cons v vs)
  then obtain r1 where "g r = (none, r1, v)" "unread r1 = concat (map enc vs) @ rest"
    using g [of v r "concat (map enc vs) @ rest"] by auto
  with Cons.IH [of r1 "acc @ [v]"] Cons.prems show ?case by simp
qed

lemma read_entries_only:
  assumes g: "\<And>r r' v. g r = (none, r', v) \<Longrightarrow> p v \<and> unread r = enc v @ unread r'"
    and "read_entries none g n acc r = (none, r', xs)"
  shows "\<exists>vs. xs = acc @ vs \<and> length vs = n \<and> (\<forall>v\<in>set vs. p v) \<and> unread r = concat (map enc vs) @ unread r'"
  using assms(2)
proof (induction n arbitrary: acc r)
  case 0
  then show ?case by simp
next
  case (Suc n)
  then obtain r1 v where v: "g r = (none, r1, v)" "read_entries none g n (acc @ [v]) r1 = (none, r', xs)"
    by (auto split: prod.splits if_splits)
  from Suc.IH [OF v(2)] obtain vs where "xs = (acc @ [v]) @ vs" "length vs = n" "\<forall>v\<in>set vs. p v"
    "unread r1 = concat (map enc vs) @ unread r'" by blast
  with g [OF v(1)] have "xs = acc @ (v # vs) \<and> length (v # vs) = Suc n \<and> (\<forall>v\<in>set (v # vs). p v) \<and>
      unread r = concat (map enc (v # vs)) @ unread r'" by simp
  then show ?case by blast
qed

lemma decodes_entries:
  assumes st: "decodes none st R" and R: "\<And>bs v. R init bs v \<longleftrightarrow> p v \<and> bs = enc v"
    and loop: "\<And>r m. loop (r, m) = (case read_entries none (\<lambda>r. st (r, init)) (count m) (sel m) r of
      (e, r', xs) \<Rightarrow> (e, r', upd (\<lambda>_. xs) m))"
  shows "decodes none loop (\<lambda>m bs m'. \<exists>vs. bs = concat (map enc vs) \<and> m' = upd (\<lambda>_. sel m @ vs) m \<and>
      length vs = count m \<and> (\<forall>v\<in>set vs. p v))"
  unfolding decodes_def
proof (intro allI conjI impI)
  fix r m bs m' rest
  assume "\<exists>vs. bs = concat (map enc vs) \<and> m' = upd (\<lambda>_. sel m @ vs) m \<and> length vs = count m \<and> (\<forall>v\<in>set vs. p v)"
    and u: "unread r = bs @ rest"
  then obtain vs where vs: "bs = concat (map enc vs)" "m' = upd (\<lambda>_. sel m @ vs) m" "length vs = count m"
    "\<forall>v\<in>set vs. p v" by blast
  have "\<exists>r'. st (r, init) = (none, r', v) \<and> unread r' = rest" if "p v" "unread r = enc v @ rest" for v r rest
    using decodesD [OF st, of init "enc v" v r rest] that R by blast
  then have "\<exists>r'. read_entries none (\<lambda>r. st (r, init)) (length vs) (sel m) r = (none, r', sel m @ vs) \<and> unread r' = rest"
    using vs(4) u unfolding vs(1)
    by (rule read_entries_ok [where g = "\<lambda>r. st (r, init)" and p = p and enc = enc])
  with vs show "\<exists>r'. loop (r, m) = (none, r', m') \<and> unread r' = rest" by (auto simp: loop)
next
  fix r m r' m'
  assume "loop (r, m) = (none, r', m')"
  then obtain xs where xs: "read_entries none (\<lambda>r. st (r, init)) (count m) (sel m) r = (none, r', xs)"
    and m': "m' = upd (\<lambda>_. xs) m" by (auto simp: loop split: prod.splits)
  have "p v \<and> unread r = enc v @ unread r'" if "st (r, init) = (none, r', v)" for r r' v
    using decodesE [OF st that] R by metis
  with xs obtain vs where "xs = sel m @ vs" "length vs = count m"
    "\<forall>v\<in>set vs. p v" "unread r = concat (map enc vs) @ unread r'"
    using read_entries_only [where g = "\<lambda>r. st (r, init)" and p = p and enc = enc] by blast
  with m' show "\<exists>bs. (\<exists>vs. bs = concat (map enc vs) \<and> m' = upd (\<lambda>_. sel m @ vs) m \<and>
      length vs = count m \<and> (\<forall>v\<in>set vs. p v)) \<and> unread r = bs @ unread r'" by auto
qed

text \<open>The closing checks: validations of the parsed message and no byte left to read.\<close>

definition ends :: "'e \<Rightarrow> (BinaryReader \<times> 'm \<Rightarrow> 'e \<times> BinaryReader \<times> 'm) \<Rightarrow> ('m \<Rightarrow> bool) \<Rightarrow> bool" where
  "ends none st V \<longleftrightarrow>
     (\<forall>r m r' m'. st (r, m) = (none, r', m') \<longleftrightarrow> unread r = [] \<and> V m \<and> r' = r \<and> m' = m)"

lemma ends_trailing:
  assumes "\<And>r. v r = none \<longleftrightarrow> reader_remaining r = 0"
  shows "ends none (until_error none [check_reader v]) (\<lambda>_. True)"
  unfolding ends_def until_error_single check_reader_def
  by (auto simp: assms reader_remaining_unread)

lemma ends_check:
  assumes "ends none (until_error none gs) V"
  shows "ends none (until_error none (check_message v # gs)) (\<lambda>m. v m = none \<and> V m)"
  using assms unfolding ends_def by (auto simp: check_message_def)

lemma decodes_all_last:
  assumes f: "decodes none f R" and gs: "ends none (until_error none gs) V"
  shows "decodes_all none (until_error none (f # gs)) (\<lambda>m bs m'. R m bs m' \<and> V m')"
  unfolding decodes_all_def
proof (intro allI iffI)
  fix r m m'
  assume R: "R m (unread r) m' \<and> V m'"
  then obtain r1 where "f (r, m) = (none, r1, m')" "unread r1 = []"
    using decodesD [OF f, of m "unread r" m' r "[]"] by auto
  with R gs show "\<exists>r'. until_error none (f # gs) (r, m) = (none, r', m')" by (auto simp: ends_def)
next
  fix r m m'
  assume "\<exists>r'. until_error none (f # gs) (r, m) = (none, r', m')"
  then obtain r' where c: "until_error none (f # gs) (r, m) = (none, r', m')" by blast
  obtain e r1 m1 where s: "f (r, m) = (e, r1, m1)" by (metis prod_cases3)
  with c have 1: "f (r, m) = (none, r1, m1)" and 2: "until_error none gs (r1, m1) = (none, r', m')"
    by (auto split: if_splits)
  from 2 gs have "unread r1 = []" "V m1" "m' = m1" by (auto simp: ends_def)
  with decodesE [OF f 1] show "R m (unread r) m' \<and> V m'" by auto
qed

section \<open>The contract of a message codec\<close>

text \<open>
  A codec turns valid messages into their wire format and back. \<open>wire\<close> is the reference format,
  \<open>valid\<close> the messages the protocol admits, \<open>none\<close> the success code, \<open>bad_arg\<close> the code for a
  null output pointer and \<open>init\<close> the value-initialised message a failed decode leaves behind.
\<close>

locale message_codec =
  fixes encode :: "'m \<Rightarrow> byte list \<Rightarrow> 'e \<times> byte list"
    and decode :: "byte list \<Rightarrow> 'm ptr \<Rightarrow> 'e \<times> 'm ptr"
    and wire :: "'m \<Rightarrow> byte list"
    and valid :: "'m \<Rightarrow> bool"
    and none :: 'e
    and bad_arg :: 'e
    and init :: 'm
  assumes encode_ok:
      "valid m \<Longrightarrow> length (wire m) \<le> length buf \<Longrightarrow>
         encode m buf = (none, wire m @ drop (length (wire m)) buf)"
    and encode_frame: "length (snd (encode m buf)) = length buf"
    and decode_iff:
      "decode buf (Some x) = (none, p) \<longleftrightarrow> (\<exists>m. valid m \<and> buf = wire m \<and> p = Some m)"
    and decode_fail: "decode buf (Some x) = (e, p) \<Longrightarrow> e \<noteq> none \<Longrightarrow> p = Some init"
    and decode_null: "decode buf None = (bad_arg, None)"
begin

lemma decode_wire: "valid m \<Longrightarrow> decode (wire m) (Some x) = (none, Some m)"
  by (auto simp: decode_iff)

lemma encode_exact:
  "valid m \<Longrightarrow> length buf = length (wire m) \<Longrightarrow> encode m buf = (none, wire m)"
  by (simp add: encode_ok)

lemma roundtrip:
  "valid m \<Longrightarrow> length buf = length (wire m) \<Longrightarrow>
   fst (encode m buf) = none \<and> decode (snd (encode m buf)) (Some x) = (none, Some m)"
  by (simp add: encode_exact decode_wire)

text \<open>Decoding is strict: an accepted buffer is the encoding of what was read, byte for byte.\<close>

lemma canonical:
  "decode buf (Some x) = (none, Some m) \<Longrightarrow> length buf' = length buf \<Longrightarrow> encode m buf' = (none, buf)"
  by (auto simp: decode_iff encode_exact)

lemma wire_inj:
  assumes "valid m" "valid m'" "wire m = wire m'"
  shows "m = m'"
proof -
  have "decode (wire m') (Some m) = (none, Some m)"
    using decode_wire [OF assms(1), of m] unfolding assms(3) .
  with decode_wire [OF assms(2), of m] show ?thesis by simp
qed

lemma decode_valid: "decode buf (Some x) = (none, Some m) \<Longrightarrow> valid m \<and> buf = wire m"
  by (auto simp: decode_iff)

end

text \<open>Most codecs also refuse to encode what is not valid or does not fit the buffer.\<close>

locale strict_message_codec = message_codec +
  assumes encode_only:
    "fst (encode m buf) = none \<Longrightarrow> valid m \<and> length (wire m) \<le> length buf"
begin

lemma encode_none_iff:
  "fst (encode m buf) = none \<longleftrightarrow> valid m \<and> length (wire m) \<le> length buf"
  by (metis encode_only encode_ok fst_conv)

text \<open>Encoding into a buffer and decoding what was written there agree on which messages pass.\<close>

lemma encode_decode:
  "encode m buf = (none, buf') \<Longrightarrow> decode (take (length (wire m)) buf') (Some x) = (none, Some m)"
  using encode_only[of m buf] encode_ok[of m buf] decode_wire[of m x] by auto

text \<open>A buffer is accepted as \<open>m\<close> exactly when encoding \<open>m\<close> over it changes nothing and fills it.\<close>

lemma decode_encode_iff:
  "decode buf (Some x) = (none, Some m) \<longleftrightarrow>
     length buf = length (wire m) \<and> encode m buf = (none, buf)"
proof
  assume "decode buf (Some x) = (none, Some m)"
  then show "length buf = length (wire m) \<and> encode m buf = (none, buf)"
    by (auto simp: decode_iff encode_exact)
next
  assume *: "length buf = length (wire m) \<and> encode m buf = (none, buf)"
  then have "valid m" using encode_only [of m buf] by simp
  with * have "buf = wire m" using encode_exact [of m buf] by simp
  with \<open>valid m\<close> show "decode buf (Some x) = (none, Some m)" by (simp add: decode_wire)
qed

end

section \<open>Codecs made of phases\<close>

text \<open>
  Every codec of the source has the same frame: the encoder runs some checks (\<open>pre\<close>) before it
  makes a writer over the buffer, and the decoder parses into a local message that is copied to
  the caller's variable only when every phase succeeded.
\<close>

definition encode_with ::
    "'e \<Rightarrow> 'e \<Rightarrow> (BinaryWriter \<Rightarrow> 'e \<times> BinaryWriter) \<Rightarrow> byte list \<Rightarrow> 'e \<times> byte list" where
  "encode_with none pre phases buffer =
     (if pre \<noteq> none then (pre, buffer)
      else case phases (new_BinaryWriter buffer) of (e, w) \<Rightarrow> (e, bw_buffer w))"

definition decode_with ::
    "'e \<Rightarrow> 'e \<Rightarrow> 'm \<Rightarrow> (BinaryReader \<times> 'm \<Rightarrow> 'e \<times> BinaryReader \<times> 'm) \<Rightarrow> byte list \<Rightarrow> 'm ptr \<Rightarrow> 'e \<times> 'm ptr" where
  "decode_with none bad_arg init phases buffer message =
     (if message = None then (bad_arg, None)
      else case phases (new_BinaryReader buffer, init) of (e, _, parsed) \<Rightarrow>
        if e \<noteq> none then (e, Some init) else (none, Some parsed))"

text \<open>\<open>decodes_message\<close>: parsing a whole buffer into the initial message yields exactly \<open>Q\<close>.\<close>

definition decodes_message ::
    "'e \<Rightarrow> (BinaryReader \<times> 'm \<Rightarrow> 'e \<times> BinaryReader \<times> 'm) \<Rightarrow> 'm \<Rightarrow> (byte list \<Rightarrow> 'm \<Rightarrow> bool) \<Rightarrow> bool" where
  "decodes_message none st init Q \<longleftrightarrow>
     (\<forall>bs m. Q bs m \<longleftrightarrow> (\<exists>r'. st (new_BinaryReader bs, init) = (none, r', m)))"

lemma decodes_messageI:
  assumes "decodes_all none st R" "\<And>bs m. R init bs m = Q bs m"
  shows "decodes_message none st init Q"
  unfolding decodes_message_def
proof (intro allI)
  fix bs m
  show "Q bs m \<longleftrightarrow> (\<exists>r'. st (new_BinaryReader bs, init) = (none, r', m))"
    using assms(1) [unfolded decodes_all_def, THEN spec [of _ "new_BinaryReader bs"], THEN spec [of _ init],
        THEN spec [of _ m]]
    by (simp add: assms(2))
qed

text \<open>A part of a message, parsed into a fresh variable and copied on success.\<close>

lemma decodes_into:
  assumes st: "decodes none st R"
    and f: "\<And>r v. f r (Some v) = (case st (r, init) of (e, r', parsed) \<Rightarrow>
      if e \<noteq> none then (e, r', Some v) else (none, r', Some (out parsed)))"
  shows "decodes none (decode_into f sel upd) (\<lambda>m bs m'. \<exists>l. R init bs l \<and> m' = upd (\<lambda>_. out l) m)"
  unfolding decodes_def
proof (intro allI conjI impI)
  fix r m bs m' rest
  assume "\<exists>l. R init bs l \<and> m' = upd (\<lambda>_. out l) m" and u: "unread r = bs @ rest"
  then obtain l where l: "R init bs l" "m' = upd (\<lambda>_. out l) m" by blast
  from decodesD [OF st l(1) u] l(2)
  show "\<exists>r'. decode_into f sel upd (r, m) = (none, r', m') \<and> unread r' = rest"
    by (auto simp: decode_into_def f)
next
  fix r m r' m'
  assume c: "decode_into f sel upd (r, m) = (none, r', m')"
  obtain e r1 l where s: "st (r, init) = (e, r1, l)" by (metis prod_cases3)
  with c have "st (r, init) = (none, r', l)" and m': "m' = upd (\<lambda>_. out l) m"
    by (auto simp: decode_into_def f split: if_splits)
  from decodesE [OF st this(1)] m'
  show "\<exists>bs. (\<exists>l. R init bs l \<and> m' = upd (\<lambda>_. out l) m) \<and> unread r = bs @ unread r'" by metis
qed

lemma decodes_into_reads:
  assumes st: "reads st R" and e: "\<And>x. x \<noteq> Ser_None \<Longrightarrow> map_error x \<noteq> none"
    and f: "\<And>r v. f r (Some v) = (case st (r, init) of (ok, r', parsed) \<Rightarrow>
      if \<not> ok then (map_error (br_error r'), r', Some v) else (none, r', Some parsed))"
  shows "decodes none (decode_into f sel upd) (\<lambda>m bs m'. \<exists>l. R init bs l \<and> m' = upd (\<lambda>_. l) m)"
proof (rule decodes_into [OF decodes_checked [OF st e]])
  fix r v
  show "f r (Some v) = (case checked map_error (\<lambda>s. br_error (fst s)) none st (r, init) of (e, r', parsed) \<Rightarrow>
      if e \<noteq> none then (e, r', Some v) else (none, r', Some parsed))"
    using e readsD_fail [OF st, of r init] by (auto simp: f checked_def split: prod.splits)
qed

text \<open>A decoder that keeps a local variable beside the message it parses.\<close>

lemma decodes_message_local:
  assumes st: "decodes_all none st R" and Q: "\<And>bs m. (\<exists>c. R (init, c0) bs (m, c)) \<longleftrightarrow> Q bs m"
  shows "decodes_message none (\<lambda>(r, m). case st (r, m, c0) of (e, r', m', c) \<Rightarrow> (e, r', m')) init Q"
  unfolding decodes_message_def
proof (intro allI)
  fix bs m
  have "(\<exists>c. R (init, c0) bs (m, c)) \<longleftrightarrow> (\<exists>c r'. st (new_BinaryReader bs, init, c0) = (none, r', m, c))"
    using st [unfolded decodes_all_def, THEN spec [of _ "new_BinaryReader bs"], THEN spec [of _ "(init, c0)"]]
    by simp
  then show "Q bs m \<longleftrightarrow> (\<exists>r'. (case (new_BinaryReader bs, init) of (r, m) \<Rightarrow>
      case st (r, m, c0) of (e, r', m', c) \<Rightarrow> (e, r', m')) = (none, r', m))"
    unfolding Q by (auto split: prod.splits)
qed

lemma decodes_message_out:
  assumes st: "decodes_all none st R" and Q: "\<And>bs m. (\<exists>s. R (init, c0) bs s \<and> m = out s) \<longleftrightarrow> Q bs m"
  shows "decodes_message none (\<lambda>(r, m). case st (r, m, c0) of (e, r', s) \<Rightarrow> (e, r', out s)) init Q"
  unfolding decodes_message_def
proof (intro allI)
  fix bs m
  have "R (init, c0) bs s \<longleftrightarrow> (\<exists>r'. st (new_BinaryReader bs, init, c0) = (none, r', s))" for s
    using st [unfolded decodes_all_def, THEN spec [of _ "new_BinaryReader bs"], THEN spec [of _ "(init, c0)"],
        THEN spec [of _ s]]
    by (simp only: unread_new_BinaryReader)
  then show "Q bs m \<longleftrightarrow> (\<exists>r'. (case (new_BinaryReader bs, init) of (r, m) \<Rightarrow>
      case st (r, m, c0) of (e, r', s) \<Rightarrow> (e, r', out s)) = (none, r', m))"
    unfolding Q [symmetric] by (auto split: prod.splits)
qed

text \<open>A size check that adds nothing.\<close>

lemma sizes_limit [sizes_intros]:
  "overflow \<noteq> none \<Longrightarrow> sizes none (\<lambda>t. if c then (overflow, t) else (none, t)) 0 (\<not> c)"
  by (simp add: sizes_def)

theorem codec_of_phases:
  assumes enc: "\<And>m buf. encode m buf = encode_with none (pre m buf) (we m) buf"
    and dec: "\<And>buf p. decode buf p = decode_with none bad_arg init rd buf p"
    and we: "\<And>m. encodes none (we m) (wire m) (q m)"
    and rd: "decodes_message none rd init (\<lambda>bs m. valid m \<and> bs = wire m)"
    and pre: "\<And>m buf. valid m \<Longrightarrow> length (wire m) \<le> length buf \<Longrightarrow> pre m buf = none"
    and valid: "\<And>m. valid m \<Longrightarrow> q m"
  shows "message_codec encode decode wire valid none bad_arg init"
proof
  fix m buf
  show "encode m buf = (none, wire m @ drop (length (wire m)) buf)"
    if "valid m" "length (wire m) \<le> length buf"
    using encodesD_ok [OF we valid [OF that(1)], of "new_BinaryWriter buf"] that
    by (simp add: enc encode_with_def pre)
  have *: "fst (we m (new_BinaryWriter buf)) = none \<longleftrightarrow> q m \<and> length (wire m) \<le> length buf"
    "length (bw_buffer (snd (we m (new_BinaryWriter buf)))) = length buf"
    by (simp_all add: encodes_none_iff [OF we] encodes_keeps_length [OF we] new_BinaryWriter_def writer_remaining_def)
  then show "length (snd (encode m buf)) = length buf"
    by (auto simp: enc encode_with_def split: prod.splits)
next
  fix buf x p
  obtain e r m where s: "rd (new_BinaryReader buf, init) = (e, r, m)" by (metis prod_cases3)
  have ok: "e = none \<and> m = m' \<longleftrightarrow> valid m' \<and> buf = wire m'" for m'
    using rd [unfolded decodes_message_def, THEN spec [of _ buf], THEN spec [of _ m']] by (simp add: s)
  show "decode buf (Some x) = (none, p) \<longleftrightarrow> (\<exists>m. valid m \<and> buf = wire m \<and> p = Some m)"
    unfolding dec decode_with_def conj_assoc [symmetric] ok [symmetric] by (auto simp: s)
next
  fix buf x e p
  show "decode buf (Some x) = (e, p) \<Longrightarrow> e \<noteq> none \<Longrightarrow> p = Some init"
    unfolding dec decode_with_def by (auto split: prod.splits if_splits)
  show "decode buf None = (bad_arg, None)" unfolding dec decode_with_def by simp
qed

theorem strict_codec_of_phases:
  assumes enc: "\<And>m buf. encode m buf = encode_with none (pre m buf) (we m) buf"
    and dec: "\<And>buf p. decode buf p = decode_with none bad_arg init rd buf p"
    and we: "\<And>m. encodes none (we m) (wire m) (q m)"
    and rd: "decodes_message none rd init (\<lambda>bs m. valid m \<and> bs = wire m)"
    and pre: "\<And>m buf. valid m \<Longrightarrow> length (wire m) \<le> length buf \<Longrightarrow> pre m buf = none"
    and valid: "\<And>m. valid m \<Longrightarrow> q m" "\<And>m buf. pre m buf = none \<Longrightarrow> q m \<Longrightarrow> valid m"
  shows "strict_message_codec encode decode wire valid none bad_arg init"
proof (intro strict_message_codec.intro strict_message_codec_axioms.intro)
  show "message_codec encode decode wire valid none bad_arg init"
    by (rule codec_of_phases [OF enc dec we rd pre valid(1)])
  fix m buf
  assume "fst (encode m buf) = none"
  then have "pre m buf = none" "fst (we m (new_BinaryWriter buf)) = none"
    by (simp_all add: enc encode_with_def split: prod.splits if_splits)
  then show "valid m \<and> length (wire m) \<le> length buf"
    using valid(2) [of m buf] by (simp add: encodes_none_iff [OF we])
qed

end
