(* ===== verification/PacketCodec.thy ===== *)
theory PacketCodec
  imports Codec
begin

text \<open>
  \<^verbatim>\<open>net/PacketHeader.h\<close> and \<^verbatim>\<open>net/message/PacketCodec.cpp\<close>: the fixed 20-byte packet
  header, its validation, and the encoding and strict decoding of whole packets. The codec is an
  interpretation of \<open>strict_message_codec\<close>.
\<close>

unbundle bit_operations_syntax

section \<open>Header and constants\<close>

datatype PacketFlag = Flag_None | Flag_Response | Flag_Compressed | Flag_Error

fun packet_flag_value :: "PacketFlag \<Rightarrow> u16" where
  "packet_flag_value Flag_None = 0"
| "packet_flag_value Flag_Response = push_bit 0 1"
| "packet_flag_value Flag_Compressed = push_bit 1 1"
| "packet_flag_value Flag_Error = push_bit 2 1"

record PacketHeader =
  ph_magic :: u32
  ph_version :: u16
  ph_flags :: u16
  ph_length :: u32
  ph_msg_id :: u32
  ph_seq :: u32

definition kPacketMagic :: u32 where "kPacketMagic = 0x47535052"
definition kPacketVersion :: u16 where "kPacketVersion = 1"
definition kPacketHeaderSize :: nat where "kPacketHeaderSize = 20"

definition kPacketDefinedFlagMask :: u16 where
  "kPacketDefinedFlagMask =
     packet_flag_value Flag_Response OR packet_flag_value Flag_Compressed OR packet_flag_value Flag_Error"

definition kPacketSeqNone :: u32 where "kPacketSeqNone = 0"

datatype PacketCodecErrorCode =
    Pkt_None
  | Pkt_BufferTooSmall
  | Pkt_LengthOverflow
  | Pkt_InvalidMagic
  | Pkt_UnsupportedVersion
  | Pkt_InvalidFlags
  | Pkt_LengthMismatch
  | Pkt_InvalidArgument

fun PacketCodecErrorMessage :: "PacketCodecErrorCode \<Rightarrow> string" where
  "PacketCodecErrorMessage Pkt_None = ''Success.''"
| "PacketCodecErrorMessage Pkt_BufferTooSmall =
     ''Buffer does not contain enough bytes for the requested packet operation.''"
| "PacketCodecErrorMessage Pkt_LengthOverflow = ''Packet payload length exceeds the supported range.''"
| "PacketCodecErrorMessage Pkt_InvalidMagic =
     ''Packet header magic does not match the protocol constant.''"
| "PacketCodecErrorMessage Pkt_UnsupportedVersion = ''Packet header version is not supported.''"
| "PacketCodecErrorMessage Pkt_InvalidFlags = ''Packet header contains undefined flag bits.''"
| "PacketCodecErrorMessage Pkt_LengthMismatch =
     ''Packet header length does not match the provided payload bytes.''"
| "PacketCodecErrorMessage Pkt_InvalidArgument = ''Packet codec argument must not be null.''"

record PacketView =
  pv_header :: PacketHeader
  pv_payload :: "byte list"

text \<open>The value-initialised header and view, \<^verbatim>\<open>PacketHeader{}\<close> and \<^verbatim>\<open>PacketView{}\<close>.\<close>

definition zero_PacketHeader :: PacketHeader where
  "zero_PacketHeader =
     \<lparr>ph_magic = 0, ph_version = 0, ph_flags = 0, ph_length = 0, ph_msg_id = 0, ph_seq = 0\<rparr>"

definition empty_PacketView :: PacketView where
  "empty_PacketView = \<lparr>pv_header = zero_PacketHeader, pv_payload = []\<rparr>"

section \<open>Operations\<close>

fun packet_MapSerializationError :: "SerializationErrorCode \<Rightarrow> PacketCodecErrorCode" where
  "packet_MapSerializationError Ser_None = Pkt_None"
| "packet_MapSerializationError Ser_BufferTooSmall = Pkt_BufferTooSmall"
| "packet_MapSerializationError Ser_LengthOverflow = Pkt_LengthOverflow"
| "packet_MapSerializationError Ser_InvalidArgument = Pkt_InvalidArgument"
| "packet_MapSerializationError Ser_InvalidBoolValue = Pkt_InvalidArgument"

definition IsValidPacketFlags :: "u16 \<Rightarrow> bool" where
  "IsValidPacketFlags flags \<longleftrightarrow> flags AND NOT kPacketDefinedFlagMask = 0"

definition MakePacketHeader :: "u32 \<Rightarrow> u32 \<Rightarrow> u16 \<Rightarrow> u32 \<Rightarrow> PacketHeader" where
  "MakePacketHeader msg_id seq flags payload_length =
     \<lparr>ph_magic = kPacketMagic, ph_version = kPacketVersion, ph_flags = flags,
      ph_length = payload_length, ph_msg_id = msg_id, ph_seq = seq\<rparr>"

definition ValidatePacketHeader :: "PacketHeader \<Rightarrow> PacketCodecErrorCode" where
  "ValidatePacketHeader header =
     (if ph_magic header \<noteq> kPacketMagic then Pkt_InvalidMagic
      else if ph_version header \<noteq> kPacketVersion then Pkt_UnsupportedVersion
      else if \<not> IsValidPacketFlags (ph_flags header) then Pkt_InvalidFlags
      else Pkt_None)"

definition GetPacketWireSize :: "nat \<Rightarrow> nat ptr \<Rightarrow> PacketCodecErrorCode \<times> nat ptr" where
  "GetPacketWireSize payload_size wire_size =
     (if wire_size = None then (Pkt_InvalidArgument, wire_size)
      else if payload_size > 4294967295 then (Pkt_LengthOverflow, wire_size)
      else if payload_size > size_max - kPacketHeaderSize then (Pkt_LengthOverflow, wire_size)
      else (Pkt_None, Some (kPacketHeaderSize + payload_size)))"

definition write_header_fields :: "PacketHeader \<Rightarrow> BinaryWriter \<Rightarrow> bool \<times> BinaryWriter" where
  "write_header_fields header = chain
     [WriteUInt32 (ph_magic header), WriteUInt16 (ph_version header), WriteUInt16 (ph_flags header),
      WriteUInt32 (ph_length header), WriteUInt32 (ph_msg_id header), WriteUInt32 (ph_seq header)]"

text \<open>The writer works on \<^verbatim>\<open>buffer.first(kPacketHeaderSize)\<close>; the rest of the buffer stays.\<close>

definition WritePacketHeader :: "PacketHeader \<Rightarrow> byte list \<Rightarrow> PacketCodecErrorCode \<times> byte list" where
  "WritePacketHeader header buffer =
     (let validation_result = ValidatePacketHeader header in
      if validation_result \<noteq> Pkt_None then (validation_result, buffer)
      else if length buffer < kPacketHeaderSize then (Pkt_BufferTooSmall, buffer)
      else case write_header_fields header (new_BinaryWriter (take kPacketHeaderSize buffer)) of (ok, writer) \<Rightarrow>
        let buffer' = bw_buffer writer @ drop kPacketHeaderSize buffer in
        if \<not> ok then (packet_MapSerializationError (bw_error writer), buffer')
        else (Pkt_None, buffer'))"

definition read_header_fields ::
    "BinaryReader \<times> PacketHeader \<Rightarrow> bool \<times> BinaryReader \<times> PacketHeader" where
  "read_header_fields = chain
     [read_into ReadUInt32 ph_magic ph_magic_update, read_into ReadUInt16 ph_version ph_version_update,
      read_into ReadUInt16 ph_flags ph_flags_update, read_into ReadUInt32 ph_length ph_length_update,
      read_into ReadUInt32 ph_msg_id ph_msg_id_update, read_into ReadUInt32 ph_seq ph_seq_update]"

definition ReadPacketHeader ::
    "byte list \<Rightarrow> PacketHeader ptr \<Rightarrow> PacketCodecErrorCode \<times> PacketHeader ptr" where
  "ReadPacketHeader buffer header =
     (if header = None then (Pkt_InvalidArgument, header)
      else let header = Some zero_PacketHeader in
        if length buffer < kPacketHeaderSize then (Pkt_BufferTooSmall, header)
        else case read_header_fields (new_BinaryReader (take kPacketHeaderSize buffer), zero_PacketHeader) of
          (ok, reader, parsed_header) \<Rightarrow>
          if \<not> ok then (packet_MapSerializationError (br_error reader), header)
          else let validation_result = ValidatePacketHeader parsed_header in
            if validation_result \<noteq> Pkt_None then (validation_result, header)
            else (Pkt_None, Some parsed_header))"

definition EncodePacket ::
    "PacketHeader \<Rightarrow> byte list \<Rightarrow> byte list \<Rightarrow> PacketCodecErrorCode \<times> byte list" where
  "EncodePacket header payload buffer =
     (let validation_result = ValidatePacketHeader header in
      if validation_result \<noteq> Pkt_None then (validation_result, buffer)
      else if length payload > 4294967295 then (Pkt_LengthOverflow, buffer)
      else if ph_length header \<noteq> word_of_nat (length payload) then (Pkt_LengthMismatch, buffer)
      else case GetPacketWireSize (length payload) (Some 0) of (wire_size_result, wire_size) \<Rightarrow>
        if wire_size_result \<noteq> Pkt_None then (wire_size_result, buffer)
        else if length buffer < the wire_size then (Pkt_BufferTooSmall, buffer)
        else case WritePacketHeader header (take kPacketHeaderSize buffer) of (write_header_result, first) \<Rightarrow>
          let buffer' = first @ drop kPacketHeaderSize buffer in
          if write_header_result \<noteq> Pkt_None then (write_header_result, buffer')
          else (Pkt_None, if payload \<noteq> [] then memcpy_at kPacketHeaderSize payload buffer' else buffer'))"

definition DecodePacket :: "byte list \<Rightarrow> PacketView ptr \<Rightarrow> PacketCodecErrorCode \<times> PacketView ptr" where
  "DecodePacket buffer packet =
     (if packet = None then (Pkt_InvalidArgument, packet)
      else let packet = Some empty_PacketView in
        case ReadPacketHeader buffer (Some zero_PacketHeader) of (read_header_result, header) \<Rightarrow>
          if read_header_result \<noteq> Pkt_None then (read_header_result, packet)
          else case GetPacketWireSize (unat (ph_length (the header))) (Some 0) of
            (wire_size_result, expected_wire_size) \<Rightarrow>
            if wire_size_result \<noteq> Pkt_None then (wire_size_result, packet)
            else if length buffer \<noteq> the expected_wire_size then (Pkt_LengthMismatch, packet)
            else (Pkt_None, Some \<lparr>pv_header = the header,
              pv_payload = take (unat (ph_length (the header))) (drop kPacketHeaderSize buffer)\<rparr>))"

section \<open>The header on the wire\<close>

definition wire_header :: "PacketHeader \<Rightarrow> byte list" where
  "wire_header h =
     enc_u32 (ph_magic h) @ enc_u16 (ph_version h) @ enc_u16 (ph_flags h) @ enc_u32 (ph_length h) @
     enc_u32 (ph_msg_id h) @ enc_u32 (ph_seq h)"

lemma length_wire_header [simp]: "length (wire_header h) = 20"
  by (simp add: wire_header_def)

lemma writes_header: "writes (write_header_fields h) (wire_header h) True"
  unfolding write_header_fields_def wire_header_def by (rule writes_cong, (rule writes_intros)+) simp_all

lemma reads_header: "reads read_header_fields (\<lambda>m bs m'. bs = wire_header m')"
  unfolding read_header_fields_def
proof (rule reads_cong, (rule reads_intros)+, rule iffI, goal_cases)
  case (1 m bs m')
  then show ?case by (cases m) (auto simp: wire_header_def)
next
  case (2 m bs m')
  show ?case unfolding 2 wire_header_def
    by (intro exI conjI, (rule refl TrueI)+) (cases m; cases m'; simp)+
qed

section \<open>The packet codec implements its contract\<close>

text \<open>The wire format of a packet and the packets the protocol admits.\<close>

definition wire_packet :: "PacketView \<Rightarrow> byte list" where
  "wire_packet p = wire_header (pv_header p) @ pv_payload p"

definition valid_packet :: "PacketView \<Rightarrow> bool" where
  "valid_packet p \<longleftrightarrow>
     ValidatePacketHeader (pv_header p) = Pkt_None \<and> fits32 (pv_payload p) \<and>
     unat (ph_length (pv_header p)) = length (pv_payload p)"

lemma wire_header_inj: "wire_header h @ xs = wire_header h' @ ys \<longleftrightarrow> h = h' \<and> xs = ys"
proof
  assume *: "wire_header h @ xs = wire_header h' @ ys"
  have "read_header_fields (new_BinaryReader (wire_header h @ xs), h) = (True, advance 20 (new_BinaryReader (wire_header h @ xs)), h)"
    using readsD_ok [OF reads_header refl, of "new_BinaryReader (wire_header h @ xs)" h xs h] by simp
  moreover have "read_header_fields (new_BinaryReader (wire_header h @ xs), h) = (True, advance 20 (new_BinaryReader (wire_header h @ xs)), h')"
    using readsD_ok [OF reads_header refl, of "new_BinaryReader (wire_header h @ xs)" h' ys h] * by simp
  ultimately show "h = h' \<and> xs = ys" using * by simp
qed simp

lemma WritePacketHeader_ok:
  assumes "ValidatePacketHeader h = Pkt_None" "20 \<le> length buf"
  shows "WritePacketHeader h buf = (Pkt_None, wire_header h @ drop 20 buf)"
proof -
  have "write_header_fields h (new_BinaryWriter (take 20 buf)) =
    (True, put_bytes (wire_header h) (new_BinaryWriter (take 20 buf)))"
    using assms(2) by (intro writesD_ok [OF writes_header]) simp_all
  with assms show ?thesis
    by (simp add: WritePacketHeader_def Let_def kPacketHeaderSize_def put_bytes_def memcpy_at_0 new_BinaryWriter_def)
qed

lemma WritePacketHeader_error:
  "ValidatePacketHeader h \<noteq> Pkt_None \<Longrightarrow> WritePacketHeader h buf = (ValidatePacketHeader h, buf)"
  "ValidatePacketHeader h = Pkt_None \<Longrightarrow> length buf < 20 \<Longrightarrow> WritePacketHeader h buf = (Pkt_BufferTooSmall, buf)"
  by (simp_all add: WritePacketHeader_def Let_def kPacketHeaderSize_def)

lemma ReadPacketHeader_iff:
  "ReadPacketHeader buf (Some x) = (Pkt_None, p) \<longleftrightarrow>
     (\<exists>h rest. ValidatePacketHeader h = Pkt_None \<and> buf = wire_header h @ rest \<and> p = Some h)"
proof (cases "20 \<le> length buf")
  case True
  let ?r = "new_BinaryReader (take 20 buf)"
  obtain ok r' h where step: "read_header_fields (?r, zero_PacketHeader) = (ok, r', h)"
    by (metis prod_cases3)
  show ?thesis
  proof (cases ok)
    case T: True
    with step have "read_header_fields (?r, zero_PacketHeader) = (True, r', h)" by simp
    from readsE [OF reads_header this] obtain rest where r: "take 20 buf = wire_header h @ rest" by auto
    from True arg_cong [OF r, of length] have "rest = []" by simp
    with r have "buf = wire_header h @ drop 20 buf" by (metis append_Nil2 append_take_drop_id)
    then have "buf = wire_header h' @ rest' \<longleftrightarrow> h' = h \<and> rest' = drop 20 buf" for h' rest'
      using wire_header_inj by metis
    with T True step show ?thesis
      by (auto simp: ReadPacketHeader_def Let_def kPacketHeaderSize_def)
  next
    case F: False
    with step have "br_error r' \<noteq> Ser_None" using readsD_fail [OF reads_header] by simp
    then have "packet_MapSerializationError (br_error r') \<noteq> Pkt_None" by (cases "br_error r'") auto
    moreover have "buf \<noteq> wire_header h' @ rest" for h' rest
      using readsD_ok [OF reads_header refl, of ?r h' "[]" zero_PacketHeader] F step by auto
    ultimately show ?thesis using F True step
      by (auto simp: ReadPacketHeader_def Let_def kPacketHeaderSize_def)
  qed
qed (auto simp: ReadPacketHeader_def kPacketHeaderSize_def)

lemma GetPacketWireSize_value:
  "n \<le> 4294967295 \<Longrightarrow> GetPacketWireSize n (Some x) = (Pkt_None, Some (20 + n))"
  by (simp add: GetPacketWireSize_def size_max_def kPacketHeaderSize_def)

lemma ReadPacketHeader_fail:
  "ReadPacketHeader buf (Some x) = (e, p) \<Longrightarrow> e \<noteq> Pkt_None \<Longrightarrow> p = Some zero_PacketHeader"
  by (auto simp: ReadPacketHeader_def Let_def split: prod.splits if_splits)

text \<open>What \<^verbatim>\<open>EncodePacket\<close> does on every branch; a failed encode leaves the buffer alone.\<close>

lemma EncodePacket_effect:
  "EncodePacket h payload buf =
     (if ValidatePacketHeader h \<noteq> Pkt_None then (ValidatePacketHeader h, buf)
      else if \<not> fits32 payload then (Pkt_LengthOverflow, buf)
      else if unat (ph_length h) \<noteq> length payload then (Pkt_LengthMismatch, buf)
      else if length buf < 20 + length payload then (Pkt_BufferTooSmall, buf)
      else (Pkt_None, wire_header h @ payload @ drop (20 + length payload) buf))"
proof -
  have "fits32 payload \<Longrightarrow> GetPacketWireSize (length payload) (Some 0) = (Pkt_None, Some (20 + length payload))"
    by (rule GetPacketWireSize_value) (simp add: fits32_def)
  then show ?thesis
    unfolding EncodePacket_def
    by (auto simp: Let_def eq_word_of_nat_u32_iff fits32_def kPacketHeaderSize_def
        WritePacketHeader_ok memcpy_at_def add.commute)
qed

lemma DecodePacket_effect:
  "DecodePacket buf (Some x) =
     (case ReadPacketHeader buf (Some zero_PacketHeader) of (e, h) \<Rightarrow>
        if e \<noteq> Pkt_None then (e, Some empty_PacketView)
        else if length buf \<noteq> 20 + unat (ph_length (the h)) then (Pkt_LengthMismatch, Some empty_PacketView)
        else (Pkt_None, Some \<lparr>pv_header = the h, pv_payload = drop 20 buf\<rparr>))"
  by (auto simp: DecodePacket_def Let_def GetPacketWireSize_value kPacketHeaderSize_def unat_u32_le
      split: prod.splits)

lemma DecodePacket_iff:
  "DecodePacket buf (Some x) = (Pkt_None, p) \<longleftrightarrow> (\<exists>m. valid_packet m \<and> buf = wire_packet m \<and> p = Some m)"
proof -
  obtain e q where step: "ReadPacketHeader buf (Some zero_PacketHeader) = (e, q)" by fastforce
  show ?thesis
  proof (cases "e = Pkt_None")
    case True
    with step ReadPacketHeader_iff [of buf zero_PacketHeader q]
    obtain h rest where h: "ValidatePacketHeader h = Pkt_None" "buf = wire_header h @ rest" "q = Some h"
      by auto
    have *: "valid_packet m \<and> buf = wire_packet m \<longleftrightarrow>
        m = \<lparr>pv_header = h, pv_payload = rest\<rparr> \<and> length rest = unat (ph_length h)" for m
      using h(1) unat_u32_le [of "ph_length h"]
      by (cases m) (auto simp: wire_packet_def h(2) wire_header_inj valid_packet_def fits32_def)
    show ?thesis unfolding conj_assoc [symmetric] * using True h step
      by (auto simp: DecodePacket_effect)
  next
    case False
    with step have "\<not> (\<exists>m. valid_packet m \<and> buf = wire_packet m)"
      using ReadPacketHeader_iff [of buf zero_PacketHeader] by (auto simp: valid_packet_def wire_packet_def)
    with False step show ?thesis by (auto simp: DecodePacket_effect)
  qed
qed

interpretation packet: strict_message_codec
  "\<lambda>p. EncodePacket (pv_header p) (pv_payload p)" DecodePacket wire_packet valid_packet
  Pkt_None Pkt_InvalidArgument empty_PacketView
proof
  fix p :: PacketView and buf
  let ?e = "EncodePacket (pv_header p) (pv_payload p) buf"
  show "valid_packet p \<Longrightarrow> length (wire_packet p) \<le> length buf \<Longrightarrow>
    ?e = (Pkt_None, wire_packet p @ drop (length (wire_packet p)) buf)"
    by (simp add: EncodePacket_effect wire_packet_def valid_packet_def)
  show "length (snd ?e) = length buf" by (simp add: EncodePacket_effect)
  show "fst ?e = Pkt_None \<Longrightarrow> valid_packet p \<and> length (wire_packet p) \<le> length buf"
    by (simp add: EncodePacket_effect wire_packet_def valid_packet_def split: if_splits)
next
  fix buf x p
  show "DecodePacket buf (Some x) = (Pkt_None, p) \<longleftrightarrow> (\<exists>m. valid_packet m \<and> buf = wire_packet m \<and> p = Some m)"
    by (rule DecodePacket_iff)
next
  fix buf x e p
  show "DecodePacket buf (Some x) = (e, p) \<Longrightarrow> e \<noteq> Pkt_None \<Longrightarrow> p = Some empty_PacketView"
    by (auto simp: DecodePacket_effect split: prod.splits if_splits)
  show "DecodePacket buf None = (Pkt_InvalidArgument, None)" by (simp add: DecodePacket_def)
qed

text \<open>The defined flags are the three lowest bits.\<close>

lemma IsValidPacketFlags_iff: "IsValidPacketFlags flags \<longleftrightarrow> unat flags < 8"
proof -
  have mask: "NOT kPacketDefinedFlagMask = (NOT (mask 3) :: u16)"
    unfolding kPacketDefinedFlagMask_def by code_simp
  have "IsValidPacketFlags flags \<longleftrightarrow> drop_bit 3 flags = 0"
    unfolding IsValidPacketFlags_def mask
  proof
    assume *: "flags AND NOT (mask 3) = 0"
    have "\<not> bit flags (3 + n)" for n
      using arg_cong [OF *, of "\<lambda>w. bit w (3 + n)"] by (auto simp: bit_simps dest: bit_imp_le_length)
    then show "drop_bit 3 flags = 0" by (auto intro: bit_eqI simp: bit_simps)
  next
    assume *: "drop_bit 3 flags = 0"
    have "\<not> bit flags n" if "3 \<le> n" for n
      using arg_cong [OF *, of "\<lambda>w. bit w (n - 3)"] that by (auto simp: bit_simps)
    then show "flags AND NOT (mask 3) = 0"
      by (intro bit_eqI) (auto simp: bit_and_iff bit_not_iff bit_mask_iff not_less)
  qed
  also have "\<dots> \<longleftrightarrow> unat (drop_bit 3 flags) = 0" by (simp only: unsigned_eq_0_iff)
  also have "\<dots> \<longleftrightarrow> unat flags < 8"
    using unat_u16_le [of flags] unfolding unsigned_drop_bit_eq
    by (simp add: drop_bit_nat_def div_eq_0_iff take_bit_nat_eq_self)
  finally show ?thesis .
qed

section \<open>Properties\<close>

text \<open>
  C6. \<^verbatim>\<open>DecodePacket\<close> and \<^verbatim>\<open>EncodePacket\<close> are inverse to each other byte for byte: a buffer
  is accepted as a packet exactly when encoding that packet over the buffer succeeds, fills the
  whole buffer and changes no byte of it. In particular every byte of an accepted packet is
  determined by the header and payload that are read, and nothing may follow the payload.
\<close>

theorem packet_decode_iff_encode:
  "DecodePacket buffer (Some x) = (Pkt_None, Some packet) \<longleftrightarrow>
     length buffer = kPacketHeaderSize + length (pv_payload packet) \<and>
     EncodePacket (pv_header packet) (pv_payload packet) buffer = (Pkt_None, buffer)"
  using packet.decode_encode_iff [of buffer x packet] by (simp add: wire_packet_def kPacketHeaderSize_def)

text \<open>
  What \<^verbatim>\<open>EncodePacket\<close> returns on every branch: the header checks come first, then the
  payload length, then the room in the buffer. It succeeds only with the magic number, version 1,
  no undefined flag bit and a header length equal to the payload's; it then writes the header and
  the payload and leaves the rest of the buffer alone, and a failed call writes nothing.
\<close>

theorem encode_packet_branches:
  "EncodePacket header payload buffer =
     (if ph_magic header \<noteq> 0x47535052 then (Pkt_InvalidMagic, buffer)
      else if ph_version header \<noteq> 1 then (Pkt_UnsupportedVersion, buffer)
      else if \<not> unat (ph_flags header) < 8 then (Pkt_InvalidFlags, buffer)
      else if length payload > 4294967295 then (Pkt_LengthOverflow, buffer)
      else if unat (ph_length header) \<noteq> length payload then (Pkt_LengthMismatch, buffer)
      else if length buffer < 20 + length payload then (Pkt_BufferTooSmall, buffer)
      else (Pkt_None, wire_header header @ payload @ drop (20 + length payload) buffer))"
  unfolding EncodePacket_effect ValidatePacketHeader_def kPacketMagic_def kPacketVersion_def
    IsValidPacketFlags_iff by (simp add: fits32_def)

end
