(* ===== verification/StdMap.thy ===== *)
theory StdMap
  imports Prelude
begin

text \<open>
  \<^verbatim>\<open>std::map\<close> as an association list sorted by key, and the interface its clients rely on as
  the locale \<open>dictionary\<close>. The order is the one an iteration over the map visits: for strings
  \<^verbatim>\<open>std::less\<close> compares the bytes as unsigned numbers, lexicographically, as the order on
  strings here does. The same type stands for a \<^verbatim>\<open>std::unordered_map\<close> that the source never
  iterates over.
\<close>

section \<open>The interface\<close>

locale dictionary =
  fixes find :: "'m \<Rightarrow> 'k \<Rightarrow> 'v option"
    and put :: "'k \<Rightarrow> 'v \<Rightarrow> 'm \<Rightarrow> 'm"
    and erase :: "'k \<Rightarrow> 'm \<Rightarrow> 'm"
    and modify :: "'k \<Rightarrow> ('v \<Rightarrow> 'v) \<Rightarrow> 'm \<Rightarrow> 'm"
    and card_of :: "'m \<Rightarrow> nat"
    and invar :: "'m \<Rightarrow> bool"
    and empty :: 'm
  assumes find_empty: "find empty = (\<lambda>_. None)"
    and find_put: "invar m \<Longrightarrow> find (put k v m) = (find m)(k \<mapsto> v)"
    and find_erase: "invar m \<Longrightarrow> find (erase k m) = (find m)(k := None)"
    and find_modify: "invar m \<Longrightarrow> find (modify k f m) = (find m)(k := map_option f (find m k))"
    and invar_empty: "invar empty"
    and invar_put: "invar m \<Longrightarrow> invar (put k v m)"
    and invar_erase: "invar m \<Longrightarrow> invar (erase k m)"
    and invar_modify: "invar m \<Longrightarrow> invar (modify k f m)"
    and card_of: "invar m \<Longrightarrow> card_of m = card (dom (find m))"
    and finite_dom: "finite (dom (find m))"
begin

lemma card_put_new: "invar m \<Longrightarrow> find m k = None \<Longrightarrow> card_of (put k v m) = Suc (card_of m)"
  by (simp add: card_of invar_put find_put domIff finite_dom)

lemma card_put_old: "invar m \<Longrightarrow> find m k \<noteq> None \<Longrightarrow> card_of (put k v m) = card_of m"
  by (simp add: card_of invar_put find_put domIff insert_absorb)

lemma card_erase: "invar m \<Longrightarrow> find m k = Some v \<Longrightarrow> Suc (card_of (erase k m)) = card_of m"
  using card_Suc_Diff1 [OF finite_dom [of m] domI [of "find m" k v]]
  by (simp add: card_of invar_erase find_erase del: card_Diff_insert)

lemma card_modify: "invar m \<Longrightarrow> card_of (modify k f m) = card_of m"
proof -
  assume "invar m"
  then have "dom (find (modify k f m)) = dom (find m)"
    by (auto simp: find_modify dom_def)
  with \<open>invar m\<close> show ?thesis by (simp add: card_of invar_modify)
qed

end

section \<open>Sorted association lists\<close>

type_synonym ('k, 'v) std_map = "('k \<times> 'v) list"

definition map_find :: "('k, 'v) std_map \<Rightarrow> 'k \<Rightarrow> 'v option" where
  "map_find m k = map_of m k"

text \<open>\<^verbatim>\<open>m[k] = v\<close>, and \<^verbatim>\<open>emplace\<close>, which keeps an existing entry and says whether it inserted.\<close>

primrec map_put :: "'k::linorder \<Rightarrow> 'v \<Rightarrow> ('k, 'v) std_map \<Rightarrow> ('k, 'v) std_map" where
  "map_put k v [] = [(k, v)]"
| "map_put k v (e # m) =
     (if k < fst e then (k, v) # e # m else if k = fst e then (k, v) # m else e # map_put k v m)"

definition map_emplace :: "'k::linorder \<Rightarrow> 'v \<Rightarrow> ('k, 'v) std_map \<Rightarrow> bool \<times> ('k, 'v) std_map" where
  "map_emplace k v m = (if map_find m k \<noteq> None then (False, m) else (True, map_put k v m))"

definition map_erase :: "'k \<Rightarrow> ('k, 'v) std_map \<Rightarrow> ('k, 'v) std_map" where
  "map_erase k m = filter (\<lambda>e. fst e \<noteq> k) m"

text \<open>Assignment through a pointer to the mapped value.\<close>

definition map_modify :: "'k \<Rightarrow> ('v \<Rightarrow> 'v) \<Rightarrow> ('k, 'v) std_map \<Rightarrow> ('k, 'v) std_map" where
  "map_modify k f m = map (\<lambda>e. if fst e = k then (fst e, f (snd e)) else e) m"

definition map_wf :: "('k::linorder, 'v) std_map \<Rightarrow> bool" where
  "map_wf m \<longleftrightarrow> sorted_wrt (<) (map fst m)"

lemma map_find_Nil [simp]: "map_find [] k = None"
  by (simp add: map_find_def)

lemma map_wf_Cons: "map_wf (e # m) \<longleftrightarrow> (\<forall>x\<in>set m. fst e < fst x) \<and> map_wf m"
  by (auto simp: map_wf_def)

lemma set_fst_map_put: "fst ` set (map_put k v m) = insert k (fst ` set m)"
  by (induction m) auto

lemma map_wf_put: "map_wf m \<Longrightarrow> map_wf (map_put k v m)"
proof (induction m)
  case Nil
  then show ?case by (simp add: map_wf_def)
next
  case (Cons e m)
  show ?case
  proof (cases "fst e < k")
    case True
    have "fst e < fst x" if "x \<in> set (map_put k v m)" for x
    proof -
      from that have "fst x \<in> insert k (fst ` set m)" by (metis image_eqI set_fst_map_put)
      with Cons.prems True show ?thesis by (auto simp: map_wf_Cons)
    qed
    with True Cons show ?thesis by (auto simp: map_wf_Cons)
  next
    case False
    with Cons.prems show ?thesis by (auto simp: map_wf_Cons)
  qed
qed

lemma map_find_put: "map_wf m \<Longrightarrow> map_find (map_put k v m) = (map_find m)(k \<mapsto> v)"
proof (induction m)
  case Nil
  then show ?case by (auto simp: map_find_def)
next
  case (Cons e m)
  then have "map_wf m" by (simp add: map_wf_Cons)
  with Cons.IH show ?case by (auto simp: map_find_def fun_eq_iff)
qed

lemma map_find_erase: "map_find (map_erase k m) = (map_find m)(k := None)"
  by (induction m) (auto simp: map_find_def map_erase_def fun_eq_iff)

lemma map_wf_erase: "map_wf m \<Longrightarrow> map_wf (map_erase k m)"
  by (induction m) (auto simp: map_wf_Cons map_erase_def)

lemma fst_set_map_modify: "map fst (map_modify k f m) = map fst m"
  by (induction m) (auto simp: map_modify_def)

lemma map_wf_modify: "map_wf m \<Longrightarrow> map_wf (map_modify k f m)"
  by (simp add: map_wf_def fst_set_map_modify)

lemma map_find_modify: "map_find (map_modify k f m) = (map_find m)(k := map_option f (map_find m k))"
proof (induction m)
  case Nil
  then show ?case by (auto simp: map_find_def map_modify_def)
next
  case (Cons e m)
  then show ?case by (cases e) (auto simp: map_find_def map_modify_def fun_eq_iff)
qed

lemma map_wf_distinct: "map_wf m \<Longrightarrow> distinct (map fst m)"
  by (induction m) (auto simp: map_wf_Cons)

lemma length_map_wf: "map_wf m \<Longrightarrow> length m = card (dom (map_find m))"
  unfolding map_find_def [abs_def] dom_map_of_conv_image_fst
  by (metis card_image distinct_card length_map map_wf_distinct set_map)

lemma finite_dom_map_find: "finite (dom (map_find m))"
  by (simp add: map_find_def [abs_def] finite_dom_map_of)

lemma map_wf_Nil: "map_wf []"
  by (simp add: map_wf_def)

interpretation std_map: dictionary map_find map_put map_erase map_modify length map_wf "[]"
  by unfold_locales
    (simp_all add: map_find_Nil [abs_def] map_find_put map_find_erase map_find_modify map_wf_put map_wf_erase
      map_wf_modify length_map_wf map_wf_Nil finite_dom_map_find)

lemmas std_map_find = std_map.find_empty std_map.find_put std_map.find_erase std_map.find_modify
lemmas std_map_invar = std_map.invar_empty std_map.invar_put std_map.invar_erase std_map.invar_modify

text \<open>What an iteration visits: every entry once, in key order.\<close>

lemma map_find_Some_iff: "map_wf m \<Longrightarrow> map_find m k = Some v \<longleftrightarrow> (k, v) \<in> set m"
  by (simp add: map_find_def map_wf_distinct)

lemma map_find_None_iff: "map_find m k = None \<longleftrightarrow> k \<notin> fst ` set m"
  by (simp add: map_find_def map_of_eq_None_iff)

end
