(* ===== verification/MessageDispatcher.thy ===== *)
theory MessageDispatcher
  imports PacketCodec StdMap
begin

text \<open>
  \<^verbatim>\<open>net/MessageDispatcher.h\<close> and \<^verbatim>\<open>.cpp\<close>: the table of message handlers. A handler is a
  \<^verbatim>\<open>std::function\<close>, which may be empty; calling it changes the state of the world, which is a
  parameter of the model. \<open>handler_table\<close> is the abstract table that the dispatcher implements.
\<close>

section \<open>The dispatcher\<close>

datatype MessageDispatchErrorCode =
    Msd_None
  | Msd_InvalidMessageId
  | Msd_HandlerEmpty
  | Msd_HandlerAlreadyRegistered
  | Msd_HandlerNotFound

fun MessageDispatchErrorMessage :: "MessageDispatchErrorCode \<Rightarrow> string" where
  "MessageDispatchErrorMessage Msd_None = ''Success.''"
| "MessageDispatchErrorMessage Msd_InvalidMessageId = ''Message msgId must not be zero.''"
| "MessageDispatchErrorMessage Msd_HandlerEmpty = ''Message handler must not be empty.''"
| "MessageDispatchErrorMessage Msd_HandlerAlreadyRegistered =
     ''Message handler already registered for msgId.''"
| "MessageDispatchErrorMessage Msd_HandlerNotFound = ''Message handler not found for msgId.''"

type_synonym 'w MessageHandler = "PacketView \<Rightarrow> 'w \<Rightarrow> 'w"

record 'w MessageDispatcher =
  md_handlers :: "(u32, 'w MessageHandler) std_map"

definition new_MessageDispatcher :: "'w MessageDispatcher" where
  "new_MessageDispatcher = \<lparr>md_handlers = []\<rparr>"

definition RegisterHandler ::
    "u32 \<Rightarrow> 'w MessageHandler option \<Rightarrow> 'w MessageDispatcher \<Rightarrow> MessageDispatchErrorCode \<times> 'w MessageDispatcher" where
  "RegisterHandler msg_id handler d =
     (if msg_id = 0 then (Msd_InvalidMessageId, d)
      else case handler of
        None \<Rightarrow> (Msd_HandlerEmpty, d)
      | Some h \<Rightarrow>
          (case map_emplace msg_id h (md_handlers d) of (inserted, handlers) \<Rightarrow>
             if \<not> inserted then (Msd_HandlerAlreadyRegistered, d\<lparr>md_handlers := handlers\<rparr>)
             else (Msd_None, d\<lparr>md_handlers := handlers\<rparr>)))"

definition UnregisterHandler ::
    "u32 \<Rightarrow> 'w MessageDispatcher \<Rightarrow> MessageDispatchErrorCode \<times> 'w MessageDispatcher" where
  "UnregisterHandler msg_id d =
     (if msg_id = 0 then (Msd_InvalidMessageId, d)
      else let erased = length (md_handlers d) - length (map_erase msg_id (md_handlers d));
               d' = d\<lparr>md_handlers := map_erase msg_id (md_handlers d)\<rparr> in
        if erased = 0 then (Msd_HandlerNotFound, d') else (Msd_None, d'))"

definition Dispatch :: "PacketView \<Rightarrow> 'w MessageDispatcher \<Rightarrow> 'w \<Rightarrow> MessageDispatchErrorCode \<times> 'w" where
  "Dispatch packet d world =
     (if ph_msg_id (pv_header packet) = 0 then (Msd_InvalidMessageId, world)
      else case map_find (md_handlers d) (ph_msg_id (pv_header packet)) of
        None \<Rightarrow> (Msd_HandlerNotFound, world)
      | Some handler \<Rightarrow> (Msd_None, handler packet world))"

definition dispatcher_Clear :: "'w MessageDispatcher \<Rightarrow> 'w MessageDispatcher" where
  "dispatcher_Clear d = d\<lparr>md_handlers := []\<rparr>"

definition HasHandler :: "u32 \<Rightarrow> 'w MessageDispatcher \<Rightarrow> bool" where
  "HasHandler msg_id d \<longleftrightarrow> map_find (md_handlers d) msg_id \<noteq> None"

definition handler_count :: "'w MessageDispatcher \<Rightarrow> nat" where
  "handler_count d = length (md_handlers d)"

section \<open>Invariant and operations on the abstract table\<close>

text \<open>The table is well formed and the reserved message id zero has no handler.\<close>

definition dispatcher_inv :: "'w MessageDispatcher \<Rightarrow> bool" where
  "dispatcher_inv d \<longleftrightarrow> map_wf (md_handlers d) \<and> map_find (md_handlers d) 0 = None"

definition handler_table :: "'w MessageDispatcher \<Rightarrow> u32 \<rightharpoonup> 'w MessageHandler" where
  "handler_table d = map_find (md_handlers d)"

lemma RegisterHandler_effect:
  "dispatcher_inv d \<Longrightarrow> RegisterHandler i h d = (e, d') \<Longrightarrow>
     dispatcher_inv d' \<and> (e = Msd_None \<longleftrightarrow> i \<noteq> 0 \<and> h \<noteq> None \<and> handler_table d i = None) \<and>
     handler_table d' = (if e = Msd_None then (handler_table d)(i := h) else handler_table d)"
  by (auto simp: RegisterHandler_def map_emplace_def dispatcher_inv_def handler_table_def std_map_find
      std_map_invar split: option.splits if_splits)

lemma map_erase_absent: "map_find m k = None \<Longrightarrow> map_erase k m = m"
  by (auto simp: map_find_None_iff map_erase_def filter_id_conv image_iff)

lemma UnregisterHandler_effect:
  assumes inv: "dispatcher_inv d" and step: "UnregisterHandler i d = (e, d')"
  shows "dispatcher_inv d' \<and> (e = Msd_None \<longleftrightarrow> i \<noteq> 0 \<and> handler_table d i \<noteq> None) \<and>
     handler_table d' = (if e = Msd_None then (handler_table d)(i := None) else handler_table d)"
proof (cases "handler_table d i")
  case None
  with inv step show ?thesis
    by (auto simp: UnregisterHandler_def handler_table_def map_erase_absent Let_def split: if_splits)
next
  case (Some h)
  with inv have "i \<noteq> 0" by (auto simp: handler_table_def dispatcher_inv_def)
  moreover have "length (md_handlers d) - length (map_erase i (md_handlers d)) = 1"
    using std_map.card_erase [of "md_handlers d" i h] Some inv by (auto simp: handler_table_def dispatcher_inv_def)
  ultimately show ?thesis using inv step Some
    by (auto simp: UnregisterHandler_def handler_table_def dispatcher_inv_def std_map_find std_map_invar)
qed

lemma Clear_effect: "dispatcher_inv (dispatcher_Clear d) \<and> handler_table (dispatcher_Clear d) = Map.empty"
  by (simp add: dispatcher_inv_def handler_table_def dispatcher_Clear_def std_map_find std_map_invar)

lemma new_MessageDispatcher_inv:
  "dispatcher_inv new_MessageDispatcher \<and> handler_table new_MessageDispatcher = Map.empty"
  by (simp add: dispatcher_inv_def handler_table_def new_MessageDispatcher_def std_map_find std_map_invar)

section \<open>Histories of calls\<close>

datatype 'w dispatcher_call =
    Call_Register u32 "'w MessageHandler option"
  | Call_Unregister u32
  | Call_Clear

fun apply_call :: "'w dispatcher_call \<Rightarrow> 'w MessageDispatcher \<Rightarrow> 'w MessageDispatcher" where
  "apply_call (Call_Register i h) d = snd (RegisterHandler i h d)"
| "apply_call (Call_Unregister i) d = snd (UnregisterHandler i d)"
| "apply_call Call_Clear d = dispatcher_Clear d"

text \<open>What the calls mean for a table of handlers.\<close>

fun table_call :: "'w dispatcher_call \<Rightarrow> (u32 \<rightharpoonup> 'w MessageHandler) \<Rightarrow> (u32 \<rightharpoonup> 'w MessageHandler)" where
  "table_call (Call_Register i h) t = (if i \<noteq> 0 \<and> h \<noteq> None \<and> t i = None then t(i := h) else t)"
| "table_call (Call_Unregister i) t = t(i := None)"
| "table_call Call_Clear t = Map.empty"

lemma dispatcher_call_refines:
  assumes "dispatcher_inv d"
  shows "dispatcher_inv (apply_call c d)"
    and "handler_table (apply_call c d) = table_call c (handler_table d)"
proof -
  have "dispatcher_inv (apply_call c d) \<and> handler_table (apply_call c d) = table_call c (handler_table d)"
  proof (cases c)
    case (Call_Register i h)
    with RegisterHandler_effect [OF assms, of i h] show ?thesis
      by (cases "RegisterHandler i h d") auto
  next
    case (Call_Unregister i)
    have "handler_table d i = None \<Longrightarrow> (handler_table d)(i := None) = handler_table d" by auto
    with Call_Unregister UnregisterHandler_effect [OF assms, of i] assms show ?thesis
      by (cases "UnregisterHandler i d") (auto simp: dispatcher_inv_def handler_table_def)
  next
    case Call_Clear
    then show ?thesis by (simp add: Clear_effect)
  qed
  then show "dispatcher_inv (apply_call c d)"
    and "handler_table (apply_call c d) = table_call c (handler_table d)" by simp_all
qed

lemma dispatcher_calls_refine:
  assumes "dispatcher_inv d"
  shows "dispatcher_inv (fold apply_call cs d) \<and>
    handler_table (fold apply_call cs d) = fold table_call cs (handler_table d)"
  using assms by (induction cs arbitrary: d) (simp_all add: dispatcher_call_refines)

text \<open>
  C24. After any sequence of registrations, unregistrations and clears on a fresh dispatcher, a
  packet is dispatched to the handler that the abstract table holds for its message id (the first
  registration since the id was last free) and to no other; with no such handler the world is
  left alone and \<^verbatim>\<open>HandlerNotFound\<close> is returned, and the reserved id zero is always refused.
\<close>

theorem dispatch_follows_history:
  "Dispatch packet (fold apply_call calls new_MessageDispatcher) world =
     (if ph_msg_id (pv_header packet) = 0 then (Msd_InvalidMessageId, world)
      else case fold table_call calls Map.empty (ph_msg_id (pv_header packet)) of
        None \<Rightarrow> (Msd_HandlerNotFound, world)
      | Some handler \<Rightarrow> (Msd_None, handler packet world))"
  using dispatcher_calls_refine [OF new_MessageDispatcher_inv [THEN conjunct1], of calls]
  by (simp add: Dispatch_def handler_table_def new_MessageDispatcher_inv [unfolded handler_table_def])

end
