(* ===== verification/ZmqSockets.thy ===== *)
theory ZmqSockets
  imports Prelude
begin

text \<open>
  \<^verbatim>\<open>ipc/\<close>: the wrappers around ZeroMQ. \<^verbatim>\<open>ZmqContext\<close>, the ROUTER socket of
  \<^verbatim>\<open>ZmqPassiveListener\<close> and the DEALER socket of \<^verbatim>\<open>ZmqActiveConnector\<close> with their state machines,
  and the counters of \<^verbatim>\<open>ZmqListenerMetrics\<close>. libzmq itself is a parameter: a sequence that tells for
  every call whether it succeeds and with which error text. Log output and the scheduling of the
  pump timer are left out; the pump's two polls are operations.
\<close>

section \<open>Error codes and state names\<close>

datatype ZmqSocketErrorCode =
    Zse_None | Zse_InvalidState | Zse_AlreadyRunning | Zse_ContextNotInitialized | Zse_EndpointEmpty
  | Zse_PollIntervalMustBePositive | Zse_HighWaterMarkNegative | Zse_TimingOptionNegative
  | Zse_SocketCreateFailed | Zse_SocketOptionFailed | Zse_MonitorEnableFailed
  | Zse_MonitorSocketCreateFailed | Zse_MonitorSocketConnectFailed | Zse_ConnectFailed | Zse_BindFailed
  | Zse_LastEndpointQueryFailed | Zse_NotStarted | Zse_EmptyRoutingId | Zse_RoutingIdSendFailed
  | Zse_PayloadSendFailed | Zse_MessageSendFailed | Zse_ReceiveFailed | Zse_MonitorReceiveFailed
  | Zse_MultipartNotSupported | Zse_PayloadMissing | Zse_TimerPumpFailed

fun ZmqSocketErrorMessage :: "ZmqSocketErrorCode \<Rightarrow> string" where
  "ZmqSocketErrorMessage Zse_None = ''No error.''"
| "ZmqSocketErrorMessage Zse_InvalidState = ''Object is in an invalid state.''"
| "ZmqSocketErrorMessage Zse_AlreadyRunning = ''Socket endpoint is already running.''"
| "ZmqSocketErrorMessage Zse_ContextNotInitialized = ''ZeroMQ context is not initialized.''"
| "ZmqSocketErrorMessage Zse_EndpointEmpty = ''ZeroMQ endpoint must not be empty.''"
| "ZmqSocketErrorMessage Zse_PollIntervalMustBePositive = ''ZeroMQ poll interval must be greater than zero.''"
| "ZmqSocketErrorMessage Zse_HighWaterMarkNegative = ''ZeroMQ high water marks must not be negative.''"
| "ZmqSocketErrorMessage Zse_TimingOptionNegative = ''ZeroMQ timing options must not be negative.''"
| "ZmqSocketErrorMessage Zse_SocketCreateFailed = ''Failed to create ZeroMQ socket.''"
| "ZmqSocketErrorMessage Zse_SocketOptionFailed = ''Failed to configure ZeroMQ socket option.''"
| "ZmqSocketErrorMessage Zse_MonitorEnableFailed = ''Failed to enable ZeroMQ socket monitor.''"
| "ZmqSocketErrorMessage Zse_MonitorSocketCreateFailed = ''Failed to create ZeroMQ monitor socket.''"
| "ZmqSocketErrorMessage Zse_MonitorSocketConnectFailed = ''Failed to connect ZeroMQ monitor socket.''"
| "ZmqSocketErrorMessage Zse_ConnectFailed = ''Failed to connect ZeroMQ socket.''"
| "ZmqSocketErrorMessage Zse_BindFailed = ''Failed to bind ZeroMQ socket.''"
| "ZmqSocketErrorMessage Zse_LastEndpointQueryFailed = ''Failed to query ZeroMQ last endpoint.''"
| "ZmqSocketErrorMessage Zse_NotStarted = ''ZeroMQ socket endpoint has not been started.''"
| "ZmqSocketErrorMessage Zse_EmptyRoutingId = ''ZeroMQ routing id must not be empty.''"
| "ZmqSocketErrorMessage Zse_RoutingIdSendFailed = ''Failed to send ZeroMQ routing id frame.''"
| "ZmqSocketErrorMessage Zse_PayloadSendFailed = ''Failed to send ZeroMQ payload frame.''"
| "ZmqSocketErrorMessage Zse_MessageSendFailed = ''Failed to send ZeroMQ message.''"
| "ZmqSocketErrorMessage Zse_ReceiveFailed = ''Failed to receive ZeroMQ message.''"
| "ZmqSocketErrorMessage Zse_MonitorReceiveFailed = ''Failed to receive ZeroMQ monitor event.''"
| "ZmqSocketErrorMessage Zse_MultipartNotSupported = ''Multipart ZeroMQ messages are not supported.''"
| "ZmqSocketErrorMessage Zse_PayloadMissing = ''ZeroMQ message payload frame is missing.''"
| "ZmqSocketErrorMessage Zse_TimerPumpFailed = ''Asio timer pump failed while driving ZeroMQ.''"

datatype ZmqConnectionState = Zmq_Stopped | Zmq_Connecting | Zmq_Connected | Zmq_Disconnected

fun ZmqConnectionStateName :: "ZmqConnectionState \<Rightarrow> string" where
  "ZmqConnectionStateName Zmq_Stopped = ''Stopped''"
| "ZmqConnectionStateName Zmq_Connecting = ''Connecting''"
| "ZmqConnectionStateName Zmq_Connected = ''Connected''"
| "ZmqConnectionStateName Zmq_Disconnected = ''Disconnected''"

datatype ZmqListenerState = Listener_Stopped | Listener_Listening

fun ZmqListenerStateName :: "ZmqListenerState \<Rightarrow> string" where
  "ZmqListenerStateName Listener_Stopped = ''Stopped''"
| "ZmqListenerStateName Listener_Listening = ''Listening''"

section \<open>libzmq\<close>

text \<open>
  The calls into libzmq are numbered in the order they are made; \<open>zmq_succeeds\<close> tells whether a
  call succeeds, \<open>zmq_strerror\<close> is the text of its error and \<open>zmq_last_endpoint\<close> what a query of the
  bound endpoint returns; \<open>wall_clock\<close> is the system clock, in milliseconds, at that time. A theorem for every such sequence is a theorem for every behaviour of
  the library. Operations that call libzmq take and return the number of the next call.
\<close>

record libzmq =
  zmq_succeeds :: "nat \<Rightarrow> bool"
  zmq_strerror :: "nat \<Rightarrow> string"
  zmq_last_endpoint :: "nat \<Rightarrow> string"
  wall_clock :: "nat \<Rightarrow> u64"

definition BuildZmqErrorMessage :: "string \<Rightarrow> string \<Rightarrow> string" where
  "BuildZmqErrorMessage prefix error_text = prefix @ '': '' @ error_text"

text \<open>
  A sequence of calls, each with the code and the message prefix of its failure; the result is the
  first failure, if any, and the number of the next call.
\<close>

fun zmq_calls ::
    "libzmq \<Rightarrow> (ZmqSocketErrorCode \<times> string) list \<Rightarrow> nat \<Rightarrow> (ZmqSocketErrorCode \<times> string) option \<times> nat" where
  "zmq_calls zmq [] tick = (None, tick)"
| "zmq_calls zmq ((code, prefix) # calls) tick =
     (if zmq_succeeds zmq tick then zmq_calls zmq calls (Suc tick)
      else (Some (code, BuildZmqErrorMessage prefix (zmq_strerror zmq tick)), Suc tick))"

lemma zmq_calls_None:
  "fst (zmq_calls zmq calls tick) = None \<longleftrightarrow> (\<forall>i < length calls. zmq_succeeds zmq (tick + i))"
proof (induction zmq calls tick rule: zmq_calls.induct)
  case (2 zmq code prefix calls tick)
  then show ?case by (simp add: All_less_Suc2)
qed simp

lemma zmq_calls_code: "zmq_calls zmq calls tick = (Some (code, message), tick') \<Longrightarrow> code \<in> fst ` set calls"
  by (induction zmq calls tick rule: zmq_calls.induct) (auto split: if_splits)

section \<open>Context\<close>

record ZmqContextOptions =
  zco_io_threads :: int
  zco_max_sockets :: int

definition default_ZmqContextOptions :: ZmqContextOptions where
  "default_ZmqContextOptions = \<lparr>zco_io_threads = 1, zco_max_sockets = 1023\<rparr>"

record ZmqContext =
  zcx_options :: ZmqContextOptions
  zcx_context :: bool
  zcx_initialization_error :: string

definition new_ZmqContext :: "libzmq \<Rightarrow> ZmqContextOptions \<Rightarrow> nat \<Rightarrow> ZmqContext \<times> nat" where
  "new_ZmqContext zmq options tick =
     (let invalid = \<lparr>zcx_options = options, zcx_context = False, zcx_initialization_error = []\<rparr> in
      if zco_io_threads options < 1
      then (invalid\<lparr>zcx_initialization_error := ''ZeroMQ io_threads must be greater than zero.''\<rparr>, tick)
      else if zco_max_sockets options < 1
      then (invalid\<lparr>zcx_initialization_error := ''ZeroMQ max_sockets must be greater than zero.''\<rparr>, tick)
      else case zmq_calls zmq
          [(Zse_ContextNotInitialized, ''Failed to create ZeroMQ context''),
           (Zse_ContextNotInitialized, ''Failed to configure ZeroMQ io_threads''),
           (Zse_ContextNotInitialized, ''Failed to configure ZeroMQ max_sockets'')] tick of
        (Some (_, message), tick) \<Rightarrow> (invalid\<lparr>zcx_initialization_error := message\<rparr>, tick)
      | (None, tick) \<Rightarrow> (invalid\<lparr>zcx_context := True\<rparr>, tick))"

definition ctx_IsValid :: "ZmqContext \<Rightarrow> bool" where
  "ctx_IsValid context \<longleftrightarrow> zcx_context context"

section \<open>Listener metrics\<close>

record ZmqListenerMetrics =
  zm_active_connection_count :: u64
  zm_received_message_count :: u64
  zm_received_payload_bytes :: u64
  zm_sent_message_count :: u64
  zm_sent_payload_bytes :: u64
  zm_snapshot_unix_ms :: u64

definition metrics_Reset :: ZmqListenerMetrics where
  "metrics_Reset = \<lparr>zm_active_connection_count = 0, zm_received_message_count = 0,
     zm_received_payload_bytes = 0, zm_sent_message_count = 0, zm_sent_payload_bytes = 0,
     zm_snapshot_unix_ms = 0\<rparr>"

definition SetActiveConnectionCount :: "u64 \<Rightarrow> u64 \<Rightarrow> ZmqListenerMetrics \<Rightarrow> ZmqListenerMetrics" where
  "SetActiveConnectionCount now connection_count m =
     (if zm_active_connection_count m = connection_count then m
      else m\<lparr>zm_active_connection_count := connection_count, zm_snapshot_unix_ms := now\<rparr>)"

definition RecordReceivedMessage :: "u64 \<Rightarrow> nat \<Rightarrow> ZmqListenerMetrics \<Rightarrow> ZmqListenerMetrics" where
  "RecordReceivedMessage now payload_size m =
     m\<lparr>zm_received_message_count := zm_received_message_count m + 1,
       zm_received_payload_bytes := zm_received_payload_bytes m + word_of_nat payload_size,
       zm_snapshot_unix_ms := now\<rparr>"

definition RecordSentMessage :: "u64 \<Rightarrow> nat \<Rightarrow> ZmqListenerMetrics \<Rightarrow> ZmqListenerMetrics" where
  "RecordSentMessage now payload_size m =
     m\<lparr>zm_sent_message_count := zm_sent_message_count m + 1,
       zm_sent_payload_bytes := zm_sent_payload_bytes m + word_of_nat payload_size,
       zm_snapshot_unix_ms := now\<rparr>"


section \<open>The passive listener\<close>

record ZmqPassiveListenerOptions =
  zlo_local_endpoint :: string
  zlo_poll_interval :: int
  zlo_send_high_water_mark :: int
  zlo_receive_high_water_mark :: int
  zlo_handshake_interval_ms :: int

definition default_ZmqPassiveListenerOptions :: ZmqPassiveListenerOptions where
  "default_ZmqPassiveListenerOptions = \<lparr>zlo_local_endpoint = [], zlo_poll_interval = 1,
     zlo_send_high_water_mark = 1024, zlo_receive_high_water_mark = 1024, zlo_handshake_interval_ms = 3000\<rparr>"

text \<open>\<open>zl_sent\<close> lists the messages libzmq has accepted, with the routing ids they are addressed to.\<close>

record ZmqPassiveListener =
  zl_context :: ZmqContext
  zl_options :: ZmqPassiveListenerOptions
  zl_socket :: bool
  zl_monitor_socket :: bool
  zl_bound_endpoint :: string
  zl_active_connection_ids :: "u32 list"
  zl_metrics :: ZmqListenerMetrics
  zl_running :: bool
  zl_state :: ZmqListenerState
  zl_last_error_message :: string
  zl_sent :: "(byte list \<times> byte list) list"

definition new_ZmqPassiveListener :: "ZmqContext \<Rightarrow> ZmqPassiveListenerOptions \<Rightarrow> ZmqPassiveListener" where
  "new_ZmqPassiveListener context options =
     \<lparr>zl_context = context, zl_options = options, zl_socket = False, zl_monitor_socket = False,
      zl_bound_endpoint = [], zl_active_connection_ids = [], zl_metrics = metrics_Reset,
      zl_running = False, zl_state = Listener_Stopped, zl_last_error_message = [], zl_sent = []\<rparr>"

definition listener_SetLastError ::
    "ZmqSocketErrorCode \<Rightarrow> string \<Rightarrow> ZmqPassiveListener \<Rightarrow> ZmqSocketErrorCode \<times> ZmqPassiveListener" where
  "listener_SetLastError code message l = (code, l\<lparr>zl_last_error_message := message\<rparr>)"

definition listener_ValidateOptions :: "ZmqPassiveListener \<Rightarrow> ZmqSocketErrorCode \<times> ZmqPassiveListener" where
  "listener_ValidateOptions l =
     (if \<not> ctx_IsValid (zl_context l) then
        listener_SetLastError Zse_ContextNotInitialized ''ZeroMQ context is not initialized.'' l
      else if zlo_local_endpoint (zl_options l) = [] then
        listener_SetLastError Zse_EndpointEmpty ''ZeroMQ passive listener local_endpoint must not be empty.'' l
      else if zlo_poll_interval (zl_options l) \<le> 0 then
        listener_SetLastError Zse_PollIntervalMustBePositive
          ''ZeroMQ passive listener poll_interval must be greater than zero.'' l
      else if zlo_send_high_water_mark (zl_options l) < 0 \<or> zlo_receive_high_water_mark (zl_options l) < 0 then
        listener_SetLastError Zse_HighWaterMarkNegative
          ''ZeroMQ passive listener high water marks must not be negative.'' l
      else if zlo_handshake_interval_ms (zl_options l) < 0 then
        listener_SetLastError Zse_TimingOptionNegative
          ''ZeroMQ passive listener handshake_interval_ms must not be negative.'' l
      else (Zse_None, l))"

definition listener_OpenSockets ::
    "libzmq \<Rightarrow> ZmqPassiveListener \<Rightarrow> nat \<Rightarrow> ZmqSocketErrorCode \<times> ZmqPassiveListener \<times> nat" where
  "listener_OpenSockets zmq l tick =
     (case zmq_calls zmq
        ([(Zse_SocketCreateFailed, ''Failed to create ZeroMQ ROUTER socket'')] @
         replicate 5 (Zse_SocketOptionFailed, ''Failed to configure ZeroMQ socket option'') @
         [(Zse_MonitorEnableFailed, ''Failed to enable ZeroMQ socket monitor''),
          (Zse_MonitorSocketCreateFailed, ''Failed to create ZeroMQ monitor socket''),
          (Zse_SocketOptionFailed, ''Failed to configure ZeroMQ socket option''),
          (Zse_MonitorSocketConnectFailed, ''Failed to connect ZeroMQ monitor socket''),
          (Zse_BindFailed, ''Failed to bind ZeroMQ ROUTER socket''),
          (Zse_LastEndpointQueryFailed, ''Failed to query ZeroMQ last endpoint'')]) tick of
        (Some (code, message), tick') \<Rightarrow>
          (case listener_SetLastError code message l of (code, l) \<Rightarrow> (code, l, tick'))
      | (None, tick') \<Rightarrow> (Zse_None, l\<lparr>zl_socket := True, zl_monitor_socket := True,
          zl_bound_endpoint := zmq_last_endpoint zmq (tick' - 1)\<rparr>, tick'))"

definition listener_CloseSockets :: "ZmqPassiveListener \<Rightarrow> ZmqPassiveListener" where
  "listener_CloseSockets l = l\<lparr>zl_monitor_socket := False, zl_socket := False, zl_bound_endpoint := []\<rparr>"

definition listener_Start ::
    "libzmq \<Rightarrow> ZmqPassiveListener \<Rightarrow> nat \<Rightarrow> ZmqSocketErrorCode \<times> ZmqPassiveListener \<times> nat" where
  "listener_Start zmq l tick =
     (if zl_running l then
        case listener_SetLastError Zse_AlreadyRunning ''ZeroMQ passive listener is already running.'' l of
          (code, l) \<Rightarrow> (code, l, tick)
      else case listener_ValidateOptions l of (validation_result, l) \<Rightarrow>
        if validation_result \<noteq> Zse_None then (validation_result, l, tick)
        else case listener_OpenSockets zmq l tick of (open_result, l, tick) \<Rightarrow>
          if open_result \<noteq> Zse_None then (open_result, listener_CloseSockets l, tick)
          else (Zse_None, l\<lparr>zl_active_connection_ids := [], zl_metrics := metrics_Reset, zl_running := True,
            zl_last_error_message := [], zl_state := Listener_Listening\<rparr>, tick))"

definition listener_Stop :: "ZmqPassiveListener \<Rightarrow> ZmqPassiveListener" where
  "listener_Stop l = (listener_CloseSockets (l\<lparr>zl_running := False\<rparr>))
     \<lparr>zl_active_connection_ids := [], zl_last_error_message := [], zl_state := Listener_Stopped\<rparr>"

text \<open>The routing id frame and the payload frame are two calls; the message counts once both succeed.\<close>

definition listener_Send ::
    "libzmq \<Rightarrow> byte list \<Rightarrow> byte list \<Rightarrow> ZmqPassiveListener \<Rightarrow> nat \<Rightarrow>
     ZmqSocketErrorCode \<times> ZmqPassiveListener \<times> nat" where
  "listener_Send zmq routing_id message l tick =
     (if \<not> zl_running l \<or> \<not> zl_socket l then
        case listener_SetLastError Zse_NotStarted ''ZeroMQ passive listener must be started before Send().'' l of
          (code, l) \<Rightarrow> (code, l, tick)
      else if routing_id = [] then
        case listener_SetLastError Zse_EmptyRoutingId ''ZeroMQ passive listener routing_id must not be empty.'' l of
          (code, l) \<Rightarrow> (code, l, tick)
      else case zmq_calls zmq
          [(Zse_RoutingIdSendFailed, ''Failed to send ZeroMQ routing id frame''),
           (Zse_PayloadSendFailed, ''Failed to send ZeroMQ payload frame'')] tick of
        (Some (code, error_message), tick) \<Rightarrow>
          (case listener_SetLastError code error_message l of (code, l) \<Rightarrow> (code, l, tick))
      | (None, tick) \<Rightarrow> (Zse_None, l\<lparr>zl_metrics := RecordSentMessage (wall_clock zmq tick) (length message) (zl_metrics l),
          zl_last_error_message := [], zl_sent := zl_sent l @ [(routing_id, message)]\<rparr>, tick))"

definition HandleAcceptedConnection :: "u64 \<Rightarrow> u32 \<Rightarrow> ZmqPassiveListener \<Rightarrow> ZmqPassiveListener" where
  "HandleAcceptedConnection now socket_id l =
     (if socket_id \<in> set (zl_active_connection_ids l) then l
      else let ids = socket_id # zl_active_connection_ids l in
        l\<lparr>zl_active_connection_ids := ids,
          zl_metrics := SetActiveConnectionCount now (word_of_nat (length ids)) (zl_metrics l)\<rparr>)"

definition HandleDisconnectedConnection :: "u64 \<Rightarrow> u32 \<Rightarrow> ZmqPassiveListener \<Rightarrow> ZmqPassiveListener" where
  "HandleDisconnectedConnection now socket_id l =
     (if socket_id \<notin> set (zl_active_connection_ids l) then l
      else let ids = remove1 socket_id (zl_active_connection_ids l) in
        l\<lparr>zl_active_connection_ids := ids,
          zl_metrics := SetActiveConnectionCount now (word_of_nat (length ids)) (zl_metrics l)\<rparr>)"

text \<open>
  What a non-blocking receive finds: a multipart message as the list of its frames, or an error
  other than \<^verbatim>\<open>EAGAIN\<close>; \<^verbatim>\<open>EAGAIN\<close> is the end of the list. A multipart message is delivered
  as a whole.
\<close>

datatype zmq_incoming = Frames "byte list list" | Receive_error string

definition listener_ReceiveMessage ::
    "zmq_incoming \<Rightarrow> ZmqPassiveListener \<Rightarrow> (byte list \<times> byte list) option \<times> ZmqPassiveListener" where
  "listener_ReceiveMessage incoming l =
     (case incoming of
        Receive_error text \<Rightarrow> (None, l\<lparr>zl_last_error_message :=
          BuildZmqErrorMessage ''Failed to receive ZeroMQ routing id frame'' text\<rparr>)
      | Frames [routing_id, payload] \<Rightarrow> (Some (routing_id, payload), l\<lparr>zl_last_error_message := []\<rparr>)
      | Frames (routing_id # payload # rest) \<Rightarrow> (None, l\<lparr>zl_last_error_message :=
          ''ZeroMQ passive listener only supports routing id plus single-frame payload.''\<rparr>)
      | Frames _ \<Rightarrow> (None, l\<lparr>zl_last_error_message :=
          ''ZeroMQ passive listener expected a payload frame after routing id.''\<rparr>))"

text \<open>
  The loop of \<^verbatim>\<open>PollIncomingMessages\<close>: it stops at the first message it cannot take, which is
  consumed, and when the handler has stopped the listener. The handler may change the listener.
  The result carries what is left to receive.
\<close>

fun listener_PollIncomingMessages ::
    "u64 \<Rightarrow> (byte list \<Rightarrow> byte list \<Rightarrow> ZmqPassiveListener \<Rightarrow> ZmqPassiveListener) \<Rightarrow> zmq_incoming list \<Rightarrow>
     ZmqPassiveListener \<Rightarrow> zmq_incoming list \<times> ZmqPassiveListener" where
  "listener_PollIncomingMessages now handler [] l = ([], l)"
| "listener_PollIncomingMessages now handler (incoming # queue) l =
     (if \<not> zl_running l \<or> \<not> zl_socket l then (incoming # queue, l)
      else case listener_ReceiveMessage incoming l of
        (None, l) \<Rightarrow> (queue, l)
      | (Some (routing_id, message), l) \<Rightarrow>
          if message = [] then listener_PollIncomingMessages now handler queue l
          else let l = l\<lparr>zl_metrics := RecordReceivedMessage now (length message) (zl_metrics l)\<rparr> in
            listener_PollIncomingMessages now handler queue (handler routing_id message l))"

section \<open>The active connector\<close>

record ZmqActiveConnectorOptions =
  zao_remote_endpoint :: string
  zao_routing_id :: string
  zao_poll_interval :: int
  zao_send_high_water_mark :: int
  zao_receive_high_water_mark :: int
  zao_reconnect_interval_ms :: int
  zao_reconnect_interval_max_ms :: int
  zao_handshake_interval_ms :: int

definition default_ZmqActiveConnectorOptions :: ZmqActiveConnectorOptions where
  "default_ZmqActiveConnectorOptions = \<lparr>zao_remote_endpoint = [], zao_routing_id = [], zao_poll_interval = 1,
     zao_send_high_water_mark = 1024, zao_receive_high_water_mark = 1024, zao_reconnect_interval_ms = 100,
     zao_reconnect_interval_max_ms = 1000, zao_handshake_interval_ms = 3000\<rparr>"

record ZmqActiveConnector =
  zc_context :: ZmqContext
  zc_options :: ZmqActiveConnectorOptions
  zc_socket :: bool
  zc_monitor_socket :: bool
  zc_running :: bool
  zc_state :: ZmqConnectionState
  zc_last_error_message :: string
  zc_sent :: "byte list list"

definition new_ZmqActiveConnector :: "ZmqContext \<Rightarrow> ZmqActiveConnectorOptions \<Rightarrow> ZmqActiveConnector" where
  "new_ZmqActiveConnector context options =
     \<lparr>zc_context = context, zc_options = options, zc_socket = False, zc_monitor_socket = False,
      zc_running = False, zc_state = Zmq_Stopped, zc_last_error_message = [], zc_sent = []\<rparr>"

definition connector_SetLastError ::
    "ZmqSocketErrorCode \<Rightarrow> string \<Rightarrow> ZmqActiveConnector \<Rightarrow> ZmqSocketErrorCode \<times> ZmqActiveConnector" where
  "connector_SetLastError code message c = (code, c\<lparr>zc_last_error_message := message\<rparr>)"

definition connector_ValidateOptions :: "ZmqActiveConnector \<Rightarrow> ZmqSocketErrorCode \<times> ZmqActiveConnector" where
  "connector_ValidateOptions c =
     (if \<not> ctx_IsValid (zc_context c) then
        connector_SetLastError Zse_ContextNotInitialized ''ZeroMQ context is not initialized.'' c
      else if zao_remote_endpoint (zc_options c) = [] then
        connector_SetLastError Zse_EndpointEmpty ''ZeroMQ active connector remote_endpoint must not be empty.'' c
      else if zao_poll_interval (zc_options c) \<le> 0 then
        connector_SetLastError Zse_PollIntervalMustBePositive
          ''ZeroMQ active connector poll_interval must be greater than zero.'' c
      else if zao_send_high_water_mark (zc_options c) < 0 \<or> zao_receive_high_water_mark (zc_options c) < 0 then
        connector_SetLastError Zse_HighWaterMarkNegative
          ''ZeroMQ active connector high water marks must not be negative.'' c
      else if zao_reconnect_interval_ms (zc_options c) < 0 \<or> zao_reconnect_interval_max_ms (zc_options c) < 0 \<or>
          zao_handshake_interval_ms (zc_options c) < 0 then
        connector_SetLastError Zse_TimingOptionNegative
          ''ZeroMQ active connector timing options must not be negative.'' c
      else (Zse_None, c))"

definition connector_OpenSockets ::
    "libzmq \<Rightarrow> ZmqActiveConnector \<Rightarrow> nat \<Rightarrow> ZmqSocketErrorCode \<times> ZmqActiveConnector \<times> nat" where
  "connector_OpenSockets zmq c tick =
     (case zmq_calls zmq
        ([(Zse_SocketCreateFailed, ''Failed to create ZeroMQ DEALER socket'')] @
         replicate 7 (Zse_SocketOptionFailed, ''Failed to configure ZeroMQ socket option'') @
         (if zao_routing_id (zc_options c) \<noteq> []
          then [(Zse_SocketOptionFailed, ''Failed to configure ZeroMQ socket option'')] else []) @
         [(Zse_MonitorEnableFailed, ''Failed to enable ZeroMQ socket monitor''),
          (Zse_MonitorSocketCreateFailed, ''Failed to create ZeroMQ monitor socket''),
          (Zse_SocketOptionFailed, ''Failed to configure ZeroMQ socket option''),
          (Zse_MonitorSocketConnectFailed, ''Failed to connect ZeroMQ monitor socket''),
          (Zse_ConnectFailed, ''Failed to connect ZeroMQ DEALER socket'')]) tick of
        (Some (code, message), tick) \<Rightarrow>
          (case connector_SetLastError code message c of (code, c) \<Rightarrow> (code, c, tick))
      | (None, tick) \<Rightarrow> (Zse_None, c\<lparr>zc_socket := True, zc_monitor_socket := True\<rparr>, tick))"

definition connector_CloseSockets :: "ZmqActiveConnector \<Rightarrow> ZmqActiveConnector" where
  "connector_CloseSockets c = c\<lparr>zc_monitor_socket := False, zc_socket := False\<rparr>"

definition connector_Start ::
    "libzmq \<Rightarrow> ZmqActiveConnector \<Rightarrow> nat \<Rightarrow> ZmqSocketErrorCode \<times> ZmqActiveConnector \<times> nat" where
  "connector_Start zmq c tick =
     (if zc_running c then
        case connector_SetLastError Zse_AlreadyRunning ''ZeroMQ active connector is already running.'' c of
          (code, c) \<Rightarrow> (code, c, tick)
      else case connector_ValidateOptions c of (validation_result, c) \<Rightarrow>
        if validation_result \<noteq> Zse_None then (validation_result, c, tick)
        else case connector_OpenSockets zmq c tick of (open_result, c, tick) \<Rightarrow>
          if open_result \<noteq> Zse_None then (open_result, connector_CloseSockets c, tick)
          else (Zse_None, c\<lparr>zc_running := True, zc_last_error_message := [], zc_state := Zmq_Connecting\<rparr>, tick))"

definition connector_Stop :: "ZmqActiveConnector \<Rightarrow> ZmqActiveConnector" where
  "connector_Stop c = (connector_CloseSockets (c\<lparr>zc_running := False\<rparr>))
     \<lparr>zc_last_error_message := [], zc_state := Zmq_Stopped\<rparr>"

definition connector_Send ::
    "libzmq \<Rightarrow> byte list \<Rightarrow> ZmqActiveConnector \<Rightarrow> nat \<Rightarrow> ZmqSocketErrorCode \<times> ZmqActiveConnector \<times> nat" where
  "connector_Send zmq message c tick =
     (if \<not> zc_running c \<or> \<not> zc_socket c then
        case connector_SetLastError Zse_NotStarted ''ZeroMQ active connector must be started before Send().'' c of
          (code, c) \<Rightarrow> (code, c, tick)
      else case zmq_calls zmq [(Zse_MessageSendFailed, ''Failed to send ZeroMQ message'')] tick of
        (Some (code, error_message), tick) \<Rightarrow>
          (case connector_SetLastError code error_message c of (code, c) \<Rightarrow> (code, c, tick))
      | (None, tick) \<Rightarrow> (Zse_None, c\<lparr>zc_last_error_message := [], zc_sent := zc_sent c @ [message]\<rparr>, tick))"

text \<open>The events of the socket monitor and the connection state they lead to.\<close>

datatype zmq_event =
    Event_CONNECTED | Event_HANDSHAKE_SUCCEEDED | Event_CONNECT_DELAYED | Event_CONNECT_RETRIED
  | Event_DISCONNECTED | Event_CLOSED | Event_CLOSE_FAILED | Event_HANDSHAKE_FAILED_NO_DETAIL
  | Event_HANDSHAKE_FAILED_PROTOCOL | Event_HANDSHAKE_FAILED_AUTH | Event_MONITOR_STOPPED

fun event_state :: "zmq_event \<Rightarrow> ZmqConnectionState \<Rightarrow> ZmqConnectionState" where
  "event_state Event_CONNECTED state = Zmq_Connected"
| "event_state Event_HANDSHAKE_SUCCEEDED state = Zmq_Connected"
| "event_state Event_CONNECT_DELAYED state = (if state \<noteq> Zmq_Connected then Zmq_Connecting else state)"
| "event_state Event_CONNECT_RETRIED state = (if state \<noteq> Zmq_Connected then Zmq_Connecting else state)"
| "event_state Event_MONITOR_STOPPED state = state"
| "event_state _ state = Zmq_Disconnected"

text \<open>
  \<^verbatim>\<open>PollMonitor\<close> handles the pending events in order while the connector runs; every change of
  state is announced to the state handler, which may change the connector, for instance stop it.
\<close>

fun connector_PollMonitor ::
    "(ZmqConnectionState \<Rightarrow> ZmqActiveConnector \<Rightarrow> ZmqActiveConnector) \<Rightarrow> zmq_event list \<Rightarrow>
     ZmqActiveConnector \<Rightarrow> ZmqActiveConnector" where
  "connector_PollMonitor handler [] c = c"
| "connector_PollMonitor handler (event # events) c =
     (if \<not> zc_running c \<or> \<not> zc_monitor_socket c then c
      else let new_state = event_state event (zc_state c) in
        connector_PollMonitor handler events
          (if zc_state c = new_state then c else handler new_state (c\<lparr>zc_state := new_state\<rparr>)))"

definition connector_ReceiveMessage ::
    "zmq_incoming \<Rightarrow> ZmqActiveConnector \<Rightarrow> byte list option \<times> ZmqActiveConnector" where
  "connector_ReceiveMessage incoming c =
     (case incoming of
        Receive_error text \<Rightarrow> (None, c\<lparr>zc_last_error_message :=
          BuildZmqErrorMessage ''Failed to receive ZeroMQ message'' text\<rparr>)
      | Frames [message] \<Rightarrow> (Some message, c\<lparr>zc_last_error_message := []\<rparr>)
      | Frames _ \<Rightarrow> (None, c\<lparr>zc_last_error_message :=
          ''ZeroMQ active connector only supports single-frame messages.''\<rparr>))"

fun connector_PollIncomingMessages ::
    "(byte list \<Rightarrow> ZmqActiveConnector \<Rightarrow> ZmqActiveConnector) \<Rightarrow> zmq_incoming list \<Rightarrow>
     ZmqActiveConnector \<Rightarrow> zmq_incoming list \<times> ZmqActiveConnector" where
  "connector_PollIncomingMessages handler [] c = ([], c)"
| "connector_PollIncomingMessages handler (incoming # queue) c =
     (if \<not> zc_running c \<or> \<not> zc_socket c then (incoming # queue, c)
      else case connector_ReceiveMessage incoming c of
        (None, c) \<Rightarrow> (queue, c)
      | (Some message, c) \<Rightarrow> connector_PollIncomingMessages handler queue (handler message c))"


section \<open>What both kinds of socket promise\<close>

text \<open>
  The interface on which the inner network relies: a failed start leaves the socket closed, a stop
  closes it, and a message is accepted only by a running socket, exactly when the send returns
  success.
\<close>

datatype 'm socket_op = Op_start | Op_stop | Op_send 'm

locale zmq_endpoint =
  fixes running :: "'s \<Rightarrow> bool" and sent :: "'s \<Rightarrow> 'm list" and wf :: "'s \<Rightarrow> bool"
    and start :: "'s \<Rightarrow> nat \<Rightarrow> ZmqSocketErrorCode \<times> 's \<times> nat" and stop :: "'s \<Rightarrow> 's"
    and send :: "'m \<Rightarrow> 's \<Rightarrow> nat \<Rightarrow> ZmqSocketErrorCode \<times> 's \<times> nat"
  assumes start_law: "wf s \<Longrightarrow> start s tick = (e, s', tick') \<Longrightarrow>
      wf s' \<and> sent s' = sent s \<and> (running s' \<longleftrightarrow> running s \<or> e = Zse_None)"
    and stop_law: "wf s \<Longrightarrow> wf (stop s) \<and> sent (stop s) = sent s \<and> \<not> running (stop s)"
    and send_law: "wf s \<Longrightarrow> send m s tick = (e, s', tick') \<Longrightarrow>
      wf s' \<and> (running s' \<longleftrightarrow> running s) \<and> (e = Zse_None \<longrightarrow> running s) \<and>
      sent s' = (if e = Zse_None then sent s @ [m] else sent s)"
begin

fun perform :: "'m socket_op \<Rightarrow> 's \<times> nat \<Rightarrow> 's \<times> nat" where
  "perform Op_start (s, tick) = snd (start s tick)"
| "perform Op_stop (s, tick) = (stop s, tick)"
| "perform (Op_send m) (s, tick) = snd (send m s tick)"

fun op_message :: "'m socket_op \<Rightarrow> 'm list" where
  "op_message (Op_send m) = [m]"
| "op_message _ = []"

lemma perform_law:
  assumes "wf s"
  shows "wf (fst (perform op (s, tick))) \<and>
    (\<exists>ms. sent (fst (perform op (s, tick))) = sent s @ ms \<and> (ms = [] \<or> ms = op_message op \<and> running s)) \<and>
    (op \<noteq> Op_start \<longrightarrow> running (fst (perform op (s, tick))) \<longrightarrow> running s)"
proof (cases op)
  case Op_start
  obtain e s' tick' where "start s tick = (e, s', tick')" by (metis prod_cases3)
  with start_law [OF assms this] Op_start show ?thesis by simp
next
  case Op_stop
  with stop_law [OF assms] show ?thesis by simp
next
  case (Op_send m)
  obtain e s' tick' where r: "send m s tick = (e, s', tick')" by (metis prod_cases3)
  from send_law [OF assms r] r Op_send show ?thesis by auto
qed

lemma fold_perform_wf: "wf (fst st) \<Longrightarrow> wf (fst (fold perform ops st))"
proof (induction ops arbitrary: st)
  case (Cons op ops)
  then show ?case using perform_law [of "fst st" op "snd st"] by simp
qed simp

text \<open>A socket that is not running sends nothing until it is started.\<close>

lemma stopped_sends_nothing:
  assumes "wf (fst st)" "\<not> running (fst st)" "Op_start \<notin> set ops"
  shows "sent (fst (fold perform ops st)) = sent (fst st) \<and> \<not> running (fst (fold perform ops st))"
  using assms
proof (induction ops arbitrary: st)
  case (Cons op ops)
  have "wf (fst (perform op st)) \<and> sent (fst (perform op st)) = sent (fst st) \<and> \<not> running (fst (perform op st))"
    using perform_law [of "fst st" op "snd st"] Cons.prems by auto
  with Cons.IH [of "perform op st"] Cons.prems show ?case by simp
qed simp

end

definition connector_wf :: "ZmqActiveConnector \<Rightarrow> bool" where
  "connector_wf c \<longleftrightarrow> (zc_running c \<longleftrightarrow> zc_state c \<noteq> Zmq_Stopped) \<and> (zc_socket c \<longleftrightarrow> zc_running c) \<and>
     (zc_monitor_socket c \<longleftrightarrow> zc_running c)"

definition listener_wf :: "ZmqPassiveListener \<Rightarrow> bool" where
  "listener_wf l \<longleftrightarrow> (zl_running l \<longleftrightarrow> zl_state l = Listener_Listening) \<and> (zl_socket l \<longleftrightarrow> zl_running l) \<and>
     (zl_monitor_socket l \<longleftrightarrow> zl_running l) \<and> distinct (zl_active_connection_ids l) \<and>
     (\<not> zl_running l \<longrightarrow> zl_active_connection_ids l = [] \<and> zl_bound_endpoint l = []) \<and>
     (zl_running l \<longrightarrow>
        zm_active_connection_count (zl_metrics l) = word_of_nat (length (zl_active_connection_ids l)))"

lemma OpenSockets_cases:
  "listener_OpenSockets zmq l tick = (e, l', tick') \<Longrightarrow>
     e = Zse_None \<and> l' = l\<lparr>zl_socket := True, zl_monitor_socket := True,
       zl_bound_endpoint := zmq_last_endpoint zmq (tick' - 1)\<rparr> \<or>
     e \<noteq> Zse_None \<and> (\<exists>message. l' = l\<lparr>zl_last_error_message := message\<rparr>)"
  "connector_OpenSockets zmq c tick = (e, c', tick') \<Longrightarrow>
     e = Zse_None \<and> c' = c\<lparr>zc_socket := True, zc_monitor_socket := True\<rparr> \<or>
     e \<noteq> Zse_None \<and> (\<exists>message. c' = c\<lparr>zc_last_error_message := message\<rparr>)"
  unfolding listener_OpenSockets_def connector_OpenSockets_def listener_SetLastError_def connector_SetLastError_def
  by (auto split: prod.splits option.splits if_splits dest!: zmq_calls_code simp del: zmq_calls.simps)

lemma ValidateOptions_cases:
  "listener_ValidateOptions l = (e, l') \<Longrightarrow> e = Zse_None \<and> l' = l \<or>
     e \<noteq> Zse_None \<and> (\<exists>message. l' = l\<lparr>zl_last_error_message := message\<rparr>)"
  "connector_ValidateOptions c = (e, c') \<Longrightarrow> e = Zse_None \<and> c' = c \<or>
     e \<noteq> Zse_None \<and> (\<exists>message. c' = c\<lparr>zc_last_error_message := message\<rparr>)"
  unfolding listener_ValidateOptions_def connector_ValidateOptions_def listener_SetLastError_def
    connector_SetLastError_def by (auto split: if_splits)

lemmas listener_op_defs = listener_Start_def listener_Stop_def listener_Send_def
  listener_CloseSockets_def listener_SetLastError_def RecordSentMessage_def

lemmas connector_op_defs = connector_Start_def connector_Stop_def connector_Send_def
  connector_CloseSockets_def connector_SetLastError_def

interpretation zmq_connector: zmq_endpoint zc_running zc_sent connector_wf
  "connector_Start zmq" connector_Stop "connector_Send zmq" for zmq
proof
  fix c tick e c' tick' m
  assume wf: "connector_wf c"
  show "connector_Start zmq c tick = (e, c', tick') \<Longrightarrow>
      connector_wf c' \<and> zc_sent c' = zc_sent c \<and> (zc_running c' \<longleftrightarrow> zc_running c \<or> e = Zse_None)"
    using wf by (auto simp: connector_op_defs connector_wf_def
      split: if_splits prod.splits dest!: OpenSockets_cases ValidateOptions_cases)
  show "connector_wf (connector_Stop c) \<and> zc_sent (connector_Stop c) = zc_sent c \<and> \<not> zc_running (connector_Stop c)"
    by (simp add: connector_op_defs connector_wf_def)
  show "connector_Send zmq m c tick = (e, c', tick') \<Longrightarrow>
      connector_wf c' \<and> (zc_running c' \<longleftrightarrow> zc_running c) \<and> (e = Zse_None \<longrightarrow> zc_running c) \<and>
      zc_sent c' = (if e = Zse_None then zc_sent c @ [m] else zc_sent c)"
    using wf by (auto simp: connector_op_defs connector_wf_def split: if_splits)
qed

interpretation zmq_listener: zmq_endpoint zl_running zl_sent listener_wf
  "listener_Start zmq" listener_Stop "\<lambda>m. listener_Send zmq (fst m) (snd m)" for zmq
proof
  fix l tick e l' tick' m
  assume wf: "listener_wf l"
  show "listener_Start zmq l tick = (e, l', tick') \<Longrightarrow>
      listener_wf l' \<and> zl_sent l' = zl_sent l \<and> (zl_running l' \<longleftrightarrow> zl_running l \<or> e = Zse_None)"
    using wf by (auto simp: listener_op_defs listener_wf_def metrics_Reset_def
      split: if_splits prod.splits dest!: OpenSockets_cases ValidateOptions_cases)
  show "listener_wf (listener_Stop l) \<and> zl_sent (listener_Stop l) = zl_sent l \<and> \<not> zl_running (listener_Stop l)"
    by (simp add: listener_op_defs listener_wf_def)
  show "listener_Send zmq (fst m) (snd m) l tick = (e, l', tick') \<Longrightarrow>
      listener_wf l' \<and> (zl_running l' \<longleftrightarrow> zl_running l) \<and> (e = Zse_None \<longrightarrow> zl_running l) \<and>
      zl_sent l' = (if e = Zse_None then zl_sent l @ [m] else zl_sent l)"
    using wf by (auto simp: listener_op_defs listener_wf_def split: if_splits)
qed

text \<open>The remaining operations keep the sockets well formed.\<close>

lemma connection_events_wf:
  assumes "listener_wf l"
  shows "zl_running l \<Longrightarrow> listener_wf (HandleAcceptedConnection now i l)"
    and "zl_running l \<Longrightarrow> listener_wf (HandleDisconnectedConnection now i l)"
  using assms by (auto simp: listener_wf_def HandleAcceptedConnection_def HandleDisconnectedConnection_def
      SetActiveConnectionCount_def Let_def length_remove1)

lemma new_sockets_wf: "connector_wf (new_ZmqActiveConnector x o1)" "listener_wf (new_ZmqPassiveListener x o2)"
  by (simp_all add: connector_wf_def listener_wf_def new_ZmqActiveConnector_def new_ZmqPassiveListener_def)

lemma event_state_not_stopped: "state \<noteq> Zmq_Stopped \<Longrightarrow> event_state event state \<noteq> Zmq_Stopped"
  by (cases event) simp_all

lemma PollMonitor_wf:
  assumes "\<And>state c. connector_wf c \<Longrightarrow> connector_wf (handler state c)" "connector_wf c"
  shows "connector_wf (connector_PollMonitor handler events c)"
  using assms(2)
proof (induction events arbitrary: c)
  case (Cons event events)
  have "connector_wf (c\<lparr>zc_state := event_state event (zc_state c)\<rparr>)" if "zc_running c"
    using Cons.prems that event_state_not_stopped [of "zc_state c" event] by (simp add: connector_wf_def)
  with Cons assms(1) show ?case by (auto simp: Let_def)
qed simp

text \<open>
  Starting a stopped socket and stopping it again leaves no trace of it but the error text and, for a listener, the
  counters; so does a start that fails.
\<close>

lemma connector_start_undone:
  assumes "connector_wf c" "\<not> zc_running c" "connector_Start zmq c tick = (e, c', tick')"
  shows "connector_Stop c' = c\<lparr>zc_last_error_message := []\<rparr>"
    and "e \<noteq> Zse_None \<Longrightarrow> c' = c\<lparr>zc_last_error_message := zc_last_error_message c'\<rparr>"
  using assms by (auto simp: connector_op_defs connector_wf_def
      split: if_splits prod.splits dest!: OpenSockets_cases ValidateOptions_cases)

lemma listener_not_listening: "state \<noteq> Listener_Listening \<longleftrightarrow> state = Listener_Stopped"
  by (cases state) simp_all

lemma listener_start_undone:
  assumes "listener_wf l" "\<not> zl_running l" "listener_Start zmq l tick = (e, l', tick')"
  shows "listener_Stop l' = l\<lparr>zl_last_error_message := [], zl_metrics := zl_metrics (listener_Stop l')\<rparr>"
    and "e \<noteq> Zse_None \<Longrightarrow> l' = l\<lparr>zl_last_error_message := zl_last_error_message l'\<rparr>"
  using assms by (auto simp: listener_op_defs listener_wf_def listener_not_listening
      split: if_splits prod.splits dest!: OpenSockets_cases ValidateOptions_cases)

text \<open>The receiving polls keep the sockets well formed when the handlers do.\<close>

lemma ReceiveMessage_wf:
  "connector_wf c \<Longrightarrow> connector_wf (snd (connector_ReceiveMessage incoming c))"
  "listener_wf l \<Longrightarrow> listener_wf (snd (listener_ReceiveMessage incoming l))"
  by (auto simp: connector_ReceiveMessage_def connector_wf_def listener_ReceiveMessage_def listener_wf_def
      split: zmq_incoming.split list.split)

lemma PollIncomingMessages_wf:
  assumes "\<And>message c. connector_wf c \<Longrightarrow> connector_wf (handler message c)" "connector_wf c"
  shows "connector_wf (snd (connector_PollIncomingMessages handler queue c))"
  using assms(2)
proof (induction queue arbitrary: c)
  case (Cons incoming queue)
  obtain m c' where r: "connector_ReceiveMessage incoming c = (m, c')" by fastforce
  with ReceiveMessage_wf(1) [OF Cons.prems, of incoming] have "connector_wf c'" by simp
  with Cons.IH assms(1) Cons.prems r show ?case by (simp split: option.split)
qed simp

lemma listener_PollIncomingMessages_wf:
  assumes "\<And>routing_id message l. listener_wf l \<Longrightarrow> listener_wf (handler routing_id message l)" "listener_wf l"
  shows "listener_wf (snd (listener_PollIncomingMessages now handler queue l))"
  using assms(2)
proof (induction queue arbitrary: l)
  case (Cons incoming queue)
  obtain m l' where r: "listener_ReceiveMessage incoming l = (m, l')" by fastforce
  with ReceiveMessage_wf(2) [OF Cons.prems, of incoming] have wf: "listener_wf l'" by simp
  then have "listener_wf (l'\<lparr>zl_metrics := RecordReceivedMessage now n (zl_metrics l')\<rparr>)" for n
    by (simp add: listener_wf_def RecordReceivedMessage_def)
  with Cons.IH assms(1) Cons.prems r wf show ?case by (simp add: Let_def split: option.split prod.split)
qed simp

section \<open>Properties\<close>

text \<open>
  A connector changes by its operations and by its two polls. The handlers that the polls call may in turn do
  anything with the connector that its operations allow.
\<close>

inductive connector_step :: "libzmq \<Rightarrow> ZmqActiveConnector \<Rightarrow> ZmqActiveConnector \<Rightarrow> bool" for zmq where
  step_none: "connector_step zmq c c"
| step_then: "connector_step zmq c c' \<Longrightarrow> connector_step zmq c' c'' \<Longrightarrow> connector_step zmq c c''"
| step_Start: "connector_step zmq c (fst (snd (connector_Start zmq c tick)))"
| step_Stop: "connector_step zmq c (connector_Stop c)"
| step_Send: "connector_step zmq c (fst (snd (connector_Send zmq message c tick)))"
| step_PollMonitor: "(\<And>state c. connector_step zmq c (handler state c)) \<Longrightarrow>
    connector_step zmq c (connector_PollMonitor handler events c)"
| step_PollIncoming: "(\<And>message c. connector_step zmq c (handler message c)) \<Longrightarrow>
    connector_step zmq c (snd (connector_PollIncomingMessages handler queue c))"

definition connector_reachable :: "libzmq \<Rightarrow> ZmqActiveConnector \<Rightarrow> bool" where
  "connector_reachable zmq c \<longleftrightarrow> (\<exists>context options. connector_step zmq (new_ZmqActiveConnector context options) c)"

lemma connector_step_wf: "connector_step zmq c c' \<Longrightarrow> connector_wf c \<Longrightarrow> connector_wf c'"
proof (induction rule: connector_step.induct)
  case (step_Start c tick)
  then show ?case using zmq_connector.perform_law [of c zmq Op_start tick] by simp
next
  case (step_Stop c)
  then show ?case by (simp add: zmq_connector.stop_law)
next
  case (step_Send c m tick)
  then show ?case using zmq_connector.perform_law [of c zmq "Op_send m" tick] by simp
qed (auto intro: PollMonitor_wf PollIncomingMessages_wf)

lemma connector_reachable_wf: "connector_reachable zmq c \<Longrightarrow> connector_wf c"
  unfolding connector_reachable_def using connector_step_wf new_sockets_wf(1) by blast


definition sample_zmq :: libzmq where
  "sample_zmq = \<lparr>zmq_succeeds = (\<lambda>_. True), zmq_strerror = (\<lambda>_. []), zmq_last_endpoint = (\<lambda>_. ''tcp://h:1''),
     wall_clock = (\<lambda>_. 1)\<rparr>"

text \<open>A connector that was started and has connected.\<close>

definition sample_connector :: ZmqActiveConnector where
  "sample_connector = connector_PollMonitor (\<lambda>_. id) [Event_CONNECTED]
     (fst (snd (connector_Start sample_zmq
       (new_ZmqActiveConnector (fst (new_ZmqContext sample_zmq default_ZmqContextOptions 0))
          (default_ZmqActiveConnectorOptions\<lparr>zao_remote_endpoint := ''tcp://g:2''\<rparr>)) 3)))"

lemma sample_connector_reachable:
  "connector_reachable sample_zmq sample_connector" "connector_reachable sample_zmq (connector_Stop sample_connector)"
proof -
  show r: "connector_reachable sample_zmq sample_connector"
    unfolding connector_reachable_def sample_connector_def
    by (intro exI, rule step_then [OF step_Start step_PollMonitor]) (simp add: step_none)
  then show "connector_reachable sample_zmq (connector_Stop sample_connector)"
    unfolding connector_reachable_def using step_then step_Stop by blast
qed


end
