(* ===== verification/NodeCommon.thy ===== *)
theory NodeCommon
  imports Prelude
begin

text \<open>
  \<^verbatim>\<open>node/NodeCommon.h\<close>, \<^verbatim>\<open>.cpp\<close>: the error codes of the node layer; \<^verbatim>\<open>net/message/MessageIds.h\<close>:
  the message identifiers of the packet headers; and \<^verbatim>\<open>std::to_string\<close> of an unsigned value.
\<close>

datatype NodeErrorCode =
    Node_None | Node_InvalidArgument | Node_InvalidArgumentCount | Node_EmptyConfigPath | Node_EmptyNodeId
  | Node_InvalidNodeId | Node_ConfigLoadFailed | Node_LoggerInitFailed | Node_NodeCreateFailed
  | Node_NodeInitFailed | Node_NodeRunFailed | Node_NodeUninitFailed | Node_EventLoopFailed
  | Node_UnsupportedProcessType

definition NodeUsage :: string where
  "NodeUsage = ''Usage: xserver-node <configPath> <GM|GateN|GameN>''"

fun NodeErrorMessage :: "NodeErrorCode \<Rightarrow> string" where
  "NodeErrorMessage Node_None = ''No error.''"
| "NodeErrorMessage Node_InvalidArgument = ''Invalid node argument.''"
| "NodeErrorMessage Node_InvalidArgumentCount = ''xserver-node requires exactly 2 arguments.''"
| "NodeErrorMessage Node_EmptyConfigPath = ''configPath must not be empty.''"
| "NodeErrorMessage Node_EmptyNodeId = ''nodeId must not be empty.''"
| "NodeErrorMessage Node_InvalidNodeId = ''Node ID is invalid.''"
| "NodeErrorMessage Node_ConfigLoadFailed = ''Failed to load node configuration.''"
| "NodeErrorMessage Node_LoggerInitFailed = ''Failed to initialize node logger.''"
| "NodeErrorMessage Node_NodeCreateFailed = ''Failed to create server node.''"
| "NodeErrorMessage Node_NodeInitFailed = ''Server node initialization failed.''"
| "NodeErrorMessage Node_NodeRunFailed = ''Server node run failed.''"
| "NodeErrorMessage Node_NodeUninitFailed = ''Server node uninitialization failed.''"
| "NodeErrorMessage Node_EventLoopFailed = ''Node event loop failed.''"
| "NodeErrorMessage Node_UnsupportedProcessType = ''Node does not support the selected process type.''"

section \<open>Message identifiers\<close>

definition kInnerRegisterMsgId :: u32 where "kInnerRegisterMsgId = 1000"
definition kInnerHeartbeatMsgId :: u32 where "kInnerHeartbeatMsgId = 1100"
definition kInnerClusterReadyNotifyMsgId :: u32 where "kInnerClusterReadyNotifyMsgId = 1201"
definition kInnerServerStubOwnershipSyncMsgId :: u32 where "kInnerServerStubOwnershipSyncMsgId = 1202"
definition kInnerGameServiceReadyReportMsgId :: u32 where "kInnerGameServiceReadyReportMsgId = 1203"
definition kInnerClusterNodesOnlineNotifyMsgId :: u32 where "kInnerClusterNodesOnlineNotifyMsgId = 1204"
definition kInnerGameGateMeshReadyReportMsgId :: u32 where "kInnerGameGateMeshReadyReportMsgId = 1205"
definition kRelayForwardToGameMsgId :: u32 where "kRelayForwardToGameMsgId = 2000"
definition kRelayPushToClientMsgId :: u32 where "kRelayPushToClientMsgId = 2001"
definition kRelayForwardMailboxCallMsgId :: u32 where "kRelayForwardMailboxCallMsgId = 2002"
definition kGateCreateAvatarEntityMsgId :: u32 where "kGateCreateAvatarEntityMsgId = 2003"
definition kGameAvatarEntityCreateResultMsgId :: u32 where "kGameAvatarEntityCreateResultMsgId = 2004"
definition kRelayForwardProxyCallMsgId :: u32 where "kRelayForwardProxyCallMsgId = 2005"
definition kClientHelloMsgId :: u32 where "kClientHelloMsgId = 45010"
definition kClientMoveMsgId :: u32 where "kClientMoveMsgId = 45011"
definition kClientSelectAvatarMsgId :: u32 where "kClientSelectAvatarMsgId = 45013"
definition kServerBroadcastMessageMsgId :: u32 where "kServerBroadcastMessageMsgId = 6201"
definition kClientEntityRpcMsgId :: u32 where "kClientEntityRpcMsgId = 6302"
definition kServerToClientEntityRpcMsgId :: u32 where "kServerToClientEntityRpcMsgId = 6303"
definition kOnlineStubBroadcastMsgId :: u32 where "kOnlineStubBroadcastMsgId = 5201"

lemmas msg_id_defs = kInnerRegisterMsgId_def kInnerHeartbeatMsgId_def kInnerClusterReadyNotifyMsgId_def
  kInnerServerStubOwnershipSyncMsgId_def kInnerGameServiceReadyReportMsgId_def
  kInnerClusterNodesOnlineNotifyMsgId_def kInnerGameGateMeshReadyReportMsgId_def
  kRelayForwardToGameMsgId_def kRelayPushToClientMsgId_def kRelayForwardMailboxCallMsgId_def
  kGateCreateAvatarEntityMsgId_def kGameAvatarEntityCreateResultMsgId_def kRelayForwardProxyCallMsgId_def
  kClientHelloMsgId_def kClientMoveMsgId_def kClientSelectAvatarMsgId_def kServerBroadcastMessageMsgId_def
  kClientEntityRpcMsgId_def kServerToClientEntityRpcMsgId_def kOnlineStubBroadcastMsgId_def

section \<open>Decimal numerals\<close>

definition digit_char :: "nat \<Rightarrow> char" where
  "digit_char d = char_of (48 + d)"

fun to_string :: "nat \<Rightarrow> string" where
  "to_string n = (if n < 10 then [digit_char n] else to_string (n div 10) @ [digit_char (n mod 10)])"

declare to_string.simps [simp del]

primrec string_value :: "nat \<Rightarrow> string \<Rightarrow> nat" where
  "string_value acc [] = acc"
| "string_value acc (c # cs) = string_value (10 * acc + (of_char c - 48)) cs"

lemma string_value_append: "string_value acc (xs @ ys) = string_value (string_value acc xs) ys"
  by (induction xs arbitrary: acc) simp_all

lemma of_char_digit: "d < 10 \<Longrightarrow> (of_char (digit_char d) :: nat) = 48 + d"
  unfolding digit_char_def of_char_of by (simp add: take_bit_nat_def)

lemma string_value_to_string: "string_value 0 (to_string n) = n"
proof (induction n rule: to_string.induct)
  case (1 n)
  then show ?case
    by (subst to_string.simps) (simp add: string_value_append of_char_digit)
qed

text \<open>Different numbers have different numerals, so names built from numbers do not collide.\<close>

lemma to_string_inj [simp]: "to_string m = to_string n \<longleftrightarrow> m = n"
  by (metis string_value_to_string)

end
