(* ===== verification/InnerNetwork.thy ===== *)
theory InnerNetwork
  imports ZmqSockets NodeCommon StdMap
begin

text \<open>
  \<^verbatim>\<open>node/InnerNetwork.h\<close>, \<^verbatim>\<open>.cpp\<close>: the sockets of a node, one optional listener and a map of named
  connectors, with their joint start and stop. Handlers are not part of the state; the connection
  states that are announced to the node's connector state handler are collected, in order, in
  \<open>net_announced\<close>. The lemmas show that a start does not touch the sockets that run already, that a
  failed start takes back everything it has opened, and that messages are accepted exactly while the listener runs.
\<close>

text \<open>A text between single quotation marks, as the error messages have it.\<close>

definition quoted :: "string \<Rightarrow> string" where
  "quoted text = [CHR 0x27] @ text @ [CHR 0x27]"

section \<open>State\<close>

record InnerNetworkConnectorOptions =
  nco_id :: string
  nco_remote_endpoint :: string
  nco_routing_id :: string

record InnerNetworkOptions =
  nno_local_endpoint :: string
  nno_connectors :: "InnerNetworkConnectorOptions list"

record ConnectorSlot =
  slot_options :: InnerNetworkConnectorOptions
  slot_connector :: ZmqActiveConnector

record InnerNetwork =
  net_options :: InnerNetworkOptions
  net_bound_endpoint :: string
  net_last_error_message :: string
  net_context :: "ZmqContext ptr"
  net_listener :: "ZmqPassiveListener ptr"
  net_connectors :: "(string, ConnectorSlot) std_map"
  net_initialized :: bool
  net_tick :: nat
  net_announced :: "(string \<times> ZmqConnectionState) list"

definition new_InnerNetwork :: "InnerNetworkOptions \<Rightarrow> nat \<Rightarrow> InnerNetwork" where
  "new_InnerNetwork options tick =
     \<lparr>net_options = options, net_bound_endpoint = [], net_last_error_message = [], net_context = None,
      net_listener = None, net_connectors = [], net_initialized = False, net_tick = tick, net_announced = []\<rparr>"

definition net_SetError :: "NodeErrorCode \<Rightarrow> string \<Rightarrow> InnerNetwork \<Rightarrow> NodeErrorCode \<times> InnerNetwork" where
  "net_SetError code message net =
     (code, net\<lparr>net_last_error_message := (if message = [] then NodeErrorMessage code else message)\<rparr>)"

definition net_ClearError :: "InnerNetwork \<Rightarrow> InnerNetwork" where
  "net_ClearError net = net\<lparr>net_last_error_message := []\<rparr>"

section \<open>Initialisation\<close>

fun invalid_connector :: "string list \<Rightarrow> InnerNetworkConnectorOptions list \<Rightarrow> string option" where
  "invalid_connector connector_ids [] = None"
| "invalid_connector connector_ids (connector # connectors) =
     (if nco_id connector = [] then Some ''InnerNetwork connector id must not be empty.''
      else if nco_remote_endpoint connector = []
        then Some ''InnerNetwork connector remote_endpoint must not be empty.''
      else if nco_id connector \<in> set connector_ids
        then Some (''InnerNetwork connector id '' @ quoted (nco_id connector) @ '' is duplicated.'')
      else invalid_connector (nco_id connector # connector_ids) connectors)"

definition net_ValidateOptions :: "InnerNetwork \<Rightarrow> NodeErrorCode \<times> InnerNetwork" where
  "net_ValidateOptions net =
     (case invalid_connector [] (nno_connectors (net_options net)) of
        Some message \<Rightarrow> net_SetError Node_InvalidArgument message net
      | None \<Rightarrow> (Node_None, net_ClearError net))"

definition make_slot :: "ZmqContext \<Rightarrow> InnerNetworkConnectorOptions \<Rightarrow> ConnectorSlot" where
  "make_slot context connector_options =
     \<lparr>slot_options = connector_options,
      slot_connector = new_ZmqActiveConnector context (default_ZmqActiveConnectorOptions
        \<lparr>zao_remote_endpoint := nco_remote_endpoint connector_options,
         zao_routing_id := nco_routing_id connector_options\<rparr>)\<rparr>"

definition net_Init :: "libzmq \<Rightarrow> InnerNetwork \<Rightarrow> NodeErrorCode \<times> InnerNetwork" where
  "net_Init zmq net =
     (if net_initialized net then net_SetError Node_InvalidArgument ''InnerNetwork is already initialized.'' net
      else case net_ValidateOptions net of (validation_result, net) \<Rightarrow>
        if validation_result \<noteq> Node_None then (validation_result, net)
        else if nno_local_endpoint (net_options net) = [] \<and> nno_connectors (net_options net) = [] then
          (Node_None, net_ClearError (net\<lparr>net_initialized := True\<rparr>))
        else case new_ZmqContext zmq default_ZmqContextOptions (net_tick net) of (context, tick) \<Rightarrow>
          let net = net\<lparr>net_tick := tick\<rparr> in
          if \<not> ctx_IsValid context then
            net_SetError Node_NodeInitFailed (''Failed to initialize inner network ZeroMQ context: '' @
              zcx_initialization_error context) (net\<lparr>net_context := None\<rparr>)
          else
            let net = net\<lparr>net_context := Some context\<rparr>;
                net = (if nno_local_endpoint (net_options net) = [] then net
                  else net\<lparr>net_listener := Some (new_ZmqPassiveListener context
                    (default_ZmqPassiveListenerOptions
                      \<lparr>zlo_local_endpoint := nno_local_endpoint (net_options net)\<rparr>))\<rparr>);
                net = fold (\<lambda>connector_options net. net\<lparr>net_connectors :=
                    snd (map_emplace (nco_id connector_options) (make_slot context connector_options)
                      (net_connectors net))\<rparr>) (nno_connectors (net_options net)) net in
            (Node_None, net_ClearError (net\<lparr>net_initialized := True\<rparr>)))"

section \<open>Starting and stopping\<close>

text \<open>Stopping a socket announces its new state when that differs from the old one.\<close>

definition stop_listener :: "InnerNetwork \<Rightarrow> InnerNetwork" where
  "stop_listener net =
     (case net_listener net of
        None \<Rightarrow> net
      | Some listener \<Rightarrow>
          let net' = net\<lparr>net_listener := Some (listener_Stop listener)\<rparr> in
          if zl_state listener = Listener_Stopped then net' else net'\<lparr>net_bound_endpoint := []\<rparr>)"

definition announce :: "string \<Rightarrow> ZmqConnectionState \<Rightarrow> ZmqConnectionState \<Rightarrow> InnerNetwork \<Rightarrow> InnerNetwork" where
  "announce connector_id old new net =
     (if old = new then net else net\<lparr>net_announced := net_announced net @ [(connector_id, new)]\<rparr>)"

definition stop_connector :: "string \<Rightarrow> InnerNetwork \<Rightarrow> InnerNetwork" where
  "stop_connector connector_id net =
     (case map_find (net_connectors net) connector_id of
        None \<Rightarrow> net
      | Some slot \<Rightarrow> announce connector_id (zc_state (slot_connector slot)) Zmq_Stopped
          (net\<lparr>net_connectors := map_modify connector_id
             (\<lambda>slot. slot\<lparr>slot_connector := connector_Stop (slot_connector slot)\<rparr>) (net_connectors net)\<rparr>))"

definition StopStartedComponents :: "bool \<Rightarrow> string list \<Rightarrow> InnerNetwork \<Rightarrow> InnerNetwork" where
  "StopStartedComponents listener_started started_connectors net =
     (let net = fold stop_connector (rev started_connectors) net in
      if listener_started then stop_listener net else net)"

definition start_listener :: "libzmq \<Rightarrow> InnerNetwork \<Rightarrow> string option \<times> bool \<times> InnerNetwork" where
  "start_listener zmq net =
     (case net_listener net of
        None \<Rightarrow> (None, False, net)
      | Some listener \<Rightarrow>
          if zl_running listener then (None, False, net)
          else case listener_Start zmq listener (net_tick net) of (start_result, listener, tick) \<Rightarrow>
            let net = net\<lparr>net_listener := Some listener, net_tick := tick\<rparr> in
            if start_result \<noteq> Zse_None then (Some (zl_last_error_message listener), False, net)
            else (None, True, net\<lparr>net_bound_endpoint := zl_bound_endpoint listener\<rparr>))"

fun resolve_connectors ::
    "InnerNetwork \<Rightarrow> string list \<Rightarrow> string list \<Rightarrow> string + string list" where
  "resolve_connectors net target_connectors [] = Inr target_connectors"
| "resolve_connectors net target_connectors (connector_id # connector_ids) =
     (if connector_id = [] then Inl ''InnerNetwork connector ID must not be empty.''
      else if map_find (net_connectors net) connector_id = None
        then Inl (''InnerNetwork connector '' @ quoted connector_id @ '' is not configured.'')
      else if connector_id \<in> set target_connectors
        then resolve_connectors net target_connectors connector_ids
      else resolve_connectors net (target_connectors @ [connector_id]) connector_ids)"

text \<open>The start loop over the targets; on failure the error text of the connector is returned.\<close>

fun start_connectors ::
    "libzmq \<Rightarrow> string list \<Rightarrow> string list \<Rightarrow> InnerNetwork \<Rightarrow> string option \<times> string list \<times> InnerNetwork" where
  "start_connectors zmq [] started net = (None, started, net)"
| "start_connectors zmq (connector_id # targets) started net =
     (case map_find (net_connectors net) connector_id of
        None \<Rightarrow> start_connectors zmq targets started net
      | Some slot \<Rightarrow>
          if zc_running (slot_connector slot) then start_connectors zmq targets started net
          else case connector_Start zmq (slot_connector slot) (net_tick net) of (start_result, connector, tick) \<Rightarrow>
            let net = announce connector_id (zc_state (slot_connector slot)) (zc_state connector)
                (net\<lparr>net_connectors := map_modify connector_id (\<lambda>slot. slot\<lparr>slot_connector := connector\<rparr>)
                   (net_connectors net), net_tick := tick\<rparr>) in
            if start_result \<noteq> Zse_None then
              (Some (''Failed to start inner network connector '' @ quoted connector_id @ '': '' @
                 zc_last_error_message connector), started, net)
            else start_connectors zmq targets (started @ [connector_id]) net)"

definition net_Run :: "libzmq \<Rightarrow> string list \<Rightarrow> InnerNetwork \<Rightarrow> NodeErrorCode \<times> InnerNetwork" where
  "net_Run zmq connector_ids net =
     (if \<not> net_initialized net then
        net_SetError Node_InvalidArgument ''InnerNetwork must be initialized before Run().'' net
      else if net_listener net = None \<and> net_connectors net = [] then (Node_None, net_ClearError net)
      else case start_listener zmq net of (listener_error, listener_started, net) \<Rightarrow>
        case listener_error of
          Some error_text \<Rightarrow>
            net_SetError Node_NodeRunFailed (''Failed to start inner network listener: '' @ error_text) net
        | None \<Rightarrow>
            case (if connector_ids = [] then Inr (map fst (net_connectors net))
                  else resolve_connectors net [] connector_ids) of
              Inl message \<Rightarrow>
                net_SetError Node_InvalidArgument message (StopStartedComponents listener_started [] net)
            | Inr target_connectors \<Rightarrow>
                case start_connectors zmq target_connectors [] net of (connector_error, started, net) \<Rightarrow>
                  case connector_error of
                    Some message \<Rightarrow>
                      net_SetError Node_NodeRunFailed message (StopStartedComponents listener_started started net)
                  | None \<Rightarrow> (Node_None, net_ClearError net))"

definition net_StartConnector :: "libzmq \<Rightarrow> string \<Rightarrow> InnerNetwork \<Rightarrow> NodeErrorCode \<times> InnerNetwork" where
  "net_StartConnector zmq connector_id net = net_Run zmq [connector_id] net"

definition net_ResetState :: "InnerNetwork \<Rightarrow> InnerNetwork" where
  "net_ResetState net = net_ClearError (net\<lparr>net_connectors := [], net_listener := None, net_context := None,
     net_bound_endpoint := [], net_initialized := False\<rparr>)"

definition net_Uninit :: "InnerNetwork \<Rightarrow> NodeErrorCode \<times> InnerNetwork" where
  "net_Uninit net =
     (if \<not> net_initialized net then (Node_None, net_ResetState net)
      else
        let net = (case net_listener net of
              Some listener \<Rightarrow> if zl_running listener then stop_listener net else net
            | None \<Rightarrow> net);
            net = fold (\<lambda>e net. if zc_running (slot_connector (snd e)) then stop_connector (fst e) net else net)
              (net_connectors net) net in
        (Node_None, net_ResetState net))"

section \<open>Sending\<close>

definition net_Send ::
    "libzmq \<Rightarrow> byte list \<Rightarrow> byte list \<Rightarrow> InnerNetwork \<Rightarrow> NodeErrorCode \<times> InnerNetwork" where
  "net_Send zmq routing_id payload net =
     (if \<not> net_initialized net then
        net_SetError Node_InvalidArgument ''InnerNetwork must be initialized before Send().'' net
      else case net_listener net of
        None \<Rightarrow> net_SetError Node_InvalidArgument ''InnerNetwork Send() requires a configured listener.'' net
      | Some listener \<Rightarrow>
          if routing_id = [] then net_SetError Node_InvalidArgument
            ''InnerNetwork Send() requires a non-empty listener routing ID.'' net
          else case listener_Send zmq routing_id payload listener (net_tick net) of (send_result, listener, tick) \<Rightarrow>
            let net = net\<lparr>net_listener := Some listener, net_tick := tick\<rparr> in
            if send_result \<noteq> Zse_None then net_SetError Node_NodeRunFailed
              (''Failed to send inner network payload: '' @ zl_last_error_message listener) net
            else (Node_None, net_ClearError net))"

definition net_SendToConnector ::
    "libzmq \<Rightarrow> string \<Rightarrow> byte list \<Rightarrow> InnerNetwork \<Rightarrow> NodeErrorCode \<times> InnerNetwork" where
  "net_SendToConnector zmq connector_id payload net =
     (if \<not> net_initialized net then
        net_SetError Node_InvalidArgument ''InnerNetwork must be initialized before SendToConnector().'' net
      else if connector_id = [] then
        net_SetError Node_InvalidArgument ''InnerNetwork connector ID must not be empty.'' net
      else case map_find (net_connectors net) connector_id of
        None \<Rightarrow> net_SetError Node_InvalidArgument
          (''InnerNetwork connector '' @ quoted connector_id @ '' is not configured.'') net
      | Some slot \<Rightarrow>
          case connector_Send zmq payload (slot_connector slot) (net_tick net) of (send_result, connector, tick) \<Rightarrow>
            let net = net\<lparr>net_connectors := map_modify connector_id (\<lambda>slot. slot\<lparr>slot_connector := connector\<rparr>)
                (net_connectors net), net_tick := tick\<rparr> in
            if send_result \<noteq> Zse_None then net_SetError Node_NodeRunFailed
              (''Failed to send inner network payload through connector '' @ quoted connector_id @ '': '' @
                 zc_last_error_message connector) net
            else (Node_None, net_ClearError net))"

section \<open>Queries\<close>

definition listener_running :: "InnerNetwork \<Rightarrow> bool" where
  "listener_running net \<longleftrightarrow> (case net_listener net of None \<Rightarrow> False | Some l \<Rightarrow> zl_running l)"

definition connector_running :: "string \<Rightarrow> InnerNetwork \<Rightarrow> bool" where
  "connector_running connector_id net \<longleftrightarrow>
     (case map_find (net_connectors net) connector_id of None \<Rightarrow> False | Some slot \<Rightarrow> zc_running (slot_connector slot))"

definition net_IsRunning :: "InnerNetwork \<Rightarrow> bool" where
  "net_IsRunning net \<longleftrightarrow> listener_running net \<or> list_ex (\<lambda>e. zc_running (slot_connector (snd e))) (net_connectors net)"

definition net_HasListener :: "InnerNetwork \<Rightarrow> bool" where
  "net_HasListener net \<longleftrightarrow> net_listener net \<noteq> None"

definition connection_state :: "string \<Rightarrow> InnerNetwork \<Rightarrow> ZmqConnectionState" where
  "connection_state connector_id net =
     (case map_find (net_connectors net) connector_id of None \<Rightarrow> Zmq_Stopped | Some slot \<Rightarrow> zc_state (slot_connector slot))"

definition listener_state :: "InnerNetwork \<Rightarrow> ZmqListenerState" where
  "listener_state net = (case net_listener net of None \<Rightarrow> Listener_Stopped | Some l \<Rightarrow> zl_state l)"

definition remote_endpoint :: "string \<Rightarrow> InnerNetwork \<Rightarrow> string" where
  "remote_endpoint connector_id net =
     (case map_find (net_connectors net) connector_id of None \<Rightarrow> [] | Some slot \<Rightarrow> nco_remote_endpoint (slot_options slot))"

definition net_sent :: "InnerNetwork \<Rightarrow> (byte list \<times> byte list) list" where
  "net_sent net = (case net_listener net of None \<Rightarrow> [] | Some l \<Rightarrow> zl_sent l)"

definition last_error_message :: "InnerNetwork \<Rightarrow> string" where
  "last_error_message net =
     (if net_last_error_message net \<noteq> [] then net_last_error_message net
      else case net_listener net of
        Some l \<Rightarrow> if zl_last_error_message l \<noteq> [] then zl_last_error_message l
          else (case List.find (\<lambda>e. zc_last_error_message (slot_connector (snd e)) \<noteq> []) (net_connectors net) of
            None \<Rightarrow> [] | Some e \<Rightarrow> zc_last_error_message (slot_connector (snd e)))
      | None \<Rightarrow> (case List.find (\<lambda>e. zc_last_error_message (slot_connector (snd e)) \<noteq> []) (net_connectors net) of
            None \<Rightarrow> [] | Some e \<Rightarrow> zc_last_error_message (slot_connector (snd e))))"


section \<open>Well-formed networks\<close>

definition net_wf :: "InnerNetwork \<Rightarrow> bool" where
  "net_wf net \<longleftrightarrow> map_wf (net_connectors net) \<and>
     (\<forall>k slot. map_find (net_connectors net) k = Some slot \<longrightarrow> connector_wf (slot_connector slot)) \<and>
     (\<forall>l. net_listener net = Some l \<longrightarrow> listener_wf l)"

lemma net_wfD:
  assumes "net_wf net"
  shows "map_wf (net_connectors net)"
    "map_find (net_connectors net) k = Some slot \<Longrightarrow> connector_wf (slot_connector slot)"
    "net_listener net = Some l \<Longrightarrow> listener_wf l"
  using assms unfolding net_wf_def by blast+

lemma net_wf_simps [simp]:
  "net_wf (net\<lparr>net_last_error_message := a\<rparr>) = net_wf net"
  "net_wf (net\<lparr>net_announced := b\<rparr>) = net_wf net"
  "net_wf (net\<lparr>net_tick := t\<rparr>) = net_wf net"
  "net_wf (net\<lparr>net_bound_endpoint := c\<rparr>) = net_wf net"
  "net_wf (net\<lparr>net_initialized := d\<rparr>) = net_wf net"
  "net_wf (net\<lparr>net_context := e\<rparr>) = net_wf net"
  by (simp_all add: net_wf_def)

lemma running_simps [simp]:
  "listener_running (net\<lparr>net_last_error_message := a\<rparr>) = listener_running net"
  "listener_running (net\<lparr>net_announced := b\<rparr>) = listener_running net"
  "listener_running (net\<lparr>net_tick := t\<rparr>) = listener_running net"
  "listener_running (net\<lparr>net_bound_endpoint := c\<rparr>) = listener_running net"
  "listener_running (net\<lparr>net_connectors := m\<rparr>) = listener_running net"
  "connector_running k (net\<lparr>net_last_error_message := a\<rparr>) = connector_running k net"
  "connector_running k (net\<lparr>net_announced := b\<rparr>) = connector_running k net"
  "connector_running k (net\<lparr>net_tick := t\<rparr>) = connector_running k net"
  "connector_running k (net\<lparr>net_bound_endpoint := c\<rparr>) = connector_running k net"
  "connector_running k (net\<lparr>net_listener := l\<rparr>) = connector_running k net"
  by (simp_all add: listener_running_def connector_running_def)

lemma announce_simps [simp]:
  "net_connectors (announce k a b net) = net_connectors net"
  "net_listener (announce k a b net) = net_listener net"
  "net_initialized (announce k a b net) = net_initialized net"
  "net_tick (announce k a b net) = net_tick net"
  "net_wf (announce k a b net) = net_wf net"
  "listener_running (announce k a b net) = listener_running net"
  "connector_running k' (announce k a b net) = connector_running k' net"
  by (simp_all add: announce_def)

text \<open>Replacing one connector of the map.\<close>

lemma replace_connector:
  assumes "net_wf net" "map_find (net_connectors net) k = Some slot" "connector_wf (f (slot_connector slot))"
  shows "net_wf (net\<lparr>net_connectors := map_modify k (\<lambda>slot. slot\<lparr>slot_connector := f (slot_connector slot)\<rparr>)
      (net_connectors net)\<rparr>)"
    and "connector_running k' (net\<lparr>net_connectors := map_modify k (\<lambda>slot. slot\<lparr>slot_connector := f (slot_connector slot)\<rparr>)
      (net_connectors net)\<rparr>) = (if k' = k then zc_running (f (slot_connector slot)) else connector_running k' net)"
  using assms unfolding net_wf_def connector_running_def
  by (auto simp: std_map_find std_map_invar)

lemma replace_listener: "net_wf net \<Longrightarrow> listener_wf l \<Longrightarrow> net_wf (net\<lparr>net_listener := Some l\<rparr>)"
  by (simp add: net_wf_def)

lemma stop_connector_running:
  assumes "net_wf net"
  shows "net_wf (stop_connector k net)" "net_listener (stop_connector k net) = net_listener net"
    "connector_running k' (stop_connector k net) \<longleftrightarrow> connector_running k' net \<and> k' \<noteq> k"
proof -
  have "net_wf (stop_connector k net) \<and> net_listener (stop_connector k net) = net_listener net \<and>
    (connector_running k' (stop_connector k net) \<longleftrightarrow> connector_running k' net \<and> k' \<noteq> k)"
  proof (cases "map_find (net_connectors net) k")
    case None
    with assms show ?thesis by (auto simp: stop_connector_def connector_running_def)
  next
    case (Some slot)
    have "connector_wf (connector_Stop (slot_connector slot))" "\<not> zc_running (connector_Stop (slot_connector slot))"
      using zmq_connector.stop_law [OF net_wfD(2) [OF assms Some]] by blast+
    with replace_connector [OF assms Some, of connector_Stop] Some show ?thesis
      by (simp add: stop_connector_def)
  qed
  then show "net_wf (stop_connector k net)" "net_listener (stop_connector k net) = net_listener net"
    "connector_running k' (stop_connector k net) \<longleftrightarrow> connector_running k' net \<and> k' \<noteq> k" by auto
qed

lemma stop_connectors_running:
  assumes "net_wf net"
  shows "net_wf (fold stop_connector ks net) \<and> net_listener (fold stop_connector ks net) = net_listener net \<and>
    (connector_running k' (fold stop_connector ks net) \<longleftrightarrow> connector_running k' net \<and> k' \<notin> set ks)"
  using assms
proof (induction ks arbitrary: net)
  case (Cons k ks)
  from Cons.IH [OF stop_connector_running(1) [OF Cons.prems, of k]] stop_connector_running [OF Cons.prems]
  show ?case by auto
qed simp

lemma stop_listener_running:
  assumes "net_wf net"
  shows "net_wf (stop_listener net)" "\<not> listener_running (stop_listener net)"
    "connector_running k (stop_listener net) \<longleftrightarrow> connector_running k net"
  using assms zmq_listener.stop_law
  by (auto simp: stop_listener_def Let_def listener_running_def connector_running_def net_wf_def split: option.split)

lemma start_listener_running:
  assumes wf: "net_wf net" and "start_listener zmq net = (e, started, net')"
  shows "net_wf net' \<and> net_connectors net' = net_connectors net \<and>
    (listener_running net' \<longleftrightarrow> listener_running net \<or> started) \<and> (started \<longrightarrow> \<not> listener_running net) \<and>
    (e \<noteq> None \<longrightarrow> \<not> started) \<and> (e = None \<longrightarrow> net_listener net \<noteq> None \<longrightarrow> listener_running net')"
proof (cases "net_listener net")
  case None
  with assms show ?thesis by (simp add: start_listener_def listener_running_def)
next
  case (Some l)
  obtain r l' tick where r: "listener_Start zmq l (net_tick net) = (r, l', tick)" by (metis prod_cases3)
  from zmq_listener.start_law [OF net_wfD(3) [OF wf Some] r] Some assms r show ?thesis
    by (auto simp: start_listener_def listener_running_def net_wf_def Let_def split: if_splits)
qed

text \<open>Which connectors the start loop has started when it ends, in the good and in the bad case.\<close>

lemma start_connectors_running:
  assumes "net_wf net" "start_connectors zmq targets started net = (e, started', net')"
  shows "\<exists>new. started' = started @ new \<and> net_wf net' \<and> net_listener net' = net_listener net \<and>
    (\<forall>k\<in>set new. \<not> connector_running k net) \<and>
    (\<forall>k. connector_running k net' \<longleftrightarrow> connector_running k net \<or> k \<in> set new) \<and>
    dom (map_find (net_connectors net')) = dom (map_find (net_connectors net)) \<and>
    (e = None \<longrightarrow> (\<forall>k\<in>set targets. k \<in> dom (map_find (net_connectors net)) \<longrightarrow> connector_running k net'))"
  using assms
proof (induction zmq targets started net arbitrary: rule: start_connectors.induct)
  case (1 zmq started net)
  then show ?case by simp
next
  case (2 zmq k targets started net)
  note wf = \<open>net_wf net\<close> and eq = \<open>start_connectors zmq (k # targets) started net = (e, started', net')\<close>
  show ?case
  proof (cases "map_find (net_connectors net) k")
    case None
    with 2 show ?thesis by (auto simp: domIff)
  next
    case (Some slot)
    show ?thesis
    proof (cases "zc_running (slot_connector slot)")
      case True
      then have "connector_running k net" using Some by (simp add: connector_running_def)
      with 2(2) [OF Some True wf] eq Some True show ?thesis by auto
    next
      case False
      obtain r c tick where r: "connector_Start zmq (slot_connector slot) (net_tick net) = (r, c, tick)"
        by (metis prod_cases3)
      define next_net where "next_net = announce k (zc_state (slot_connector slot)) (zc_state c)
        (net\<lparr>net_connectors := map_modify k (\<lambda>slot. slot\<lparr>slot_connector := c\<rparr>) (net_connectors net), net_tick := tick\<rparr>)"
      have law: "connector_wf c \<and> (zc_running c \<longleftrightarrow> r = Zse_None)"
        using zmq_connector.start_law [OF net_wfD(2) [OF wf Some] r] False by simp
      have n: "net_wf next_net" "connector_running k' next_net \<longleftrightarrow> (if k' = k then r = Zse_None else connector_running k' net)"
        "net_listener next_net = net_listener net"
        "dom (map_find (net_connectors next_net)) = dom (map_find (net_connectors net))" for k'
        using replace_connector [OF wf Some, of "\<lambda>_. c"] law Some
        by (auto simp: next_net_def std_map_find net_wfD(1) [OF wf] split: if_splits)
      have k: "\<not> connector_running k net" using Some False by (simp add: connector_running_def)
      show ?thesis
      proof (cases "r = Zse_None")
        case True
        have "start_connectors zmq targets (started @ [k]) next_net = (e, started', net')"
          using eq Some False r True by (simp add: next_net_def Let_def)
        from 2(3) [OF Some False r [symmetric] refl next_net_def _ n(1) this] True
        obtain new where new: "started' = (started @ [k]) @ new" "net_wf net'" "net_listener net' = net_listener next_net"
          "\<forall>k\<in>set new. \<not> connector_running k next_net"
          "\<forall>k. connector_running k net' \<longleftrightarrow> connector_running k next_net \<or> k \<in> set new"
          "dom (map_find (net_connectors net')) = dom (map_find (net_connectors next_net))"
          "e = None \<longrightarrow> (\<forall>k\<in>set targets. k \<in> dom (map_find (net_connectors next_net)) \<longrightarrow> connector_running k net')"
          by (auto simp: r)
        show ?thesis
          by (rule exI [of _ "k # new"]) (use new n k True in \<open>auto split: if_splits\<close>)
      next
        case F: False
        with eq Some False r have "started' = started" "net' = next_net" "e \<noteq> None"
          by (auto simp: next_net_def Let_def)
        with n k F show ?thesis by auto
      qed
    qed
  qed
qed


lemma StopStartedComponents_running:
  assumes "net_wf net"
  shows "net_wf (StopStartedComponents b ks net)"
    and "listener_running (StopStartedComponents b ks net) \<longleftrightarrow> listener_running net \<and> \<not> b"
    and "connector_running k (StopStartedComponents b ks net) \<longleftrightarrow> connector_running k net \<and> k \<notin> set ks"
  using stop_connectors_running [OF assms, of "rev ks"] stop_listener_running [of "fold stop_connector (rev ks) net"]
  by (auto simp: StopStartedComponents_def Let_def listener_running_def)

lemma resolve_connectors_targets:
  "resolve_connectors net acc ids = Inr targets \<Longrightarrow> set targets = set acc \<union> set ids"
  by (induction net acc ids rule: resolve_connectors.induct) (auto split: if_splits)

lemma net_Run_eq:
  assumes "net_initialized net" "\<not> (net_listener net = None \<and> net_connectors net = [])"
    and "start_listener zmq net = (le, ls, net1)"
  shows "net_Run zmq ids net = (case le of
      Some t \<Rightarrow> net_SetError Node_NodeRunFailed (''Failed to start inner network listener: '' @ t) net1
    | None \<Rightarrow> case (if ids = [] then Inr (map fst (net_connectors net1)) else resolve_connectors net1 [] ids) of
        Inl m \<Rightarrow> net_SetError Node_InvalidArgument m (StopStartedComponents ls [] net1)
      | Inr targets \<Rightarrow> case start_connectors zmq targets [] net1 of (ce, started, net2) \<Rightarrow>
          case ce of Some m \<Rightarrow> net_SetError Node_NodeRunFailed m (StopStartedComponents ls started net2)
          | None \<Rightarrow> (Node_None, net_ClearError net2))"
  unfolding net_Run_def assms(3) using assms(1,2) by (simp only: if_False if_True not_True_eq_False split_conv prod.case)

text \<open>What \<^verbatim>\<open>Run\<close> leaves running, in both outcomes.\<close>

lemma net_Run_running:
  assumes wf: "net_wf net" and run: "net_Run zmq ids net = (e, net')"
  shows "net_wf net' \<and>
    (e \<noteq> Node_None \<longrightarrow> (listener_running net' \<longleftrightarrow> listener_running net) \<and>
       (\<forall>k. connector_running k net' \<longleftrightarrow> connector_running k net)) \<and>
    (e = Node_None \<longrightarrow> (net_listener net \<noteq> None \<longrightarrow> listener_running net') \<and>
       (\<forall>k. connector_running k net \<longrightarrow> connector_running k net') \<and>
       (\<forall>k\<in>dom (map_find (net_connectors net)). ids = [] \<or> k \<in> set ids \<longrightarrow> connector_running k net'))"
proof (cases "net_initialized net \<and> (net_listener net \<noteq> None \<or> net_connectors net \<noteq> [])")
  case False
  with wf run show ?thesis by (auto simp: net_Run_def net_SetError_def net_ClearError_def split: if_splits)
next
  case True
  obtain le ls net1 where l: "start_listener zmq net = (le, ls, net1)" by (metis prod_cases3)
  note L = start_listener_running [OF wf l]
  have c1: "connector_running k net1 = connector_running k net" for k using L by (simp add: connector_running_def)
  define goal where "goal = (if ids = [] then Inr (map fst (net_connectors net1)) else resolve_connectors net1 [] ids)"
  have cond: "\<not> (net_listener net = None \<and> net_connectors net = [])" "net_initialized net" using True by auto
  note run1 = net_Run_eq [OF cond(2,1) l, of ids, unfolded run, folded goal_def]
  show ?thesis
  proof (cases le)
    case (Some t)
    with run1 L c1 show ?thesis by (auto simp: net_SetError_def)
  next
    case None
    show ?thesis
    proof (cases goal)
      case (Inl m)
      with run1 None L c1 StopStartedComponents_running [where net = net1 and b = ls and ks = "[]"] show ?thesis
        by (auto simp: net_SetError_def)
    next
      case (Inr targets)
      obtain ce started net2 where c: "start_connectors zmq targets [] net1 = (ce, started, net2)"
        by (metis prod_cases3)
      have targets: "k \<in> set targets" if "k \<in> dom (map_find (net_connectors net))" "ids = [] \<or> k \<in> set ids" for k
      proof -
        from that(1) L have k: "k \<in> fst ` set (net_connectors net1)"
          using map_find_None_iff [of "net_connectors net" k] by (simp add: domIff)
        show ?thesis
        proof (cases "ids = []")
          case True
          with Inr have "targets = map fst (net_connectors net1)" by (simp add: goal_def)
          with k show ?thesis by simp
        next
          case False
          with Inr that(2) resolve_connectors_targets [of net1 "[]" ids targets] show ?thesis
            by (simp add: goal_def)
        qed
      qed
      from start_connectors_running [OF conjunct1 [OF L] c] c1 have C: "net_wf net2" "net_listener net2 = net_listener net1"
        "\<forall>k\<in>set started. \<not> connector_running k net"
        "\<forall>k. connector_running k net2 \<longleftrightarrow> connector_running k net \<or> k \<in> set started"
        "ce = None \<longrightarrow> (\<forall>k\<in>set targets. k \<in> dom (map_find (net_connectors net1)) \<longrightarrow> connector_running k net2)"
        by auto
      have "listener_running net2 = listener_running net1" using C(2) by (simp add: listener_running_def)
      with run1 None Inr c C L targets StopStartedComponents_running [where net = net2 and b = ls and ks = started] show ?thesis
        by (cases ce) (auto simp: net_SetError_def net_ClearError_def)
    qed
  qed
qed

section \<open>What a start leaves untouched\<close>

text \<open>
  What a socket is after a start that failed: a running one is as it was, one that did not run differs at most in its error
  text and, if it is the listener, in its counters.
\<close>

definition slot_restored :: "ConnectorSlot \<Rightarrow> ConnectorSlot \<Rightarrow> bool" where
  "slot_restored slot slot' \<longleftrightarrow> slot' = slot \<or> \<not> zc_running (slot_connector slot) \<and>
     (\<exists>text. slot' = slot\<lparr>slot_connector := (slot_connector slot)\<lparr>zc_last_error_message := text\<rparr>\<rparr>)"

definition listener_restored :: "ZmqPassiveListener \<Rightarrow> ZmqPassiveListener \<Rightarrow> bool" where
  "listener_restored l l' \<longleftrightarrow> l' = l \<or> \<not> zl_running l \<and>
     (\<exists>text counters. l' = l\<lparr>zl_last_error_message := text, zl_metrics := counters\<rparr>)"

lemma restored_refl [simp]: "slot_restored slot slot" "listener_restored l l"
  by (simp_all add: slot_restored_def listener_restored_def)

lemma rel_restored_refl [simp]: "rel_option slot_restored x x" "rel_option listener_restored y y"
  by (simp_all add: option.rel_refl)

definition stop_slot :: "ConnectorSlot \<Rightarrow> ConnectorSlot" where
  "stop_slot slot = slot\<lparr>slot_connector := connector_Stop (slot_connector slot)\<rparr>"

lemma stop_slot_idem [simp]: "stop_slot (stop_slot slot) = stop_slot slot"
  by (simp add: stop_slot_def connector_op_defs)

lemma stop_connectors_find:
  assumes "map_wf (net_connectors net)"
  shows "map_find (net_connectors (fold stop_connector ks net)) k =
    (if k \<in> set ks then map_option stop_slot (map_find (net_connectors net) k) else map_find (net_connectors net) k)"
  using assms
proof (induction ks arbitrary: net)
  case (Cons k' ks)
  have "map_wf (net_connectors (stop_connector k' net)) \<and> map_find (net_connectors (stop_connector k' net)) k =
      (if k = k' then map_option stop_slot (map_find (net_connectors net) k) else map_find (net_connectors net) k)"
    using Cons.prems by (auto simp: stop_connector_def stop_slot_def std_map_find std_map_invar split: option.split)
  with Cons.IH [of "stop_connector k' net"] show ?case by (auto simp: option.map_comp o_def)
qed simp

lemma start_listener_undone:
  assumes wf: "net_wf net" and start: "start_listener zmq net = (e, started, net')"
  shows "listener_running net \<Longrightarrow> net' = net"
    and "rel_option listener_restored (net_listener net)
      (if started then map_option listener_Stop (net_listener net') else net_listener net')"
proof -
  show "net' = net" if "listener_running net"
    using that start by (auto simp: start_listener_def listener_running_def split: option.splits)
  show "rel_option listener_restored (net_listener net)
      (if started then map_option listener_Stop (net_listener net') else net_listener net')"
  proof (cases "net_listener net")
    case None
    with start show ?thesis by (simp add: start_listener_def)
  next
    case (Some l)
    obtain r l' tick where r: "listener_Start zmq l (net_tick net) = (r, l', tick)" by (metis prod_cases3)
    have "listener_restored l (listener_Stop l')" "r \<noteq> Zse_None \<Longrightarrow> listener_restored l l'" if "\<not> zl_running l"
    proof -
      note undone = listener_start_undone [OF net_wfD(3) [OF wf Some] that r]
      show "listener_restored l (listener_Stop l')" using undone(1) that unfolding listener_restored_def by blast
      have "l\<lparr>zl_last_error_message := x\<rparr> = l\<lparr>zl_last_error_message := x, zl_metrics := zl_metrics l\<rparr>" for x by simp
      then show "r \<noteq> Zse_None \<Longrightarrow> listener_restored l l'" using undone(2) that unfolding listener_restored_def by metis
    qed
    with Some start r show ?thesis by (auto simp: start_listener_def Let_def split: if_splits)
  qed
qed

lemma start_slot:
  assumes wf: "net_wf net" and slot: "map_find (net_connectors net) k = Some slot" "\<not> zc_running (slot_connector slot)"
    and start: "connector_Start zmq (slot_connector slot) (net_tick net) = (r, c, tick)"
  defines "next_net \<equiv> announce k (zc_state (slot_connector slot)) (zc_state c)
    (net\<lparr>net_connectors := map_modify k (\<lambda>slot. slot\<lparr>slot_connector := c\<rparr>) (net_connectors net), net_tick := tick\<rparr>)"
  shows "net_wf next_net" "\<not> connector_running k net" "connector_running k next_net \<longleftrightarrow> r = Zse_None"
    and "rel_option slot_restored (map_find (net_connectors net) k)
      (if r = Zse_None then map_option stop_slot (map_find (net_connectors next_net) k) else map_find (net_connectors next_net) k)"
    and "k' \<noteq> k \<Longrightarrow> map_find (net_connectors next_net) k' = map_find (net_connectors net) k' \<and>
      connector_running k' next_net = connector_running k' net"
    and "net_bound_endpoint next_net = net_bound_endpoint net"
proof -
  note undone = connector_start_undone [OF net_wfD(2) [OF wf slot(1)] slot(2) start]
  have law: "connector_wf c \<and> (zc_running c \<longleftrightarrow> r = Zse_None)"
    using zmq_connector.start_law [OF net_wfD(2) [OF wf slot(1)] start] slot(2) by simp
  have find: "map_find (net_connectors next_net) k' =
      (if k' = k then Some (slot\<lparr>slot_connector := c\<rparr>) else map_find (net_connectors net) k')" for k'
    using slot(1) by (simp add: next_net_def std_map_find net_wfD(1) [OF wf])
  show "net_wf next_net" using replace_connector(1) [OF wf slot(1), of "\<lambda>_. c"] law by (simp add: next_net_def)
  show "\<not> connector_running k net" "connector_running k next_net \<longleftrightarrow> r = Zse_None"
    using slot law by (simp_all add: connector_running_def find)
  show "k' \<noteq> k \<Longrightarrow> map_find (net_connectors next_net) k' = map_find (net_connectors net) k' \<and>
      connector_running k' next_net = connector_running k' net"
    by (simp add: connector_running_def find)
  show "net_bound_endpoint next_net = net_bound_endpoint net" by (simp add: next_net_def announce_def)
  show "rel_option slot_restored (map_find (net_connectors net) k)
      (if r = Zse_None then map_option stop_slot (map_find (net_connectors next_net) k) else map_find (net_connectors next_net) k)"
  proof (cases "r = Zse_None")
    case True
    with undone(1) slot show ?thesis by (auto simp: find slot_restored_def stop_slot_def)
  next
    case False
    then obtain message where "c = (slot_connector slot)\<lparr>zc_last_error_message := message\<rparr>" using undone(2) by blast
    with False slot show ?thesis by (auto simp: find slot_restored_def)
  qed
qed

lemma start_connectors_undone:
  assumes "net_wf net" "start_connectors zmq targets started net = (e, started', net')"
  shows "\<exists>new. started' = started @ new \<and> net_bound_endpoint net' = net_bound_endpoint net \<and>
    (\<forall>k. if connector_running k net then map_find (net_connectors net') k = map_find (net_connectors net) k \<and> k \<notin> set new
      else rel_option slot_restored (map_find (net_connectors net) k)
        (if k \<in> set new then map_option stop_slot (map_find (net_connectors net') k)
         else map_find (net_connectors net') k))"
  using assms
proof (induction zmq targets started net arbitrary: rule: start_connectors.induct)
  case (1 zmq started net)
  then show ?case by simp
next
  case (2 zmq k targets started net)
  note wf = \<open>net_wf net\<close> and eq = \<open>start_connectors zmq (k # targets) started net = (e, started', net')\<close>
  show ?case
  proof (cases "map_find (net_connectors net) k")
    case None
    with 2(1) [OF None wf] eq show ?thesis by simp
  next
    case (Some slot)
    show ?thesis
    proof (cases "zc_running (slot_connector slot)")
      case True
      with 2(2) [OF Some True wf] eq Some show ?thesis by simp
    next
      case False
      obtain r c tick where r: "connector_Start zmq (slot_connector slot) (net_tick net) = (r, c, tick)"
        by (metis prod_cases3)
      define next_net where "next_net = announce k (zc_state (slot_connector slot)) (zc_state c)
        (net\<lparr>net_connectors := map_modify k (\<lambda>slot. slot\<lparr>slot_connector := c\<rparr>) (net_connectors net), net_tick := tick\<rparr>)"
      note next_slot = start_slot [OF wf Some False r, folded next_net_def]
      show ?thesis
      proof (cases "r = Zse_None")
        case True
        have "start_connectors zmq targets (started @ [k]) next_net = (e, started', net')"
          using eq Some False r True by (simp add: next_net_def Let_def)
        from 2(3) [OF Some False r [symmetric] refl next_net_def _ next_slot(1) this] True
        obtain new where new: "started' = (started @ [k]) @ new" "net_bound_endpoint net' = net_bound_endpoint next_net"
          "\<And>k. if connector_running k next_net
            then map_find (net_connectors net') k = map_find (net_connectors next_net) k \<and> k \<notin> set new
            else rel_option slot_restored (map_find (net_connectors next_net) k)
              (if k \<in> set new then map_option stop_slot (map_find (net_connectors net') k)
               else map_find (net_connectors net') k)"
          by (auto simp: r)
        show ?thesis
        proof (intro exI [of _ "k # new"] conjI allI)
          fix k'
          show "if connector_running k' net then map_find (net_connectors net') k' = map_find (net_connectors net) k' \<and> k' \<notin> set (k # new)
            else rel_option slot_restored (map_find (net_connectors net) k')
              (if k' \<in> set (k # new) then map_option stop_slot (map_find (net_connectors net') k')
               else map_find (net_connectors net') k')"
            using new(3) [of k'] next_slot True by (cases "k' = k") auto
        qed (use new(1,2) next_slot(6) in simp_all)
      next
        case F: False
        with eq Some False r have "started' = started" "net' = next_net" by (auto simp: next_net_def Let_def)
        moreover have "if connector_running k' net then map_find (net_connectors next_net) k' = map_find (net_connectors net) k'
            else rel_option slot_restored (map_find (net_connectors net) k') (map_find (net_connectors next_net) k')" for k'
          using next_slot F by (cases "k' = k") simp_all
        ultimately show ?thesis using next_slot(6) by (auto intro!: exI [of _ "[]"])
      qed
    qed
  qed
qed

lemma StopStartedComponents_undone:
  assumes "map_wf (net_connectors net)"
  shows "net_listener (StopStartedComponents b ks net) = (if b then map_option listener_Stop (net_listener net) else net_listener net)"
    and "map_find (net_connectors (StopStartedComponents b ks net)) k =
      (if k \<in> set ks then map_option stop_slot (map_find (net_connectors net) k) else map_find (net_connectors net) k)"
    and "\<not> b \<Longrightarrow> net_bound_endpoint (StopStartedComponents b ks net) = net_bound_endpoint net"
proof -
  have same: "net_listener (fold stop_connector ks net) = net_listener net \<and>
      net_bound_endpoint (fold stop_connector ks net) = net_bound_endpoint net" for ks net
    by (induction ks arbitrary: net) (simp_all add: stop_connector_def announce_def split: option.split)
  show "net_listener (StopStartedComponents b ks net) = (if b then map_option listener_Stop (net_listener net) else net_listener net)"
    "map_find (net_connectors (StopStartedComponents b ks net)) k =
      (if k \<in> set ks then map_option stop_slot (map_find (net_connectors net) k) else map_find (net_connectors net) k)"
    "\<not> b \<Longrightarrow> net_bound_endpoint (StopStartedComponents b ks net) = net_bound_endpoint net"
    using same stop_connectors_find [OF assms, of "rev ks" k]
    by (auto simp: StopStartedComponents_def stop_listener_def Let_def split: option.split)
qed

text \<open>A run leaves the running sockets alone; a run that fails restores the others.\<close>

lemma net_Run_restores:
  assumes wf: "net_wf net" and run: "net_Run zmq ids net = (e, net')"
  shows "(listener_running net \<longrightarrow> net_listener net' = net_listener net \<and> net_bound_endpoint net' = net_bound_endpoint net) \<and>
    (\<forall>k. connector_running k net \<longrightarrow> map_find (net_connectors net') k = map_find (net_connectors net) k) \<and>
    (e \<noteq> Node_None \<longrightarrow> rel_option listener_restored (net_listener net) (net_listener net') \<and>
      (\<forall>k. rel_option slot_restored (map_find (net_connectors net) k) (map_find (net_connectors net') k)))"
proof (cases "net_initialized net \<and> (net_listener net \<noteq> None \<or> net_connectors net \<noteq> [])")
  case False
  with run show ?thesis by (auto simp: net_Run_def net_SetError_def net_ClearError_def split: if_splits)
next
  case True
  obtain le ls net1 where l: "start_listener zmq net = (le, ls, net1)" by (metis prod_cases3)
  note L = start_listener_running [OF wf l] and U = start_listener_undone [OF wf l]
  have c1: "net_connectors net1 = net_connectors net" "connector_running k net1 = connector_running k net" for k
    using L by (simp_all add: connector_running_def)
  have ls: "\<not> ls" if "listener_running net" using L that by blast
  define goal where "goal = (if ids = [] then Inr (map fst (net_connectors net1)) else resolve_connectors net1 [] ids)"
  have cond: "\<not> (net_listener net = None \<and> net_connectors net = [])" "net_initialized net" using True by auto
  note run1 = net_Run_eq [OF cond(2,1) l, of ids, unfolded run, folded goal_def]
  show ?thesis
  proof (cases le)
    case (Some t)
    with L U have "rel_option listener_restored (net_listener net) (net_listener net1)" by auto
    with run1 Some c1 U(1) show ?thesis by (auto simp: net_SetError_def)
  next
    case None
    show ?thesis
    proof (cases goal)
      case (Inl m)
      note S = StopStartedComponents_undone [OF net_wfD(1) [OF conjunct1 [OF L]], of ls "[]"]
      from run1 None Inl have "net' = (StopStartedComponents ls [] net1)\<lparr>net_last_error_message :=
          (if m = [] then NodeErrorMessage Node_InvalidArgument else m)\<rparr>" by (simp add: net_SetError_def)
      with S U c1 ls show ?thesis by auto
    next
      case (Inr targets)
      obtain ce started net2 where c: "start_connectors zmq targets [] net1 = (ce, started, net2)"
        by (metis prod_cases3)
      obtain C: "net_wf net2" "net_listener net2 = net_listener net1" using start_connectors_running [OF conjunct1 [OF L] c] by blast
      obtain K: "net_bound_endpoint net2 = net_bound_endpoint net1"
        and D: "\<And>k. if connector_running k net
          then map_find (net_connectors net2) k = map_find (net_connectors net) k \<and> k \<notin> set started
          else rel_option slot_restored (map_find (net_connectors net) k)
            (if k \<in> set started then map_option stop_slot (map_find (net_connectors net2) k) else map_find (net_connectors net2) k)"
        using start_connectors_undone [OF conjunct1 [OF L] c] unfolding c1 by auto
      note S = StopStartedComponents_undone [OF net_wfD(1) [OF C(1)], of ls started]
      show ?thesis
      proof (cases ce)
        case None': None
        with run1 None Inr c have "e = Node_None" "net' = net_ClearError net2" by simp_all
        with C K D U(1) show ?thesis by (auto simp: net_ClearError_def)
      next
        case (Some m)
        with run1 None Inr c have n: "net' = (StopStartedComponents ls started net2)\<lparr>net_last_error_message :=
            (if m = [] then NodeErrorMessage Node_NodeRunFailed else m)\<rparr>" by (simp add: net_SetError_def)
        have "connector_running k net \<Longrightarrow> map_find (net_connectors net') k = map_find (net_connectors net) k"
          and "rel_option slot_restored (map_find (net_connectors net) k) (map_find (net_connectors net') k)" for k
          using D [of k] by (auto simp: n S(2) split: if_splits)
        moreover have "net_listener net' = (if ls then map_option listener_Stop (net_listener net1) else net_listener net1)"
          by (simp add: n S(1) C(2))
        with U(2) have "rel_option listener_restored (net_listener net) (net_listener net')" by (simp only:)
        moreover have "listener_running net \<Longrightarrow> net_listener net' = net_listener net \<and> net_bound_endpoint net' = net_bound_endpoint net"
          using ls U(1) S(1,3) C(2) K by (auto simp: n)
        ultimately show ?thesis by blast
      qed
    qed
  qed
qed

section \<open>Reachable networks\<close>

text \<open>
  A network changes by its operations, by what happens to its connections and by the messages it receives. An
  event or a message changes the socket concerned; a new state of a connector is announced. What the handlers of the
  node do then with the network is the next steps.
\<close>

inductive net_step :: "libzmq \<Rightarrow> InnerNetwork \<Rightarrow> InnerNetwork \<Rightarrow> bool" for zmq where
  net_step_Init: "net_step zmq net (snd (net_Init zmq net))"
| net_step_Run: "net_step zmq net (snd (net_Run zmq ids net))"
| net_step_Uninit: "net_step zmq net (snd (net_Uninit net))"
| net_step_Send: "net_step zmq net (snd (net_Send zmq routing_id payload net))"
| net_step_SendToConnector: "net_step zmq net (snd (net_SendToConnector zmq k payload net))"
| net_step_event: "map_find (net_connectors net) k = Some slot \<Longrightarrow> zc_running (slot_connector slot) \<Longrightarrow>
    net_step zmq net (announce k (zc_state (slot_connector slot)) (event_state event (zc_state (slot_connector slot)))
      (net\<lparr>net_connectors := map_modify k
        (\<lambda>slot. slot\<lparr>slot_connector := connector_PollMonitor (\<lambda>_. id) [event] (slot_connector slot)\<rparr>) (net_connectors net)\<rparr>))"
| net_step_connector_message: "map_find (net_connectors net) k = Some slot \<Longrightarrow>
    net_step zmq net (net\<lparr>net_connectors := map_modify k
      (\<lambda>slot. slot\<lparr>slot_connector := snd (connector_PollIncomingMessages (\<lambda>_. id) [incoming] (slot_connector slot))\<rparr>)
      (net_connectors net)\<rparr>)"
| net_step_accepted: "net_listener net = Some l \<Longrightarrow> zl_running l \<Longrightarrow>
    net_step zmq net (net\<lparr>net_listener := Some (HandleAcceptedConnection now socket_id l)\<rparr>)"
| net_step_disconnected: "net_listener net = Some l \<Longrightarrow> zl_running l \<Longrightarrow>
    net_step zmq net (net\<lparr>net_listener := Some (HandleDisconnectedConnection now socket_id l)\<rparr>)"
| net_step_listener_message: "net_listener net = Some l \<Longrightarrow>
    net_step zmq net (net\<lparr>net_listener := Some (snd (listener_PollIncomingMessages now (\<lambda>_ _. id) [incoming] l))\<rparr>)"

inductive net_reachable :: "libzmq \<Rightarrow> InnerNetwork \<Rightarrow> bool" for zmq where
  net_reachable_new: "net_reachable zmq (new_InnerNetwork options tick)"
| net_reachable_step: "net_reachable zmq net \<Longrightarrow> net_step zmq net net' \<Longrightarrow> net_reachable zmq net'"

lemma fold_emplace_wf:
  assumes "net_wf net"
  shows "net_wf (fold (\<lambda>c net. net\<lparr>net_connectors := snd (map_emplace (nco_id c) (make_slot context c)
    (net_connectors net))\<rparr>) cs net)"
  using assms
proof (induction cs arbitrary: net)
  case (Cons c cs)
  have "net_wf (net\<lparr>net_connectors := snd (map_emplace (nco_id c) (make_slot context c) (net_connectors net))\<rparr>)"
    using Cons.prems unfolding net_wf_def
    by (auto simp: map_emplace_def std_map_find std_map_invar make_slot_def new_sockets_wf split: if_splits)
  from Cons.IH [OF this] show ?case by simp
qed simp

lemma net_Init_wf: "net_wf net \<Longrightarrow> net_wf (snd (net_Init zmq net))"
proof -
  assume wf: "net_wf net"
  have listener: "net_wf (n\<lparr>net_listener := Some (new_ZmqPassiveListener c os)\<rparr>)" if "net_wf n" for n c os
    using that by (simp add: net_wf_def new_sockets_wf)
  show ?thesis using wf
    by (auto simp: net_Init_def net_ValidateOptions_def net_SetError_def net_ClearError_def Let_def
        intro!: fold_emplace_wf listener split: prod.split option.split)
qed

lemma net_Send_wf: "net_wf net \<Longrightarrow> net_wf (snd (net_Send zmq r p net))"
proof -
  assume wf: "net_wf net"
  show ?thesis
  proof (cases "net_listener net")
    case None
    with wf show ?thesis by (simp add: net_Send_def net_SetError_def)
  next
    case (Some l)
    obtain e l' t where s: "listener_Send zmq r p l (net_tick net) = (e, l', t)" by (metis prod_cases3)
    from zmq_listener.send_law [of l zmq "(r, p)" "net_tick net" e l' t] net_wfD(3) [OF wf Some] s
    have "listener_wf l'" by simp
    with wf Some s show ?thesis
      by (auto simp: net_Send_def net_SetError_def net_ClearError_def Let_def net_wf_def)
  qed
qed

lemma net_SendToConnector_wf: "net_wf net \<Longrightarrow> net_wf (snd (net_SendToConnector zmq k p net))"
proof -
  assume wf: "net_wf net"
  show ?thesis
  proof (cases "map_find (net_connectors net) k")
    case None
    with wf show ?thesis by (simp add: net_SendToConnector_def net_SetError_def)
  next
    case (Some slot)
    obtain e c t where s: "connector_Send zmq p (slot_connector slot) (net_tick net) = (e, c, t)"
      by (metis prod_cases3)
    have "connector_wf c" using zmq_connector.send_law [OF net_wfD(2) [OF wf Some] s] by blast
    with replace_connector(1) [OF wf Some, of "\<lambda>_. c"] wf Some s show ?thesis
      by (auto simp: net_SendToConnector_def net_SetError_def net_ClearError_def Let_def)
  qed
qed

lemma net_step_wf: "net_step zmq net net' \<Longrightarrow> net_wf net \<Longrightarrow> net_wf net'"
proof (induction rule: net_step.induct)
  case (net_step_Run net ids)
  then show ?case using net_Run_running [of net zmq ids "fst (net_Run zmq ids net)" "snd (net_Run zmq ids net)"] by simp
next
  case (net_step_Uninit net)
  then show ?case by (auto simp: net_Uninit_def net_ResetState_def net_ClearError_def Let_def net_wf_def std_map_invar)
next
  case (net_step_event net k slot event)
  then show ?case
    using replace_connector(1) [of net k slot "connector_PollMonitor (\<lambda>_. id) [event]"] net_wfD(2) [of net k slot]
    by (simp add: PollMonitor_wf del: connector_PollMonitor.simps)
next
  case (net_step_connector_message net k slot incoming)
  then show ?case
    using replace_connector(1) [of net k slot "\<lambda>c. snd (connector_PollIncomingMessages (\<lambda>_. id) [incoming] c)"]
      net_wfD(2) [of net k slot]
    by (simp add: PollIncomingMessages_wf del: connector_PollIncomingMessages.simps)
next
  case (net_step_accepted net l now socket_id)
  then show ?case by (auto simp: replace_listener net_wfD connection_events_wf)
next
  case (net_step_disconnected net l now socket_id)
  then show ?case by (auto simp: replace_listener net_wfD connection_events_wf)
next
  case (net_step_listener_message net l now incoming)
  then show ?case
    by (auto simp: replace_listener net_wfD listener_PollIncomingMessages_wf simp del: listener_PollIncomingMessages.simps)
qed (simp_all add: net_Init_wf net_Send_wf net_SendToConnector_wf)

lemma net_reachable_wf: "net_reachable zmq net \<Longrightarrow> net_wf net"
  by (induction rule: net_reachable.induct)
    (simp_all add: net_step_wf, simp add: net_wf_def new_InnerNetwork_def std_map_invar)


section \<open>Properties\<close>


text \<open>
  A library that stops working at its thirty-second call, and a network with a listener and two connectors; the calls of the
  context, the listener and the first connector succeed, and the second connector fails while its socket is configured.
\<close>

definition sample_failing_zmq :: libzmq where
  "sample_failing_zmq = sample_zmq\<lparr>zmq_succeeds := (\<lambda>n. n < 31)\<rparr>"

definition sample_network :: InnerNetwork where
  "sample_network = snd (net_Init sample_failing_zmq (new_InnerNetwork \<lparr>nno_local_endpoint = ''tcp://h:1'',
     nno_connectors = [\<lparr>nco_id = ''A'', nco_remote_endpoint = ''tcp://g:2'', nco_routing_id = ''Game0''\<rparr>,
       \<lparr>nco_id = ''B'', nco_remote_endpoint = ''tcp://g:3'', nco_routing_id = ''Game0''\<rparr>]\<rparr> 0))"

definition sample_running :: InnerNetwork where
  "sample_running = snd (net_Run sample_failing_zmq [''A''] sample_network)"

lemma sample_network_reachable:
  "net_reachable sample_failing_zmq sample_network" "net_reachable sample_failing_zmq sample_running"
proof -
  show r: "net_reachable sample_failing_zmq sample_network"
    unfolding sample_network_def by (rule net_reachable_step [OF net_reachable_new net_step_Init])
  show "net_reachable sample_failing_zmq sample_running"
    unfolding sample_running_def by (rule net_reachable_step [OF r net_step_Run])
qed


end
