(* ===== verification/HeartbeatCodec.thy ===== *)
theory HeartbeatCodec
  imports Codec
begin

text \<open>
  \<^verbatim>\<open>net/message/HeartbeatCodec.h\<close> and \<^verbatim>\<open>.cpp\<close>, with the structures of
  \<^verbatim>\<open>net/message/InnerMessageTypes.h\<close>: the heartbeat request and its response. The internal
  helpers take the reader or the writer by pointer; every call passes the address of a local, so
  the model passes the object itself.
\<close>

section \<open>Shared message structures\<close>

datatype InnerProcessType = Process_Gate | Process_Game

fun inner_process_type_value :: "InnerProcessType \<Rightarrow> u16" where
  "inner_process_type_value Process_Gate = 1"
| "inner_process_type_value Process_Game = 2"

definition IsValidInnerProcessType :: "u16 \<Rightarrow> bool" where
  "IsValidInnerProcessType process_type \<longleftrightarrow>
     process_type = inner_process_type_value Process_Gate \<or>
     process_type = inner_process_type_value Process_Game"

definition kInnerLoadSnapshotSize :: nat where "kInnerLoadSnapshotSize = 4 * 5"

record Endpoint =
  ep_host :: string
  ep_port :: u16

definition zero_Endpoint :: Endpoint where
  "zero_Endpoint = \<lparr>ep_host = [], ep_port = 0\<rparr>"

record LoadSnapshot =
  ls_connection_count :: u32
  ls_session_count :: u32
  ls_entity_count :: u32
  ls_space_count :: u32
  ls_load_score :: u32

definition zero_LoadSnapshot :: LoadSnapshot where
  "zero_LoadSnapshot = \<lparr>ls_connection_count = 0, ls_session_count = 0, ls_entity_count = 0,
     ls_space_count = 0, ls_load_score = 0\<rparr>"

text \<open>The five-field chains are the same in every codec that carries a load snapshot.\<close>

definition write_load_fields :: "LoadSnapshot \<Rightarrow> BinaryWriter \<Rightarrow> bool \<times> BinaryWriter" where
  "write_load_fields snapshot = chain
     [WriteUInt32 (ls_connection_count snapshot), WriteUInt32 (ls_session_count snapshot),
      WriteUInt32 (ls_entity_count snapshot), WriteUInt32 (ls_space_count snapshot),
      WriteUInt32 (ls_load_score snapshot)]"

definition read_load_fields :: "BinaryReader \<times> LoadSnapshot \<Rightarrow> bool \<times> BinaryReader \<times> LoadSnapshot" where
  "read_load_fields = chain
     [read_into ReadUInt32 ls_connection_count ls_connection_count_update,
      read_into ReadUInt32 ls_session_count ls_session_count_update,
      read_into ReadUInt32 ls_entity_count ls_entity_count_update,
      read_into ReadUInt32 ls_space_count ls_space_count_update,
      read_into ReadUInt32 ls_load_score ls_load_score_update]"

definition wire_load :: "LoadSnapshot \<Rightarrow> byte list" where
  "wire_load l = enc_u32 (ls_connection_count l) @ enc_u32 (ls_session_count l) @
     enc_u32 (ls_entity_count l) @ enc_u32 (ls_space_count l) @ enc_u32 (ls_load_score l)"

lemma length_wire_load [simp]: "length (wire_load l) = kInnerLoadSnapshotSize"
  by (simp add: wire_load_def kInnerLoadSnapshotSize_def)

lemma writes_load [writes_intros]: "writes (write_load_fields l) (wire_load l) True"
  unfolding write_load_fields_def wire_load_def by (rule writes_cong, (rule writes_intros)+) simp_all

lemma reads_load [reads_intros]: "reads read_load_fields (\<lambda>m bs m'. bs = wire_load m')"
  unfolding read_load_fields_def
proof (rule reads_cong, (rule reads_intros)+, rule iffI, goal_cases)
  case (1 m bs m')
  then show ?case by (cases m) (auto simp: wire_load_def)
next
  case (2 m bs m')
  show ?case unfolding 2 wire_load_def
    by (intro exI conjI, (rule refl TrueI)+) (cases m; cases m'; simp)+
qed

section \<open>Heartbeat messages\<close>

datatype HeartbeatCodecErrorCode =
    Hb_None
  | Hb_BufferTooSmall
  | Hb_LengthOverflow
  | Hb_InvalidArgument
  | Hb_InvalidStatusFlags
  | Hb_InvalidHeartbeatTiming
  | Hb_TrailingBytes

fun HeartbeatCodecErrorMessage :: "HeartbeatCodecErrorCode \<Rightarrow> string" where
  "HeartbeatCodecErrorMessage Hb_None = ''Success.''"
| "HeartbeatCodecErrorMessage Hb_BufferTooSmall =
     ''Buffer does not contain enough bytes for the requested heartbeat operation.''"
| "HeartbeatCodecErrorMessage Hb_LengthOverflow =
     ''Heartbeat field length exceeds the supported prefix range.''"
| "HeartbeatCodecErrorMessage Hb_InvalidArgument = ''Heartbeat codec output argument must not be null.''"
| "HeartbeatCodecErrorMessage Hb_InvalidStatusFlags = ''Heartbeat statusFlags must be zero.''"
| "HeartbeatCodecErrorMessage Hb_InvalidHeartbeatTiming =
     ''Heartbeat interval must be less than timeout.''"
| "HeartbeatCodecErrorMessage Hb_TrailingBytes = ''Heartbeat buffer must not contain trailing bytes.''"

record HeartbeatRequest =
  hr_sent_at_unix_ms :: u64
  hr_status_flags :: u32
  hr_load :: LoadSnapshot

record HeartbeatSuccessResponse =
  hs_heartbeat_interval_ms :: u32
  hs_heartbeat_timeout_ms :: u32
  hs_server_now_unix_ms :: u64

definition zero_HeartbeatRequest :: HeartbeatRequest where
  "zero_HeartbeatRequest =
     \<lparr>hr_sent_at_unix_ms = 0, hr_status_flags = 0, hr_load = zero_LoadSnapshot\<rparr>"

definition zero_HeartbeatSuccessResponse :: HeartbeatSuccessResponse where
  "zero_HeartbeatSuccessResponse =
     \<lparr>hs_heartbeat_interval_ms = 0, hs_heartbeat_timeout_ms = 0, hs_server_now_unix_ms = 0\<rparr>"

definition kHeartbeatRequestSize :: nat where
  "kHeartbeatRequestSize = 8 + 4 + kInnerLoadSnapshotSize"

definition kHeartbeatSuccessResponseSize :: nat where
  "kHeartbeatSuccessResponseSize = 4 + 4 + 8"

text \<open>The switch of the source has no case for an invalid bool, which falls to its last return.\<close>

fun heartbeat_MapSerializationError :: "SerializationErrorCode \<Rightarrow> HeartbeatCodecErrorCode" where
  "heartbeat_MapSerializationError Ser_None = Hb_None"
| "heartbeat_MapSerializationError Ser_BufferTooSmall = Hb_BufferTooSmall"
| "heartbeat_MapSerializationError Ser_LengthOverflow = Hb_LengthOverflow"
| "heartbeat_MapSerializationError Ser_InvalidArgument = Hb_InvalidArgument"
| "heartbeat_MapSerializationError Ser_InvalidBoolValue = Hb_InvalidArgument"

lemma heartbeat_MapSerializationError_None [simp]:
  "heartbeat_MapSerializationError e = Hb_None \<longleftrightarrow> e = Ser_None"
  by (cases e) auto

definition ValidateStatusFlags :: "u32 \<Rightarrow> HeartbeatCodecErrorCode" where
  "ValidateStatusFlags status_flags = (if status_flags \<noteq> 0 then Hb_InvalidStatusFlags else Hb_None)"

definition heartbeat_ValidateHeartbeatTiming :: "u32 \<Rightarrow> u32 \<Rightarrow> HeartbeatCodecErrorCode" where
  "heartbeat_ValidateHeartbeatTiming heartbeat_interval_ms heartbeat_timeout_ms =
     (if heartbeat_interval_ms \<ge> heartbeat_timeout_ms then Hb_InvalidHeartbeatTiming else Hb_None)"

definition heartbeat_EncodeLoadSnapshot ::
    "LoadSnapshot \<Rightarrow> BinaryWriter \<Rightarrow> HeartbeatCodecErrorCode \<times> BinaryWriter" where
  "heartbeat_EncodeLoadSnapshot snapshot =
     checked heartbeat_MapSerializationError bw_error Hb_None (write_load_fields snapshot)"

definition heartbeat_DecodeLoadSnapshot ::
    "BinaryReader \<Rightarrow> LoadSnapshot ptr \<Rightarrow> HeartbeatCodecErrorCode \<times> BinaryReader \<times> LoadSnapshot ptr" where
  "heartbeat_DecodeLoadSnapshot reader snapshot =
     (if snapshot = None then (Hb_InvalidArgument, reader, snapshot)
      else case read_load_fields (reader, zero_LoadSnapshot) of (ok, reader, parsed_snapshot) \<Rightarrow>
        if \<not> ok then (heartbeat_MapSerializationError (br_error reader), reader, snapshot)
        else (Hb_None, reader, Some parsed_snapshot))"

definition heartbeat_CheckTrailingBytes :: "BinaryReader \<Rightarrow> HeartbeatCodecErrorCode" where
  "heartbeat_CheckTrailingBytes reader =
     (if reader_remaining reader \<noteq> 0 then Hb_TrailingBytes else Hb_None)"

text \<open>
  For each message, the writes of the encoder and the phases of the decoder, and the operation
  itself around them.
\<close>

definition write_HeartbeatRequest ::
    "HeartbeatRequest \<Rightarrow> BinaryWriter \<Rightarrow> HeartbeatCodecErrorCode \<times> BinaryWriter" where
  "write_HeartbeatRequest message = until_error Hb_None
     [checked heartbeat_MapSerializationError bw_error Hb_None (chain
        [WriteUInt64 (hr_sent_at_unix_ms message), WriteUInt32 (hr_status_flags message)]),
      heartbeat_EncodeLoadSnapshot (hr_load message)]"

definition EncodeHeartbeatRequest ::
    "HeartbeatRequest \<Rightarrow> byte list \<Rightarrow> HeartbeatCodecErrorCode \<times> byte list" where
  "EncodeHeartbeatRequest message buffer =
     (let status_result = ValidateStatusFlags (hr_status_flags message) in
      if status_result \<noteq> Hb_None then (status_result, buffer)
      else case write_HeartbeatRequest message (new_BinaryWriter buffer) of
        (result, writer) \<Rightarrow> (result, bw_buffer writer))"

definition read_HeartbeatRequest ::
    "BinaryReader \<times> HeartbeatRequest \<Rightarrow> HeartbeatCodecErrorCode \<times> BinaryReader \<times> HeartbeatRequest" where
  "read_HeartbeatRequest = until_error Hb_None
     [checked heartbeat_MapSerializationError (\<lambda>s. br_error (fst s)) Hb_None (chain
        [read_into ReadUInt64 hr_sent_at_unix_ms hr_sent_at_unix_ms_update,
         read_into ReadUInt32 hr_status_flags hr_status_flags_update]),
      decode_into heartbeat_DecodeLoadSnapshot hr_load hr_load_update,
      check_message (\<lambda>m. ValidateStatusFlags (hr_status_flags m)),
      check_reader heartbeat_CheckTrailingBytes]"

definition DecodeHeartbeatRequest ::
    "byte list \<Rightarrow> HeartbeatRequest ptr \<Rightarrow> HeartbeatCodecErrorCode \<times> HeartbeatRequest ptr" where
  "DecodeHeartbeatRequest buffer message =
     (if message = None then (Hb_InvalidArgument, None)
      else case read_HeartbeatRequest (new_BinaryReader buffer, zero_HeartbeatRequest) of
        (result, reader, parsed_message) \<Rightarrow>
        if result \<noteq> Hb_None then (result, Some zero_HeartbeatRequest)
        else (Hb_None, Some parsed_message))"

definition write_HeartbeatSuccessResponse ::
    "HeartbeatSuccessResponse \<Rightarrow> BinaryWriter \<Rightarrow> HeartbeatCodecErrorCode \<times> BinaryWriter" where
  "write_HeartbeatSuccessResponse message =
     checked heartbeat_MapSerializationError bw_error Hb_None (chain
       [WriteUInt32 (hs_heartbeat_interval_ms message), WriteUInt32 (hs_heartbeat_timeout_ms message),
        WriteUInt64 (hs_server_now_unix_ms message)])"

definition EncodeHeartbeatSuccessResponse ::
    "HeartbeatSuccessResponse \<Rightarrow> byte list \<Rightarrow> HeartbeatCodecErrorCode \<times> byte list" where
  "EncodeHeartbeatSuccessResponse message buffer =
     (let timing_result = heartbeat_ValidateHeartbeatTiming
        (hs_heartbeat_interval_ms message) (hs_heartbeat_timeout_ms message) in
      if timing_result \<noteq> Hb_None then (timing_result, buffer)
      else case write_HeartbeatSuccessResponse message (new_BinaryWriter buffer) of
        (result, writer) \<Rightarrow> (result, bw_buffer writer))"

definition read_HeartbeatSuccessResponse ::
    "BinaryReader \<times> HeartbeatSuccessResponse \<Rightarrow>
     HeartbeatCodecErrorCode \<times> BinaryReader \<times> HeartbeatSuccessResponse" where
  "read_HeartbeatSuccessResponse = until_error Hb_None
     [checked heartbeat_MapSerializationError (\<lambda>s. br_error (fst s)) Hb_None (chain
        [read_into ReadUInt32 hs_heartbeat_interval_ms hs_heartbeat_interval_ms_update,
         read_into ReadUInt32 hs_heartbeat_timeout_ms hs_heartbeat_timeout_ms_update,
         read_into ReadUInt64 hs_server_now_unix_ms hs_server_now_unix_ms_update]),
      check_message (\<lambda>m. heartbeat_ValidateHeartbeatTiming
        (hs_heartbeat_interval_ms m) (hs_heartbeat_timeout_ms m)),
      check_reader heartbeat_CheckTrailingBytes]"

definition DecodeHeartbeatSuccessResponse ::
    "byte list \<Rightarrow> HeartbeatSuccessResponse ptr \<Rightarrow>
     HeartbeatCodecErrorCode \<times> HeartbeatSuccessResponse ptr" where
  "DecodeHeartbeatSuccessResponse buffer message =
     (if message = None then (Hb_InvalidArgument, None)
      else case read_HeartbeatSuccessResponse (new_BinaryReader buffer, zero_HeartbeatSuccessResponse) of
        (result, reader, parsed_message) \<Rightarrow>
        if result \<noteq> Hb_None then (result, Some zero_HeartbeatSuccessResponse)
        else (Hb_None, Some parsed_message))"

section \<open>The heartbeat codecs implement their contract\<close>

definition wire_HeartbeatRequest :: "HeartbeatRequest \<Rightarrow> byte list" where
  "wire_HeartbeatRequest m =
     (enc_u64 (hr_sent_at_unix_ms m) @ enc_u32 (hr_status_flags m)) @ wire_load (hr_load m)"

definition valid_HeartbeatRequest :: "HeartbeatRequest \<Rightarrow> bool" where
  "valid_HeartbeatRequest m \<longleftrightarrow> hr_status_flags m = 0"

definition wire_HeartbeatSuccessResponse :: "HeartbeatSuccessResponse \<Rightarrow> byte list" where
  "wire_HeartbeatSuccessResponse m =
     enc_u32 (hs_heartbeat_interval_ms m) @ enc_u32 (hs_heartbeat_timeout_ms m) @
     enc_u64 (hs_server_now_unix_ms m)"

definition valid_HeartbeatSuccessResponse :: "HeartbeatSuccessResponse \<Rightarrow> bool" where
  "valid_HeartbeatSuccessResponse m \<longleftrightarrow> hs_heartbeat_interval_ms m < hs_heartbeat_timeout_ms m"

lemma heartbeat_CheckTrailingBytes_None:
  "heartbeat_CheckTrailingBytes r = Hb_None \<longleftrightarrow> reader_remaining r = 0"
  by (simp add: heartbeat_CheckTrailingBytes_def)

lemma ValidateStatusFlags_None: "ValidateStatusFlags f = Hb_None \<longleftrightarrow> f = 0"
  by (simp add: ValidateStatusFlags_def)

lemma heartbeat_timing_None: "heartbeat_ValidateHeartbeatTiming i t = Hb_None \<longleftrightarrow> i < t"
  by (auto simp: heartbeat_ValidateHeartbeatTiming_def)

lemma encodes_HeartbeatRequest:
  "encodes Hb_None (write_HeartbeatRequest m) (wire_HeartbeatRequest m) True"
  unfolding write_HeartbeatRequest_def wire_HeartbeatRequest_def heartbeat_EncodeLoadSnapshot_def
  by (rule encodes_cong, (rule encodes_intros writes_intros | simp; fail)+)

lemma decodes_HeartbeatRequest:
  "decodes_message Hb_None read_HeartbeatRequest zero_HeartbeatRequest
     (\<lambda>bs m. valid_HeartbeatRequest m \<and> bs = wire_HeartbeatRequest m)"
proof -
  have load: "decodes Hb_None (decode_into heartbeat_DecodeLoadSnapshot hr_load hr_load_update)
      (\<lambda>m bs m'. \<exists>l. bs = wire_load l \<and> m' = m\<lparr>hr_load := l\<rparr>)"
    by (rule decodes_into_reads [OF reads_load]) (simp_all add: heartbeat_DecodeLoadSnapshot_def)
  have tail: "ends Hb_None (until_error Hb_None
      [check_message (\<lambda>m. ValidateStatusFlags (hr_status_flags m)), check_reader heartbeat_CheckTrailingBytes])
      (\<lambda>m. ValidateStatusFlags (hr_status_flags m) = Hb_None \<and> True)"
    by (intro ends_check ends_trailing heartbeat_CheckTrailingBytes_None)
  show ?thesis
    unfolding read_HeartbeatRequest_def
  proof (rule decodes_messageI,
      (rule decodes_all_last [OF _ tail] load decodes_intros reads_intros | simp; fail)+, rule iffI, goal_cases)
    case (1 bs m)
    then show ?case
      by (auto simp: zero_HeartbeatRequest_def wire_HeartbeatRequest_def valid_HeartbeatRequest_def
          ValidateStatusFlags_None)
  next
    case (2 bs m)
    then have v: "valid_HeartbeatRequest m" and bs: "bs = wire_HeartbeatRequest m" by simp_all
    show ?case unfolding bs wire_HeartbeatRequest_def
      by (intro exI conjI, (rule refl TrueI)+)
        (use v in \<open>cases m; simp add: zero_HeartbeatRequest_def valid_HeartbeatRequest_def ValidateStatusFlags_None\<close>)+
  qed
qed

interpretation heartbeat_request: strict_message_codec
  EncodeHeartbeatRequest DecodeHeartbeatRequest wire_HeartbeatRequest valid_HeartbeatRequest
  Hb_None Hb_InvalidArgument zero_HeartbeatRequest
  by (rule strict_codec_of_phases [OF _ _ encodes_HeartbeatRequest decodes_HeartbeatRequest,
        where pre = "\<lambda>m _. ValidateStatusFlags (hr_status_flags m)"])
    (simp_all add: EncodeHeartbeatRequest_def DecodeHeartbeatRequest_def encode_with_def decode_with_def
      valid_HeartbeatRequest_def ValidateStatusFlags_None)

lemma encodes_HeartbeatSuccessResponse:
  "encodes Hb_None (write_HeartbeatSuccessResponse m) (wire_HeartbeatSuccessResponse m) True"
  unfolding write_HeartbeatSuccessResponse_def wire_HeartbeatSuccessResponse_def
  by (rule encodes_cong, (rule encodes_intros writes_intros | simp; fail)+)

lemma decodes_HeartbeatSuccessResponse:
  "decodes_message Hb_None read_HeartbeatSuccessResponse zero_HeartbeatSuccessResponse
     (\<lambda>bs m. valid_HeartbeatSuccessResponse m \<and> bs = wire_HeartbeatSuccessResponse m)"
proof -
  have tail: "ends Hb_None (until_error Hb_None
      [check_message (\<lambda>m. heartbeat_ValidateHeartbeatTiming
         (hs_heartbeat_interval_ms m) (hs_heartbeat_timeout_ms m)), check_reader heartbeat_CheckTrailingBytes])
      (\<lambda>m. heartbeat_ValidateHeartbeatTiming
         (hs_heartbeat_interval_ms m) (hs_heartbeat_timeout_ms m) = Hb_None \<and> True)"
    by (intro ends_check ends_trailing heartbeat_CheckTrailingBytes_None)
  show ?thesis
    unfolding read_HeartbeatSuccessResponse_def
  proof (rule decodes_messageI,
      (rule decodes_all_last [OF _ tail] decodes_intros reads_intros | simp; fail)+, rule iffI, goal_cases)
    case (1 bs m)
    then show ?case
      by (auto simp: zero_HeartbeatSuccessResponse_def wire_HeartbeatSuccessResponse_def
          valid_HeartbeatSuccessResponse_def heartbeat_timing_None)
  next
    case (2 bs m)
    then have v: "valid_HeartbeatSuccessResponse m" and bs: "bs = wire_HeartbeatSuccessResponse m" by simp_all
    show ?case unfolding bs wire_HeartbeatSuccessResponse_def
      by (intro exI conjI, (rule refl TrueI)+)
        (use v in \<open>cases m; simp add: zero_HeartbeatSuccessResponse_def valid_HeartbeatSuccessResponse_def heartbeat_timing_None\<close>)+
  qed
qed

interpretation heartbeat_response: strict_message_codec
  EncodeHeartbeatSuccessResponse DecodeHeartbeatSuccessResponse wire_HeartbeatSuccessResponse
  valid_HeartbeatSuccessResponse Hb_None Hb_InvalidArgument zero_HeartbeatSuccessResponse
  by (rule strict_codec_of_phases [OF _ _ encodes_HeartbeatSuccessResponse decodes_HeartbeatSuccessResponse,
        where pre = "\<lambda>m _. heartbeat_ValidateHeartbeatTiming (hs_heartbeat_interval_ms m) (hs_heartbeat_timeout_ms m)"])
    (simp_all add: EncodeHeartbeatSuccessResponse_def DecodeHeartbeatSuccessResponse_def encode_with_def
      decode_with_def valid_HeartbeatSuccessResponse_def heartbeat_timing_None)

section \<open>Properties\<close>

lemma length_wire_heartbeat:
  "length (wire_HeartbeatRequest m) = kHeartbeatRequestSize"
  "length (wire_HeartbeatSuccessResponse s) = kHeartbeatSuccessResponseSize"
  by (simp_all add: wire_HeartbeatRequest_def wire_HeartbeatSuccessResponse_def kHeartbeatRequestSize_def
      kHeartbeatSuccessResponseSize_def)

text \<open>
  C27. The heartbeat codecs are exact inverses: a buffer decodes to a heartbeat request or
  response exactly when it has the fixed size of that message and encoding the message over it
  succeeds without changing a byte.
\<close>

theorem heartbeat_decode_iff_encode:
  "(DecodeHeartbeatRequest buffer (Some x) = (Hb_None, Some request) \<longleftrightarrow>
      length buffer = kHeartbeatRequestSize \<and> EncodeHeartbeatRequest request buffer = (Hb_None, buffer)) \<and>
   (DecodeHeartbeatSuccessResponse buffer (Some y) = (Hb_None, Some response) \<longleftrightarrow>
      length buffer = kHeartbeatSuccessResponseSize \<and>
      EncodeHeartbeatSuccessResponse response buffer = (Hb_None, buffer))"
  using heartbeat_request.decode_encode_iff heartbeat_response.decode_encode_iff
  by (simp add: length_wire_heartbeat)

end
