(* ===== verification/InnerNetworkSessionManager.thy ===== *)
theory InnerNetworkSessionManager
  imports HeartbeatCodec StdMap ZmqSockets
begin

text \<open>
  \<^verbatim>\<open>node/InnerNetworkSessionManager.h\<close> and \<^verbatim>\<open>.cpp\<close>: the sessions of a node, kept in a map by
  node id with an index from routing ids to node ids. The invariant \<open>sessions_inv\<close> says that the
  two maps agree; every operation keeps it, and with it the lookups by routing id are lookups of
  the session that carries the routing id.
\<close>

section \<open>Sessions\<close>

datatype ProcessType = Gm | Gate | Game

datatype InnerNetworkSessionManagerErrorCode =
    Ism_None
  | Ism_InvalidArgument
  | Ism_InvalidProcessType
  | Ism_InvalidNodeId
  | Ism_InvalidInnerNetworkEndpointHost
  | Ism_InvalidInnerNetworkEndpointPort
  | Ism_NodeIdConflict
  | Ism_RoutingIdConflict
  | Ism_NodeNotFound
  | Ism_RoutingIdNotFound

fun InnerNetworkSessionManagerErrorMessage :: "InnerNetworkSessionManagerErrorCode \<Rightarrow> string" where
  "InnerNetworkSessionManagerErrorMessage Ism_None = ''Success.''"
| "InnerNetworkSessionManagerErrorMessage Ism_InvalidArgument =
     ''Inner network session manager argument is invalid.''"
| "InnerNetworkSessionManagerErrorMessage Ism_InvalidProcessType =
     ''Inner network session manager only supports GM, Gate, or Game sessions.''"
| "InnerNetworkSessionManagerErrorMessage Ism_InvalidNodeId =
     ''Inner network session manager nodeId must not be empty.''"
| "InnerNetworkSessionManagerErrorMessage Ism_InvalidInnerNetworkEndpointHost =
     ''Inner network session manager innerNetworkEndpoint.host must not be empty.''"
| "InnerNetworkSessionManagerErrorMessage Ism_InvalidInnerNetworkEndpointPort =
     ''Inner network session manager innerNetworkEndpoint.port must not be zero.''"
| "InnerNetworkSessionManagerErrorMessage Ism_NodeIdConflict =
     ''Inner network session manager already contains an active session for the nodeId.''"
| "InnerNetworkSessionManagerErrorMessage Ism_RoutingIdConflict =
     ''Inner network session manager already contains an active session for the routingId.''"
| "InnerNetworkSessionManagerErrorMessage Ism_NodeNotFound =
     ''Inner network session manager session was not found for the nodeId.''"
| "InnerNetworkSessionManagerErrorMessage Ism_RoutingIdNotFound =
     ''Inner network session manager session was not found for the routingId.''"

type_synonym RoutingID = "byte list"

record InnerNetworkSessionRegistration =
  isr_process_type :: ProcessType
  isr_node_id :: string
  isr_pid :: u32
  isr_started_at_unix_ms :: u64
  isr_inner_network_endpoint :: Endpoint
  isr_build_version :: string
  isr_capability_tags :: "string list"
  isr_load :: LoadSnapshot
  isr_routing_id :: RoutingID
  isr_last_heartbeat_at_unix_ms :: u64
  isr_inner_network_ready :: bool

record InnerNetworkSession =
  ins_process_type :: ProcessType
  ins_node_id :: string
  ins_pid :: u32
  ins_started_at_unix_ms :: u64
  ins_inner_network_endpoint :: Endpoint
  ins_build_version :: string
  ins_capability_tags :: "string list"
  ins_load :: LoadSnapshot
  ins_routing_id :: RoutingID
  ins_last_heartbeat_at_unix_ms :: u64
  ins_inner_network_ready :: bool
  ins_connection_state :: ZmqConnectionState
  ins_next_seq :: u32
  ins_register_seq :: u32
  ins_heartbeat_seq :: u32
  ins_heartbeat_interval_ms :: u32
  ins_heartbeat_timeout_ms :: u32
  ins_last_server_now_unix_ms :: u64
  ins_heartbeat_timer_id :: int
  ins_last_protocol_error :: string
  ins_heartbeat_timed_out :: bool
  ins_registered :: bool
  ins_register_in_flight :: bool

text \<open>The session a registration creates; the fields it does not carry have their default values.\<close>

definition session_of_registration :: "InnerNetworkSessionRegistration \<Rightarrow> InnerNetworkSession" where
  "session_of_registration registration =
     \<lparr>ins_process_type = isr_process_type registration,
      ins_node_id = isr_node_id registration,
      ins_pid = isr_pid registration,
      ins_started_at_unix_ms = isr_started_at_unix_ms registration,
      ins_inner_network_endpoint = isr_inner_network_endpoint registration,
      ins_build_version = isr_build_version registration,
      ins_capability_tags = isr_capability_tags registration,
      ins_load = isr_load registration,
      ins_routing_id = isr_routing_id registration,
      ins_last_heartbeat_at_unix_ms = isr_last_heartbeat_at_unix_ms registration,
      ins_inner_network_ready = isr_inner_network_ready registration,
      ins_connection_state = Zmq_Stopped, ins_next_seq = 1, ins_register_seq = 0,
      ins_heartbeat_seq = 0, ins_heartbeat_interval_ms = 0, ins_heartbeat_timeout_ms = 0,
      ins_last_server_now_unix_ms = 0, ins_heartbeat_timer_id = 0, ins_last_protocol_error = [],
      ins_heartbeat_timed_out = False, ins_registered = False, ins_register_in_flight = False\<rparr>"

record InnerNetworkSessionManager =
  sm_entries_by_node_id :: "(string, InnerNetworkSession) std_map"
  sm_node_id_by_routing_key :: "(string, string) std_map"

definition new_InnerNetworkSessionManager :: InnerNetworkSessionManager where
  "new_InnerNetworkSessionManager = \<lparr>sm_entries_by_node_id = [], sm_node_id_by_routing_key = []\<rparr>"

section \<open>Validation\<close>

definition MakeRoutingKey :: "RoutingID \<Rightarrow> string" where
  "MakeRoutingKey routing_id = string_of_bytes routing_id"

lemma MakeRoutingKey_inj [simp]: "MakeRoutingKey r = MakeRoutingKey r' \<longleftrightarrow> r = r'"
  unfolding MakeRoutingKey_def by (metis bytes_of_string_of_bytes)

fun session_ValidateProcessType :: "ProcessType \<Rightarrow> InnerNetworkSessionManagerErrorCode" where
  "session_ValidateProcessType Gm = Ism_None"
| "session_ValidateProcessType Gate = Ism_None"
| "session_ValidateProcessType Game = Ism_None"

definition session_ValidateNodeId :: "string \<Rightarrow> InnerNetworkSessionManagerErrorCode" where
  "session_ValidateNodeId node_id = (if node_id = [] then Ism_InvalidNodeId else Ism_None)"

definition session_ValidateEndpoint :: "Endpoint \<Rightarrow> InnerNetworkSessionManagerErrorCode" where
  "session_ValidateEndpoint endpoint =
     (if ep_host endpoint = [] then Ism_InvalidInnerNetworkEndpointHost
      else if ep_port endpoint = 0 then Ism_InvalidInnerNetworkEndpointPort
      else Ism_None)"

definition ValidateRoutingId :: "RoutingID \<Rightarrow> InnerNetworkSessionManagerErrorCode" where
  "ValidateRoutingId routing_id = (if routing_id = [] then Ism_InvalidArgument else Ism_None)"

definition ValidateRegistration ::
    "InnerNetworkSessionRegistration \<Rightarrow> InnerNetworkSessionManagerErrorCode" where
  "ValidateRegistration registration =
     (let process_type_result = session_ValidateProcessType (isr_process_type registration) in
      if process_type_result \<noteq> Ism_None then process_type_result else
      let node_id_result = session_ValidateNodeId (isr_node_id registration) in
      if node_id_result \<noteq> Ism_None then node_id_result else
      session_ValidateEndpoint (isr_inner_network_endpoint registration))"

section \<open>Operations\<close>

definition Register ::
    "InnerNetworkSessionRegistration \<Rightarrow> InnerNetworkSessionManager \<Rightarrow>
     InnerNetworkSessionManagerErrorCode \<times> InnerNetworkSessionManager" where
  "Register registration m =
     (let validation_result = ValidateRegistration registration in
      if validation_result \<noteq> Ism_None then (validation_result, m)
      else if map_find (sm_entries_by_node_id m) (isr_node_id registration) \<noteq> None then (Ism_NodeIdConflict, m)
      else if isr_routing_id registration \<noteq> [] \<and>
        map_find (sm_node_id_by_routing_key m) (MakeRoutingKey (isr_routing_id registration)) \<noteq> None
        then (Ism_RoutingIdConflict, m)
      else let entry = session_of_registration registration in
        case map_emplace (ins_node_id entry) entry (sm_entries_by_node_id m) of (inserted, entries) \<Rightarrow>
          if \<not> inserted then (Ism_NodeIdConflict, m)
          else let m = m\<lparr>sm_entries_by_node_id := entries\<rparr> in
            if ins_routing_id entry \<noteq> []
            then (Ism_None, m\<lparr>sm_node_id_by_routing_key :=
              snd (map_emplace (MakeRoutingKey (ins_routing_id entry)) (ins_node_id entry)
                (sm_node_id_by_routing_key m))\<rparr>)
            else (Ism_None, m))"

definition UnregisterByNodeId ::
    "string \<Rightarrow> InnerNetworkSessionManager \<Rightarrow>
     InnerNetworkSessionManagerErrorCode \<times> InnerNetworkSessionManager" where
  "UnregisterByNodeId node_id m =
     (let node_id_result = session_ValidateNodeId node_id in
      if node_id_result \<noteq> Ism_None then (node_id_result, m)
      else case map_find (sm_entries_by_node_id m) node_id of
        None \<Rightarrow> (Ism_NodeNotFound, m)
      | Some entry \<Rightarrow>
          let m = (if ins_routing_id entry \<noteq> []
              then m\<lparr>sm_node_id_by_routing_key :=
                map_erase (MakeRoutingKey (ins_routing_id entry)) (sm_node_id_by_routing_key m)\<rparr>
              else m) in
          (Ism_None, m\<lparr>sm_entries_by_node_id := map_erase node_id (sm_entries_by_node_id m)\<rparr>))"

definition UnregisterByRoutingId ::
    "RoutingID \<Rightarrow> InnerNetworkSessionManager \<Rightarrow>
     InnerNetworkSessionManagerErrorCode \<times> InnerNetworkSessionManager" where
  "UnregisterByRoutingId routing_id m =
     (let routing_id_result = ValidateRoutingId routing_id in
      if routing_id_result \<noteq> Ism_None then (routing_id_result, m)
      else case map_find (sm_node_id_by_routing_key m) (MakeRoutingKey routing_id) of
        None \<Rightarrow> (Ism_RoutingIdNotFound, m)
      | Some node_id \<Rightarrow>
          let m = m\<lparr>sm_node_id_by_routing_key :=
            map_erase (MakeRoutingKey routing_id) (sm_node_id_by_routing_key m)\<rparr> in
          (case map_find (sm_entries_by_node_id m) node_id of
             None \<Rightarrow> (Ism_RoutingIdNotFound, m)
           | Some entry \<Rightarrow>
               (Ism_None, m\<lparr>sm_entries_by_node_id := map_erase node_id (sm_entries_by_node_id m)\<rparr>)))"

text \<open>
  A mutable lookup returns a pointer to the session in the map. The model returns the session's
  key together with its value; an assignment through the pointer is \<open>modify_session\<close>.
\<close>

definition FindMutableByNodeId ::
    "string \<Rightarrow> InnerNetworkSessionManager \<Rightarrow> (string \<times> InnerNetworkSession) ptr" where
  "FindMutableByNodeId node_id m =
     map_option (Pair node_id) (map_find (sm_entries_by_node_id m) node_id)"

definition FindMutableByRoutingId ::
    "RoutingID \<Rightarrow> InnerNetworkSessionManager \<Rightarrow> (string \<times> InnerNetworkSession) ptr" where
  "FindMutableByRoutingId routing_id m =
     (if routing_id = [] then None
      else case map_find (sm_node_id_by_routing_key m) (MakeRoutingKey routing_id) of
        None \<Rightarrow> None
      | Some node_id \<Rightarrow> FindMutableByNodeId node_id m)"

definition modify_session ::
    "string \<Rightarrow> (InnerNetworkSession \<Rightarrow> InnerNetworkSession) \<Rightarrow> InnerNetworkSessionManager \<Rightarrow>
     InnerNetworkSessionManager" where
  "modify_session node_id f m =
     m\<lparr>sm_entries_by_node_id := map_modify node_id f (sm_entries_by_node_id m)\<rparr>"

definition UpdateHeartbeatByNodeId ::
    "string \<Rightarrow> u64 \<Rightarrow> LoadSnapshot \<Rightarrow> InnerNetworkSessionManager \<Rightarrow>
     InnerNetworkSessionManagerErrorCode \<times> InnerNetworkSessionManager" where
  "UpdateHeartbeatByNodeId node_id last_heartbeat_at_unix_ms load m =
     (case FindMutableByNodeId node_id m of
        None \<Rightarrow> (if node_id = [] then Ism_InvalidNodeId else Ism_NodeNotFound, m)
      | Some (key, _) \<Rightarrow> (Ism_None, modify_session key
          (\<lambda>s. s\<lparr>ins_last_heartbeat_at_unix_ms := last_heartbeat_at_unix_ms, ins_load := load\<rparr>) m))"

definition UpdateHeartbeatByRoutingId ::
    "RoutingID \<Rightarrow> u64 \<Rightarrow> LoadSnapshot \<Rightarrow> InnerNetworkSessionManager \<Rightarrow>
     InnerNetworkSessionManagerErrorCode \<times> InnerNetworkSessionManager" where
  "UpdateHeartbeatByRoutingId routing_id last_heartbeat_at_unix_ms load m =
     (case FindMutableByRoutingId routing_id m of
        None \<Rightarrow> (if routing_id = [] then Ism_InvalidArgument else Ism_RoutingIdNotFound, m)
      | Some (key, _) \<Rightarrow> (Ism_None, modify_session key
          (\<lambda>s. s\<lparr>ins_last_heartbeat_at_unix_ms := last_heartbeat_at_unix_ms, ins_load := load\<rparr>) m))"

definition UpdateInnerNetworkReadyByNodeId ::
    "string \<Rightarrow> bool \<Rightarrow> InnerNetworkSessionManager \<Rightarrow>
     InnerNetworkSessionManagerErrorCode \<times> InnerNetworkSessionManager" where
  "UpdateInnerNetworkReadyByNodeId node_id inner_network_ready m =
     (case FindMutableByNodeId node_id m of
        None \<Rightarrow> (if node_id = [] then Ism_InvalidNodeId else Ism_NodeNotFound, m)
      | Some (key, _) \<Rightarrow> (Ism_None, modify_session key
          (\<lambda>s. s\<lparr>ins_inner_network_ready := inner_network_ready\<rparr>) m))"

definition UpdateInnerNetworkReadyByRoutingId ::
    "RoutingID \<Rightarrow> bool \<Rightarrow> InnerNetworkSessionManager \<Rightarrow>
     InnerNetworkSessionManagerErrorCode \<times> InnerNetworkSessionManager" where
  "UpdateInnerNetworkReadyByRoutingId routing_id inner_network_ready m =
     (case FindMutableByRoutingId routing_id m of
        None \<Rightarrow> (if routing_id = [] then Ism_InvalidArgument else Ism_RoutingIdNotFound, m)
      | Some (key, _) \<Rightarrow> (Ism_None, modify_session key
          (\<lambda>s. s\<lparr>ins_inner_network_ready := inner_network_ready\<rparr>) m))"

definition FindByNodeId :: "string \<Rightarrow> InnerNetworkSessionManager \<Rightarrow> InnerNetworkSession ptr" where
  "FindByNodeId node_id m = map_find (sm_entries_by_node_id m) node_id"

definition FindByRoutingId :: "RoutingID \<Rightarrow> InnerNetworkSessionManager \<Rightarrow> InnerNetworkSession ptr" where
  "FindByRoutingId routing_id m =
     (if routing_id = [] then None
      else case map_find (sm_node_id_by_routing_key m) (MakeRoutingKey routing_id) of
        None \<Rightarrow> None
      | Some node_id \<Rightarrow> FindByNodeId node_id m)"

definition ContainsNodeId :: "string \<Rightarrow> InnerNetworkSessionManager \<Rightarrow> bool" where
  "ContainsNodeId node_id m \<longleftrightarrow> FindByNodeId node_id m \<noteq> None"

definition ContainsRoutingId :: "RoutingID \<Rightarrow> InnerNetworkSessionManager \<Rightarrow> bool" where
  "ContainsRoutingId routing_id m \<longleftrightarrow> FindByRoutingId routing_id m \<noteq> None"

definition Snapshot :: "InnerNetworkSessionManager \<Rightarrow> InnerNetworkSession list" where
  "Snapshot m = map snd (sm_entries_by_node_id m)"

definition sessions_size :: "InnerNetworkSessionManager \<Rightarrow> nat" where
  "sessions_size m = length (sm_entries_by_node_id m)"

definition sessions_Clear :: "InnerNetworkSessionManager \<Rightarrow> InnerNetworkSessionManager" where
  "sessions_Clear m = m\<lparr>sm_entries_by_node_id := [], sm_node_id_by_routing_key := []\<rparr>"

section \<open>The two maps agree\<close>

definition sessions_inv :: "InnerNetworkSessionManager \<Rightarrow> bool" where
  "sessions_inv m \<longleftrightarrow>
     map_wf (sm_entries_by_node_id m) \<and> map_wf (sm_node_id_by_routing_key m) \<and>
     (\<forall>k s. FindByNodeId k m = Some s \<longrightarrow> k \<noteq> [] \<and> ins_node_id s = k) \<and>
     (\<forall>r k. map_find (sm_node_id_by_routing_key m) (MakeRoutingKey r) = Some k \<longleftrightarrow>
        r \<noteq> [] \<and> (\<exists>s. FindByNodeId k m = Some s \<and> ins_routing_id s = r))"

lemma sessions_invD:
  assumes "sessions_inv m"
  shows "map_wf (sm_entries_by_node_id m)" "map_wf (sm_node_id_by_routing_key m)"
    "FindByNodeId k m = Some s \<Longrightarrow> k \<noteq> []" "FindByNodeId k m = Some s \<Longrightarrow> ins_node_id s = k"
    "map_find (sm_node_id_by_routing_key m) (MakeRoutingKey r) = Some k \<longleftrightarrow>
        r \<noteq> [] \<and> (\<exists>s. FindByNodeId k m = Some s \<and> ins_routing_id s = r)"
  using assms unfolding sessions_inv_def by blast+

text \<open>No two sessions share a non-empty routing id.\<close>

lemma routing_id_unique:
  assumes "sessions_inv m" "FindByNodeId k m = Some s" "FindByNodeId k' m = Some s'"
    "ins_routing_id s = ins_routing_id s'" "ins_routing_id s \<noteq> []"
  shows "k = k'"
  using sessions_invD(5) [OF assms(1)] assms(2-5) by (metis option.inject)

lemma new_sessions_inv: "sessions_inv new_InnerNetworkSessionManager"
  by (simp add: sessions_inv_def new_InnerNetworkSessionManager_def FindByNodeId_def std_map_invar)

lemma Clear_sessions_inv: "sessions_inv (sessions_Clear m)"
  by (simp add: sessions_inv_def sessions_Clear_def FindByNodeId_def std_map_invar)

lemma FindByRoutingId_Some_iff:
  assumes "sessions_inv m"
  shows "FindByRoutingId r m = Some s \<longleftrightarrow> r \<noteq> [] \<and> ins_routing_id s = r \<and> FindByNodeId (ins_node_id s) m = Some s"
proof
  assume "FindByRoutingId r m = Some s"
  then obtain k where k: "r \<noteq> []" "map_find (sm_node_id_by_routing_key m) (MakeRoutingKey r) = Some k"
    "FindByNodeId k m = Some s" by (auto simp: FindByRoutingId_def split: if_splits option.splits)
  with sessions_invD [OF assms] show "r \<noteq> [] \<and> ins_routing_id s = r \<and> FindByNodeId (ins_node_id s) m = Some s"
    by auto
next
  assume "r \<noteq> [] \<and> ins_routing_id s = r \<and> FindByNodeId (ins_node_id s) m = Some s"
  moreover from this have "map_find (sm_node_id_by_routing_key m) (MakeRoutingKey r) = Some (ins_node_id s)"
    using sessions_invD(5) [OF assms] by auto
  ultimately show "FindByRoutingId r m = Some s" by (simp add: FindByRoutingId_def)
qed

lemma FindMutable_iff:
  "FindMutableByNodeId k m = Some (k', s) \<longleftrightarrow> k' = k \<and> FindByNodeId k m = Some s"
  by (auto simp: FindMutableByNodeId_def FindByNodeId_def)

lemma FindMutableByRoutingId_Some_iff:
  assumes "sessions_inv m"
  shows "FindMutableByRoutingId r m = Some (k, s) \<longleftrightarrow> FindByRoutingId r m = Some s \<and> k = ins_node_id s"
proof -
  have "FindMutableByNodeId n m = Some (k, s) \<longleftrightarrow> FindByNodeId n m = Some s \<and> k = ins_node_id s" for n
    unfolding FindMutable_iff using sessions_invD(4) [OF assms, of n s] by blast
  then show ?thesis by (simp add: FindMutableByRoutingId_def FindByRoutingId_def split: option.split)
qed

lemma FindByRoutingId_None_iff:
  assumes "sessions_inv m"
  shows "r \<noteq> [] \<Longrightarrow> map_find (sm_node_id_by_routing_key m) (MakeRoutingKey r) = None \<longleftrightarrow> FindByRoutingId r m = None"
proof (cases "map_find (sm_node_id_by_routing_key m) (MakeRoutingKey r)")
  case (Some k)
  with sessions_invD(5) [OF assms, of r k] show ?thesis by (auto simp: FindByRoutingId_def)
qed (simp add: FindByRoutingId_def)

lemma FindMutableByRoutingId_None_iff: "FindMutableByRoutingId r m = None \<longleftrightarrow> FindByRoutingId r m = None"
  by (auto simp: FindMutableByRoutingId_def FindByRoutingId_def FindMutableByNodeId_def FindByNodeId_def
      split: option.splits)

text \<open>Every routing key is the key of some routing id.\<close>

lemma routing_key_surj: "\<exists>r. key = MakeRoutingKey r"
  unfolding MakeRoutingKey_def by (metis string_of_bytes_of_string)

section \<open>Every operation keeps the invariant\<close>

lemma FindByNodeId_simps [simp]:
  "FindByNodeId k (m\<lparr>sm_node_id_by_routing_key := x\<rparr>) = FindByNodeId k m"
  "FindByNodeId k (m\<lparr>sm_entries_by_node_id := y\<rparr>) = map_find y k"
  by (simp_all add: FindByNodeId_def)

definition registrable :: "InnerNetworkSessionRegistration \<Rightarrow> InnerNetworkSessionManager \<Rightarrow> bool" where
  "registrable g m \<longleftrightarrow> ValidateRegistration g = Ism_None \<and> FindByNodeId (isr_node_id g) m = None \<and>
     (isr_routing_id g \<noteq> [] \<longrightarrow> FindByRoutingId (isr_routing_id g) m = None)"

lemma ValidateRegistration_None:
  "ValidateRegistration g = Ism_None \<longleftrightarrow> isr_node_id g \<noteq> [] \<and>
     ep_host (isr_inner_network_endpoint g) \<noteq> [] \<and> ep_port (isr_inner_network_endpoint g) \<noteq> 0"
  by (cases "isr_process_type g")
    (auto simp: ValidateRegistration_def Let_def session_ValidateNodeId_def session_ValidateEndpoint_def)

lemma session_of_registration_simps [simp]:
  "ins_node_id (session_of_registration g) = isr_node_id g"
  "ins_routing_id (session_of_registration g) = isr_routing_id g"
  "ins_inner_network_ready (session_of_registration g) = isr_inner_network_ready g"
  "\<not> ins_heartbeat_timed_out (session_of_registration g)"
  "ins_process_type (session_of_registration g) = isr_process_type g"
  by (simp_all add: session_of_registration_def)

lemma Register_iff:
  assumes "sessions_inv m"
  shows "fst (Register g m) = Ism_None \<longleftrightarrow> registrable g m"
    and "\<not> registrable g m \<Longrightarrow> snd (Register g m) = m"
  using FindByRoutingId_None_iff [OF assms, of "isr_routing_id g"]
  by (auto simp: Register_def Let_def registrable_def map_emplace_def FindByNodeId_def)

lemma Register_ok:
  assumes "sessions_inv m" "registrable g m"
  shows "Register g m = (Ism_None,
    m\<lparr>sm_entries_by_node_id := map_put (isr_node_id g) (session_of_registration g) (sm_entries_by_node_id m),
      sm_node_id_by_routing_key := (if isr_routing_id g = [] then sm_node_id_by_routing_key m
        else map_put (MakeRoutingKey (isr_routing_id g)) (isr_node_id g) (sm_node_id_by_routing_key m))\<rparr>)"
  using assms FindByRoutingId_None_iff [OF assms(1), of "isr_routing_id g"]
  by (auto simp: Register_def Let_def registrable_def map_emplace_def FindByNodeId_def)

lemma FindByNodeId_Register:
  assumes "sessions_inv m"
  shows "FindByNodeId k (snd (Register g m)) =
    (if registrable g m \<and> k = isr_node_id g then Some (session_of_registration g) else FindByNodeId k m)"
  using assms Register_iff(2) [OF assms] sessions_invD(1) [OF assms]
  by (cases "registrable g m") (simp_all add: Register_ok FindByNodeId_def std_map_find)

lemma Register_sessions_inv:
  assumes inv: "sessions_inv m"
  shows "sessions_inv (snd (Register g m))"
proof (cases "registrable g m")
  case True
  note D = sessions_invD [OF inv]
  have fresh: "FindByNodeId (isr_node_id g) m = None" and node: "isr_node_id g \<noteq> []"
    using True by (simp_all add: registrable_def ValidateRegistration_None)
  have index: "map_find (sm_node_id_by_routing_key (snd (Register g m))) (MakeRoutingKey r) =
      (if r = isr_routing_id g \<and> r \<noteq> [] then Some (isr_node_id g)
       else map_find (sm_node_id_by_routing_key m) (MakeRoutingKey r))" for r
    by (auto simp: Register_ok [OF inv True] std_map_find D(2))
  have "map_find (sm_node_id_by_routing_key (snd (Register g m))) (MakeRoutingKey r) = Some k \<longleftrightarrow>
      r \<noteq> [] \<and> (\<exists>s. FindByNodeId k (snd (Register g m)) = Some s \<and> ins_routing_id s = r)" for r k
  proof (cases "r = isr_routing_id g \<and> r \<noteq> []")
    case r: True
    then have "FindByRoutingId r m = None" using True by (auto simp: registrable_def)
    then have "FindByNodeId k m = Some s \<Longrightarrow> ins_routing_id s \<noteq> r" for s
      using r FindByRoutingId_Some_iff [OF inv, of r s] D(4) by auto
    with r True show ?thesis unfolding index FindByNodeId_Register [OF inv] by auto
  next
    case False
    with True fresh D(5) [of r k] show ?thesis
      unfolding index FindByNodeId_Register [OF inv] by auto
  qed
  moreover have "FindByNodeId k (snd (Register g m)) = Some s \<Longrightarrow> k \<noteq> [] \<and> ins_node_id s = k" for k s
    using D(3,4) node by (auto simp: FindByNodeId_Register [OF inv] split: if_splits)
  ultimately show ?thesis
    unfolding sessions_inv_def using D(1,2) by (simp add: Register_ok [OF inv True] std_map_invar)
qed (simp add: Register_iff(2) [OF inv] inv)

lemma FindByNodeId_Unregister:
  assumes "sessions_inv m"
  shows "FindByNodeId k (snd (UnregisterByNodeId n m)) = (if k = n then None else FindByNodeId k m)"
proof -
  have "FindByNodeId [] m = None" using sessions_invD(3) [OF assms] by fastforce
  with sessions_invD(1) [OF assms] show ?thesis
    by (auto simp: UnregisterByNodeId_def Let_def session_ValidateNodeId_def FindByNodeId_def std_map_find
        split: option.splits)
qed

lemma Unregister_sessions_inv:
  assumes inv: "sessions_inv m"
  shows "sessions_inv (snd (UnregisterByNodeId n m))"
proof (cases "FindByNodeId n m")
  case None
  then have "snd (UnregisterByNodeId n m) = m"
    by (simp add: UnregisterByNodeId_def FindByNodeId_def Let_def)
  with inv show ?thesis by simp
next
  case (Some s)
  note D = sessions_invD [OF inv]
  have r: "map_find (sm_node_id_by_routing_key (snd (UnregisterByNodeId n m))) (MakeRoutingKey r) =
      (if r = ins_routing_id s \<and> r \<noteq> [] then None else map_find (sm_node_id_by_routing_key m) (MakeRoutingKey r))" for r
    using Some D(3) [OF Some]
    by (auto simp: UnregisterByNodeId_def FindByNodeId_def Let_def session_ValidateNodeId_def std_map_find D(2))
  have "map_find (sm_node_id_by_routing_key (snd (UnregisterByNodeId n m))) (MakeRoutingKey r) = Some k \<longleftrightarrow>
      r \<noteq> [] \<and> (\<exists>s'. FindByNodeId k (snd (UnregisterByNodeId n m)) = Some s' \<and> ins_routing_id s' = r)" for r k
    unfolding r FindByNodeId_Unregister [OF inv]
    using D(5) [of r k] Some routing_id_unique [OF inv, of k _ n s] by auto
  moreover have "map_wf (sm_entries_by_node_id (snd (UnregisterByNodeId n m)))"
    "map_wf (sm_node_id_by_routing_key (snd (UnregisterByNodeId n m)))"
    using D(1,2) Some by (auto simp: UnregisterByNodeId_def FindByNodeId_def Let_def std_map_invar)
  ultimately show ?thesis
    unfolding sessions_inv_def by (auto simp: FindByNodeId_Unregister [OF inv] dest: D(3,4))
qed

text \<open>
  Unregistering by routing id is unregistering the session that carries it; the branch of the
  source that finds an index entry without a session is never taken.
\<close>

lemma UnregisterByRoutingId_eq:
  assumes inv: "sessions_inv m"
  shows "UnregisterByRoutingId r m =
    (if r = [] then (Ism_InvalidArgument, m)
     else case FindByRoutingId r m of
       None \<Rightarrow> (Ism_RoutingIdNotFound, m)
     | Some s \<Rightarrow> UnregisterByNodeId (ins_node_id s) m)"
proof (cases "r = [] \<or> FindByRoutingId r m = None")
  case True
  then show ?thesis
    using FindByRoutingId_None_iff [OF inv, of r]
    by (auto simp: UnregisterByRoutingId_def ValidateRoutingId_def)
next
  case False
  then obtain s where s: "r \<noteq> []" "FindByRoutingId r m = Some s" by auto
  then have f: "ins_routing_id s = r" "FindByNodeId (ins_node_id s) m = Some s"
    by (auto simp: FindByRoutingId_Some_iff [OF inv])
  moreover from f s have "map_find (sm_node_id_by_routing_key m) (MakeRoutingKey r) = Some (ins_node_id s)"
    by (auto simp: sessions_invD(5) [OF inv])
  moreover from f have "ins_node_id s \<noteq> []" using sessions_invD(3) [OF inv] by blast
  ultimately show ?thesis using s
    by (simp add: UnregisterByRoutingId_def UnregisterByNodeId_def ValidateRoutingId_def Let_def
        session_ValidateNodeId_def FindByNodeId_def)
qed

text \<open>Assignments through a pointer keep the invariant when they leave the two ids alone.\<close>

definition keeps_ids :: "(InnerNetworkSession \<Rightarrow> InnerNetworkSession) \<Rightarrow> bool" where
  "keeps_ids f \<longleftrightarrow> (\<forall>s. ins_node_id (f s) = ins_node_id s \<and> ins_routing_id (f s) = ins_routing_id s)"

lemma FindByNodeId_modify:
  "FindByNodeId k (modify_session n f m) = (if k = n then map_option f (FindByNodeId k m) else FindByNodeId k m)"
  by (simp add: modify_session_def FindByNodeId_def map_find_modify)

lemma modify_sessions_inv:
  assumes inv: "sessions_inv m" and f: "keeps_ids f"
  shows "sessions_inv (modify_session n f m)"
proof -
  note D = sessions_invD [OF inv]
  have "map_find (sm_node_id_by_routing_key (modify_session n f m)) (MakeRoutingKey r) = Some k \<longleftrightarrow>
      r \<noteq> [] \<and> (\<exists>s. FindByNodeId k (modify_session n f m) = Some s \<and> ins_routing_id s = r)" for r k
    using D(5) [of r k] f by (auto simp: FindByNodeId_modify keeps_ids_def) (auto simp: modify_session_def)
  moreover have "FindByNodeId k (modify_session n f m) = Some s \<Longrightarrow> k \<noteq> [] \<and> ins_node_id s = k" for k s
    using f D(3,4) by (auto simp: FindByNodeId_modify keeps_ids_def split: if_splits)
  ultimately show ?thesis
    unfolding sessions_inv_def using D(1,2) by (simp add: modify_session_def std_map_invar)
qed

lemma Update_keeps_ids [simp]:
  "keeps_ids (\<lambda>s. s\<lparr>ins_last_heartbeat_at_unix_ms := t, ins_load := l\<rparr>)"
  "keeps_ids (\<lambda>s. s\<lparr>ins_inner_network_ready := b\<rparr>)"
  by (simp_all add: keeps_ids_def)

lemma Update_sessions_inv:
  assumes "sessions_inv m"
  shows "sessions_inv (snd (UpdateHeartbeatByNodeId n t l m))" "sessions_inv (snd (UpdateHeartbeatByRoutingId r t l m))"
    "sessions_inv (snd (UpdateInnerNetworkReadyByNodeId n b m))" "sessions_inv (snd (UpdateInnerNetworkReadyByRoutingId r b m))"
  using assms
  by (simp_all add: UpdateHeartbeatByNodeId_def UpdateHeartbeatByRoutingId_def UpdateInnerNetworkReadyByNodeId_def
      UpdateInnerNetworkReadyByRoutingId_def modify_sessions_inv split: option.splits prod.splits)

section \<open>Reachable managers\<close>

text \<open>
  A manager changes by its operations and by assignments of its owner through a pointer from a
  mutable lookup; no caller in the source assigns another node id or routing id.
\<close>

inductive session_step :: "InnerNetworkSessionManager \<Rightarrow> InnerNetworkSessionManager \<Rightarrow> bool" where
  step_Register: "session_step m (snd (Register g m))"
| step_UnregisterByNodeId: "session_step m (snd (UnregisterByNodeId n m))"
| step_UnregisterByRoutingId: "session_step m (snd (UnregisterByRoutingId r m))"
| step_UpdateHeartbeatByNodeId: "session_step m (snd (UpdateHeartbeatByNodeId n t l m))"
| step_UpdateHeartbeatByRoutingId: "session_step m (snd (UpdateHeartbeatByRoutingId r t l m))"
| step_UpdateReadyByNodeId: "session_step m (snd (UpdateInnerNetworkReadyByNodeId n b m))"
| step_UpdateReadyByRoutingId: "session_step m (snd (UpdateInnerNetworkReadyByRoutingId r b m))"
| step_assign: "keeps_ids f \<Longrightarrow> session_step m (modify_session n f m)"
| step_Clear: "session_step m (sessions_Clear m)"

inductive sessions_reachable :: "InnerNetworkSessionManager \<Rightarrow> bool" where
  reachable_new: "sessions_reachable new_InnerNetworkSessionManager"
| reachable_step: "sessions_reachable m \<Longrightarrow> session_step m m' \<Longrightarrow> sessions_reachable m'"

inductive_cases session_stepE: "session_step m m'"

lemma session_step_inv: "session_step m m' \<Longrightarrow> sessions_inv m \<Longrightarrow> sessions_inv m'"
proof (induction rule: session_step.induct)
  case (step_UnregisterByRoutingId m r)
  then show ?case
    by (auto simp: UnregisterByRoutingId_eq Unregister_sessions_inv split: option.split)
qed (simp_all add: Register_sessions_inv Unregister_sessions_inv Update_sessions_inv modify_sessions_inv
    Clear_sessions_inv)

lemma reachable_sessions_inv: "sessions_reachable m \<Longrightarrow> sessions_inv m"
  by (induction rule: sessions_reachable.induct) (simp_all add: new_sessions_inv session_step_inv)

lemma Snapshot_iff:
  assumes "sessions_inv m"
  shows "s \<in> set (Snapshot m) \<longleftrightarrow> FindByNodeId (ins_node_id s) m = Some s"
proof
  assume "s \<in> set (Snapshot m)"
  then obtain k where "(k, s) \<in> set (sm_entries_by_node_id m)" by (auto simp: Snapshot_def)
  then have "FindByNodeId k m = Some s"
    by (simp add: FindByNodeId_def map_find_Some_iff [OF sessions_invD(1) [OF assms]])
  with sessions_invD(4) [OF assms] show "FindByNodeId (ins_node_id s) m = Some s" by auto
next
  assume "FindByNodeId (ins_node_id s) m = Some s"
  then show "s \<in> set (Snapshot m)"
    by (force simp: FindByNodeId_def map_find_Some_iff [OF sessions_invD(1) [OF assms]] Snapshot_def)
qed

lemma Snapshot_sorted:
  assumes "sessions_inv m"
  shows "sorted_wrt (<) (map ins_node_id (Snapshot m))"
proof -
  have "ins_node_id (snd e) = fst e" if "e \<in> set (sm_entries_by_node_id m)" for e
  proof -
    from that have "FindByNodeId (fst e) m = Some (snd e)"
      by (simp add: FindByNodeId_def map_find_Some_iff [OF sessions_invD(1) [OF assms]])
    then show ?thesis by (rule sessions_invD(4) [OF assms])
  qed
  then have "map ins_node_id (Snapshot m) = map fst (sm_entries_by_node_id m)"
    by (simp add: Snapshot_def)
  with sessions_invD(1) [OF assms] show ?thesis by (simp add: map_wf_def)
qed

section \<open>Properties\<close>

text \<open>A manager with one registered game, on which the properties are instantiated.\<close>

definition sample_registration :: InnerNetworkSessionRegistration where
  "sample_registration = \<lparr>isr_process_type = Game, isr_node_id = ''Game0'', isr_pid = 7,
     isr_started_at_unix_ms = 1, isr_inner_network_endpoint = \<lparr>ep_host = ''h'', ep_port = 9\<rparr>,
     isr_build_version = ''v'', isr_capability_tags = [], isr_load = zero_LoadSnapshot,
     isr_routing_id = [1, 2], isr_last_heartbeat_at_unix_ms = 5, isr_inner_network_ready = False\<rparr>"

definition sample_sessions :: InnerNetworkSessionManager where
  "sample_sessions = snd (Register sample_registration new_InnerNetworkSessionManager)"

lemma sample_sessions_reachable: "sessions_reachable sample_sessions"
  unfolding sample_sessions_def by (rule reachable_step [OF reachable_new step_Register])

text \<open>
  C7. In every reachable session manager the node map and the routing index agree: a lookup by
  routing id returns exactly the session of the snapshot that carries that (non-empty) routing id,
  and a lookup by node id exactly the session of the snapshot with that node id.
\<close>

theorem session_lookups_agree:
  assumes "sessions_reachable m"
  shows "(FindByRoutingId r m = Some s \<longleftrightarrow> r \<noteq> [] \<and> ins_routing_id s = r \<and> s \<in> set (Snapshot m)) \<and>
    (FindByNodeId n m = Some s \<longleftrightarrow> ins_node_id s = n \<and> s \<in> set (Snapshot m))"
proof -
  have inv: "sessions_inv m" by (rule reachable_sessions_inv [OF assms])
  then show ?thesis
    unfolding FindByRoutingId_Some_iff [OF inv] Snapshot_iff [OF inv] using sessions_invD(4) [OF inv, of n s] by blast
qed

theorem session_lookups_agree_witness:
  "(FindByRoutingId [1, 2] sample_sessions = Some (session_of_registration sample_registration) \<longleftrightarrow>
      ([1, 2] :: byte list) \<noteq> [] \<and> ins_routing_id (session_of_registration sample_registration) = [1, 2] \<and>
      session_of_registration sample_registration \<in> set (Snapshot sample_sessions)) \<and>
   (FindByNodeId ''Game0'' sample_sessions = Some (session_of_registration sample_registration) \<longleftrightarrow>
      ins_node_id (session_of_registration sample_registration) = ''Game0'' \<and>
      session_of_registration sample_registration \<in> set (Snapshot sample_sessions))"
  by (rule session_lookups_agree [OF sample_sessions_reachable])

text \<open>
  C21. In every reachable session manager a registration succeeds exactly when it is well formed
  and neither its node id nor its (non-empty) routing id is in use; then the new session is found
  under its node id and every other session is unchanged, and a rejected registration changes
  nothing at all.
\<close>

theorem register_exactly_fresh:
  assumes "sessions_reachable m"
  shows "(fst (Register g m) = Ism_None \<longleftrightarrow>
      isr_node_id g \<noteq> [] \<and> ep_host (isr_inner_network_endpoint g) \<noteq> [] \<and>
      ep_port (isr_inner_network_endpoint g) \<noteq> 0 \<and>
      (\<forall>s\<in>set (Snapshot m). ins_node_id s \<noteq> isr_node_id g) \<and>
      (\<forall>s\<in>set (Snapshot m). isr_routing_id g \<noteq> [] \<longrightarrow> ins_routing_id s \<noteq> isr_routing_id g)) \<and>
    (fst (Register g m) = Ism_None \<longrightarrow> (\<lambda>n. FindByNodeId n (snd (Register g m))) =
      (\<lambda>n. FindByNodeId n m)(isr_node_id g \<mapsto> session_of_registration g)) \<and>
    (fst (Register g m) \<noteq> Ism_None \<longrightarrow> snd (Register g m) = m)"
proof -
  have inv: "sessions_inv m" by (rule reachable_sessions_inv [OF assms])
  have node: "FindByNodeId n m = None \<longleftrightarrow> (\<forall>s\<in>set (Snapshot m). ins_node_id s \<noteq> n)" for n
    using Snapshot_iff [OF inv] sessions_invD(4) [OF inv, of n] by (metis option.distinct(1) not_None_eq)
  have routing: "r \<noteq> [] \<Longrightarrow> FindByRoutingId r m = None \<longleftrightarrow> (\<forall>s\<in>set (Snapshot m). ins_routing_id s \<noteq> r)" for r
    using Snapshot_iff [OF inv] FindByRoutingId_Some_iff [OF inv, of r] by (metis option.distinct(1) not_None_eq)
  have "fst (Register g m) = Ism_None \<longleftrightarrow> registrable g m" by (rule Register_iff [OF inv])
  moreover have "registrable g m \<longleftrightarrow> isr_node_id g \<noteq> [] \<and> ep_host (isr_inner_network_endpoint g) \<noteq> [] \<and>
      ep_port (isr_inner_network_endpoint g) \<noteq> 0 \<and> (\<forall>s\<in>set (Snapshot m). ins_node_id s \<noteq> isr_node_id g) \<and>
      (\<forall>s\<in>set (Snapshot m). isr_routing_id g \<noteq> [] \<longrightarrow> ins_routing_id s \<noteq> isr_routing_id g)"
    unfolding registrable_def ValidateRegistration_None node using routing [of "isr_routing_id g"] by blast
  moreover have "registrable g m \<Longrightarrow> (\<lambda>n. FindByNodeId n (snd (Register g m))) =
      (\<lambda>n. FindByNodeId n m)(isr_node_id g \<mapsto> session_of_registration g)"
    by (auto simp: FindByNodeId_Register [OF inv])
  ultimately show ?thesis using Register_iff(2) [OF inv] by blast
qed

theorem register_exactly_fresh_witness:
  "fst (Register sample_registration sample_sessions) = Ism_NodeIdConflict \<and>
   snd (Register sample_registration sample_sessions) = sample_sessions"
proof -
  have "fst (Register sample_registration sample_sessions) = Ism_NodeIdConflict" by code_simp
  then show ?thesis
    using register_exactly_fresh [OF sample_sessions_reachable, of sample_registration] by simp
qed

text \<open>
  C32. The snapshot of a reachable session manager lists every session once, in strictly
  increasing order of node id, and its length is the manager's size.
\<close>

theorem snapshot_sorted_by_node_id:
  assumes "sessions_reachable m"
  shows "sorted_wrt (<) (map ins_node_id (Snapshot m)) \<and> length (Snapshot m) = sessions_size m"
  using Snapshot_sorted [OF reachable_sessions_inv [OF assms]] by (simp add: Snapshot_def sessions_size_def)

theorem snapshot_sorted_by_node_id_witness:
  "sorted_wrt (<) (map ins_node_id (Snapshot sample_sessions)) \<and>
   length (Snapshot sample_sessions) = sessions_size sample_sessions"
  by (rule snapshot_sorted_by_node_id [OF sample_sessions_reachable])

end
