(* ===== verification/ClusterConfig.thy ===== *)
theory ClusterConfig
  imports StdMap Prelude
begin

text \<open>
  \<^verbatim>\<open>core/Config.h\<close> and the part of \<^verbatim>\<open>core/Config.cpp\<close> that turns a node id into the configuration
  of that node. Reading the JSON file is a parameter of the node life cycle.
\<close>

section \<open>Configuration structures\<close>

datatype ConfigErrorCode =
    Cfg_None | Cfg_InvalidArgument | Cfg_JsonLoadFailed | Cfg_ExpectedObject | Cfg_UnknownField
  | Cfg_MissingRequiredField | Cfg_InvalidString | Cfg_EmptyString | Cfg_InvalidBoolean
  | Cfg_InvalidUnsignedInteger | Cfg_ValueOutOfRange | Cfg_InvalidLogLevel | Cfg_InvalidEndpointPort
  | Cfg_InvalidNodeId | Cfg_MissingInstance | Cfg_EmptyCollection | Cfg_LoggingConfigInvalid | Cfg_Unknown

record EndpointConfig =
  ec_host :: string
  ec_port :: u16

definition zero_EndpointConfig :: EndpointConfig where
  "zero_EndpointConfig = \<lparr>ec_host = [], ec_port = 0\<rparr>"

record KcpConfig =
  kcp_mtu :: u32
  kcp_sndwnd :: u32
  kcp_rcvwnd :: u32
  kcp_nodelay :: bool
  kcp_interval_ms :: u32
  kcp_fast_resend :: u32
  kcp_no_congestion_window :: bool
  kcp_min_rto_ms :: u32
  kcp_dead_link_count :: u32
  kcp_stream_mode :: bool

definition default_KcpConfig :: KcpConfig where
  "default_KcpConfig = \<lparr>kcp_mtu = 1200, kcp_sndwnd = 128, kcp_rcvwnd = 128, kcp_nodelay = True,
     kcp_interval_ms = 10, kcp_fast_resend = 2, kcp_no_congestion_window = False, kcp_min_rto_ms = 30,
     kcp_dead_link_count = 20, kcp_stream_mode = False\<rparr>"

record ManagedConfig =
  mc_assembly_name :: string
  mc_assembly_path :: string
  mc_runtime_config_path :: string
  mc_search_assembly_paths :: "string list"

definition default_ManagedConfig :: ManagedConfig where
  "default_ManagedConfig = \<lparr>mc_assembly_name = ''XServer.Managed.Framework'', mc_assembly_path = [],
     mc_runtime_config_path = [], mc_search_assembly_paths = []\<rparr>"

record GmConfig =
  gmc_inner_network_listen_endpoint :: EndpointConfig
  gmc_control_network_listen_endpoint :: EndpointConfig

record GateConfig =
  gtc_inner_network_listen_endpoint :: EndpointConfig
  gtc_auth_network_listen_endpoint :: EndpointConfig
  gtc_client_network_listen_endpoint :: EndpointConfig

record GameConfig =
  gac_inner_network_listen_endpoint :: EndpointConfig

text \<open>The environment and logging sections are not used by the modelled code.\<close>

record ClusterConfig =
  cc_kcp :: KcpConfig
  cc_managed :: ManagedConfig
  cc_gm :: GmConfig
  cc_gates :: "(string, GateConfig) std_map"
  cc_games :: "(string, GameConfig) std_map"

definition zero_ClusterConfig :: ClusterConfig where
  "zero_ClusterConfig = \<lparr>cc_kcp = default_KcpConfig, cc_managed = default_ManagedConfig,
     cc_gm = \<lparr>gmc_inner_network_listen_endpoint = zero_EndpointConfig,
       gmc_control_network_listen_endpoint = zero_EndpointConfig\<rparr>, cc_gates = [], cc_games = []\<rparr>"

datatype NodeConfig =
    GmNodeConfig EndpointConfig EndpointConfig
  | GateNodeConfig EndpointConfig EndpointConfig EndpointConfig
  | GameNodeConfig EndpointConfig ManagedConfig

section \<open>Node ids\<close>

datatype ParsedNodeKind = Parsed_Gm | Parsed_Gate | Parsed_Game

definition HasDigitsSuffix :: "string \<Rightarrow> nat \<Rightarrow> bool" where
  "HasDigitsSuffix value prefix_length \<longleftrightarrow> length value > prefix_length \<and>
     list_all (\<lambda>ch. CHR ''0'' \<le> ch \<and> ch \<le> CHR ''9'') (drop prefix_length value)"

definition starts_with :: "string \<Rightarrow> string \<Rightarrow> bool" where
  "starts_with value prefix \<longleftrightarrow> take (length prefix) value = prefix"

definition ParseNodeId :: "string \<Rightarrow> (ParsedNodeKind \<times> string) option" where
  "ParseNodeId node_id =
     (if node_id = ''GM'' then Some (Parsed_Gm, node_id)
      else if starts_with node_id ''Gate'' \<and> HasDigitsSuffix node_id 4 then Some (Parsed_Gate, node_id)
      else if starts_with node_id ''Game'' \<and> HasDigitsSuffix node_id 4 then Some (Parsed_Game, node_id)
      else None)"

definition SelectNodeConfig :: "ClusterConfig \<Rightarrow> string \<Rightarrow> (ConfigErrorCode \<times> string) + NodeConfig" where
  "SelectNodeConfig cluster_config node_id =
     (case ParseNodeId node_id of
        None \<Rightarrow> Inl (Cfg_InvalidNodeId, ''nodeId must be one of GM, Gate<index>, or Game<index>.'')
      | Some (Parsed_Gm, _) \<Rightarrow> Inr (GmNodeConfig (gmc_inner_network_listen_endpoint (cc_gm cluster_config))
          (gmc_control_network_listen_endpoint (cc_gm cluster_config)))
      | Some (Parsed_Gate, _) \<Rightarrow>
          (case map_find (cc_gates cluster_config) node_id of
             None \<Rightarrow> Inl (Cfg_MissingInstance, ''Missing gate instance for nodeId '' @
               [CHR 0x27] @ node_id @ [CHR 0x27] @ ''.'')
           | Some gate \<Rightarrow> Inr (GateNodeConfig (gtc_inner_network_listen_endpoint gate)
               (gtc_auth_network_listen_endpoint gate) (gtc_client_network_listen_endpoint gate)))
      | Some (Parsed_Game, _) \<Rightarrow>
          (case map_find (cc_games cluster_config) node_id of
             None \<Rightarrow> Inl (Cfg_MissingInstance, ''Missing game instance for nodeId '' @
               [CHR 0x27] @ node_id @ [CHR 0x27] @ ''.'')
           | Some game \<Rightarrow> Inr (GameNodeConfig (gac_inner_network_listen_endpoint game) (cc_managed cluster_config))))"

lemma ParseNodeId_value: "ParseNodeId node_id = Some (kind, value) \<Longrightarrow> value = node_id"
  by (auto simp: ParseNodeId_def split: if_splits)

lemma ParseNodeId_nonempty: "ParseNodeId node_id \<noteq> None \<Longrightarrow> node_id \<noteq> []"
  by (auto simp: ParseNodeId_def starts_with_def)

end
