(* ===== verification/Timer.thy ===== *)
theory Timer
  imports StdMap
begin

text \<open>
  \<^verbatim>\<open>core/Timer.h\<close>, \<^verbatim>\<open>.cpp\<close> with the helpers of \<^verbatim>\<open>core/TimeUtils.cpp\<close> it uses: the timer manager.
  A timer entry is an object that is shared between the manager's map and the completion handlers
  of its waits, so the entries live in a store and the map holds their addresses. The asio timers
  are modelled by the list of outstanding waits: arming a timer or cancelling it marks the waits it
  had before as cancelled, and a cancelled wait may still complete with success when its expiry had
  been queued already, which is what the generation counters are for.
\<close>

section \<open>Durations\<close>

text \<open>Durations and points in time are counts of nanoseconds of the steady clock.\<close>

definition ClampNonNegativeDuration :: "int \<Rightarrow> int" where
  "ClampNonNegativeDuration duration = (if duration < 0 then 0 else duration)"

definition SteadyAfter :: "int \<Rightarrow> int \<Rightarrow> int" where
  "SteadyAfter delay base_time = base_time + ClampNonNegativeDuration delay"

definition RemainingMilliseconds :: "int \<Rightarrow> int \<Rightarrow> int" where
  "RemainingMilliseconds deadline now = (if deadline \<le> now then 0 else (deadline - now) div 1000000)"

section \<open>Timer identifiers and errors\<close>

type_synonym TimerID = int
type_synonym TimerCreateResult = int

definition timer_id_max :: TimerID where "timer_id_max = 9223372036854775807"

datatype TimerErrorCode =
    Timer_None | Timer_InvalidTimerID | Timer_TimerNotFound | Timer_CallbackEmpty
  | Timer_IntervalMustBePositive | Timer_TimerIdExhausted | Timer_Unknown

fun ToCreateResult :: "TimerErrorCode \<Rightarrow> TimerCreateResult" where
  "ToCreateResult Timer_None = 0"
| "ToCreateResult Timer_InvalidTimerID = -1"
| "ToCreateResult Timer_TimerNotFound = -2"
| "ToCreateResult Timer_CallbackEmpty = -3"
| "ToCreateResult Timer_IntervalMustBePositive = -4"
| "ToCreateResult Timer_TimerIdExhausted = -5"
| "ToCreateResult Timer_Unknown = -6"

definition IsTimerID :: "TimerCreateResult \<Rightarrow> bool" where
  "IsTimerID value \<longleftrightarrow> value > 0"

definition TimerErrorFromCreateResult :: "TimerCreateResult \<Rightarrow> TimerErrorCode" where
  "TimerErrorFromCreateResult value =
     (if IsTimerID value then Timer_None
      else case List.find (\<lambda>e. ToCreateResult e = value)
          [Timer_None, Timer_InvalidTimerID, Timer_TimerNotFound, Timer_CallbackEmpty,
           Timer_IntervalMustBePositive, Timer_TimerIdExhausted, Timer_Unknown] of
        Some e \<Rightarrow> e
      | None \<Rightarrow> Timer_Unknown)"

fun TimerErrorMessage :: "TimerErrorCode \<Rightarrow> string" where
  "TimerErrorMessage Timer_None = ''Success.''"
| "TimerErrorMessage Timer_InvalidTimerID = ''Timer ID must be greater than zero.''"
| "TimerErrorMessage Timer_TimerNotFound = ''Timer ID was not found.''"
| "TimerErrorMessage Timer_CallbackEmpty = ''Timer callback must not be empty.''"
| "TimerErrorMessage Timer_IntervalMustBePositive = ''Repeating timer interval must be greater than zero.''"
| "TimerErrorMessage Timer_TimerIdExhausted = ''Timer ID space is exhausted.''"
| "TimerErrorMessage Timer_Unknown = ''Unknown timer error.''"

section \<open>State\<close>

text \<open>Callbacks are named by values of type \<open>'c\<close>; an empty \<^verbatim>\<open>std::function\<close> is \<open>None\<close>.\<close>

record 'c TimerEntry =
  te_callback :: "'c option"
  te_interval :: int
  te_repeating :: bool
  te_generation :: u64

record pending_wait =
  pw_timer_id :: TimerID
  pw_entry :: nat
  pw_generation :: u64
  pw_delay :: int
  pw_cancelled :: bool

record 'c TimerManager =
  tm_store :: "'c TimerEntry list"
  tm_timers :: "(TimerID, nat) std_map"
  tm_next_timer_id :: TimerID
  tm_pending :: "pending_wait list"
  tm_fired :: "(TimerID \<times> 'c) list"

definition new_TimerManager :: "'c TimerManager" where
  "new_TimerManager = \<lparr>tm_store = [], tm_timers = [], tm_next_timer_id = 1, tm_pending = [], tm_fired = []\<rparr>"

section \<open>Operations\<close>

text \<open>\<^verbatim>\<open>timer.cancel()\<close>, which \<^verbatim>\<open>expires_after\<close> does as well, for the entry at the given address.\<close>

definition StopTimerWait :: "nat \<Rightarrow> 'c TimerManager \<Rightarrow> 'c TimerManager" where
  "StopTimerWait entry m =
     m\<lparr>tm_pending := map (\<lambda>w. if pw_entry w = entry then w\<lparr>pw_cancelled := True\<rparr> else w) (tm_pending m)\<rparr>"

definition ArmTimer :: "TimerID \<Rightarrow> nat \<Rightarrow> int \<Rightarrow> u64 \<Rightarrow> 'c TimerManager \<Rightarrow> 'c TimerManager" where
  "ArmTimer timer_id entry delay generation_snapshot m =
     (let m = StopTimerWait entry m in
      m\<lparr>tm_pending := tm_pending m @ [\<lparr>pw_timer_id = timer_id, pw_entry = entry, pw_generation = generation_snapshot,
        pw_delay = ClampNonNegativeDuration delay, pw_cancelled = False\<rparr>]\<rparr>)"

definition StopTimer :: "nat \<Rightarrow> 'c TimerManager \<Rightarrow> 'c TimerManager" where
  "StopTimer entry m =
     StopTimerWait entry (m\<lparr>tm_store := (tm_store m)[entry := (tm_store m ! entry)
       \<lparr>te_generation := te_generation (tm_store m ! entry) + 1, te_repeating := False, te_interval := 0,
        te_callback := None\<rparr>]\<rparr>)"

definition CreateTimer ::
    "int \<Rightarrow> int \<Rightarrow> bool \<Rightarrow> 'c option \<Rightarrow> 'c TimerManager \<Rightarrow> TimerCreateResult \<times> 'c TimerManager" where
  "CreateTimer first_delay interval repeating callback m =
     (if callback = None then (ToCreateResult Timer_CallbackEmpty, m)
      else if tm_next_timer_id m \<le> 0 \<or> tm_next_timer_id m = timer_id_max
        then (ToCreateResult Timer_TimerIdExhausted, m)
      else let timer_id = tm_next_timer_id m; entry = length (tm_store m) in
        (timer_id, ArmTimer timer_id entry first_delay 1
           (m\<lparr>tm_next_timer_id := timer_id + 1,
              tm_store := tm_store m @ [\<lparr>te_callback = callback, te_interval = interval,
                te_repeating = repeating, te_generation = 1\<rparr>],
              tm_timers := snd (map_emplace timer_id entry (tm_timers m))\<rparr>)))"

definition CreateOnce :: "int \<Rightarrow> 'c option \<Rightarrow> 'c TimerManager \<Rightarrow> TimerCreateResult \<times> 'c TimerManager" where
  "CreateOnce delay callback m = CreateTimer (ClampNonNegativeDuration delay) 0 False callback m"

definition CreateRepeating :: "int \<Rightarrow> 'c option \<Rightarrow> 'c TimerManager \<Rightarrow> TimerCreateResult \<times> 'c TimerManager" where
  "CreateRepeating interval callback m =
     (if interval \<le> 0 then (ToCreateResult Timer_IntervalMustBePositive, m)
      else CreateTimer interval interval True callback m)"

definition ResetTimer ::
    "TimerID \<Rightarrow> int \<Rightarrow> int \<Rightarrow> bool \<Rightarrow> 'c option \<Rightarrow> 'c TimerManager \<Rightarrow> TimerErrorCode \<times> 'c TimerManager" where
  "ResetTimer timer_id first_delay interval repeating callback m =
     (if \<not> IsTimerID timer_id then (Timer_InvalidTimerID, m)
      else case map_find (tm_timers m) timer_id of
        None \<Rightarrow> (Timer_TimerNotFound, m)
      | Some entry \<Rightarrow>
          if callback = None then (Timer_CallbackEmpty, m)
          else let generation = te_generation (tm_store m ! entry) + 1 in
            (Timer_None, ArmTimer timer_id entry first_delay generation
               (StopTimerWait entry (m\<lparr>tm_store := (tm_store m)[entry :=
                  \<lparr>te_callback = callback, te_interval = interval, te_repeating = repeating,
                   te_generation = generation\<rparr>]\<rparr>))))"

definition ResetOnce ::
    "TimerID \<Rightarrow> int \<Rightarrow> 'c option \<Rightarrow> 'c TimerManager \<Rightarrow> TimerErrorCode \<times> 'c TimerManager" where
  "ResetOnce timer_id delay callback m = ResetTimer timer_id (ClampNonNegativeDuration delay) 0 False callback m"

definition ResetRepeating ::
    "TimerID \<Rightarrow> int \<Rightarrow> 'c option \<Rightarrow> 'c TimerManager \<Rightarrow> TimerErrorCode \<times> 'c TimerManager" where
  "ResetRepeating timer_id interval callback m =
     (if interval \<le> 0 then (Timer_IntervalMustBePositive, m)
      else ResetTimer timer_id interval interval True callback m)"

definition Cancel :: "TimerID \<Rightarrow> 'c TimerManager \<Rightarrow> TimerErrorCode \<times> 'c TimerManager" where
  "Cancel timer_id m =
     (if \<not> IsTimerID timer_id then (Timer_InvalidTimerID, m)
      else case map_find (tm_timers m) timer_id of
        None \<Rightarrow> (Timer_TimerNotFound, m)
      | Some entry \<Rightarrow>
          (Timer_None, (StopTimer entry m)\<lparr>tm_timers := map_erase timer_id (tm_timers m)\<rparr>))"

definition CancelAll :: "'c TimerManager \<Rightarrow> 'c TimerManager" where
  "CancelAll m = fold (\<lambda>e. StopTimer (snd e)) (tm_timers m) (m\<lparr>tm_timers := []\<rparr>)"

definition timers_Contains :: "TimerID \<Rightarrow> 'c TimerManager \<Rightarrow> bool" where
  "timers_Contains timer_id m \<longleftrightarrow> map_find (tm_timers m) timer_id \<noteq> None"

definition timers_size :: "'c TimerManager \<Rightarrow> nat" where
  "timers_size m = length (tm_timers m)"

section \<open>Completion of a wait\<close>

text \<open>
  A callback may use the manager: what it does with it is a list of operations that may depend on
  the manager's state, given by the parameter \<open>program\<close>.
\<close>

datatype 'c timer_op =
    Op_CreateOnce int "'c option" | Op_CreateRepeating int "'c option"
  | Op_ResetOnce TimerID int "'c option" | Op_ResetRepeating TimerID int "'c option"
  | Op_Cancel TimerID | Op_CancelAll

fun perform_op :: "'c timer_op \<Rightarrow> 'c TimerManager \<Rightarrow> 'c TimerManager" where
  "perform_op (Op_CreateOnce delay callback) m = snd (CreateOnce delay callback m)"
| "perform_op (Op_CreateRepeating interval callback) m = snd (CreateRepeating interval callback m)"
| "perform_op (Op_ResetOnce timer_id delay callback) m = snd (ResetOnce timer_id delay callback m)"
| "perform_op (Op_ResetRepeating timer_id interval callback) m = snd (ResetRepeating timer_id interval callback m)"
| "perform_op (Op_Cancel timer_id) m = snd (Cancel timer_id m)"
| "perform_op Op_CancelAll m = CancelAll m"

datatype wait_result = Wait_success | Wait_aborted | Wait_error

type_synonym 'c timer_program = "'c \<Rightarrow> 'c TimerManager \<Rightarrow> 'c timer_op list"

definition is_current :: "TimerID \<Rightarrow> nat \<Rightarrow> u64 \<Rightarrow> 'c TimerManager \<Rightarrow> bool" where
  "is_current timer_id entry generation_snapshot m \<longleftrightarrow>
     map_find (tm_timers m) timer_id = Some entry \<and> te_generation (tm_store m ! entry) = generation_snapshot"

definition HandleWait ::
    "'c timer_program \<Rightarrow> TimerID \<Rightarrow> nat \<Rightarrow> u64 \<Rightarrow> wait_result \<Rightarrow> 'c TimerManager \<Rightarrow> 'c TimerManager" where
  "HandleWait program timer_id entry generation_snapshot error_code m =
     (if error_code = Wait_aborted then m
      else if \<not> is_current timer_id entry generation_snapshot m then m
      else case te_callback (tm_store m ! entry) of
        None \<Rightarrow> m\<lparr>tm_timers := map_erase timer_id (tm_timers m)\<rparr>
      | Some callback \<Rightarrow>
          if error_code = Wait_error then m\<lparr>tm_timers := map_erase timer_id (tm_timers m)\<rparr>
          else
            let m = m\<lparr>tm_fired := tm_fired m @ [(timer_id, callback)]\<rparr>;
                m = fold perform_op (program callback m) m in
            if \<not> is_current timer_id entry generation_snapshot m then m
            else if \<not> te_repeating (tm_store m ! entry) then m\<lparr>tm_timers := map_erase timer_id (tm_timers m)\<rparr>
            else ArmTimer timer_id entry (te_interval (tm_store m ! entry)) generation_snapshot m)"

text \<open>The completion of an outstanding wait takes it from the list and runs its handler.\<close>

definition complete_wait :: "'c timer_program \<Rightarrow> nat \<Rightarrow> wait_result \<Rightarrow> 'c TimerManager \<Rightarrow> 'c TimerManager" where
  "complete_wait program i error_code m =
     (let w = tm_pending m ! i in
      HandleWait program (pw_timer_id w) (pw_entry w) (pw_generation w) error_code
        (m\<lparr>tm_pending := take i (tm_pending m) @ drop (Suc i) (tm_pending m)\<rparr>))"


section \<open>Every live timer has exactly one wait that counts\<close>

text \<open>The waits of an entry that have not been cancelled, with the timer and generation they are for.\<close>

definition waits :: "nat \<Rightarrow> 'c TimerManager \<Rightarrow> (TimerID \<times> u64) list" where
  "waits entry m = map (\<lambda>w. (pw_timer_id w, pw_generation w))
     (filter (\<lambda>w. pw_entry w = entry \<and> \<not> pw_cancelled w) (tm_pending m))"

lemma waits_simps [simp]:
  "waits a (m\<lparr>tm_store := x\<rparr>) = waits a m" "waits a (m\<lparr>tm_timers := y\<rparr>) = waits a m"
  "waits a (m\<lparr>tm_next_timer_id := z\<rparr>) = waits a m" "waits a (m\<lparr>tm_fired := u\<rparr>) = waits a m"
  by (simp_all add: waits_def)

lemma waits_StopTimerWait [simp]: "waits a (StopTimerWait b m) = (if a = b then [] else waits a m)"
proof -
  have "map (\<lambda>w. (pw_timer_id w, pw_generation w)) (filter (\<lambda>w. pw_entry w = a \<and> \<not> pw_cancelled w)
      (map (\<lambda>w. if pw_entry w = b then w\<lparr>pw_cancelled := True\<rparr> else w) ws)) =
    (if a = b then [] else map (\<lambda>w. (pw_timer_id w, pw_generation w))
      (filter (\<lambda>w. pw_entry w = a \<and> \<not> pw_cancelled w) ws))" for ws
    by (induction ws) auto
  from this [of "tm_pending m"] show ?thesis unfolding waits_def StopTimerWait_def by simp
qed

lemma waits_ArmTimer [simp]: "waits a (ArmTimer i b d g m) = (if a = b then [(i, g)] else waits a m)"
  using waits_StopTimerWait [of a b m] by (auto simp: ArmTimer_def Let_def waits_def)

lemma ArmTimer_simps [simp]:
  "tm_timers (ArmTimer i a d g m) = tm_timers m" "tm_next_timer_id (ArmTimer i a d g m) = tm_next_timer_id m"
  "tm_store (ArmTimer i a d g m) = tm_store m" "tm_fired (ArmTimer i a d g m) = tm_fired m"
  "tm_timers (StopTimerWait a m) = tm_timers m" "tm_next_timer_id (StopTimerWait a m) = tm_next_timer_id m"
  "tm_store (StopTimerWait a m) = tm_store m" "tm_fired (StopTimerWait a m) = tm_fired m"
  by (simp_all add: ArmTimer_def StopTimerWait_def Let_def)

lemma StopTimer_simps [simp]:
  "tm_timers (StopTimer a m) = tm_timers m" "tm_next_timer_id (StopTimer a m) = tm_next_timer_id m"
  "length (tm_store (StopTimer a m)) = length (tm_store m)" "tm_fired (StopTimer a m) = tm_fired m"
  "b \<noteq> a \<Longrightarrow> tm_store (StopTimer a m) ! b = tm_store m ! b"
  "waits b (StopTimer a m) = (if b = a then [] else waits b m)"
  by (simp_all add: StopTimer_def)

lemma StopTimerWait_idle: "waits a m = [] \<Longrightarrow> StopTimerWait a m = m"
proof -
  assume "waits a m = []"
  then have "map (\<lambda>w. if pw_entry w = a then w\<lparr>pw_cancelled := True\<rparr> else w) (tm_pending m) = tm_pending m"
    by (intro map_idI) (auto simp: waits_def filter_empty_conv)
  then show ?thesis by (simp add: StopTimerWait_def)
qed

lemma StopTimerWait_idem [simp]: "StopTimerWait a (StopTimerWait a m) = StopTimerWait a m"
  by (rule StopTimerWait_idle) simp

lemma unat_u64_Suc: "unat (w :: u64) + 1 < 2 ^ 64 \<Longrightarrow> unat (w + 1) = unat w + 1"
  by (simp add: unat_word_ariths)

text \<open>
  The invariant between two events is \<open>timers_inv None\<close>. While the callback of the entry \<open>b\<close> runs, the
  wait of generation \<open>g\<close> that led to it has been consumed: \<open>timers_inv (Some (b, j, g))\<close> says that the
  entry, if it is still in the map under its timer id \<open>j\<close>, has no wait as long as its generation is \<open>g\<close> and its one wait
  once it has been reset. The number \<open>n\<close> bounds the generations; it grows by one with every
  operation, and the lemmas hold while it fits into 64 bits.
\<close>

definition armed :: "(nat \<times> TimerID \<times> u64) option \<Rightarrow> TimerID \<Rightarrow> nat \<Rightarrow> 'c TimerManager \<Rightarrow> bool" where
  "armed busy i a m \<longleftrightarrow>
     (case busy of
        Some (b, j, g) \<Rightarrow> (a = b \<longrightarrow> i = j) \<and>
          (if a = b \<and> te_generation (tm_store m ! a) = g then waits a m = []
           else (a = b \<longrightarrow> unat g < unat (te_generation (tm_store m ! a))) \<and>
             waits a m = [(i, te_generation (tm_store m ! a))])
      | None \<Rightarrow> waits a m = [(i, te_generation (tm_store m ! a))])"

definition live :: "nat \<Rightarrow> 'c TimerManager \<Rightarrow> bool" where
  "live a m \<longleftrightarrow> (\<exists>i. map_find (tm_timers m) i = Some a)"

definition wait_ok :: "'c TimerManager \<Rightarrow> pending_wait \<Rightarrow> bool" where
  "wait_ok m w \<longleftrightarrow> pw_entry w < length (tm_store m) \<and>
     unat (pw_generation w) \<le> unat (te_generation (tm_store m ! pw_entry w)) \<and>
     (pw_cancelled w \<longrightarrow> live (pw_entry w) m \<longrightarrow> pw_generation w \<noteq> te_generation (tm_store m ! pw_entry w))"

definition timers_inv :: "(nat \<times> TimerID \<times> u64) option \<Rightarrow> nat \<Rightarrow> 'c TimerManager \<Rightarrow> bool" where
  "timers_inv busy n m \<longleftrightarrow> map_wf (tm_timers m) \<and> 0 < tm_next_timer_id m \<and> tm_next_timer_id m \<le> timer_id_max \<and>
     (\<forall>i a. map_find (tm_timers m) i = Some a \<longrightarrow> a < length (tm_store m) \<and> 0 < i \<and> i < tm_next_timer_id m \<and>
        te_callback (tm_store m ! a) \<noteq> None \<and> armed busy i a m) \<and>
     (\<forall>i j a. map_find (tm_timers m) i = Some a \<longrightarrow> map_find (tm_timers m) j = Some a \<longrightarrow> i = j) \<and>
     (\<forall>a. \<not> live a m \<longrightarrow> waits a m = []) \<and>
     (\<forall>w\<in>set (tm_pending m). wait_ok m w) \<and>
     (\<forall>a<length (tm_store m). unat (te_generation (tm_store m ! a)) \<le> n) \<and>
     (case busy of None \<Rightarrow> True | Some (b, j, g) \<Rightarrow> b < length (tm_store m))"

lemma timers_invD:
  assumes "timers_inv busy n m"
  shows "map_wf (tm_timers m)" "0 < tm_next_timer_id m" "tm_next_timer_id m \<le> timer_id_max"
    "map_find (tm_timers m) i = Some a \<Longrightarrow> a < length (tm_store m)"
    "map_find (tm_timers m) i = Some a \<Longrightarrow> 0 < i"
    "map_find (tm_timers m) i = Some a \<Longrightarrow> i < tm_next_timer_id m"
    "map_find (tm_timers m) i = Some a \<Longrightarrow> te_callback (tm_store m ! a) \<noteq> None"
    "map_find (tm_timers m) i = Some a \<Longrightarrow> armed busy i a m"
    "map_find (tm_timers m) i = Some a \<Longrightarrow> map_find (tm_timers m) j = Some a \<Longrightarrow> i = j"
    "\<not> live a m \<Longrightarrow> waits a m = []"
    "w \<in> set (tm_pending m) \<Longrightarrow> wait_ok m w"
    "a < length (tm_store m) \<Longrightarrow> unat (te_generation (tm_store m ! a)) \<le> n"
    "case busy of None \<Rightarrow> True | Some (b, j, g) \<Rightarrow> b < length (tm_store m)"
  using assms unfolding timers_inv_def by blast+

lemma timers_invI:
  assumes "map_wf (tm_timers m)" "0 < tm_next_timer_id m" "tm_next_timer_id m \<le> timer_id_max"
    "\<And>i a. map_find (tm_timers m) i = Some a \<Longrightarrow> a < length (tm_store m) \<and> 0 < i \<and> i < tm_next_timer_id m \<and>
        te_callback (tm_store m ! a) \<noteq> None \<and> armed busy i a m"
    "\<And>i j a. map_find (tm_timers m) i = Some a \<Longrightarrow> map_find (tm_timers m) j = Some a \<Longrightarrow> i = j"
    "\<And>a. \<not> live a m \<Longrightarrow> waits a m = []" "\<And>w. w \<in> set (tm_pending m) \<Longrightarrow> wait_ok m w"
    "\<And>a. a < length (tm_store m) \<Longrightarrow> unat (te_generation (tm_store m ! a)) \<le> n"
    "case busy of None \<Rightarrow> True | Some (b, j, g) \<Rightarrow> b < length (tm_store m)"
  shows "timers_inv busy n m"
  using assms unfolding timers_inv_def by blast

lemma timers_inv_Suc: "timers_inv busy n m \<Longrightarrow> timers_inv busy (Suc n) m"
  unfolding timers_inv_def using le_SucI by blast

lemma armed_cong:
  "waits a m = waits a m' \<Longrightarrow> te_generation (tm_store m ! a) = te_generation (tm_store m' ! a) \<Longrightarrow>
   armed busy i a m = armed busy i a m'"
  by (simp only: armed_def)

text \<open>Waits that an operation keeps or cancels stay in order when generations do not decrease.\<close>

lemma pending_StopTimerWait:
  "w \<in> set (tm_pending (StopTimerWait a m)) \<Longrightarrow>
   \<exists>v\<in>set (tm_pending m). w = (if pw_entry v = a then v\<lparr>pw_cancelled := True\<rparr> else v)"
  by (auto simp: StopTimerWait_def)

lemma pending_ArmTimer:
  "set (tm_pending (ArmTimer i a d g m)) = insert \<lparr>pw_timer_id = i, pw_entry = a, pw_generation = g,
     pw_delay = ClampNonNegativeDuration d, pw_cancelled = False\<rparr> (set (tm_pending (StopTimerWait a m)))"
  by (simp add: ArmTimer_def Let_def)

lemma tm_pending_StopTimerWait_upd [simp]:
  "tm_pending (StopTimerWait a (m\<lparr>tm_store := x\<rparr>)) = tm_pending (StopTimerWait a m)"
  "tm_pending (StopTimerWait a (m\<lparr>tm_timers := y\<rparr>)) = tm_pending (StopTimerWait a m)"
  "tm_pending (StopTimerWait a (m\<lparr>tm_next_timer_id := z\<rparr>)) = tm_pending (StopTimerWait a m)"
  by (simp_all add: StopTimerWait_def)

lemma CreateTimer_inv:
  assumes inv: "timers_inv busy n m"
  shows "timers_inv busy (Suc n) (snd (CreateTimer d iv rep cb m))"
proof (cases "cb = None \<or> tm_next_timer_id m \<le> 0 \<or> tm_next_timer_id m = timer_id_max")
  case True
  with timers_inv_Suc [OF inv] show ?thesis by (auto simp: CreateTimer_def)
next
  case False
  note D = timers_invD [OF inv]
  obtain c where cb: "cb = Some c" using False by auto
  define e where "e = \<lparr>te_callback = cb, te_interval = iv, te_repeating = rep, te_generation = 1\<rparr>"
  define m' where "m' = snd (CreateTimer d iv rep cb m)"
  let ?n = "length (tm_store m)" and ?i = "tm_next_timer_id m"
  have fresh: "map_find (tm_timers m) ?i = None" using D(6) [of ?i] by (cases "map_find (tm_timers m) ?i") auto
  have nn: "map_find (tm_timers m) i \<noteq> Some ?n" for i using D(4) by blast
  have idle: "waits ?n m = []" by (rule D(10)) (use nn in \<open>simp add: live_def\<close>)
  have m': "map_find (tm_timers m') = (map_find (tm_timers m))(?i \<mapsto> ?n)" "tm_store m' = tm_store m @ [e]"
    "tm_next_timer_id m' = ?i + 1" "waits a m' = (if a = ?n then [(?i, 1)] else waits a m)"
    "map_wf (tm_timers m')" "set (tm_pending m') = insert \<lparr>pw_timer_id = ?i, pw_entry = ?n, pw_generation = 1,
     pw_delay = ClampNonNegativeDuration d, pw_cancelled = False\<rparr> (set (tm_pending m))" for a
    using False fresh D(1) StopTimerWait_idle [OF idle]
    by (simp_all add: m'_def cb CreateTimer_def Let_def map_emplace_def std_map_find std_map_invar e_def pending_ArmTimer)
  have live: "live a m' \<longleftrightarrow> a = ?n \<or> live a m" for a
  proof
    show "live a m' \<Longrightarrow> a = ?n \<or> live a m" by (auto simp: live_def m'(1) split: if_splits)
    have "i \<noteq> ?i" if "map_find (tm_timers m) i = Some a" for i using that fresh by auto
    then show "a = ?n \<or> live a m \<Longrightarrow> live a m'" unfolding live_def m'(1) by fastforce
  qed
  show ?thesis unfolding m'_def [symmetric]
  proof (rule timers_invI)
    fix i a assume i: "map_find (tm_timers m') i = Some a"
    show "a < length (tm_store m') \<and> 0 < i \<and> i < tm_next_timer_id m' \<and> te_callback (tm_store m' ! a) \<noteq> None \<and> armed busy i a m'"
    proof (cases "i = ?i")
      case True
      with i have a: "a = ?n" by (simp add: m')
      with D(13) have "busy = Some (b, j, g) \<Longrightarrow> a \<noteq> b" for b j g by auto
      with a True False show ?thesis by (auto simp: m' e_def armed_def split: option.split)
    next
      case F: False
      with i have i: "map_find (tm_timers m) i = Some a" by (simp add: m')
      from D(4) [OF i] have "armed busy i a m' = armed busy i a m"
        by (intro armed_cong) (simp_all add: m' nth_append)
      with D(4-8) [OF i] show ?thesis by (simp add: m' nth_append)
    qed
  next
    show "w \<in> set (tm_pending m') \<Longrightarrow> wait_ok m' w" for w
      using D(11) [of w] by (auto simp: m'(6) wait_ok_def m'(2) nth_append live e_def)
    show "a < length (tm_store m') \<Longrightarrow> unat (te_generation (tm_store m' ! a)) \<le> Suc n" for a
      using D(12) [of a] by (auto simp: m'(2) nth_append e_def less_Suc_eq)
    show "case busy of None \<Rightarrow> True | Some (b, j, g) \<Rightarrow> b < length (tm_store m')"
      using D(13) by (auto simp: m'(2) split: option.splits)
    show "\<not> live a m' \<Longrightarrow> waits a m' = []" for a using D(10) [of a] by (simp add: live m'(4))
    show "map_find (tm_timers m') i = Some a \<Longrightarrow> map_find (tm_timers m') j = Some a \<Longrightarrow> i = j" for i j a
      using D(9) [of i a j] nn by (auto simp: m'(1) split: if_splits)
  qed (use D(2,3) m'(5) False in \<open>auto simp: m'(3)\<close>)
qed


lemma ResetTimer_inv:
  assumes inv: "timers_inv busy n m" and n: "Suc n < 2 ^ 64"
  shows "timers_inv busy (Suc n) (snd (ResetTimer i d iv rep cb m))"
proof (cases "IsTimerID i \<and> cb \<noteq> None \<and> map_find (tm_timers m) i \<noteq> None")
  case False
  with timers_inv_Suc [OF inv] show ?thesis by (auto simp: ResetTimer_def split: option.split)
next
  case True
  note D = timers_invD [OF inv]
  from True obtain a c where a: "map_find (tm_timers m) i = Some a" and c: "cb = Some c" by auto
  define m' where "m' = snd (ResetTimer i d iv rep cb m)"
  let ?g = "te_generation (tm_store m ! a)"
  have g: "unat (?g + 1) = unat ?g + 1" "unat ?g \<le> n"
    using unat_u64_Suc [of ?g] D(12) [OF D(4) [OF a]] n by auto
  then have g': "?g + 1 \<noteq> ?g" by auto
  have m': "tm_timers m' = tm_timers m" "tm_next_timer_id m' = tm_next_timer_id m"
    "tm_store m' = (tm_store m)[a := \<lparr>te_callback = cb, te_interval = iv, te_repeating = rep, te_generation = ?g + 1\<rparr>]"
    "waits b m' = (if b = a then [(i, ?g + 1)] else waits b m)"
    "set (tm_pending m') = insert \<lparr>pw_timer_id = i, pw_entry = a, pw_generation = ?g + 1,
      pw_delay = ClampNonNegativeDuration d, pw_cancelled = False\<rparr> (set (tm_pending (StopTimerWait a m)))" for b
    using True
    by (simp_all add: m'_def ResetTimer_def Let_def a c pending_ArmTimer)
  have live: "live b m' = live b m" for b by (simp add: live_def m')
  have store: "tm_store m' ! b = (if b = a then \<lparr>te_callback = cb, te_interval = iv, te_repeating = rep,
      te_generation = ?g + 1\<rparr> else tm_store m ! b)" for b using D(4) [OF a] by (simp add: m'(3))
  have len: "length (tm_store m') = length (tm_store m)" by (simp add: m'(3))
  show ?thesis unfolding m'_def [symmetric]
  proof (rule timers_invI)
    fix j b assume j: "map_find (tm_timers m') j = Some b"
    then have j: "map_find (tm_timers m) j = Some b" by (simp add: m')
    have "armed busy j b m'"
    proof (cases "b = a")
      case True
      then have "j = i" using D(9) [OF a] j by blast
      with True D(8) [OF j] g g' show ?thesis
        by (auto simp: armed_def store m'(4) split: option.splits if_splits)
    next
      case False
      then have "armed busy j b m' = armed busy j b m" by (intro armed_cong) (simp_all add: store m'(4))
      with D(8) [OF j] show ?thesis by simp
    qed
    with D(4-7) [OF j] c show "b < length (tm_store m') \<and> 0 < j \<and> j < tm_next_timer_id m' \<and>
        te_callback (tm_store m' ! b) \<noteq> None \<and> armed busy j b m'" by (auto simp: m'(2) len store)
  next
    fix w assume "w \<in> set (tm_pending m')"
    then consider "w = \<lparr>pw_timer_id = i, pw_entry = a, pw_generation = ?g + 1,
        pw_delay = ClampNonNegativeDuration d, pw_cancelled = False\<rparr>" | "w \<in> set (tm_pending (StopTimerWait a m))"
      by (auto simp: m'(5))
    then show "wait_ok m' w"
    proof cases
      case 1
      with D(4) [OF a] show ?thesis by (simp add: wait_ok_def store len)
    next
      case 2
      then obtain v where v: "v \<in> set (tm_pending m)" "w = (if pw_entry v = a then v\<lparr>pw_cancelled := True\<rparr> else v)"
        using pending_StopTimerWait by blast
      from D(11) [OF v(1)] v(2) g show ?thesis
        by (auto simp: wait_ok_def store live len split: if_splits)
    qed
  next
    show "b < length (tm_store m') \<Longrightarrow> unat (te_generation (tm_store m' ! b)) \<le> Suc n" for b
      using D(12) [of b] g by (auto simp: store len)
    show "case busy of None \<Rightarrow> True | Some (b, j, g) \<Rightarrow> b < length (tm_store m')"
      using D(13) by (auto simp: m'(3) split: option.splits)
    show "\<not> live b m' \<Longrightarrow> waits b m' = []" for b
      using D(10) [of b] a by (auto simp: m'(1,4) live_def)
  qed (use D(1-3,9) in \<open>auto simp: m'(1,2)\<close>)
qed

text \<open>Removing a timer from the map, with or without stopping its entry first.\<close>

lemma erase_live:
  assumes "timers_inv busy n m" "map_find (tm_timers m) i = Some a"
  shows "map_find (map_erase i (tm_timers m)) j = Some b \<longleftrightarrow> j \<noteq> i \<and> map_find (tm_timers m) j = Some b"
    and "tm_timers m' = map_erase i (tm_timers m) \<Longrightarrow> live b m' \<longleftrightarrow> live b m \<and> b \<noteq> a"
proof -
  show find: "map_find (map_erase i (tm_timers m)) j = Some b \<longleftrightarrow> j \<noteq> i \<and> map_find (tm_timers m) j = Some b" for j
    by (simp add: std_map_find timers_invD(1) [OF assms(1)])
  show "tm_timers m' = map_erase i (tm_timers m) \<Longrightarrow> live b m' \<longleftrightarrow> live b m \<and> b \<noteq> a"
    unfolding live_def using find timers_invD(9) [OF assms(1)] assms(2) by (metis option.inject)
qed

lemma erase_inv:
  assumes inv: "timers_inv busy n m" and a: "map_find (tm_timers m) i = Some a" and w: "waits a m = []"
  shows "timers_inv busy n (m\<lparr>tm_timers := map_erase i (tm_timers m)\<rparr>)" (is "timers_inv _ _ ?m")
proof -
  note D = timers_invD [OF inv] and find = erase_live(1) [OF inv a]
  have live: "live b ?m \<longleftrightarrow> live b m \<and> b \<noteq> a" for b by (rule erase_live(2) [OF inv a]) simp
  have armed: "armed busy j b ?m = armed busy j b m" for j b by (rule armed_cong) simp_all
  show ?thesis
  proof (rule timers_invI)
    show "w \<in> set (tm_pending ?m) \<Longrightarrow> wait_ok ?m w" for w
      using D(11) [of w] by (auto simp: wait_ok_def live)
    show "\<not> live b ?m \<Longrightarrow> waits b ?m = []" for b using D(10) [of b] w by (auto simp: live)
    show "map_find (tm_timers ?m) j = Some b \<Longrightarrow> b < length (tm_store ?m) \<and> 0 < j \<and> j < tm_next_timer_id ?m \<and>
        te_callback (tm_store ?m ! b) \<noteq> None \<and> armed busy j b ?m" for j b
      using D(4-8) [of j b] by (simp add: armed find)
    show "map_find (tm_timers ?m) j = Some b \<Longrightarrow> map_find (tm_timers ?m) k = Some b \<Longrightarrow> j = k" for j k b
      using D(9) [of j b k] by (simp add: find)
    show "case busy of None \<Rightarrow> True | Some (b, j, g) \<Rightarrow> b < length (tm_store ?m)"
      using D(13) by (auto split: option.splits)
  qed (use D(1-3,12) std_map_invar(3) in simp_all)
qed

lemma StopTimer_inv:
  assumes inv: "timers_inv busy n m" and a: "map_find (tm_timers m) i = Some a" and n: "Suc n < 2 ^ 64"
  shows "timers_inv busy (Suc n) ((StopTimer a m)\<lparr>tm_timers := map_erase i (tm_timers m)\<rparr>)" (is "timers_inv _ _ ?m")
proof -
  note D = timers_invD [OF inv] and find = erase_live(1) [OF inv a]
  let ?g = "te_generation (tm_store m ! a)"
  have g: "unat (?g + 1) = unat ?g + 1" "unat ?g \<le> n"
    using unat_u64_Suc [of ?g] D(12) [OF D(4) [OF a]] n by auto
  have live: "live b ?m \<longleftrightarrow> live b m \<and> b \<noteq> a" for b by (rule erase_live(2) [OF inv a]) simp
  have other: "b \<noteq> a" if "j \<noteq> i" "map_find (tm_timers m) j = Some b" for j b using D(9) [OF a] that by blast
  have armed: "b \<noteq> a \<Longrightarrow> armed busy j b ?m = armed busy j b m" for j b by (rule armed_cong) simp_all
  have gen: "te_generation (tm_store (StopTimer a m) ! b) = (if b = a then ?g + 1 else te_generation (tm_store m ! b))" for b
    using D(4) [OF a] by (simp add: StopTimer_def)
  show ?thesis
  proof (rule timers_invI)
    fix w assume "w \<in> set (tm_pending ?m)"
    then obtain v where v: "v \<in> set (tm_pending m)" "w = (if pw_entry v = a then v\<lparr>pw_cancelled := True\<rparr> else v)"
      using pending_StopTimerWait [of w a m] by (auto simp: StopTimer_def)
    from D(11) [OF v(1)] v(2) g show "wait_ok ?m w" by (auto simp: wait_ok_def live gen split: if_splits)
  next
    show "\<not> live b ?m \<Longrightarrow> waits b ?m = []" for b using D(10) [of b] by (auto simp: live)
    show "map_find (tm_timers ?m) j = Some b \<Longrightarrow> b < length (tm_store ?m) \<and> 0 < j \<and> j < tm_next_timer_id ?m \<and>
        te_callback (tm_store ?m ! b) \<noteq> None \<and> armed busy j b ?m" for j b
      using D(4-8) [of j b] other [of j b] by (simp add: armed find)
    show "map_find (tm_timers ?m) j = Some b \<Longrightarrow> map_find (tm_timers ?m) k = Some b \<Longrightarrow> j = k" for j k b
      using D(9) [of j b k] by (simp add: find)
    show "b < length (tm_store ?m) \<Longrightarrow> unat (te_generation (tm_store ?m ! b)) \<le> Suc n" for b
      using D(12) [of b] g by (simp add: gen)
    show "case busy of None \<Rightarrow> True | Some (b, j, g) \<Rightarrow> b < length (tm_store ?m)"
      using D(13) by (auto split: option.splits)
  qed (use D(1-3) std_map_invar(3) in simp_all)
qed

lemma Cancel_inv: "timers_inv busy n m \<Longrightarrow> Suc n < 2 ^ 64 \<Longrightarrow> timers_inv busy (Suc n) (snd (Cancel i m))"
  by (auto simp: Cancel_def StopTimer_inv timers_inv_Suc split: option.split)


lemma fold_StopTimer:
  "tm_timers (fold (\<lambda>e. StopTimer (snd e)) es m) = tm_timers m \<and>
   tm_next_timer_id (fold (\<lambda>e. StopTimer (snd e)) es m) = tm_next_timer_id m \<and>
   tm_fired (fold (\<lambda>e. StopTimer (snd e)) es m) = tm_fired m \<and>
   length (tm_store (fold (\<lambda>e. StopTimer (snd e)) es m)) = length (tm_store m) \<and>
   waits a (fold (\<lambda>e. StopTimer (snd e)) es m) = (if a \<in> snd ` set es then [] else waits a m)"
  by (induction es arbitrary: m) auto

text \<open>Cancelling all timers leaves what cancelling them one after the other leaves.\<close>

lemma StopTimer_timers_upd: "StopTimer a (m\<lparr>tm_timers := x\<rparr>) = (StopTimer a m)\<lparr>tm_timers := x\<rparr>"
  by (simp add: StopTimer_def StopTimerWait_def)

lemma fold_StopTimer_inv:
  assumes "map_wf (tm_timers m)" "0 < tm_next_timer_id m" "tm_next_timer_id m \<le> timer_id_max" "tm_timers m = []"
    "distinct (map snd es)" "\<forall>a\<in>snd ` set es. a < length (tm_store m) \<and> unat (te_generation (tm_store m ! a)) \<le> n"
    "\<forall>w\<in>set (tm_pending m). wait_ok m w" "\<forall>a<length (tm_store m). unat (te_generation (tm_store m ! a)) \<le> Suc n"
    "Suc n < 2 ^ 64"
  shows "(\<forall>w\<in>set (tm_pending (fold (\<lambda>e. StopTimer (snd e)) es m)). wait_ok (fold (\<lambda>e. StopTimer (snd e)) es m) w) \<and>
    (\<forall>a<length (tm_store m). unat (te_generation (tm_store (fold (\<lambda>e. StopTimer (snd e)) es m) ! a)) \<le> Suc n)"
  using assms
proof (induction es arbitrary: m)
  case (Cons e es)
  let ?a = "snd e" and ?m = "StopTimer (snd e) m" and ?g = "te_generation (tm_store m ! snd e)"
  have g: "unat (?g + 1) = unat ?g + 1" "unat ?g \<le> n" "?a < length (tm_store m)"
    using unat_u64_Suc [of ?g] Cons.prems(6,9) by auto
  have gen: "te_generation (tm_store ?m ! b) = (if b = ?a then ?g + 1 else te_generation (tm_store m ! b))" for b
    using g(3) by (simp add: StopTimer_def)
  have dead: "\<not> live b ?m" for b using Cons.prems(4) by (simp add: live_def)
  have pending: "\<forall>w\<in>set (tm_pending ?m). wait_ok ?m w"
  proof
    fix w assume "w \<in> set (tm_pending ?m)"
    then obtain v where v: "v \<in> set (tm_pending m)" "w = (if pw_entry v = ?a then v\<lparr>pw_cancelled := True\<rparr> else v)"
      using pending_StopTimerWait [of w ?a m] by (auto simp: StopTimer_def)
    with Cons.prems(7) g show "wait_ok ?m w" by (auto simp: wait_ok_def gen dead split: if_splits)
  qed
  have "\<forall>b\<in>snd ` set es. b < length (tm_store ?m) \<and> unat (te_generation (tm_store ?m ! b)) \<le> n"
  proof
    fix b assume b: "b \<in> snd ` set es"
    with Cons.prems(5) have "b \<noteq> ?a" by (metis distinct.simps(2) list.set_map list.simps(9))
    with b Cons.prems(6) show "b < length (tm_store ?m) \<and> unat (te_generation (tm_store ?m ! b)) \<le> n"
      by (auto simp: gen)
  qed
  moreover have "\<forall>b<length (tm_store ?m). unat (te_generation (tm_store ?m ! b)) \<le> Suc n"
    using Cons.prems(8) g by (auto simp: gen)
  ultimately show ?case using Cons.IH [of ?m] Cons.prems pending by simp
qed simp

lemma CancelAll_inv:
  assumes inv: "timers_inv busy n m" and n: "Suc n < 2 ^ 64"
  shows "timers_inv busy (Suc n) (CancelAll m)"
proof -
  note D = timers_invD [OF inv]
  let ?m = "m\<lparr>tm_timers := []\<rparr>"
  have inj: "distinct (map snd (tm_timers m))"
  proof -
    have "inj_on snd (set (tm_timers m))"
      using D(9) by (auto intro!: inj_onI simp: map_find_Some_iff [OF D(1)])
    then show ?thesis using map_wf_distinct [OF D(1)] by (simp add: distinct_map)
  qed
  have ent: "\<forall>a\<in>snd ` set (tm_timers m). a < length (tm_store ?m) \<and> unat (te_generation (tm_store ?m ! a)) \<le> n"
    using D(4,12) by (auto simp: map_find_Some_iff [OF D(1)])
  have dead: "\<not> live a ?m" for a by (simp add: live_def)
  have ok: "(\<forall>w\<in>set (tm_pending (CancelAll m)). wait_ok (CancelAll m) w) \<and>
      (\<forall>a<length (tm_store m). unat (te_generation (tm_store (CancelAll m) ! a)) \<le> Suc n)"
    using fold_StopTimer_inv [of ?m "tm_timers m" n] D(2,3) inj ent n D(11) le_SucI [OF D(12)]
    by (simp add: CancelAll_def std_map_invar wait_ok_def dead)
  have "waits a (CancelAll m) = []" for a
  proof (cases "a \<in> snd ` set (tm_timers m)")
    case False
    then have "\<not> live a m" by (force simp: live_def map_find_Some_iff [OF D(1)])
    with D(10) False show ?thesis by (simp add: CancelAll_def fold_StopTimer)
  qed (simp add: CancelAll_def fold_StopTimer)
  with ok show ?thesis
    by (intro timers_invI) (use D(2,3,13) in \<open>auto simp: CancelAll_def fold_StopTimer std_map_invar split: option.splits\<close>)
qed

lemma perform_op_inv:
  assumes "timers_inv busy n m" "Suc n < 2 ^ 64"
  shows "timers_inv busy (Suc n) (perform_op op m)"
  using CreateTimer_inv [OF assms(1)] ResetTimer_inv [OF assms] Cancel_inv [OF assms]
    CancelAll_inv [OF assms] timers_inv_Suc [OF assms(1)]
  by (cases op) (simp_all add: CreateOnce_def CreateRepeating_def ResetOnce_def ResetRepeating_def)

lemma program_inv:
  assumes "timers_inv busy n m" "n + length ops < 2 ^ 64"
  shows "timers_inv busy (n + length ops) (fold perform_op ops m)"
  using assms
proof (induction ops arbitrary: n m)
  case (Cons op ops)
  have "timers_inv busy (Suc n) (perform_op op m)"
    using perform_op_inv [OF Cons.prems(1), of op] Cons.prems(2) by simp
  from Cons.IH [OF this] Cons.prems(2) show ?case by simp
qed simp


section \<open>Waits that complete\<close>

text \<open>
  asio completes a wait that was not cancelled with success or with an error, never with
  \<^verbatim>\<open>operation_aborted\<close>. A cancelled wait may complete either way.
\<close>

definition possible_completion :: "nat \<Rightarrow> wait_result \<Rightarrow> 'c TimerManager \<Rightarrow> bool" where
  "possible_completion i result m \<longleftrightarrow> i < length (tm_pending m) \<and>
     (pw_cancelled (tm_pending m ! i) \<or> result \<noteq> Wait_aborted)"

lemma take_drop_filter:
  assumes "i < length xs"
  shows "filter P xs = filter P (take i xs) @ filter P [xs ! i] @ filter P (drop (Suc i) xs)"
  by (metis append_Cons append_Nil assms filter_append id_take_nth_drop)

definition without_wait :: "nat \<Rightarrow> 'c TimerManager \<Rightarrow> 'c TimerManager" where
  "without_wait i m = m\<lparr>tm_pending := take i (tm_pending m) @ drop (Suc i) (tm_pending m)\<rparr>"

lemma waits_without_other:
  assumes "i < length (tm_pending m)" "\<not> (pw_entry (tm_pending m ! i) = a \<and> \<not> pw_cancelled (tm_pending m ! i))"
  shows "waits a (without_wait i m) = waits a m"
  using take_drop_filter [OF assms(1), of "\<lambda>w. pw_entry w = a \<and> \<not> pw_cancelled w"] assms(2)
  by (simp add: waits_def without_wait_def del: de_Morgan_conj)

lemma waits_without_this:
  assumes "i < length (tm_pending m)" "\<not> pw_cancelled (tm_pending m ! i)" "waits (pw_entry (tm_pending m ! i)) m = [x]"
  shows "waits (pw_entry (tm_pending m ! i)) (without_wait i m) = []"
    and "x = (pw_timer_id (tm_pending m ! i), pw_generation (tm_pending m ! i))"
proof -
  let ?w = "tm_pending m ! i"
  note split = take_drop_filter [OF assms(1), of "\<lambda>w. pw_entry w = pw_entry ?w \<and> \<not> pw_cancelled w"]
  have "filter (\<lambda>w. pw_entry w = pw_entry ?w \<and> \<not> pw_cancelled w) (take i (tm_pending m)) = [] \<and>
    filter (\<lambda>w. pw_entry w = pw_entry ?w \<and> \<not> pw_cancelled w) (drop (Suc i) (tm_pending m)) = [] \<and>
    x = (pw_timer_id ?w, pw_generation ?w)"
    using assms(2,3) unfolding waits_def split by (auto simp: append_eq_Cons_conv)
  then show "waits (pw_entry ?w) (without_wait i m) = []" "x = (pw_timer_id ?w, pw_generation ?w)"
    by (simp_all add: waits_def without_wait_def)
qed

lemma without_wait_simps [simp]:
  "tm_store (without_wait i m) = tm_store m" "tm_timers (without_wait i m) = tm_timers m"
  "tm_next_timer_id (without_wait i m) = tm_next_timer_id m" "tm_fired (without_wait i m) = tm_fired m"
  by (simp_all add: without_wait_def)

lemma complete_wait_alt:
  "complete_wait program i r m = HandleWait program (pw_timer_id (tm_pending m ! i)) (pw_entry (tm_pending m ! i))
     (pw_generation (tm_pending m ! i)) r (without_wait i m)"
  by (simp add: complete_wait_def without_wait_def Let_def)

text \<open>A cancelled wait finds that its generation is over, and nothing happens.\<close>

lemma cancelled_wait_stale:
  assumes inv: "timers_inv None n m" and i: "i < length (tm_pending m)" and c: "pw_cancelled (tm_pending m ! i)"
  shows "\<not> is_current (pw_timer_id (tm_pending m ! i)) (pw_entry (tm_pending m ! i)) (pw_generation (tm_pending m ! i)) m"
  using timers_invD(11) [OF inv nth_mem [OF i]] c by (auto simp: is_current_def wait_ok_def live_def)

lemma without_wait_inv:
  assumes inv: "timers_inv None n m" and i: "i < length (tm_pending m)"
  shows "pw_cancelled (tm_pending m ! i) \<Longrightarrow> timers_inv None n (without_wait i m)"
    and "\<not> pw_cancelled (tm_pending m ! i) \<Longrightarrow>
      timers_inv (Some (pw_entry (tm_pending m ! i), pw_timer_id (tm_pending m ! i), pw_generation (tm_pending m ! i))) n (without_wait i m) \<and>
      is_current (pw_timer_id (tm_pending m ! i)) (pw_entry (tm_pending m ! i)) (pw_generation (tm_pending m ! i)) m"
proof -
  let ?w = "tm_pending m ! i" and ?m = "without_wait i m"
  note D = timers_invD [OF inv]
  have live: "live a ?m = live a m" for a by (simp add: live_def)
  have pending: "w \<in> set (tm_pending ?m) \<Longrightarrow> wait_ok ?m w" for w
    using D(11) [of w] by (auto simp: without_wait_def wait_ok_def live_def dest: in_set_takeD in_set_dropD)
  {
    assume "pw_cancelled ?w"
    then have w: "waits a ?m = waits a m" for a by (intro waits_without_other) (simp_all add: i)
    then have "armed None j a ?m = armed None j a m" for j a by (intro armed_cong) simp_all
    with D pending live w show "timers_inv None n ?m" by (intro timers_invI) simp_all
  }
  {
    assume nc: "\<not> pw_cancelled ?w"
    have "?w \<in> set (tm_pending m)" by (simp add: i)
    with nc have "waits (pw_entry ?w) m \<noteq> []" by (auto simp: waits_def filter_empty_conv)
    with D(10) obtain j where j: "map_find (tm_timers m) j = Some (pw_entry ?w)" by (auto simp: live_def)
    from D(8) [OF j] have "waits (pw_entry ?w) m = [(j, te_generation (tm_store m ! pw_entry ?w))]" by (simp add: armed_def)
    note this_wait = waits_without_this [OF i nc this]
    then have cur: "is_current (pw_timer_id ?w) (pw_entry ?w) (pw_generation ?w) m"
      using j by (simp add: is_current_def)
    have other: "a \<noteq> pw_entry ?w \<Longrightarrow> waits a ?m = waits a m" for a by (intro waits_without_other) (auto simp: i)
    have "armed (Some (pw_entry ?w, pw_timer_id ?w, pw_generation ?w)) k a ?m" if "map_find (tm_timers m) k = Some a" for k a
      using D(8) [OF that] D(9) [OF j, of k] that this_wait other [of a]
      by (cases "a = pw_entry ?w") (simp_all add: armed_def)
    moreover have "\<not> live a m \<Longrightarrow> waits a ?m = []" for a
      using other [of a] D(10) [of a] this_wait(1) by (cases "a = pw_entry ?w") simp_all
    ultimately show "timers_inv (Some (pw_entry ?w, pw_timer_id ?w, pw_generation ?w)) n ?m \<and>
        is_current (pw_timer_id ?w) (pw_entry ?w) (pw_generation ?w) m"
      using D(1-9,12) D(4) [OF j] pending live cur by (intro conjI timers_invI) simp_all
  }
qed


lemma timers_inv_fired [simp]: "timers_inv busy n (m\<lparr>tm_fired := f\<rparr>) = timers_inv busy n m"
proof -
  have "live a (m\<lparr>tm_fired := f\<rparr>) = live a m" "wait_ok (m\<lparr>tm_fired := f\<rparr>) w = wait_ok m w" for a w
    by (simp_all add: live_def wait_ok_def)
  moreover have "armed busy i a (m\<lparr>tm_fired := f\<rparr>) = armed busy i a m" for i a by (rule armed_cong) simp_all
  ultimately show ?thesis by (simp add: timers_inv_def cong: option.case_cong)
qed

text \<open>The callback is over when its timer is gone or has its next wait.\<close>

lemma timers_inv_idle:
  assumes inv: "timers_inv (Some (a, i, g)) n m" and "\<not> is_current i a g m"
  shows "timers_inv None n m"
proof -
  note D = timers_invD [OF inv]
  have "armed None j b m" if j: "map_find (tm_timers m) j = Some b" for j b
    using D(8) [OF j] assms(2) j by (auto simp: armed_def is_current_def split: if_splits)
  then show ?thesis using D by (intro timers_invI) simp_all
qed

lemma HandleWait_inv:
  assumes inv: "timers_inv (Some (a, i, g)) n m" and cur: "is_current i a g m" and r: "r \<noteq> Wait_aborted"
    and len: "\<And>c m. length (program c m) \<le> k" and n: "n + k < 2 ^ 64"
  shows "\<exists>n' \<le> n + k. timers_inv None n' (HandleWait program i a g r m)"
proof -
  have find: "map_find (tm_timers m) i = Some a" using cur by (simp add: is_current_def)
  have erase: "timers_inv None n' (m'\<lparr>tm_timers := map_erase i (tm_timers m')\<rparr>)"
    if inv': "timers_inv (Some (a, i, g)) n' m'" and cur': "is_current i a g m'" for n' and m' :: "'a TimerManager"
  proof -
    have f: "map_find (tm_timers m') i = Some a" using cur' by (simp add: is_current_def)
    have "waits a m' = []" using timers_invD(8) [OF inv' f] cur' by (simp add: armed_def is_current_def)
    from erase_inv [OF inv' f this] show ?thesis
      by (rule timers_inv_idle) (simp add: is_current_def std_map_find timers_invD(1) [OF inv'])
  qed
  obtain c where c: "te_callback (tm_store m ! a) = Some c" using timers_invD(7) [OF inv find] by blast
  show ?thesis
  proof (cases "r = Wait_error")
    case True
    with erase [OF inv cur] cur c show ?thesis by (intro exI [of _ n]) (simp add: HandleWait_def)
  next
    case False
    define m1 where "m1 = m\<lparr>tm_fired := tm_fired m @ [(i, c)]\<rparr>"
    define m2 where "m2 = fold perform_op (program c m1) m1"
    let ?n = "n + length (program c m1)"
    have bound: "?n \<le> n + k" using len by simp
    have "timers_inv (Some (a, i, g)) n m1" using inv by (simp add: m1_def)
    from program_inv [OF this, of "program c m1"] bound n have inv2: "timers_inv (Some (a, i, g)) ?n m2"
      by (simp add: m2_def)
    have result: "HandleWait program i a g r m =
        (if \<not> is_current i a g m2 then m2
         else if \<not> te_repeating (tm_store m2 ! a) then m2\<lparr>tm_timers := map_erase i (tm_timers m2)\<rparr>
         else ArmTimer i a (te_interval (tm_store m2 ! a)) g m2)"
      using cur c r False unfolding HandleWait_def m2_def m1_def Let_def by (cases r) simp_all
    have "timers_inv None ?n (ArmTimer i a d g m2)" if cur2: "is_current i a g m2" for d
    proof -
      note D = timers_invD [OF inv2]
      have f: "map_find (tm_timers m2) i = Some a" and gen: "te_generation (tm_store m2 ! a) = g"
        using cur2 by (simp_all add: is_current_def)
      have w: "waits a m2 = []" using D(8) [OF f] gen by (simp add: armed_def)
      have live: "live b (ArmTimer i a d g m2) = live b m2" for b by (simp add: live_def)
      have armed: "armed None j b (ArmTimer i a d g m2)" if j: "map_find (tm_timers m2) j = Some b" for j b
        using D(8) [OF j] D(9) [OF f, of j] j gen by (cases "b = a") (simp_all add: armed_def)
      have pending: "wait_ok (ArmTimer i a d g m2) v" if "v \<in> set (tm_pending (ArmTimer i a d g m2))" for v
        using that D(11) [of v] D(4) [OF f] gen
        by (auto simp: pending_ArmTimer StopTimerWait_idle [OF w] wait_ok_def live)
      have "\<not> live b m2 \<Longrightarrow> waits b (ArmTimer i a d g m2) = []" for b
        using D(10) [of b] f by (auto simp: live_def)
      with D(1-7,9,12) armed pending live show ?thesis by (intro timers_invI) simp_all
    qed
    with timers_inv_idle [OF inv2] erase [OF inv2] result bound show ?thesis
      by (intro exI [of _ ?n]) simp
  qed
qed

lemma complete_wait_inv:
  assumes inv: "timers_inv None n m" and pos: "possible_completion i r m"
    and len: "\<And>c m. length (program c m) \<le> k" and n: "n + k < 2 ^ 64"
  shows "\<exists>n' \<le> n + k. timers_inv None n' (complete_wait program i r m)"
proof -
  have i: "i < length (tm_pending m)" using pos by (simp add: possible_completion_def)
  show ?thesis
  proof (cases "pw_cancelled (tm_pending m ! i)")
    case True
    from cancelled_wait_stale [OF inv i True] without_wait_inv(1) [OF inv i True] show ?thesis
      by (intro exI [of _ n]) (simp add: complete_wait_alt HandleWait_def is_current_def)
  next
    case False
    with pos have r: "r \<noteq> Wait_aborted" by (simp add: possible_completion_def)
    note W = without_wait_inv(2) [OF inv i False]
    have "is_current (pw_timer_id (tm_pending m ! i)) (pw_entry (tm_pending m ! i))
        (pw_generation (tm_pending m ! i)) (without_wait i m)" using W by (simp add: is_current_def)
    from HandleWait_inv [OF conjunct1 [OF W] this r, of program k] len n show ?thesis
      unfolding complete_wait_alt by blast
  qed
qed


section \<open>Properties\<close>

text \<open>
  A run of the manager is a list of events: calls of its operations and completions of outstanding
  waits, in any order asio allows.
\<close>

datatype 'c timer_event = Call "'c timer_op" | Complete nat wait_result

fun run_event :: "'c timer_program \<Rightarrow> 'c timer_event \<Rightarrow> 'c TimerManager \<Rightarrow> 'c TimerManager" where
  "run_event program (Call op) m = perform_op op m"
| "run_event program (Complete i r) m = (if possible_completion i r m then complete_wait program i r m else m)"


text \<open>Only the completion of a current wait runs a callback, and it runs one.\<close>

lemma perform_op_fired [simp]: "tm_fired (perform_op op m) = tm_fired m"
  by (cases op) (auto simp: CreateOnce_def CreateRepeating_def CreateTimer_def ResetOnce_def ResetRepeating_def
      ResetTimer_def Cancel_def CancelAll_def fold_StopTimer Let_def split: option.split)

lemma fold_perform_op_fired [simp]: "tm_fired (fold perform_op ops m) = tm_fired m"
  by (induction ops arbitrary: m) simp_all

lemma HandleWait_fired:
  "tm_fired (HandleWait program i a g r m) =
     (if r = Wait_success \<and> is_current i a g m
      then tm_fired m @ (case te_callback (tm_store m ! a) of None \<Rightarrow> [] | Some c \<Rightarrow> [(i, c)])
      else tm_fired m)"
  by (cases r) (simp_all add: HandleWait_def Let_def split: option.split)

text \<open>A timer id that is in use or was given up is never handed out again.\<close>

definition ids_used :: "'c TimerManager \<Rightarrow> bool" where
  "ids_used m \<longleftrightarrow> map_wf (tm_timers m) \<and> 0 < tm_next_timer_id m \<and> (\<forall>i a. map_find (tm_timers m) i = Some a \<longrightarrow> i < tm_next_timer_id m)"

definition given_up :: "TimerID \<Rightarrow> 'c TimerManager \<Rightarrow> bool" where
  "given_up i m \<longleftrightarrow> i < tm_next_timer_id m \<and> map_find (tm_timers m) i = None"

lemma ids_used_erase: "ids_used m \<Longrightarrow> ids_used (m\<lparr>tm_timers := map_erase j (tm_timers m)\<rparr>)"
  and given_up_erase: "ids_used m \<Longrightarrow> given_up i m \<Longrightarrow> given_up i (m\<lparr>tm_timers := map_erase j (tm_timers m)\<rparr>)"
  by (auto simp: ids_used_def given_up_def std_map_find std_map_invar)

lemma ids_cong:
  assumes "tm_timers m' = tm_timers m" "tm_next_timer_id m' = tm_next_timer_id m"
  shows "ids_used m' = ids_used m" "given_up i m' = given_up i m"
  using assms by (simp_all add: ids_used_def given_up_def)

lemma CreateTimer_ids:
  assumes "ids_used m"
  shows "ids_used (snd (CreateTimer d iv rep cb m))" "given_up i m \<Longrightarrow> given_up i (snd (CreateTimer d iv rep cb m))"
  using assms by (auto simp: ids_used_def given_up_def CreateTimer_def Let_def map_emplace_def std_map_find
      std_map_invar split: if_splits)

lemma perform_op_ids:
  assumes "ids_used m"
  shows "ids_used (perform_op op m) \<and> (given_up i m \<longrightarrow> given_up i (perform_op op m))"
proof (cases op)
  case (Op_Cancel j)
  have "ids_used ((StopTimer a m)\<lparr>tm_timers := map_erase j (tm_timers m)\<rparr>)"
    "given_up i m \<Longrightarrow> given_up i ((StopTimer a m)\<lparr>tm_timers := map_erase j (tm_timers m)\<rparr>)" for a
    using ids_used_erase [of "StopTimer a m" j] given_up_erase [of "StopTimer a m" i j] assms
    by (simp_all add: ids_cong [of "StopTimer a m" m])
  with Op_Cancel assms show ?thesis by (simp add: Cancel_def split: option.split)
next
  case Op_CancelAll
  with assms show ?thesis by (simp add: CancelAll_def ids_used_def given_up_def fold_StopTimer std_map_invar)
next
  case (Op_ResetOnce j d cb)
  with assms show ?thesis
    by (auto simp: ResetOnce_def ResetTimer_def Let_def ids_used_def given_up_def split: option.split)
next
  case (Op_ResetRepeating j iv cb)
  with assms show ?thesis
    by (auto simp: ResetRepeating_def ResetTimer_def Let_def ids_used_def given_up_def split: option.split)
qed (use CreateTimer_ids [OF assms] assms in \<open>simp_all add: CreateOnce_def CreateRepeating_def\<close>)

lemma fold_perform_op_ids:
  "ids_used m \<Longrightarrow> ids_used (fold perform_op ops m) \<and> (given_up i m \<longrightarrow> given_up i (fold perform_op ops m))"
  by (induction ops arbitrary: m) (use perform_op_ids in \<open>auto simp del: perform_op.simps\<close>)

lemma HandleWait_ids:
  assumes "ids_used m"
  shows "ids_used (HandleWait program j a g r m) \<and> (given_up i m \<longrightarrow> given_up i (HandleWait program j a g r m))"
proof -
  have "ids_used (m\<lparr>tm_fired := f\<rparr>) = ids_used m" "given_up i (m\<lparr>tm_fired := f\<rparr>) = given_up i m" for f
    by (simp_all add: ids_cong [of "m\<lparr>tm_fired := f\<rparr>" m])
  moreover have "ids_used (ArmTimer j a d g m') = ids_used m'" "given_up i (ArmTimer j a d g m') = given_up i m'"
    for d and m' :: "'a TimerManager" by (simp_all add: ids_cong [of "ArmTimer j a d g m'" m'])
  ultimately show ?thesis
    using assms fold_perform_op_ids [of "m\<lparr>tm_fired := f\<rparr>" ops i for f ops]
    by (auto simp: HandleWait_def Let_def ids_used_erase given_up_erase split: option.split)
qed

lemma run_event_ids:
  assumes "ids_used m"
  shows "ids_used (run_event program ev m) \<and> (given_up i m \<longrightarrow> given_up i (run_event program ev m) \<and>
    filter (\<lambda>f. fst f = i) (tm_fired (run_event program ev m)) = filter (\<lambda>f. fst f = i) (tm_fired m))"
proof (cases ev)
  case (Call op)
  with perform_op_ids [OF assms] show ?thesis by simp
next
  case (Complete j r)
  have w: "ids_used (without_wait j m) = ids_used m" "given_up i (without_wait j m) = given_up i m"
    by (simp_all add: ids_cong [of "without_wait j m" m])
  have "filter (\<lambda>f. fst f = i) (tm_fired (complete_wait program j r m)) = filter (\<lambda>f. fst f = i) (tm_fired m)"
    if "given_up i m"
    using that by (auto simp: complete_wait_alt HandleWait_fired is_current_def given_up_def split: option.split)
  with HandleWait_ids [of "without_wait j m"] w assms Complete show ?thesis
    by (simp add: complete_wait_alt)
qed

lemma run_ids:
  "ids_used m \<Longrightarrow> ids_used (fold (run_event program) es m) \<and>
   (given_up i m \<longrightarrow> given_up i (fold (run_event program) es m) \<and>
    filter (\<lambda>f. fst f = i) (tm_fired (fold (run_event program) es m)) = filter (\<lambda>f. fst f = i) (tm_fired m))"
proof (induction es arbitrary: m)
  case (Cons e es)
  from Cons.IH [of "run_event program e m"] run_event_ids [OF Cons.prems, of program e i] show ?case
    by (simp del: run_event.simps)
qed simp

lemma new_ids_used: "ids_used new_TimerManager"
  by (simp add: ids_used_def new_TimerManager_def std_map_invar)

text \<open>
  C14. Cancelling is final: once \<^verbatim>\<open>Cancel\<close> has returned success for a timer, no later sequence of
  calls and completions, not even a wait whose expiry had been queued before the cancellation,
  runs a callback for that timer id again, and the id never comes back into use.
\<close>

theorem cancelled_timer_never_fires:
  assumes "Cancel i (fold (run_event program) es new_TimerManager) = (Timer_None, m)"
  shows "filter (\<lambda>f. fst f = i) (tm_fired (fold (run_event program) es' m)) = filter (\<lambda>f. fst f = i) (tm_fired m) \<and>
    \<not> timers_Contains i (fold (run_event program) es' m)"
proof -
  let ?m = "fold (run_event program) es new_TimerManager"
  have used: "ids_used ?m" using run_ids [OF new_ids_used] by blast
  from assms obtain a where a: "map_find (tm_timers ?m) i = Some a"
    and m: "m = (StopTimer a ?m)\<lparr>tm_timers := map_erase i (tm_timers ?m)\<rparr>"
    by (auto simp: Cancel_def split: if_splits option.splits)
  have "ids_used m" using perform_op_ids [OF used, of "Op_Cancel i"] assms by simp
  moreover have "given_up i m" using used a by (simp add: m given_up_def ids_used_def std_map_find)
  ultimately have "given_up i (fold (run_event program) es' m) \<and>
    filter (\<lambda>f. fst f = i) (tm_fired (fold (run_event program) es' m)) = filter (\<lambda>f. fst f = i) (tm_fired m)"
    using run_ids [of m program es' i] by blast
  then show ?thesis by (simp add: given_up_def timers_Contains_def)
qed


lemma run_event_inv:
  assumes "timers_inv None n m" "\<And>c m. length (program c m) \<le> k" "n + Suc k < 2 ^ 64"
  shows "\<exists>n' \<le> n + Suc k. timers_inv None n' (run_event program ev m)"
proof (cases ev)
  case (Call op)
  with perform_op_inv [OF assms(1), of op] assms(3) show ?thesis by (intro exI [of _ "Suc n"]) simp
next
  case (Complete i r)
  show ?thesis
  proof (cases "possible_completion i r m")
    case True
    from complete_wait_inv [OF assms(1) True, of program k] assms(2,3) obtain n' where
      "n' \<le> n + k" "timers_inv None n' (complete_wait program i r m)" by auto
    with True Complete show ?thesis by (intro exI [of _ n']) simp
  next
    case False
    with Complete assms(1) show ?thesis by (intro exI [of _ n]) simp
  qed
qed

lemma run_inv:
  assumes "timers_inv None n m" "\<And>c m. length (program c m) \<le> k" "n + length es * Suc k < 2 ^ 64"
  shows "\<exists>n'. timers_inv None n' (fold (run_event program) es m)"
  using assms
proof (induction es arbitrary: n m)
  case (Cons e es)
  from run_event_inv [OF Cons.prems(1), of program k e] Cons.prems(2,3) obtain n' where
    n': "n' \<le> n + Suc k" "timers_inv None n' (run_event program e m)" by auto
  from n'(1) Cons.prems(3) have "n' + length es * Suc k < 2 ^ 64" by simp
  from Cons.IH [OF n'(2) Cons.prems(2) this] show ?case by simp
qed auto

lemma new_timers_inv: "timers_inv None 0 new_TimerManager"
  by (rule timers_invI) (simp_all add: new_TimerManager_def std_map_invar timer_id_max_def live_def waits_def)

text \<open>
  C34. No timer is forgotten: after any run (short enough that the 64-bit generation counters have
  not wrapped), every timer in the map has an outstanding wait that was not cancelled, and when
  that wait completes the timer's current callback runs, exactly once.
\<close>

theorem live_timer_fires:
  assumes program: "\<And>c m. length (program c m) \<le> k" and run: "length es * Suc k < 2 ^ 64"
    and m: "m = fold (run_event program) es new_TimerManager" and i: "map_find (tm_timers m) i = Some a"
  shows "\<exists>j c. possible_completion j Wait_success m \<and> \<not> pw_cancelled (tm_pending m ! j) \<and>
    te_callback (tm_store m ! a) = Some c \<and>
    tm_fired (run_event program (Complete j Wait_success) m) = tm_fired m @ [(i, c)]"
proof -
  have "\<exists>n. timers_inv None n m" unfolding m by (rule run_inv [OF new_timers_inv]) (use program run in simp_all)
  then obtain n where inv: "timers_inv None n m" by blast
  note D = timers_invD [OF inv]
  from D(8) [OF i] have w: "waits a m = [(i, te_generation (tm_store m ! a))]" by (simp add: armed_def)
  then have "(i, te_generation (tm_store m ! a)) \<in> set (waits a m)" by simp
  then obtain v where v: "v \<in> set (tm_pending m)" "pw_entry v = a" "\<not> pw_cancelled v"
    "pw_timer_id v = i" "pw_generation v = te_generation (tm_store m ! a)"
    by (auto simp: waits_def)
  then obtain j where j: "j < length (tm_pending m)" "tm_pending m ! j = v" by (auto simp: in_set_conv_nth)
  obtain c where c: "te_callback (tm_store m ! a) = Some c" using D(7) [OF i] by blast
  have "tm_fired (run_event program (Complete j Wait_success) m) = tm_fired m @ [(i, c)]"
    using j v c i by (simp add: possible_completion_def complete_wait_alt HandleWait_fired is_current_def)
  with j v c show ?thesis by (auto simp: possible_completion_def)
qed

definition sample_timer_run :: "nat TimerManager" where
  "sample_timer_run = fold (run_event (\<lambda>_ _. [])) [Call (Op_CreateRepeating 5 (Some 7)), Complete 0 Wait_success] new_TimerManager"

theorem cancelled_timer_never_fires_witness:
  "filter (\<lambda>f. fst f = 1) (tm_fired (fold (run_event (\<lambda>_ _. [])) [Complete 0 Wait_success]
     (snd (Cancel 1 sample_timer_run)))) = [(1, 7)]"
proof -
  have c: "Cancel 1 sample_timer_run = (Timer_None, snd (Cancel 1 sample_timer_run))" by code_simp
  have "filter (\<lambda>f. fst f = 1) (tm_fired (snd (Cancel 1 sample_timer_run))) = [(1, 7)]" by code_simp
  with cancelled_timer_never_fires [OF c [unfolded sample_timer_run_def], of "[Complete 0 Wait_success]"]
  show ?thesis by (simp add: sample_timer_run_def)
qed

theorem live_timer_fires_witness:
  "\<exists>j c. possible_completion j Wait_success sample_timer_run \<and> \<not> pw_cancelled (tm_pending sample_timer_run ! j) \<and>
    te_callback (tm_store sample_timer_run ! 0) = Some c \<and>
    tm_fired (run_event (\<lambda>_ _. []) (Complete j Wait_success) sample_timer_run) = [(1, 7), (1, c)]"
proof -
  have f: "map_find (tm_timers sample_timer_run) 1 = Some 0" "tm_fired sample_timer_run = [(1, 7)]" by code_simp+
  show ?thesis using live_timer_fires [OF _ _ sample_timer_run_def f(1), of 0] f(2) by simp
qed

end
