(* ===== verification/ServerNode.thy ===== *)
theory ServerNode
  imports InnerNetwork InnerNetworkSessionManager ClusterConfig Timer
begin

text \<open>
  \<^verbatim>\<open>node/ServerNode.h\<close>, \<^verbatim>\<open>.cpp\<close>: what all nodes share, namely the configuration, the inner network
  and the remote sessions, the clock, and the life cycle around the role's own
  \<^verbatim>\<open>OnInit\<close>, \<^verbatim>\<open>OnRun\<close> and \<^verbatim>\<open>OnUninit\<close>. The role's state extends the record. Exceptions that the
  life cycle catches are outcomes; logging is left out.
\<close>

section \<open>The world outside\<close>

text \<open>
  What the node reads from outside, indexed by how often it has read it: \<open>env_utc_now\<close> is the system
  clock in signed milliseconds since the epoch, \<open>env_random\<close> the numbers of the random engine, and
  \<open>env_zmq\<close> the results of libzmq.
\<close>

record node_env =
  env_zmq :: libzmq
  env_utc_now :: "nat \<Rightarrow> u64"
  env_random :: "nat \<Rightarrow> nat"

section \<open>State\<close>

record ServerNode =
  sn_config_path :: string
  sn_args_node_id :: string
  sn_cluster_config :: ClusterConfig
  sn_process_type :: ProcessType
  sn_node_id :: string
  sn_pid :: u32
  sn_node_config :: "NodeConfig ptr"
  sn_event_loop :: "unit TimerManager ptr"
  sn_inner_network :: "InnerNetwork ptr"
  sn_sessions :: InnerNetworkSessionManager
  sn_last_error_message :: string
  sn_initialized :: bool
  sn_zmq_tick :: nat
  sn_clock_reads :: nat
  sn_random_draws :: nat

definition sn_SetError ::
    "NodeErrorCode \<Rightarrow> string \<Rightarrow> 'a ServerNode_scheme \<Rightarrow> NodeErrorCode \<times> 'a ServerNode_scheme" where
  "sn_SetError code message s =
     (code, s\<lparr>sn_last_error_message := (if message = [] then NodeErrorMessage code else message)\<rparr>)"

definition sn_ClearError :: "'a ServerNode_scheme \<Rightarrow> 'a ServerNode_scheme" where
  "sn_ClearError s = s\<lparr>sn_last_error_message := []\<rparr>"

text \<open>The clock is signed; a value before the epoch counts as zero.\<close>

definition CurrentUnixTimeMilliseconds ::
    "node_env \<Rightarrow> 'a ServerNode_scheme \<Rightarrow> u64 \<times> 'a ServerNode_scheme" where
  "CurrentUnixTimeMilliseconds env s =
     (let now_unix_ms = env_utc_now env (sn_clock_reads s) in
      (if sint now_unix_ms > 0 then now_unix_ms else 0, s\<lparr>sn_clock_reads := Suc (sn_clock_reads s)\<rparr>))"

section \<open>The inner network of the node\<close>

definition InitInnerNetwork ::
    "node_env \<Rightarrow> InnerNetworkOptions \<Rightarrow> 'a ServerNode_scheme \<Rightarrow> NodeErrorCode \<times> 'a ServerNode_scheme" where
  "InitInnerNetwork env options s =
     (if sn_inner_network s \<noteq> None then
        sn_SetError Node_InvalidArgument ''Inner network is already initialized.'' s
      else case net_Init (env_zmq env) (new_InnerNetwork options (sn_zmq_tick s)) of (init_result, net) \<Rightarrow>
        let s = s\<lparr>sn_zmq_tick := net_tick net\<rparr> in
        if init_result \<noteq> Node_None then sn_SetError init_result (last_error_message net) (s\<lparr>sn_inner_network := None\<rparr>)
        else (Node_None, sn_ClearError (s\<lparr>sn_inner_network := Some net\<rparr>)))"

definition RunInnerNetwork :: "node_env \<Rightarrow> 'a ServerNode_scheme \<Rightarrow> NodeErrorCode \<times> 'a ServerNode_scheme" where
  "RunInnerNetwork env s =
     (case sn_inner_network s of
        None \<Rightarrow> sn_SetError Node_InvalidArgument ''Inner network must be initialized before Run().'' s
      | Some net \<Rightarrow>
          case net_Run (env_zmq env) [] net of (run_result, net) \<Rightarrow>
            let s = s\<lparr>sn_inner_network := Some net\<rparr> in
            if run_result \<noteq> Node_None then sn_SetError run_result (last_error_message net) s
            else (Node_None, sn_ClearError s))"

definition UninitInnerNetwork :: "'a ServerNode_scheme \<Rightarrow> NodeErrorCode \<times> 'a ServerNode_scheme" where
  "UninitInnerNetwork s =
     (case sn_inner_network s of
        None \<Rightarrow> (Node_None, sn_ClearError s)
      | Some net \<Rightarrow>
          case net_Uninit net of (result, net) \<Rightarrow>
            let s = s\<lparr>sn_inner_network := None, sn_zmq_tick := net_tick net\<rparr> in
            if result \<noteq> Node_None then sn_SetError result (last_error_message net) s
            else (Node_None, sn_ClearError s))"

text \<open>\<^verbatim>\<open>inner_network()->Send\<close> for a network that is there.\<close>

definition inner_Send ::
    "node_env \<Rightarrow> byte list \<Rightarrow> byte list \<Rightarrow> InnerNetwork \<Rightarrow> 'a ServerNode_scheme \<Rightarrow> NodeErrorCode \<times> 'a ServerNode_scheme" where
  "inner_Send env routing_id payload net s =
     (case net_Send (env_zmq env) routing_id payload net of (result, net) \<Rightarrow>
        (result, s\<lparr>sn_inner_network := Some net\<rparr>))"

section \<open>Life cycle\<close>

definition ReleaseCoreState :: "'a ServerNode_scheme \<Rightarrow> 'a ServerNode_scheme" where
  "ReleaseCoreState s =
     s\<lparr>sn_inner_network := None, sn_sessions := sessions_Clear (sn_sessions s), sn_event_loop := None,
       sn_node_config := None, sn_cluster_config := zero_ClusterConfig, sn_process_type := Gm,
       sn_node_id := [], sn_pid := 0, sn_initialized := False\<rparr>"

fun ResolveNodeProcessType :: "NodeConfig \<Rightarrow> ProcessType" where
  "ResolveNodeProcessType (GmNodeConfig _ _) = Gm"
| "ResolveNodeProcessType (GateNodeConfig _ _ _) = Gate"
| "ResolveNodeProcessType (GameNodeConfig _ _) = Game"

definition MapConfigError :: "ConfigErrorCode \<Rightarrow> NodeErrorCode" where
  "MapConfigError code = (if code = Cfg_InvalidNodeId then Node_InvalidNodeId else Node_ConfigLoadFailed)"

fun ProcessTypeName :: "ProcessType \<Rightarrow> string" where
  "ProcessTypeName Gm = ''GM''"
| "ProcessTypeName Gate = ''Gate''"
| "ProcessTypeName Game = ''Game''"

definition BuildProcessTypeMismatchMessage :: "ProcessType \<Rightarrow> string" where
  "BuildProcessTypeMismatchMessage expected =
     ProcessTypeName expected @ '' node requires nodeId resolving to '' @ ProcessTypeName expected @ ''.''"

text \<open>A call returns a code or throws, with the text of a \<^verbatim>\<open>std::exception\<close> or with something else.\<close>

datatype outcome = Returned NodeErrorCode | Threw "string option"

definition thrown_text :: "string \<Rightarrow> string option \<Rightarrow> string" where
  "thrown_text call text = (case text of
     Some what \<Rightarrow> call @ '' threw: '' @ what | None \<Rightarrow> call @ '' threw an unknown exception.'')"

text \<open>
  \<^verbatim>\<open>Init\<close>: the parameters are the result of \<^verbatim>\<open>LoadClusterConfigFile\<close>, the process id, the failures of
  the logger's and the event loop's constructors, the role, and the role's callbacks.
\<close>

definition sn_Init ::
    "(string \<Rightarrow> (ConfigErrorCode \<times> string) + ClusterConfig) \<Rightarrow> u32 \<Rightarrow> string option option \<Rightarrow> string option option \<Rightarrow>
     ProcessType \<Rightarrow> ('a ServerNode_scheme \<Rightarrow> outcome \<times> 'a ServerNode_scheme) \<Rightarrow>
     ('a ServerNode_scheme \<Rightarrow> outcome \<times> 'a ServerNode_scheme) \<Rightarrow>
     'a ServerNode_scheme \<Rightarrow> NodeErrorCode \<times> 'a ServerNode_scheme" where
  "sn_Init load_config current_pid logger_failure loop_failure role_process_type OnInit OnUninit s =
     (if sn_initialized s then sn_SetError Node_InvalidArgument ''Server node is already initialized.'' s
      else if sn_config_path s = [] then sn_SetError Node_EmptyConfigPath ''configPath must not be empty.'' s
      else if sn_args_node_id s = [] then sn_SetError Node_EmptyNodeId ''nodeId must not be empty.'' s
      else let s = s\<lparr>sn_node_config := None, sn_cluster_config := zero_ClusterConfig\<rparr> in
      case load_config (sn_config_path s) of
        Inl (code, detail) \<Rightarrow> sn_SetError (MapConfigError code) detail s
      | Inr cluster_config \<Rightarrow>
        let s = s\<lparr>sn_cluster_config := cluster_config\<rparr> in
        case SelectNodeConfig cluster_config (sn_args_node_id s) of
          Inl (code, detail) \<Rightarrow> sn_SetError (MapConfigError code) detail s
        | Inr node_config \<Rightarrow>
          let s = s\<lparr>sn_node_config := Some node_config, sn_process_type := ResolveNodeProcessType node_config,
              sn_node_id := sn_args_node_id s, sn_pid := current_pid\<rparr> in
          if sn_process_type s \<noteq> role_process_type then
            sn_SetError Node_InvalidArgument (BuildProcessTypeMismatchMessage role_process_type) (ReleaseCoreState s)
          else case logger_failure of
            Some text \<Rightarrow> sn_SetError Node_LoggerInitFailed
              (case text of Some what \<Rightarrow> ''Failed to initialize node logger: '' @ what
               | None \<Rightarrow> ''Failed to initialize node logger: unknown exception.'') (ReleaseCoreState s)
          | None \<Rightarrow> case loop_failure of
              Some text \<Rightarrow> sn_SetError Node_NodeInitFailed
                (case text of Some what \<Rightarrow> ''Failed to initialize node event loop: '' @ what
                 | None \<Rightarrow> ''Failed to initialize node event loop: unknown exception.'') (ReleaseCoreState s)
            | None \<Rightarrow>
              case OnInit (s\<lparr>sn_event_loop := Some new_TimerManager\<rparr>) of
                (Returned init_result, s) \<Rightarrow>
                  if init_result \<noteq> Node_None then
                    let init_error_message = (if sn_last_error_message s = [] then NodeErrorMessage init_result
                        else sn_last_error_message s) in
                    (init_result, (ReleaseCoreState (snd (OnUninit s)))\<lparr>sn_last_error_message := init_error_message\<rparr>)
                  else (Node_None, sn_ClearError (s\<lparr>sn_initialized := True\<rparr>))
              | (Threw text, s) \<Rightarrow> sn_SetError Node_NodeInitFailed (thrown_text ''Server node Init()'' text)
                  (ReleaseCoreState (snd (OnUninit s))))"

text \<open>
  \<^verbatim>\<open>Run\<close>: \<^verbatim>\<open>OnRun\<close> is called when the event loop starts; when it succeeds the loop runs until it stops,
  which the parameter \<open>loop\<close> stands for, with the loop's error text if it fails.
\<close>

definition sn_Run ::
    "('a ServerNode_scheme \<Rightarrow> outcome \<times> 'a ServerNode_scheme) \<Rightarrow>
     ('a ServerNode_scheme \<Rightarrow> string option \<times> 'a ServerNode_scheme) \<Rightarrow>
     'a ServerNode_scheme \<Rightarrow> NodeErrorCode \<times> 'a ServerNode_scheme" where
  "sn_Run OnRun loop s =
     (if \<not> sn_initialized s \<or> sn_event_loop s = None then
        sn_SetError Node_InvalidArgument ''Server node must be initialized before Run().'' s
      else case OnRun s of (result, s) \<Rightarrow>
        case (case result of
            Returned code \<Rightarrow> (code, s)
          | Threw text \<Rightarrow> sn_SetError Node_NodeRunFailed (thrown_text ''Server node Run()'' text) s) of (run_result, s) \<Rightarrow>
        if run_result \<noteq> Node_None then
          sn_SetError run_result (if sn_last_error_message s = [] then NodeErrorMessage run_result
            else sn_last_error_message s) s
        else case loop s of
          (Some loop_error, s) \<Rightarrow> sn_SetError Node_EventLoopFailed loop_error s
        | (None, s) \<Rightarrow> (Node_None, sn_ClearError s))"

definition sn_Uninit ::
    "('a ServerNode_scheme \<Rightarrow> outcome \<times> 'a ServerNode_scheme) \<Rightarrow>
     'a ServerNode_scheme \<Rightarrow> NodeErrorCode \<times> 'a ServerNode_scheme" where
  "sn_Uninit OnUninit s =
     (if \<not> sn_initialized s then (Node_None, sn_ClearError s)
      else case OnUninit s of (result, s) \<Rightarrow>
        case (case result of
            Returned code \<Rightarrow> (code, s)
          | Threw text \<Rightarrow> sn_SetError Node_NodeUninitFailed (thrown_text ''Server node Uninit()'' text) s) of (result, s) \<Rightarrow>
        let s = ReleaseCoreState s in
        (result, if result = Node_None then sn_ClearError s
          else if sn_last_error_message s = [] then s\<lparr>sn_last_error_message := NodeErrorMessage result\<rparr>
          else s))"

end
