(* ===== verification/RegisterCodec.thy ===== *)
theory RegisterCodec
  imports HeartbeatCodec
begin

text \<open>
  \<^verbatim>\<open>net/message/RegisterCodec.h\<close> and \<^verbatim>\<open>.cpp\<close>: the register request a node sends to the GM,
  with its endpoint, capability tags and load snapshot, and the two responses.
\<close>

section \<open>Messages and error codes\<close>

datatype RegisterCodecErrorCode =
    Reg_None
  | Reg_BufferTooSmall
  | Reg_LengthOverflow
  | Reg_InvalidArgument
  | Reg_InvalidProcessType
  | Reg_InvalidProcessFlags
  | Reg_InvalidNodeId
  | Reg_InvalidInnerNetworkEndpointHost
  | Reg_InvalidInnerNetworkEndpointPort
  | Reg_InvalidHeartbeatTiming
  | Reg_TooManyCapabilityTags
  | Reg_TrailingBytes

fun RegisterCodecErrorMessage :: "RegisterCodecErrorCode \<Rightarrow> string" where
  "RegisterCodecErrorMessage Reg_None = ''Success.''"
| "RegisterCodecErrorMessage Reg_BufferTooSmall =
     ''Buffer does not contain enough bytes for the requested register operation.''"
| "RegisterCodecErrorMessage Reg_LengthOverflow =
     ''Register field length exceeds the supported prefix range.''"
| "RegisterCodecErrorMessage Reg_InvalidArgument = ''Register codec output argument must not be null.''"
| "RegisterCodecErrorMessage Reg_InvalidProcessType = ''Register processType must be Gate or Game.''"
| "RegisterCodecErrorMessage Reg_InvalidProcessFlags = ''Register processFlags must be zero.''"
| "RegisterCodecErrorMessage Reg_InvalidNodeId = ''Register nodeId must not be empty.''"
| "RegisterCodecErrorMessage Reg_InvalidInnerNetworkEndpointHost =
     ''Register innerNetworkEndpoint.host must not be empty.''"
| "RegisterCodecErrorMessage Reg_InvalidInnerNetworkEndpointPort =
     ''Register innerNetworkEndpoint.port must not be zero.''"
| "RegisterCodecErrorMessage Reg_InvalidHeartbeatTiming =
     ''Register heartbeat interval must be less than timeout.''"
| "RegisterCodecErrorMessage Reg_TooManyCapabilityTags =
     ''Register capabilityTags count must not exceed 32.''"
| "RegisterCodecErrorMessage Reg_TrailingBytes = ''Register buffer must not contain trailing bytes.''"

record RegisterRequest =
  rr_process_type :: u16
  rr_process_flags :: u16
  rr_node_id :: string
  rr_pid :: u32
  rr_started_at_unix_ms :: u64
  rr_inner_network_endpoint :: Endpoint
  rr_build_version :: string
  rr_capability_tags :: "string list"
  rr_load :: LoadSnapshot

record RegisterSuccessResponse =
  rs_heartbeat_interval_ms :: u32
  rs_heartbeat_timeout_ms :: u32
  rs_server_now_unix_ms :: u64

record RegisterErrorResponse =
  re_error_code :: i32
  re_retry_after_ms :: u32

definition zero_RegisterRequest :: RegisterRequest where
  "zero_RegisterRequest = \<lparr>rr_process_type = 0, rr_process_flags = 0, rr_node_id = [], rr_pid = 0,
     rr_started_at_unix_ms = 0, rr_inner_network_endpoint = zero_Endpoint, rr_build_version = [],
     rr_capability_tags = [], rr_load = zero_LoadSnapshot\<rparr>"

definition zero_RegisterSuccessResponse :: RegisterSuccessResponse where
  "zero_RegisterSuccessResponse =
     \<lparr>rs_heartbeat_interval_ms = 0, rs_heartbeat_timeout_ms = 0, rs_server_now_unix_ms = 0\<rparr>"

definition zero_RegisterErrorResponse :: RegisterErrorResponse where
  "zero_RegisterErrorResponse = \<lparr>re_error_code = 0, re_retry_after_ms = 0\<rparr>"

definition kRegisterSuccessResponseSize :: nat where "kRegisterSuccessResponseSize = 4 + 4 + 8"
definition kRegisterErrorResponseSize :: nat where "kRegisterErrorResponseSize = 4 + 4"
definition kRegisterMaxCapabilityTagCount :: nat where "kRegisterMaxCapabilityTagCount = 32"

section \<open>Helpers\<close>

fun register_MapSerializationError :: "SerializationErrorCode \<Rightarrow> RegisterCodecErrorCode" where
  "register_MapSerializationError Ser_None = Reg_None"
| "register_MapSerializationError Ser_BufferTooSmall = Reg_BufferTooSmall"
| "register_MapSerializationError Ser_LengthOverflow = Reg_LengthOverflow"
| "register_MapSerializationError Ser_InvalidArgument = Reg_InvalidArgument"
| "register_MapSerializationError Ser_InvalidBoolValue = Reg_InvalidArgument"

lemma register_MapSerializationError_None [simp]:
  "register_MapSerializationError e = Reg_None \<longleftrightarrow> e = Ser_None"
  by (cases e) auto

lemma register_MapSerializationError_ne: "e \<noteq> Ser_None \<Longrightarrow> register_MapSerializationError e \<noteq> Reg_None"
  by simp

definition register_AddWireSize :: "nat \<Rightarrow> nat \<Rightarrow> RegisterCodecErrorCode \<times> nat" where
  "register_AddWireSize = add_wire_size Reg_None Reg_LengthOverflow"

definition register_GetString16WireSize :: "string \<Rightarrow> nat \<Rightarrow> RegisterCodecErrorCode \<times> nat" where
  "register_GetString16WireSize = string16_wire_size Reg_None Reg_LengthOverflow"

definition ValidateProcessType :: "u16 \<Rightarrow> RegisterCodecErrorCode" where
  "ValidateProcessType process_type =
     (if \<not> IsValidInnerProcessType process_type then Reg_InvalidProcessType else Reg_None)"

definition ValidateProcessFlags :: "u16 \<Rightarrow> RegisterCodecErrorCode" where
  "ValidateProcessFlags process_flags = (if process_flags \<noteq> 0 then Reg_InvalidProcessFlags else Reg_None)"

definition ValidateNodeId :: "string \<Rightarrow> RegisterCodecErrorCode" where
  "ValidateNodeId node_id = (if node_id = [] then Reg_InvalidNodeId else Reg_None)"

definition ValidateEndpoint :: "Endpoint \<Rightarrow> RegisterCodecErrorCode" where
  "ValidateEndpoint endpoint =
     (if ep_host endpoint = [] then Reg_InvalidInnerNetworkEndpointHost
      else if ep_port endpoint = 0 then Reg_InvalidInnerNetworkEndpointPort
      else Reg_None)"

definition ValidateCapabilityTagCount :: "nat \<Rightarrow> RegisterCodecErrorCode" where
  "ValidateCapabilityTagCount tag_count =
     (if tag_count > kRegisterMaxCapabilityTagCount then Reg_TooManyCapabilityTags else Reg_None)"

definition register_ValidateHeartbeatTiming :: "u32 \<Rightarrow> u32 \<Rightarrow> RegisterCodecErrorCode" where
  "register_ValidateHeartbeatTiming heartbeat_interval_ms heartbeat_timeout_ms =
     (if heartbeat_interval_ms \<ge> heartbeat_timeout_ms then Reg_InvalidHeartbeatTiming else Reg_None)"

definition ValidateRegisterRequest :: "RegisterRequest \<Rightarrow> RegisterCodecErrorCode" where
  "ValidateRegisterRequest message =
     (let process_type_result = ValidateProcessType (rr_process_type message) in
      if process_type_result \<noteq> Reg_None then process_type_result else
      let process_flags_result = ValidateProcessFlags (rr_process_flags message) in
      if process_flags_result \<noteq> Reg_None then process_flags_result else
      let node_id_result = ValidateNodeId (rr_node_id message) in
      if node_id_result \<noteq> Reg_None then node_id_result else
      let endpoint_result = ValidateEndpoint (rr_inner_network_endpoint message) in
      if endpoint_result \<noteq> Reg_None then endpoint_result else
      ValidateCapabilityTagCount (length (rr_capability_tags message)))"

definition ValidateRegisterSuccessResponse :: "RegisterSuccessResponse \<Rightarrow> RegisterCodecErrorCode" where
  "ValidateRegisterSuccessResponse message =
     register_ValidateHeartbeatTiming (rs_heartbeat_interval_ms message) (rs_heartbeat_timeout_ms message)"

text \<open>On failure the size variables keep the value they had.\<close>

definition GetEndpointWireSize :: "Endpoint \<Rightarrow> nat \<Rightarrow> RegisterCodecErrorCode \<times> nat" where
  "GetEndpointWireSize endpoint wire_size =
     (let endpoint_result = ValidateEndpoint endpoint in
      if endpoint_result \<noteq> Reg_None then (endpoint_result, wire_size)
      else case until_error Reg_None
        [add_field Reg_None Reg_LengthOverflow (register_GetString16WireSize (ep_host endpoint) 0),
         register_AddWireSize 2] 0 of
        (result, total_size) \<Rightarrow>
        if result \<noteq> Reg_None then (result, wire_size) else (Reg_None, total_size))"

definition GetCapabilityTagsWireSize :: "string list \<Rightarrow> nat \<Rightarrow> RegisterCodecErrorCode \<times> nat" where
  "GetCapabilityTagsWireSize capability_tags wire_size =
     (let count_result = ValidateCapabilityTagCount (length capability_tags) in
      if count_result \<noteq> Reg_None then (count_result, wire_size)
      else case until_error Reg_None
        (map (\<lambda>capability_tag. add_field Reg_None Reg_LengthOverflow
           (register_GetString16WireSize capability_tag 0)) capability_tags) 2 of
        (result, total_size) \<Rightarrow>
        if result \<noteq> Reg_None then (result, wire_size) else (Reg_None, total_size))"

definition EncodeEndpoint :: "Endpoint \<Rightarrow> BinaryWriter \<Rightarrow> RegisterCodecErrorCode \<times> BinaryWriter" where
  "EncodeEndpoint endpoint writer =
     (if ValidateEndpoint endpoint \<noteq> Reg_None then (ValidateEndpoint endpoint, writer)
      else checked register_MapSerializationError bw_error Reg_None
        (chain [WriteString16 (ep_host endpoint), WriteUInt16 (ep_port endpoint)]) writer)"

definition read_endpoint_fields :: "BinaryReader \<times> Endpoint \<Rightarrow> bool \<times> BinaryReader \<times> Endpoint" where
  "read_endpoint_fields = chain
     [read_into ReadString16 ep_host ep_host_update, read_into ReadUInt16 ep_port ep_port_update]"

definition DecodeEndpoint ::
    "BinaryReader \<Rightarrow> Endpoint ptr \<Rightarrow> RegisterCodecErrorCode \<times> BinaryReader \<times> Endpoint ptr" where
  "DecodeEndpoint reader endpoint =
     (if endpoint = None then (Reg_InvalidArgument, reader, endpoint)
      else case read_endpoint_fields (reader, zero_Endpoint) of (ok, reader, parsed_endpoint) \<Rightarrow>
        if \<not> ok then (register_MapSerializationError (br_error reader), reader, endpoint)
        else (Reg_None, reader, Some parsed_endpoint))"

definition register_EncodeLoadSnapshot ::
    "LoadSnapshot \<Rightarrow> BinaryWriter \<Rightarrow> RegisterCodecErrorCode \<times> BinaryWriter" where
  "register_EncodeLoadSnapshot snapshot =
     checked register_MapSerializationError bw_error Reg_None (write_load_fields snapshot)"

definition register_DecodeLoadSnapshot ::
    "BinaryReader \<Rightarrow> LoadSnapshot ptr \<Rightarrow> RegisterCodecErrorCode \<times> BinaryReader \<times> LoadSnapshot ptr" where
  "register_DecodeLoadSnapshot reader snapshot =
     (if snapshot = None then (Reg_InvalidArgument, reader, snapshot)
      else case read_load_fields (reader, zero_LoadSnapshot) of (ok, reader, parsed_snapshot) \<Rightarrow>
        if \<not> ok then (register_MapSerializationError (br_error reader), reader, snapshot)
        else (Reg_None, reader, Some parsed_snapshot))"

definition EncodeCapabilityTags ::
    "string list \<Rightarrow> BinaryWriter \<Rightarrow> RegisterCodecErrorCode \<times> BinaryWriter" where
  "EncodeCapabilityTags capability_tags writer =
     (if ValidateCapabilityTagCount (length capability_tags) \<noteq> Reg_None
      then (ValidateCapabilityTagCount (length capability_tags), writer)
      else until_error Reg_None
        (checked register_MapSerializationError bw_error Reg_None
           (WriteUInt16 (word_of_nat (length capability_tags))) #
         map (\<lambda>capability_tag. checked register_MapSerializationError bw_error Reg_None
           (WriteString16 capability_tag)) capability_tags) writer)"

text \<open>The locals of \<^verbatim>\<open>DecodeCapabilityTags\<close>: the count read and the tags parsed so far.\<close>

definition read_capability_tag ::
    "BinaryReader \<times> string \<Rightarrow> RegisterCodecErrorCode \<times> BinaryReader \<times> string" where
  "read_capability_tag = checked register_MapSerializationError (\<lambda>s. br_error (fst s)) Reg_None
     (read_into ReadString16 (\<lambda>tag. tag) (\<lambda>f. f))"

definition read_capability_tags ::
    "BinaryReader \<times> u16 \<times> string list \<Rightarrow> RegisterCodecErrorCode \<times> BinaryReader \<times> u16 \<times> string list" where
  "read_capability_tags = until_error Reg_None
     [checked register_MapSerializationError (\<lambda>s. br_error (fst s)) Reg_None
        (read_into ReadUInt16 fst apfst),
      check_message (\<lambda>m. ValidateCapabilityTagCount (unat (fst m))),
      (\<lambda>(reader, m). case read_entries Reg_None (\<lambda>r. read_capability_tag (r, [])) (unat (fst m)) (snd m) reader of
         (result, reader, tags) \<Rightarrow> (result, reader, apsnd (\<lambda>_. tags) m))]"

definition DecodeCapabilityTags ::
    "BinaryReader \<Rightarrow> string list ptr \<Rightarrow> RegisterCodecErrorCode \<times> BinaryReader \<times> string list ptr" where
  "DecodeCapabilityTags reader capability_tags =
     (if capability_tags = None then (Reg_InvalidArgument, reader, capability_tags)
      else case read_capability_tags (reader, 0, []) of (result, reader, _, parsed_capability_tags) \<Rightarrow>
        if result \<noteq> Reg_None then (result, reader, capability_tags)
        else (Reg_None, reader, Some parsed_capability_tags))"

definition register_CheckTrailingBytes :: "BinaryReader \<Rightarrow> RegisterCodecErrorCode" where
  "register_CheckTrailingBytes reader =
     (if reader_remaining reader \<noteq> 0 then Reg_TrailingBytes else Reg_None)"

section \<open>Operations\<close>

definition GetRegisterRequestWireSize :: "RegisterRequest \<Rightarrow> nat ptr \<Rightarrow> RegisterCodecErrorCode \<times> nat ptr" where
  "GetRegisterRequestWireSize message wire_size =
     (if wire_size = None then (Reg_InvalidArgument, None)
      else let validation_result = ValidateRegisterRequest message in
        if validation_result \<noteq> Reg_None then (validation_result, Some 0)
        else case until_error Reg_None
          [register_AddWireSize (2 + 2),
           add_field Reg_None Reg_LengthOverflow (register_GetString16WireSize (rr_node_id message) 0),
           register_AddWireSize 4,
           register_AddWireSize 8,
           add_field Reg_None Reg_LengthOverflow (GetEndpointWireSize (rr_inner_network_endpoint message) 0),
           add_field Reg_None Reg_LengthOverflow (register_GetString16WireSize (rr_build_version message) 0),
           add_field Reg_None Reg_LengthOverflow (GetCapabilityTagsWireSize (rr_capability_tags message) 0),
           register_AddWireSize kInnerLoadSnapshotSize] 0 of
          (result, total_size) \<Rightarrow> (result, Some total_size))"

definition write_RegisterRequest ::
    "RegisterRequest \<Rightarrow> BinaryWriter \<Rightarrow> RegisterCodecErrorCode \<times> BinaryWriter" where
  "write_RegisterRequest message = until_error Reg_None
     [checked register_MapSerializationError bw_error Reg_None (chain
        [WriteUInt16 (rr_process_type message), WriteUInt16 (rr_process_flags message),
         WriteString16 (rr_node_id message), WriteUInt32 (rr_pid message),
         WriteUInt64 (rr_started_at_unix_ms message)]),
      EncodeEndpoint (rr_inner_network_endpoint message),
      checked register_MapSerializationError bw_error Reg_None (WriteString16 (rr_build_version message)),
      EncodeCapabilityTags (rr_capability_tags message),
      register_EncodeLoadSnapshot (rr_load message)]"

definition EncodeRegisterRequest ::
    "RegisterRequest \<Rightarrow> byte list \<Rightarrow> RegisterCodecErrorCode \<times> byte list" where
  "EncodeRegisterRequest message buffer =
     (case GetRegisterRequestWireSize message (Some 0) of (wire_size_result, wire_size) \<Rightarrow>
        if wire_size_result \<noteq> Reg_None then (wire_size_result, buffer)
        else if length buffer < the wire_size then (Reg_BufferTooSmall, buffer)
        else case write_RegisterRequest message (new_BinaryWriter buffer) of
          (result, writer) \<Rightarrow> (result, bw_buffer writer))"

definition read_RegisterRequest ::
    "BinaryReader \<times> RegisterRequest \<Rightarrow> RegisterCodecErrorCode \<times> BinaryReader \<times> RegisterRequest" where
  "read_RegisterRequest = until_error Reg_None
     [checked register_MapSerializationError (\<lambda>s. br_error (fst s)) Reg_None (chain
        [read_into ReadUInt16 rr_process_type rr_process_type_update,
         read_into ReadUInt16 rr_process_flags rr_process_flags_update,
         read_into ReadString16 rr_node_id rr_node_id_update,
         read_into ReadUInt32 rr_pid rr_pid_update,
         read_into ReadUInt64 rr_started_at_unix_ms rr_started_at_unix_ms_update]),
      decode_into DecodeEndpoint rr_inner_network_endpoint rr_inner_network_endpoint_update,
      checked register_MapSerializationError (\<lambda>s. br_error (fst s)) Reg_None
        (read_into ReadString16 rr_build_version rr_build_version_update),
      decode_into DecodeCapabilityTags rr_capability_tags rr_capability_tags_update,
      decode_into register_DecodeLoadSnapshot rr_load rr_load_update,
      check_message ValidateRegisterRequest,
      check_reader register_CheckTrailingBytes]"

definition DecodeRegisterRequest ::
    "byte list \<Rightarrow> RegisterRequest ptr \<Rightarrow> RegisterCodecErrorCode \<times> RegisterRequest ptr" where
  "DecodeRegisterRequest buffer message =
     (if message = None then (Reg_InvalidArgument, None)
      else case read_RegisterRequest (new_BinaryReader buffer, zero_RegisterRequest) of
        (result, reader, parsed_message) \<Rightarrow>
        if result \<noteq> Reg_None then (result, Some zero_RegisterRequest)
        else (Reg_None, Some parsed_message))"

definition write_RegisterSuccessResponse ::
    "RegisterSuccessResponse \<Rightarrow> BinaryWriter \<Rightarrow> RegisterCodecErrorCode \<times> BinaryWriter" where
  "write_RegisterSuccessResponse message =
     checked register_MapSerializationError bw_error Reg_None (chain
       [WriteUInt32 (rs_heartbeat_interval_ms message), WriteUInt32 (rs_heartbeat_timeout_ms message),
        WriteUInt64 (rs_server_now_unix_ms message)])"

definition EncodeRegisterSuccessResponse ::
    "RegisterSuccessResponse \<Rightarrow> byte list \<Rightarrow> RegisterCodecErrorCode \<times> byte list" where
  "EncodeRegisterSuccessResponse message buffer =
     (let validation_result = ValidateRegisterSuccessResponse message in
      if validation_result \<noteq> Reg_None then (validation_result, buffer)
      else case write_RegisterSuccessResponse message (new_BinaryWriter buffer) of
        (result, writer) \<Rightarrow> (result, bw_buffer writer))"

definition read_RegisterSuccessResponse ::
    "BinaryReader \<times> RegisterSuccessResponse \<Rightarrow>
     RegisterCodecErrorCode \<times> BinaryReader \<times> RegisterSuccessResponse" where
  "read_RegisterSuccessResponse = until_error Reg_None
     [checked register_MapSerializationError (\<lambda>s. br_error (fst s)) Reg_None (chain
        [read_into ReadUInt32 rs_heartbeat_interval_ms rs_heartbeat_interval_ms_update,
         read_into ReadUInt32 rs_heartbeat_timeout_ms rs_heartbeat_timeout_ms_update,
         read_into ReadUInt64 rs_server_now_unix_ms rs_server_now_unix_ms_update]),
      check_message ValidateRegisterSuccessResponse,
      check_reader register_CheckTrailingBytes]"

definition DecodeRegisterSuccessResponse ::
    "byte list \<Rightarrow> RegisterSuccessResponse ptr \<Rightarrow>
     RegisterCodecErrorCode \<times> RegisterSuccessResponse ptr" where
  "DecodeRegisterSuccessResponse buffer message =
     (if message = None then (Reg_InvalidArgument, None)
      else case read_RegisterSuccessResponse (new_BinaryReader buffer, zero_RegisterSuccessResponse) of
        (result, reader, parsed_message) \<Rightarrow>
        if result \<noteq> Reg_None then (result, Some zero_RegisterSuccessResponse)
        else (Reg_None, Some parsed_message))"

definition write_RegisterErrorResponse ::
    "RegisterErrorResponse \<Rightarrow> BinaryWriter \<Rightarrow> RegisterCodecErrorCode \<times> BinaryWriter" where
  "write_RegisterErrorResponse message =
     checked register_MapSerializationError bw_error Reg_None (chain
       [WriteInt32 (re_error_code message), WriteUInt32 (re_retry_after_ms message)])"

definition EncodeRegisterErrorResponse ::
    "RegisterErrorResponse \<Rightarrow> byte list \<Rightarrow> RegisterCodecErrorCode \<times> byte list" where
  "EncodeRegisterErrorResponse message buffer =
     (case write_RegisterErrorResponse message (new_BinaryWriter buffer) of
        (result, writer) \<Rightarrow> (result, bw_buffer writer))"

definition read_RegisterErrorResponse ::
    "BinaryReader \<times> RegisterErrorResponse \<Rightarrow>
     RegisterCodecErrorCode \<times> BinaryReader \<times> RegisterErrorResponse" where
  "read_RegisterErrorResponse = until_error Reg_None
     [checked register_MapSerializationError (\<lambda>s. br_error (fst s)) Reg_None (chain
        [read_into ReadInt32 re_error_code re_error_code_update,
         read_into ReadUInt32 re_retry_after_ms re_retry_after_ms_update]),
      check_reader register_CheckTrailingBytes]"

definition DecodeRegisterErrorResponse ::
    "byte list \<Rightarrow> RegisterErrorResponse ptr \<Rightarrow> RegisterCodecErrorCode \<times> RegisterErrorResponse ptr" where
  "DecodeRegisterErrorResponse buffer message =
     (if message = None then (Reg_InvalidArgument, None)
      else case read_RegisterErrorResponse (new_BinaryReader buffer, zero_RegisterErrorResponse) of
        (result, reader, parsed_message) \<Rightarrow>
        if result \<noteq> Reg_None then (result, Some zero_RegisterErrorResponse)
        else (Reg_None, Some parsed_message))"

section \<open>Wire formats\<close>

definition wire_Endpoint :: "Endpoint \<Rightarrow> byte list" where
  "wire_Endpoint e = enc_str16 (ep_host e) @ enc_u16 (ep_port e)"

definition wire_tags :: "string list \<Rightarrow> byte list" where
  "wire_tags ts = enc_u16 (word_of_nat (length ts)) @ concat (map enc_str16 ts)"

definition wire_RegisterRequest :: "RegisterRequest \<Rightarrow> byte list" where
  "wire_RegisterRequest m =
     (enc_u16 (rr_process_type m) @ enc_u16 (rr_process_flags m) @ enc_str16 (rr_node_id m) @
      enc_u32 (rr_pid m) @ enc_u64 (rr_started_at_unix_ms m)) @
     wire_Endpoint (rr_inner_network_endpoint m) @ enc_str16 (rr_build_version m) @
     wire_tags (rr_capability_tags m) @ wire_load (rr_load m)"

text \<open>The register requests the protocol admits.\<close>

definition valid_RegisterRequest :: "RegisterRequest \<Rightarrow> bool" where
  "valid_RegisterRequest m \<longleftrightarrow>
     (rr_process_type m = 1 \<or> rr_process_type m = 2) \<and> rr_process_flags m = 0 \<and>
     rr_node_id m \<noteq> [] \<and> ep_host (rr_inner_network_endpoint m) \<noteq> [] \<and>
     ep_port (rr_inner_network_endpoint m) \<noteq> 0 \<and> length (rr_capability_tags m) \<le> 32 \<and>
     fits16 (rr_node_id m) \<and> fits16 (ep_host (rr_inner_network_endpoint m)) \<and>
     fits16 (rr_build_version m) \<and> (\<forall>tag\<in>set (rr_capability_tags m). fits16 tag)"

definition wire_RegisterSuccessResponse :: "RegisterSuccessResponse \<Rightarrow> byte list" where
  "wire_RegisterSuccessResponse m = enc_u32 (rs_heartbeat_interval_ms m) @
     enc_u32 (rs_heartbeat_timeout_ms m) @ enc_u64 (rs_server_now_unix_ms m)"

definition valid_RegisterSuccessResponse :: "RegisterSuccessResponse \<Rightarrow> bool" where
  "valid_RegisterSuccessResponse m \<longleftrightarrow> rs_heartbeat_interval_ms m < rs_heartbeat_timeout_ms m"

definition wire_RegisterErrorResponse :: "RegisterErrorResponse \<Rightarrow> byte list" where
  "wire_RegisterErrorResponse m = enc_u32 (re_error_code m) @ enc_u32 (re_retry_after_ms m)"

section \<open>The size computation\<close>

lemma Validate_None:
  "ValidateProcessType pt = Reg_None \<longleftrightarrow> pt = 1 \<or> pt = 2"
  "ValidateProcessFlags pf = Reg_None \<longleftrightarrow> pf = 0"
  "ValidateNodeId n = Reg_None \<longleftrightarrow> n \<noteq> []"
  "ValidateEndpoint e = Reg_None \<longleftrightarrow> ep_host e \<noteq> [] \<and> ep_port e \<noteq> 0"
  "ValidateCapabilityTagCount c = Reg_None \<longleftrightarrow> c \<le> 32"
  by (auto simp: ValidateProcessType_def IsValidInnerProcessType_def ValidateProcessFlags_def
      ValidateNodeId_def ValidateEndpoint_def ValidateCapabilityTagCount_def kRegisterMaxCapabilityTagCount_def)

lemma ValidateRegisterRequest_None:
  "ValidateRegisterRequest m = Reg_None \<longleftrightarrow>
     (rr_process_type m = 1 \<or> rr_process_type m = 2) \<and> rr_process_flags m = 0 \<and> rr_node_id m \<noteq> [] \<and>
     ep_host (rr_inner_network_endpoint m) \<noteq> [] \<and> ep_port (rr_inner_network_endpoint m) \<noteq> 0 \<and>
     length (rr_capability_tags m) \<le> 32"
  by (auto simp: ValidateRegisterRequest_def Let_def Validate_None)

lemma valid_RegisterRequest_iff:
  "valid_RegisterRequest m \<longleftrightarrow>
     ValidateRegisterRequest m = Reg_None \<and> fits16 (rr_node_id m) \<and>
     fits16 (ep_host (rr_inner_network_endpoint m)) \<and> fits16 (rr_build_version m) \<and>
     (\<forall>tag\<in>set (rr_capability_tags m). fits16 tag)"
  unfolding valid_RegisterRequest_def ValidateRegisterRequest_None by blast

text \<open>Thirty-two tags of at most 65535 bytes cannot overflow a \<^verbatim>\<open>std::size_t\<close>.\<close>

lemma tags_size_le:
  "\<forall>tag\<in>set ts. fits16 tag \<Longrightarrow> sum_list (map (\<lambda>tag. 2 + length tag) ts) \<le> length ts * 65537"
  by (induction ts) (auto simp: fits16_def)

lemma length_wire_tags: "length (wire_tags ts) = 2 + sum_list (map (\<lambda>tag. 2 + length tag) ts)"
  by (simp add: wire_tags_def length_concat comp_def enc_str16_def enc_bytes16_def)

lemma sizes_tags: "sizes Reg_None (until_error Reg_None (map (\<lambda>tag. add_field Reg_None Reg_LengthOverflow
      (register_GetString16WireSize tag 0)) ts)) (sum_list (map (\<lambda>tag. 2 + length tag) ts)) (\<forall>tag\<in>set ts. fits16 tag)"
proof -
  have string: "sizes Reg_None (add_field Reg_None Reg_LengthOverflow (register_GetString16WireSize tag 0))
      (2 + length tag) (fits16 tag)" for tag
    unfolding register_GetString16WireSize_def by (rule sizes_string) simp
  have "sizes Reg_None (until_error Reg_None (map (\<lambda>tag. add_field Reg_None Reg_LengthOverflow
      (register_GetString16WireSize tag 0)) ts @ [])) (sum_list (map (\<lambda>tag. 2 + length tag) ts) + 0)
      ((\<forall>tag\<in>set ts. fits16 tag) \<and> True)"
    by (rule sizes_loop [OF string sizes_Nil])
  then show ?thesis by (simp del: until_error.simps)
qed

lemma GetCapabilityTagsWireSize_value:
  assumes "length ts \<le> 32"
  shows "fst (GetCapabilityTagsWireSize ts x) = Reg_None \<longleftrightarrow> (\<forall>tag\<in>set ts. fits16 tag)"
    and "\<forall>tag\<in>set ts. fits16 tag \<Longrightarrow> snd (GetCapabilityTagsWireSize ts x) = length (wire_tags ts)"
proof -
  have le: "2 + sum_list (map (\<lambda>tag. 2 + length tag) ts) \<le> size_max" if "\<forall>tag\<in>set ts. fits16 tag"
    using tags_size_le [OF that] assms by (simp add: size_max_def)
  have 2: "2 \<le> size_max" by (simp add: size_max_def)
  show "fst (GetCapabilityTagsWireSize ts x) = Reg_None \<longleftrightarrow> (\<forall>tag\<in>set ts. fits16 tag)"
    using sizes_none_iff [OF sizes_tags 2, of ts] le assms unfolding GetCapabilityTagsWireSize_def Let_def
    by (auto simp: Validate_None split_beta)
  assume fits: "\<forall>tag\<in>set ts. fits16 tag"
  show "snd (GetCapabilityTagsWireSize ts x) = length (wire_tags ts)"
    using sizesD [OF sizes_tags fits le [OF fits]] assms
    unfolding GetCapabilityTagsWireSize_def Let_def length_wire_tags by (simp add: Validate_None)
qed

lemma sizes_GetEndpoint:
  assumes "ValidateEndpoint e = Reg_None"
  shows "fst (GetEndpointWireSize e x) = Reg_None \<longleftrightarrow> fits16 (ep_host e)"
    and "fits16 (ep_host e) \<Longrightarrow> snd (GetEndpointWireSize e x) = length (wire_Endpoint e)"
  using assms
  by (auto simp: GetEndpointWireSize_def Let_def register_GetString16WireSize_def register_AddWireSize_def
      add_field_def add_wire_size_def string16_wire_size_def fits16_def wire_Endpoint_def enc_str16_def
      enc_bytes16_def size_max_def)

text \<open>The phases of the size computation, and their sum.\<close>

lemma sizes_RegisterRequest:
  assumes "ValidateRegisterRequest m = Reg_None"
  shows "sizes Reg_None (until_error Reg_None
      [register_AddWireSize (2 + 2),
       add_field Reg_None Reg_LengthOverflow (register_GetString16WireSize (rr_node_id m) 0),
       register_AddWireSize 4,
       register_AddWireSize 8,
       add_field Reg_None Reg_LengthOverflow (GetEndpointWireSize (rr_inner_network_endpoint m) 0),
       add_field Reg_None Reg_LengthOverflow (register_GetString16WireSize (rr_build_version m) 0),
       add_field Reg_None Reg_LengthOverflow (GetCapabilityTagsWireSize (rr_capability_tags m) 0),
       register_AddWireSize kInnerLoadSnapshotSize])
    (length (wire_RegisterRequest m)) (valid_RegisterRequest m)"
proof -
  have endpoint: "sizes Reg_None (add_field Reg_None Reg_LengthOverflow (GetEndpointWireSize (rr_inner_network_endpoint m) 0))
      (length (wire_Endpoint (rr_inner_network_endpoint m))) (fits16 (ep_host (rr_inner_network_endpoint m)))"
    using assms by (intro sizes_field sizes_GetEndpoint) (simp_all add: ValidateRegisterRequest_None Validate_None)
  have tags: "sizes Reg_None (add_field Reg_None Reg_LengthOverflow (GetCapabilityTagsWireSize (rr_capability_tags m) 0))
      (length (wire_tags (rr_capability_tags m))) (\<forall>tag\<in>set (rr_capability_tags m). fits16 tag)"
    using assms by (intro sizes_field GetCapabilityTagsWireSize_value) (simp_all add: ValidateRegisterRequest_None)
  show ?thesis
    unfolding register_AddWireSize_def register_GetString16WireSize_def
    by (rule sizes_cong, (rule endpoint tags sizes_intros | simp; fail)+)
      (use assms in \<open>auto simp: wire_RegisterRequest_def valid_RegisterRequest_iff\<close>)
qed

lemma length_wire_RegisterRequest_le:
  assumes "valid_RegisterRequest m"
  shows "length (wire_RegisterRequest m) \<le> size_max"
proof -
  have "length (rr_capability_tags m) \<le> 32" "length (rr_node_id m) \<le> 65535" "length (rr_build_version m) \<le> 65535"
    "length (ep_host (rr_inner_network_endpoint m)) \<le> 65535"
    "sum_list (map (\<lambda>tag. 2 + length tag) (rr_capability_tags m)) \<le> length (rr_capability_tags m) * 65537"
    using assms tags_size_le by (auto simp: valid_RegisterRequest_def fits16_def)
  then show ?thesis
    by (simp add: wire_RegisterRequest_def length_wire_tags wire_Endpoint_def size_max_def kInnerLoadSnapshotSize_def)
qed

lemma GetRegisterRequestWireSize_value:
  "fst (GetRegisterRequestWireSize m (Some x)) = Reg_None \<longleftrightarrow> valid_RegisterRequest m"
  "valid_RegisterRequest m \<Longrightarrow>
     GetRegisterRequestWireSize m (Some x) = (Reg_None, Some (length (wire_RegisterRequest m)))"
proof -
  show "valid_RegisterRequest m \<Longrightarrow>
     GetRegisterRequestWireSize m (Some x) = (Reg_None, Some (length (wire_RegisterRequest m)))"
    using sizesD [OF sizes_RegisterRequest, of m 0] length_wire_RegisterRequest_le [of m]
    unfolding GetRegisterRequestWireSize_def Let_def valid_RegisterRequest_iff by simp
  then show "fst (GetRegisterRequestWireSize m (Some x)) = Reg_None \<longleftrightarrow> valid_RegisterRequest m"
    using sizes_none_iff [OF sizes_RegisterRequest, of m 0]
    unfolding GetRegisterRequestWireSize_def Let_def
    by (auto simp: split_beta valid_RegisterRequest_iff simp del: until_error.simps)
qed

section \<open>The register codecs implement their contract\<close>

lemma register_CheckTrailingBytes_None:
  "register_CheckTrailingBytes r = Reg_None \<longleftrightarrow> reader_remaining r = 0"
  by (simp add: register_CheckTrailingBytes_def)

lemma ValidateRegisterSuccessResponse_None:
  "ValidateRegisterSuccessResponse m = Reg_None \<longleftrightarrow> valid_RegisterSuccessResponse m"
  by (auto simp: ValidateRegisterSuccessResponse_def register_ValidateHeartbeatTiming_def
      valid_RegisterSuccessResponse_def)

lemma encodes_Endpoint:
  "encodes Reg_None (EncodeEndpoint e) (wire_Endpoint e) (ValidateEndpoint e = Reg_None \<and> fits16 (ep_host e))"
  unfolding EncodeEndpoint_def [abs_def] wire_Endpoint_def
  by (rule encodes_cong, rule encodes_guard, (rule encodes_intros writes_intros | simp; fail)+)

lemma encodes_CapabilityTags:
  "encodes Reg_None (EncodeCapabilityTags ts) (wire_tags ts) (length ts \<le> 32 \<and> (\<forall>tag\<in>set ts. fits16 tag))"
proof -
  have tag: "encodes Reg_None (checked register_MapSerializationError bw_error Reg_None (WriteString16 tag))
      (enc_str16 tag) (fits16 tag)" for tag
    by (rule encodes_intros writes_intros | simp; fail)+
  have count: "encodes Reg_None (checked register_MapSerializationError bw_error Reg_None
      (WriteUInt16 (word_of_nat (length ts)))) (enc_u16 (word_of_nat (length ts))) True"
    by (rule encodes_intros writes_intros | simp; fail)+
  show ?thesis
    unfolding EncodeCapabilityTags_def [abs_def] wire_tags_def
    by (rule encodes_cong [OF encodes_guard [OF encodes_loop_end [OF tag count]]])
      (simp_all add: Validate_None)
qed

lemma encodes_RegisterRequest:
  "encodes Reg_None (write_RegisterRequest m) (wire_RegisterRequest m)
     (fits16 (rr_node_id m) \<and> (ValidateEndpoint (rr_inner_network_endpoint m) = Reg_None \<and>
      fits16 (ep_host (rr_inner_network_endpoint m))) \<and> fits16 (rr_build_version m) \<and>
      length (rr_capability_tags m) \<le> 32 \<and> (\<forall>tag\<in>set (rr_capability_tags m). fits16 tag))"
  unfolding write_RegisterRequest_def wire_RegisterRequest_def register_EncodeLoadSnapshot_def
  by (rule encodes_cong,
      (rule encodes_Endpoint encodes_CapabilityTags encodes_intros writes_intros | simp; fail)+)

lemma reads_endpoint: "reads read_endpoint_fields (\<lambda>m bs m'. bs = wire_Endpoint m' \<and> fits16 (ep_host m'))"
  unfolding read_endpoint_fields_def
proof (rule reads_cong, (rule reads_intros)+, rule iffI, goal_cases)
  case (1 m bs m')
  then show ?case by (cases m) (auto simp: wire_Endpoint_def)
next
  case (2 m bs m')
  then have v: "fits16 (ep_host m')" and bs: "bs = wire_Endpoint m'" by simp_all
  show ?case unfolding bs wire_Endpoint_def
    by (intro exI conjI, (rule refl TrueI v)+) (cases m; cases m'; simp)+
qed

lemma wire_tags_count:
  "unat (n :: u16) = length ts \<Longrightarrow> enc_u16 n @ concat (map enc_str16 ts) = wire_tags ts"
  unfolding wire_tags_def by (metis word_unat_eq_iff unat_word_of_nat_u16 unat_u16_le)

lemma decodes_CapabilityTags:
  "decodes Reg_None (decode_into DecodeCapabilityTags sel upd)
     (\<lambda>m bs m'. \<exists>ts. (bs = wire_tags ts \<and> length ts \<le> 32 \<and> (\<forall>tag\<in>set ts. fits16 tag)) \<and> m' = upd (\<lambda>_. ts) m)"
proof -
  have tag: "decodes Reg_None read_capability_tag (\<lambda>m bs m'. fits16 m' \<and> bs = enc_str16 m')"
    unfolding read_capability_tag_def
    by (rule decodes_cong, (rule decodes_intros reads_intros | simp; fail)+) auto
  have loop: "decodes Reg_None (\<lambda>(reader, m). case read_entries Reg_None (\<lambda>r. read_capability_tag (r, []))
        (unat (fst m)) (snd m) reader of (result, reader, tags) \<Rightarrow> (result, reader, apsnd (\<lambda>_. tags) m))
      (\<lambda>m bs m'. \<exists>vs. bs = concat (map enc_str16 vs) \<and> m' = apsnd (\<lambda>_. snd m @ vs) m \<and>
        length vs = unat (fst m) \<and> (\<forall>v\<in>set vs. fits16 v))"
    by (rule decodes_entries [OF tag]) auto
  have all: "decodes Reg_None read_capability_tags (\<lambda>m bs m'. \<exists>n ts. bs = enc_u16 n @ concat (map enc_str16 ts) \<and>
      length ts = unat n \<and> unat n \<le> 32 \<and> (\<forall>v\<in>set ts. fits16 v) \<and> m' = (n, snd m @ ts))"
    unfolding read_capability_tags_def
    by (rule decodes_cong, (rule loop decodes_intros reads_intros | simp; fail)+)
      (auto simp: Validate_None apsnd_def map_prod_def split: prod.splits)
  have into: "decodes Reg_None (decode_into DecodeCapabilityTags sel upd)
      (\<lambda>m bs m'. \<exists>l. (\<exists>n ts. bs = enc_u16 n @ concat (map enc_str16 ts) \<and> length ts = unat n \<and> unat n \<le> 32 \<and>
        (\<forall>v\<in>set ts. fits16 v) \<and> l = (n, snd (0 :: u16, []) @ ts)) \<and> m' = upd (\<lambda>_. snd l) m)"
    by (rule decodes_into [OF all]) (auto simp: DecodeCapabilityTags_def split: prod.splits)
  show ?thesis
  proof (rule decodes_cong [OF into], rule iffI, goal_cases)
    case (1 m bs m')
    then obtain n :: u16 and ts where "bs = enc_u16 n @ concat (map enc_str16 ts)" "unat n = length ts"
      "length ts \<le> 32" "\<forall>v\<in>set ts. fits16 v" "m' = upd (\<lambda>_. ts) m" by auto
    then show ?case using wire_tags_count by blast
  next
    case (2 m bs m')
    then obtain ts where "bs = wire_tags ts" "length ts \<le> 32" "\<forall>v\<in>set ts. fits16 v" "m' = upd (\<lambda>_. ts) m" by blast
    then have "bs = enc_u16 (word_of_nat (length ts)) @ concat (map enc_str16 ts) \<and>
        length ts = unat (word_of_nat (length ts) :: u16) \<and> unat (word_of_nat (length ts) :: u16) \<le> 32 \<and>
        (\<forall>v\<in>set ts. fits16 v) \<and> (word_of_nat (length ts) :: u16, ts) = (word_of_nat (length ts), snd (0 :: u16, []) @ ts) \<and>
        m' = upd (\<lambda>_. snd (word_of_nat (length ts) :: u16, ts)) m"
      by (simp add: wire_tags_def unat_word_of_nat_u16)
    then show ?case by blast
  qed
qed

lemma decodes_RegisterRequest:
  "decodes_message Reg_None read_RegisterRequest zero_RegisterRequest
     (\<lambda>bs m. valid_RegisterRequest m \<and> bs = wire_RegisterRequest m)"
proof -
  have load: "decodes Reg_None (decode_into register_DecodeLoadSnapshot rr_load rr_load_update)
      (\<lambda>m bs m'. \<exists>l. bs = wire_load l \<and> m' = m\<lparr>rr_load := l\<rparr>)"
    by (rule decodes_into_reads [OF reads_load]) (simp_all add: register_DecodeLoadSnapshot_def)
  have endpoint: "decodes Reg_None (decode_into DecodeEndpoint rr_inner_network_endpoint rr_inner_network_endpoint_update)
      (\<lambda>m bs m'. \<exists>e. (bs = wire_Endpoint e \<and> fits16 (ep_host e)) \<and> m' = m\<lparr>rr_inner_network_endpoint := e\<rparr>)"
    by (rule decodes_into_reads [OF reads_endpoint]) (simp_all add: DecodeEndpoint_def)
  have tail: "ends Reg_None (until_error Reg_None
      [check_message ValidateRegisterRequest, check_reader register_CheckTrailingBytes])
      (\<lambda>m. ValidateRegisterRequest m = Reg_None \<and> True)"
    by (intro ends_check ends_trailing register_CheckTrailingBytes_None)
  show ?thesis
    unfolding read_RegisterRequest_def
  proof (rule decodes_messageI,
      (rule decodes_all_last [OF _ tail] load endpoint decodes_CapabilityTags
        decodes_intros reads_intros register_MapSerializationError_ne | assumption)+,
      rule iffI, goal_cases)
    case (1 bs m)
    then show ?case
      by (elim exE conjE, hypsubst)
        (simp add: zero_RegisterRequest_def wire_RegisterRequest_def valid_RegisterRequest_iff)
  next
    case (2 bs m)
    then have v: "ValidateRegisterRequest m = Reg_None" "fits16 (rr_node_id m)"
      "fits16 (ep_host (rr_inner_network_endpoint m))" "fits16 (rr_build_version m)"
      "\<forall>tag\<in>set (rr_capability_tags m). fits16 tag" "length (rr_capability_tags m) \<le> 32"
      and bs: "bs = wire_RegisterRequest m"
      by (simp_all add: valid_RegisterRequest_iff ValidateRegisterRequest_None)
    show ?case unfolding bs wire_RegisterRequest_def
      by (intro exI conjI, (rule refl TrueI v)+) (rule TrueI v | simp add: zero_RegisterRequest_def)+
  qed
qed

interpretation register_request: strict_message_codec
  EncodeRegisterRequest DecodeRegisterRequest wire_RegisterRequest valid_RegisterRequest
  Reg_None Reg_InvalidArgument zero_RegisterRequest
proof (rule strict_codec_of_phases [OF _ _ encodes_RegisterRequest decodes_RegisterRequest,
      where pre = "\<lambda>m buf. case GetRegisterRequestWireSize m (Some 0) of (e, n) \<Rightarrow>
        if e \<noteq> Reg_None then e else if length buf < the n then Reg_BufferTooSmall else Reg_None"], goal_cases)
  case (1 m buf)
  show ?case by (simp add: EncodeRegisterRequest_def encode_with_def split: prod.splits)
next
  case (2 buf p)
  show ?case by (simp add: DecodeRegisterRequest_def decode_with_def)
next
  case (3 m buf)
  then show ?case by (simp add: GetRegisterRequestWireSize_value)
next
  case (4 m)
  then show ?case by (simp add: valid_RegisterRequest_def Validate_None)
next
  case (5 m buf)
  then have "fst (GetRegisterRequestWireSize m (Some 0)) = Reg_None" by (auto split: prod.splits if_splits)
  then show ?case by (simp add: GetRegisterRequestWireSize_value)
qed

lemma encodes_RegisterSuccessResponse:
  "encodes Reg_None (write_RegisterSuccessResponse m) (wire_RegisterSuccessResponse m) True"
  unfolding write_RegisterSuccessResponse_def wire_RegisterSuccessResponse_def
  by (rule encodes_cong, (rule encodes_intros writes_intros | simp; fail)+)

lemma decodes_RegisterSuccessResponse:
  "decodes_message Reg_None read_RegisterSuccessResponse zero_RegisterSuccessResponse
     (\<lambda>bs m. valid_RegisterSuccessResponse m \<and> bs = wire_RegisterSuccessResponse m)"
proof -
  have tail: "ends Reg_None (until_error Reg_None
      [check_message ValidateRegisterSuccessResponse, check_reader register_CheckTrailingBytes])
      (\<lambda>m. ValidateRegisterSuccessResponse m = Reg_None \<and> True)"
    by (intro ends_check ends_trailing register_CheckTrailingBytes_None)
  show ?thesis
    unfolding read_RegisterSuccessResponse_def
  proof (rule decodes_messageI,
      (rule decodes_all_last [OF _ tail] decodes_intros reads_intros register_MapSerializationError_ne | assumption)+,
      rule iffI, goal_cases)
    case (1 bs m)
    then show ?case
      by (elim exE conjE, hypsubst)
        (simp add: zero_RegisterSuccessResponse_def wire_RegisterSuccessResponse_def
          ValidateRegisterSuccessResponse_None)
  next
    case (2 bs m)
    then have v: "ValidateRegisterSuccessResponse m = Reg_None" and bs: "bs = wire_RegisterSuccessResponse m"
      by (simp_all add: ValidateRegisterSuccessResponse_None)
    show ?case unfolding bs wire_RegisterSuccessResponse_def
      by (intro exI conjI, (rule refl TrueI v)+) (rule TrueI v | simp add: zero_RegisterSuccessResponse_def)+
  qed
qed

interpretation register_success: strict_message_codec
  EncodeRegisterSuccessResponse DecodeRegisterSuccessResponse wire_RegisterSuccessResponse
  valid_RegisterSuccessResponse Reg_None Reg_InvalidArgument zero_RegisterSuccessResponse
  by (rule strict_codec_of_phases [OF _ _ encodes_RegisterSuccessResponse decodes_RegisterSuccessResponse,
        where pre = "\<lambda>m _. ValidateRegisterSuccessResponse m"])
    (simp_all add: EncodeRegisterSuccessResponse_def DecodeRegisterSuccessResponse_def encode_with_def
      decode_with_def ValidateRegisterSuccessResponse_None Let_def)

lemma encodes_RegisterErrorResponse:
  "encodes Reg_None (write_RegisterErrorResponse m) (wire_RegisterErrorResponse m) True"
  unfolding write_RegisterErrorResponse_def wire_RegisterErrorResponse_def
  by (rule encodes_cong, (rule encodes_intros writes_intros | simp; fail)+)

lemma decodes_RegisterErrorResponse:
  "decodes_message Reg_None read_RegisterErrorResponse zero_RegisterErrorResponse
     (\<lambda>bs m. True \<and> bs = wire_RegisterErrorResponse m)"
proof -
  have tail: "ends Reg_None (until_error Reg_None [check_reader register_CheckTrailingBytes]) (\<lambda>_. True)"
    by (intro ends_trailing register_CheckTrailingBytes_None)
  show ?thesis
    unfolding read_RegisterErrorResponse_def
  proof (rule decodes_messageI,
      (rule decodes_all_last [OF _ tail] decodes_intros reads_intros register_MapSerializationError_ne | assumption)+,
      rule iffI, goal_cases)
    case (1 bs m)
    then show ?case
      by (elim exE conjE, hypsubst) (simp add: zero_RegisterErrorResponse_def wire_RegisterErrorResponse_def)
  next
    case (2 bs m)
    then have bs: "bs = wire_RegisterErrorResponse m" by simp
    show ?case unfolding bs wire_RegisterErrorResponse_def
      by (intro exI conjI, (rule refl TrueI)+) (rule TrueI | simp add: zero_RegisterErrorResponse_def)+
  qed
qed

interpretation register_error: strict_message_codec
  EncodeRegisterErrorResponse DecodeRegisterErrorResponse wire_RegisterErrorResponse
  "\<lambda>_. True" Reg_None Reg_InvalidArgument zero_RegisterErrorResponse
  by (rule strict_codec_of_phases [OF _ _ encodes_RegisterErrorResponse decodes_RegisterErrorResponse,
        where pre = "\<lambda>m _. Reg_None"])
    (simp_all add: EncodeRegisterErrorResponse_def DecodeRegisterErrorResponse_def encode_with_def decode_with_def)

section \<open>Properties\<close>

text \<open>
  C22. The register codec is an exact inverse: a buffer decodes to a register request exactly when
  the computed wire size of that request is the size of the buffer and encoding the request over
  the buffer succeeds without changing a byte.
\<close>

theorem register_decode_iff_encode:
  "DecodeRegisterRequest buffer (Some x) = (Reg_None, Some request) \<longleftrightarrow>
     GetRegisterRequestWireSize request (Some 0) = (Reg_None, Some (length buffer)) \<and>
     EncodeRegisterRequest request buffer = (Reg_None, buffer)"
proof
  assume *: "DecodeRegisterRequest buffer (Some x) = (Reg_None, Some request)"
  from register_request.decode_valid [OF this]
  show "GetRegisterRequestWireSize request (Some 0) = (Reg_None, Some (length buffer)) \<and>
     EncodeRegisterRequest request buffer = (Reg_None, buffer)"
    using * register_request.decode_encode_iff [of buffer x request] by (simp add: GetRegisterRequestWireSize_value)
next
  assume *: "GetRegisterRequestWireSize request (Some 0) = (Reg_None, Some (length buffer)) \<and>
     EncodeRegisterRequest request buffer = (Reg_None, buffer)"
  then have "valid_RegisterRequest request" using GetRegisterRequestWireSize_value(1) [of request 0] by simp
  with * show "DecodeRegisterRequest buffer (Some x) = (Reg_None, Some request)"
    using GetRegisterRequestWireSize_value(2) [of request 0]
    by (simp add: register_request.decode_encode_iff)
qed

text \<open>
  The computed size of a register request is never too small and never overflows: the
  encoder succeeds exactly when the size computation does and the buffer is at least that large,
  and it never changes the length of the buffer.
\<close>

theorem register_wire_size_sufficient:
  "(fst (EncodeRegisterRequest request buffer) = Reg_None \<longleftrightarrow>
      fst (GetRegisterRequestWireSize request (Some 0)) = Reg_None \<and>
      the (snd (GetRegisterRequestWireSize request (Some 0))) \<le> length buffer) \<and>
   length (snd (EncodeRegisterRequest request buffer)) = length buffer"
  using register_request.encode_none_iff [of request buffer] register_request.encode_frame [of request buffer]
    GetRegisterRequestWireSize_value [of request 0] by auto

text \<open>
  The register responses are exact inverses as well; a success response is accepted only
  with a heartbeat interval below the timeout.
\<close>

theorem register_response_decode_iff_encode:
  "(DecodeRegisterSuccessResponse buffer (Some x) = (Reg_None, Some success) \<longleftrightarrow>
      length buffer = kRegisterSuccessResponseSize \<and>
      rs_heartbeat_interval_ms success < rs_heartbeat_timeout_ms success \<and>
      EncodeRegisterSuccessResponse success buffer = (Reg_None, buffer)) \<and>
   (DecodeRegisterErrorResponse buffer (Some y) = (Reg_None, Some failure) \<longleftrightarrow>
      length buffer = kRegisterErrorResponseSize \<and> EncodeRegisterErrorResponse failure buffer = (Reg_None, buffer))"
  using register_success.decode_encode_iff [of buffer x success] register_error.decode_encode_iff [of buffer y failure]
    register_success.decode_valid [of buffer x success]
  by (auto simp: wire_RegisterSuccessResponse_def wire_RegisterErrorResponse_def kRegisterSuccessResponseSize_def
      kRegisterErrorResponseSize_def valid_RegisterSuccessResponse_def)

end
