(* ===== verification/InnerClusterCodec.thy ===== *)
theory InnerClusterCodec
  imports Codec
begin

text \<open>
  \<^verbatim>\<open>net/message/InnerClusterCodec.h\<close> and \<^verbatim>\<open>.cpp\<close>: the five cluster messages between the
  GM and the game nodes. Two of them carry a counted list of entries. The number of entries is
  written as \<^verbatim>\<open>static_cast<std::uint32_t>(size())\<close>, so their codecs implement the contract
  only for lists of fewer than \<open>2 ^ 32\<close> entries.
\<close>

section \<open>Messages and error codes\<close>

datatype InnerClusterCodecErrorCode =
    Icl_None
  | Icl_BufferTooSmall
  | Icl_InvalidBoolValue
  | Icl_InvalidArgument
  | Icl_InvalidReadyStatusFlags
  | Icl_TrailingBytes
  | Icl_InvalidNodesOnlineStatusFlags
  | Icl_LengthOverflow
  | Icl_InvalidMeshReadyStatusFlags
  | Icl_InvalidOwnershipStatusFlags
  | Icl_InvalidOwnershipEntryFlags
  | Icl_InvalidServiceReadyStatusFlags
  | Icl_InvalidServiceReadyEntryFlags

fun InnerClusterCodecErrorMessage :: "InnerClusterCodecErrorCode \<Rightarrow> string" where
  "InnerClusterCodecErrorMessage Icl_None = ''Success.''"
| "InnerClusterCodecErrorMessage Icl_BufferTooSmall =
     ''Buffer does not contain enough bytes for the requested inner-cluster operation.''"
| "InnerClusterCodecErrorMessage Icl_InvalidBoolValue =
     ''Inner-cluster bool field must be encoded as 0 or 1.''"
| "InnerClusterCodecErrorMessage Icl_InvalidArgument =
     ''Inner-cluster codec output argument must not be null.''"
| "InnerClusterCodecErrorMessage Icl_InvalidReadyStatusFlags =
     ''ClusterReadyNotify statusFlags must be zero.''"
| "InnerClusterCodecErrorMessage Icl_TrailingBytes =
     ''Inner-cluster buffer must not contain trailing bytes.''"
| "InnerClusterCodecErrorMessage Icl_InvalidNodesOnlineStatusFlags =
     ''ClusterNodesOnlineNotify statusFlags must be zero.''"
| "InnerClusterCodecErrorMessage Icl_LengthOverflow =
     ''Inner-cluster message length exceeds the supported range.''"
| "InnerClusterCodecErrorMessage Icl_InvalidMeshReadyStatusFlags =
     ''GameGateMeshReadyReport statusFlags must be zero.''"
| "InnerClusterCodecErrorMessage Icl_InvalidOwnershipStatusFlags =
     ''ServerStubOwnershipSync statusFlags must be zero.''"
| "InnerClusterCodecErrorMessage Icl_InvalidOwnershipEntryFlags =
     ''ServerStubOwnershipEntry entryFlags must be zero.''"
| "InnerClusterCodecErrorMessage Icl_InvalidServiceReadyStatusFlags =
     ''GameServiceReadyReport statusFlags must be zero.''"
| "InnerClusterCodecErrorMessage Icl_InvalidServiceReadyEntryFlags =
     ''ServerStubReadyEntry entryFlags must be zero.''"

record ClusterNodesOnlineNotify =
  no_all_nodes_online :: bool
  no_status_flags :: u32
  no_server_now_unix_ms :: u64

definition zero_ClusterNodesOnlineNotify :: ClusterNodesOnlineNotify where
  "zero_ClusterNodesOnlineNotify = \<lparr>no_all_nodes_online = False, no_status_flags = 0, no_server_now_unix_ms = 0\<rparr>"

record GameGateMeshReadyReport =
  mr_status_flags :: u32
  mr_reported_at_unix_ms :: u64

definition zero_GameGateMeshReadyReport :: GameGateMeshReadyReport where
  "zero_GameGateMeshReadyReport = \<lparr>mr_status_flags = 0, mr_reported_at_unix_ms = 0\<rparr>"

record ClusterReadyNotify =
  cr_ready_epoch :: u64
  cr_cluster_ready :: bool
  cr_status_flags :: u32
  cr_server_now_unix_ms :: u64

definition zero_ClusterReadyNotify :: ClusterReadyNotify where
  "zero_ClusterReadyNotify = \<lparr>cr_ready_epoch = 0, cr_cluster_ready = False, cr_status_flags = 0, cr_server_now_unix_ms = 0\<rparr>"

record ServerStubOwnershipEntry =
  oe_entity_type :: string
  oe_entity_id :: string
  oe_owner_game_node_id :: string
  oe_entry_flags :: u32

record ServerStubOwnershipSync =
  os_assignment_epoch :: u64
  os_status_flags :: u32
  os_assignments :: "ServerStubOwnershipEntry list"
  os_server_now_unix_ms :: u64

record ServerStubReadyEntry =
  sre_entity_type :: string
  sre_entity_id :: string
  sre_ready :: bool
  sre_entry_flags :: u32

record GameServiceReadyReport =
  gs_assignment_epoch :: u64
  gs_local_ready :: bool
  gs_status_flags :: u32
  gs_entries :: "ServerStubReadyEntry list"
  gs_reported_at_unix_ms :: u64

definition zero_ServerStubOwnershipEntry :: ServerStubOwnershipEntry where
  "zero_ServerStubOwnershipEntry =
     \<lparr>oe_entity_type = [], oe_entity_id = [], oe_owner_game_node_id = [], oe_entry_flags = 0\<rparr>"

definition zero_ServerStubOwnershipSync :: ServerStubOwnershipSync where
  "zero_ServerStubOwnershipSync =
     \<lparr>os_assignment_epoch = 0, os_status_flags = 0, os_assignments = [], os_server_now_unix_ms = 0\<rparr>"

definition zero_ServerStubReadyEntry :: ServerStubReadyEntry where
  "zero_ServerStubReadyEntry =
     \<lparr>sre_entity_type = [], sre_entity_id = [], sre_ready = False, sre_entry_flags = 0\<rparr>"

definition zero_GameServiceReadyReport :: GameServiceReadyReport where
  "zero_GameServiceReadyReport = \<lparr>gs_assignment_epoch = 0, gs_local_ready = False, gs_status_flags = 0,
     gs_entries = [], gs_reported_at_unix_ms = 0\<rparr>"

definition kClusterNodesOnlineNotifySize :: nat where "kClusterNodesOnlineNotifySize = 1 + 4 + 8"
definition kClusterReadyNotifySize :: nat where "kClusterReadyNotifySize = 8 + 1 + 4 + 8"
definition kGameGateMeshReadyReportSize :: nat where "kGameGateMeshReadyReportSize = 4 + 8"

section \<open>Helpers\<close>

fun cluster_MapSerializationError :: "SerializationErrorCode \<Rightarrow> InnerClusterCodecErrorCode" where
  "cluster_MapSerializationError Ser_None = Icl_None"
| "cluster_MapSerializationError Ser_BufferTooSmall = Icl_BufferTooSmall"
| "cluster_MapSerializationError Ser_LengthOverflow = Icl_LengthOverflow"
| "cluster_MapSerializationError Ser_InvalidBoolValue = Icl_InvalidBoolValue"
| "cluster_MapSerializationError Ser_InvalidArgument = Icl_InvalidArgument"

lemma cluster_MapSerializationError_ne:
  "e \<noteq> Ser_None \<Longrightarrow> cluster_MapSerializationError e \<noteq> Icl_None"
  by (cases e) auto

definition cluster_AddWireSize :: "nat \<Rightarrow> nat \<Rightarrow> InnerClusterCodecErrorCode \<times> nat" where
  "cluster_AddWireSize = add_wire_size Icl_None Icl_LengthOverflow"

definition cluster_GetString16WireSize :: "string \<Rightarrow> nat \<Rightarrow> InnerClusterCodecErrorCode \<times> nat" where
  "cluster_GetString16WireSize = string16_wire_size Icl_None Icl_LengthOverflow"

definition ValidateClusterReadyNotify :: "ClusterReadyNotify \<Rightarrow> InnerClusterCodecErrorCode" where
  "ValidateClusterReadyNotify message =
     (if cr_status_flags message \<noteq> 0 then Icl_InvalidReadyStatusFlags else Icl_None)"

definition ValidateClusterNodesOnlineNotify :: "ClusterNodesOnlineNotify \<Rightarrow> InnerClusterCodecErrorCode" where
  "ValidateClusterNodesOnlineNotify message =
     (if no_status_flags message \<noteq> 0 then Icl_InvalidNodesOnlineStatusFlags else Icl_None)"

definition ValidateGameGateMeshReadyReport :: "GameGateMeshReadyReport \<Rightarrow> InnerClusterCodecErrorCode" where
  "ValidateGameGateMeshReadyReport message =
     (if mr_status_flags message \<noteq> 0 then Icl_InvalidMeshReadyStatusFlags else Icl_None)"

definition ValidateServerStubOwnershipEntry :: "ServerStubOwnershipEntry \<Rightarrow> InnerClusterCodecErrorCode" where
  "ValidateServerStubOwnershipEntry entry =
     (if oe_entry_flags entry \<noteq> 0 then Icl_InvalidOwnershipEntryFlags else Icl_None)"

text \<open>The validation loops return the first error an entry gives.\<close>

primrec first_error :: "('a \<Rightarrow> InnerClusterCodecErrorCode) \<Rightarrow> 'a list \<Rightarrow> InnerClusterCodecErrorCode" where
  "first_error validate [] = Icl_None"
| "first_error validate (x # xs) =
     (if validate x \<noteq> Icl_None then validate x else first_error validate xs)"

lemma first_error_None: "first_error v xs = Icl_None \<longleftrightarrow> (\<forall>x\<in>set xs. v x = Icl_None)"
  by (induction xs) auto

definition ValidateServerStubOwnershipSync :: "ServerStubOwnershipSync \<Rightarrow> InnerClusterCodecErrorCode" where
  "ValidateServerStubOwnershipSync message =
     (if os_status_flags message \<noteq> 0 then Icl_InvalidOwnershipStatusFlags
      else first_error ValidateServerStubOwnershipEntry (os_assignments message))"

definition ValidateServerStubReadyEntry :: "ServerStubReadyEntry \<Rightarrow> InnerClusterCodecErrorCode" where
  "ValidateServerStubReadyEntry entry =
     (if sre_entry_flags entry \<noteq> 0 then Icl_InvalidServiceReadyEntryFlags else Icl_None)"

definition ValidateGameServiceReadyReport :: "GameServiceReadyReport \<Rightarrow> InnerClusterCodecErrorCode" where
  "ValidateGameServiceReadyReport message =
     (if gs_status_flags message \<noteq> 0 then Icl_InvalidServiceReadyStatusFlags
      else first_error ValidateServerStubReadyEntry (gs_entries message))"

definition cluster_CheckTrailingBytes :: "BinaryReader \<Rightarrow> InnerClusterCodecErrorCode" where
  "cluster_CheckTrailingBytes reader =
     (if reader_remaining reader \<noteq> 0 then Icl_TrailingBytes else Icl_None)"

lemma cluster_CheckTrailingBytes_None:
  "cluster_CheckTrailingBytes r = Icl_None \<longleftrightarrow> reader_remaining r = 0"
  by (simp add: cluster_CheckTrailingBytes_def)

section \<open>Messages of fixed size\<close>

definition write_ClusterNodesOnlineNotify ::
    "ClusterNodesOnlineNotify \<Rightarrow> BinaryWriter \<Rightarrow> InnerClusterCodecErrorCode \<times> BinaryWriter" where
  "write_ClusterNodesOnlineNotify message =
     checked cluster_MapSerializationError bw_error Icl_None (chain
       [WriteBool (no_all_nodes_online message), WriteUInt32 (no_status_flags message), WriteUInt64 (no_server_now_unix_ms message)])"

definition EncodeClusterNodesOnlineNotify ::
    "ClusterNodesOnlineNotify \<Rightarrow> byte list \<Rightarrow> InnerClusterCodecErrorCode \<times> byte list" where
  "EncodeClusterNodesOnlineNotify message buffer =
     (let validation_result = ValidateClusterNodesOnlineNotify message in
      if validation_result \<noteq> Icl_None then (validation_result, buffer)
      else case write_ClusterNodesOnlineNotify message (new_BinaryWriter buffer) of
        (result, writer) \<Rightarrow> (result, bw_buffer writer))"

definition read_ClusterNodesOnlineNotify ::
    "BinaryReader \<times> ClusterNodesOnlineNotify \<Rightarrow>
     InnerClusterCodecErrorCode \<times> BinaryReader \<times> ClusterNodesOnlineNotify" where
  "read_ClusterNodesOnlineNotify = until_error Icl_None
     [checked cluster_MapSerializationError (\<lambda>s. br_error (fst s)) Icl_None (chain
        [read_into ReadBool no_all_nodes_online no_all_nodes_online_update,
         read_into ReadUInt32 no_status_flags no_status_flags_update,
         read_into ReadUInt64 no_server_now_unix_ms no_server_now_unix_ms_update]),
      check_message ValidateClusterNodesOnlineNotify,
      check_reader cluster_CheckTrailingBytes]"

definition DecodeClusterNodesOnlineNotify ::
    "byte list \<Rightarrow> ClusterNodesOnlineNotify ptr \<Rightarrow> InnerClusterCodecErrorCode \<times> ClusterNodesOnlineNotify ptr" where
  "DecodeClusterNodesOnlineNotify buffer message =
     (if message = None then (Icl_InvalidArgument, None)
      else case read_ClusterNodesOnlineNotify (new_BinaryReader buffer, zero_ClusterNodesOnlineNotify) of
        (result, reader, parsed_message) \<Rightarrow>
        if result \<noteq> Icl_None then (result, Some zero_ClusterNodesOnlineNotify)
        else (Icl_None, Some parsed_message))"

definition write_GameGateMeshReadyReport ::
    "GameGateMeshReadyReport \<Rightarrow> BinaryWriter \<Rightarrow> InnerClusterCodecErrorCode \<times> BinaryWriter" where
  "write_GameGateMeshReadyReport message =
     checked cluster_MapSerializationError bw_error Icl_None (chain
       [WriteUInt32 (mr_status_flags message), WriteUInt64 (mr_reported_at_unix_ms message)])"

definition EncodeGameGateMeshReadyReport ::
    "GameGateMeshReadyReport \<Rightarrow> byte list \<Rightarrow> InnerClusterCodecErrorCode \<times> byte list" where
  "EncodeGameGateMeshReadyReport message buffer =
     (let validation_result = ValidateGameGateMeshReadyReport message in
      if validation_result \<noteq> Icl_None then (validation_result, buffer)
      else case write_GameGateMeshReadyReport message (new_BinaryWriter buffer) of
        (result, writer) \<Rightarrow> (result, bw_buffer writer))"

definition read_GameGateMeshReadyReport ::
    "BinaryReader \<times> GameGateMeshReadyReport \<Rightarrow>
     InnerClusterCodecErrorCode \<times> BinaryReader \<times> GameGateMeshReadyReport" where
  "read_GameGateMeshReadyReport = until_error Icl_None
     [checked cluster_MapSerializationError (\<lambda>s. br_error (fst s)) Icl_None (chain
        [read_into ReadUInt32 mr_status_flags mr_status_flags_update,
         read_into ReadUInt64 mr_reported_at_unix_ms mr_reported_at_unix_ms_update]),
      check_message ValidateGameGateMeshReadyReport,
      check_reader cluster_CheckTrailingBytes]"

definition DecodeGameGateMeshReadyReport ::
    "byte list \<Rightarrow> GameGateMeshReadyReport ptr \<Rightarrow> InnerClusterCodecErrorCode \<times> GameGateMeshReadyReport ptr" where
  "DecodeGameGateMeshReadyReport buffer message =
     (if message = None then (Icl_InvalidArgument, None)
      else case read_GameGateMeshReadyReport (new_BinaryReader buffer, zero_GameGateMeshReadyReport) of
        (result, reader, parsed_message) \<Rightarrow>
        if result \<noteq> Icl_None then (result, Some zero_GameGateMeshReadyReport)
        else (Icl_None, Some parsed_message))"

definition write_ClusterReadyNotify ::
    "ClusterReadyNotify \<Rightarrow> BinaryWriter \<Rightarrow> InnerClusterCodecErrorCode \<times> BinaryWriter" where
  "write_ClusterReadyNotify message =
     checked cluster_MapSerializationError bw_error Icl_None (chain
       [WriteUInt64 (cr_ready_epoch message), WriteBool (cr_cluster_ready message), WriteUInt32 (cr_status_flags message), WriteUInt64 (cr_server_now_unix_ms message)])"

definition EncodeClusterReadyNotify ::
    "ClusterReadyNotify \<Rightarrow> byte list \<Rightarrow> InnerClusterCodecErrorCode \<times> byte list" where
  "EncodeClusterReadyNotify message buffer =
     (let validation_result = ValidateClusterReadyNotify message in
      if validation_result \<noteq> Icl_None then (validation_result, buffer)
      else case write_ClusterReadyNotify message (new_BinaryWriter buffer) of
        (result, writer) \<Rightarrow> (result, bw_buffer writer))"

definition read_ClusterReadyNotify ::
    "BinaryReader \<times> ClusterReadyNotify \<Rightarrow>
     InnerClusterCodecErrorCode \<times> BinaryReader \<times> ClusterReadyNotify" where
  "read_ClusterReadyNotify = until_error Icl_None
     [checked cluster_MapSerializationError (\<lambda>s. br_error (fst s)) Icl_None (chain
        [read_into ReadUInt64 cr_ready_epoch cr_ready_epoch_update,
         read_into ReadBool cr_cluster_ready cr_cluster_ready_update,
         read_into ReadUInt32 cr_status_flags cr_status_flags_update,
         read_into ReadUInt64 cr_server_now_unix_ms cr_server_now_unix_ms_update]),
      check_message ValidateClusterReadyNotify,
      check_reader cluster_CheckTrailingBytes]"

definition DecodeClusterReadyNotify ::
    "byte list \<Rightarrow> ClusterReadyNotify ptr \<Rightarrow> InnerClusterCodecErrorCode \<times> ClusterReadyNotify ptr" where
  "DecodeClusterReadyNotify buffer message =
     (if message = None then (Icl_InvalidArgument, None)
      else case read_ClusterReadyNotify (new_BinaryReader buffer, zero_ClusterReadyNotify) of
        (result, reader, parsed_message) \<Rightarrow>
        if result \<noteq> Icl_None then (result, Some zero_ClusterReadyNotify)
        else (Icl_None, Some parsed_message))"

section \<open>The fixed-size codecs implement their contract\<close>

definition wire_ClusterNodesOnlineNotify :: "ClusterNodesOnlineNotify \<Rightarrow> byte list" where
  "wire_ClusterNodesOnlineNotify m = enc_bool (no_all_nodes_online m) @ enc_u32 (no_status_flags m) @ enc_u64 (no_server_now_unix_ms m)"

definition valid_ClusterNodesOnlineNotify :: "ClusterNodesOnlineNotify \<Rightarrow> bool" where
  "valid_ClusterNodesOnlineNotify m \<longleftrightarrow> no_status_flags m = 0"

lemma ValidateClusterNodesOnlineNotify_None: "ValidateClusterNodesOnlineNotify m = Icl_None \<longleftrightarrow> valid_ClusterNodesOnlineNotify m"
  by (simp add: ValidateClusterNodesOnlineNotify_def valid_ClusterNodesOnlineNotify_def)

lemma encodes_ClusterNodesOnlineNotify:
  "encodes Icl_None (write_ClusterNodesOnlineNotify m) (wire_ClusterNodesOnlineNotify m) True"
  unfolding write_ClusterNodesOnlineNotify_def wire_ClusterNodesOnlineNotify_def
  by (rule encodes_cong, (rule encodes_intros writes_intros | simp; fail)+)

lemma decodes_ClusterNodesOnlineNotify:
  "decodes_message Icl_None read_ClusterNodesOnlineNotify zero_ClusterNodesOnlineNotify
     (\<lambda>bs m. valid_ClusterNodesOnlineNotify m \<and> bs = wire_ClusterNodesOnlineNotify m)"
  unfolding read_ClusterNodesOnlineNotify_def
proof (rule decodes_messageI,
    (rule decodes_all_last [OF _ ends_check [OF ends_trailing [OF cluster_CheckTrailingBytes_None]]]
      decodes_intros reads_intros cluster_MapSerializationError_ne | assumption)+, rule iffI, goal_cases)
  case (1 bs m)
  then show ?case
    by (elim exE conjE, hypsubst) (simp add: zero_ClusterNodesOnlineNotify_def wire_ClusterNodesOnlineNotify_def ValidateClusterNodesOnlineNotify_None)
next
  case (2 bs m)
  then have v: "ValidateClusterNodesOnlineNotify m = Icl_None" and bs: "bs = wire_ClusterNodesOnlineNotify m"
    by (simp_all add: ValidateClusterNodesOnlineNotify_None)
  show ?case unfolding bs wire_ClusterNodesOnlineNotify_def
    by (intro exI conjI, (rule refl TrueI v)+) (rule TrueI v | simp add: zero_ClusterNodesOnlineNotify_def)+
qed

interpretation nodes_online_notify: strict_message_codec
  EncodeClusterNodesOnlineNotify DecodeClusterNodesOnlineNotify wire_ClusterNodesOnlineNotify valid_ClusterNodesOnlineNotify
  Icl_None Icl_InvalidArgument zero_ClusterNodesOnlineNotify
  by (rule strict_codec_of_phases [OF _ _ encodes_ClusterNodesOnlineNotify decodes_ClusterNodesOnlineNotify,
        where pre = "\<lambda>m _. ValidateClusterNodesOnlineNotify m"])
    (simp_all add: EncodeClusterNodesOnlineNotify_def DecodeClusterNodesOnlineNotify_def encode_with_def decode_with_def
      ValidateClusterNodesOnlineNotify_None Let_def)

definition wire_GameGateMeshReadyReport :: "GameGateMeshReadyReport \<Rightarrow> byte list" where
  "wire_GameGateMeshReadyReport m = enc_u32 (mr_status_flags m) @ enc_u64 (mr_reported_at_unix_ms m)"

definition valid_GameGateMeshReadyReport :: "GameGateMeshReadyReport \<Rightarrow> bool" where
  "valid_GameGateMeshReadyReport m \<longleftrightarrow> mr_status_flags m = 0"

lemma ValidateGameGateMeshReadyReport_None: "ValidateGameGateMeshReadyReport m = Icl_None \<longleftrightarrow> valid_GameGateMeshReadyReport m"
  by (simp add: ValidateGameGateMeshReadyReport_def valid_GameGateMeshReadyReport_def)

lemma encodes_GameGateMeshReadyReport:
  "encodes Icl_None (write_GameGateMeshReadyReport m) (wire_GameGateMeshReadyReport m) True"
  unfolding write_GameGateMeshReadyReport_def wire_GameGateMeshReadyReport_def
  by (rule encodes_cong, (rule encodes_intros writes_intros | simp; fail)+)

lemma decodes_GameGateMeshReadyReport:
  "decodes_message Icl_None read_GameGateMeshReadyReport zero_GameGateMeshReadyReport
     (\<lambda>bs m. valid_GameGateMeshReadyReport m \<and> bs = wire_GameGateMeshReadyReport m)"
  unfolding read_GameGateMeshReadyReport_def
proof (rule decodes_messageI,
    (rule decodes_all_last [OF _ ends_check [OF ends_trailing [OF cluster_CheckTrailingBytes_None]]]
      decodes_intros reads_intros cluster_MapSerializationError_ne | assumption)+, rule iffI, goal_cases)
  case (1 bs m)
  then show ?case
    by (elim exE conjE, hypsubst) (simp add: zero_GameGateMeshReadyReport_def wire_GameGateMeshReadyReport_def ValidateGameGateMeshReadyReport_None)
next
  case (2 bs m)
  then have v: "ValidateGameGateMeshReadyReport m = Icl_None" and bs: "bs = wire_GameGateMeshReadyReport m"
    by (simp_all add: ValidateGameGateMeshReadyReport_None)
  show ?case unfolding bs wire_GameGateMeshReadyReport_def
    by (intro exI conjI, (rule refl TrueI v)+) (rule TrueI v | simp add: zero_GameGateMeshReadyReport_def)+
qed

interpretation mesh_ready_report: strict_message_codec
  EncodeGameGateMeshReadyReport DecodeGameGateMeshReadyReport wire_GameGateMeshReadyReport valid_GameGateMeshReadyReport
  Icl_None Icl_InvalidArgument zero_GameGateMeshReadyReport
  by (rule strict_codec_of_phases [OF _ _ encodes_GameGateMeshReadyReport decodes_GameGateMeshReadyReport,
        where pre = "\<lambda>m _. ValidateGameGateMeshReadyReport m"])
    (simp_all add: EncodeGameGateMeshReadyReport_def DecodeGameGateMeshReadyReport_def encode_with_def decode_with_def
      ValidateGameGateMeshReadyReport_None Let_def)

definition wire_ClusterReadyNotify :: "ClusterReadyNotify \<Rightarrow> byte list" where
  "wire_ClusterReadyNotify m = enc_u64 (cr_ready_epoch m) @ enc_bool (cr_cluster_ready m) @ enc_u32 (cr_status_flags m) @ enc_u64 (cr_server_now_unix_ms m)"

definition valid_ClusterReadyNotify :: "ClusterReadyNotify \<Rightarrow> bool" where
  "valid_ClusterReadyNotify m \<longleftrightarrow> cr_status_flags m = 0"

lemma ValidateClusterReadyNotify_None: "ValidateClusterReadyNotify m = Icl_None \<longleftrightarrow> valid_ClusterReadyNotify m"
  by (simp add: ValidateClusterReadyNotify_def valid_ClusterReadyNotify_def)

lemma encodes_ClusterReadyNotify:
  "encodes Icl_None (write_ClusterReadyNotify m) (wire_ClusterReadyNotify m) True"
  unfolding write_ClusterReadyNotify_def wire_ClusterReadyNotify_def
  by (rule encodes_cong, (rule encodes_intros writes_intros | simp; fail)+)

lemma decodes_ClusterReadyNotify:
  "decodes_message Icl_None read_ClusterReadyNotify zero_ClusterReadyNotify
     (\<lambda>bs m. valid_ClusterReadyNotify m \<and> bs = wire_ClusterReadyNotify m)"
  unfolding read_ClusterReadyNotify_def
proof (rule decodes_messageI,
    (rule decodes_all_last [OF _ ends_check [OF ends_trailing [OF cluster_CheckTrailingBytes_None]]]
      decodes_intros reads_intros cluster_MapSerializationError_ne | assumption)+, rule iffI, goal_cases)
  case (1 bs m)
  then show ?case
    by (elim exE conjE, hypsubst) (simp add: zero_ClusterReadyNotify_def wire_ClusterReadyNotify_def ValidateClusterReadyNotify_None)
next
  case (2 bs m)
  then have v: "ValidateClusterReadyNotify m = Icl_None" and bs: "bs = wire_ClusterReadyNotify m"
    by (simp_all add: ValidateClusterReadyNotify_None)
  show ?case unfolding bs wire_ClusterReadyNotify_def
    by (intro exI conjI, (rule refl TrueI v)+) (rule TrueI v | simp add: zero_ClusterReadyNotify_def)+
qed

interpretation cluster_ready_notify: strict_message_codec
  EncodeClusterReadyNotify DecodeClusterReadyNotify wire_ClusterReadyNotify valid_ClusterReadyNotify
  Icl_None Icl_InvalidArgument zero_ClusterReadyNotify
  by (rule strict_codec_of_phases [OF _ _ encodes_ClusterReadyNotify decodes_ClusterReadyNotify,
        where pre = "\<lambda>m _. ValidateClusterReadyNotify m"])
    (simp_all add: EncodeClusterReadyNotify_def DecodeClusterReadyNotify_def encode_with_def decode_with_def
      ValidateClusterReadyNotify_None Let_def)

section \<open>Messages with a list of entries\<close>

definition size_ServerStubOwnershipEntry :: "ServerStubOwnershipEntry \<Rightarrow> nat \<Rightarrow> InnerClusterCodecErrorCode \<times> nat" where
  "size_ServerStubOwnershipEntry entry = until_error Icl_None
     [add_field Icl_None Icl_LengthOverflow (cluster_GetString16WireSize (oe_entity_type entry) 0),
      add_field Icl_None Icl_LengthOverflow (cluster_GetString16WireSize (oe_entity_id entry) 0),
      add_field Icl_None Icl_LengthOverflow (cluster_GetString16WireSize (oe_owner_game_node_id entry) 0),
      cluster_AddWireSize 4]"

definition GetServerStubOwnershipSyncWireSize ::
    "ServerStubOwnershipSync \<Rightarrow> nat ptr \<Rightarrow> InnerClusterCodecErrorCode \<times> nat ptr" where
  "GetServerStubOwnershipSyncWireSize message wire_size =
     (if wire_size = None then (Icl_InvalidArgument, None)
      else let validation_result = ValidateServerStubOwnershipSync message in
        if validation_result \<noteq> Icl_None then (validation_result, wire_size)
        else case until_error Icl_None
          (cluster_AddWireSize (8 + 4 + 4) #
           map size_ServerStubOwnershipEntry (os_assignments message) @ [cluster_AddWireSize 8]) 0 of
          (result, total_size) \<Rightarrow> (result, Some total_size))"

definition write_ServerStubOwnershipEntry ::
    "ServerStubOwnershipEntry \<Rightarrow> BinaryWriter \<Rightarrow> InnerClusterCodecErrorCode \<times> BinaryWriter" where
  "write_ServerStubOwnershipEntry entry =
     checked cluster_MapSerializationError bw_error Icl_None (chain
       [WriteString16 (oe_entity_type entry), WriteString16 (oe_entity_id entry), WriteString16 (oe_owner_game_node_id entry), WriteUInt32 (oe_entry_flags entry)])"

definition write_ServerStubOwnershipSync ::
    "ServerStubOwnershipSync \<Rightarrow> BinaryWriter \<Rightarrow> InnerClusterCodecErrorCode \<times> BinaryWriter" where
  "write_ServerStubOwnershipSync message = until_error Icl_None
     (checked cluster_MapSerializationError bw_error Icl_None (chain
        [WriteUInt64 (os_assignment_epoch message), WriteUInt32 (os_status_flags message),
         WriteUInt32 (word_of_nat (length (os_assignments message)))]) #
      map write_ServerStubOwnershipEntry (os_assignments message) @
      [checked cluster_MapSerializationError bw_error Icl_None (WriteUInt64 (os_server_now_unix_ms message))])"

definition EncodeServerStubOwnershipSync ::
    "ServerStubOwnershipSync \<Rightarrow> byte list \<Rightarrow> InnerClusterCodecErrorCode \<times> byte list" where
  "EncodeServerStubOwnershipSync message buffer =
     (case GetServerStubOwnershipSyncWireSize message (Some 0) of (wire_size_result, wire_size) \<Rightarrow>
        if wire_size_result \<noteq> Icl_None then (wire_size_result, buffer)
        else if length buffer < the wire_size then (Icl_BufferTooSmall, buffer)
        else case write_ServerStubOwnershipSync message (new_BinaryWriter buffer) of
          (result, writer) \<Rightarrow> (result, bw_buffer writer))"

definition read_ServerStubOwnershipEntry ::
    "BinaryReader \<times> ServerStubOwnershipEntry \<Rightarrow>
     InnerClusterCodecErrorCode \<times> BinaryReader \<times> ServerStubOwnershipEntry" where
  "read_ServerStubOwnershipEntry = until_error Icl_None
     [checked cluster_MapSerializationError (\<lambda>s. br_error (fst s)) Icl_None (chain
        [read_into ReadString16 oe_entity_type oe_entity_type_update,
         read_into ReadString16 oe_entity_id oe_entity_id_update,
         read_into ReadString16 oe_owner_game_node_id oe_owner_game_node_id_update,
         read_into ReadUInt32 oe_entry_flags oe_entry_flags_update]),
      check_message ValidateServerStubOwnershipEntry]"

text \<open>The decoder's state is the message parsed so far and the local entry count.\<close>

definition read_assignments ::
    "BinaryReader \<times> ServerStubOwnershipSync \<times> u32 \<Rightarrow>
     InnerClusterCodecErrorCode \<times> BinaryReader \<times> ServerStubOwnershipSync \<times> u32" where
  "read_assignments s =
     (case s of (reader, m) \<Rightarrow>
      case read_entries Icl_None (\<lambda>r. read_ServerStubOwnershipEntry (r, zero_ServerStubOwnershipEntry))
        (unat (snd m)) (os_assignments (fst m)) reader of
        (result, reader, entries) \<Rightarrow> (result, reader, apfst (os_assignments_update (\<lambda>_. entries)) m))"

definition read_ServerStubOwnershipSync_fields ::
    "BinaryReader \<times> ServerStubOwnershipSync \<times> u32 \<Rightarrow>
     InnerClusterCodecErrorCode \<times> BinaryReader \<times> ServerStubOwnershipSync \<times> u32" where
  "read_ServerStubOwnershipSync_fields = until_error Icl_None
     [checked cluster_MapSerializationError (\<lambda>s. br_error (fst s)) Icl_None (chain
        [read_into ReadUInt64 (\<lambda>m. os_assignment_epoch (fst m)) (\<lambda>f. apfst (os_assignment_epoch_update f)),
         read_into ReadUInt32 (\<lambda>m. os_status_flags (fst m)) (\<lambda>f. apfst (os_status_flags_update f)),
         read_into ReadUInt32 snd apsnd]),
      read_assignments,
      checked cluster_MapSerializationError (\<lambda>s. br_error (fst s)) Icl_None
        (read_into ReadUInt64 (\<lambda>m. os_server_now_unix_ms (fst m)) (\<lambda>f. apfst (os_server_now_unix_ms_update f))),
      check_message (\<lambda>m. ValidateServerStubOwnershipSync (fst m)),
      check_reader cluster_CheckTrailingBytes]"

definition read_ServerStubOwnershipSync ::
    "BinaryReader \<times> ServerStubOwnershipSync \<Rightarrow>
     InnerClusterCodecErrorCode \<times> BinaryReader \<times> ServerStubOwnershipSync" where
  "read_ServerStubOwnershipSync = (\<lambda>(reader, parsed_message).
     case read_ServerStubOwnershipSync_fields (reader, parsed_message, 0) of
       (result, reader, parsed_message, count) \<Rightarrow> (result, reader, parsed_message))"

definition DecodeServerStubOwnershipSync ::
    "byte list \<Rightarrow> ServerStubOwnershipSync ptr \<Rightarrow> InnerClusterCodecErrorCode \<times> ServerStubOwnershipSync ptr" where
  "DecodeServerStubOwnershipSync buffer message =
     (if message = None then (Icl_InvalidArgument, None)
      else case read_ServerStubOwnershipSync (new_BinaryReader buffer, zero_ServerStubOwnershipSync) of
        (result, reader, parsed_message) \<Rightarrow>
        if result \<noteq> Icl_None then (result, Some zero_ServerStubOwnershipSync)
        else (Icl_None, Some parsed_message))"

definition size_ServerStubReadyEntry :: "ServerStubReadyEntry \<Rightarrow> nat \<Rightarrow> InnerClusterCodecErrorCode \<times> nat" where
  "size_ServerStubReadyEntry entry = until_error Icl_None
     [add_field Icl_None Icl_LengthOverflow (cluster_GetString16WireSize (sre_entity_type entry) 0),
      add_field Icl_None Icl_LengthOverflow (cluster_GetString16WireSize (sre_entity_id entry) 0),
      cluster_AddWireSize (1 + 4)]"

definition GetGameServiceReadyReportWireSize ::
    "GameServiceReadyReport \<Rightarrow> nat ptr \<Rightarrow> InnerClusterCodecErrorCode \<times> nat ptr" where
  "GetGameServiceReadyReportWireSize message wire_size =
     (if wire_size = None then (Icl_InvalidArgument, None)
      else let validation_result = ValidateGameServiceReadyReport message in
        if validation_result \<noteq> Icl_None then (validation_result, wire_size)
        else case until_error Icl_None
          (cluster_AddWireSize (8 + 1 + 4 + 4) #
           map size_ServerStubReadyEntry (gs_entries message) @ [cluster_AddWireSize 8]) 0 of
          (result, total_size) \<Rightarrow> (result, Some total_size))"

definition write_ServerStubReadyEntry ::
    "ServerStubReadyEntry \<Rightarrow> BinaryWriter \<Rightarrow> InnerClusterCodecErrorCode \<times> BinaryWriter" where
  "write_ServerStubReadyEntry entry =
     checked cluster_MapSerializationError bw_error Icl_None (chain
       [WriteString16 (sre_entity_type entry), WriteString16 (sre_entity_id entry), WriteBool (sre_ready entry), WriteUInt32 (sre_entry_flags entry)])"

definition write_GameServiceReadyReport ::
    "GameServiceReadyReport \<Rightarrow> BinaryWriter \<Rightarrow> InnerClusterCodecErrorCode \<times> BinaryWriter" where
  "write_GameServiceReadyReport message = until_error Icl_None
     (checked cluster_MapSerializationError bw_error Icl_None (chain
        [WriteUInt64 (gs_assignment_epoch message), WriteBool (gs_local_ready message), WriteUInt32 (gs_status_flags message),
         WriteUInt32 (word_of_nat (length (gs_entries message)))]) #
      map write_ServerStubReadyEntry (gs_entries message) @
      [checked cluster_MapSerializationError bw_error Icl_None (WriteUInt64 (gs_reported_at_unix_ms message))])"

definition EncodeGameServiceReadyReport ::
    "GameServiceReadyReport \<Rightarrow> byte list \<Rightarrow> InnerClusterCodecErrorCode \<times> byte list" where
  "EncodeGameServiceReadyReport message buffer =
     (case GetGameServiceReadyReportWireSize message (Some 0) of (wire_size_result, wire_size) \<Rightarrow>
        if wire_size_result \<noteq> Icl_None then (wire_size_result, buffer)
        else if length buffer < the wire_size then (Icl_BufferTooSmall, buffer)
        else case write_GameServiceReadyReport message (new_BinaryWriter buffer) of
          (result, writer) \<Rightarrow> (result, bw_buffer writer))"

definition read_ServerStubReadyEntry ::
    "BinaryReader \<times> ServerStubReadyEntry \<Rightarrow>
     InnerClusterCodecErrorCode \<times> BinaryReader \<times> ServerStubReadyEntry" where
  "read_ServerStubReadyEntry = until_error Icl_None
     [checked cluster_MapSerializationError (\<lambda>s. br_error (fst s)) Icl_None (chain
        [read_into ReadString16 sre_entity_type sre_entity_type_update,
         read_into ReadString16 sre_entity_id sre_entity_id_update,
         read_into ReadBool sre_ready sre_ready_update,
         read_into ReadUInt32 sre_entry_flags sre_entry_flags_update]),
      check_message ValidateServerStubReadyEntry]"

text \<open>The decoder's state is the message parsed so far and the local entry count.\<close>

definition read_ready_entries ::
    "BinaryReader \<times> GameServiceReadyReport \<times> u32 \<Rightarrow>
     InnerClusterCodecErrorCode \<times> BinaryReader \<times> GameServiceReadyReport \<times> u32" where
  "read_ready_entries s =
     (case s of (reader, m) \<Rightarrow>
      case read_entries Icl_None (\<lambda>r. read_ServerStubReadyEntry (r, zero_ServerStubReadyEntry))
        (unat (snd m)) (gs_entries (fst m)) reader of
        (result, reader, entries) \<Rightarrow> (result, reader, apfst (gs_entries_update (\<lambda>_. entries)) m))"

definition read_GameServiceReadyReport_fields ::
    "BinaryReader \<times> GameServiceReadyReport \<times> u32 \<Rightarrow>
     InnerClusterCodecErrorCode \<times> BinaryReader \<times> GameServiceReadyReport \<times> u32" where
  "read_GameServiceReadyReport_fields = until_error Icl_None
     [checked cluster_MapSerializationError (\<lambda>s. br_error (fst s)) Icl_None (chain
        [read_into ReadUInt64 (\<lambda>m. gs_assignment_epoch (fst m)) (\<lambda>f. apfst (gs_assignment_epoch_update f)),
         read_into ReadBool (\<lambda>m. gs_local_ready (fst m)) (\<lambda>f. apfst (gs_local_ready_update f)),
         read_into ReadUInt32 (\<lambda>m. gs_status_flags (fst m)) (\<lambda>f. apfst (gs_status_flags_update f)),
         read_into ReadUInt32 snd apsnd]),
      read_ready_entries,
      checked cluster_MapSerializationError (\<lambda>s. br_error (fst s)) Icl_None
        (read_into ReadUInt64 (\<lambda>m. gs_reported_at_unix_ms (fst m)) (\<lambda>f. apfst (gs_reported_at_unix_ms_update f))),
      check_message (\<lambda>m. ValidateGameServiceReadyReport (fst m)),
      check_reader cluster_CheckTrailingBytes]"

definition read_GameServiceReadyReport ::
    "BinaryReader \<times> GameServiceReadyReport \<Rightarrow>
     InnerClusterCodecErrorCode \<times> BinaryReader \<times> GameServiceReadyReport" where
  "read_GameServiceReadyReport = (\<lambda>(reader, parsed_message).
     case read_GameServiceReadyReport_fields (reader, parsed_message, 0) of
       (result, reader, parsed_message, count) \<Rightarrow> (result, reader, parsed_message))"

definition DecodeGameServiceReadyReport ::
    "byte list \<Rightarrow> GameServiceReadyReport ptr \<Rightarrow> InnerClusterCodecErrorCode \<times> GameServiceReadyReport ptr" where
  "DecodeGameServiceReadyReport buffer message =
     (if message = None then (Icl_InvalidArgument, None)
      else case read_GameServiceReadyReport (new_BinaryReader buffer, zero_GameServiceReadyReport) of
        (result, reader, parsed_message) \<Rightarrow>
        if result \<noteq> Icl_None then (result, Some zero_GameServiceReadyReport)
        else (Icl_None, Some parsed_message))"

section \<open>The list codecs implement their contract\<close>

text \<open>A first phase, then more phases, whatever their number.\<close>

lemma encodes_phases:
  assumes "encodes none f bs p" "encodes none (until_error none gs) cs q" "gs \<noteq> []"
  shows "encodes none (until_error none (f # gs)) (bs @ cs) (p \<and> q)"
  using assms by (cases gs) (simp_all add: encodes_Cons del: until_error.simps)

definition wire_ServerStubOwnershipEntry :: "ServerStubOwnershipEntry \<Rightarrow> byte list" where
  "wire_ServerStubOwnershipEntry e = enc_str16 (oe_entity_type e) @ enc_str16 (oe_entity_id e) @ enc_str16 (oe_owner_game_node_id e) @ enc_u32 (oe_entry_flags e)"

definition valid_ServerStubOwnershipEntry :: "ServerStubOwnershipEntry \<Rightarrow> bool" where
  "valid_ServerStubOwnershipEntry e \<longleftrightarrow> fits16 (oe_entity_type e) \<and> fits16 (oe_entity_id e) \<and> fits16 (oe_owner_game_node_id e) \<and> oe_entry_flags e = 0"

definition wire_ServerStubOwnershipSync :: "ServerStubOwnershipSync \<Rightarrow> byte list" where
  "wire_ServerStubOwnershipSync m =
     (enc_u64 (os_assignment_epoch m) @ enc_u32 (os_status_flags m) @
      enc_u32 (word_of_nat (length (os_assignments m)))) @
     concat (map wire_ServerStubOwnershipEntry (os_assignments m)) @ enc_u64 (os_server_now_unix_ms m)"

definition valid_ServerStubOwnershipSync :: "ServerStubOwnershipSync \<Rightarrow> bool" where
  "valid_ServerStubOwnershipSync m \<longleftrightarrow> os_status_flags m = 0 \<and> length (os_assignments m) \<le> 4294967295 \<and>
     (\<forall>e\<in>set (os_assignments m). valid_ServerStubOwnershipEntry e)"

lemma ValidateServerStubOwnershipSync_None:
  "ValidateServerStubOwnershipSync m = Icl_None \<longleftrightarrow>
     os_status_flags m = 0 \<and> (\<forall>e\<in>set (os_assignments m). oe_entry_flags e = 0)"
  by (auto simp: ValidateServerStubOwnershipSync_def first_error_None ValidateServerStubOwnershipEntry_def)

lemma encodes_ServerStubOwnershipEntry:
  "encodes Icl_None (write_ServerStubOwnershipEntry e) (wire_ServerStubOwnershipEntry e) (fits16 (oe_entity_type e) \<and> fits16 (oe_entity_id e) \<and> fits16 (oe_owner_game_node_id e))"
  unfolding write_ServerStubOwnershipEntry_def wire_ServerStubOwnershipEntry_def
  by (rule encodes_cong, (rule encodes_intros writes_intros | simp; fail)+)

lemma encodes_ServerStubOwnershipSync:
  "encodes Icl_None (write_ServerStubOwnershipSync m) (wire_ServerStubOwnershipSync m)
     (\<forall>e\<in>set (os_assignments m). fits16 (oe_entity_type e) \<and> fits16 (oe_entity_id e) \<and> fits16 (oe_owner_game_node_id e))"
proof -
  have "encodes Icl_None (write_ServerStubOwnershipSync m) (wire_ServerStubOwnershipSync m)
      (True \<and> (\<forall>e\<in>set (os_assignments m). fits16 (oe_entity_type e) \<and> fits16 (oe_entity_id e) \<and> fits16 (oe_owner_game_node_id e)) \<and> True)"
    unfolding write_ServerStubOwnershipSync_def wire_ServerStubOwnershipSync_def
  proof (rule encodes_phases)
    show "encodes Icl_None (checked cluster_MapSerializationError bw_error Icl_None (chain
        [WriteUInt64 (os_assignment_epoch m), WriteUInt32 (os_status_flags m),
         WriteUInt32 (word_of_nat (length (os_assignments m)))]))
      (enc_u64 (os_assignment_epoch m) @ enc_u32 (os_status_flags m) @
      enc_u32 (word_of_nat (length (os_assignments m)))) True"
      by (rule encodes_cong, (rule encodes_intros writes_intros | simp; fail)+)
    show "encodes Icl_None (until_error Icl_None (map write_ServerStubOwnershipEntry (os_assignments m) @
      [checked cluster_MapSerializationError bw_error Icl_None (WriteUInt64 (os_server_now_unix_ms m))]))
      (concat (map wire_ServerStubOwnershipEntry (os_assignments m)) @ enc_u64 (os_server_now_unix_ms m))
      ((\<forall>e\<in>set (os_assignments m). fits16 (oe_entity_type e) \<and> fits16 (oe_entity_id e) \<and> fits16 (oe_owner_game_node_id e)) \<and> True)"
      by (rule encodes_loop [OF encodes_ServerStubOwnershipEntry], (rule encodes_intros writes_intros | simp; fail)+)
  qed simp
  then show ?thesis by simp
qed

lemma decodes_ServerStubOwnershipEntry:
  "decodes Icl_None read_ServerStubOwnershipEntry (\<lambda>m bs m'. valid_ServerStubOwnershipEntry m' \<and> bs = wire_ServerStubOwnershipEntry m')"
  unfolding read_ServerStubOwnershipEntry_def
proof (rule decodes_cong, (rule decodes_intros reads_intros cluster_MapSerializationError_ne | assumption)+,
    rule iffI, goal_cases)
  case (1 m bs m')
  then show ?case
    by (elim exE conjE, hypsubst)
      (simp add: wire_ServerStubOwnershipEntry_def valid_ServerStubOwnershipEntry_def ValidateServerStubOwnershipEntry_def split: if_splits)
next
  case (2 m bs m')
  then have v: "fits16 (oe_entity_type m')" "fits16 (oe_entity_id m')" "fits16 (oe_owner_game_node_id m')" "ValidateServerStubOwnershipEntry m' = Icl_None"
      "oe_entry_flags m' = 0"
    and bs: "bs = wire_ServerStubOwnershipEntry m'"
    by (simp_all add: valid_ServerStubOwnershipEntry_def ValidateServerStubOwnershipEntry_def)
  have wire: "wire_ServerStubOwnershipEntry m' = (enc_str16 (oe_entity_type m') @ enc_str16 (oe_entity_id m') @ enc_str16 (oe_owner_game_node_id m') @ enc_u32 (oe_entry_flags m')) @ []"
    by (simp add: wire_ServerStubOwnershipEntry_def)
  show ?case unfolding bs wire
    by (intro exI conjI, (rule refl TrueI v)+) (rule TrueI v | simp add: ValidateServerStubOwnershipEntry_def v)+
qed

lemma decodes_assignments:
  "decodes Icl_None read_assignments
     (\<lambda>m bs m'. \<exists>vs. bs = concat (map wire_ServerStubOwnershipEntry vs) \<and>
        m' = apfst (os_assignments_update (\<lambda>_. os_assignments (fst m) @ vs)) m \<and>
        length vs = unat (snd m) \<and> (\<forall>v\<in>set vs. valid_ServerStubOwnershipEntry v))"
  by (rule decodes_entries [OF decodes_ServerStubOwnershipEntry]) (auto simp: read_assignments_def)

lemma decodes_ServerStubOwnershipSync:
  "decodes_message Icl_None read_ServerStubOwnershipSync zero_ServerStubOwnershipSync
     (\<lambda>bs m. valid_ServerStubOwnershipSync m \<and> bs = wire_ServerStubOwnershipSync m)"
  unfolding read_ServerStubOwnershipSync_def read_ServerStubOwnershipSync_fields_def
proof (rule decodes_message_local,
    (rule decodes_all_last [OF _ ends_check [OF ends_trailing [OF cluster_CheckTrailingBytes_None]]]
      decodes_assignments decodes_intros reads_intros cluster_MapSerializationError_ne | assumption)+,
    rule iffI, goal_cases)
  case (1 bs m)
  then show ?case
    by (elim exE conjE, hypsubst)
      (simp add: zero_ServerStubOwnershipSync_def wire_ServerStubOwnershipSync_def valid_ServerStubOwnershipSync_def
        ValidateServerStubOwnershipSync_None unat_u32_le)
next
  case (2 bs m)
  then have v: "ValidateServerStubOwnershipSync m = Icl_None" "\<forall>e\<in>set (os_assignments m). valid_ServerStubOwnershipEntry e"
    and n: "unat (word_of_nat (length (os_assignments m)) :: u32) = length (os_assignments m)"
    and bs: "bs = wire_ServerStubOwnershipSync m"
    by (auto simp: valid_ServerStubOwnershipSync_def valid_ServerStubOwnershipEntry_def ValidateServerStubOwnershipSync_None unat_word_of_nat_u32)
  show ?case unfolding bs wire_ServerStubOwnershipSync_def
    by (intro exI conjI, (rule refl TrueI v)+)
      (rule TrueI v | simp add: zero_ServerStubOwnershipSync_def n v)+
qed

lemma sizes_ServerStubOwnershipEntry:
  "sizes Icl_None (size_ServerStubOwnershipEntry e) (length (wire_ServerStubOwnershipEntry e)) (fits16 (oe_entity_type e) \<and> fits16 (oe_entity_id e) \<and> fits16 (oe_owner_game_node_id e))"
  unfolding size_ServerStubOwnershipEntry_def cluster_AddWireSize_def cluster_GetString16WireSize_def
  by (rule sizes_cong, (rule sizes_intros | simp; fail)+) (simp_all add: wire_ServerStubOwnershipEntry_def)

lemma sizes_ServerStubOwnershipSync:
  "sizes Icl_None (until_error Icl_None
     (cluster_AddWireSize (8 + 4 + 4) #
      map size_ServerStubOwnershipEntry (os_assignments m) @ [cluster_AddWireSize 8]))
     (length (wire_ServerStubOwnershipSync m)) (\<forall>e\<in>set (os_assignments m). fits16 (oe_entity_type e) \<and> fits16 (oe_entity_id e) \<and> fits16 (oe_owner_game_node_id e))"
proof -
  have "sizes Icl_None (until_error Icl_None
     (cluster_AddWireSize (8 + 4 + 4) #
      map size_ServerStubOwnershipEntry (os_assignments m) @ [cluster_AddWireSize 8]))
     (8 + 4 + 4 + (sum_list (map (\<lambda>e. length (wire_ServerStubOwnershipEntry e)) (os_assignments m)) + (8 + 0)))
     (True \<and> (\<forall>e\<in>set (os_assignments m). fits16 (oe_entity_type e) \<and> fits16 (oe_entity_id e) \<and> fits16 (oe_owner_game_node_id e)) \<and> True \<and> True)"
    unfolding cluster_AddWireSize_def
    by (rule sizes_Cons sizes_loop [OF sizes_ServerStubOwnershipEntry] sizes_intros | simp; fail)+
  then show ?thesis
    by (simp add: wire_ServerStubOwnershipSync_def length_concat comp_def add.assoc del: until_error.simps)
qed

lemma length_wire_ServerStubOwnershipSync_le:
  assumes "valid_ServerStubOwnershipSync m"
  shows "length (wire_ServerStubOwnershipSync m) \<le> size_max"
proof -
  have entry: "length (wire_ServerStubOwnershipEntry e) \<le> 196615" if "valid_ServerStubOwnershipEntry e" for e
    using that by (simp add: valid_ServerStubOwnershipEntry_def wire_ServerStubOwnershipEntry_def fits16_def)
  have "sum_list (map (\<lambda>e. length (wire_ServerStubOwnershipEntry e)) xs) \<le> length xs * 196615"
    if "\<forall>e\<in>set xs. valid_ServerStubOwnershipEntry e" for xs
    using that by (induction xs) (auto dest: entry)
  with assms have "sum_list (map (\<lambda>e. length (wire_ServerStubOwnershipEntry e)) (os_assignments m)) \<le> 4294967295 * 196615"
    unfolding valid_ServerStubOwnershipSync_def by (meson le_trans mult_le_mono1)
  then show ?thesis by (simp add: wire_ServerStubOwnershipSync_def length_concat comp_def size_max_def)
qed

lemma GetServerStubOwnershipSyncWireSize_value:
  assumes "valid_ServerStubOwnershipSync m"
  shows "GetServerStubOwnershipSyncWireSize m (Some x) = (Icl_None, Some (length (wire_ServerStubOwnershipSync m)))"
proof -
  have "ValidateServerStubOwnershipSync m = Icl_None" "\<forall>e\<in>set (os_assignments m). fits16 (oe_entity_type e) \<and> fits16 (oe_entity_id e) \<and> fits16 (oe_owner_game_node_id e)"
    using assms by (auto simp: valid_ServerStubOwnershipSync_def valid_ServerStubOwnershipEntry_def ValidateServerStubOwnershipSync_None)
  with sizesD [OF sizes_ServerStubOwnershipSync, of m 0] length_wire_ServerStubOwnershipSync_le [OF assms] show ?thesis
    by (simp add: GetServerStubOwnershipSyncWireSize_def Let_def del: until_error.simps)
qed

interpretation ownership_sync: message_codec
  EncodeServerStubOwnershipSync DecodeServerStubOwnershipSync wire_ServerStubOwnershipSync valid_ServerStubOwnershipSync
  Icl_None Icl_InvalidArgument zero_ServerStubOwnershipSync
proof (rule codec_of_phases [OF _ _ encodes_ServerStubOwnershipSync decodes_ServerStubOwnershipSync,
      where pre = "\<lambda>m buf. case GetServerStubOwnershipSyncWireSize m (Some 0) of (e, n) \<Rightarrow>
        if e \<noteq> Icl_None then e else if length buf < the n then Icl_BufferTooSmall else Icl_None"], goal_cases)
  case (1 m buf)
  show ?case by (simp add: EncodeServerStubOwnershipSync_def encode_with_def split: prod.splits)
next
  case (2 buf p)
  show ?case by (simp add: DecodeServerStubOwnershipSync_def decode_with_def)
next
  case (3 m buf)
  then show ?case by (simp add: GetServerStubOwnershipSyncWireSize_value)
next
  case (4 m)
  then show ?case by (auto simp: valid_ServerStubOwnershipSync_def valid_ServerStubOwnershipEntry_def)
qed

definition wire_ServerStubReadyEntry :: "ServerStubReadyEntry \<Rightarrow> byte list" where
  "wire_ServerStubReadyEntry e = enc_str16 (sre_entity_type e) @ enc_str16 (sre_entity_id e) @ enc_bool (sre_ready e) @ enc_u32 (sre_entry_flags e)"

definition valid_ServerStubReadyEntry :: "ServerStubReadyEntry \<Rightarrow> bool" where
  "valid_ServerStubReadyEntry e \<longleftrightarrow> fits16 (sre_entity_type e) \<and> fits16 (sre_entity_id e) \<and> sre_entry_flags e = 0"

definition wire_GameServiceReadyReport :: "GameServiceReadyReport \<Rightarrow> byte list" where
  "wire_GameServiceReadyReport m =
     (enc_u64 (gs_assignment_epoch m) @ enc_bool (gs_local_ready m) @ enc_u32 (gs_status_flags m) @
      enc_u32 (word_of_nat (length (gs_entries m)))) @
     concat (map wire_ServerStubReadyEntry (gs_entries m)) @ enc_u64 (gs_reported_at_unix_ms m)"

definition valid_GameServiceReadyReport :: "GameServiceReadyReport \<Rightarrow> bool" where
  "valid_GameServiceReadyReport m \<longleftrightarrow> gs_status_flags m = 0 \<and> length (gs_entries m) \<le> 4294967295 \<and>
     (\<forall>e\<in>set (gs_entries m). valid_ServerStubReadyEntry e)"

lemma ValidateGameServiceReadyReport_None:
  "ValidateGameServiceReadyReport m = Icl_None \<longleftrightarrow>
     gs_status_flags m = 0 \<and> (\<forall>e\<in>set (gs_entries m). sre_entry_flags e = 0)"
  by (auto simp: ValidateGameServiceReadyReport_def first_error_None ValidateServerStubReadyEntry_def)

lemma encodes_ServerStubReadyEntry:
  "encodes Icl_None (write_ServerStubReadyEntry e) (wire_ServerStubReadyEntry e) (fits16 (sre_entity_type e) \<and> fits16 (sre_entity_id e))"
  unfolding write_ServerStubReadyEntry_def wire_ServerStubReadyEntry_def
  by (rule encodes_cong, (rule encodes_intros writes_intros | simp; fail)+)

lemma encodes_GameServiceReadyReport:
  "encodes Icl_None (write_GameServiceReadyReport m) (wire_GameServiceReadyReport m)
     (\<forall>e\<in>set (gs_entries m). fits16 (sre_entity_type e) \<and> fits16 (sre_entity_id e))"
proof -
  have "encodes Icl_None (write_GameServiceReadyReport m) (wire_GameServiceReadyReport m)
      (True \<and> (\<forall>e\<in>set (gs_entries m). fits16 (sre_entity_type e) \<and> fits16 (sre_entity_id e)) \<and> True)"
    unfolding write_GameServiceReadyReport_def wire_GameServiceReadyReport_def
  proof (rule encodes_phases)
    show "encodes Icl_None (checked cluster_MapSerializationError bw_error Icl_None (chain
        [WriteUInt64 (gs_assignment_epoch m), WriteBool (gs_local_ready m), WriteUInt32 (gs_status_flags m),
         WriteUInt32 (word_of_nat (length (gs_entries m)))]))
      (enc_u64 (gs_assignment_epoch m) @ enc_bool (gs_local_ready m) @ enc_u32 (gs_status_flags m) @
      enc_u32 (word_of_nat (length (gs_entries m)))) True"
      by (rule encodes_cong, (rule encodes_intros writes_intros | simp; fail)+)
    show "encodes Icl_None (until_error Icl_None (map write_ServerStubReadyEntry (gs_entries m) @
      [checked cluster_MapSerializationError bw_error Icl_None (WriteUInt64 (gs_reported_at_unix_ms m))]))
      (concat (map wire_ServerStubReadyEntry (gs_entries m)) @ enc_u64 (gs_reported_at_unix_ms m))
      ((\<forall>e\<in>set (gs_entries m). fits16 (sre_entity_type e) \<and> fits16 (sre_entity_id e)) \<and> True)"
      by (rule encodes_loop [OF encodes_ServerStubReadyEntry], (rule encodes_intros writes_intros | simp; fail)+)
  qed simp
  then show ?thesis by simp
qed

lemma decodes_ServerStubReadyEntry:
  "decodes Icl_None read_ServerStubReadyEntry (\<lambda>m bs m'. valid_ServerStubReadyEntry m' \<and> bs = wire_ServerStubReadyEntry m')"
  unfolding read_ServerStubReadyEntry_def
proof (rule decodes_cong, (rule decodes_intros reads_intros cluster_MapSerializationError_ne | assumption)+,
    rule iffI, goal_cases)
  case (1 m bs m')
  then show ?case
    by (elim exE conjE, hypsubst)
      (simp add: wire_ServerStubReadyEntry_def valid_ServerStubReadyEntry_def ValidateServerStubReadyEntry_def split: if_splits)
next
  case (2 m bs m')
  then have v: "fits16 (sre_entity_type m')" "fits16 (sre_entity_id m')" "ValidateServerStubReadyEntry m' = Icl_None"
      "sre_entry_flags m' = 0"
    and bs: "bs = wire_ServerStubReadyEntry m'"
    by (simp_all add: valid_ServerStubReadyEntry_def ValidateServerStubReadyEntry_def)
  have wire: "wire_ServerStubReadyEntry m' = (enc_str16 (sre_entity_type m') @ enc_str16 (sre_entity_id m') @ enc_bool (sre_ready m') @ enc_u32 (sre_entry_flags m')) @ []"
    by (simp add: wire_ServerStubReadyEntry_def)
  show ?case unfolding bs wire
    by (intro exI conjI, (rule refl TrueI v)+) (rule TrueI v | simp add: ValidateServerStubReadyEntry_def v)+
qed

lemma decodes_ready_entries:
  "decodes Icl_None read_ready_entries
     (\<lambda>m bs m'. \<exists>vs. bs = concat (map wire_ServerStubReadyEntry vs) \<and>
        m' = apfst (gs_entries_update (\<lambda>_. gs_entries (fst m) @ vs)) m \<and>
        length vs = unat (snd m) \<and> (\<forall>v\<in>set vs. valid_ServerStubReadyEntry v))"
  by (rule decodes_entries [OF decodes_ServerStubReadyEntry]) (auto simp: read_ready_entries_def)

lemma decodes_GameServiceReadyReport:
  "decodes_message Icl_None read_GameServiceReadyReport zero_GameServiceReadyReport
     (\<lambda>bs m. valid_GameServiceReadyReport m \<and> bs = wire_GameServiceReadyReport m)"
  unfolding read_GameServiceReadyReport_def read_GameServiceReadyReport_fields_def
proof (rule decodes_message_local,
    (rule decodes_all_last [OF _ ends_check [OF ends_trailing [OF cluster_CheckTrailingBytes_None]]]
      decodes_ready_entries decodes_intros reads_intros cluster_MapSerializationError_ne | assumption)+,
    rule iffI, goal_cases)
  case (1 bs m)
  then show ?case
    by (elim exE conjE, hypsubst)
      (simp add: zero_GameServiceReadyReport_def wire_GameServiceReadyReport_def valid_GameServiceReadyReport_def
        ValidateGameServiceReadyReport_None unat_u32_le)
next
  case (2 bs m)
  then have v: "ValidateGameServiceReadyReport m = Icl_None" "\<forall>e\<in>set (gs_entries m). valid_ServerStubReadyEntry e"
    and n: "unat (word_of_nat (length (gs_entries m)) :: u32) = length (gs_entries m)"
    and bs: "bs = wire_GameServiceReadyReport m"
    by (auto simp: valid_GameServiceReadyReport_def valid_ServerStubReadyEntry_def ValidateGameServiceReadyReport_None unat_word_of_nat_u32)
  show ?case unfolding bs wire_GameServiceReadyReport_def
    by (intro exI conjI, (rule refl TrueI v)+)
      (rule TrueI v | simp add: zero_GameServiceReadyReport_def n v)+
qed

lemma sizes_ServerStubReadyEntry:
  "sizes Icl_None (size_ServerStubReadyEntry e) (length (wire_ServerStubReadyEntry e)) (fits16 (sre_entity_type e) \<and> fits16 (sre_entity_id e))"
  unfolding size_ServerStubReadyEntry_def cluster_AddWireSize_def cluster_GetString16WireSize_def
  by (rule sizes_cong, (rule sizes_intros | simp; fail)+) (simp_all add: wire_ServerStubReadyEntry_def)

lemma sizes_GameServiceReadyReport:
  "sizes Icl_None (until_error Icl_None
     (cluster_AddWireSize (8 + 1 + 4 + 4) #
      map size_ServerStubReadyEntry (gs_entries m) @ [cluster_AddWireSize 8]))
     (length (wire_GameServiceReadyReport m)) (\<forall>e\<in>set (gs_entries m). fits16 (sre_entity_type e) \<and> fits16 (sre_entity_id e))"
proof -
  have "sizes Icl_None (until_error Icl_None
     (cluster_AddWireSize (8 + 1 + 4 + 4) #
      map size_ServerStubReadyEntry (gs_entries m) @ [cluster_AddWireSize 8]))
     (8 + 1 + 4 + 4 + (sum_list (map (\<lambda>e. length (wire_ServerStubReadyEntry e)) (gs_entries m)) + (8 + 0)))
     (True \<and> (\<forall>e\<in>set (gs_entries m). fits16 (sre_entity_type e) \<and> fits16 (sre_entity_id e)) \<and> True \<and> True)"
    unfolding cluster_AddWireSize_def
    by (rule sizes_Cons sizes_loop [OF sizes_ServerStubReadyEntry] sizes_intros | simp; fail)+
  then show ?thesis
    by (simp add: wire_GameServiceReadyReport_def length_concat comp_def add.assoc del: until_error.simps)
qed

lemma length_wire_GameServiceReadyReport_le:
  assumes "valid_GameServiceReadyReport m"
  shows "length (wire_GameServiceReadyReport m) \<le> size_max"
proof -
  have entry: "length (wire_ServerStubReadyEntry e) \<le> 131079" if "valid_ServerStubReadyEntry e" for e
    using that by (simp add: valid_ServerStubReadyEntry_def wire_ServerStubReadyEntry_def fits16_def)
  have "sum_list (map (\<lambda>e. length (wire_ServerStubReadyEntry e)) xs) \<le> length xs * 131079"
    if "\<forall>e\<in>set xs. valid_ServerStubReadyEntry e" for xs
    using that by (induction xs) (auto dest: entry)
  with assms have "sum_list (map (\<lambda>e. length (wire_ServerStubReadyEntry e)) (gs_entries m)) \<le> 4294967295 * 131079"
    unfolding valid_GameServiceReadyReport_def by (meson le_trans mult_le_mono1)
  then show ?thesis by (simp add: wire_GameServiceReadyReport_def length_concat comp_def size_max_def)
qed

lemma GetGameServiceReadyReportWireSize_value:
  assumes "valid_GameServiceReadyReport m"
  shows "GetGameServiceReadyReportWireSize m (Some x) = (Icl_None, Some (length (wire_GameServiceReadyReport m)))"
proof -
  have "ValidateGameServiceReadyReport m = Icl_None" "\<forall>e\<in>set (gs_entries m). fits16 (sre_entity_type e) \<and> fits16 (sre_entity_id e)"
    using assms by (auto simp: valid_GameServiceReadyReport_def valid_ServerStubReadyEntry_def ValidateGameServiceReadyReport_None)
  with sizesD [OF sizes_GameServiceReadyReport, of m 0] length_wire_GameServiceReadyReport_le [OF assms] show ?thesis
    by (simp add: GetGameServiceReadyReportWireSize_def Let_def del: until_error.simps)
qed

interpretation service_ready_report: message_codec
  EncodeGameServiceReadyReport DecodeGameServiceReadyReport wire_GameServiceReadyReport valid_GameServiceReadyReport
  Icl_None Icl_InvalidArgument zero_GameServiceReadyReport
proof (rule codec_of_phases [OF _ _ encodes_GameServiceReadyReport decodes_GameServiceReadyReport,
      where pre = "\<lambda>m buf. case GetGameServiceReadyReportWireSize m (Some 0) of (e, n) \<Rightarrow>
        if e \<noteq> Icl_None then e else if length buf < the n then Icl_BufferTooSmall else Icl_None"], goal_cases)
  case (1 m buf)
  show ?case by (simp add: EncodeGameServiceReadyReport_def encode_with_def split: prod.splits)
next
  case (2 buf p)
  show ?case by (simp add: DecodeGameServiceReadyReport_def decode_with_def)
next
  case (3 m buf)
  then show ?case by (simp add: GetGameServiceReadyReportWireSize_value)
next
  case (4 m)
  then show ?case by (auto simp: valid_GameServiceReadyReport_def valid_ServerStubReadyEntry_def)
qed

section \<open>Properties\<close>

text \<open>
  C28. The fixed-size cluster messages decode exactly from the bytes that their encoders write:
  right size, status flags zero, booleans encoded as 0 or 1, no trailing byte.
\<close>

theorem cluster_decode_iff_encode:
  "(DecodeClusterNodesOnlineNotify buffer (Some x) = (Icl_None, Some online) \<longleftrightarrow>
      length buffer = kClusterNodesOnlineNotifySize \<and>
      EncodeClusterNodesOnlineNotify online buffer = (Icl_None, buffer)) \<and>
   (DecodeGameGateMeshReadyReport buffer (Some y) = (Icl_None, Some mesh) \<longleftrightarrow>
      length buffer = kGameGateMeshReadyReportSize \<and>
      EncodeGameGateMeshReadyReport mesh buffer = (Icl_None, buffer)) \<and>
   (DecodeClusterReadyNotify buffer (Some z) = (Icl_None, Some ready) \<longleftrightarrow>
      length buffer = kClusterReadyNotifySize \<and>
      EncodeClusterReadyNotify ready buffer = (Icl_None, buffer))"
  using nodes_online_notify.decode_encode_iff mesh_ready_report.decode_encode_iff
    cluster_ready_notify.decode_encode_iff
  by (simp add: wire_ClusterNodesOnlineNotify_def wire_GameGateMeshReadyReport_def wire_ClusterReadyNotify_def
      kClusterNodesOnlineNotifySize_def kGameGateMeshReadyReportSize_def kClusterReadyNotifySize_def)

text \<open>
  C29. A stub ownership table that the decoder accepts is one that the encoder produces: the
  buffer is exactly what encoding the decoded table writes into a buffer of the computed size,
  every entry has zero flags, and nothing follows the table.
\<close>

theorem ownership_sync_canonical:
  assumes "DecodeServerStubOwnershipSync buffer (Some x) = (Icl_None, Some sync)"
    and "length buffer' = length buffer"
  shows "EncodeServerStubOwnershipSync sync buffer' = (Icl_None, buffer) \<and>
    GetServerStubOwnershipSyncWireSize sync (Some 0) = (Icl_None, Some (length buffer)) \<and>
    os_status_flags sync = 0 \<and> (\<forall>e\<in>set (os_assignments sync). oe_entry_flags e = 0)"
  using ownership_sync.canonical [OF assms] ownership_sync.decode_valid [OF assms(1)]
  by (auto simp: GetServerStubOwnershipSyncWireSize_value valid_ServerStubOwnershipSync_def
      valid_ServerStubOwnershipEntry_def)

text \<open>
  C23. A stub ownership table with fewer than \<open>2 ^ 32\<close> entries, zero flags and strings that fit
  their length prefixes survives the trip over the wire: encoding it into a buffer of the
  computed size succeeds and decoding that buffer gives the same table.
\<close>

theorem ownership_sync_roundtrip:
  assumes "os_status_flags sync = 0" "length (os_assignments sync) < 2 ^ 32"
    and "\<forall>e\<in>set (os_assignments sync). oe_entry_flags e = 0 \<and> length (oe_entity_type e) \<le> 65535 \<and>
      length (oe_entity_id e) \<le> 65535 \<and> length (oe_owner_game_node_id e) \<le> 65535"
    and "GetServerStubOwnershipSyncWireSize sync (Some 0) = (Icl_None, Some (length buffer))"
  shows "fst (EncodeServerStubOwnershipSync sync buffer) = Icl_None \<and>
    DecodeServerStubOwnershipSync (snd (EncodeServerStubOwnershipSync sync buffer)) (Some x) = (Icl_None, Some sync)"
proof -
  have v: "valid_ServerStubOwnershipSync sync"
    using assms(1-3) by (simp add: valid_ServerStubOwnershipSync_def valid_ServerStubOwnershipEntry_def fits16_def)
  then have "length buffer = length (wire_ServerStubOwnershipSync sync)"
    using assms(4) by (simp add: GetServerStubOwnershipSyncWireSize_value)
  with v show ?thesis by (rule ownership_sync.roundtrip)
qed

definition sample_ownership :: ServerStubOwnershipSync where
  "sample_ownership = \<lparr>os_assignment_epoch = 3, os_status_flags = 0,
     os_assignments = [\<lparr>oe_entity_type = ''Match'', oe_entity_id = ''m'', oe_owner_game_node_id = ''Game0'',
       oe_entry_flags = 0\<rparr>], os_server_now_unix_ms = 9\<rparr>"

theorem ownership_sync_roundtrip_witness:
  "GetServerStubOwnershipSyncWireSize sample_ownership (Some 0) = (Icl_None, Some 45) \<and>
   DecodeServerStubOwnershipSync (snd (EncodeServerStubOwnershipSync sample_ownership (replicate 45 0)))
     (Some zero_ServerStubOwnershipSync) = (Icl_None, Some sample_ownership)"
proof -
  have "valid_ServerStubOwnershipSync sample_ownership" "length (wire_ServerStubOwnershipSync sample_ownership) = 45"
    by (simp_all add: sample_ownership_def valid_ServerStubOwnershipSync_def valid_ServerStubOwnershipEntry_def
        wire_ServerStubOwnershipSync_def wire_ServerStubOwnershipEntry_def fits16_def)
  then have size: "GetServerStubOwnershipSyncWireSize sample_ownership (Some 0) = (Icl_None, Some 45)"
    by (simp add: GetServerStubOwnershipSyncWireSize_value)
  then show ?thesis
    using ownership_sync_roundtrip [of sample_ownership "replicate 45 0" zero_ServerStubOwnershipSync]
    by (simp add: sample_ownership_def)
qed

theorem ownership_sync_canonical_witness:
  "EncodeServerStubOwnershipSync zero_ServerStubOwnershipSync (replicate 24 1) = (Icl_None, replicate 24 0)"
proof -
  have "DecodeServerStubOwnershipSync (replicate 24 0) (Some zero_ServerStubOwnershipSync) =
    (Icl_None, Some zero_ServerStubOwnershipSync)" by code_simp
  from ownership_sync_canonical [OF this, of "replicate 24 1"] show ?thesis by simp
qed

text \<open>
  The same for the readiness report of a game: what the decoder accepts is exactly what the
  encoder writes for the decoded report.
\<close>

theorem service_ready_report_canonical:
  assumes "DecodeGameServiceReadyReport buffer (Some x) = (Icl_None, Some report)"
    and "length buffer' = length buffer"
  shows "EncodeGameServiceReadyReport report buffer' = (Icl_None, buffer) \<and>
    GetGameServiceReadyReportWireSize report (Some 0) = (Icl_None, Some (length buffer)) \<and>
    gs_status_flags report = 0 \<and> (\<forall>e\<in>set (gs_entries report). sre_entry_flags e = 0)"
  using service_ready_report.canonical [OF assms] service_ready_report.decode_valid [OF assms(1)]
  by (auto simp: GetGameServiceReadyReportWireSize_value valid_GameServiceReadyReport_def
      valid_ServerStubReadyEntry_def)

theorem service_ready_report_canonical_witness:
  "EncodeGameServiceReadyReport zero_GameServiceReadyReport (replicate 25 1) = (Icl_None, replicate 25 0)"
proof -
  have "DecodeGameServiceReadyReport (replicate 25 0) (Some zero_GameServiceReadyReport) =
    (Icl_None, Some zero_GameServiceReadyReport)" by code_simp
  from service_ready_report_canonical [OF this, of "replicate 25 1"] show ?thesis by simp
qed

end
