(* ===== verification/RelayCodec.thy ===== *)
theory RelayCodec
  imports Codec
begin

text \<open>
  \<^verbatim>\<open>net/message/RelayCodec.h\<close> and \<^verbatim>\<open>.cpp\<close>: the three messages that gates and games relay
  for one another, each with up to four strings, two numbers and a payload with a 32-bit length.
  The size computations are separate operations, which the callers use to allocate the buffer.
\<close>

section \<open>Messages and error codes\<close>

datatype RelayCodecErrorCode =
    Rly_None
  | Rly_BufferTooSmall
  | Rly_LengthOverflow
  | Rly_InvalidArgument
  | Rly_InvalidSourceGameNodeId
  | Rly_InvalidTargetGameNodeId
  | Rly_InvalidTargetMailboxName
  | Rly_InvalidRouteGateNodeId
  | Rly_InvalidTargetEntityId
  | Rly_InvalidMessageId
  | Rly_InvalidRelayFlags
  | Rly_TrailingBytes

fun RelayCodecErrorMessage :: "RelayCodecErrorCode \<Rightarrow> string" where
  "RelayCodecErrorMessage Rly_None = ''Success.''"
| "RelayCodecErrorMessage Rly_BufferTooSmall =
     ''Buffer does not contain enough bytes for the requested relay operation.''"
| "RelayCodecErrorMessage Rly_LengthOverflow = ''Relay message length exceeds the supported range.''"
| "RelayCodecErrorMessage Rly_InvalidArgument = ''Relay codec output argument must not be null.''"
| "RelayCodecErrorMessage Rly_InvalidSourceGameNodeId = ''Relay sourceGameNodeId must not be empty.''"
| "RelayCodecErrorMessage Rly_InvalidTargetGameNodeId = ''Relay targetGameNodeId must not be empty.''"
| "RelayCodecErrorMessage Rly_InvalidTargetMailboxName =
     ''Relay targetMailboxName must not be empty when targetEntityId is absent.''"
| "RelayCodecErrorMessage Rly_InvalidRouteGateNodeId = ''Relay routeGateNodeId must not be empty.''"
| "RelayCodecErrorMessage Rly_InvalidTargetEntityId =
     ''Relay targetEntityId must be a canonical GUID string.''"
| "RelayCodecErrorMessage Rly_InvalidMessageId = ''Relay message msgId must not be zero.''"
| "RelayCodecErrorMessage Rly_InvalidRelayFlags = ''Relay relayFlags must be zero.''"
| "RelayCodecErrorMessage Rly_TrailingBytes = ''Relay buffer must not contain trailing bytes.''"

record RelayForwardMailboxCall =
  mc_source_game_node_id :: string
  mc_target_game_node_id :: string
  mc_target_entity_id :: string
  mc_target_mailbox_name :: string
  mc_mailbox_call_msg_id :: u32
  mc_relay_flags :: u32
  mc_payload :: "byte list"

record RelayForwardProxyCall =
  pc_source_game_node_id :: string
  pc_route_gate_node_id :: string
  pc_target_entity_id :: string
  pc_proxy_call_msg_id :: u32
  pc_relay_flags :: u32
  pc_payload :: "byte list"

record RelayPushToClient =
  pu_source_game_node_id :: string
  pu_route_gate_node_id :: string
  pu_target_entity_id :: string
  pu_client_msg_id :: u32
  pu_relay_flags :: u32
  pu_payload :: "byte list"

definition zero_RelayForwardMailboxCall :: RelayForwardMailboxCall where
  "zero_RelayForwardMailboxCall = \<lparr>mc_source_game_node_id = [], mc_target_game_node_id = [], mc_target_entity_id = [], mc_target_mailbox_name = [],
     mc_mailbox_call_msg_id = 0, mc_relay_flags = 0, mc_payload = []\<rparr>"

definition zero_RelayForwardProxyCall :: RelayForwardProxyCall where
  "zero_RelayForwardProxyCall = \<lparr>pc_source_game_node_id = [], pc_route_gate_node_id = [], pc_target_entity_id = [],
     pc_proxy_call_msg_id = 0, pc_relay_flags = 0, pc_payload = []\<rparr>"

definition zero_RelayPushToClient :: RelayPushToClient where
  "zero_RelayPushToClient = \<lparr>pu_source_game_node_id = [], pu_route_gate_node_id = [], pu_target_entity_id = [],
     pu_client_msg_id = 0, pu_relay_flags = 0, pu_payload = []\<rparr>"

section \<open>Helpers\<close>

fun relay_MapSerializationError :: "SerializationErrorCode \<Rightarrow> RelayCodecErrorCode" where
  "relay_MapSerializationError Ser_None = Rly_None"
| "relay_MapSerializationError Ser_BufferTooSmall = Rly_BufferTooSmall"
| "relay_MapSerializationError Ser_LengthOverflow = Rly_LengthOverflow"
| "relay_MapSerializationError Ser_InvalidArgument = Rly_InvalidArgument"
| "relay_MapSerializationError Ser_InvalidBoolValue = Rly_InvalidArgument"

lemma relay_MapSerializationError_ne: "e \<noteq> Ser_None \<Longrightarrow> relay_MapSerializationError e \<noteq> Rly_None"
  by (cases e) auto

definition relay_AddWireSize :: "nat \<Rightarrow> nat \<Rightarrow> RelayCodecErrorCode \<times> nat" where
  "relay_AddWireSize = add_wire_size Rly_None Rly_LengthOverflow"

definition relay_GetString16WireSize :: "string \<Rightarrow> nat \<Rightarrow> RelayCodecErrorCode \<times> nat" where
  "relay_GetString16WireSize = string16_wire_size Rly_None Rly_LengthOverflow"

text \<open>\<^verbatim>\<open>std::isxdigit\<close> in the C locale.\<close>

definition isxdigit :: "char \<Rightarrow> bool" where
  "isxdigit ch \<longleftrightarrow> (CHR ''0'' \<le> ch \<and> ch \<le> CHR ''9'') \<or> (CHR ''a'' \<le> ch \<and> ch \<le> CHR ''f'') \<or>
     (CHR ''A'' \<le> ch \<and> ch \<le> CHR ''F'')"

definition should_be_dash :: "nat \<Rightarrow> bool" where
  "should_be_dash index \<longleftrightarrow> index = 8 \<or> index = 13 \<or> index = 18 \<or> index = 23"

primrec guid_loop :: "nat \<Rightarrow> string \<Rightarrow> bool" where
  "guid_loop index [] = True"
| "guid_loop index (ch # rest) =
     (if should_be_dash index then (if ch \<noteq> CHR ''-'' then False else guid_loop (Suc index) rest)
      else if \<not> isxdigit ch then False else guid_loop (Suc index) rest)"

definition IsCanonicalGuidText :: "string \<Rightarrow> bool" where
  "IsCanonicalGuidText value \<longleftrightarrow> (if length value \<noteq> 36 then False else guid_loop 0 value)"

definition ValidateRelayForwardMailboxCall :: "RelayForwardMailboxCall \<Rightarrow> RelayCodecErrorCode" where
  "ValidateRelayForwardMailboxCall message =
     (if mc_source_game_node_id message = [] then Rly_InvalidSourceGameNodeId
      else if mc_target_game_node_id message = [] then Rly_InvalidTargetGameNodeId
      else if mc_target_entity_id message \<noteq> [] \<and> \<not> IsCanonicalGuidText (mc_target_entity_id message)
        then Rly_InvalidTargetEntityId
      else if mc_target_mailbox_name message = [] \<and> mc_target_entity_id message = []
        then Rly_InvalidTargetMailboxName
      else if mc_mailbox_call_msg_id message = 0 then Rly_InvalidMessageId
      else if mc_relay_flags message \<noteq> 0 then Rly_InvalidRelayFlags
      else Rly_None)"

definition ValidateRelayForwardProxyCall :: "RelayForwardProxyCall \<Rightarrow> RelayCodecErrorCode" where
  "ValidateRelayForwardProxyCall message =
     (if pc_source_game_node_id message = [] then Rly_InvalidSourceGameNodeId
      else if pc_route_gate_node_id message = [] then Rly_InvalidRouteGateNodeId
      else if \<not> IsCanonicalGuidText (pc_target_entity_id message) then Rly_InvalidTargetEntityId
      else if pc_proxy_call_msg_id message = 0 then Rly_InvalidMessageId
      else if pc_relay_flags message \<noteq> 0 then Rly_InvalidRelayFlags
      else Rly_None)"

definition ValidateRelayPushToClient :: "RelayPushToClient \<Rightarrow> RelayCodecErrorCode" where
  "ValidateRelayPushToClient message =
     (if pu_source_game_node_id message = [] then Rly_InvalidSourceGameNodeId
      else if pu_route_gate_node_id message = [] then Rly_InvalidRouteGateNodeId
      else if \<not> IsCanonicalGuidText (pu_target_entity_id message) then Rly_InvalidTargetEntityId
      else if pu_client_msg_id message = 0 then Rly_InvalidMessageId
      else if pu_relay_flags message \<noteq> 0 then Rly_InvalidRelayFlags
      else Rly_None)"

definition relay_CheckTrailingBytes :: "BinaryReader \<Rightarrow> RelayCodecErrorCode" where
  "relay_CheckTrailingBytes reader =
     (if reader_remaining reader \<noteq> 0 then Rly_TrailingBytes else Rly_None)"

lemma relay_CheckTrailingBytes_None:
  "relay_CheckTrailingBytes r = Rly_None \<longleftrightarrow> reader_remaining r = 0"
  by (simp add: relay_CheckTrailingBytes_def)

section \<open>Operations\<close>

text \<open>
  The decoders read the payload into a local span and copy it into the message after the checks;
  their state is the message parsed so far and that span.
\<close>

definition GetRelayForwardMailboxCallWireSize ::
    "RelayForwardMailboxCall \<Rightarrow> nat ptr \<Rightarrow> RelayCodecErrorCode \<times> nat ptr" where
  "GetRelayForwardMailboxCallWireSize message wire_size =
     (if wire_size = None then (Rly_InvalidArgument, None)
      else let validation_result = ValidateRelayForwardMailboxCall message in
        if validation_result \<noteq> Rly_None then (validation_result, Some 0)
        else case until_error Rly_None
          [add_field Rly_None Rly_LengthOverflow (relay_GetString16WireSize (mc_source_game_node_id message) 0),
           add_field Rly_None Rly_LengthOverflow (relay_GetString16WireSize (mc_target_game_node_id message) 0),
           add_field Rly_None Rly_LengthOverflow (relay_GetString16WireSize (mc_target_entity_id message) 0),
           add_field Rly_None Rly_LengthOverflow (relay_GetString16WireSize (mc_target_mailbox_name message) 0),
           (\<lambda>total_size. if length (mc_payload message) > 4294967295 then (Rly_LengthOverflow, total_size)
              else (Rly_None, total_size)),
           relay_AddWireSize (4 * 3 + length (mc_payload message))] 0 of
          (result, total_size) \<Rightarrow> (result, Some total_size))"

definition write_RelayForwardMailboxCall ::
    "RelayForwardMailboxCall \<Rightarrow> BinaryWriter \<Rightarrow> RelayCodecErrorCode \<times> BinaryWriter" where
  "write_RelayForwardMailboxCall message =
     checked relay_MapSerializationError bw_error Rly_None (chain
       [WriteString16 (mc_source_game_node_id message), WriteString16 (mc_target_game_node_id message), WriteString16 (mc_target_entity_id message), WriteString16 (mc_target_mailbox_name message),
        WriteUInt32 (mc_mailbox_call_msg_id message), WriteUInt32 (mc_relay_flags message),
        WriteLengthPrefixedBytes32 (mc_payload message)])"

definition EncodeRelayForwardMailboxCall ::
    "RelayForwardMailboxCall \<Rightarrow> byte list \<Rightarrow> RelayCodecErrorCode \<times> byte list" where
  "EncodeRelayForwardMailboxCall message buffer =
     (let validation_result = ValidateRelayForwardMailboxCall message in
      if validation_result \<noteq> Rly_None then (validation_result, buffer)
      else case write_RelayForwardMailboxCall message (new_BinaryWriter buffer) of
        (result, writer) \<Rightarrow> (result, bw_buffer writer))"

definition read_RelayForwardMailboxCall_fields ::
    "BinaryReader \<times> RelayForwardMailboxCall \<times> byte list \<Rightarrow>
     RelayCodecErrorCode \<times> BinaryReader \<times> RelayForwardMailboxCall \<times> byte list" where
  "read_RelayForwardMailboxCall_fields = until_error Rly_None
     [checked relay_MapSerializationError (\<lambda>s. br_error (fst s)) Rly_None (chain
        [read_into ReadString16 (\<lambda>m. mc_source_game_node_id (fst m)) (\<lambda>f. apfst (mc_source_game_node_id_update f)),
         read_into ReadString16 (\<lambda>m. mc_target_game_node_id (fst m)) (\<lambda>f. apfst (mc_target_game_node_id_update f)),
         read_into ReadString16 (\<lambda>m. mc_target_entity_id (fst m)) (\<lambda>f. apfst (mc_target_entity_id_update f)),
         read_into ReadString16 (\<lambda>m. mc_target_mailbox_name (fst m)) (\<lambda>f. apfst (mc_target_mailbox_name_update f)),
         read_into ReadUInt32 (\<lambda>m. mc_mailbox_call_msg_id (fst m)) (\<lambda>f. apfst (mc_mailbox_call_msg_id_update f)),
         read_into ReadUInt32 (\<lambda>m. mc_relay_flags (fst m)) (\<lambda>f. apfst (mc_relay_flags_update f)),
         read_into ReadLengthPrefixedBytes32 snd apsnd]),
      check_message (\<lambda>m. ValidateRelayForwardMailboxCall (fst m)),
      check_reader relay_CheckTrailingBytes]"

definition read_RelayForwardMailboxCall ::
    "BinaryReader \<times> RelayForwardMailboxCall \<Rightarrow>
     RelayCodecErrorCode \<times> BinaryReader \<times> RelayForwardMailboxCall" where
  "read_RelayForwardMailboxCall = (\<lambda>(reader, parsed_message).
     case read_RelayForwardMailboxCall_fields (reader, parsed_message, []) of (result, reader, s) \<Rightarrow>
       (result, reader, (\<lambda>(parsed_message, payload). parsed_message\<lparr>mc_payload := payload\<rparr>) s))"

definition DecodeRelayForwardMailboxCall ::
    "byte list \<Rightarrow> RelayForwardMailboxCall ptr \<Rightarrow> RelayCodecErrorCode \<times> RelayForwardMailboxCall ptr" where
  "DecodeRelayForwardMailboxCall buffer message =
     (if message = None then (Rly_InvalidArgument, None)
      else case read_RelayForwardMailboxCall (new_BinaryReader buffer, zero_RelayForwardMailboxCall) of
        (result, reader, parsed_message) \<Rightarrow>
        if result \<noteq> Rly_None then (result, Some zero_RelayForwardMailboxCall)
        else (Rly_None, Some parsed_message))"

definition GetRelayForwardProxyCallWireSize ::
    "RelayForwardProxyCall \<Rightarrow> nat ptr \<Rightarrow> RelayCodecErrorCode \<times> nat ptr" where
  "GetRelayForwardProxyCallWireSize message wire_size =
     (if wire_size = None then (Rly_InvalidArgument, None)
      else let validation_result = ValidateRelayForwardProxyCall message in
        if validation_result \<noteq> Rly_None then (validation_result, Some 0)
        else case until_error Rly_None
          [add_field Rly_None Rly_LengthOverflow (relay_GetString16WireSize (pc_source_game_node_id message) 0),
           add_field Rly_None Rly_LengthOverflow (relay_GetString16WireSize (pc_route_gate_node_id message) 0),
           add_field Rly_None Rly_LengthOverflow (relay_GetString16WireSize (pc_target_entity_id message) 0),
           (\<lambda>total_size. if length (pc_payload message) > 4294967295 then (Rly_LengthOverflow, total_size)
              else (Rly_None, total_size)),
           relay_AddWireSize (4 * 3 + length (pc_payload message))] 0 of
          (result, total_size) \<Rightarrow> (result, Some total_size))"

definition write_RelayForwardProxyCall ::
    "RelayForwardProxyCall \<Rightarrow> BinaryWriter \<Rightarrow> RelayCodecErrorCode \<times> BinaryWriter" where
  "write_RelayForwardProxyCall message =
     checked relay_MapSerializationError bw_error Rly_None (chain
       [WriteString16 (pc_source_game_node_id message), WriteString16 (pc_route_gate_node_id message), WriteString16 (pc_target_entity_id message),
        WriteUInt32 (pc_proxy_call_msg_id message), WriteUInt32 (pc_relay_flags message),
        WriteLengthPrefixedBytes32 (pc_payload message)])"

definition EncodeRelayForwardProxyCall ::
    "RelayForwardProxyCall \<Rightarrow> byte list \<Rightarrow> RelayCodecErrorCode \<times> byte list" where
  "EncodeRelayForwardProxyCall message buffer =
     (let validation_result = ValidateRelayForwardProxyCall message in
      if validation_result \<noteq> Rly_None then (validation_result, buffer)
      else case write_RelayForwardProxyCall message (new_BinaryWriter buffer) of
        (result, writer) \<Rightarrow> (result, bw_buffer writer))"

definition read_RelayForwardProxyCall_fields ::
    "BinaryReader \<times> RelayForwardProxyCall \<times> byte list \<Rightarrow>
     RelayCodecErrorCode \<times> BinaryReader \<times> RelayForwardProxyCall \<times> byte list" where
  "read_RelayForwardProxyCall_fields = until_error Rly_None
     [checked relay_MapSerializationError (\<lambda>s. br_error (fst s)) Rly_None (chain
        [read_into ReadString16 (\<lambda>m. pc_source_game_node_id (fst m)) (\<lambda>f. apfst (pc_source_game_node_id_update f)),
         read_into ReadString16 (\<lambda>m. pc_route_gate_node_id (fst m)) (\<lambda>f. apfst (pc_route_gate_node_id_update f)),
         read_into ReadString16 (\<lambda>m. pc_target_entity_id (fst m)) (\<lambda>f. apfst (pc_target_entity_id_update f)),
         read_into ReadUInt32 (\<lambda>m. pc_proxy_call_msg_id (fst m)) (\<lambda>f. apfst (pc_proxy_call_msg_id_update f)),
         read_into ReadUInt32 (\<lambda>m. pc_relay_flags (fst m)) (\<lambda>f. apfst (pc_relay_flags_update f)),
         read_into ReadLengthPrefixedBytes32 snd apsnd]),
      check_message (\<lambda>m. ValidateRelayForwardProxyCall (fst m)),
      check_reader relay_CheckTrailingBytes]"

definition read_RelayForwardProxyCall ::
    "BinaryReader \<times> RelayForwardProxyCall \<Rightarrow>
     RelayCodecErrorCode \<times> BinaryReader \<times> RelayForwardProxyCall" where
  "read_RelayForwardProxyCall = (\<lambda>(reader, parsed_message).
     case read_RelayForwardProxyCall_fields (reader, parsed_message, []) of (result, reader, s) \<Rightarrow>
       (result, reader, (\<lambda>(parsed_message, payload). parsed_message\<lparr>pc_payload := payload\<rparr>) s))"

definition DecodeRelayForwardProxyCall ::
    "byte list \<Rightarrow> RelayForwardProxyCall ptr \<Rightarrow> RelayCodecErrorCode \<times> RelayForwardProxyCall ptr" where
  "DecodeRelayForwardProxyCall buffer message =
     (if message = None then (Rly_InvalidArgument, None)
      else case read_RelayForwardProxyCall (new_BinaryReader buffer, zero_RelayForwardProxyCall) of
        (result, reader, parsed_message) \<Rightarrow>
        if result \<noteq> Rly_None then (result, Some zero_RelayForwardProxyCall)
        else (Rly_None, Some parsed_message))"

definition GetRelayPushToClientWireSize ::
    "RelayPushToClient \<Rightarrow> nat ptr \<Rightarrow> RelayCodecErrorCode \<times> nat ptr" where
  "GetRelayPushToClientWireSize message wire_size =
     (if wire_size = None then (Rly_InvalidArgument, None)
      else let validation_result = ValidateRelayPushToClient message in
        if validation_result \<noteq> Rly_None then (validation_result, Some 0)
        else case until_error Rly_None
          [add_field Rly_None Rly_LengthOverflow (relay_GetString16WireSize (pu_source_game_node_id message) 0),
           add_field Rly_None Rly_LengthOverflow (relay_GetString16WireSize (pu_route_gate_node_id message) 0),
           add_field Rly_None Rly_LengthOverflow (relay_GetString16WireSize (pu_target_entity_id message) 0),
           (\<lambda>total_size. if length (pu_payload message) > 4294967295 then (Rly_LengthOverflow, total_size)
              else (Rly_None, total_size)),
           relay_AddWireSize (4 * 3 + length (pu_payload message))] 0 of
          (result, total_size) \<Rightarrow> (result, Some total_size))"

definition write_RelayPushToClient ::
    "RelayPushToClient \<Rightarrow> BinaryWriter \<Rightarrow> RelayCodecErrorCode \<times> BinaryWriter" where
  "write_RelayPushToClient message =
     checked relay_MapSerializationError bw_error Rly_None (chain
       [WriteString16 (pu_source_game_node_id message), WriteString16 (pu_route_gate_node_id message), WriteString16 (pu_target_entity_id message),
        WriteUInt32 (pu_client_msg_id message), WriteUInt32 (pu_relay_flags message),
        WriteLengthPrefixedBytes32 (pu_payload message)])"

definition EncodeRelayPushToClient ::
    "RelayPushToClient \<Rightarrow> byte list \<Rightarrow> RelayCodecErrorCode \<times> byte list" where
  "EncodeRelayPushToClient message buffer =
     (let validation_result = ValidateRelayPushToClient message in
      if validation_result \<noteq> Rly_None then (validation_result, buffer)
      else case write_RelayPushToClient message (new_BinaryWriter buffer) of
        (result, writer) \<Rightarrow> (result, bw_buffer writer))"

definition read_RelayPushToClient_fields ::
    "BinaryReader \<times> RelayPushToClient \<times> byte list \<Rightarrow>
     RelayCodecErrorCode \<times> BinaryReader \<times> RelayPushToClient \<times> byte list" where
  "read_RelayPushToClient_fields = until_error Rly_None
     [checked relay_MapSerializationError (\<lambda>s. br_error (fst s)) Rly_None (chain
        [read_into ReadString16 (\<lambda>m. pu_source_game_node_id (fst m)) (\<lambda>f. apfst (pu_source_game_node_id_update f)),
         read_into ReadString16 (\<lambda>m. pu_route_gate_node_id (fst m)) (\<lambda>f. apfst (pu_route_gate_node_id_update f)),
         read_into ReadString16 (\<lambda>m. pu_target_entity_id (fst m)) (\<lambda>f. apfst (pu_target_entity_id_update f)),
         read_into ReadUInt32 (\<lambda>m. pu_client_msg_id (fst m)) (\<lambda>f. apfst (pu_client_msg_id_update f)),
         read_into ReadUInt32 (\<lambda>m. pu_relay_flags (fst m)) (\<lambda>f. apfst (pu_relay_flags_update f)),
         read_into ReadLengthPrefixedBytes32 snd apsnd]),
      check_message (\<lambda>m. ValidateRelayPushToClient (fst m)),
      check_reader relay_CheckTrailingBytes]"

definition read_RelayPushToClient ::
    "BinaryReader \<times> RelayPushToClient \<Rightarrow>
     RelayCodecErrorCode \<times> BinaryReader \<times> RelayPushToClient" where
  "read_RelayPushToClient = (\<lambda>(reader, parsed_message).
     case read_RelayPushToClient_fields (reader, parsed_message, []) of (result, reader, s) \<Rightarrow>
       (result, reader, (\<lambda>(parsed_message, payload). parsed_message\<lparr>pu_payload := payload\<rparr>) s))"

definition DecodeRelayPushToClient ::
    "byte list \<Rightarrow> RelayPushToClient ptr \<Rightarrow> RelayCodecErrorCode \<times> RelayPushToClient ptr" where
  "DecodeRelayPushToClient buffer message =
     (if message = None then (Rly_InvalidArgument, None)
      else case read_RelayPushToClient (new_BinaryReader buffer, zero_RelayPushToClient) of
        (result, reader, parsed_message) \<Rightarrow>
        if result \<noteq> Rly_None then (result, Some zero_RelayPushToClient)
        else (Rly_None, Some parsed_message))"

section \<open>The relay codecs implement their contract\<close>

definition wire_RelayForwardMailboxCall :: "RelayForwardMailboxCall \<Rightarrow> byte list" where
  "wire_RelayForwardMailboxCall m = enc_str16 (mc_source_game_node_id m) @ enc_str16 (mc_target_game_node_id m) @ enc_str16 (mc_target_entity_id m) @ enc_str16 (mc_target_mailbox_name m) @
     enc_u32 (mc_mailbox_call_msg_id m) @ enc_u32 (mc_relay_flags m) @ enc_bytes32 (mc_payload m)"

definition valid_RelayForwardMailboxCall :: "RelayForwardMailboxCall \<Rightarrow> bool" where
  "valid_RelayForwardMailboxCall m \<longleftrightarrow> ValidateRelayForwardMailboxCall m = Rly_None \<and>
     fits16 (mc_source_game_node_id m) \<and> fits16 (mc_target_game_node_id m) \<and> fits16 (mc_target_entity_id m) \<and> fits16 (mc_target_mailbox_name m) \<and> fits32 (mc_payload m)"

lemma encodes_RelayForwardMailboxCall:
  "encodes Rly_None (write_RelayForwardMailboxCall m) (wire_RelayForwardMailboxCall m)
     (fits16 (mc_source_game_node_id m) \<and> fits16 (mc_target_game_node_id m) \<and> fits16 (mc_target_entity_id m) \<and> fits16 (mc_target_mailbox_name m) \<and> fits32 (mc_payload m))"
  unfolding write_RelayForwardMailboxCall_def wire_RelayForwardMailboxCall_def
  by (rule encodes_cong, (rule encodes_intros writes_intros | simp; fail)+)

lemma ValidateRelayForwardMailboxCall_None:
  "ValidateRelayForwardMailboxCall m = Rly_None \<longleftrightarrow>
     mc_source_game_node_id m \<noteq> [] \<and> mc_target_game_node_id m \<noteq> [] \<and>
     (mc_target_entity_id m = [] \<longrightarrow> mc_target_mailbox_name m \<noteq> []) \<and>
     (mc_target_entity_id m \<noteq> [] \<longrightarrow> IsCanonicalGuidText (mc_target_entity_id m)) \<and>
     mc_mailbox_call_msg_id m \<noteq> 0 \<and> mc_relay_flags m = 0"
  by (auto simp: ValidateRelayForwardMailboxCall_def)

lemma ValidateRelayForwardMailboxCall_payload:
  "ValidateRelayForwardMailboxCall (m\<lparr>mc_payload := b\<rparr>) = ValidateRelayForwardMailboxCall m"
  by (simp add: ValidateRelayForwardMailboxCall_def)

lemma decodes_RelayForwardMailboxCall:
  "decodes_message Rly_None read_RelayForwardMailboxCall zero_RelayForwardMailboxCall
     (\<lambda>bs m. valid_RelayForwardMailboxCall m \<and> bs = wire_RelayForwardMailboxCall m)"
  unfolding read_RelayForwardMailboxCall_def read_RelayForwardMailboxCall_fields_def
proof (rule decodes_message_out,
    (rule decodes_all_last [OF _ ends_check [OF ends_trailing [OF relay_CheckTrailingBytes_None]]]
      decodes_intros reads_intros relay_MapSerializationError_ne | assumption)+, rule iffI, goal_cases)
  case (1 bs m)
  then show ?case
    by (elim exE conjE, hypsubst)
      (simp add: zero_RelayForwardMailboxCall_def wire_RelayForwardMailboxCall_def valid_RelayForwardMailboxCall_def ValidateRelayForwardMailboxCall_None)
next
  case (2 bs m)
  then have v: "ValidateRelayForwardMailboxCall m = Rly_None" "fits16 (mc_source_game_node_id m)" "fits16 (mc_target_game_node_id m)" "fits16 (mc_target_entity_id m)" "fits16 (mc_target_mailbox_name m)" "fits32 (mc_payload m)"
    and bs: "bs = wire_RelayForwardMailboxCall m"
    by (simp_all add: valid_RelayForwardMailboxCall_def)
  have check: "ValidateRelayForwardMailboxCall (m\<lparr>mc_payload := []\<rparr>) = Rly_None"
    using v by (simp add: ValidateRelayForwardMailboxCall_payload)
  show ?case unfolding bs wire_RelayForwardMailboxCall_def
  proof (rule exI [of _ "(m\<lparr>mc_payload := []\<rparr>, mc_payload m)"], intro conjI, goal_cases)
    case 1
    show ?case
      by (intro exI conjI, (rule refl TrueI v)+) (rule TrueI v | simp add: zero_RelayForwardMailboxCall_def)+
  qed (use check in simp_all)
qed

interpretation relay_mailbox: strict_message_codec
  EncodeRelayForwardMailboxCall DecodeRelayForwardMailboxCall wire_RelayForwardMailboxCall valid_RelayForwardMailboxCall
  Rly_None Rly_InvalidArgument zero_RelayForwardMailboxCall
  by (rule strict_codec_of_phases [OF _ _ encodes_RelayForwardMailboxCall decodes_RelayForwardMailboxCall,
        where pre = "\<lambda>m _. ValidateRelayForwardMailboxCall m"])
    (simp_all add: EncodeRelayForwardMailboxCall_def DecodeRelayForwardMailboxCall_def encode_with_def
      decode_with_def valid_RelayForwardMailboxCall_def Let_def)

lemma sizes_RelayForwardMailboxCall:
  "sizes Rly_None (until_error Rly_None
     [add_field Rly_None Rly_LengthOverflow (relay_GetString16WireSize (mc_source_game_node_id m) 0),
      add_field Rly_None Rly_LengthOverflow (relay_GetString16WireSize (mc_target_game_node_id m) 0),
      add_field Rly_None Rly_LengthOverflow (relay_GetString16WireSize (mc_target_entity_id m) 0),
      add_field Rly_None Rly_LengthOverflow (relay_GetString16WireSize (mc_target_mailbox_name m) 0),
      (\<lambda>total_size. if length (mc_payload m) > 4294967295 then (Rly_LengthOverflow, total_size)
         else (Rly_None, total_size)),
      relay_AddWireSize (4 * 3 + length (mc_payload m))])
     (length (wire_RelayForwardMailboxCall m)) (fits16 (mc_source_game_node_id m) \<and> fits16 (mc_target_game_node_id m) \<and> fits16 (mc_target_entity_id m) \<and> fits16 (mc_target_mailbox_name m) \<and> fits32 (mc_payload m))"
  unfolding relay_AddWireSize_def relay_GetString16WireSize_def
  by (rule sizes_cong, (rule sizes_intros | simp; fail)+)
    (auto simp: wire_RelayForwardMailboxCall_def fits32_def)

lemma GetRelayForwardMailboxCallWireSize_iff:
  "GetRelayForwardMailboxCallWireSize m (Some x) = (Rly_None, p) \<longleftrightarrow>
     valid_RelayForwardMailboxCall m \<and> p = Some (length (wire_RelayForwardMailboxCall m))"
proof -
  have "length (wire_RelayForwardMailboxCall m) \<le> size_max" if "fits16 (mc_source_game_node_id m) \<and> fits16 (mc_target_game_node_id m) \<and> fits16 (mc_target_entity_id m) \<and> fits16 (mc_target_mailbox_name m) \<and> fits32 (mc_payload m)"
    using that by (simp add: wire_RelayForwardMailboxCall_def fits16_def fits32_def size_max_def)
  with sizes_none_iff [OF sizes_RelayForwardMailboxCall, of 0 m] sizesD [OF sizes_RelayForwardMailboxCall, of m 0]
  show ?thesis
    unfolding GetRelayForwardMailboxCallWireSize_def Let_def valid_RelayForwardMailboxCall_def
    by (auto simp: split_beta prod_eq_iff simp del: until_error.simps)
qed

definition wire_RelayForwardProxyCall :: "RelayForwardProxyCall \<Rightarrow> byte list" where
  "wire_RelayForwardProxyCall m = enc_str16 (pc_source_game_node_id m) @ enc_str16 (pc_route_gate_node_id m) @ enc_str16 (pc_target_entity_id m) @
     enc_u32 (pc_proxy_call_msg_id m) @ enc_u32 (pc_relay_flags m) @ enc_bytes32 (pc_payload m)"

definition valid_RelayForwardProxyCall :: "RelayForwardProxyCall \<Rightarrow> bool" where
  "valid_RelayForwardProxyCall m \<longleftrightarrow> ValidateRelayForwardProxyCall m = Rly_None \<and>
     fits16 (pc_source_game_node_id m) \<and> fits16 (pc_route_gate_node_id m) \<and> fits16 (pc_target_entity_id m) \<and> fits32 (pc_payload m)"

lemma encodes_RelayForwardProxyCall:
  "encodes Rly_None (write_RelayForwardProxyCall m) (wire_RelayForwardProxyCall m)
     (fits16 (pc_source_game_node_id m) \<and> fits16 (pc_route_gate_node_id m) \<and> fits16 (pc_target_entity_id m) \<and> fits32 (pc_payload m))"
  unfolding write_RelayForwardProxyCall_def wire_RelayForwardProxyCall_def
  by (rule encodes_cong, (rule encodes_intros writes_intros | simp; fail)+)

lemma ValidateRelayForwardProxyCall_None:
  "ValidateRelayForwardProxyCall m = Rly_None \<longleftrightarrow>
     pc_source_game_node_id m \<noteq> [] \<and> pc_route_gate_node_id m \<noteq> [] \<and>
     IsCanonicalGuidText (pc_target_entity_id m) \<and> pc_proxy_call_msg_id m \<noteq> 0 \<and> pc_relay_flags m = 0"
  by (auto simp: ValidateRelayForwardProxyCall_def)

lemma ValidateRelayForwardProxyCall_payload:
  "ValidateRelayForwardProxyCall (m\<lparr>pc_payload := b\<rparr>) = ValidateRelayForwardProxyCall m"
  by (simp add: ValidateRelayForwardProxyCall_def)

lemma decodes_RelayForwardProxyCall:
  "decodes_message Rly_None read_RelayForwardProxyCall zero_RelayForwardProxyCall
     (\<lambda>bs m. valid_RelayForwardProxyCall m \<and> bs = wire_RelayForwardProxyCall m)"
  unfolding read_RelayForwardProxyCall_def read_RelayForwardProxyCall_fields_def
proof (rule decodes_message_out,
    (rule decodes_all_last [OF _ ends_check [OF ends_trailing [OF relay_CheckTrailingBytes_None]]]
      decodes_intros reads_intros relay_MapSerializationError_ne | assumption)+, rule iffI, goal_cases)
  case (1 bs m)
  then show ?case
    by (elim exE conjE, hypsubst)
      (simp add: zero_RelayForwardProxyCall_def wire_RelayForwardProxyCall_def valid_RelayForwardProxyCall_def ValidateRelayForwardProxyCall_None)
next
  case (2 bs m)
  then have v: "ValidateRelayForwardProxyCall m = Rly_None" "fits16 (pc_source_game_node_id m)" "fits16 (pc_route_gate_node_id m)" "fits16 (pc_target_entity_id m)" "fits32 (pc_payload m)"
    and bs: "bs = wire_RelayForwardProxyCall m"
    by (simp_all add: valid_RelayForwardProxyCall_def)
  have check: "ValidateRelayForwardProxyCall (m\<lparr>pc_payload := []\<rparr>) = Rly_None"
    using v by (simp add: ValidateRelayForwardProxyCall_payload)
  show ?case unfolding bs wire_RelayForwardProxyCall_def
  proof (rule exI [of _ "(m\<lparr>pc_payload := []\<rparr>, pc_payload m)"], intro conjI, goal_cases)
    case 1
    show ?case
      by (intro exI conjI, (rule refl TrueI v)+) (rule TrueI v | simp add: zero_RelayForwardProxyCall_def)+
  qed (use check in simp_all)
qed

interpretation relay_proxy: strict_message_codec
  EncodeRelayForwardProxyCall DecodeRelayForwardProxyCall wire_RelayForwardProxyCall valid_RelayForwardProxyCall
  Rly_None Rly_InvalidArgument zero_RelayForwardProxyCall
  by (rule strict_codec_of_phases [OF _ _ encodes_RelayForwardProxyCall decodes_RelayForwardProxyCall,
        where pre = "\<lambda>m _. ValidateRelayForwardProxyCall m"])
    (simp_all add: EncodeRelayForwardProxyCall_def DecodeRelayForwardProxyCall_def encode_with_def
      decode_with_def valid_RelayForwardProxyCall_def Let_def)

lemma sizes_RelayForwardProxyCall:
  "sizes Rly_None (until_error Rly_None
     [add_field Rly_None Rly_LengthOverflow (relay_GetString16WireSize (pc_source_game_node_id m) 0),
      add_field Rly_None Rly_LengthOverflow (relay_GetString16WireSize (pc_route_gate_node_id m) 0),
      add_field Rly_None Rly_LengthOverflow (relay_GetString16WireSize (pc_target_entity_id m) 0),
      (\<lambda>total_size. if length (pc_payload m) > 4294967295 then (Rly_LengthOverflow, total_size)
         else (Rly_None, total_size)),
      relay_AddWireSize (4 * 3 + length (pc_payload m))])
     (length (wire_RelayForwardProxyCall m)) (fits16 (pc_source_game_node_id m) \<and> fits16 (pc_route_gate_node_id m) \<and> fits16 (pc_target_entity_id m) \<and> fits32 (pc_payload m))"
  unfolding relay_AddWireSize_def relay_GetString16WireSize_def
  by (rule sizes_cong, (rule sizes_intros | simp; fail)+)
    (auto simp: wire_RelayForwardProxyCall_def fits32_def)

lemma GetRelayForwardProxyCallWireSize_iff:
  "GetRelayForwardProxyCallWireSize m (Some x) = (Rly_None, p) \<longleftrightarrow>
     valid_RelayForwardProxyCall m \<and> p = Some (length (wire_RelayForwardProxyCall m))"
proof -
  have "length (wire_RelayForwardProxyCall m) \<le> size_max" if "fits16 (pc_source_game_node_id m) \<and> fits16 (pc_route_gate_node_id m) \<and> fits16 (pc_target_entity_id m) \<and> fits32 (pc_payload m)"
    using that by (simp add: wire_RelayForwardProxyCall_def fits16_def fits32_def size_max_def)
  with sizes_none_iff [OF sizes_RelayForwardProxyCall, of 0 m] sizesD [OF sizes_RelayForwardProxyCall, of m 0]
  show ?thesis
    unfolding GetRelayForwardProxyCallWireSize_def Let_def valid_RelayForwardProxyCall_def
    by (auto simp: split_beta prod_eq_iff simp del: until_error.simps)
qed

definition wire_RelayPushToClient :: "RelayPushToClient \<Rightarrow> byte list" where
  "wire_RelayPushToClient m = enc_str16 (pu_source_game_node_id m) @ enc_str16 (pu_route_gate_node_id m) @ enc_str16 (pu_target_entity_id m) @
     enc_u32 (pu_client_msg_id m) @ enc_u32 (pu_relay_flags m) @ enc_bytes32 (pu_payload m)"

definition valid_RelayPushToClient :: "RelayPushToClient \<Rightarrow> bool" where
  "valid_RelayPushToClient m \<longleftrightarrow> ValidateRelayPushToClient m = Rly_None \<and>
     fits16 (pu_source_game_node_id m) \<and> fits16 (pu_route_gate_node_id m) \<and> fits16 (pu_target_entity_id m) \<and> fits32 (pu_payload m)"

lemma encodes_RelayPushToClient:
  "encodes Rly_None (write_RelayPushToClient m) (wire_RelayPushToClient m)
     (fits16 (pu_source_game_node_id m) \<and> fits16 (pu_route_gate_node_id m) \<and> fits16 (pu_target_entity_id m) \<and> fits32 (pu_payload m))"
  unfolding write_RelayPushToClient_def wire_RelayPushToClient_def
  by (rule encodes_cong, (rule encodes_intros writes_intros | simp; fail)+)

lemma ValidateRelayPushToClient_None:
  "ValidateRelayPushToClient m = Rly_None \<longleftrightarrow>
     pu_source_game_node_id m \<noteq> [] \<and> pu_route_gate_node_id m \<noteq> [] \<and>
     IsCanonicalGuidText (pu_target_entity_id m) \<and> pu_client_msg_id m \<noteq> 0 \<and> pu_relay_flags m = 0"
  by (auto simp: ValidateRelayPushToClient_def)

lemma ValidateRelayPushToClient_payload:
  "ValidateRelayPushToClient (m\<lparr>pu_payload := b\<rparr>) = ValidateRelayPushToClient m"
  by (simp add: ValidateRelayPushToClient_def)

lemma decodes_RelayPushToClient:
  "decodes_message Rly_None read_RelayPushToClient zero_RelayPushToClient
     (\<lambda>bs m. valid_RelayPushToClient m \<and> bs = wire_RelayPushToClient m)"
  unfolding read_RelayPushToClient_def read_RelayPushToClient_fields_def
proof (rule decodes_message_out,
    (rule decodes_all_last [OF _ ends_check [OF ends_trailing [OF relay_CheckTrailingBytes_None]]]
      decodes_intros reads_intros relay_MapSerializationError_ne | assumption)+, rule iffI, goal_cases)
  case (1 bs m)
  then show ?case
    by (elim exE conjE, hypsubst)
      (simp add: zero_RelayPushToClient_def wire_RelayPushToClient_def valid_RelayPushToClient_def ValidateRelayPushToClient_None)
next
  case (2 bs m)
  then have v: "ValidateRelayPushToClient m = Rly_None" "fits16 (pu_source_game_node_id m)" "fits16 (pu_route_gate_node_id m)" "fits16 (pu_target_entity_id m)" "fits32 (pu_payload m)"
    and bs: "bs = wire_RelayPushToClient m"
    by (simp_all add: valid_RelayPushToClient_def)
  have check: "ValidateRelayPushToClient (m\<lparr>pu_payload := []\<rparr>) = Rly_None"
    using v by (simp add: ValidateRelayPushToClient_payload)
  show ?case unfolding bs wire_RelayPushToClient_def
  proof (rule exI [of _ "(m\<lparr>pu_payload := []\<rparr>, pu_payload m)"], intro conjI, goal_cases)
    case 1
    show ?case
      by (intro exI conjI, (rule refl TrueI v)+) (rule TrueI v | simp add: zero_RelayPushToClient_def)+
  qed (use check in simp_all)
qed

interpretation relay_push: strict_message_codec
  EncodeRelayPushToClient DecodeRelayPushToClient wire_RelayPushToClient valid_RelayPushToClient
  Rly_None Rly_InvalidArgument zero_RelayPushToClient
  by (rule strict_codec_of_phases [OF _ _ encodes_RelayPushToClient decodes_RelayPushToClient,
        where pre = "\<lambda>m _. ValidateRelayPushToClient m"])
    (simp_all add: EncodeRelayPushToClient_def DecodeRelayPushToClient_def encode_with_def
      decode_with_def valid_RelayPushToClient_def Let_def)

lemma sizes_RelayPushToClient:
  "sizes Rly_None (until_error Rly_None
     [add_field Rly_None Rly_LengthOverflow (relay_GetString16WireSize (pu_source_game_node_id m) 0),
      add_field Rly_None Rly_LengthOverflow (relay_GetString16WireSize (pu_route_gate_node_id m) 0),
      add_field Rly_None Rly_LengthOverflow (relay_GetString16WireSize (pu_target_entity_id m) 0),
      (\<lambda>total_size. if length (pu_payload m) > 4294967295 then (Rly_LengthOverflow, total_size)
         else (Rly_None, total_size)),
      relay_AddWireSize (4 * 3 + length (pu_payload m))])
     (length (wire_RelayPushToClient m)) (fits16 (pu_source_game_node_id m) \<and> fits16 (pu_route_gate_node_id m) \<and> fits16 (pu_target_entity_id m) \<and> fits32 (pu_payload m))"
  unfolding relay_AddWireSize_def relay_GetString16WireSize_def
  by (rule sizes_cong, (rule sizes_intros | simp; fail)+)
    (auto simp: wire_RelayPushToClient_def fits32_def)

lemma GetRelayPushToClientWireSize_iff:
  "GetRelayPushToClientWireSize m (Some x) = (Rly_None, p) \<longleftrightarrow>
     valid_RelayPushToClient m \<and> p = Some (length (wire_RelayPushToClient m))"
proof -
  have "length (wire_RelayPushToClient m) \<le> size_max" if "fits16 (pu_source_game_node_id m) \<and> fits16 (pu_route_gate_node_id m) \<and> fits16 (pu_target_entity_id m) \<and> fits32 (pu_payload m)"
    using that by (simp add: wire_RelayPushToClient_def fits16_def fits32_def size_max_def)
  with sizes_none_iff [OF sizes_RelayPushToClient, of 0 m] sizesD [OF sizes_RelayPushToClient, of m 0]
  show ?thesis
    unfolding GetRelayPushToClientWireSize_def Let_def valid_RelayPushToClient_def
    by (auto simp: split_beta prod_eq_iff simp del: until_error.simps)
qed

section \<open>Properties\<close>

text \<open>The loop over the characters of a GUID, index by index.\<close>

lemma guid_loop_iff:
  "guid_loop n s \<longleftrightarrow> (\<forall>i < length s. if should_be_dash (n + i) then s ! i = CHR ''-'' else isxdigit (s ! i))"
proof (induction s arbitrary: n)
  case (Cons c s)
  show ?case
    by (auto simp: Cons.IH All_less_Suc2)
qed simp

text \<open>
  C31. A text is accepted as a canonical GUID exactly when it has 36 characters, of which those at
  positions 8, 13, 18 and 23 are dashes and all others hexadecimal digits.
\<close>

theorem canonical_guid_text:
  "IsCanonicalGuidText value \<longleftrightarrow> length value = 36 \<and>
     (\<forall>i < 36. if i \<in> {8, 13, 18, 23} then value ! i = CHR ''-'' else isxdigit (value ! i))"
  unfolding IsCanonicalGuidText_def guid_loop_iff should_be_dash_def by auto

theorem canonical_guid_text_witness:
  "IsCanonicalGuidText ''01234567-89ab-cdef-0123-456789ABCDEF'' \<and>
   ''01234567-89ab-cdef-0123-456789ABCDEF'' ! 13 = CHR ''-'' \<and>
   isxdigit (''01234567-89ab-cdef-0123-456789ABCDEF'' ! 35)"
proof -
  let ?guid = "''01234567-89ab-cdef-0123-456789ABCDEF''"
  have guid: "IsCanonicalGuidText ?guid" by code_simp
  with canonical_guid_text [of ?guid] have "i < 36 \<Longrightarrow>
    if i \<in> {8, 13, 18, 23} then ?guid ! i = CHR ''-'' else isxdigit (?guid ! i)" for i by blast
  from this [of 13] this [of 35] guid show ?thesis by simp
qed

text \<open>
  C30. For each of the three relay messages, decoding accepts exactly the buffers whose size is
  the one the size operation computes for the decoded message and which encoding that message
  leaves unchanged.
\<close>

theorem relay_decode_iff_encode:
  "(DecodeRelayForwardMailboxCall buffer (Some x) = (Rly_None, Some mailbox) \<longleftrightarrow>
      GetRelayForwardMailboxCallWireSize mailbox (Some 0) = (Rly_None, Some (length buffer)) \<and>
      EncodeRelayForwardMailboxCall mailbox buffer = (Rly_None, buffer)) \<and>
   (DecodeRelayForwardProxyCall buffer (Some y) = (Rly_None, Some proxy) \<longleftrightarrow>
      GetRelayForwardProxyCallWireSize proxy (Some 0) = (Rly_None, Some (length buffer)) \<and>
      EncodeRelayForwardProxyCall proxy buffer = (Rly_None, buffer)) \<and>
   (DecodeRelayPushToClient buffer (Some z) = (Rly_None, Some push) \<longleftrightarrow>
      GetRelayPushToClientWireSize push (Some 0) = (Rly_None, Some (length buffer)) \<and>
      EncodeRelayPushToClient push buffer = (Rly_None, buffer))"
  using relay_mailbox.decode_valid [of buffer x mailbox] relay_proxy.decode_valid [of buffer y proxy]
    relay_push.decode_valid [of buffer z push]
  by (auto simp: GetRelayForwardMailboxCallWireSize_iff GetRelayForwardProxyCallWireSize_iff
      GetRelayPushToClientWireSize_iff relay_mailbox.decode_encode_iff relay_proxy.decode_encode_iff
      relay_push.decode_encode_iff)

end
