(* ===== verification/NodePackets.thy ===== *)
theory NodePackets
  imports ServerNode PacketCodec RegisterCodec InnerClusterCodec RelayCodec
begin

text \<open>
  The constants and packet helpers that the roles share: each of \<^verbatim>\<open>node/GmNode.cpp\<close>,
  \<^verbatim>\<open>GateNode.cpp\<close> and \<^verbatim>\<open>GameNode.cpp\<close> has its copy of them in an anonymous namespace. The line references of the
  manifest are those of \<^verbatim>\<open>GmNode.cpp\<close>.
\<close>

unbundle bit_operations_syntax

section \<open>Constants and error codes\<close>

definition kDefaultHeartbeatIntervalMs :: u32 where "kDefaultHeartbeatIntervalMs = 5000"
definition kDefaultHeartbeatTimeoutMs :: u32 where "kDefaultHeartbeatTimeoutMs = 15000"
definition kInnerProcessTypeInvalid :: i32 where "kInnerProcessTypeInvalid = 3000"
definition kInnerNodeIdConflict :: i32 where "kInnerNodeIdConflict = 3001"
definition kInnerNetworkEndpointInvalid :: i32 where "kInnerNetworkEndpointInvalid = 3002"
definition kInnerNodeNotRegistered :: i32 where "kInnerNodeNotRegistered = 3003"
definition kInnerChannelInvalid :: i32 where "kInnerChannelInvalid = 3004"
definition kInnerRequestInvalid :: i32 where "kInnerRequestInvalid = 3005"

lemmas inner_error_defs =
  kInnerProcessTypeInvalid_def kInnerNodeIdConflict_def kInnerNetworkEndpointInvalid_def
  kInnerNodeNotRegistered_def kInnerChannelInvalid_def kInnerRequestInvalid_def

fun MapRegisterCodecErrorToInnerError :: "RegisterCodecErrorCode \<Rightarrow> i32 option" where
  "MapRegisterCodecErrorToInnerError Reg_None = None"
| "MapRegisterCodecErrorToInnerError Reg_InvalidProcessType = Some kInnerProcessTypeInvalid"
| "MapRegisterCodecErrorToInnerError Reg_InvalidInnerNetworkEndpointHost = Some kInnerNetworkEndpointInvalid"
| "MapRegisterCodecErrorToInnerError Reg_InvalidInnerNetworkEndpointPort = Some kInnerNetworkEndpointInvalid"
| "MapRegisterCodecErrorToInnerError _ = Some kInnerRequestInvalid"

section \<open>Reading\<close>

definition HasPacketFlag :: "u16 \<Rightarrow> PacketFlag \<Rightarrow> bool" where
  "HasPacketFlag flags flag \<longleftrightarrow> flags AND packet_flag_value flag \<noteq> 0"

text \<open>The header as it stands, without the checks of \<^verbatim>\<open>ReadPacketHeader\<close>.\<close>

definition TryReadRawPacketHeader :: "byte list \<Rightarrow> PacketHeader ptr \<Rightarrow> bool \<times> PacketHeader ptr" where
  "TryReadRawPacketHeader buffer header =
     (if header = None then (False, header)
      else if length buffer < kPacketHeaderSize then (False, Some zero_PacketHeader)
      else case read_header_fields (new_BinaryReader (take kPacketHeaderSize buffer), zero_PacketHeader) of
        (ok, _, parsed_header) \<Rightarrow>
          if \<not> ok then (False, Some zero_PacketHeader) else (True, Some parsed_header))"

definition IsHeartbeatRequestPacket :: "PacketHeader \<Rightarrow> bool" where
  "IsHeartbeatRequestPacket header \<longleftrightarrow> ph_magic header = kPacketMagic \<and> ph_version header = kPacketVersion \<and>
     ph_msg_id header = kInnerHeartbeatMsgId"

section \<open>Writing\<close>

text \<open>
  A header for the body, and both encoded into a zeroed buffer of exactly their size, as every
  sender of the roles does it.
\<close>

definition encode_packet :: "u32 \<Rightarrow> u32 \<Rightarrow> u16 \<Rightarrow> byte list \<Rightarrow> PacketCodecErrorCode \<times> byte list" where
  "encode_packet msg_id seq flags body =
     EncodePacket (MakePacketHeader msg_id seq flags (word_of_nat (length body))) body
       (replicate (kPacketHeaderSize + length body) 0)"

text \<open>
  The rest of a sender: encode the packet and send it to the routing id, if there is a network.
  The result says whether the packet was handed over.
\<close>

definition send_packet ::
    "node_env \<Rightarrow> byte list \<Rightarrow> u32 \<Rightarrow> u32 \<Rightarrow> u16 \<Rightarrow> byte list \<Rightarrow> 'a ServerNode_scheme \<Rightarrow> bool \<times> 'a ServerNode_scheme" where
  "send_packet env routing_id msg_id seq flags body s =
     (case encode_packet msg_id seq flags body of (encode_result, packet) \<Rightarrow>
        if encode_result \<noteq> Pkt_None then (False, s)
        else case sn_inner_network s of
          None \<Rightarrow> (False, s)
        | Some net \<Rightarrow> (case inner_Send env routing_id packet net s of (send_result, s) \<Rightarrow> (send_result = Node_None, s)))"

section \<open>Texts\<close>

definition BuildTcpEndpoint :: "EndpointConfig \<Rightarrow> string" where
  "BuildTcpEndpoint endpoint = ''tcp://'' @ ec_host endpoint @ '':'' @ to_string (unat (ec_port endpoint))"

definition BuildInnerNetworkEndpointText :: "Endpoint \<Rightarrow> string" where
  "BuildInnerNetworkEndpointText endpoint = ep_host endpoint @ '':'' @ to_string (unat (ep_port endpoint))"

section \<open>A packet on the wire\<close>

text \<open>The bytes of a packet with the given body, which every reader of the roles takes apart again.\<close>

definition packet_bytes :: "u32 \<Rightarrow> u32 \<Rightarrow> u16 \<Rightarrow> byte list \<Rightarrow> byte list" where
  "packet_bytes msg_id seq flags body =
     wire_packet \<lparr>pv_header = MakePacketHeader msg_id seq flags (word_of_nat (length body)), pv_payload = body\<rparr>"

lemma valid_MakePacketHeader: "ValidatePacketHeader (MakePacketHeader m q f n) = Pkt_None \<longleftrightarrow> unat f < 8"
  by (simp add: ValidatePacketHeader_def MakePacketHeader_def IsValidPacketFlags_iff)

lemma valid_packet_bytes:
  "fits32 body \<Longrightarrow> unat flags < 8 \<Longrightarrow>
   valid_packet \<lparr>pv_header = MakePacketHeader msg_id seq flags (word_of_nat (length body)), pv_payload = body\<rparr>"
  by (simp add: valid_packet_def valid_MakePacketHeader) (simp add: MakePacketHeader_def fits32_def unat_of_nat)

lemma encode_packet_eq:
  assumes "fits32 body" "unat flags < 8"
  shows "encode_packet msg_id seq flags body = (Pkt_None, packet_bytes msg_id seq flags body)"
  using packet.encode_exact [OF valid_packet_bytes [OF assms], of "replicate (kPacketHeaderSize + length body) 0"]
  by (simp add: encode_packet_def packet_bytes_def wire_packet_def kPacketHeaderSize_def)

text \<open>A packet is encoded only with defined flags and a body whose length fits, and then decodes again.\<close>

lemma encode_packet_Pkt_None:
  assumes "encode_packet msg_id seq flags body = (Pkt_None, bytes)"
  shows "fits32 body" "unat flags < 8" "bytes = packet_bytes msg_id seq flags body"
proof -
  show "fits32 body" "unat flags < 8"
    using assms by (auto simp: encode_packet_def EncodePacket_effect valid_MakePacketHeader split: if_splits)
  from encode_packet_eq [OF this] assms show "bytes = packet_bytes msg_id seq flags body" by simp
qed

lemma DecodePacket_packet_bytes:
  assumes "fits32 body" "unat flags < 8"
  shows "DecodePacket (packet_bytes msg_id seq flags body) (Some x) =
    (Pkt_None, Some \<lparr>pv_header = MakePacketHeader msg_id seq flags (word_of_nat (length body)), pv_payload = body\<rparr>)"
  unfolding packet_bytes_def by (rule packet.decode_wire [OF valid_packet_bytes [OF assms]])

lemma TryReadRawPacketHeader_packet_bytes:
  "TryReadRawPacketHeader (packet_bytes msg_id seq flags body) (Some x) =
    (True, Some (MakePacketHeader msg_id seq flags (word_of_nat (length body))))"
proof -
  let ?h = "MakePacketHeader msg_id seq flags (word_of_nat (length body))"
  have "read_header_fields (new_BinaryReader (wire_header ?h), zero_PacketHeader) =
      (True, advance 20 (new_BinaryReader (wire_header ?h)), ?h)"
    using readsD_ok [OF reads_header refl, of "new_BinaryReader (wire_header ?h)" ?h "[]" zero_PacketHeader] by simp
  then show ?thesis
    by (simp add: TryReadRawPacketHeader_def packet_bytes_def wire_packet_def kPacketHeaderSize_def)
qed

section \<open>Sending succeeds while the network runs and libzmq takes the frames\<close>

definition can_send :: "node_env \<Rightarrow> 'a ServerNode_scheme \<Rightarrow> bool" where
  "can_send env s \<longleftrightarrow> (\<forall>n. zmq_succeeds (env_zmq env) n) \<and>
     (case sn_inner_network s of
        None \<Rightarrow> False
      | Some net \<Rightarrow> net_initialized net \<and>
          (case net_listener net of None \<Rightarrow> False | Some l \<Rightarrow> zl_running l \<and> zl_socket l))"

lemma net_Send_ok:
  assumes "\<And>n. zmq_succeeds zmq n" "net_initialized net" "net_listener net = Some l" "zl_running l" "zl_socket l" "r \<noteq> []"
  shows "fst (net_Send zmq r p net) = Node_None"
    "net_initialized (snd (net_Send zmq r p net))"
    "\<exists>l'. net_listener (snd (net_Send zmq r p net)) = Some l' \<and> zl_running l' \<and> zl_socket l' \<and> zl_sent l' = zl_sent l @ [(r, p)]"
  using assms by (simp_all add: net_Send_def listener_Send_def net_ClearError_def Let_def)

lemma net_Send_keeps:
  assumes "\<And>n. zmq_succeeds zmq n" "net_initialized net" "net_listener net = Some l" "zl_running l" "zl_socket l"
  shows "net_initialized (snd (net_Send zmq r p net))"
    "\<exists>l'. net_listener (snd (net_Send zmq r p net)) = Some l' \<and> zl_running l' \<and> zl_socket l'"
  using assms by (cases "r = []"; simp add: net_Send_def listener_Send_def net_ClearError_def net_SetError_def Let_def)+

lemma send_packet_ok:
  assumes "can_send env s"
  shows "r \<noteq> [] \<Longrightarrow> fits32 body \<Longrightarrow> unat flags < 8 \<Longrightarrow> fst (send_packet env r msg_id seq flags body s)"
    and "can_send env (snd (send_packet env r msg_id seq flags body s))"
proof -
  from assms obtain net l where net: "sn_inner_network s = Some net" "net_initialized net" "net_listener net = Some l"
    "zl_running l" "zl_socket l" and zmq: "\<And>n. zmq_succeeds (env_zmq env) n"
    by (auto simp: can_send_def split: option.splits)
  show "fst (send_packet env r msg_id seq flags body s)" if "r \<noteq> []" "fits32 body" "unat flags < 8"
    using net_Send_ok(1) [OF zmq net(2-5) that(1), of "packet_bytes msg_id seq flags body"] net(1)
    by (simp add: send_packet_def encode_packet_eq [OF that(2,3)] inner_Send_def split_def)
  show "can_send env (snd (send_packet env r msg_id seq flags body s))"
  proof (cases "fst (encode_packet msg_id seq flags body) = Pkt_None")
    case True
    let ?n = "net_Send (env_zmq env) r (snd (encode_packet msg_id seq flags body)) net"
    have "snd (send_packet env r msg_id seq flags body s) = s\<lparr>sn_inner_network := Some (snd ?n)\<rparr>"
      using True net(1) by (simp add: send_packet_def inner_Send_def split_def)
    moreover obtain l' where "net_listener (snd ?n) = Some l'" "zl_running l'" "zl_socket l'"
      using net_Send_keeps(2) [OF zmq net(2-5)] by blast
    ultimately show ?thesis using net_Send_keeps(1) [OF zmq net(2-5)] zmq by (simp add: can_send_def)
  next
    case False
    with assms show ?thesis by (simp add: send_packet_def split_def)
  qed
qed

end
