(* ===== verification/KcpPeer.thy ===== *)
theory KcpPeer
  imports ClusterConfig
begin

text \<open>
  \<^verbatim>\<open>net/KcpPeer.cpp\<close>: the peer that drives one KCP control block. The constructor path of the vendored
  \<^verbatim>\<open>3rd/kcp/ikcp.c\<close> (creation and the three configuration calls) is translated; its traffic functions
  are a parameter. The theory shows which configurations give a usable peer and with which settings,
  how large the output buffer of the control block is, and that the datagrams KCP emits reach the
  caller once each and in order.
\<close>

section \<open>The KCP library\<close>

text \<open>
  What the traffic functions of KCP do depends on the settings of the control block and on the calls
  made on it so far, so the state they keep inside the control block is the list of those calls,
  newest first. A theorem for every record \<open>ikcp\<close> is a theorem for every behaviour of the library.
\<close>

datatype ikcp_call = Call_send "byte list" | Call_input "byte list" | Call_update u32 | Call_recv nat

record ikcpcb =
  cb_conv :: u32
  cb_mtu :: u32
  cb_mss :: u32
  cb_snd_wnd :: u32
  cb_rcv_wnd :: u32
  cb_nodelay :: u32
  cb_interval :: u32
  cb_fastresend :: i32
  cb_nocwnd :: i32
  cb_rx_minrto :: i32
  cb_dead_link :: u32
  cb_stream :: i32
  cb_buffer_size :: u32
  cb_calls :: "ikcp_call list"

text \<open>
  \<open>ikcp_malloc_cb\<close> tells whether the allocation of the control block succeeds, \<open>ikcp_malloc\<close> whether
  that of a buffer of so many bytes does. \<open>ikcp_update\<close> is the list of
  the calls of the output callback: the buffer, or \<open>None\<close> for a null pointer, and the length argument.
  \<open>ikcp_recv\<close> is the result together with the bytes written to the caller's buffer. \<open>long_max\<close> is
  \<^verbatim>\<open>std::numeric_limits<long>::max()\<close> of the platform.
\<close>

record ikcp =
  ikcp_malloc_cb :: bool
  ikcp_malloc :: "u32 \<Rightarrow> bool"
  ikcp_send :: "ikcpcb \<Rightarrow> byte list \<Rightarrow> int"
  ikcp_input :: "ikcpcb \<Rightarrow> byte list \<Rightarrow> int"
  ikcp_update :: "ikcpcb \<Rightarrow> u32 \<Rightarrow> (byte list option \<times> int) list"
  ikcp_check :: "ikcpcb \<Rightarrow> u32 \<Rightarrow> u32"
  ikcp_peeksize :: "ikcpcb \<Rightarrow> int"
  ikcp_recv :: "ikcpcb \<Rightarrow> nat \<Rightarrow> int \<times> byte list"
  long_max :: nat

definition IKCP_RTO_NDL :: u32 where "IKCP_RTO_NDL = 30"
definition IKCP_RTO_MIN :: u32 where "IKCP_RTO_MIN = 100"
definition IKCP_WND_SND :: u32 where "IKCP_WND_SND = 32"
definition IKCP_WND_RCV :: u32 where "IKCP_WND_RCV = 128"
definition IKCP_MTU_DEF :: u32 where "IKCP_MTU_DEF = 1400"
definition IKCP_INTERVAL :: u32 where "IKCP_INTERVAL = 100"
definition IKCP_OVERHEAD :: u32 where "IKCP_OVERHEAD = 24"
definition IKCP_DEADLINK :: u32 where "IKCP_DEADLINK = 20"

lemmas ikcp_constants =
  IKCP_RTO_NDL_def IKCP_RTO_MIN_def IKCP_WND_SND_def IKCP_WND_RCV_def IKCP_MTU_DEF_def
  IKCP_INTERVAL_def IKCP_OVERHEAD_def IKCP_DEADLINK_def

definition ikcp_create :: "ikcp \<Rightarrow> u32 \<Rightarrow> ikcpcb option" where
  "ikcp_create lib conv =
     (if \<not> ikcp_malloc_cb lib then None
      else let buffer_size = (IKCP_MTU_DEF + IKCP_OVERHEAD) * 3 in
        if \<not> ikcp_malloc lib buffer_size then None
        else Some \<lparr>cb_conv = conv, cb_mtu = IKCP_MTU_DEF, cb_mss = IKCP_MTU_DEF - IKCP_OVERHEAD,
               cb_snd_wnd = IKCP_WND_SND, cb_rcv_wnd = IKCP_WND_RCV, cb_nodelay = 0,
               cb_interval = IKCP_INTERVAL, cb_fastresend = 0, cb_nocwnd = 0,
               cb_rx_minrto = IKCP_RTO_MIN, cb_dead_link = IKCP_DEADLINK, cb_stream = 0,
               cb_buffer_size = buffer_size, cb_calls = []\<rparr>)"

definition ikcp_setmtu :: "ikcp \<Rightarrow> i32 \<Rightarrow> ikcpcb \<Rightarrow> int \<times> ikcpcb" where
  "ikcp_setmtu lib mtu kcp =
     (if sint mtu < 50 \<or> sint mtu < sint IKCP_OVERHEAD then (- 1, kcp)
      else let buffer_size = (mtu + IKCP_OVERHEAD) * 3 in
        if \<not> ikcp_malloc lib buffer_size then (- 2, kcp)
        else (0, kcp\<lparr>cb_mtu := mtu, cb_mss := mtu - IKCP_OVERHEAD, cb_buffer_size := buffer_size\<rparr>))"

definition clamp_interval :: "i32 \<Rightarrow> i32" where
  "clamp_interval interval =
     (if sint interval > 5000 then 5000 else if sint interval < 10 then 10 else interval)"

definition ikcp_nodelay :: "i32 \<Rightarrow> i32 \<Rightarrow> i32 \<Rightarrow> i32 \<Rightarrow> ikcpcb \<Rightarrow> int \<times> ikcpcb" where
  "ikcp_nodelay nodelay interval resend nc kcp0 =
     (let kcp1 = (if sint nodelay \<ge> 0 then kcp0\<lparr>cb_nodelay := nodelay,
                     cb_rx_minrto := (if nodelay \<noteq> 0 then IKCP_RTO_NDL else IKCP_RTO_MIN)\<rparr> else kcp0);
          kcp2 = (if sint interval \<ge> 0 then kcp1\<lparr>cb_interval := clamp_interval interval\<rparr> else kcp1);
          kcp3 = (if sint resend \<ge> 0 then kcp2\<lparr>cb_fastresend := resend\<rparr> else kcp2);
          kcp4 = (if sint nc \<ge> 0 then kcp3\<lparr>cb_nocwnd := nc\<rparr> else kcp3)
      in (0, kcp4))"

text \<open>\<^verbatim>\<open>_imax_\<close> compares its arguments as unsigned integers.\<close>

definition ikcp_wndsize :: "i32 \<Rightarrow> i32 \<Rightarrow> ikcpcb \<Rightarrow> int \<times> ikcpcb" where
  "ikcp_wndsize sndwnd rcvwnd kcp0 =
     (let kcp1 = (if sint sndwnd > 0 then kcp0\<lparr>cb_snd_wnd := sndwnd\<rparr> else kcp0);
          kcp2 = (if sint rcvwnd > 0 then kcp1\<lparr>cb_rcv_wnd := max rcvwnd IKCP_WND_RCV\<rparr> else kcp1)
      in (0, kcp2))"

section \<open>The peer\<close>

datatype KcpPeerErrorCode =
    Kcp_None | Kcp_InvalidArgument | Kcp_InvalidState | Kcp_CreateFailed | Kcp_ConfigInvalid
  | Kcp_LengthOverflow | Kcp_SendFailed | Kcp_InputFailed | Kcp_ReceiveFailed | Kcp_MessageUnavailable

fun KcpPeerErrorMessage :: "KcpPeerErrorCode \<Rightarrow> string" where
  "KcpPeerErrorMessage Kcp_None = ''Success.''"
| "KcpPeerErrorMessage Kcp_InvalidArgument = ''KCP peer argument is invalid.''"
| "KcpPeerErrorMessage Kcp_InvalidState = ''KCP peer is not initialized.''"
| "KcpPeerErrorMessage Kcp_CreateFailed = ''Failed to create KCP control block.''"
| "KcpPeerErrorMessage Kcp_ConfigInvalid = ''KCP peer configuration is invalid.''"
| "KcpPeerErrorMessage Kcp_LengthOverflow = ''KCP peer payload length exceeds the supported range.''"
| "KcpPeerErrorMessage Kcp_SendFailed = ''Failed to queue data into the KCP peer send buffer.''"
| "KcpPeerErrorMessage Kcp_InputFailed = ''Failed to feed an incoming datagram into the KCP peer.''"
| "KcpPeerErrorMessage Kcp_ReceiveFailed = ''Failed to receive a decoded message from the KCP peer.''"
| "KcpPeerErrorMessage Kcp_MessageUnavailable = ''No completed KCP message is currently available.''"

record KcpPeerOptions =
  kpo_conversation :: u32
  kpo_config :: KcpConfig

record KcpPeerRuntimeState =
  kprs_conversation :: u32
  kprs_mtu :: u32
  kprs_sndwnd :: u32
  kprs_rcvwnd :: u32
  kprs_nodelay :: bool
  kprs_interval_ms :: u32
  kprs_fast_resend :: u32
  kprs_no_congestion_window :: bool
  kprs_min_rto_ms :: u32
  kprs_dead_link_count :: u32
  kprs_stream_mode :: bool

definition zero_KcpPeerRuntimeState :: KcpPeerRuntimeState where
  "zero_KcpPeerRuntimeState = \<lparr>kprs_conversation = 0, kprs_mtu = 0, kprs_sndwnd = 0, kprs_rcvwnd = 0,
     kprs_nodelay = False, kprs_interval_ms = 0, kprs_fast_resend = 0, kprs_no_congestion_window = False,
     kprs_min_rto_ms = 0, kprs_dead_link_count = 0, kprs_stream_mode = False\<rparr>"

record KcpPeer =
  kp_options :: KcpPeerOptions
  kp_handle :: "ikcpcb option"
  kp_pending_datagrams :: "byte list list"
  kp_pending_datagram_bytes :: u64
  kp_last_error_message :: string

definition kcp_SetError :: "KcpPeerErrorCode \<Rightarrow> string \<Rightarrow> KcpPeer \<Rightarrow> KcpPeerErrorCode \<times> KcpPeer" where
  "kcp_SetError code message p =
     (code, p\<lparr>kp_last_error_message := (if message = [] then KcpPeerErrorMessage code else message)\<rparr>)"

definition kcp_ClearError :: "KcpPeer \<Rightarrow> KcpPeer" where
  "kcp_ClearError p = p\<lparr>kp_last_error_message := []\<rparr>"

definition FitsInSignedInt :: "u32 \<Rightarrow> bool" where
  "FitsInSignedInt value \<longleftrightarrow> value \<le> 2147483647"

definition kcp_valid :: "KcpPeer \<Rightarrow> bool" where
  "kcp_valid p \<longleftrightarrow> kp_handle p \<noteq> None \<and> kp_last_error_message p = []"

definition kcp_conversation :: "KcpPeer \<Rightarrow> u32" where
  "kcp_conversation p = kpo_conversation (kp_options p)"

definition kcp_runtime_state :: "KcpPeer \<Rightarrow> KcpPeerRuntimeState" where
  "kcp_runtime_state p =
     (case kp_handle p of None \<Rightarrow> zero_KcpPeerRuntimeState
      | Some kcp \<Rightarrow> \<lparr>kprs_conversation = cb_conv kcp, kprs_mtu = cb_mtu kcp, kprs_sndwnd = cb_snd_wnd kcp,
          kprs_rcvwnd = cb_rcv_wnd kcp, kprs_nodelay = (cb_nodelay kcp \<noteq> 0),
          kprs_interval_ms = cb_interval kcp, kprs_fast_resend = cb_fastresend kcp,
          kprs_no_congestion_window = (cb_nocwnd kcp \<noteq> 0), kprs_min_rto_ms = cb_rx_minrto kcp,
          kprs_dead_link_count = cb_dead_link kcp, kprs_stream_mode = (cb_stream kcp \<noteq> 0)\<rparr>)"

definition kcp_pending_datagram_count :: "KcpPeer \<Rightarrow> nat" where
  "kcp_pending_datagram_count p = length (kp_pending_datagrams p)"

definition kcp_peek_next_message_size :: "ikcp \<Rightarrow> KcpPeer \<Rightarrow> nat" where
  "kcp_peek_next_message_size lib p =
     (case kp_handle p of None \<Rightarrow> 0
      | Some kcp \<Rightarrow> let next_size = ikcp_peeksize lib kcp in if next_size > 0 then nat next_size else 0)"

definition kcp_NextUpdateClock :: "ikcp \<Rightarrow> u32 \<Rightarrow> KcpPeer \<Rightarrow> u32" where
  "kcp_NextUpdateClock lib now_ms p =
     (case kp_handle p of None \<Rightarrow> now_ms | Some kcp \<Rightarrow> ikcp_check lib kcp now_ms)"

section \<open>Construction\<close>

definition kcp_fail_positive :: "string \<Rightarrow> KcpPeer \<Rightarrow> KcpPeerErrorCode \<times> KcpPeer" where
  "kcp_fail_positive field_name =
     kcp_SetError Kcp_ConfigInvalid (''KCP config.'' @ field_name @ '' must be greater than zero.'')"

definition kcp_ValidateOptions :: "KcpPeer \<Rightarrow> KcpPeerErrorCode \<times> KcpPeer" where
  "kcp_ValidateOptions p =
     (let config = kpo_config (kp_options p) in
      if kcp_mtu config = 0 then kcp_fail_positive ''mtu'' p
      else if kcp_sndwnd config = 0 then kcp_fail_positive ''sndwnd'' p
      else if kcp_rcvwnd config = 0 then kcp_fail_positive ''rcvwnd'' p
      else if kcp_interval_ms config = 0 then kcp_fail_positive ''interval_ms'' p
      else if kcp_min_rto_ms config = 0 then kcp_fail_positive ''min_rto_ms'' p
      else if kcp_dead_link_count config = 0 then kcp_fail_positive ''dead_link_count'' p
      else if \<not> FitsInSignedInt (kcp_mtu config) \<or> \<not> FitsInSignedInt (kcp_sndwnd config) \<or>
          \<not> FitsInSignedInt (kcp_rcvwnd config) \<or> \<not> FitsInSignedInt (kcp_interval_ms config) \<or>
          \<not> FitsInSignedInt (kcp_fast_resend config) \<or> \<not> FitsInSignedInt (kcp_min_rto_ms config)
        then kcp_SetError Kcp_ConfigInvalid
          ''KCP config values must fit within the upstream signed integer limits.'' p
      else (Kcp_None, p))"

definition kcp_ApplyConfig :: "ikcp \<Rightarrow> KcpPeer \<Rightarrow> KcpPeerErrorCode \<times> KcpPeer" where
  "kcp_ApplyConfig lib p =
     (case kp_handle p of None \<Rightarrow> kcp_SetError Kcp_InvalidState [] p
      | Some kcp0 \<Rightarrow>
         (let config = kpo_config (kp_options p);
              (mtu_result, kcp1) = ikcp_setmtu lib (kcp_mtu config) kcp0
          in if mtu_result \<noteq> 0
             then kcp_SetError Kcp_ConfigInvalid ''Failed to apply KCP mtu.'' (p\<lparr>kp_handle := Some kcp1\<rparr>)
             else let (wnd_result, kcp2) = ikcp_wndsize (kcp_sndwnd config) (kcp_rcvwnd config) kcp1
          in if wnd_result \<noteq> 0
             then kcp_SetError Kcp_ConfigInvalid ''Failed to apply KCP window size.'' (p\<lparr>kp_handle := Some kcp2\<rparr>)
             else let (nodelay_result, kcp3) = ikcp_nodelay (if kcp_nodelay config then 1 else 0)
                    (kcp_interval_ms config) (kcp_fast_resend config)
                    (if kcp_no_congestion_window config then 1 else 0) kcp2
          in if nodelay_result \<noteq> 0
             then kcp_SetError Kcp_ConfigInvalid ''Failed to apply KCP nodelay settings.''
               (p\<lparr>kp_handle := Some kcp3\<rparr>)
             else (Kcp_None, p\<lparr>kp_handle := Some (kcp3\<lparr>cb_rx_minrto := kcp_min_rto_ms config,
                    cb_dead_link := kcp_dead_link_count config,
                    cb_stream := (if kcp_stream_mode config then 1 else 0)\<rparr>)\<rparr>)))"

definition kcp_Initialize :: "ikcp \<Rightarrow> KcpPeer \<Rightarrow> KcpPeer" where
  "kcp_Initialize lib p0 =
     (let (validation_result, p1) = kcp_ValidateOptions p0 in
      if validation_result \<noteq> Kcp_None then p1
      else let p2 = p1\<lparr>kp_handle := ikcp_create lib (kpo_conversation (kp_options p1))\<rparr> in
        if kp_handle p2 = None then snd (kcp_SetError Kcp_CreateFailed [] p2)
        else let (config_result, p3) = kcp_ApplyConfig lib p2 in
          if config_result \<noteq> Kcp_None then p3\<lparr>kp_handle := None\<rparr>
          else kcp_ClearError p3)"

definition new_KcpPeer :: "ikcp \<Rightarrow> KcpPeerOptions \<Rightarrow> KcpPeer" where
  "new_KcpPeer lib options = kcp_Initialize lib
     \<lparr>kp_options = options, kp_handle = None, kp_pending_datagrams = [], kp_pending_datagram_bytes = 0,
       kp_last_error_message = []\<rparr>"

section \<open>Traffic\<close>

definition kcp_record :: "ikcp_call \<Rightarrow> KcpPeer \<Rightarrow> KcpPeer" where
  "kcp_record c p = p\<lparr>kp_handle := map_option (\<lambda>kcp. kcp\<lparr>cb_calls := c # cb_calls kcp\<rparr>) (kp_handle p)\<rparr>"

definition kcp_Send :: "ikcp \<Rightarrow> byte list \<Rightarrow> KcpPeer \<Rightarrow> KcpPeerErrorCode \<times> KcpPeer" where
  "kcp_Send lib payload p =
     (case kp_handle p of None \<Rightarrow> kcp_SetError Kcp_InvalidState [] p
      | Some kcp \<Rightarrow>
          if payload = [] then kcp_SetError Kcp_InvalidArgument ''KCP send payload must not be empty.'' p
          else if length payload > 2147483647 then kcp_SetError Kcp_LengthOverflow [] p
          else let p = kcp_record (Call_send payload) p in
            if ikcp_send lib kcp payload < 0 then kcp_SetError Kcp_SendFailed [] p
            else (Kcp_None, kcp_ClearError p))"

definition kcp_Input :: "ikcp \<Rightarrow> byte list \<Rightarrow> KcpPeer \<Rightarrow> KcpPeerErrorCode \<times> KcpPeer" where
  "kcp_Input lib datagram p =
     (case kp_handle p of None \<Rightarrow> kcp_SetError Kcp_InvalidState [] p
      | Some kcp \<Rightarrow>
          if datagram = [] then kcp_SetError Kcp_InvalidArgument ''KCP input datagram must not be empty.'' p
          else if length datagram > long_max lib then kcp_SetError Kcp_LengthOverflow [] p
          else let p = kcp_record (Call_input datagram) p in
            if ikcp_input lib kcp datagram < 0 then kcp_SetError Kcp_InputFailed [] p
            else (Kcp_None, kcp_ClearError p))"

text \<open>The output callback; \<^verbatim>\<open>user\<close> is the peer itself and never null.\<close>

definition HandleOutput :: "byte list option \<times> int \<Rightarrow> KcpPeer \<Rightarrow> KcpPeer" where
  "HandleOutput output p =
     (case output of (buffer, len) \<Rightarrow>
        case buffer of None \<Rightarrow> p
        | Some bytes \<Rightarrow> if len < 0 then p
            else p\<lparr>kp_pending_datagrams := kp_pending_datagrams p @ [take (nat len) bytes],
                   kp_pending_datagram_bytes := kp_pending_datagram_bytes p + word_of_int len\<rparr>)"

definition kcp_Update :: "ikcp \<Rightarrow> u32 \<Rightarrow> KcpPeer \<Rightarrow> KcpPeerErrorCode \<times> KcpPeer" where
  "kcp_Update lib now_ms p =
     (case kp_handle p of None \<Rightarrow> kcp_SetError Kcp_InvalidState [] p
      | Some kcp \<Rightarrow>
          (Kcp_None, kcp_ClearError
             (fold HandleOutput (ikcp_update lib kcp now_ms) (kcp_record (Call_update now_ms) p))))"

definition kcp_Flush :: "ikcp \<Rightarrow> u32 \<Rightarrow> KcpPeer \<Rightarrow> KcpPeerErrorCode \<times> KcpPeer" where
  "kcp_Flush lib now_ms p =
     (case kp_handle p of None \<Rightarrow> kcp_SetError Kcp_InvalidState [] p
      | Some kcp \<Rightarrow>
          (Kcp_None, kcp_ClearError
             (fold HandleOutput (ikcp_update lib kcp now_ms) (kcp_record (Call_update now_ms) p))))"

text \<open>\<^verbatim>\<open>std::vector<std::byte>::resize\<close>: cut at the end or fill up with zero bytes.\<close>

definition vec_resize :: "nat \<Rightarrow> byte list \<Rightarrow> byte list" where
  "vec_resize n xs = take n xs @ replicate (n - length xs) 0"

definition kcp_Receive ::
    "ikcp \<Rightarrow> byte list ptr \<Rightarrow> KcpPeer \<Rightarrow> KcpPeerErrorCode \<times> byte list ptr \<times> KcpPeer" where
  "kcp_Receive lib payload p =
     (case kp_handle p of
        None \<Rightarrow> (case kcp_SetError Kcp_InvalidState [] p of (code, p) \<Rightarrow> (code, payload, p))
      | Some kcp \<Rightarrow>
         (case payload of
            None \<Rightarrow> (case kcp_SetError Kcp_InvalidArgument ''KCP receive output must not be null.'' p of
                      (code, p) \<Rightarrow> (code, None, p))
          | Some _ \<Rightarrow>
              let message_size = ikcp_peeksize lib kcp in
              if message_size < 0
              then (case kcp_SetError Kcp_MessageUnavailable [] p of (code, p) \<Rightarrow> (code, Some [], p))
              else let room = vec_resize (nat message_size) [];
                       (result, written) = ikcp_recv lib kcp (nat message_size);
                       p = kcp_record (Call_recv (nat message_size)) p
                   in if result < 0
                      then (case kcp_SetError Kcp_ReceiveFailed [] p of (code, p) \<Rightarrow> (code, Some [], p))
                      else (Kcp_None, Some (vec_resize (nat result) (memcpy_at 0 written room)),
                            kcp_ClearError p)))"

definition kcp_ConsumeOutgoingDatagrams :: "KcpPeer \<Rightarrow> byte list list \<times> KcpPeer" where
  "kcp_ConsumeOutgoingDatagrams p =
     (kp_pending_datagrams p, p\<lparr>kp_pending_datagram_bytes := 0, kp_pending_datagrams := []\<rparr>)"

section \<open>Which configurations give a usable peer\<close>

definition kcp_config_ok :: "KcpConfig \<Rightarrow> bool" where
  "kcp_config_ok c \<longleftrightarrow>
     kcp_mtu c \<noteq> 0 \<and> kcp_sndwnd c \<noteq> 0 \<and> kcp_rcvwnd c \<noteq> 0 \<and> kcp_interval_ms c \<noteq> 0 \<and>
     kcp_min_rto_ms c \<noteq> 0 \<and> kcp_dead_link_count c \<noteq> 0 \<and>
     list_all FitsInSignedInt [kcp_mtu c, kcp_sndwnd c, kcp_rcvwnd c, kcp_interval_ms c,
       kcp_fast_resend c, kcp_min_rto_ms c]"

text \<open>The settings the control block runs with: the configured ones, with the two clamps of the library.\<close>

definition kcp_settings :: "KcpPeerOptions \<Rightarrow> KcpPeerRuntimeState" where
  "kcp_settings opts = (let c = kpo_config opts in
     \<lparr>kprs_conversation = kpo_conversation opts, kprs_mtu = kcp_mtu c, kprs_sndwnd = kcp_sndwnd c,
      kprs_rcvwnd = max (kcp_rcvwnd c) 128, kprs_nodelay = kcp_nodelay c,
      kprs_interval_ms = min 5000 (max 10 (kcp_interval_ms c)), kprs_fast_resend = kcp_fast_resend c,
      kprs_no_congestion_window = kcp_no_congestion_window c, kprs_min_rto_ms = kcp_min_rto_ms c,
      kprs_dead_link_count = kcp_dead_link_count c, kprs_stream_mode = kcp_stream_mode c\<rparr>)"

definition kcp_memory_ok :: "ikcp \<Rightarrow> u32 \<Rightarrow> bool" where
  "kcp_memory_ok lib mtu \<longleftrightarrow> ikcp_malloc_cb lib \<and> ikcp_malloc lib 4272 \<and> ikcp_malloc lib ((mtu + 24) * 3)"

lemma sint_fits: "FitsInSignedInt w \<Longrightarrow> sint w = uint w"
proof -
  assume "FitsInSignedInt w"
  then have "uint w < 2 ^ 31"
    by (simp add: FitsInSignedInt_def word_le_def)
  moreover have "- (2 ^ 31) \<le> uint w" by (rule order_trans [OF _ uint_ge_0]) simp
  ultimately show ?thesis
    by (simp add: sint_uint signed_take_bit_int_eq_self_iff)
qed

lemma clamp_interval_fits:
  "FitsInSignedInt w \<Longrightarrow> clamp_interval w = min 5000 (max 10 w)"
  by (auto simp: clamp_interval_def sint_fits min_def max_def word_le_def word_less_def
      intro: word_uint_eqI)

lemma ValidateOptions_ok:
  "kcp_config_ok (kpo_config (kp_options p)) \<Longrightarrow> kcp_ValidateOptions p = (Kcp_None, p)"
  by (simp add: kcp_config_ok_def kcp_ValidateOptions_def Let_def)

lemma ValidateOptions_bad:
  assumes "\<not> kcp_config_ok (kpo_config (kp_options p))"
  shows "\<exists>message. message \<noteq> [] \<and>
     kcp_ValidateOptions p = (Kcp_ConfigInvalid, p\<lparr>kp_last_error_message := message\<rparr>)"
proof -
  define rejects where "rejects r \<longleftrightarrow> (\<exists>message. message \<noteq> [] \<and>
      r = (Kcp_ConfigInvalid, p\<lparr>kp_last_error_message := message\<rparr>))" for r
  have set: "rejects (kcp_SetError Kcp_ConfigInvalid message p)" if "message \<noteq> []" for message
    using that unfolding rejects_def kcp_SetError_def by (intro exI [of _ message]) simp
  then have positive: "rejects (kcp_fail_positive field p)" for field
    by (simp add: kcp_fail_positive_def)
  have "rejects (kcp_ValidateOptions p)"
    using assms unfolding kcp_ValidateOptions_def Let_def kcp_config_ok_def
    by (auto simp: positive set)
  then show ?thesis by (simp add: rejects_def)
qed

lemma sint_fits_pos: "FitsInSignedInt w \<Longrightarrow> w \<noteq> 0 \<Longrightarrow> 0 < sint w"
  by (simp add: sint_fits word_neq_0_conv [symmetric] flip: word_less_def [of 0, simplified])

lemma setmtu_ok:
  assumes "FitsInSignedInt mtu" "50 \<le> mtu" "ikcp_malloc lib ((mtu + 24) * 3)"
  shows "ikcp_setmtu lib mtu kcp =
    (0, kcp\<lparr>cb_mtu := mtu, cb_mss := mtu - 24, cb_buffer_size := (mtu + 24) * 3\<rparr>)"
proof -
  have "50 \<le> sint mtu" using assms(1,2) by (simp add: sint_fits word_le_def)
  then show ?thesis using assms(3) by (simp add: ikcp_setmtu_def IKCP_OVERHEAD_def)
qed

lemma setmtu_bad:
  assumes "FitsInSignedInt mtu" "\<not> (50 \<le> mtu \<and> ikcp_malloc lib ((mtu + 24) * 3))"
  shows "fst (ikcp_setmtu lib mtu kcp) \<noteq> 0"
proof -
  have "50 \<le> mtu \<longleftrightarrow> \<not> sint mtu < 50" using assms(1) by (simp add: sint_fits word_le_def not_less)
  then show ?thesis using assms(2) by (auto simp: ikcp_setmtu_def IKCP_OVERHEAD_def Let_def)
qed

lemma wndsize_ok:
  assumes "FitsInSignedInt sndwnd" "sndwnd \<noteq> 0" "FitsInSignedInt rcvwnd" "rcvwnd \<noteq> 0"
  shows "ikcp_wndsize sndwnd rcvwnd kcp = (0, kcp\<lparr>cb_snd_wnd := sndwnd, cb_rcv_wnd := max rcvwnd 128\<rparr>)"
  using assms by (simp add: ikcp_wndsize_def sint_fits_pos IKCP_WND_RCV_def)

lemma nodelay_ok:
  assumes "FitsInSignedInt interval" "FitsInSignedInt resend"
  shows "ikcp_nodelay (if nodelay then 1 else 0) interval resend (if nc then 1 else 0) kcp =
    (0, kcp\<lparr>cb_nodelay := (if nodelay then 1 else 0),
           cb_rx_minrto := (if nodelay then IKCP_RTO_NDL else IKCP_RTO_MIN),
           cb_interval := min 5000 (max 10 interval), cb_fastresend := resend,
           cb_nocwnd := (if nc then 1 else 0)\<rparr>)"
  using assms by (simp add: ikcp_nodelay_def sint_fits clamp_interval_fits)

definition kcp_configured :: "KcpConfig \<Rightarrow> ikcpcb \<Rightarrow> ikcpcb" where
  "kcp_configured c kcp = kcp\<lparr>cb_mtu := kcp_mtu c,
     cb_mss := kcp_mtu c - 24, cb_buffer_size := (kcp_mtu c + 24) * 3, cb_snd_wnd := kcp_sndwnd c,
     cb_rcv_wnd := max (kcp_rcvwnd c) 128, cb_nodelay := (if kcp_nodelay c then 1 else 0),
     cb_interval := min 5000 (max 10 (kcp_interval_ms c)), cb_fastresend := kcp_fast_resend c,
     cb_nocwnd := (if kcp_no_congestion_window c then 1 else 0), cb_rx_minrto := kcp_min_rto_ms c,
     cb_dead_link := kcp_dead_link_count c, cb_stream := (if kcp_stream_mode c then 1 else 0)\<rparr>"

lemma ApplyConfig_ok:
  assumes c: "kcp_config_ok c" "kpo_config (kp_options p) = c" and "kp_handle p = Some kcp"
    and mtu: "50 \<le> kcp_mtu c" "ikcp_malloc lib ((kcp_mtu c + 24) * 3)"
  shows "kcp_ApplyConfig lib p = (Kcp_None, p\<lparr>kp_handle := Some (kcp_configured c kcp)\<rparr>)"
proof -
  have fits: "FitsInSignedInt (kcp_mtu c)" "FitsInSignedInt (kcp_sndwnd c)" "FitsInSignedInt (kcp_rcvwnd c)"
      "FitsInSignedInt (kcp_interval_ms c)" "FitsInSignedInt (kcp_fast_resend c)"
      "kcp_sndwnd c \<noteq> 0" "kcp_rcvwnd c \<noteq> 0"
    using c(1) by (simp_all add: kcp_config_ok_def)
  show ?thesis
    unfolding kcp_ApplyConfig_def assms(2,3) option.case Let_def
      setmtu_ok [OF fits(1) mtu] wndsize_ok [OF fits(2,6,3,7)] nodelay_ok [OF fits(4,5)] prod.case
    by (simp add: kcp_configured_def)
qed

lemma ApplyConfig_bad:
  assumes c: "kcp_config_ok c" "kpo_config (kp_options p) = c" and "kp_handle p = Some kcp"
    and mtu: "\<not> (50 \<le> kcp_mtu c \<and> ikcp_malloc lib ((kcp_mtu c + 24) * 3))"
  shows "\<exists>kcp' message. message \<noteq> [] \<and>
    kcp_ApplyConfig lib p = (Kcp_ConfigInvalid, p\<lparr>kp_handle := kcp', kp_last_error_message := message\<rparr>)"
proof -
  have "FitsInSignedInt (kcp_mtu c)" using c(1) by (simp add: kcp_config_ok_def)
  from setmtu_bad [OF this mtu] obtain r kcp1 where "ikcp_setmtu lib (kcp_mtu c) kcp = (r, kcp1)" "r \<noteq> 0"
    by (metis prod.collapse)
  then have "kcp_ApplyConfig lib p = (Kcp_ConfigInvalid,
      p\<lparr>kp_handle := Some kcp1, kp_last_error_message := ''Failed to apply KCP mtu.''\<rparr>)"
    by (simp only: kcp_ApplyConfig_def assms(2,3) option.case Let_def prod.case simp_thms if_True)
      (simp add: kcp_SetError_def)
  then show ?thesis by blast
qed

definition kcp_created :: "u32 \<Rightarrow> ikcpcb" where
  "kcp_created conv = \<lparr>cb_conv = conv, cb_mtu = 1400, cb_mss = 1376, cb_snd_wnd = 32, cb_rcv_wnd = 128,
     cb_nodelay = 0, cb_interval = 100, cb_fastresend = 0, cb_nocwnd = 0, cb_rx_minrto = 100,
     cb_dead_link = 20, cb_stream = 0, cb_buffer_size = 4272, cb_calls = []\<rparr>"

lemma ikcp_create_eq:
  "ikcp_create lib conv =
    (if ikcp_malloc_cb lib \<and> ikcp_malloc lib 4272 then Some (kcp_created conv) else None)"
  by (simp add: ikcp_create_def kcp_created_def ikcp_constants Let_def)

lemma new_KcpPeer_ok:
  assumes "kcp_config_ok (kpo_config opts)" "50 \<le> kcp_mtu (kpo_config opts)"
    "kcp_memory_ok lib (kcp_mtu (kpo_config opts))"
  shows "new_KcpPeer lib opts = \<lparr>kp_options = opts,
    kp_handle = Some (kcp_configured (kpo_config opts) (kcp_created (kpo_conversation opts))),
    kp_pending_datagrams = [], kp_pending_datagram_bytes = 0, kp_last_error_message = []\<rparr>"
  using assms
  by (simp add: new_KcpPeer_def kcp_Initialize_def ValidateOptions_ok ikcp_create_eq kcp_memory_ok_def
      ApplyConfig_ok [OF _ refl] kcp_ClearError_def)

lemma new_KcpPeer_bad:
  assumes "\<not> (kcp_config_ok (kpo_config opts) \<and> 50 \<le> kcp_mtu (kpo_config opts) \<and>
    kcp_memory_ok lib (kcp_mtu (kpo_config opts)))"
  shows "\<exists>message. message \<noteq> [] \<and> new_KcpPeer lib opts = \<lparr>kp_options = opts, kp_handle = None,
    kp_pending_datagrams = [], kp_pending_datagram_bytes = 0, kp_last_error_message = message\<rparr>"
proof -
  define p where "p = \<lparr>kp_options = opts, kp_handle = None, kp_pending_datagrams = [],
    kp_pending_datagram_bytes = 0, kp_last_error_message = []\<rparr>"
  consider (config) "\<not> kcp_config_ok (kpo_config opts)"
    | (create) "kcp_config_ok (kpo_config opts)" "ikcp_create lib (kpo_conversation opts) = None"
    | (applying) kcp where "kcp_config_ok (kpo_config opts)" "ikcp_create lib (kpo_conversation opts) = Some kcp"
        "\<not> (50 \<le> kcp_mtu (kpo_config opts) \<and> ikcp_malloc lib ((kcp_mtu (kpo_config opts) + 24) * 3))"
    using assms
    by (cases "kcp_config_ok (kpo_config opts)")
      (auto simp: ikcp_create_eq kcp_memory_ok_def split: if_splits)
  then show ?thesis
  proof cases
    case config
    then have "\<not> kcp_config_ok (kpo_config (kp_options p))" by (simp add: p_def)
    from ValidateOptions_bad [OF this] show ?thesis
      unfolding new_KcpPeer_def kcp_Initialize_def p_def [symmetric] by (auto simp: p_def)
  next
    case create
    then have "kcp_ValidateOptions p = (Kcp_None, p)" by (simp add: ValidateOptions_ok p_def)
    then show ?thesis
      unfolding new_KcpPeer_def kcp_Initialize_def p_def [symmetric]
      using create(2) by (simp add: p_def kcp_SetError_def)
  next
    case applying
    then have v: "kcp_ValidateOptions p = (Kcp_None, p)" by (simp add: ValidateOptions_ok p_def)
    obtain kcp' message where
      "message \<noteq> []" "kcp_ApplyConfig lib (p\<lparr>kp_handle := Some kcp\<rparr>) = (Kcp_ConfigInvalid,
        p\<lparr>kp_handle := kcp', kp_last_error_message := message\<rparr>)"
      using ApplyConfig_bad [OF applying(1), of "p\<lparr>kp_handle := Some kcp\<rparr>" kcp lib] applying(3)
      by (auto simp: p_def)
    then show ?thesis
      unfolding new_KcpPeer_def kcp_Initialize_def p_def [symmetric] v
      using applying(2) by (simp add: p_def)
  qed
qed

lemma kcp_usable_iff:
  "kcp_valid (new_KcpPeer lib opts) \<longleftrightarrow>
     kcp_config_ok (kpo_config opts) \<and> 50 \<le> kcp_mtu (kpo_config opts) \<and>
     kcp_memory_ok lib (kcp_mtu (kpo_config opts))"
  (is "?L \<longleftrightarrow> ?R")
proof (cases ?R)
  case True
  then show ?thesis by (simp add: new_KcpPeer_ok kcp_valid_def)
next
  case False
  then have "\<not> ?L" using new_KcpPeer_bad [OF False] by (auto simp: kcp_valid_def)
  with False show ?thesis by blast
qed

section \<open>Datagrams\<close>

text \<open>
  A client uses a peer through its operations, in any order; \<open>kcp_step\<close> is one of them, with the
  datagrams it hands to the client, and \<open>kcp_emitted\<close> the datagrams the library emits during it.
\<close>

datatype kcp_op =
    Op_Send "byte list" | Op_Input "byte list" | Op_Update u32 | Op_Flush u32 | Op_Receive "byte list ptr"
  | Op_Consume

fun kcp_step :: "ikcp \<Rightarrow> kcp_op \<Rightarrow> KcpPeer \<Rightarrow> byte list list \<times> KcpPeer" where
  "kcp_step lib (Op_Send payload) p = ([], snd (kcp_Send lib payload p))"
| "kcp_step lib (Op_Input datagram) p = ([], snd (kcp_Input lib datagram p))"
| "kcp_step lib (Op_Update now_ms) p = ([], snd (kcp_Update lib now_ms p))"
| "kcp_step lib (Op_Flush now_ms) p = ([], snd (kcp_Flush lib now_ms p))"
| "kcp_step lib (Op_Receive payload) p = ([], snd (snd (kcp_Receive lib payload p)))"
| "kcp_step lib Op_Consume p = kcp_ConsumeOutgoingDatagrams p"

definition outgoing :: "byte list option \<times> int \<Rightarrow> byte list list" where
  "outgoing output = (case output of (buffer, len) \<Rightarrow>
     (case buffer of Some bytes \<Rightarrow> if len < 0 then [] else [take (nat len) bytes] | None \<Rightarrow> []))"

definition kcp_updates :: "ikcp \<Rightarrow> u32 \<Rightarrow> KcpPeer \<Rightarrow> byte list list" where
  "kcp_updates lib now_ms p =
     (case kp_handle p of None \<Rightarrow> [] | Some kcp \<Rightarrow> concat (map outgoing (ikcp_update lib kcp now_ms)))"

fun kcp_emitted :: "ikcp \<Rightarrow> kcp_op \<Rightarrow> KcpPeer \<Rightarrow> byte list list" where
  "kcp_emitted lib (Op_Update now_ms) p = kcp_updates lib now_ms p"
| "kcp_emitted lib (Op_Flush now_ms) p = kcp_updates lib now_ms p"
| "kcp_emitted lib _ p = []"

fun kcp_run :: "ikcp \<Rightarrow> kcp_op list \<Rightarrow> KcpPeer \<Rightarrow> byte list list \<times> KcpPeer" where
  "kcp_run lib [] p = ([], p)"
| "kcp_run lib (op # ops) p =
     (let (got, p1) = kcp_step lib op p; (rest, p2) = kcp_run lib ops p1 in (got @ rest, p2))"

fun kcp_emissions :: "ikcp \<Rightarrow> kcp_op list \<Rightarrow> KcpPeer \<Rightarrow> byte list list" where
  "kcp_emissions lib [] p = []"
| "kcp_emissions lib (op # ops) p = kcp_emitted lib op p @ kcp_emissions lib ops (snd (kcp_step lib op p))"

text \<open>The library passes its callback a buffer that holds as many bytes as the length argument says.\<close>

definition ikcp_output_ok :: "ikcp \<Rightarrow> bool" where
  "ikcp_output_ok lib \<longleftrightarrow> (\<forall>kcp now_ms bytes len.
     (Some bytes, len) \<in> set (ikcp_update lib kcp now_ms) \<longrightarrow> len \<le> int (length bytes))"

definition kcp_counted :: "KcpPeer \<Rightarrow> bool" where
  "kcp_counted p \<longleftrightarrow>
     kp_pending_datagram_bytes p = word_of_nat (sum_list (map length (kp_pending_datagrams p)))"

text \<open>Only the callback and the consumer touch the pending datagrams.\<close>

lemma kcp_pending_frame [simp]:
  "kp_pending_datagrams (snd (kcp_SetError code message p)) = kp_pending_datagrams p"
  "kp_pending_datagram_bytes (snd (kcp_SetError code message p)) = kp_pending_datagram_bytes p"
  "kp_pending_datagrams (kcp_ClearError p) = kp_pending_datagrams p"
  "kp_pending_datagram_bytes (kcp_ClearError p) = kp_pending_datagram_bytes p"
  "kp_pending_datagrams (kcp_record c p) = kp_pending_datagrams p"
  "kp_pending_datagram_bytes (kcp_record c p) = kp_pending_datagram_bytes p"
  by (simp_all add: kcp_SetError_def kcp_ClearError_def kcp_record_def)

lemma kcp_Send_pending:
  "kp_pending_datagrams (snd (kcp_Send lib payload p)) = kp_pending_datagrams p"
  "kp_pending_datagram_bytes (snd (kcp_Send lib payload p)) = kp_pending_datagram_bytes p"
  by (simp_all add: kcp_Send_def Let_def split: option.split)

lemma kcp_Input_pending:
  "kp_pending_datagrams (snd (kcp_Input lib datagram p)) = kp_pending_datagrams p"
  "kp_pending_datagram_bytes (snd (kcp_Input lib datagram p)) = kp_pending_datagram_bytes p"
  by (simp_all add: kcp_Input_def Let_def split: option.split)

lemma kcp_Receive_pending:
  "kp_pending_datagrams (snd (snd (kcp_Receive lib payload p))) = kp_pending_datagrams p"
  "kp_pending_datagram_bytes (snd (snd (kcp_Receive lib payload p))) = kp_pending_datagram_bytes p"
  by (simp_all add: kcp_Receive_def kcp_SetError_def Let_def split: option.split prod.split)

lemma HandleOutput_pending:
  assumes "\<And>bytes. buffer = Some bytes \<Longrightarrow> len \<le> int (length bytes)" and "kcp_counted p"
  shows "kp_pending_datagrams (HandleOutput (buffer, len) p) = kp_pending_datagrams p @ outgoing (buffer, len)
    \<and> kcp_counted (HandleOutput (buffer, len) p)"
proof (cases "buffer = None \<or> len < 0")
  case True
  then show ?thesis using assms(2) by (auto simp: HandleOutput_def outgoing_def split: option.split)
next
  case False
  then obtain bytes n where buf: "buffer = Some bytes" "len = int n"
    by (metis nonneg_int_cases not_less option.exhaust)
  with assms(1) have "n \<le> length bytes" by simp
  then show ?thesis using assms(2) by (simp add: buf HandleOutput_def outgoing_def kcp_counted_def min_absorb2)
qed

lemma fold_HandleOutput_pending:
  assumes "\<And>bytes len. (Some bytes, len) \<in> set calls \<Longrightarrow> len \<le> int (length bytes)" and "kcp_counted p"
  shows "kp_pending_datagrams (fold HandleOutput calls p) =
      kp_pending_datagrams p @ concat (map outgoing calls) \<and> kcp_counted (fold HandleOutput calls p)"
  using assms
proof (induction calls arbitrary: p)
  case Nil
  then show ?case by simp
next
  case (Cons call calls)
  obtain buffer len where call: "call = (buffer, len)" by fastforce
  have "kp_pending_datagrams (HandleOutput call p) = kp_pending_datagrams p @ outgoing call \<and>
      kcp_counted (HandleOutput call p)"
    using HandleOutput_pending [of buffer len p] Cons.prems by (simp add: call)
  then show ?case using Cons.IH [of "HandleOutput call p"] Cons.prems(1) by simp
qed

lemma kcp_Update_pending:
  assumes "ikcp_output_ok lib" "kcp_counted p"
  shows "kp_pending_datagrams (snd (kcp_Update lib now_ms p)) = kp_pending_datagrams p @ kcp_updates lib now_ms p
    \<and> kcp_counted (snd (kcp_Update lib now_ms p))"
proof (cases "kp_handle p")
  case None
  then show ?thesis using assms(2) by (simp add: kcp_Update_def kcp_updates_def kcp_counted_def)
next
  case (Some kcp)
  have "kcp_counted (kcp_record (Call_update now_ms) p)" using assms(2) by (simp add: kcp_counted_def)
  moreover have "\<And>bytes len. (Some bytes, len) \<in> set (ikcp_update lib kcp now_ms) \<Longrightarrow> len \<le> int (length bytes)"
    using assms(1) by (auto simp: ikcp_output_ok_def)
  ultimately show ?thesis
    using fold_HandleOutput_pending [of "ikcp_update lib kcp now_ms" "kcp_record (Call_update now_ms) p"] Some
    by (simp add: kcp_Update_def kcp_updates_def kcp_counted_def)
qed

lemma kcp_Flush_eq_Update: "kcp_Flush lib now_ms p = kcp_Update lib now_ms p"
  by (simp add: kcp_Flush_def kcp_Update_def)

lemma kcp_step_pending:
  assumes "ikcp_output_ok lib" "kcp_counted p"
  shows "fst (kcp_step lib op p) @ kp_pending_datagrams (snd (kcp_step lib op p)) =
      kp_pending_datagrams p @ kcp_emitted lib op p \<and> kcp_counted (snd (kcp_step lib op p))"
  using assms kcp_Update_pending [OF assms]
  by (cases op) (simp_all add: kcp_Send_pending kcp_Input_pending kcp_Receive_pending kcp_Flush_eq_Update
      kcp_ConsumeOutgoingDatagrams_def kcp_counted_def)

lemma kcp_run_pending:
  assumes "ikcp_output_ok lib" "kcp_counted p" "kcp_run lib ops p = (got, q)"
  shows "got @ kp_pending_datagrams q = kp_pending_datagrams p @ kcp_emissions lib ops p \<and> kcp_counted q"
  using assms(2,3)
proof (induction ops arbitrary: p got)
  case Nil
  then show ?case by simp
next
  case (Cons op ops)
  obtain got1 p1 where s: "kcp_step lib op p = (got1, p1)" by fastforce
  obtain got2 where r: "kcp_run lib ops p1 = (got2, q)" and got: "got = got1 @ got2"
    using Cons.prems(2) by (auto simp: s split: prod.splits)
  from kcp_step_pending [OF assms(1) Cons.prems(1), of op]
  have "got1 @ kp_pending_datagrams p1 = kp_pending_datagrams p @ kcp_emitted lib op p" "kcp_counted p1"
    by (simp_all add: s)
  with Cons.IH [OF _ r] show ?case
    by (simp add: got s)
qed

lemma new_KcpPeer_pending:
  "kp_pending_datagrams (new_KcpPeer lib opts) = [] \<and> kcp_counted (new_KcpPeer lib opts)"
proof (cases "kcp_config_ok (kpo_config opts) \<and> 50 \<le> kcp_mtu (kpo_config opts) \<and>
    kcp_memory_ok lib (kcp_mtu (kpo_config opts))")
  case True
  then show ?thesis by (simp add: new_KcpPeer_ok kcp_counted_def)
next
  case False
  from new_KcpPeer_bad [OF this] show ?thesis by (auto simp: kcp_counted_def)
qed

section \<open>Properties\<close>

text \<open>
  C35. A peer is usable exactly when every positive field of its configuration is positive, the fields
  handed to the library as signed integers fit, the mtu is at least 50 and the allocations succeed. A
  usable peer runs with the configured settings, except that the receive window is raised to 128 and
  the interval is brought into 10 to 5000 ms; an unusable one has no control block, explains itself and
  reports zero settings.
\<close>

theorem kcp_peer_construction:
  "(kcp_valid (new_KcpPeer lib opts) \<longleftrightarrow>
      kcp_config_ok (kpo_config opts) \<and> 50 \<le> kcp_mtu (kpo_config opts) \<and>
      kcp_memory_ok lib (kcp_mtu (kpo_config opts))) \<and>
   kcp_conversation (new_KcpPeer lib opts) = kpo_conversation opts \<and>
   (if kcp_valid (new_KcpPeer lib opts)
    then kcp_runtime_state (new_KcpPeer lib opts) = kcp_settings opts
    else kcp_runtime_state (new_KcpPeer lib opts) = zero_KcpPeerRuntimeState \<and>
      kp_last_error_message (new_KcpPeer lib opts) \<noteq> [] \<and>
      kcp_Send lib payload (new_KcpPeer lib opts) = (Kcp_InvalidState,
        (new_KcpPeer lib opts)\<lparr>kp_last_error_message := ''KCP peer is not initialized.''\<rparr>))"
proof (cases "kcp_config_ok (kpo_config opts) \<and> 50 \<le> kcp_mtu (kpo_config opts) \<and>
    kcp_memory_ok lib (kcp_mtu (kpo_config opts))")
  case True
  then show ?thesis
    by (simp add: new_KcpPeer_ok kcp_valid_def kcp_conversation_def kcp_runtime_state_def kcp_settings_def
        kcp_configured_def kcp_created_def Let_def)
next
  case False
  from new_KcpPeer_bad [OF this] False show ?thesis
    by (auto simp: kcp_valid_def kcp_conversation_def kcp_runtime_state_def kcp_Send_def kcp_SetError_def)
qed

text \<open>
  C18. Whatever operations are performed on a new peer, in whatever order, the datagrams handed to the
  client followed by those still pending are exactly the datagrams KCP emitted, in the order it emitted
  them: none is lost, repeated or overtaken. The pending byte count is the total size of the pending
  datagrams.
\<close>

theorem kcp_datagrams_in_order:
  assumes "ikcp_output_ok lib" and "kcp_run lib ops (new_KcpPeer lib opts) = (got, p)"
  shows "got @ kp_pending_datagrams p = kcp_emissions lib ops (new_KcpPeer lib opts) \<and>
    kp_pending_datagram_bytes p = word_of_nat (sum_list (map length (kp_pending_datagrams p)))"
  using kcp_run_pending [OF assms(1) _ assms(2)] new_KcpPeer_pending [of lib opts]
  by (simp add: kcp_counted_def)

text \<open>A library that always has memory, emits two bytes at every update and never has a message.\<close>

definition sample_ikcp :: ikcp where
  "sample_ikcp = \<lparr>ikcp_malloc_cb = True, ikcp_malloc = (\<lambda>_. True), ikcp_send = (\<lambda>_ _. 0),
     ikcp_input = (\<lambda>_ _. 0), ikcp_update = (\<lambda>_ now_ms. [(Some [1, ucast now_ms], 2)]),
     ikcp_check = (\<lambda>_ now_ms. now_ms + 10), ikcp_peeksize = (\<lambda>_. - 1), ikcp_recv = (\<lambda>_ _. (- 1, [])),
     long_max = 2147483647\<rparr>"

definition sample_kcp_options :: KcpPeerOptions where
  "sample_kcp_options = \<lparr>kpo_conversation = 7, kpo_config = default_KcpConfig\<rparr>"

lemma sample_kcp_usable:
  assumes "kcp_config_ok (kpo_config opts)" "50 \<le> kcp_mtu (kpo_config opts)"
  shows "kp_handle (new_KcpPeer sample_ikcp opts) =
      Some (kcp_configured (kpo_config opts) (kcp_created (kpo_conversation opts)))"
    and "kp_last_error_message (new_KcpPeer sample_ikcp opts) = []"
    and "kp_pending_datagrams (new_KcpPeer sample_ikcp opts) = []"
  using new_KcpPeer_ok [OF assms, of sample_ikcp] by (simp_all add: kcp_memory_ok_def sample_ikcp_def)

lemma sample_kcp_options_ok:
  "kcp_config_ok (kpo_config sample_kcp_options)" "50 \<le> kcp_mtu (kpo_config sample_kcp_options)"
  by (simp_all add: sample_kcp_options_def default_KcpConfig_def kcp_config_ok_def FitsInSignedInt_def)

lemma sample_kcp_run:
  assumes "kp_handle p = Some kcp" and "kp_pending_datagrams p = []"
  shows "fst (kcp_run sample_ikcp [Op_Update 5, Op_Flush 6, Op_Consume, Op_Update 9] p) = [[1, 5], [1, 6]]"
    and "kcp_emissions sample_ikcp [Op_Update 5, Op_Flush 6, Op_Consume, Op_Update 9] p = [[1, 5], [1, 6], [1, 9]]"
  using assms
  by (simp_all add: sample_ikcp_def kcp_Flush_eq_Update kcp_Update_def kcp_updates_def kcp_record_def
      kcp_ClearError_def HandleOutput_def outgoing_def kcp_ConsumeOutgoingDatagrams_def)

theorem kcp_datagrams_in_order_witness:
  "\<exists>p. kcp_run sample_ikcp [Op_Update 5, Op_Flush 6, Op_Consume, Op_Update 9]
      (new_KcpPeer sample_ikcp sample_kcp_options) = ([[1, 5], [1, 6]], p) \<and>
    [[1, 5], [1, 6]] @ kp_pending_datagrams p = kcp_emissions sample_ikcp
      [Op_Update 5, Op_Flush 6, Op_Consume, Op_Update 9] (new_KcpPeer sample_ikcp sample_kcp_options) \<and>
    kp_pending_datagrams p = [[1, 9]]"
proof -
  note sample = sample_kcp_usable [OF sample_kcp_options_ok]
  have lib: "ikcp_output_ok sample_ikcp" by (simp add: ikcp_output_ok_def sample_ikcp_def)
  obtain got p where run: "kcp_run sample_ikcp [Op_Update 5, Op_Flush 6, Op_Consume, Op_Update 9]
      (new_KcpPeer sample_ikcp sample_kcp_options) = (got, p)" by fastforce
  with sample_kcp_run(1) [OF sample(1,3)] have got: "got = [[1, 5], [1, 6]]" by simp
  have "[[1, 5], [1, 6]] @ kp_pending_datagrams p = kcp_emissions sample_ikcp
      [Op_Update 5, Op_Flush 6, Op_Consume, Op_Update 9] (new_KcpPeer sample_ikcp sample_kcp_options)"
    using kcp_datagrams_in_order [OF lib run] unfolding got by (rule conjunct1)
  with run show ?thesis unfolding got sample_kcp_run(2) [OF sample(1,3)] by simp
qed

text \<open>
  C36. The output buffer of a usable peer has room for three datagrams of the configured mtu with
  their header, as long as that size fits in 32 bits. Up to 1431655741 it does; the first larger mtu is
  accepted all the same, with a buffer of two bytes.
\<close>

theorem kcp_output_buffer_size:
  assumes "kcp_valid (new_KcpPeer lib opts)"
  shows "\<exists>kcp. kp_handle (new_KcpPeer lib opts) = Some kcp \<and> cb_mtu kcp = kcp_mtu (kpo_config opts) \<and>
    (unat (cb_buffer_size kcp) = 3 * (unat (cb_mtu kcp) + 24) \<longleftrightarrow> cb_mtu kcp \<le> 1431655741) \<and>
    (cb_mtu kcp = 1431655742 \<longrightarrow> cb_buffer_size kcp = 2)"
proof -
  let ?c = "kpo_config opts"
  let ?kcp = "kcp_configured ?c (kcp_created (kpo_conversation opts))"
  have ok: "kcp_config_ok ?c" "50 \<le> kcp_mtu ?c" "kcp_memory_ok lib (kcp_mtu ?c)"
    using assms by (simp_all add: kcp_usable_iff)
  have "unat ((m + 24) * 3) = 3 * (unat m + 24) \<longleftrightarrow> m \<le> 1431655741" for m :: u32
  proof -
    have "(m + 24) * 3 = word_of_nat ((unat m + 24) * 3)" by simp
    then have "unat ((m + 24) * 3) = (unat m + 24) * 3 mod 2 ^ 32" by (simp only: unat_of_nat) simp
    moreover have "n mod 2 ^ 32 = n \<longleftrightarrow> n < 2 ^ 32" for n :: nat
      by (metis mod_less mod_less_divisor zero_less_numeral zero_less_power)
    ultimately show ?thesis by (simp add: word_le_nat_alt mult.commute) linarith
  qed
  then show ?thesis
    using new_KcpPeer_ok [OF ok] by (simp add: kcp_configured_def)
qed

theorem kcp_output_buffer_size_witness:
  "\<exists>kcp. kp_handle (new_KcpPeer sample_ikcp (sample_kcp_options\<lparr>kpo_config :=
      default_KcpConfig\<lparr>kcp_mtu := 1431655742\<rparr>\<rparr>)) = Some kcp \<and> cb_buffer_size kcp = 2"
proof -
  let ?opts = "sample_kcp_options\<lparr>kpo_config := default_KcpConfig\<lparr>kcp_mtu := 1431655742\<rparr>\<rparr>"
  have ok: "kcp_config_ok (kpo_config ?opts)" "50 \<le> kcp_mtu (kpo_config ?opts)"
    by (simp_all add: sample_kcp_options_def default_KcpConfig_def kcp_config_ok_def FitsInSignedInt_def)
  have "kcp_valid (new_KcpPeer sample_ikcp ?opts)"
    unfolding kcp_valid_def sample_kcp_usable [OF ok] by simp
  from kcp_output_buffer_size [OF this] show ?thesis by auto
qed

text \<open>
  Polling a peer for a message when none is complete leaves the caller's buffer empty and the
  peer, although its control block works, not valid, until the next operation that succeeds.
\<close>

theorem kcp_receive_unavailable:
  assumes "kp_handle p = Some kcp" and "ikcp_peeksize lib kcp < 0"
    and "kcp_Receive lib (Some buffer) p = (code, payload, q)"
  shows "code = Kcp_MessageUnavailable \<and> payload = Some [] \<and> kp_handle q = kp_handle p \<and>
    \<not> kcp_valid q \<and> kcp_valid (snd (kcp_Update lib now_ms q))"
proof -
  have handle: "kp_handle (fold HandleOutput calls r) = kp_handle r" for calls r
    by (induction calls arbitrary: r) (auto simp: HandleOutput_def split: prod.split option.split)
  have "q = p\<lparr>kp_last_error_message := ''No completed KCP message is currently available.''\<rparr>"
      "code = Kcp_MessageUnavailable" "payload = Some []"
    using assms by (simp_all add: kcp_Receive_def kcp_SetError_def)
  then show ?thesis
    using assms(1) by (simp add: kcp_valid_def kcp_Update_def kcp_ClearError_def handle kcp_record_def)
qed

theorem kcp_receive_unavailable_witness:
  "\<not> kcp_valid (snd (snd (kcp_Receive sample_ikcp (Some [3]) (new_KcpPeer sample_ikcp sample_kcp_options))))"
proof -
  let ?p = "new_KcpPeer sample_ikcp sample_kcp_options"
  obtain kcp where "kp_handle ?p = Some kcp" using sample_kcp_usable(1) [OF sample_kcp_options_ok] by blast
  moreover have "ikcp_peeksize sample_ikcp kcp < 0" by (simp add: sample_ikcp_def)
  moreover obtain code payload q where "kcp_Receive sample_ikcp (Some [3]) ?p = (code, payload, q)"
    by (metis prod_cases3)
  ultimately show ?thesis using kcp_receive_unavailable [of ?p kcp sample_ikcp "[3]" code payload q 0] by simp
qed

end
