(* ===== verification/ClientSession.thy ===== *)
theory ClientSession
  imports KcpPeer HeartbeatCodec
begin

text \<open>
  \<^verbatim>\<open>node/ClientSession.cpp\<close>: the session a gate keeps for one client, with its life cycle, its route to
  a game node and its KCP peer. The theory shows that the operations implement an abstract state
  machine in which a route carries its target, and what that means for every sequence of operations.
\<close>

section \<open>States and errors\<close>

datatype ClientSessionState =
    Session_Created | Session_Authenticating | Session_Active | Session_Closing | Session_Closed

fun ClientSessionStateName :: "ClientSessionState \<Rightarrow> string" where
  "ClientSessionStateName Session_Created = ''Created''"
| "ClientSessionStateName Session_Authenticating = ''Authenticating''"
| "ClientSessionStateName Session_Active = ''Active''"
| "ClientSessionStateName Session_Closing = ''Closing''"
| "ClientSessionStateName Session_Closed = ''Closed''"

datatype ClientRouteState =
    Route_Unassigned | Route_Selecting | Route_Bound | Route_RouteLost | Route_Released

fun ClientRouteStateName :: "ClientRouteState \<Rightarrow> string" where
  "ClientRouteStateName Route_Unassigned = ''Unassigned''"
| "ClientRouteStateName Route_Selecting = ''Selecting''"
| "ClientRouteStateName Route_Bound = ''Bound''"
| "ClientRouteStateName Route_RouteLost = ''RouteLost''"
| "ClientRouteStateName Route_Released = ''Released''"

datatype ClientSessionErrorCode =
    Cs_None | Cs_InvalidArgument | Cs_InvalidState | Cs_InvalidSessionStateTransition
  | Cs_InvalidRouteStateTransition | Cs_InvalidRouteTarget

fun ClientSessionErrorMessage :: "ClientSessionErrorCode \<Rightarrow> string" where
  "ClientSessionErrorMessage Cs_None = ''Success.''"
| "ClientSessionErrorMessage Cs_InvalidArgument = ''Client session argument is invalid.''"
| "ClientSessionErrorMessage Cs_InvalidState = ''Client session is not valid.''"
| "ClientSessionErrorMessage Cs_InvalidSessionStateTransition = ''Client session state transition is invalid.''"
| "ClientSessionErrorMessage Cs_InvalidRouteStateTransition = ''Client session route-state transition is invalid.''"
| "ClientSessionErrorMessage Cs_InvalidRouteTarget = ''Client session route target is invalid.''"

section \<open>The session\<close>

record ClientRouteTarget =
  crt_game_node_id :: string
  crt_inner_network_endpoint :: Endpoint
  crt_route_epoch :: u64

record ClientSessionOptions =
  cso_gate_node_id :: string
  cso_session_id :: u64
  cso_conversation :: u32
  cso_remote_endpoint :: Endpoint
  cso_kcp :: KcpConfig
  cso_connected_at_unix_ms :: u64

record ClientSessionSnapshot =
  css_gate_node_id :: string
  css_session_id :: u64
  css_conversation :: u32
  css_remote_endpoint :: Endpoint
  css_session_state :: ClientSessionState
  css_route_state :: ClientRouteState
  css_route_target :: "ClientRouteTarget option"
  css_connected_at_unix_ms :: u64
  css_authenticated_at_unix_ms :: u64
  css_last_active_unix_ms :: u64
  css_closed_at_unix_ms :: u64
  css_close_reason_code :: i32

record ClientSession =
  cs_gate_node_id :: string
  cs_session_id :: u64
  cs_remote_endpoint :: Endpoint
  cs_kcp :: KcpPeer
  cs_session_state :: ClientSessionState
  cs_route_state :: ClientRouteState
  cs_route_target :: "ClientRouteTarget option"
  cs_connected_at_unix_ms :: u64
  cs_authenticated_at_unix_ms :: u64
  cs_last_active_unix_ms :: u64
  cs_closed_at_unix_ms :: u64
  cs_close_reason_code :: i32
  cs_valid :: bool
  cs_last_error_message :: string

definition session_SetError ::
    "ClientSessionErrorCode \<Rightarrow> string \<Rightarrow> ClientSession \<Rightarrow> ClientSessionErrorCode \<times> ClientSession" where
  "session_SetError code message s =
     (code, s\<lparr>cs_last_error_message := (if message = [] then ClientSessionErrorMessage code else message)\<rparr>)"

definition session_ClearError :: "ClientSession \<Rightarrow> ClientSession" where
  "session_ClearError s = s\<lparr>cs_last_error_message := []\<rparr>"

definition new_ClientSession :: "ikcp \<Rightarrow> ClientSessionOptions \<Rightarrow> ClientSession" where
  "new_ClientSession lib options =
     (let s = \<lparr>cs_gate_node_id = cso_gate_node_id options, cs_session_id = cso_session_id options,
            cs_remote_endpoint = cso_remote_endpoint options,
            cs_kcp = new_KcpPeer lib \<lparr>kpo_conversation = cso_conversation options, kpo_config = cso_kcp options\<rparr>,
            cs_session_state = Session_Created, cs_route_state = Route_Unassigned, cs_route_target = None,
            cs_connected_at_unix_ms = cso_connected_at_unix_ms options, cs_authenticated_at_unix_ms = 0,
            cs_last_active_unix_ms = 0, cs_closed_at_unix_ms = 0, cs_close_reason_code = 0,
            cs_valid = False, cs_last_error_message = []\<rparr>
      in if cs_gate_node_id s = []
         then snd (session_SetError Cs_InvalidArgument ''Client session gate_node_id must not be empty.'' s)
         else if cs_session_id s = 0
         then snd (session_SetError Cs_InvalidArgument ''Client session session_id must be greater than zero.'' s)
         else if ep_host (cs_remote_endpoint s) = []
         then snd (session_SetError Cs_InvalidArgument ''Client session remote endpoint host must not be empty.'' s)
         else if ep_port (cs_remote_endpoint s) = 0
         then snd (session_SetError Cs_InvalidArgument
           ''Client session remote endpoint port must be greater than zero.'' s)
         else if \<not> kcp_valid (cs_kcp s)
         then snd (session_SetError Cs_InvalidState
           (''Client session failed to initialize KCP peer: '' @ kp_last_error_message (cs_kcp s)) s)
         else session_ClearError (s\<lparr>cs_valid := True\<rparr>))"

definition session_conversation :: "ClientSession \<Rightarrow> u32" where
  "session_conversation s = kcp_conversation (cs_kcp s)"

definition session_snapshot :: "ClientSession \<Rightarrow> ClientSessionSnapshot" where
  "session_snapshot s =
     \<lparr>css_gate_node_id = cs_gate_node_id s, css_session_id = cs_session_id s,
      css_conversation = kcp_conversation (cs_kcp s), css_remote_endpoint = cs_remote_endpoint s,
      css_session_state = cs_session_state s, css_route_state = cs_route_state s,
      css_route_target = cs_route_target s, css_connected_at_unix_ms = cs_connected_at_unix_ms s,
      css_authenticated_at_unix_ms = cs_authenticated_at_unix_ms s,
      css_last_active_unix_ms = cs_last_active_unix_ms s, css_closed_at_unix_ms = cs_closed_at_unix_ms s,
      css_close_reason_code = cs_close_reason_code s\<rparr>"

section \<open>Transition tables\<close>

definition CanTransitionTo :: "ClientSession \<Rightarrow> ClientSessionState \<Rightarrow> bool" where
  "CanTransitionTo s next_state \<longleftrightarrow>
     cs_session_state s = next_state \<or>
     (case cs_session_state s of
        Session_Created \<Rightarrow> next_state = Session_Authenticating \<or> next_state = Session_Active \<or>
          next_state = Session_Closing \<or> next_state = Session_Closed
      | Session_Authenticating \<Rightarrow> next_state = Session_Active \<or> next_state = Session_Closing \<or>
          next_state = Session_Closed
      | Session_Active \<Rightarrow> next_state = Session_Closing \<or> next_state = Session_Closed
      | Session_Closing \<Rightarrow> next_state = Session_Closed
      | Session_Closed \<Rightarrow> False)"

definition CanTransitionRouteTo :: "ClientSession \<Rightarrow> ClientRouteState \<Rightarrow> bool" where
  "CanTransitionRouteTo s next_state \<longleftrightarrow>
     cs_route_state s = next_state \<or>
     (case cs_route_state s of
        Route_Unassigned \<Rightarrow> next_state = Route_Selecting \<or> next_state = Route_Bound \<or>
          next_state = Route_Released
      | Route_Selecting \<Rightarrow> next_state = Route_Unassigned \<or> next_state = Route_Bound \<or>
          next_state = Route_Released
      | Route_Bound \<Rightarrow> next_state = Route_RouteLost \<or> next_state = Route_Released
      | Route_RouteLost \<Rightarrow> next_state = Route_Bound \<or> next_state = Route_Released
      | Route_Released \<Rightarrow> False)"

section \<open>Operations\<close>

definition BeginAuthentication :: "ClientSession \<Rightarrow> ClientSessionErrorCode \<times> ClientSession" where
  "BeginAuthentication s =
     (if \<not> cs_valid s then session_SetError Cs_InvalidState [] s
      else if \<not> CanTransitionTo s Session_Authenticating
      then session_SetError Cs_InvalidSessionStateTransition
        (''Client session cannot transition from '' @ ClientSessionStateName (cs_session_state s) @
         '' to Authenticating.'') s
      else (Cs_None, session_ClearError (s\<lparr>cs_session_state := Session_Authenticating\<rparr>)))"

definition Activate :: "u64 \<Rightarrow> ClientSession \<Rightarrow> ClientSessionErrorCode \<times> ClientSession" where
  "Activate authenticated_at_unix_ms s =
     (if \<not> cs_valid s then session_SetError Cs_InvalidState [] s
      else if \<not> CanTransitionTo s Session_Active
      then session_SetError Cs_InvalidSessionStateTransition
        (''Client session cannot transition from '' @ ClientSessionStateName (cs_session_state s) @
         '' to Active.'') s
      else let s = (if authenticated_at_unix_ms \<noteq> 0
                    then s\<lparr>cs_authenticated_at_unix_ms := authenticated_at_unix_ms\<rparr> else s)
           in (Cs_None, session_ClearError (s\<lparr>cs_session_state := Session_Active\<rparr>)))"

definition BeginClosing :: "ClientSession \<Rightarrow> ClientSessionErrorCode \<times> ClientSession" where
  "BeginClosing s =
     (if \<not> cs_valid s then session_SetError Cs_InvalidState [] s
      else if \<not> CanTransitionTo s Session_Closing
      then session_SetError Cs_InvalidSessionStateTransition
        (''Client session cannot transition from '' @ ClientSessionStateName (cs_session_state s) @
         '' to Closing.'') s
      else (Cs_None, session_ClearError (s\<lparr>cs_session_state := Session_Closing\<rparr>)))"

definition session_Close :: "i32 \<Rightarrow> u64 \<Rightarrow> ClientSession \<Rightarrow> ClientSessionErrorCode \<times> ClientSession" where
  "session_Close close_reason_code closed_at_unix_ms s =
     (if \<not> cs_valid s then session_SetError Cs_InvalidState [] s
      else if closed_at_unix_ms = 0
      then session_SetError Cs_InvalidArgument ''Client session closed_at_unix_ms must be greater than zero.'' s
      else if \<not> CanTransitionTo s Session_Closed
      then session_SetError Cs_InvalidSessionStateTransition
        (''Client session cannot transition from '' @ ClientSessionStateName (cs_session_state s) @
         '' to Closed.'') s
      else (Cs_None, session_ClearError (s\<lparr>cs_close_reason_code := close_reason_code,
              cs_closed_at_unix_ms := closed_at_unix_ms, cs_session_state := Session_Closed\<rparr>)))"

definition SetRouteSelecting :: "ClientSession \<Rightarrow> ClientSessionErrorCode \<times> ClientSession" where
  "SetRouteSelecting s =
     (if \<not> cs_valid s then session_SetError Cs_InvalidState [] s
      else if \<not> CanTransitionRouteTo s Route_Selecting
      then session_SetError Cs_InvalidRouteStateTransition
        (''Client session cannot transition route state from '' @ ClientRouteStateName (cs_route_state s) @
         '' to Selecting.'') s
      else (Cs_None, session_ClearError (s\<lparr>cs_route_state := Route_Selecting, cs_route_target := None\<rparr>)))"

definition route_target_incomplete :: "ClientRouteTarget \<Rightarrow> bool" where
  "route_target_incomplete route_target \<longleftrightarrow>
     crt_game_node_id route_target = [] \<or> ep_host (crt_inner_network_endpoint route_target) = [] \<or>
     ep_port (crt_inner_network_endpoint route_target) = 0 \<or> crt_route_epoch route_target = 0"

definition BindRoute ::
    "ClientRouteTarget \<Rightarrow> ClientSession \<Rightarrow> ClientSessionErrorCode \<times> ClientSession" where
  "BindRoute route_target s =
     (if \<not> cs_valid s then session_SetError Cs_InvalidState [] s
      else if route_target_incomplete route_target
      then session_SetError Cs_InvalidRouteTarget
        ''Client route target must include nodeId, endpoint, and routeEpoch.'' s
      else if \<not> CanTransitionRouteTo s Route_Bound
      then session_SetError Cs_InvalidRouteStateTransition
        (''Client session cannot transition route state from '' @ ClientRouteStateName (cs_route_state s) @
         '' to Bound.'') s
      else (Cs_None, session_ClearError
             (s\<lparr>cs_route_target := Some route_target, cs_route_state := Route_Bound\<rparr>)))"

definition MarkRouteLost :: "ClientSession \<Rightarrow> ClientSessionErrorCode \<times> ClientSession" where
  "MarkRouteLost s =
     (if \<not> cs_valid s then session_SetError Cs_InvalidState [] s
      else if \<not> CanTransitionRouteTo s Route_RouteLost
      then session_SetError Cs_InvalidRouteStateTransition
        (''Client session cannot transition route state from '' @ ClientRouteStateName (cs_route_state s) @
         '' to RouteLost.'') s
      else (Cs_None, session_ClearError (s\<lparr>cs_route_state := Route_RouteLost\<rparr>)))"

definition ReleaseRoute :: "ClientSession \<Rightarrow> ClientSessionErrorCode \<times> ClientSession" where
  "ReleaseRoute s =
     (if \<not> cs_valid s then session_SetError Cs_InvalidState [] s
      else if \<not> CanTransitionRouteTo s Route_Released
      then session_SetError Cs_InvalidRouteStateTransition
        (''Client session cannot transition route state from '' @ ClientRouteStateName (cs_route_state s) @
         '' to Released.'') s
      else (Cs_None, session_ClearError (s\<lparr>cs_route_target := None, cs_route_state := Route_Released\<rparr>)))"

definition Touch :: "u64 \<Rightarrow> ClientSession \<Rightarrow> ClientSession" where
  "Touch last_active_unix_ms s =
     (if cs_valid s \<and> last_active_unix_ms \<noteq> 0 then s\<lparr>cs_last_active_unix_ms := last_active_unix_ms\<rparr> else s)"

section \<open>The abstract session\<close>

text \<open>
  Abstractly a session is how far its life has come and where its messages go. A route that is bound
  or lost carries its target; the other routes carry none. The specification says for every operation
  when it is accepted and what the session becomes; refused, it leaves the session as it was.
\<close>

datatype route_spec = No_Route | Choosing | Routed ClientRouteTarget | Lost ClientRouteTarget | Gone

record session_spec =
  ss_life :: ClientSessionState
  ss_route :: route_spec

datatype session_op =
    Do_BeginAuthentication | Do_Activate u64 | Do_BeginClosing | Do_Close i32 u64
  | Do_SetRouteSelecting | Do_BindRoute ClientRouteTarget | Do_MarkRouteLost | Do_ReleaseRoute | Do_Touch u64

fun session_do :: "session_op \<Rightarrow> ClientSession \<Rightarrow> ClientSessionErrorCode \<times> ClientSession" where
  "session_do Do_BeginAuthentication s = BeginAuthentication s"
| "session_do (Do_Activate at_ms) s = Activate at_ms s"
| "session_do Do_BeginClosing s = BeginClosing s"
| "session_do (Do_Close reason at_ms) s = session_Close reason at_ms s"
| "session_do Do_SetRouteSelecting s = SetRouteSelecting s"
| "session_do (Do_BindRoute target) s = BindRoute target s"
| "session_do Do_MarkRouteLost s = MarkRouteLost s"
| "session_do Do_ReleaseRoute s = ReleaseRoute s"
| "session_do (Do_Touch at_ms) s = (Cs_None, Touch at_ms s)"

fun life_rank :: "ClientSessionState \<Rightarrow> nat" where
  "life_rank Session_Created = 1"
| "life_rank Session_Authenticating = 2"
| "life_rank Session_Active = 3"
| "life_rank Session_Closing = 4"
| "life_rank Session_Closed = 5"

definition advance :: "ClientSessionState \<Rightarrow> session_spec \<Rightarrow> session_spec option" where
  "advance life a = (if life_rank (ss_life a) \<le> life_rank life then Some (a\<lparr>ss_life := life\<rparr>) else None)"

fun session_spec_do :: "session_op \<Rightarrow> session_spec \<Rightarrow> session_spec option" where
  "session_spec_do Do_BeginAuthentication a = advance Session_Authenticating a"
| "session_spec_do (Do_Activate _) a = advance Session_Active a"
| "session_spec_do Do_BeginClosing a = advance Session_Closing a"
| "session_spec_do (Do_Close _ at_ms) a = (if at_ms = 0 then None else advance Session_Closed a)"
| "session_spec_do Do_SetRouteSelecting a =
     (if ss_route a = No_Route \<or> ss_route a = Choosing then Some (a\<lparr>ss_route := Choosing\<rparr>) else None)"
| "session_spec_do (Do_BindRoute target) a =
     (if ss_route a = Gone \<or> route_target_incomplete target then None else Some (a\<lparr>ss_route := Routed target\<rparr>))"
| "session_spec_do Do_MarkRouteLost a =
     (case ss_route a of Routed target \<Rightarrow> Some (a\<lparr>ss_route := Lost target\<rparr>) | Lost _ \<Rightarrow> Some a | _ \<Rightarrow> None)"
| "session_spec_do Do_ReleaseRoute a = Some (a\<lparr>ss_route := Gone\<rparr>)"
| "session_spec_do (Do_Touch _) a = Some a"

definition abs_route :: "ClientSession \<Rightarrow> route_spec" where
  "abs_route s =
     (case (cs_route_state s, cs_route_target s) of
        (Route_Unassigned, _) \<Rightarrow> No_Route
      | (Route_Selecting, _) \<Rightarrow> Choosing
      | (Route_Bound, Some target) \<Rightarrow> Routed target
      | (Route_RouteLost, Some target) \<Rightarrow> Lost target
      | (_, _) \<Rightarrow> Gone)"

definition abs_session :: "ClientSession \<Rightarrow> session_spec" where
  "abs_session s = \<lparr>ss_life = cs_session_state s, ss_route = abs_route s\<rparr>"

text \<open>
  What every usable session satisfies: the target is there exactly when the route state needs one, and
  is complete; the closing time is set exactly when the session is closed.
\<close>

fun route_wf :: "ClientRouteState \<Rightarrow> ClientRouteTarget option \<Rightarrow> bool" where
  "route_wf state None \<longleftrightarrow> state \<noteq> Route_Bound \<and> state \<noteq> Route_RouteLost"
| "route_wf state (Some target) \<longleftrightarrow>
     (state = Route_Bound \<or> state = Route_RouteLost) \<and> \<not> route_target_incomplete target"

definition session_wf :: "ClientSession \<Rightarrow> bool" where
  "session_wf s \<longleftrightarrow> cs_valid s \<and> route_wf (cs_route_state s) (cs_route_target s) \<and>
     (cs_closed_at_unix_ms s = 0 \<longleftrightarrow> cs_session_state s \<noteq> Session_Closed)"

definition same_identity :: "ClientSession \<Rightarrow> ClientSession \<Rightarrow> bool" where
  "same_identity s t \<longleftrightarrow> cs_gate_node_id t = cs_gate_node_id s \<and> cs_session_id t = cs_session_id s \<and>
     cs_remote_endpoint t = cs_remote_endpoint s \<and> cs_kcp t = cs_kcp s \<and>
     cs_connected_at_unix_ms t = cs_connected_at_unix_ms s"

section \<open>The operations implement the abstract session\<close>

lemma life_rank_inject: "life_rank a = life_rank b \<longleftrightarrow> a = b"
  by (cases a; cases b) simp_all

lemma life_rank_le_5: "life_rank a \<le> 5"
  by (cases a) simp_all

lemma CanTransitionTo_rank: "CanTransitionTo s life \<longleftrightarrow> life_rank (cs_session_state s) \<le> life_rank life"
  by (cases "cs_session_state s"; cases life) (simp_all add: CanTransitionTo_def)

lemma CanTransitionRouteTo_table:
  assumes "session_wf s"
  shows "CanTransitionRouteTo s Route_Selecting \<longleftrightarrow> abs_route s = No_Route \<or> abs_route s = Choosing"
    and "CanTransitionRouteTo s Route_Bound \<longleftrightarrow> abs_route s \<noteq> Gone"
    and "CanTransitionRouteTo s Route_RouteLost \<longleftrightarrow> (\<exists>target. abs_route s = Routed target \<or> abs_route s = Lost target)"
    and "CanTransitionRouteTo s Route_Released"
  using assms
  by (cases "cs_route_state s"; cases "cs_route_target s";
      simp add: CanTransitionRouteTo_def abs_route_def session_wf_def)+

text \<open>A refusal sets the error text and nothing else; the texts are never empty.\<close>

definition refused :: "ClientSessionErrorCode \<times> ClientSession \<Rightarrow> ClientSession \<Rightarrow> bool" where
  "refused r s \<longleftrightarrow> fst r \<noteq> Cs_None \<and> cs_last_error_message (snd r) \<noteq> [] \<and>
     snd r = s\<lparr>cs_last_error_message := cs_last_error_message (snd r)\<rparr>"

lemma refused_SetError [simp]: "code \<noteq> Cs_None \<Longrightarrow> refused (session_SetError code message s) s"
  by (cases code) (simp_all add: refused_def session_SetError_def)

lemma refused_abs:
  assumes "refused r s" "session_wf s"
  shows "session_wf (snd r) \<and> abs_session (snd r) = abs_session s \<and> same_identity s (snd r)"
proof -
  obtain m where "snd r = s\<lparr>cs_last_error_message := m\<rparr>" using assms(1) by (auto simp: refused_def)
  then show ?thesis using assms(2)
    by (simp add: session_wf_def abs_session_def abs_route_def same_identity_def)
qed

definition accepted :: "ClientSessionErrorCode \<times> ClientSession \<Rightarrow> session_spec \<Rightarrow> ClientSession \<Rightarrow> bool" where
  "accepted r a s \<longleftrightarrow> fst r = Cs_None \<and> abs_session (snd r) = a \<and> session_wf (snd r) \<and> same_identity s (snd r)"

lemmas session_op_defs =
  BeginAuthentication_def Activate_def BeginClosing_def session_Close_def SetRouteSelecting_def
  BindRoute_def MarkRouteLost_def ReleaseRoute_def Touch_def session_ClearError_def

text \<open>An operation that moves the life forward.\<close>

lemma advance_refines:
  assumes "session_wf s"
    and "life_rank (cs_session_state s) \<le> life_rank life \<Longrightarrow> fst r = Cs_None \<and> cs_session_state (snd r) = life \<and>
      cs_route_state (snd r) = cs_route_state s \<and> cs_route_target (snd r) = cs_route_target s \<and>
      cs_valid (snd r) \<and> (cs_closed_at_unix_ms (snd r) = 0 \<longleftrightarrow> life \<noteq> Session_Closed) \<and> same_identity s (snd r)"
    and "\<not> life_rank (cs_session_state s) \<le> life_rank life \<Longrightarrow> refused r s"
  shows "case advance life (abs_session s) of None \<Rightarrow> refused r s | Some a \<Rightarrow> accepted r a s"
  using assms by (auto simp: advance_def accepted_def abs_session_def abs_route_def session_wf_def)

lemma session_do_refines:
  assumes wf: "session_wf s"
  shows "case session_spec_do op (abs_session s) of
      None \<Rightarrow> refused (session_do op s) s | Some a \<Rightarrow> accepted (session_do op s) a s"
proof -
  have v: "cs_valid s" using wf by (simp add: session_wf_def)
  have closed: "cs_closed_at_unix_ms s = 0" if "life_rank (cs_session_state s) \<le> life_rank life"
      "life \<noteq> Session_Closed" for life
    using that wf by (cases life; cases "cs_session_state s") (simp_all add: session_wf_def)
  note route = CanTransitionRouteTo_table [OF wf]
  show ?thesis
  proof (cases op)
    case Do_BeginAuthentication
    show ?thesis unfolding Do_BeginAuthentication session_spec_do.simps session_do.simps
      by (rule advance_refines [OF wf])
        (use v closed [of Session_Authenticating] in \<open>simp_all add: session_op_defs CanTransitionTo_rank same_identity_def\<close>)
  next
    case (Do_Activate at_ms)
    show ?thesis unfolding Do_Activate session_spec_do.simps session_do.simps
      by (rule advance_refines [OF wf])
        (use v closed [of Session_Active] in \<open>simp_all add: session_op_defs CanTransitionTo_rank same_identity_def Let_def\<close>)
  next
    case Do_BeginClosing
    show ?thesis unfolding Do_BeginClosing session_spec_do.simps session_do.simps
      by (rule advance_refines [OF wf])
        (use v closed [of Session_Closing] in \<open>simp_all add: session_op_defs CanTransitionTo_rank same_identity_def\<close>)
  next
    case (Do_Close reason at_ms)
    show ?thesis
    proof (cases "at_ms = 0")
      case True
      then show ?thesis using v by (simp add: Do_Close session_Close_def)
    next
      case False
      then have "session_spec_do op (abs_session s) = advance Session_Closed (abs_session s)"
        by (simp add: Do_Close)
      then show ?thesis unfolding Do_Close session_do.simps
        by (simp only:) (rule advance_refines [OF wf],
          use v False in \<open>simp_all add: session_op_defs CanTransitionTo_rank same_identity_def\<close>)
    qed
  next
    case Do_SetRouteSelecting
    then show ?thesis using v wf
      by (simp add: session_op_defs route abs_session_def)
        (auto simp: accepted_def abs_session_def abs_route_def session_wf_def same_identity_def)
  next
    case (Do_BindRoute target)
    then show ?thesis using v wf
      by (simp add: session_op_defs route abs_session_def)
        (auto simp: accepted_def abs_session_def abs_route_def session_wf_def same_identity_def)
  next
    case Do_MarkRouteLost
    then show ?thesis using v wf
      by (cases "abs_route s"; simp add: session_op_defs route abs_session_def)
        (auto simp: accepted_def abs_session_def abs_route_def session_wf_def same_identity_def
          split: ClientRouteState.splits option.splits)
  next
    case Do_ReleaseRoute
    then show ?thesis using v wf
      by (simp add: session_op_defs route abs_session_def)
        (auto simp: accepted_def abs_session_def abs_route_def session_wf_def same_identity_def)
  next
    case (Do_Touch at_ms)
    then show ?thesis using v wf
      by (simp add: session_op_defs)
        (auto simp: accepted_def abs_session_def abs_route_def session_wf_def same_identity_def)
  qed
qed

section \<open>Runs of a session\<close>

definition session_step :: "session_op \<Rightarrow> ClientSession \<Rightarrow> ClientSession" where
  "session_step op s = snd (session_do op s)"

text \<open>How a session may change: its life only moves forward and a released route stays released.\<close>

definition session_progress :: "ClientSession \<Rightarrow> ClientSession \<Rightarrow> bool" where
  "session_progress s t \<longleftrightarrow> same_identity s t \<and>
     life_rank (cs_session_state s) \<le> life_rank (cs_session_state t) \<and>
     (abs_route s = Gone \<longrightarrow> abs_route t = Gone)"

lemma session_spec_progress:
  assumes "session_spec_do op a = Some b"
  shows "life_rank (ss_life a) \<le> life_rank (ss_life b) \<and> (ss_route a = Gone \<longrightarrow> ss_route b = Gone)"
  using assms by (cases op) (auto simp: advance_def split: if_splits route_spec.splits)

lemma session_step_keeps:
  assumes "session_wf s"
  shows "session_wf (session_step op s) \<and> session_progress s (session_step op s)"
proof (cases "session_spec_do op (abs_session s)")
  case None
  then have r: "refused (session_do op s) s" using session_do_refines [OF assms, of op] by simp
  from refused_abs [OF r assms] show ?thesis
    by (simp add: session_step_def session_progress_def abs_session_def)
next
  case (Some a)
  then have "accepted (session_do op s) a s" using session_do_refines [OF assms, of op] by simp
  with session_spec_progress [OF Some] show ?thesis
    by (auto simp: accepted_def session_step_def session_progress_def abs_session_def)
qed

lemma session_progress_trans: "session_progress s t \<Longrightarrow> session_progress t u \<Longrightarrow> session_progress s u"
  by (auto simp: session_progress_def same_identity_def)

interpretation session_run: role_loop session_step session_wf session_progress
proof
  show "session_progress s s" for s by (simp add: session_progress_def same_identity_def)
qed (use session_step_keeps session_progress_trans in blast)+

definition session_options_ok :: "ikcp \<Rightarrow> ClientSessionOptions \<Rightarrow> bool" where
  "session_options_ok lib options \<longleftrightarrow> cso_gate_node_id options \<noteq> [] \<and> cso_session_id options \<noteq> 0 \<and>
     ep_host (cso_remote_endpoint options) \<noteq> [] \<and> ep_port (cso_remote_endpoint options) \<noteq> 0 \<and>
     kcp_valid (new_KcpPeer lib \<lparr>kpo_conversation = cso_conversation options, kpo_config = cso_kcp options\<rparr>)"

lemma new_ClientSession_ok:
  assumes "session_options_ok lib options"
  shows "session_wf (new_ClientSession lib options)"
    and "abs_session (new_ClientSession lib options) = \<lparr>ss_life = Session_Created, ss_route = No_Route\<rparr>"
    and "cs_last_error_message (new_ClientSession lib options) = []"
  using assms
  by (simp_all add: session_options_ok_def new_ClientSession_def session_ClearError_def session_wf_def
      abs_session_def abs_route_def)

lemma new_ClientSession_bad:
  assumes "\<not> session_options_ok lib options"
  shows "\<not> cs_valid (new_ClientSession lib options)"
    and "cs_last_error_message (new_ClientSession lib options) \<noteq> []"
  using assms
  by (auto simp: session_options_ok_def new_ClientSession_def session_SetError_def Let_def)

section \<open>Properties\<close>

text \<open>
  C9. Every operation of a usable session implements the abstract session machine: it succeeds
  exactly when the specification accepts it, and then the session becomes what the specification says;
  otherwise it returns an error with a text and changes nothing else of the session.
\<close>

theorem client_session_refines_spec:
  assumes "session_wf s" and "session_do op s = (code, t)"
  shows "session_wf t \<and>
    (case session_spec_do op (abs_session s) of
       None \<Rightarrow> code \<noteq> Cs_None \<and> cs_last_error_message t \<noteq> [] \<and>
         t = s\<lparr>cs_last_error_message := cs_last_error_message t\<rparr>
     | Some a \<Rightarrow> code = Cs_None \<and> abs_session t = a)"
  using session_do_refines [OF assms(1), of op] session_step_keeps [OF assms(1), of op] assms(2)
  by (auto simp: refused_def accepted_def session_step_def split: option.splits)

definition sample_session_options :: ClientSessionOptions where
  "sample_session_options = \<lparr>cso_gate_node_id = ''Gate0'', cso_session_id = 1, cso_conversation = 7,
     cso_remote_endpoint = \<lparr>ep_host = ''127.0.0.1'', ep_port = 5000\<rparr>, cso_kcp = default_KcpConfig,
     cso_connected_at_unix_ms = 1000\<rparr>"

definition sample_route_target :: ClientRouteTarget where
  "sample_route_target = \<lparr>crt_game_node_id = ''Game0'',
     crt_inner_network_endpoint = \<lparr>ep_host = ''127.0.0.1'', ep_port = 7000\<rparr>, crt_route_epoch = 1\<rparr>"

lemma sample_session_options_ok: "session_options_ok sample_ikcp sample_session_options"
  using sample_kcp_usable(1,2) [OF sample_kcp_options_ok]
  by (simp add: session_options_ok_def sample_session_options_def sample_kcp_options_def kcp_valid_def)

theorem client_session_refines_spec_witness:
  "\<exists>code t. session_do (Do_BindRoute sample_route_target) (new_ClientSession sample_ikcp sample_session_options) =
      (code, t) \<and> code = Cs_None \<and> abs_session t = \<lparr>ss_life = Session_Created, ss_route = Routed sample_route_target\<rparr>"
proof -
  note new = new_ClientSession_ok [OF sample_session_options_ok]
  obtain code t where r: "session_do (Do_BindRoute sample_route_target)
      (new_ClientSession sample_ikcp sample_session_options) = (code, t)" by fastforce
  have "\<not> route_target_incomplete sample_route_target"
    by (simp add: route_target_incomplete_def sample_route_target_def)
  with client_session_refines_spec [OF new(1) r] r show ?thesis unfolding new(2) by simp
qed

text \<open>
  C17. Over any sequence of operations on a usable session the life of the session only moves
  forward, a closed session stays closed and a released route stays released; the session keeps its
  identity, its peer and its connection time; and at every moment a route target is present exactly
  when the route is bound or lost, is then complete, and the closing time is set exactly when the
  session is closed.
\<close>

theorem client_session_lifecycle:
  assumes "session_options_ok lib options"
    and "s = fold session_step ops (new_ClientSession lib options)" and "t = fold session_step later s"
  shows "life_rank (cs_session_state s) \<le> life_rank (cs_session_state t) \<and>
    (cs_session_state s = Session_Closed \<longrightarrow> cs_session_state t = Session_Closed) \<and>
    (cs_route_state s = Route_Released \<longrightarrow> cs_route_state t = Route_Released) \<and>
    same_identity (new_ClientSession lib options) t \<and>
    (cs_route_target t \<noteq> None \<longleftrightarrow> cs_route_state t = Route_Bound \<or> cs_route_state t = Route_RouteLost) \<and>
    (\<forall>target. cs_route_target t = Some target \<longrightarrow> \<not> route_target_incomplete target) \<and>
    (cs_closed_at_unix_ms t \<noteq> 0 \<longleftrightarrow> cs_session_state t = Session_Closed)"
proof -
  note wf0 = new_ClientSession_ok(1) [OF assms(1)]
  have wf: "session_wf s" "session_wf t"
    unfolding assms(2,3) by (intro session_run.inv_run wf0)+
  have st: "session_progress s t" unfolding assms(3) by (rule session_run.change_run [OF wf(1)])
  have "session_progress (new_ClientSession lib options) t"
    using session_run.change_run [OF wf0, of ops] st assms(2) session_progress_trans by blast
  then have id: "same_identity (new_ClientSession lib options) t" by (simp add: session_progress_def)
  have released: "abs_route u = Gone \<longleftrightarrow> cs_route_state u = Route_Released" if "session_wf u" for u
    using that by (cases "cs_route_state u"; cases "cs_route_target u") (simp_all add: abs_route_def session_wf_def)
  have closed: "cs_session_state t = Session_Closed" if "cs_session_state s = Session_Closed"
    using that st by (cases "cs_session_state t") (simp_all add: session_progress_def)
  have "route_wf (cs_route_state t) (cs_route_target t)" using wf(2) by (simp add: session_wf_def)
  then show ?thesis
    using st closed id wf released [OF wf(1)] released [OF wf(2)]
    by (cases "cs_route_target t") (auto simp: session_progress_def session_wf_def)
qed

theorem client_session_lifecycle_witness:
  "cs_session_state (fold session_step [Do_Activate 5, Do_Close 3 9, Do_BeginAuthentication, Do_Activate 11]
     (new_ClientSession sample_ikcp sample_session_options)) = Session_Closed"
proof -
  let ?new = "new_ClientSession sample_ikcp sample_session_options"
  have wf: "cs_valid ?new" "cs_session_state ?new = Session_Created"
    using new_ClientSession_ok [OF sample_session_options_ok] by (simp_all add: session_wf_def abs_session_def)
  have "cs_session_state (fold session_step [Do_Activate 5, Do_Close 3 9] ?new) = Session_Closed"
    using wf by (simp add: session_step_def Activate_def session_Close_def CanTransitionTo_def session_ClearError_def)
  then have "cs_session_state (fold session_step [Do_BeginAuthentication, Do_Activate 11]
      (fold session_step [Do_Activate 5, Do_Close 3 9] ?new)) = Session_Closed"
    using client_session_lifecycle [OF sample_session_options_ok refl refl,
        where ops = "[Do_Activate 5, Do_Close 3 9]" and later = "[Do_BeginAuthentication, Do_Activate 11]"]
    by blast
  then show ?thesis by (simp only: fold.simps o_apply id_apply)
qed

text \<open>
  A session is usable exactly when its gate id, session id and remote endpoint are given and its
  KCP peer is usable. Every operation of an unusable session is refused with \<^verbatim>\<open>InvalidState\<close>, so that it
  stays as it was created.
\<close>

theorem client_session_usable:
  "(cs_valid (new_ClientSession lib options) \<longleftrightarrow> session_options_ok lib options) \<and>
   (\<not> cs_valid s \<longrightarrow> session_do op s =
     (case op of Do_Touch _ \<Rightarrow> (Cs_None, s)
      | _ \<Rightarrow> (Cs_InvalidState, s\<lparr>cs_last_error_message := ''Client session is not valid.''\<rparr>)))"
proof
  show "cs_valid (new_ClientSession lib options) \<longleftrightarrow> session_options_ok lib options"
    using new_ClientSession_ok(1) [of lib options] new_ClientSession_bad(1) [of lib options]
    by (auto simp: session_wf_def)
qed (cases op; simp add: session_op_defs session_SetError_def)

theorem client_session_usable_witness:
  "fst (session_do Do_BeginClosing (new_ClientSession sample_ikcp (sample_session_options\<lparr>cso_session_id := 0\<rparr>))) =
     Cs_InvalidState"
proof -
  let ?options = "sample_session_options\<lparr>cso_session_id := 0\<rparr>"
  have "\<not> session_options_ok sample_ikcp ?options" by (simp add: session_options_ok_def)
  then have "\<not> cs_valid (new_ClientSession sample_ikcp ?options)" by (rule new_ClientSession_bad(1))
  then have "session_do Do_BeginClosing (new_ClientSession sample_ikcp ?options) = (Cs_InvalidState,
      (new_ClientSession sample_ikcp ?options)\<lparr>cs_last_error_message := ''Client session is not valid.''\<rparr>)"
    using conjunct2 [OF client_session_usable [of sample_ikcp ?options
        "new_ClientSession sample_ikcp ?options" Do_BeginClosing]]
    by (simp only: not_False_eq_True simp_thms session_op.case)
  then show ?thesis by (simp only: fst_conv)
qed

end
