(* ===== verification/ClientNetwork.thy ===== *)
theory ClientNetwork
  imports ClientSession Timer NodeCommon "HOL-Library.While_Combinator"
begin

text \<open>
  \<^verbatim>\<open>node/ClientNetwork.cpp\<close>: the UDP listener of a gate and its client sessions. The sessions are kept
  by id with an index from transport keys to ids; datagrams are fed to the KCP peer of their session,
  and complete messages are handed to the owner. Logging is left out. The socket, the clocks and the
  KCP library are parameters. The theory shows that both maps agree, that a fresh session id is found,
  and that the loop which takes messages out of a peer ends.
\<close>

section \<open>Transport keys\<close>

datatype TransportKey = TransportKey (tk_remote_host: string) (tk_remote_port: u16) (tk_conversation: u32)

text \<open>\<^verbatim>\<open>operator<\<close> compares the three fields in turn, as \<^verbatim>\<open>std::tie\<close> does.\<close>

instantiation TransportKey :: linorder
begin

definition less_TransportKey :: "TransportKey \<Rightarrow> TransportKey \<Rightarrow> bool" where
  "less_TransportKey a b \<longleftrightarrow>
     tk_remote_host a < tk_remote_host b \<or> tk_remote_host a = tk_remote_host b \<and>
       (tk_remote_port a < tk_remote_port b \<or> tk_remote_port a = tk_remote_port b \<and>
         tk_conversation a < tk_conversation b)"

definition less_eq_TransportKey :: "TransportKey \<Rightarrow> TransportKey \<Rightarrow> bool" where
  "less_eq_TransportKey a b \<longleftrightarrow> a < b \<or> a = b"

instance
proof
  fix a b c :: TransportKey
  show "(a < b) = (a \<le> b \<and> \<not> b \<le> a)"
    by (cases a; cases b) (auto simp: less_TransportKey_def less_eq_TransportKey_def)
  show "a \<le> a" by (simp add: less_eq_TransportKey_def)
  show "a \<le> b \<Longrightarrow> b \<le> c \<Longrightarrow> a \<le> c"
    by (cases a; cases b; cases c) (auto simp: less_TransportKey_def less_eq_TransportKey_def)
  show "a \<le> b \<Longrightarrow> b \<le> a \<Longrightarrow> a = b"
    by (cases a; cases b) (auto simp: less_TransportKey_def less_eq_TransportKey_def)
  show "a \<le> b \<or> b \<le> a"
    by (cases a; cases b) (auto simp: less_TransportKey_def less_eq_TransportKey_def)
qed

end

definition NormalizeHost :: "string \<Rightarrow> string" where
  "NormalizeHost host =
     (if length host \<ge> 2 \<and> hd host = CHR ''['' \<and> last host = CHR '']'' then take (length host - 2) (drop 1 host)
      else host)"

definition MakeTransportKey :: "Endpoint \<Rightarrow> u32 \<Rightarrow> TransportKey" where
  "MakeTransportKey endpoint conversation = TransportKey (NormalizeHost (ep_host endpoint)) (ep_port endpoint) conversation"

section \<open>Endpoint texts\<close>

text \<open>
  \<^verbatim>\<open>std::stoul\<close> in base ten, with an \<^verbatim>\<open>unsigned long\<close> of 64 bits: leading white space, an optional sign,
  then as many digits as there are; a minus sign negates the value modulo the width. \<open>None\<close> is one of
  its two exceptions.
\<close>

definition is_digit :: "char \<Rightarrow> bool" where
  "is_digit c \<longleftrightarrow> CHR ''0'' \<le> c \<and> c \<le> CHR ''9''"

definition std_isspace :: "char \<Rightarrow> bool" where
  "std_isspace c \<longleftrightarrow> c = CHR '' '' \<or> CHR 0x09 \<le> c \<and> c \<le> CHR 0x0D"

definition stoul :: "string \<Rightarrow> u64 option" where
  "stoul text =
     (let text = dropWhile std_isspace text;
          negative = (text \<noteq> [] \<and> hd text = CHR ''-'');
          text = (if text \<noteq> [] \<and> (hd text = CHR ''-'' \<or> hd text = CHR ''+'') then tl text else text);
          digits = takeWhile is_digit text;
          value = string_value 0 digits
      in if digits = [] then None
         else if value > 18446744073709551615 then None
         else Some (if negative then - word_of_nat value else word_of_nat value))"

text \<open>The index of the last colon, as \<^verbatim>\<open>rfind\<close> gives it.\<close>

definition rfind :: "char \<Rightarrow> string \<Rightarrow> nat option" where
  "rfind c text = (if c \<in> set text then Some (length text - 1 - length (takeWhile (\<lambda>x. x \<noteq> c) (rev text))) else None)"

definition ParseConfiguredEndpoint :: "string \<Rightarrow> string + Endpoint" where
  "ParseConfiguredEndpoint text =
     (if text = [] then Inl ''ClientNetwork listen_endpoint must not be empty.''
      else case rfind CHR '':'' text of
        None \<Rightarrow> Inl ''ClientNetwork listen_endpoint must be formatted as <host>:<port>.''
      | Some separator \<Rightarrow>
          if separator = 0 \<or> separator + 1 \<ge> length text
          then Inl ''ClientNetwork listen_endpoint must be formatted as <host>:<port>.''
          else let host = NormalizeHost (take separator text) in
            if host = [] then Inl ''ClientNetwork listen_endpoint host must not be empty.''
            else case stoul (drop (separator + 1) text) of
              None \<Rightarrow> Inl ''ClientNetwork listen_endpoint port must be a valid unsigned integer.''
            | Some port \<Rightarrow>
                let parsed_port = (ucast port :: u32) in
                if parsed_port = 0 \<or> parsed_port > 65535
                then Inl ''ClientNetwork listen_endpoint port must be in the range 1-65535.''
                else Inr \<lparr>ep_host = host, ep_port = ucast parsed_port\<rparr>)"

section \<open>State\<close>

text \<open>
  What the network reads from outside: the KCP library, the clocks, the text of the error of each socket
  call (\<open>None\<close> when it succeeds), indexed by how often they have been asked, and the parser of addresses,
  which gives an error text or the address.
\<close>

record client_env =
  ce_kcp :: ikcp
  ce_utc_now :: "nat \<Rightarrow> u64"
  ce_steady_ms :: "nat \<Rightarrow> u64"
  ce_udp_error :: "nat \<Rightarrow> string option"
  ce_make_address :: "string \<Rightarrow> string + string"

text \<open>What the network shares with its node: the timers of the event loop and the system clock.\<close>

record client_io =
  io_timers :: "unit TimerManager"
  io_clock_reads :: nat

text \<open>
  The handlers are not part of the record. The socket is \<open>None\<close> or whether it is open; \<open>cn_receives\<close>
  is the number of receive operations that are outstanding, and \<open>cn_sent\<close> lists the datagrams that the socket has
  taken, in order.
\<close>

record ClientNetwork =
  cn_owner_node_id :: string
  cn_options_listen_endpoint :: string
  cn_kcp :: KcpConfig
  cn_listen_endpoint :: Endpoint
  cn_sessions :: "(u64, ClientSession) std_map"
  cn_transport_index :: "(TransportKey, u64) std_map"
  cn_socket :: "bool option"
  cn_receives :: nat
  cn_last_error_message :: string
  cn_next_session_id :: u64
  cn_kcp_update_timer_id :: TimerID
  cn_initialized :: bool
  cn_running :: bool
  cn_udp_calls :: nat
  cn_steady_reads :: nat
  cn_sent :: "(Endpoint \<times> byte list) list"

definition new_ClientNetwork :: "string \<Rightarrow> string \<Rightarrow> KcpConfig \<Rightarrow> ClientNetwork" where
  "new_ClientNetwork owner_node_id listen_endpoint kcp =
     \<lparr>cn_owner_node_id = owner_node_id, cn_options_listen_endpoint = listen_endpoint, cn_kcp = kcp,
      cn_listen_endpoint = zero_Endpoint, cn_sessions = [], cn_transport_index = [], cn_socket = None,
      cn_receives = 0, cn_last_error_message = [], cn_next_session_id = 1, cn_kcp_update_timer_id = 0,
      cn_initialized = False, cn_running = False, cn_udp_calls = 0, cn_steady_reads = 0, cn_sent = []\<rparr>"

definition cn_SetError :: "NodeErrorCode \<Rightarrow> string \<Rightarrow> ClientNetwork \<Rightarrow> NodeErrorCode \<times> ClientNetwork" where
  "cn_SetError code message net =
     (code, net\<lparr>cn_last_error_message := (if message = [] then NodeErrorMessage code else message)\<rparr>)"

definition cn_ClearError :: "ClientNetwork \<Rightarrow> ClientNetwork" where
  "cn_ClearError net = net\<lparr>cn_last_error_message := []\<rparr>"

definition cn_CurrentUnixTimeMilliseconds :: "client_env \<Rightarrow> client_io \<Rightarrow> u64 \<times> client_io" where
  "cn_CurrentUnixTimeMilliseconds env io =
     (let now_unix_ms = ce_utc_now env (io_clock_reads io) in
      (if sint now_unix_ms > 0 then now_unix_ms else 0, io\<lparr>io_clock_reads := Suc (io_clock_reads io)\<rparr>))"

definition CurrentKcpClockMilliseconds :: "client_env \<Rightarrow> ClientNetwork \<Rightarrow> u32 \<times> ClientNetwork" where
  "CurrentKcpClockMilliseconds env net =
     (ucast (ce_steady_ms env (cn_steady_reads net)), net\<lparr>cn_steady_reads := Suc (cn_steady_reads net)\<rparr>)"

definition udp_call :: "client_env \<Rightarrow> ClientNetwork \<Rightarrow> string option \<times> ClientNetwork" where
  "udp_call env net = (ce_udp_error env (cn_udp_calls net), net\<lparr>cn_udp_calls := Suc (cn_udp_calls net)\<rparr>)"

definition TryMakeUdpEndpoint :: "client_env \<Rightarrow> Endpoint \<Rightarrow> string + Endpoint" where
  "TryMakeUdpEndpoint env endpoint =
     (let normalized_host = NormalizeHost (ep_host endpoint) in
      if normalized_host = [] then Inl ''Endpoint host must not be empty.''
      else if ep_port endpoint = 0 then Inl ''Endpoint port must be greater than zero.''
      else case ce_make_address env normalized_host of
        Inl message \<Rightarrow> Inl (''Failed to parse IP address '' @ [CHR 0x27] @ normalized_host @ [CHR 0x27] @ '': '' @ message)
      | Inr address \<Rightarrow> Inr \<lparr>ep_host = address, ep_port = ep_port endpoint\<rparr>)"

unbundle bit_operations_syntax

definition kKcpConversationHeaderBytes :: nat where "kKcpConversationHeaderBytes = 4"

definition TryReadKcpConversation :: "byte list \<Rightarrow> u32 ptr \<Rightarrow> bool \<times> u32 ptr" where
  "TryReadKcpConversation datagram conversation =
     (if conversation = None \<or> length datagram < kKcpConversationHeaderBytes then (False, conversation)
      else (True, Some (ucast (datagram ! 0) OR push_bit 8 (ucast (datagram ! 1)) OR
              push_bit 16 (ucast (datagram ! 2)) OR push_bit 24 (ucast (datagram ! 3)))))"

section \<open>Starting and stopping\<close>

definition StartKcpUpdateTimer :: "ClientNetwork \<Rightarrow> client_io \<Rightarrow> NodeErrorCode \<times> ClientNetwork \<times> client_io" where
  "StartKcpUpdateTimer net io =
     (if IsTimerID (cn_kcp_update_timer_id net) then (Node_None, net, io)
      else case CreateRepeating (uint (kcp_interval_ms (cn_kcp net)) * 1000000) (Some ()) (io_timers io) of
        (timer_result, timers) \<Rightarrow>
          let io = io\<lparr>io_timers := timers\<rparr> in
          if \<not> IsTimerID timer_result
          then (case cn_SetError Node_NodeRunFailed (''ClientNetwork failed to schedule KCP update timer: '' @
                  TimerErrorMessage (TimerErrorFromCreateResult timer_result)) net of (code, net) \<Rightarrow> (code, net, io))
          else (Node_None, net\<lparr>cn_kcp_update_timer_id := timer_result\<rparr>, io))"

definition CancelKcpUpdateTimer :: "ClientNetwork \<Rightarrow> client_io \<Rightarrow> ClientNetwork \<times> client_io" where
  "CancelKcpUpdateTimer net io =
     (if IsTimerID (cn_kcp_update_timer_id net)
      then (net\<lparr>cn_kcp_update_timer_id := 0\<rparr>,
            io\<lparr>io_timers := snd (Cancel (cn_kcp_update_timer_id net) (io_timers io))\<rparr>)
      else (net, io))"

definition StartReceive :: "ClientNetwork \<Rightarrow> ClientNetwork" where
  "StartReceive net = (if \<not> cn_running net \<or> cn_socket net \<noteq> Some True then net else net\<lparr>cn_receives := Suc (cn_receives net)\<rparr>)"

definition cn_Init :: "client_env \<Rightarrow> ClientNetwork \<Rightarrow> NodeErrorCode \<times> ClientNetwork" where
  "cn_Init env net =
     (if cn_initialized net then cn_SetError Node_InvalidArgument ''ClientNetwork is already initialized.'' net
      else if cn_options_listen_endpoint net = []
      then cn_SetError Node_InvalidArgument ''ClientNetwork listen_endpoint must not be empty.'' net
      else if cn_owner_node_id net = []
      then cn_SetError Node_InvalidArgument ''ClientNetwork owner_node_id must not be empty.'' net
      else case ParseConfiguredEndpoint (cn_options_listen_endpoint net) of
        Inl endpoint_error \<Rightarrow> cn_SetError Node_InvalidArgument endpoint_error net
      | Inr parsed_endpoint \<Rightarrow>
          let probe = new_KcpPeer (ce_kcp env) \<lparr>kpo_conversation = 0, kpo_config = cn_kcp net\<rparr> in
          if \<not> kcp_valid probe
          then cn_SetError Node_NodeInitFailed
            (''ClientNetwork KCP configuration is invalid: '' @ kp_last_error_message probe) net
          else (Node_None, cn_ClearError (net\<lparr>cn_listen_endpoint := parsed_endpoint, cn_initialized := True\<rparr>)))"

definition cn_Run :: "client_env \<Rightarrow> ClientNetwork \<Rightarrow> client_io \<Rightarrow> NodeErrorCode \<times> ClientNetwork \<times> client_io" where
  "cn_Run env net io =
     (let fail = (\<lambda>message net. case cn_SetError Node_NodeRunFailed message net of (code, net) \<Rightarrow> (code, net, io)) in
      if \<not> cn_initialized net
      then (case cn_SetError Node_InvalidArgument ''ClientNetwork must be initialized before Run().'' net of
              (code, net) \<Rightarrow> (code, net, io))
      else if cn_running net then (Node_None, cn_ClearError net, io)
      else case TryMakeUdpEndpoint env (cn_listen_endpoint net) of
        Inl endpoint_error \<Rightarrow> fail endpoint_error net
      | Inr udp_endpoint \<Rightarrow>
          (case udp_call env (net\<lparr>cn_socket := Some False\<rparr>) of (open_error, net) \<Rightarrow>
           case open_error of
             Some message \<Rightarrow> fail (''ClientNetwork failed to open UDP socket: '' @ message) (net\<lparr>cn_socket := None\<rparr>)
           | None \<Rightarrow>
          (case udp_call env (net\<lparr>cn_socket := Some True\<rparr>) of (option_error, net) \<Rightarrow>
           case option_error of
             Some message \<Rightarrow> fail (''ClientNetwork failed to configure UDP socket: '' @ message) (net\<lparr>cn_socket := None\<rparr>)
           | None \<Rightarrow>
          (case udp_call env net of (bind_error, net) \<Rightarrow>
           case bind_error of
             Some message \<Rightarrow> fail (''ClientNetwork failed to bind UDP listener: '' @ message) (net\<lparr>cn_socket := None\<rparr>)
           | None \<Rightarrow>
          (case StartKcpUpdateTimer (net\<lparr>cn_running := True\<rparr>) io of (timer_result, net, io) \<Rightarrow>
             if timer_result \<noteq> Node_None
             then (timer_result, (snd (udp_call env (net\<lparr>cn_running := False\<rparr>)))\<lparr>cn_socket := None\<rparr>, io)
             else (Node_None, cn_ClearError (StartReceive net), io))))))"

definition cn_Stop :: "client_env \<Rightarrow> ClientNetwork \<Rightarrow> client_io \<Rightarrow> NodeErrorCode \<times> ClientNetwork \<times> client_io" where
  "cn_Stop env net io =
     (if \<not> cn_initialized net \<or> \<not> cn_running net then (Node_None, cn_ClearError net, io)
      else case CancelKcpUpdateTimer (net\<lparr>cn_running := False\<rparr>) io of (net, io) \<Rightarrow>
        case (if cn_socket net \<noteq> None
              then (case udp_call env net of (close_error, net) \<Rightarrow> (close_error, net\<lparr>cn_socket := None\<rparr>))
              else (None, net)) of (close_error, net) \<Rightarrow>
          case close_error of
            Some message \<Rightarrow>
              (case cn_SetError Node_NodeRunFailed (''ClientNetwork failed to close UDP listener: '' @ message) net of
                 (code, net) \<Rightarrow> (code, net, io))
          | None \<Rightarrow> (Node_None, cn_ClearError net, io))"

definition cn_Uninit :: "client_env \<Rightarrow> ClientNetwork \<Rightarrow> client_io \<Rightarrow> NodeErrorCode \<times> ClientNetwork \<times> client_io" where
  "cn_Uninit env net io =
     (case cn_Stop env net io of (stop_result, net, io) \<Rightarrow>
        case CancelKcpUpdateTimer (net\<lparr>cn_sessions := [], cn_transport_index := [], cn_next_session_id := 1,
            cn_listen_endpoint := zero_Endpoint, cn_socket := None\<rparr>) io of (net, io) \<Rightarrow>
          let net = net\<lparr>cn_running := False, cn_initialized := False\<rparr> in
          if stop_result \<noteq> Node_None then (stop_result, net, io) else (Node_None, cn_ClearError net, io))"

section \<open>Sessions\<close>

definition cn_FindSession :: "u64 \<Rightarrow> ClientNetwork \<Rightarrow> ClientSession ptr" where
  "cn_FindSession session_id net = map_find (cn_sessions net) session_id"

definition FindSessionByConversation :: "u32 \<Rightarrow> ClientNetwork \<Rightarrow> ClientSession ptr" where
  "FindSessionByConversation conversation net =
     map_option snd (List.find (\<lambda>(_, session). session_conversation session = conversation) (cn_sessions net))"

definition FindSessionByTransport :: "u32 \<Rightarrow> Endpoint \<Rightarrow> ClientNetwork \<Rightarrow> ClientSession ptr" where
  "FindSessionByTransport conversation remote_endpoint net =
     (case map_find (cn_transport_index net) (MakeTransportKey remote_endpoint conversation) of
        None \<Rightarrow> None
      | Some session_id \<Rightarrow> cn_FindSession session_id net)"

definition RemoveSession :: "u64 \<Rightarrow> ClientNetwork \<Rightarrow> bool \<times> ClientNetwork" where
  "RemoveSession session_id net =
     (case map_find (cn_sessions net) session_id of
        None \<Rightarrow> (False, net)
      | Some session \<Rightarrow>
          (True, net\<lparr>cn_transport_index := map_erase
              (MakeTransportKey (cs_remote_endpoint session) (session_conversation session)) (cn_transport_index net),
             cn_sessions := map_erase session_id (cn_sessions net)\<rparr>))"

text \<open>Assignment through a pointer to a session.\<close>

definition modify_client :: "u64 \<Rightarrow> (ClientSession \<Rightarrow> ClientSession) \<Rightarrow> ClientNetwork \<Rightarrow> ClientNetwork" where
  "modify_client session_id f net = net\<lparr>cn_sessions := map_modify session_id f (cn_sessions net)\<rparr>"

definition next_session_id_after :: "u64 \<Rightarrow> u64" where
  "next_session_id_after session_id = (let next_id = session_id + 1 in if next_id = 0 then 1 else next_id)"

text \<open>
  The loop that steps over ids in use. It visits different ids until it comes round, so that it has
  found a free one after as many steps as there are sessions; the first argument is that number.
\<close>

primrec skip_used :: "nat \<Rightarrow> (u64, ClientSession) std_map \<Rightarrow> u64 \<Rightarrow> u64" where
  "skip_used 0 sessions session_id = session_id"
| "skip_used (Suc n) sessions session_id =
     (if map_find sessions session_id \<noteq> None then skip_used n sessions (next_session_id_after session_id)
      else session_id)"

definition ConsumeNextSessionId :: "ClientNetwork \<Rightarrow> u64 \<times> ClientNetwork" where
  "ConsumeNextSessionId net =
     (let start = (if cn_next_session_id net = 0 then 1 else cn_next_session_id net);
          session_id = skip_used (length (cn_sessions net)) (cn_sessions net) start
      in (session_id, net\<lparr>cn_next_session_id := next_session_id_after session_id\<rparr>))"

definition CreateSession ::
    "client_env \<Rightarrow> u32 \<Rightarrow> Endpoint \<Rightarrow> u64 ptr \<Rightarrow> u64 \<Rightarrow> ClientNetwork \<Rightarrow> client_io \<Rightarrow>
     NodeErrorCode \<times> u64 ptr \<times> ClientNetwork \<times> client_io" where
  "CreateSession env conversation remote_endpoint session_id connected_at_unix_ms net io =
     (let fail = (\<lambda>code message net io. case cn_SetError code message net of (code, net) \<Rightarrow> (code, session_id, net, io));
          normalized_host = NormalizeHost (ep_host remote_endpoint) in
      if \<not> cn_initialized net
      then fail Node_InvalidArgument ''ClientNetwork must be initialized before CreateSession().'' net io
      else if normalized_host = []
      then fail Node_InvalidArgument ''ClientNetwork session remote endpoint host must not be empty.'' net io
      else if ep_port remote_endpoint = 0
      then fail Node_InvalidArgument ''ClientNetwork session remote endpoint port must be greater than zero.'' net io
      else let normalized_endpoint = \<lparr>ep_host = normalized_host, ep_port = ep_port remote_endpoint\<rparr>;
               transport_key = MakeTransportKey normalized_endpoint conversation in
        if map_find (cn_transport_index net) transport_key \<noteq> None
        then fail Node_InvalidArgument ''ClientNetwork session transport key is already registered.'' net io
        else case ConsumeNextSessionId net of (allocated_session_id, net) \<Rightarrow>
          case (if connected_at_unix_ms \<noteq> 0 then (connected_at_unix_ms, io)
                else cn_CurrentUnixTimeMilliseconds env io) of (connected_at, io) \<Rightarrow>
            let session = new_ClientSession (ce_kcp env)
                  \<lparr>cso_gate_node_id = cn_owner_node_id net, cso_session_id = allocated_session_id,
                   cso_conversation = conversation, cso_remote_endpoint = normalized_endpoint,
                   cso_kcp = cn_kcp net, cso_connected_at_unix_ms = connected_at\<rparr> in
            if \<not> cs_valid session
            then fail Node_NodeInitFailed
              (''ClientNetwork failed to create session: '' @ cs_last_error_message session) net io
            else (Node_None, map_option (\<lambda>_. allocated_session_id) session_id,
              cn_ClearError (net
                \<lparr>cn_transport_index := snd (map_emplace transport_key allocated_session_id (cn_transport_index net)),
                 cn_sessions := snd (map_emplace allocated_session_id session (cn_sessions net))\<rparr>), io))"

section \<open>Datagrams\<close>

text \<open>\<^verbatim>\<open>send_to\<close> for one datagram after the other, until one fails.\<close>

fun send_datagrams :: "client_env \<Rightarrow> Endpoint \<Rightarrow> byte list list \<Rightarrow> ClientNetwork \<Rightarrow> ClientNetwork" where
  "send_datagrams env remote [] net = net"
| "send_datagrams env remote (datagram # datagrams) net =
     (case udp_call env net of (error_code, net) \<Rightarrow>
        if error_code \<noteq> None then net
        else send_datagrams env remote datagrams (net\<lparr>cn_sent := cn_sent net @ [(remote, datagram)]\<rparr>))"

definition FlushPendingDatagrams :: "client_env \<Rightarrow> u64 \<Rightarrow> ClientNetwork \<Rightarrow> ClientNetwork" where
  "FlushPendingDatagrams env session_id net =
     (case cn_FindSession session_id net of
        None \<Rightarrow> net
      | Some session \<Rightarrow>
          (case kcp_ConsumeOutgoingDatagrams (cs_kcp session) of (datagrams, peer) \<Rightarrow>
             let consumed = modify_client session_id (\<lambda>s. s\<lparr>cs_kcp := peer\<rparr>) net in
             if \<not> cn_running net \<or> cn_socket net \<noteq> Some True then consumed
             else case TryMakeUdpEndpoint env (cs_remote_endpoint session) of
               Inl _ \<Rightarrow> consumed
             | Inr remote_udp_endpoint \<Rightarrow> send_datagrams env remote_udp_endpoint datagrams consumed))"

text \<open>An operation of the peer of a session.\<close>

definition with_peer :: "u64 \<Rightarrow> (KcpPeer \<Rightarrow> 'r \<times> KcpPeer) \<Rightarrow> ClientSession \<Rightarrow> ClientNetwork \<Rightarrow> 'r \<times> ClientNetwork" where
  "with_peer session_id f session net =
     (case f (cs_kcp session) of (result, peer) \<Rightarrow> (result, modify_client session_id (\<lambda>s. s\<lparr>cs_kcp := peer\<rparr>) net))"

definition peer_error :: "u64 \<Rightarrow> ClientNetwork \<Rightarrow> string" where
  "peer_error session_id net =
     (case cn_FindSession session_id net of None \<Rightarrow> [] | Some session \<Rightarrow> kp_last_error_message (cs_kcp session))"

definition update_peer :: "client_env \<Rightarrow> u64 \<Rightarrow> u32 \<Rightarrow> ClientNetwork \<Rightarrow> KcpPeerErrorCode \<times> ClientNetwork" where
  "update_peer env session_id now_ms net =
     (case cn_FindSession session_id net of
        None \<Rightarrow> (Kcp_None, net)
      | Some session \<Rightarrow> with_peer session_id (kcp_Update (ce_kcp env) now_ms) session net)"

definition SendPayload ::
    "client_env \<Rightarrow> u64 \<Rightarrow> byte list \<Rightarrow> ClientNetwork \<Rightarrow> client_io \<Rightarrow> NodeErrorCode \<times> ClientNetwork \<times> client_io" where
  "SendPayload env session_id payload net io =
     (let fail = (\<lambda>code message net. case cn_SetError code message net of (code, net) \<Rightarrow> (code, net, io)) in
      if \<not> cn_running net
      then fail Node_NodeRunFailed ''ClientNetwork must be running before SendPayload().'' net
      else if payload = []
      then fail Node_InvalidArgument ''ClientNetwork SendPayload() requires a non-empty payload.'' net
      else case cn_FindSession session_id net of
        None \<Rightarrow> fail Node_InvalidArgument ''ClientNetwork SendPayload() target session was not found.'' net
      | Some session \<Rightarrow>
          case with_peer session_id (kcp_Send (ce_kcp env) payload) session net of (send_result, net) \<Rightarrow>
            if send_result \<noteq> Kcp_None
            then fail Node_NodeRunFailed
              (''ClientNetwork failed to queue payload into KCP: '' @ peer_error session_id net) net
            else case CurrentKcpClockMilliseconds env net of (now_kcp_ms, net) \<Rightarrow>
              case update_peer env session_id now_kcp_ms net of (update_result, net) \<Rightarrow>
                if update_result \<noteq> Kcp_None
                then fail Node_NodeRunFailed
                  (''ClientNetwork failed to flush KCP payload: '' @ peer_error session_id net) net
                else case cn_CurrentUnixTimeMilliseconds env io of (now_unix_ms, io) \<Rightarrow>
                  (Node_None, cn_ClearError (FlushPendingDatagrams env session_id
                     (modify_client session_id (Touch now_unix_ms) net)), io))"

definition tick_session :: "client_env \<Rightarrow> u32 \<Rightarrow> u64 \<Rightarrow> ClientNetwork \<Rightarrow> ClientNetwork" where
  "tick_session env now_kcp_ms session_id net =
     FlushPendingDatagrams env session_id (snd (update_peer env session_id now_kcp_ms net))"

definition TickKcpSessions :: "client_env \<Rightarrow> ClientNetwork \<Rightarrow> ClientNetwork" where
  "TickKcpSessions env net =
     (if \<not> cn_running net then net
      else case CurrentKcpClockMilliseconds env net of (now_kcp_ms, net) \<Rightarrow>
        fold (tick_session env now_kcp_ms) (map fst (cn_sessions net)) net)"

section \<open>Incoming datagrams\<close>

text \<open>
  The owner of the network, whose state \<open>'s\<close> contains the network and what it shares with it, and the
  three handlers it may have installed. A handler is given the id of the session; its result says
  whether the owner accepts. The error texts, which only the log shows, are left out.
\<close>

record 's client_host =
  ch_net :: "'s \<Rightarrow> ClientNetwork"
  ch_set_net :: "ClientNetwork \<Rightarrow> 's \<Rightarrow> 's"
  ch_io :: "'s \<Rightarrow> client_io"
  ch_set_io :: "client_io \<Rightarrow> 's \<Rightarrow> 's"
  ch_admission :: "(u32 \<Rightarrow> Endpoint \<Rightarrow> 's \<Rightarrow> bool \<times> 's) option"
  ch_opened :: "(u64 \<Rightarrow> 's \<Rightarrow> bool \<times> 's) option"
  ch_payload :: "(u64 \<Rightarrow> byte list \<Rightarrow> 's \<Rightarrow> 's) option"

definition ch_modify_net :: "'s client_host \<Rightarrow> (ClientNetwork \<Rightarrow> ClientNetwork) \<Rightarrow> 's \<Rightarrow> 's" where
  "ch_modify_net host f s = ch_set_net host (f (ch_net host s)) s"

definition CanOpenSession :: "'s client_host \<Rightarrow> u32 \<Rightarrow> Endpoint \<Rightarrow> 's \<Rightarrow> bool \<times> 's" where
  "CanOpenSession host conversation remote_endpoint s =
     (case ch_admission host of None \<Rightarrow> (True, s) | Some handler \<Rightarrow> handler conversation remote_endpoint s)"

definition HandleSessionOpened :: "'s client_host \<Rightarrow> u64 \<Rightarrow> 's \<Rightarrow> bool \<times> 's" where
  "HandleSessionOpened host session_id s =
     (case ch_opened host of None \<Rightarrow> (True, s) | Some handler \<Rightarrow> handler session_id s)"

definition HandleSessionPayload :: "'s client_host \<Rightarrow> u64 \<Rightarrow> byte list \<Rightarrow> 's \<Rightarrow> 's" where
  "HandleSessionPayload host session_id payload s =
     (case ch_payload host of None \<Rightarrow> s | Some handler \<Rightarrow> handler session_id payload s)"

text \<open>
  The loop that takes complete messages out of the peer. \<open>None\<close> means that it does not end. It works
  through a pointer to the session, which must still be in the table after the owner's handler; were it
  not, the loop of the model stops.
\<close>

partial_function (option) receive_messages :: "client_env \<Rightarrow> 's client_host \<Rightarrow> u64 \<Rightarrow> u64 \<Rightarrow> 's \<Rightarrow> 's option" where
  "receive_messages env host now_unix_ms session_id s =
     (case cn_FindSession session_id (ch_net host s) of
        None \<Rightarrow> Some s
      | Some session \<Rightarrow>
          (case kcp_Receive (ce_kcp env) (Some []) (cs_kcp session) of (receive_result, payload, peer) \<Rightarrow>
             if receive_result = Kcp_None
             then receive_messages env host now_unix_ms session_id
               (HandleSessionPayload host session_id (the payload)
                 (ch_modify_net host (modify_client session_id (\<lambda>c. Touch now_unix_ms (c\<lparr>cs_kcp := peer\<rparr>))) s))
             else Some (ch_modify_net host (modify_client session_id (\<lambda>c. c\<lparr>cs_kcp := peer\<rparr>)) s)))"

text \<open>Finding the session of a datagram, or opening one; the result is its id and whether it is new.\<close>

definition open_session ::
    "client_env \<Rightarrow> 's client_host \<Rightarrow> u32 \<Rightarrow> Endpoint \<Rightarrow> u64 \<Rightarrow> 's \<Rightarrow> (u64 \<times> bool) option \<times> 's" where
  "open_session env host conversation remote_endpoint now_unix_ms s =
     (case FindSessionByTransport conversation remote_endpoint (ch_net host s) of
        Some session \<Rightarrow> (Some (cs_session_id session, False), s)
      | None \<Rightarrow>
          case CanOpenSession host conversation remote_endpoint s of (admitted, s) \<Rightarrow>
            if \<not> admitted then (None, s)
            else case CreateSession env conversation remote_endpoint (Some 0) now_unix_ms (ch_net host s) (ch_io host s) of
              (create_result, created_session_id, net, io) \<Rightarrow>
                let s = ch_set_io host io (ch_set_net host net s); created_session_id = the created_session_id in
                if create_result \<noteq> Node_None then (None, s)
                else case HandleSessionOpened host created_session_id s of (opened, s) \<Rightarrow>
                  if \<not> opened then (None, ch_modify_net host (snd \<circ> RemoveSession created_session_id) s)
                  else (Some (created_session_id, True), s))"

definition HandleIncomingDatagram ::
    "client_env \<Rightarrow> 's client_host \<Rightarrow> Endpoint \<Rightarrow> byte list \<Rightarrow> 's \<Rightarrow> 's option" where
  "HandleIncomingDatagram env host remote_endpoint datagram s =
     (case TryReadKcpConversation datagram (Some 0) of (ok, conversation) \<Rightarrow>
        if \<not> ok then Some s
        else case cn_CurrentUnixTimeMilliseconds env (ch_io host s) of (now_unix_ms, io) \<Rightarrow>
        case CurrentKcpClockMilliseconds env (ch_net host s) of (now_kcp_ms, net) \<Rightarrow>
        case open_session env host (the conversation) remote_endpoint now_unix_ms
            (ch_set_io host io (ch_set_net host net s)) of (opened, s) \<Rightarrow>
        case opened of
          None \<Rightarrow> Some s
        | Some (session_id, session_created) \<Rightarrow>
            let s = ch_modify_net host (modify_client session_id (Touch now_unix_ms)) s in
            case cn_FindSession session_id (ch_net host s) of
              None \<Rightarrow> Some s
            | Some session \<Rightarrow>
                case with_peer session_id (kcp_Input (ce_kcp env) datagram) session (ch_net host s) of
                  (input_result, net) \<Rightarrow>
                    let s = ch_set_net host net s in
                    if input_result \<noteq> Kcp_None
                    then Some (if session_created
                      then ch_modify_net host (snd \<circ> RemoveSession session_id) s else s)
                    else receive_messages env host now_unix_ms session_id
                      (ch_modify_net host (FlushPendingDatagrams env session_id \<circ>
                        (snd \<circ> update_peer env session_id now_kcp_ms)) s))"

text \<open>The completion of a receive operation, with its error: whether it was aborted, and its text.\<close>

definition HandleReceive ::
    "client_env \<Rightarrow> 's client_host \<Rightarrow> (bool \<times> string) option \<Rightarrow> Endpoint \<Rightarrow> byte list \<Rightarrow> 's \<Rightarrow> 's option" where
  "HandleReceive env host error_code remote_endpoint datagram s =
     (let s = ch_modify_net host (\<lambda>net. net\<lparr>cn_receives := cn_receives net - 1\<rparr>) s in
      if \<not> cn_running (ch_net host s) then Some s
      else case error_code of
        Some (aborted, message) \<Rightarrow>
          Some (ch_modify_net host (\<lambda>net. StartReceive (if aborted then net
            else net\<lparr>cn_last_error_message := ''ClientNetwork UDP receive failed: '' @ message\<rparr>)) s)
      | None \<Rightarrow> map_option (ch_modify_net host StartReceive)
          (HandleIncomingDatagram env host remote_endpoint datagram s))"

section \<open>A free session id is found\<close>

text \<open>Stepping over ids visits every id but zero before it comes round.\<close>

definition next_nonzero :: "'a::len word \<Rightarrow> 'a word" where
  "next_nonzero w = (if w + 1 = 0 then 1 else w + 1)"

lemma next_nonzero_neq_0 [simp]: "next_nonzero w \<noteq> 0"
  by (simp add: next_nonzero_def)

lemma unat_next_nonzero:
  fixes w :: "'a::len word"
  assumes "w \<noteq> 0"
  shows "unat (next_nonzero w) = Suc ((unat w - 1 + 1) mod (2 ^ LENGTH('a) - 1))"
proof (cases "w + 1 = 0")
  case True
  then have "w = - 1" by (simp add: eq_neg_iff_add_eq_0)
  then have "unat w = 2 ^ LENGTH('a) - 1" by (simp add: unsigned_minus_1_eq_mask mask_eq_exp_minus_1)
  moreover have "unat w - 1 + 1 = unat w" using assms unat_eq_0 [of w] by linarith
  ultimately show ?thesis by (simp only: next_nonzero_def True mod_self if_True) simp
next
  case False
  then have s: "unat (w + 1) = Suc (unat w)" by (simp add: unatSuc add.commute)
  moreover have "unat (w + 1) < 2 ^ LENGTH('a)" by (rule unsigned_less)
  ultimately have "unat w < 2 ^ LENGTH('a) - 1" by simp
  moreover have "unat w \<noteq> 0" using assms by (simp add: unat_eq_0)
  ultimately show ?thesis using s False by (simp add: next_nonzero_def)
qed

lemma funpow_next_nonzero:
  fixes start :: "'a::len word"
  assumes "start \<noteq> 0"
  shows "(next_nonzero ^^ k) start \<noteq> 0 \<and>
    unat ((next_nonzero ^^ k) start) = Suc ((unat start - 1 + k) mod (2 ^ LENGTH('a) - 1))"
proof (induction k)
  case 0
  have "unat start < 2 ^ LENGTH('a)" by (rule unsigned_less)
  moreover have "unat start \<noteq> 0" using assms by (simp add: unat_eq_0)
  ultimately have "unat start - 1 < 2 ^ LENGTH('a) - 1" "Suc (unat start - 1) = unat start" by linarith+
  then show ?case using assms by simp
next
  case (Suc k)
  let ?x = "(next_nonzero ^^ k) start"
  have "unat (next_nonzero ?x) = Suc ((unat ?x - 1 + 1) mod (2 ^ LENGTH('a) - 1))"
    using Suc.IH by (intro unat_next_nonzero) simp
  also have "\<dots> = Suc (((unat start - 1 + k) mod (2 ^ LENGTH('a) - 1) + 1) mod (2 ^ LENGTH('a) - 1))"
    using Suc.IH by simp
  also have "\<dots> = Suc ((unat start - 1 + Suc k) mod (2 ^ LENGTH('a) - 1))"
    by (simp add: mod_Suc_eq)
  finally show ?case by simp
qed

lemma mod_add_eq_nat:
  fixes a i j m :: nat
  assumes "(a + i) mod m = (a + j) mod m" "i < m" "j < m"
  shows "i = j"
proof -
  have le: "y = x" if "x \<le> y" "y < m" "(a + y) mod m = (a + x) mod m" for x y :: nat
  proof -
    have "m dvd (a + y) - (a + x)"
      using mod_eq_dvd_iff_nat [of "a + x" "a + y" m] that(1,3) by simp
    then have "m dvd y - x" by simp
    then have "y - x = 0" using that(2) by (metis dvd_imp_le gr0I leD le_less_trans diff_le_self)
    with that(1) show ?thesis by simp
  qed
  show ?thesis
  proof (cases "i \<le> j")
    case True
    from le [OF this assms(3) assms(1) [symmetric]] show ?thesis ..
  next
    case False
    then have "j \<le> i" by simp
    from le [OF this assms(2) assms(1)] show ?thesis .
  qed
qed

lemma visited_ids_distinct:
  fixes start :: "'a::len word"
  assumes "start \<noteq> 0" "n < 2 ^ LENGTH('a) - 1"
  shows "inj_on (\<lambda>k. (next_nonzero ^^ k) start) {..n}"
proof (rule inj_onI)
  fix i j
  assume ij: "i \<in> {..n}" "j \<in> {..n}" and eq: "(next_nonzero ^^ i) start = (next_nonzero ^^ j) start"
  from arg_cong [where f = unat, OF eq]
  have "(unat start - 1 + i) mod (2 ^ LENGTH('a) - 1) = (unat start - 1 + j) mod (2 ^ LENGTH('a) - 1)"
    using funpow_next_nonzero [OF assms(1)] by simp
  then show "i = j" by (rule mod_add_eq_nat) (use ij assms(2) in simp_all)
qed

lemma next_session_id_after_eq: "next_session_id_after = next_nonzero"
  by (simp add: next_session_id_after_def next_nonzero_def Let_def fun_eq_iff)

text \<open>With fewer sessions than ids, one of the first ids visited is free.\<close>

lemma some_id_free:
  assumes "map_wf sessions" "length sessions < 2 ^ 64 - 1" "start \<noteq> 0"
  shows "\<exists>k\<le>length sessions. map_find sessions ((next_session_id_after ^^ k) start) = None"
proof (rule ccontr)
  let ?f = "\<lambda>k. (next_session_id_after ^^ k) start"
  assume "\<not> ?thesis"
  then have "?f ` {..length sessions} \<subseteq> dom (map_find sessions)" by (auto simp: domIff)
  then have "card (?f ` {..length sessions}) \<le> card (dom (map_find sessions))"
    by (rule card_mono [OF finite_dom_map_find])
  also have "card (?f ` {..length sessions}) = Suc (length sessions)"
    by (subst card_image) (use visited_ids_distinct [of start "length sessions"] assms(2,3) in \<open>simp_all add: next_session_id_after_eq\<close>)
  finally show False using length_map_wf [OF assms(1)] by simp
qed

lemma skip_used_while:
  assumes "\<exists>k\<le>n. map_find sessions ((next_session_id_after ^^ k) start) = None"
  shows "while_option (\<lambda>session_id. map_find sessions session_id \<noteq> None) next_session_id_after start =
      Some (skip_used n sessions start)"
    and "map_find sessions (skip_used n sessions start) = None"
  using assms
proof (induction n arbitrary: start)
  case 0
  {
    case 1
    then show ?case by (simp add: while_option_unfold [of _ _ start])
  next
    case 2
    then show ?case by simp
  }
next
  case (Suc n)
  have step: "\<exists>k\<le>n. map_find sessions ((next_session_id_after ^^ k) (next_session_id_after start)) = None"
    if "\<exists>k\<le>Suc n. map_find sessions ((next_session_id_after ^^ k) start) = None" "map_find sessions start \<noteq> None" for start
  proof -
    from that obtain k where "k \<le> Suc n" "map_find sessions ((next_session_id_after ^^ k) start) = None" by blast
    moreover from this that(2) obtain k' where "k = Suc k'" by (cases k) auto
    ultimately show ?thesis by (auto simp: funpow_swap1)
  qed
  {
    case 1
    show ?case
    proof (cases "map_find sessions start = None")
      case True
      then show ?thesis by (simp add: while_option_unfold [of _ _ start])
    next
      case False
      then show ?thesis
        using Suc.IH(1) [OF step [OF 1 False]] by (subst while_option_unfold) (simp del: not_None_eq)
    qed
  next
    case 2
    then show ?case using Suc.IH(2) [OF step [OF 2]] by simp
  }
qed

lemma skip_used_nonzero: "start \<noteq> 0 \<Longrightarrow> skip_used n sessions start \<noteq> 0"
  by (induction n arbitrary: start) (simp_all add: next_session_id_after_eq)

lemma ConsumeNextSessionId_fresh:
  assumes "map_wf (cn_sessions net)" "length (cn_sessions net) < 2 ^ 64 - 1"
    and "ConsumeNextSessionId net = (session_id, net')"
  shows "session_id \<noteq> 0" "map_find (cn_sessions net) session_id = None" "net' = net\<lparr>cn_next_session_id := cn_next_session_id net'\<rparr>"
proof -
  let ?start = "if cn_next_session_id net = 0 then 1 else cn_next_session_id net"
  have id: "session_id = skip_used (length (cn_sessions net)) (cn_sessions net) ?start"
    and net: "net' = net\<lparr>cn_next_session_id := next_session_id_after session_id\<rparr>"
    using assms(3) by (auto simp: ConsumeNextSessionId_def Let_def)
  show "session_id \<noteq> 0" unfolding id by (rule skip_used_nonzero) simp
  show "map_find (cn_sessions net) session_id = None"
    unfolding id by (rule skip_used_while(2) [OF some_id_free [OF assms(1,2)]]) simp
  show "net' = net\<lparr>cn_next_session_id := cn_next_session_id net'\<rparr>" by (simp add: net)
qed

section \<open>What the operations leave alone\<close>

text \<open>
  The operations on the traffic of the sessions change their peers and their times, but neither which
  sessions there are nor who they belong to.
\<close>

definition sessions_rel :: "(ClientSession \<Rightarrow> ClientSession \<Rightarrow> bool) \<Rightarrow> ClientNetwork \<Rightarrow> ClientNetwork \<Rightarrow> bool" where
  "sessions_rel R m n \<longleftrightarrow> cn_transport_index n = cn_transport_index m \<and>
     map fst (cn_sessions n) = map fst (cn_sessions m) \<and>
     (\<forall>k s. map_find (cn_sessions m) k = Some s \<longrightarrow> (\<exists>t. map_find (cn_sessions n) k = Some t \<and> R s t))"

lemma sessions_relD:
  "sessions_rel R m n \<Longrightarrow> cn_FindSession k m = Some s \<Longrightarrow> \<exists>t. cn_FindSession k n = Some t \<and> R s t"
  by (simp add: sessions_rel_def cn_FindSession_def)

lemma sessions_rel_find_None:
  assumes "sessions_rel R m n"
  shows "map_find (cn_sessions n) k = None \<longleftrightarrow> map_find (cn_sessions m) k = None"
proof -
  have "fst ` set (cn_sessions n) = fst ` set (cn_sessions m)"
    using assms by (metis sessions_rel_def set_map)
  then show ?thesis by (simp add: map_find_None_iff)
qed

lemma sessions_rel_before:
  assumes "sessions_rel R m n" "cn_FindSession k n = Some t"
  shows "\<exists>s. cn_FindSession k m = Some s \<and> R s t"
  using assms sessions_rel_find_None [OF assms(1), of k] by (force simp: sessions_rel_def cn_FindSession_def)

lemma sessions_rel_length: "sessions_rel R m n \<Longrightarrow> length (cn_sessions n) = length (cn_sessions m)"
  by (metis sessions_rel_def length_map)

text \<open>
  A relation between a session and what traffic makes of it. Whatever one send, update or flush of a
  peer keeps is kept by the operations of the network for all sessions.
\<close>

locale session_traffic =
  fixes R :: "ikcp \<Rightarrow> ClientSession \<Rightarrow> ClientSession \<Rightarrow> bool"
  assumes R_refl: "R lib s s"
    and R_trans: "R lib s t \<Longrightarrow> R lib t u \<Longrightarrow> R lib s u"
    and R_Touch: "R lib s (Touch at_ms s)"
    and R_Send: "R lib s (s\<lparr>cs_kcp := snd (kcp_Send lib payload (cs_kcp s))\<rparr>)"
    and R_Update: "R lib s (s\<lparr>cs_kcp := snd (kcp_Update lib now_ms (cs_kcp s))\<rparr>)"
    and R_Consume: "R lib s (s\<lparr>cs_kcp := snd (kcp_ConsumeOutgoingDatagrams (cs_kcp s))\<rparr>)"
begin

lemma rel_refl: "sessions_rel (R lib) n n"
  by (simp add: sessions_rel_def R_refl)

lemma rel_trans: "sessions_rel (R lib) l m \<Longrightarrow> sessions_rel (R lib) m n \<Longrightarrow> sessions_rel (R lib) l n"
  unfolding sessions_rel_def by (metis R_trans)

lemma rel_same:
  "cn_transport_index n = cn_transport_index m \<Longrightarrow> cn_sessions n = cn_sessions m \<Longrightarrow> sessions_rel (R lib) m n"
  by (simp add: sessions_rel_def R_refl)

lemma rel_modify:
  assumes "\<And>s. map_find (cn_sessions n) k = Some s \<Longrightarrow> R lib s (f s)"
  shows "sessions_rel (R lib) n (modify_client k f n)"
  using assms by (auto simp: sessions_rel_def modify_client_def fst_set_map_modify map_find_modify R_refl)

lemma rel_with_peer:
  assumes "cn_FindSession k n = Some s" "R lib s (s\<lparr>cs_kcp := snd (f (cs_kcp s))\<rparr>)"
  shows "sessions_rel (R lib) n (snd (with_peer k f s n))"
proof -
  have "sessions_rel (R lib) n (modify_client k (\<lambda>c. c\<lparr>cs_kcp := snd (f (cs_kcp s))\<rparr>) n)"
    by (rule rel_modify) (use assms in \<open>simp add: cn_FindSession_def\<close>)
  then show ?thesis by (simp add: with_peer_def split_def)
qed

lemma rel_update_peer: "sessions_rel (R (ce_kcp env)) n (snd (update_peer env k now_ms n))"
  by (auto simp: update_peer_def rel_refl intro: rel_with_peer R_Update split: option.split)

lemma rel_send_datagrams: "sessions_rel (R lib) n (send_datagrams env remote ds n)"
proof -
  have "cn_transport_index (send_datagrams env remote ds n) = cn_transport_index n \<and>
      cn_sessions (send_datagrams env remote ds n) = cn_sessions n"
    by (induction env remote ds n rule: send_datagrams.induct) (auto simp: udp_call_def split: prod.splits)
  then show ?thesis by (simp add: rel_same)
qed

lemma rel_Flush: "sessions_rel (R lib) n (FlushPendingDatagrams env k n)"
proof (cases "cn_FindSession k n")
  case None
  then show ?thesis by (simp add: FlushPendingDatagrams_def rel_refl)
next
  case (Some s)
  let ?c = "modify_client k (\<lambda>c. c\<lparr>cs_kcp := snd (kcp_ConsumeOutgoingDatagrams (cs_kcp s))\<rparr>) n"
  have c: "sessions_rel (R lib) n ?c"
    by (rule rel_modify) (use Some in \<open>simp add: cn_FindSession_def R_Consume\<close>)
  then have "sessions_rel (R lib) n (send_datagrams env remote ds ?c)" for remote ds
    by (rule rel_trans [OF _ rel_send_datagrams])
  with c show ?thesis using Some
    by (auto simp: FlushPendingDatagrams_def Let_def split: prod.split sum.split)
qed

lemma rel_update_Flush:
  "sessions_rel (R (ce_kcp env)) n (FlushPendingDatagrams env k (snd (update_peer env k now_ms n)))"
  by (rule rel_trans [OF rel_update_peer rel_Flush])

lemma rel_tick: "sessions_rel (R (ce_kcp env)) n (fold (tick_session env now_ms) ks n)"
proof (induction ks arbitrary: n)
  case (Cons k ks)
  have "sessions_rel (R (ce_kcp env)) n (tick_session env now_ms k n)"
    unfolding tick_session_def by (rule rel_update_Flush)
  from rel_trans [OF this Cons.IH] show ?case by simp
qed (simp add: rel_refl)

lemma rel_clock: "sessions_rel (R lib) n (snd (CurrentKcpClockMilliseconds env n))"
  by (rule rel_same) (simp_all add: CurrentKcpClockMilliseconds_def)

lemma rel_TickKcpSessions: "sessions_rel (R (ce_kcp env)) n (TickKcpSessions env n)"
  using rel_trans [OF rel_clock rel_tick] by (simp add: TickKcpSessions_def split_def rel_refl)

lemma rel_error:
  "sessions_rel (R lib) m n \<Longrightarrow> sessions_rel (R lib) m (snd (cn_SetError code message n))"
  "sessions_rel (R lib) m n \<Longrightarrow> sessions_rel (R lib) m (cn_ClearError n)"
  by (simp_all add: sessions_rel_def cn_SetError_def cn_ClearError_def)

lemma rel_SendPayload: "sessions_rel (R (ce_kcp env)) n (fst (snd (SendPayload env k payload n io)))"
proof (cases "cn_running n \<and> payload \<noteq> [] \<and> cn_FindSession k n \<noteq> None")
  case False
  then show ?thesis
    by (auto simp: SendPayload_def cn_SetError_def sessions_rel_def R_refl split: option.split)
next
  case True
  then obtain s where s: "cn_FindSession k n = Some s" by blast
  let ?n1 = "snd (with_peer k (kcp_Send (ce_kcp env) payload) s n)"
  let ?n2 = "snd (CurrentKcpClockMilliseconds env ?n1)"
  let ?n3 = "snd (update_peer env k (fst (CurrentKcpClockMilliseconds env ?n1)) ?n2)"
  have n1: "sessions_rel (R (ce_kcp env)) n ?n1" using s R_Send by (rule rel_with_peer)
  have n3: "sessions_rel (R (ce_kcp env)) n ?n3"
    by (rule rel_trans [OF n1], rule rel_trans [OF rel_clock rel_update_peer])
  have "sessions_rel (R (ce_kcp env)) n (FlushPendingDatagrams env k (modify_client k (Touch at_ms) ?n3))" for at_ms
    by (rule rel_trans [OF n3], rule rel_trans [OF rel_modify rel_Flush]) (rule R_Touch)
  then show ?thesis
    using True s n1 n3 by (simp add: SendPayload_def split_def Let_def rel_error)
qed

end

text \<open>Traffic changes neither which sessions there are nor who they belong to.\<close>

definition same_client :: "ClientSession \<Rightarrow> ClientSession \<Rightarrow> bool" where
  "same_client s t \<longleftrightarrow> cs_session_id t = cs_session_id s \<and> cs_remote_endpoint t = cs_remote_endpoint s \<and>
     session_conversation t = session_conversation s \<and> (session_wf s \<longrightarrow> session_wf t)"

abbreviation clients_kept :: "ClientNetwork \<Rightarrow> ClientNetwork \<Rightarrow> bool" where
  "clients_kept \<equiv> sessions_rel same_client"

lemma kcp_options_frame [simp]:
  "kp_options (snd (kcp_SetError code message p)) = kp_options p"
  "kp_options (kcp_ClearError p) = kp_options p"
  "kp_options (kcp_record c p) = kp_options p"
  by (simp_all add: kcp_SetError_def kcp_ClearError_def kcp_record_def)

lemma fold_HandleOutput_frame [simp]:
  "kp_options (fold HandleOutput calls p) = kp_options p" "kp_handle (fold HandleOutput calls p) = kp_handle p"
  by (induction calls arbitrary: p) (auto simp: HandleOutput_def split: prod.split option.split)

lemma kcp_ops_options:
  "kp_options (snd (kcp_Send lib payload p)) = kp_options p"
  "kp_options (snd (kcp_Input lib payload p)) = kp_options p"
  "kp_options (snd (kcp_Update lib now_ms p)) = kp_options p"
  "kp_options (snd (kcp_ConsumeOutgoingDatagrams p)) = kp_options p"
  "kp_options (snd (snd (kcp_Receive lib buffer p))) = kp_options p"
  by (simp_all add: kcp_Send_def kcp_Input_def kcp_Update_def kcp_ConsumeOutgoingDatagrams_def Let_def
      kcp_Receive_def kcp_SetError_def split: option.split prod.split)

lemma same_client_peer:
  "kp_options peer = kp_options (cs_kcp s) \<Longrightarrow> same_client s (s\<lparr>cs_kcp := peer\<rparr>)"
  by (simp add: same_client_def session_conversation_def kcp_conversation_def session_wf_def)

lemma same_client_refl [simp]: "same_client s s"
  by (simp add: same_client_def)

lemma same_client_Touch: "same_client s (Touch at_ms s)"
  by (simp add: same_client_def Touch_def session_conversation_def session_wf_def)

lemma same_client_trans: "same_client s t \<Longrightarrow> same_client t u \<Longrightarrow> same_client s u"
  by (simp add: same_client_def)

interpretation clients: session_traffic "\<lambda>_. same_client"
  by unfold_locales (auto simp: same_client_Touch same_client_peer kcp_ops_options intro: same_client_trans)

text \<open>
  KCP keeps the messages it has received in a queue. \<open>ikcp_drains q lib\<close> says that \<open>q\<close> measures it: a
  receive that succeeds takes something out, and sending and updating put nothing in.
\<close>

definition ikcp_drains :: "(ikcpcb \<Rightarrow> nat) \<Rightarrow> ikcp \<Rightarrow> bool" where
  "ikcp_drains q lib \<longleftrightarrow>
     (\<forall>kcp. ikcp_peeksize lib kcp \<ge> 0 \<and> fst (ikcp_recv lib kcp (nat (ikcp_peeksize lib kcp))) \<ge> 0 \<longrightarrow>
        q (kcp\<lparr>cb_calls := Call_recv (nat (ikcp_peeksize lib kcp)) # cb_calls kcp\<rparr>) < q kcp) \<and>
     (\<forall>kcp payload. q (kcp\<lparr>cb_calls := Call_send payload # cb_calls kcp\<rparr>) \<le> q kcp) \<and>
     (\<forall>kcp now_ms. q (kcp\<lparr>cb_calls := Call_update now_ms # cb_calls kcp\<rparr>) \<le> q kcp)"

definition peer_queue :: "(ikcpcb \<Rightarrow> nat) \<Rightarrow> KcpPeer \<Rightarrow> nat" where
  "peer_queue q p = (case kp_handle p of None \<Rightarrow> 0 | Some kcp \<Rightarrow> q kcp)"

definition no_longer_queue :: "ikcp \<Rightarrow> ClientSession \<Rightarrow> ClientSession \<Rightarrow> bool" where
  "no_longer_queue lib s t \<longleftrightarrow>
     (\<forall>q. ikcp_drains q lib \<longrightarrow> peer_queue q (cs_kcp t) \<le> peer_queue q (cs_kcp s))"

lemma peer_queue_frame [simp]:
  "peer_queue q (snd (kcp_SetError code message p)) = peer_queue q p"
  "peer_queue q (kcp_ClearError p) = peer_queue q p"
  "peer_queue q (fold HandleOutput calls p) = peer_queue q p"
  by (simp_all add: kcp_SetError_def kcp_ClearError_def peer_queue_def)

lemma peer_queue_record:
  assumes "ikcp_drains q lib"
  shows "peer_queue q (kcp_record (Call_send payload) p) \<le> peer_queue q p"
    "peer_queue q (kcp_record (Call_update now_ms) p) \<le> peer_queue q p"
  using assms by (auto simp: ikcp_drains_def peer_queue_def kcp_record_def split: option.split)

interpretation queues: session_traffic no_longer_queue
proof
  fix lib s t u and at_ms now_ms and payload :: "byte list"
  show "no_longer_queue lib s s" by (simp add: no_longer_queue_def)
  show "no_longer_queue lib s t \<Longrightarrow> no_longer_queue lib t u \<Longrightarrow> no_longer_queue lib s u"
    unfolding no_longer_queue_def by (meson le_trans)
  show "no_longer_queue lib s (Touch at_ms s)" by (simp add: no_longer_queue_def Touch_def)
  show "no_longer_queue lib s (s\<lparr>cs_kcp := snd (kcp_Send lib payload (cs_kcp s))\<rparr>)"
    by (auto simp: no_longer_queue_def kcp_Send_def Let_def peer_queue_record split: option.split)
  show "no_longer_queue lib s (s\<lparr>cs_kcp := snd (kcp_Update lib now_ms (cs_kcp s))\<rparr>)"
    by (auto simp: no_longer_queue_def kcp_Update_def peer_queue_record split: option.split)
  show "no_longer_queue lib s (s\<lparr>cs_kcp := snd (kcp_ConsumeOutgoingDatagrams (cs_kcp s))\<rparr>)"
    by (simp add: no_longer_queue_def kcp_ConsumeOutgoingDatagrams_def peer_queue_def)
qed

lemma kcp_Receive_drains:
  assumes "ikcp_drains q lib" "kcp_Receive lib (Some buffer) p = (Kcp_None, payload, p')"
  shows "peer_queue q p' < peer_queue q p"
proof (cases "kp_handle p")
  case None
  with assms(2) show ?thesis by (simp add: kcp_Receive_def kcp_SetError_def)
next
  case (Some kcp)
  then have "ikcp_peeksize lib kcp \<ge> 0" "fst (ikcp_recv lib kcp (nat (ikcp_peeksize lib kcp))) \<ge> 0"
      "p' = kcp_ClearError (kcp_record (Call_recv (nat (ikcp_peeksize lib kcp))) p)"
    using assms(2) by (auto simp: kcp_Receive_def kcp_SetError_def Let_def split: if_splits prod.splits)
  with assms(1) Some show ?thesis
    by (simp add: ikcp_drains_def) (simp add: peer_queue_def kcp_record_def)
qed

section \<open>The two maps agree\<close>

definition client_key :: "ClientSession \<Rightarrow> TransportKey" where
  "client_key s = MakeTransportKey (cs_remote_endpoint s) (session_conversation s)"

definition clients_inv :: "ClientNetwork \<Rightarrow> bool" where
  "clients_inv n \<longleftrightarrow> map_wf (cn_sessions n) \<and> map_wf (cn_transport_index n) \<and>
     (\<forall>k s. map_find (cn_sessions n) k = Some s \<longrightarrow> k \<noteq> 0 \<and> cs_session_id s = k \<and> session_wf s \<and>
        map_find (cn_transport_index n) (client_key s) = Some k) \<and>
     (\<forall>t k. map_find (cn_transport_index n) t = Some k \<longrightarrow>
        (\<exists>s. map_find (cn_sessions n) k = Some s \<and> client_key s = t))"

lemma clients_inv_session:
  assumes "clients_inv n" "map_find (cn_sessions n) k = Some s"
  shows "k \<noteq> 0" "cs_session_id s = k" "session_wf s" "map_find (cn_transport_index n) (client_key s) = Some k"
  using assms by (simp_all add: clients_inv_def)

lemma clients_inv_index:
  assumes "clients_inv n" "map_find (cn_transport_index n) t = Some k"
  obtains s where "map_find (cn_sessions n) k = Some s" "client_key s = t"
  using assms unfolding clients_inv_def by blast

lemma clients_inv_kept:
  assumes "clients_inv m" "clients_kept m n"
  shows "clients_inv n"
proof -
  have kept: "cn_transport_index n = cn_transport_index m" "map fst (cn_sessions n) = map fst (cn_sessions m)"
    using assms(2) by (simp_all add: sessions_rel_def)
  have before: "\<exists>s. map_find (cn_sessions m) k = Some s \<and> same_client s t" if "map_find (cn_sessions n) k = Some t" for k t
    using assms(2) that sessions_rel_find_None [OF assms(2), of k] by (force simp: sessions_rel_def)
  have key: "client_key t = client_key s" if "same_client s t" for s t
    using that by (simp add: same_client_def client_key_def)
  show ?thesis
    unfolding clients_inv_def
  proof (intro conjI allI impI)
    show "map_wf (cn_sessions n)" using assms(1) kept(2) by (simp add: clients_inv_def map_wf_def)
    show "map_wf (cn_transport_index n)" using assms(1) kept(1) by (simp add: clients_inv_def)
  next
    fix k t
    assume "map_find (cn_sessions n) k = Some t"
    from before [OF this] obtain s where "map_find (cn_sessions m) k = Some s" "same_client s t" by blast
    with assms(1) show "k \<noteq> 0" "cs_session_id t = k" "session_wf t"
        "map_find (cn_transport_index n) (client_key t) = Some k"
      by (auto simp: clients_inv_def kept(1) key) (auto simp: same_client_def)
  next
    fix u k
    assume "map_find (cn_transport_index n) u = Some k"
    then obtain s where "map_find (cn_sessions m) k = Some s" "client_key s = u"
      using clients_inv_index [OF assms(1)] kept(1) by metis
    with assms(2) key show "\<exists>s. map_find (cn_sessions n) k = Some s \<and> client_key s = u"
      unfolding sessions_rel_def by metis
  qed
qed

lemma clients_inv_new: "clients_inv (new_ClientNetwork owner_node_id listen_endpoint kcp)"
  by (simp add: clients_inv_def new_ClientNetwork_def map_wf_Nil)

text \<open>A lookup by transport finds the session that carries the key, and nothing else.\<close>

lemma FindSessionByTransport_iff:
  assumes "clients_inv n"
  shows "FindSessionByTransport conversation remote n = Some s \<longleftrightarrow>
    map_find (cn_sessions n) (cs_session_id s) = Some s \<and> client_key s = MakeTransportKey remote conversation"
proof
  assume "FindSessionByTransport conversation remote n = Some s"
  then obtain k where "map_find (cn_transport_index n) (MakeTransportKey remote conversation) = Some k"
      "map_find (cn_sessions n) k = Some s"
    by (auto simp: FindSessionByTransport_def cn_FindSession_def split: option.splits)
  with assms show "map_find (cn_sessions n) (cs_session_id s) = Some s \<and> client_key s = MakeTransportKey remote conversation"
    unfolding clients_inv_def by (metis option.inject)
next
  assume "map_find (cn_sessions n) (cs_session_id s) = Some s \<and> client_key s = MakeTransportKey remote conversation"
  moreover from this assms
  have "map_find (cn_transport_index n) (MakeTransportKey remote conversation) = Some (cs_session_id s)"
    unfolding clients_inv_def by metis
  ultimately show "FindSessionByTransport conversation remote n = Some s"
    by (simp add: FindSessionByTransport_def cn_FindSession_def)
qed

lemma clients_inv_Remove:
  assumes "clients_inv n"
  shows "clients_inv (snd (RemoveSession k n))"
proof (cases "map_find (cn_sessions n) k")
  case None
  then show ?thesis using assms by (simp add: RemoveSession_def)
next
  case (Some s)
  have key: "map_find (cn_transport_index n) (client_key s) = Some k" using assms Some by (simp add: clients_inv_def)
  have "map_find (cn_transport_index n) (client_key t) = Some j" "client_key t \<noteq> client_key s"
    if "map_find (cn_sessions n) j = Some t" "j \<noteq> k" for j t
  proof -
    show "map_find (cn_transport_index n) (client_key t) = Some j" using assms that(1) by (simp add: clients_inv_def)
    with key that(2) show "client_key t \<noteq> client_key s" by auto
  qed
  moreover have "j \<noteq> k" if "map_find (cn_transport_index n) u = Some j" "u \<noteq> client_key s" for u j
    using assms Some that unfolding clients_inv_def by (metis option.inject)
  ultimately show ?thesis
    using assms Some
    by (simp add: clients_inv_def RemoveSession_def map_find_erase map_wf_erase flip: client_key_def)
qed

lemma new_KcpPeer_options: "kp_options (new_KcpPeer lib opts) = opts"
proof (cases "kcp_config_ok (kpo_config opts) \<and> 50 \<le> kcp_mtu (kpo_config opts) \<and>
    kcp_memory_ok lib (kcp_mtu (kpo_config opts))")
  case True
  then show ?thesis by (simp add: new_KcpPeer_ok)
next
  case False
  from new_KcpPeer_bad [OF this] show ?thesis by auto
qed

text \<open>What a successful creation does, and that a failed one leaves the sessions alone.\<close>

lemma CreateSession_cases:
  assumes "clients_inv n" "length (cn_sessions n) < 2 ^ 64 - 1"
    and "CreateSession env conversation remote sid at_ms n io = (code, sid', n', io')"
  obtains (refused) "code \<noteq> Node_None" "clients_kept n n'" "sid' = sid" "io_timers io' = io_timers io"
  | (created) k s where "code = Node_None" "sid' = map_option (\<lambda>_. k) sid" "k \<noteq> 0" "io_timers io' = io_timers io"
      "map_find (cn_sessions n) k = None" "map_find (cn_transport_index n) (client_key s) = None"
      "cn_sessions n' = map_put k s (cn_sessions n)"
      "cn_transport_index n' = map_put (client_key s) k (cn_transport_index n)"
      "cs_session_id s = k" "session_wf s" "session_conversation s = conversation"
      "cs_remote_endpoint s = \<lparr>ep_host = NormalizeHost (ep_host remote), ep_port = ep_port remote\<rparr>"
      "cs_session_state s = Session_Created"
      "cs_kcp s = new_KcpPeer (ce_kcp env) \<lparr>kpo_conversation = conversation, kpo_config = cn_kcp n\<rparr>"
proof -
  let ?ep = "\<lparr>ep_host = NormalizeHost (ep_host remote), ep_port = ep_port remote\<rparr>"
  obtain k n1 where consume: "ConsumeNextSessionId n = (k, n1)" by fastforce
  obtain at' io1 where clock: "(if at_ms \<noteq> 0 then (at_ms, io) else cn_CurrentUnixTimeMilliseconds env io) = (at', io1)"
    by fastforce
  then have timers: "io_timers io1 = io_timers io"
    by (auto simp: cn_CurrentUnixTimeMilliseconds_def Let_def split: if_splits)
  let ?opts = "\<lparr>cso_gate_node_id = cn_owner_node_id n1, cso_session_id = k, cso_conversation = conversation,
      cso_remote_endpoint = ?ep, cso_kcp = cn_kcp n1, cso_connected_at_unix_ms = at'\<rparr>"
  let ?s = "new_ClientSession (ce_kcp env) ?opts"
  have wf: "map_wf (cn_sessions n)" using assms(1) by (simp add: clients_inv_def)
  note fresh = ConsumeNextSessionId_fresh [OF wf assms(2) consume]
  have n1: "cn_sessions n1 = cn_sessions n" "cn_transport_index n1 = cn_transport_index n" "cn_kcp n1 = cn_kcp n"
    by (subst fresh(3), simp)+
  have id: "cs_session_id ?s = k" "cs_remote_endpoint ?s = ?ep" "session_conversation ?s = conversation"
      "cs_session_state ?s = Session_Created"
      "cs_kcp ?s = new_KcpPeer (ce_kcp env) \<lparr>kpo_conversation = conversation, kpo_config = cn_kcp n1\<rparr>"
    by (simp_all add: new_ClientSession_def session_SetError_def session_ClearError_def Let_def
        session_conversation_def kcp_conversation_def new_KcpPeer_options)
  show ?thesis
  proof (cases "code = Node_None")
    case False
    then have "clients_kept n n'" "sid' = sid" "io_timers io' = io_timers io"
      using assms(3) n1 timers
      by (auto simp: CreateSession_def Let_def consume clock cn_SetError_def sessions_rel_def
          split: if_splits prod.splits)
    with False show ?thesis by (rule refused)
  next
    case True
    then have "map_find (cn_transport_index n) (MakeTransportKey ?ep conversation) = None" "cs_valid ?s"
        "sid' = map_option (\<lambda>_. k) sid" "io' = io1"
        "n' = cn_ClearError (n1\<lparr>cn_transport_index := snd (map_emplace (MakeTransportKey ?ep conversation) k (cn_transport_index n1)),
           cn_sessions := snd (map_emplace k ?s (cn_sessions n1))\<rparr>)"
      using assms(3)
      by (auto simp: CreateSession_def Let_def consume clock cn_SetError_def n1 split: if_splits prod.splits)
    moreover have "client_key ?s = MakeTransportKey ?ep conversation" by (simp add: client_key_def id)
    moreover have "session_wf ?s"
      using \<open>cs_valid ?s\<close> new_ClientSession_bad(1) new_ClientSession_ok(1) by blast
    ultimately show ?thesis
      using True fresh id timers by (intro created [of k ?s]) (simp_all add: cn_ClearError_def map_emplace_def n1)
  qed
qed

text \<open>
  A client that is not there yet can be added: the network is initialised with a configuration that KCP
  takes, and the address is one that the socket reports, without brackets.
\<close>

definition can_create :: "client_env \<Rightarrow> ClientNetwork \<Rightarrow> bool" where
  "can_create env n \<longleftrightarrow> cn_initialized n \<and> cn_owner_node_id n \<noteq> [] \<and> kcp_config_ok (cn_kcp n) \<and> 50 \<le> kcp_mtu (cn_kcp n) \<and>
     kcp_memory_ok (ce_kcp env) (kcp_mtu (cn_kcp n))"

definition plain_endpoint :: "Endpoint \<Rightarrow> bool" where
  "plain_endpoint e \<longleftrightarrow> ep_host e \<noteq> [] \<and> NormalizeHost (ep_host e) = ep_host e \<and> ep_port e \<noteq> 0"

lemma CreateSession_ok:
  assumes "clients_inv n" "length (cn_sessions n) < 2 ^ 64 - 1" "can_create env n" "plain_endpoint remote"
    and "FindSessionByTransport conversation remote n = None"
  shows "fst (CreateSession env conversation remote sid at_ms n io) = Node_None"
proof -
  obtain k n1 where consume: "ConsumeNextSessionId n = (k, n1)" by fastforce
  have wf: "map_wf (cn_sessions n)" using assms(1) by (simp add: clients_inv_def)
  note fresh = ConsumeNextSessionId_fresh [OF wf assms(2) consume]
  have n1: "cn_owner_node_id n1 = cn_owner_node_id n" "cn_kcp n1 = cn_kcp n" by (subst fresh(3), simp)+
  have free: "map_find (cn_transport_index n) (MakeTransportKey remote conversation) = None"
  proof (cases "map_find (cn_transport_index n) (MakeTransportKey remote conversation)")
    case (Some j)
    then show ?thesis
      using assms(5) by (auto simp: FindSessionByTransport_def cn_FindSession_def elim: clients_inv_index [OF assms(1)])
  qed
  have "cs_valid (new_ClientSession (ce_kcp env) opts)"
    if "cso_gate_node_id opts = cn_owner_node_id n" "cso_session_id opts = k" "cso_remote_endpoint opts = remote"
      "cso_kcp opts = cn_kcp n" for opts
  proof -
    have "kcp_valid (new_KcpPeer (ce_kcp env) \<lparr>kpo_conversation = cso_conversation opts, kpo_config = cso_kcp opts\<rparr>)"
      using assms(3) that(4) new_KcpPeer_ok [of "\<lparr>kpo_conversation = cso_conversation opts, kpo_config = cso_kcp opts\<rparr>" "ce_kcp env"]
      by (simp add: can_create_def kcp_valid_def)
    then have "session_options_ok (ce_kcp env) opts"
      using assms(3,4) fresh(1) that by (simp add: session_options_ok_def can_create_def plain_endpoint_def)
    from new_ClientSession_ok(1) [OF this] show ?thesis by (simp add: session_wf_def)
  qed
  moreover have eta: "\<lparr>ep_host = ep_host remote, ep_port = ep_port remote\<rparr> = remote" by simp
  ultimately show ?thesis
    using assms(3,4) free by (simp add: eta CreateSession_def Let_def consume can_create_def plain_endpoint_def n1 split_def)
qed

lemma clients_inv_Create:
  assumes "clients_inv n" "length (cn_sessions n) < 2 ^ 64 - 1"
    and "CreateSession env conversation remote sid at_ms n io = (code, sid', n', io')"
  shows "clients_inv n'"
  using assms
proof (cases rule: CreateSession_cases)
  case refused
  then show ?thesis using clients_inv_kept [OF assms(1)] by blast
next
  case (created k s)
  have wf: "map_wf (cn_sessions n)" "map_wf (cn_transport_index n)" using assms(1) by (simp_all add: clients_inv_def)
  have "client_key t \<noteq> client_key s" if "map_find (cn_sessions n) j = Some t" for j t
    using assms(1) created(6) that unfolding clients_inv_def by (metis option.distinct(1))
  moreover have "j \<noteq> k" if "map_find (cn_transport_index n) u = Some j" for u j
    using created(5) clients_inv_index [OF assms(1) that] by force
  ultimately show ?thesis
    using assms(1) created wf
    by (simp add: clients_inv_def map_find_put map_wf_put)
qed

section \<open>Owners of the network\<close>

text \<open>
  What can happen to the owner after a datagram has found its session: traffic, the removal of a session,
  and calls of the payload handler.
\<close>

inductive after_open :: "'s client_host \<Rightarrow> 's \<Rightarrow> 's \<Rightarrow> bool" for host where
  after_refl: "after_open host s s"
| after_traffic: "after_open host s t \<Longrightarrow> clients_kept (ch_net host t) n \<Longrightarrow> after_open host s (ch_set_net host n t)"
| after_remove: "after_open host s t \<Longrightarrow> after_open host s (ch_modify_net host (snd \<circ> RemoveSession k) t)"
| after_payload: "after_open host s t \<Longrightarrow> after_open host s (HandleSessionPayload host k p t)"

lemma after_open_trans: "after_open host t u \<Longrightarrow> after_open host s t \<Longrightarrow> after_open host s u"
  by (induction rule: after_open.induct) (auto intro: after_open.intros)

lemma after_modify:
  "after_open host s t \<Longrightarrow> clients_kept (ch_net host t) (f (ch_net host t)) \<Longrightarrow> after_open host s (ch_modify_net host f t)"
  by (simp add: ch_modify_net_def after_traffic)

text \<open>The state in which the session of a datagram is looked up: both clocks have been read.\<close>

definition clocks_read :: "client_env \<Rightarrow> 's client_host \<Rightarrow> 's \<Rightarrow> 's" where
  "clocks_read env host s = ch_set_io host (snd (cn_CurrentUnixTimeMilliseconds env (ch_io host s)))
     (ch_set_net host (snd (CurrentKcpClockMilliseconds env (ch_net host s))) s)"

text \<open>
  What an owner promises: its state contains the network, and its handlers do to the sessions what
  traffic may do; the handler of an opened session may also activate it. \<open>good\<close> is the invariant of the
  owner's own state. An owner that keeps this has its two maps in agreement and its receive loop ends.
\<close>

locale client_owner =
  fixes host :: "'s client_host" and lib :: ikcp and good :: "'s \<Rightarrow> bool"
  assumes net_set_net: "ch_net host (ch_set_net host n s) = n"
    and net_set_io: "ch_net host (ch_set_io host io s) = ch_net host s"
    and good_set_net: "good s \<Longrightarrow> good (ch_set_net host n s)"
    and good_set_io: "good s \<Longrightarrow> good (ch_set_io host io s)"
    and admission: "good s \<Longrightarrow> clients_kept (ch_net host s) (ch_net host (snd (CanOpenSession host c r s))) \<and>
      good (snd (CanOpenSession host c r s))"
    and opened: "good s \<Longrightarrow> clients_kept (ch_net host s) (ch_net host (snd (HandleSessionOpened host k s))) \<and>
      good (snd (HandleSessionOpened host k s))"
    and payload: "good s \<Longrightarrow> clients_kept (ch_net host s) (ch_net host (HandleSessionPayload host k p s)) \<and>
      sessions_rel (no_longer_queue lib) (ch_net host s) (ch_net host (HandleSessionPayload host k p s)) \<and>
      good (HandleSessionPayload host k p s)"
begin

lemma net_modify: "ch_net host (ch_modify_net host f s) = f (ch_net host s)"
  by (simp add: ch_modify_net_def net_set_net)

lemma good_modify: "good s \<Longrightarrow> good (ch_modify_net host f s)"
  by (simp add: ch_modify_net_def good_set_net)

lemma after_open_inv:
  assumes "after_open host s t" "good s" "clients_inv (ch_net host s)"
  shows "good t \<and> clients_inv (ch_net host t)"
  using assms
proof (induction rule: after_open.induct)
  case (after_traffic s t n)
  then show ?case using clients_inv_kept by (auto simp: net_set_net good_set_net)
next
  case (after_remove s t k)
  then show ?case using clients_inv_Remove by (auto simp: net_modify good_modify)
next
  case (after_payload s t k p)
  then show ?case using payload [of t k p] clients_inv_kept by blast
qed simp

text \<open>No session comes into being after the lookup.\<close>

lemma after_open_sessions:
  assumes "after_open host s t" "good s" "clients_inv (ch_net host s)" "cn_FindSession k (ch_net host t) = Some d"
  shows "\<exists>c. cn_FindSession k (ch_net host s) = Some c \<and> same_client c d"
  using assms
proof (induction arbitrary: d rule: after_open.induct)
  case (after_refl s)
  then show ?case by auto
next
  case (after_traffic s t n)
  then have "cn_FindSession k n = Some d" by (simp add: net_set_net)
  from sessions_rel_before [OF after_traffic.hyps(2) this]
  obtain c where "cn_FindSession k (ch_net host t) = Some c" "same_client c d" by blast
  with after_traffic.IH [OF after_traffic.prems(1,2)] show ?case using same_client_trans by blast
next
  case (after_remove s t j)
  then have "cn_FindSession k (ch_net host t) = Some d"
    by (auto simp: net_modify RemoveSession_def cn_FindSession_def map_find_erase split: option.splits if_splits)
  then show ?case using after_remove by blast
next
  case (after_payload s t j p)
  have "clients_kept (ch_net host t) (ch_net host (HandleSessionPayload host j p t))"
    using payload after_open_inv [OF after_payload.hyps after_payload.prems(1,2)] by blast
  from sessions_rel_before [OF this after_payload.prems(3)] show ?case
    using after_payload.IH [OF after_payload.prems(1,2)] same_client_trans by blast
qed

text \<open>The loop over the messages of a peer ends, and does to the sessions what traffic does.\<close>

lemma receive_messages_ends:
  assumes "ikcp_drains q (ce_kcp env)" "ce_kcp env = lib" "good s"
  shows "\<exists>s'. receive_messages env host now_ms k s = Some s' \<and> after_open host s s' \<and> clients_kept (ch_net host s) (ch_net host s')"
  using assms(3)
proof (induction "case cn_FindSession k (ch_net host s) of None \<Rightarrow> 0 | Some c \<Rightarrow> Suc (peer_queue q (cs_kcp c))"
    arbitrary: s rule: less_induct)
  case less
  show ?case
  proof (cases "cn_FindSession k (ch_net host s)")
    case None
    then show ?thesis by (subst receive_messages.simps) (simp add: after_refl clients.rel_refl)
  next
    case (Some c)
    obtain code payload p where r: "kcp_Receive (ce_kcp env) (Some []) (cs_kcp c) = (code, payload, p)"
      by (metis prod_cases3)
    have opts: "kp_options p = kp_options (cs_kcp c)"
      using kcp_ops_options(5) [of "ce_kcp env" "Some []" "cs_kcp c"] by (simp add: r)
    show ?thesis
    proof (cases "code = Kcp_None")
      case False
      let ?f = "modify_client k (\<lambda>c. c\<lparr>cs_kcp := p\<rparr>)"
      have kept: "clients_kept (ch_net host s) (?f (ch_net host s))"
        by (intro clients.rel_modify same_client_peer) (use Some opts in \<open>simp add: cn_FindSession_def\<close>)
      then show ?thesis
        using False after_modify [where f = ?f, OF after_refl kept] by (subst receive_messages.simps) (simp add: Some r net_modify)
    next
      case True
      let ?f = "\<lambda>c. Touch now_ms (c\<lparr>cs_kcp := p\<rparr>)"
      let ?s = "ch_modify_net host (modify_client k ?f) s"
      let ?t = "HandleSessionPayload host k (the payload) ?s"
      have good: "good ?s" using good_modify [OF less.prems] .
      have touched: "clients_kept (ch_net host s) (modify_client k ?f (ch_net host s))"
        by (intro clients.rel_modify same_client_trans [OF same_client_peer same_client_Touch])
          (use Some opts in \<open>simp add: cn_FindSession_def\<close>)
      have kept: "after_open host s ?t" by (intro after_payload after_modify after_refl touched)
      note pay = payload [OF good, of k "the payload"]
      have c: "cn_FindSession k (ch_net host ?s) = Some (?f c)"
        using Some by (simp add: net_modify modify_client_def cn_FindSession_def map_find_modify)
      then obtain d where d: "cn_FindSession k (ch_net host ?t) = Some d" "no_longer_queue lib (?f c) d"
        using pay sessions_relD by blast
      have "peer_queue q (cs_kcp d) \<le> peer_queue q p"
        using d(2) assms(1,2) by (auto simp: no_longer_queue_def Touch_def split: if_splits)
      also have "\<dots> < peer_queue q (cs_kcp c)" using kcp_Receive_drains [OF assms(1)] r True by blast
      finally have "\<exists>s'. receive_messages env host now_ms k ?t = Some s' \<and> after_open host ?t s' \<and>
          clients_kept (ch_net host ?t) (ch_net host s')"
        using pay by (intro less.hyps) (simp_all add: d(1) Some)
      then obtain s' where s': "receive_messages env host now_ms k ?t = Some s'" "after_open host ?t s'"
        "clients_kept (ch_net host ?t) (ch_net host s')" by blast
      have "clients_kept (ch_net host s) (ch_net host ?t)"
        using clients.rel_trans [OF touched] pay by (simp add: net_modify)
      from clients.rel_trans [OF this s'(3)] after_open_trans [OF s'(2) kept] s'(1)
      show ?thesis using True by (subst receive_messages.simps) (simp add: Some r)
    qed
  qed
qed

text \<open>Opening a session for a datagram keeps the maps in agreement.\<close>

lemma open_session_inv:
  assumes "good s" "clients_inv (ch_net host s)" "length (cn_sessions (ch_net host s)) < 2 ^ 64 - 1"
    and "open_session env host conversation remote now_ms s = (r, s')"
  shows "good s' \<and> clients_inv (ch_net host s')"
proof (cases "FindSessionByTransport conversation remote (ch_net host s)")
  case (Some c)
  then show ?thesis using assms by (auto simp: open_session_def)
next
  case None
  obtain adm s1 where s1: "CanOpenSession host conversation remote s = (adm, s1)" by fastforce
  have kept1: "clients_kept (ch_net host s) (ch_net host s1)" "good s1"
    using admission [OF assms(1), of conversation remote] by (simp_all add: s1)
  have inv1: "clients_inv (ch_net host s1)" by (rule clients_inv_kept [OF assms(2) kept1(1)])
  have len: "length (cn_sessions (ch_net host s1)) < 2 ^ 64 - 1"
    using assms(3) sessions_rel_length [OF kept1(1)] by simp
  obtain code sid n io where cr: "CreateSession env conversation remote (Some 0) now_ms (ch_net host s1) (ch_io host s1) =
      (code, sid, n, io)" by (metis prod_cases4)
  let ?s2 = "ch_set_io host io (ch_set_net host n s1)"
  have inv2: "clients_inv (ch_net host ?s2)"
    using clients_inv_Create [OF inv1 len cr] by (simp add: net_set_io net_set_net)
  have good2: "good ?s2" using kept1(2) by (simp add: good_set_io good_set_net)
  obtain ok s3 where s3: "HandleSessionOpened host (the sid) ?s2 = (ok, s3)" by fastforce
  have "clients_kept (ch_net host ?s2) (ch_net host s3)" "good s3"
    using opened [OF good2, of "the sid"] by (simp_all add: s3)
  then have inv3: "clients_inv (ch_net host s3)" "good s3" using clients_inv_kept [OF inv2] by blast+
  have "clients_inv (ch_net host (ch_modify_net host (snd \<circ> RemoveSession (the sid)) s3))"
    using clients_inv_Remove [OF inv3(1)] by (simp add: net_modify)
  then show ?thesis
    using assms(4) None s1 cr s3 inv1 inv2 inv3 kept1(2) good2 good_modify [OF inv3(2)]
    by (auto simp: open_session_def Let_def split: if_splits)
qed

lemma clocks_read_inv:
  assumes "good s"
  shows "good (clocks_read env host s)" "clients_kept (ch_net host s) (ch_net host (clocks_read env host s))"
  using assms clients.rel_clock [of "ch_net host s" env]
  by (simp_all add: clocks_read_def net_set_io net_set_net good_set_io good_set_net)

text \<open>
  Every datagram is handled to the end. One that is too short for a conversation id is dropped; for all
  others the session is looked up or opened, and what follows opens no more sessions.
\<close>

lemma HandleIncomingDatagram_ends:
  assumes "ikcp_drains q (ce_kcp env)" "ce_kcp env = lib" "good s" "clients_inv (ch_net host s)"
    and "length (cn_sessions (ch_net host s)) < 2 ^ 64 - 1"
  shows "\<exists>s'. HandleIncomingDatagram env host remote datagram s = Some s' \<and>
    (s' = s \<or> after_open host (snd (open_session env host (the (snd (TryReadKcpConversation datagram (Some 0)))) remote
      (fst (cn_CurrentUnixTimeMilliseconds env (ch_io host s))) (clocks_read env host s))) s')"
proof (cases "fst (TryReadKcpConversation datagram (Some 0))")
  case False
  then show ?thesis by (simp add: HandleIncomingDatagram_def split_def)
next
  case True
  obtain conv where conv: "TryReadKcpConversation datagram (Some 0) = (True, conv)"
    using True by (cases "TryReadKcpConversation datagram (Some 0)") auto
  obtain now io where clock: "cn_CurrentUnixTimeMilliseconds env (ch_io host s) = (now, io)" by fastforce
  obtain tick n where tick: "CurrentKcpClockMilliseconds env (ch_net host s) = (tick, n)" by fastforce
  have s1: "clocks_read env host s = ch_set_io host io (ch_set_net host n s)"
    by (simp add: clocks_read_def clock tick)
  note c1 = clocks_read_inv [OF assms(3), of env]
  obtain r s2 where s2: "open_session env host (the conv) remote now (clocks_read env host s) = (r, s2)" by fastforce
  have "good s2"
    using open_session_inv [OF c1(1) clients_inv_kept [OF assms(4) c1(2)] _ s2] assms(5) sessions_rel_length [OF c1(2)] by simp
  let ?s3 = "\<lambda>k. ch_modify_net host (modify_client k (Touch now)) s2"
  have a3: "after_open host s2 (?s3 k)" for k
    by (intro after_modify after_refl clients.rel_modify same_client_Touch)
  have "\<exists>s'. HandleIncomingDatagram env host remote datagram s = Some s' \<and> after_open host s2 s'"
  proof (cases r)
    case None
    then show ?thesis using s2 by (simp add: HandleIncomingDatagram_def conv clock tick s1 after_refl)
  next
    case (Some ks)
    obtain k created where ks: "ks = (k, created)" by fastforce
    show ?thesis
    proof (cases "cn_FindSession k (ch_net host (?s3 k))")
      case None
      then show ?thesis using s2 a3 by (simp add: HandleIncomingDatagram_def conv clock tick s1 Some ks)
    next
      case c: (Some c)
      obtain code m where inp: "with_peer k (kcp_Input (ce_kcp env) datagram) c (ch_net host (?s3 k)) = (code, m)"
        by fastforce
      let ?s4 = "ch_set_net host m (?s3 k)"
      have "clients_kept (ch_net host (?s3 k)) m"
        using clients.rel_with_peer [OF c same_client_peer, of "kcp_Input (ce_kcp env) datagram"]
        by (simp add: inp kcp_ops_options)
      then have a4: "after_open host s2 ?s4" by (rule after_traffic [OF a3])
      let ?s5 = "ch_modify_net host (FlushPendingDatagrams env k \<circ> (snd \<circ> update_peer env k tick)) ?s4"
      have a5: "after_open host s2 ?s5"
        using after_modify [OF a4] clients.rel_update_Flush by simp
      have "good ?s5" using \<open>good s2\<close> by (simp add: good_modify good_set_net)
      from receive_messages_ends [OF assms(1,2) this]
      obtain s' where s': "receive_messages env host now k ?s5 = Some s'" "after_open host ?s5 s'" by blast
      from after_open_trans [OF s'(2) a5] s'(1) show ?thesis
        using after_remove [OF a4, of k] a4 Some c ks s2
        by (simp add: HandleIncomingDatagram_def conv clock tick s1 inp Let_def)
    qed
  qed
  then show ?thesis using s2 by (auto simp: conv clock)
qed

text \<open>
  What becomes of the session that a datagram has found or opened: when the peer does not take the
  datagram, a session that is new is removed again; otherwise the sessions stay.
\<close>

lemma HandleIncomingDatagram_found:
  assumes "ikcp_drains q (ce_kcp env)" "ce_kcp env = lib" "good u"
    and conv: "TryReadKcpConversation datagram (Some 0) = (True, conv)"
    and opn: "open_session env host (the conv) remote (fst (cn_CurrentUnixTimeMilliseconds env (ch_io host s)))
      (clocks_read env host s) = (Some (k, created), u)"
    and c: "cn_FindSession k (ch_net host u) = Some c"
  shows "\<exists>t. HandleIncomingDatagram env host remote datagram s = Some t \<and> after_open host u t \<and>
    (if fst (kcp_Input (ce_kcp env) datagram (cs_kcp c)) = Kcp_None then clients_kept (ch_net host u) (ch_net host t)
     else \<exists>n. clients_kept (ch_net host u) n \<and> ch_net host t = (if created then snd (RemoveSession k n) else n))"
proof -
  obtain now io where clock: "cn_CurrentUnixTimeMilliseconds env (ch_io host s) = (now, io)" by fastforce
  obtain tick n where tick: "CurrentKcpClockMilliseconds env (ch_net host s) = (tick, n)" by fastforce
  have opn': "open_session env host (the conv) remote now (ch_set_io host io (ch_set_net host n s)) = (Some (k, created), u)"
    using opn by (simp add: clocks_read_def clock tick)
  let ?f = "modify_client k (Touch now)"
  let ?s3 = "ch_modify_net host ?f u"
  have k3: "clients_kept (ch_net host u) (?f (ch_net host u))" by (rule clients.rel_modify) (rule same_client_Touch)
  have a3: "after_open host u ?s3" by (rule after_modify [where f = ?f, OF after_refl k3])
  have c3: "cn_FindSession k (ch_net host ?s3) = Some (Touch now c)"
    using c by (simp add: net_modify modify_client_def cn_FindSession_def map_find_modify)
  obtain code m where inp: "with_peer k (kcp_Input (ce_kcp env) datagram) (Touch now c) (ch_net host ?s3) = (code, m)" by fastforce
  have code: "code = fst (kcp_Input (ce_kcp env) datagram (cs_kcp c))"
    using inp by (auto simp: with_peer_def Touch_def split: prod.splits if_splits)
  let ?s4 = "ch_set_net host m ?s3"
  have k4: "clients_kept (ch_net host ?s3) m"
    using clients.rel_with_peer [OF c3 same_client_peer, of "kcp_Input (ce_kcp env) datagram"]
    by (simp add: inp kcp_ops_options)
  have a4: "after_open host u ?s4" by (rule after_traffic [OF a3 k4])
  have km: "clients_kept (ch_net host u) m" using clients.rel_trans [OF k3] k4 by (simp add: net_modify)
  show ?thesis
  proof (cases "code = Kcp_None")
    case False
    let ?t = "if created then ch_modify_net host (snd \<circ> RemoveSession k) ?s4 else ?s4"
    have "HandleIncomingDatagram env host remote datagram s = Some ?t"
      using opn' c3 inp False by (simp add: HandleIncomingDatagram_def conv clock tick Let_def)
    moreover have "after_open host u ?t" using after_remove [OF a4, of k] a4 by simp
    moreover have "ch_net host ?t = (if created then snd (RemoveSession k m) else m)" by (simp add: net_modify net_set_net)
    ultimately show ?thesis using False km code by auto
  next
    case True
    let ?g = "FlushPendingDatagrams env k \<circ> (snd \<circ> update_peer env k tick)"
    let ?s5 = "ch_modify_net host ?g ?s4"
    have k5: "clients_kept (ch_net host ?s4) (?g (ch_net host ?s4))" using clients.rel_update_Flush by simp
    have a5: "after_open host u ?s5" by (rule after_modify [where f = ?g, OF a4 k5])
    have "good ?s5" using assms(3) by (simp add: good_modify good_set_net)
    from receive_messages_ends [OF assms(1,2) this, of now k]
    obtain t where t: "receive_messages env host now k ?s5 = Some t" "after_open host ?s5 t"
      "clients_kept (ch_net host ?s5) (ch_net host t)" by blast
    have "clients_kept (ch_net host u) (ch_net host t)"
      using clients.rel_trans [OF clients.rel_trans [OF km]] k5 t(3) by (simp add: net_modify net_set_net)
    moreover have "HandleIncomingDatagram env host remote datagram s = Some t"
      using opn' c3 inp True t(1) by (simp add: HandleIncomingDatagram_def conv clock tick Let_def)
    ultimately show ?thesis using True code after_open_trans [OF t(2) a5] by auto
  qed
qed

end

end
