(* ===== verification/GateNode.thy ===== *)
theory GateNode
  imports NodePackets ClientNetwork
begin

text \<open>
  \<^verbatim>\<open>node/GateNode.h\<close>, \<^verbatim>\<open>.cpp\<close>: the gate. It registers with the coordinator and sends it heartbeats,
  answers the games that register with it, and opens for clients when the coordinator says that the
  cluster is ready. A login reserves a KCP conversation for an account; the first datagram of that
  conversation opens a session; the client then selects an avatar, which a game creates. From then on the
  gate relays calls between the client and the games. Logging is left out. The authentication service,
  the JSON library and the random choice of a game are parameters.
\<close>

unbundle bit_operations_syntax

section \<open>Constants and texts\<close>

definition kGateBuildVersion :: string where "kGateBuildVersion = ''dev''"
definition kGmRemoteNodeId :: string where "kGmRemoteNodeId = ''GM''"
definition kResponseFlags :: u16 where "kResponseFlags = packet_flag_value Flag_Response"
definition kErrorResponseFlags :: u16 where "kErrorResponseFlags = kResponseFlags OR packet_flag_value Flag_Error"
definition kConversationReservationLifetimeMs :: u64 where "kConversationReservationLifetimeMs = 30000"

definition BuildEndpointText :: "EndpointConfig \<Rightarrow> string" where
  "BuildEndpointText endpoint = ec_host endpoint @ '':'' @ to_string (unat (ec_port endpoint))"

definition NormalizeConnectorHost :: "string \<Rightarrow> string" where
  "NormalizeConnectorHost host =
     (if host = ''0.0.0.0'' then ''127.0.0.1''
      else if host = ''::'' \<or> host = ''[::]'' then ''[::1]''
      else host)"

definition BuildConnectorTcpEndpoint :: "EndpointConfig \<Rightarrow> string" where
  "BuildConnectorTcpEndpoint endpoint =
     ''tcp://'' @ NormalizeConnectorHost (ec_host endpoint) @ '':'' @ to_string (unat (ec_port endpoint))"

definition kIpv4MappedPrefix :: string where "kIpv4MappedPrefix = ''::ffff:''"

definition NormalizeClientAddress :: "string \<Rightarrow> string" where
  "NormalizeClientAddress host =
     (let normalized = (if length host \<ge> 2 \<and> hd host = CHR ''['' \<and> last host = CHR '']''
          then take (length host - 2) (drop 1 host) else host) in
      if starts_with normalized kIpv4MappedPrefix then drop (length kIpv4MappedPrefix) normalized else normalized)"

definition IsWildcardBindHost :: "string \<Rightarrow> bool" where
  "IsWildcardBindHost host \<longleftrightarrow> host = ''0.0.0.0'' \<or> host = ''::'' \<or> host = ''[::]'' \<or> host = ''localhost''"

definition ToRoutingId :: "string \<Rightarrow> RoutingID" where
  "ToRoutingId text = bytes_of_string text"

definition ToNetEndpoint :: "EndpointConfig \<Rightarrow> Endpoint" where
  "ToNetEndpoint endpoint = \<lparr>ep_host = ec_host endpoint, ep_port = ec_port endpoint\<rparr>"

text \<open>\<^verbatim>\<open>std::to_string\<close> of a signed value.\<close>

definition to_string_signed :: "i32 \<Rightarrow> string" where
  "to_string_signed value =
     (if sint value < 0 then ''-'' @ to_string (nat (- sint value)) else to_string (nat (sint value)))"

section \<open>JSON values\<close>

text \<open>The values of the JSON library, as far as the source tells them apart.\<close>

datatype json =
    Json_null | Json_bool bool | Json_unsigned u64 | Json_number | Json_string string
  | Json_array "json list" | Json_object "(string \<times> json) list"

definition json_is_object :: "json \<Rightarrow> bool" where
  "json_is_object value \<longleftrightarrow> (case value of Json_object _ \<Rightarrow> True | _ \<Rightarrow> False)"

text \<open>\<^verbatim>\<open>find\<close>, which finds nothing in a value that is not an object.\<close>

definition json_find :: "json \<Rightarrow> string \<Rightarrow> json option" where
  "json_find value field_name = (case value of Json_object members \<Rightarrow> map_of members field_name | _ \<Rightarrow> None)"

definition field_error :: "string \<Rightarrow> string \<Rightarrow> string" where
  "field_error field_name must = ''JSON field '' @ [CHR 0x27] @ field_name @ [CHR 0x27] @ must"

text \<open>The readers assign the value before they check it.\<close>

definition TryReadRequiredJsonString ::
    "json \<Rightarrow> string \<Rightarrow> string ptr \<Rightarrow> string ptr \<Rightarrow> bool \<times> string ptr \<times> string ptr" where
  "TryReadRequiredJsonString object field_name output error_message =
     (let fail = (\<lambda>output text. (False, output, map_option (\<lambda>_. text) error_message)) in
      if output = None then fail output ''JSON output string must not be null.''
      else case json_find object field_name of
        Some (Json_string value) \<Rightarrow>
          if value = [] then fail (Some value) (field_error field_name '' must not be empty.'')
          else (True, Some value, error_message)
      | _ \<Rightarrow> fail output (field_error field_name '' must be a string.''))"

definition TryReadRequiredJsonUInt64 ::
    "json \<Rightarrow> string \<Rightarrow> u64 ptr \<Rightarrow> string ptr \<Rightarrow> bool \<times> u64 ptr \<times> string ptr" where
  "TryReadRequiredJsonUInt64 object field_name output error_message =
     (let fail = (\<lambda>output text. (False, output, map_option (\<lambda>_. text) error_message)) in
      if output = None then fail output ''JSON output integer must not be null.''
      else case json_find object field_name of
        Some (Json_unsigned value) \<Rightarrow>
          if value = 0 then fail (Some value) (field_error field_name '' must be greater than zero.'')
          else (True, Some value, error_message)
      | _ \<Rightarrow> fail output (field_error field_name '' must be an unsigned integer.''))"

definition TryReadRequiredJsonBoolean ::
    "json \<Rightarrow> string \<Rightarrow> bool ptr \<Rightarrow> string ptr \<Rightarrow> bool \<times> bool ptr \<times> string ptr" where
  "TryReadRequiredJsonBoolean object field_name output error_message =
     (let fail = (\<lambda>output text. (False, output, map_option (\<lambda>_. text) error_message)) in
      if output = None then fail output ''JSON output boolean must not be null.''
      else case json_find object field_name of
        Some (Json_bool value) \<Rightarrow> (True, Some value, error_message)
      | _ \<Rightarrow> fail output (field_error field_name '' must be a boolean.''))"

section \<open>State\<close>

text \<open>
  What the gate reads from outside: the node's environment, the environment of the client network, the
  results of the calls of the authentication service, and the JSON library: its parser gives a value or an
  error text, its printer a text. The printer fails only for strings that are not UTF-8; the strings
  printed here come out of the parser or are node ids.
\<close>

record gate_env =
  ge_node :: node_env
  ge_client :: client_env
  ge_auth :: "nat \<Rightarrow> NodeErrorCode \<times> string"
  ge_parse_json :: "string \<Rightarrow> string + json"
  ge_dump_json :: "json \<Rightarrow> string"

text \<open>The client network reads the same system clock as the node.\<close>

definition client_env_of :: "gate_env \<Rightarrow> client_env" where
  "client_env_of env = (ge_client env)\<lparr>ce_utc_now := env_utc_now (ge_node env)\<rparr>"

record ClientConversationReservation =
  ccr_account :: string
  ccr_remote_address :: string
  ccr_issued_at_unix_ms :: u64
  ccr_expires_at_unix_ms :: u64

record ClientSessionRecord =
  csr_session_id :: u64
  csr_conversation :: u32
  csr_account_id :: string
  csr_avatar_id :: string
  csr_game_node_id :: string
  csr_gate_node_id :: string
  csr_pending_select_avatar_seq :: u32
  csr_authenticated_at_unix_ms :: u64
  csr_last_active_unix_ms :: u64
  csr_closed :: bool

record GateAuthLoginRequest =
  glr_account :: string
  glr_password :: string
  glr_remote_address :: string

record GateAuthLoginResult =
  gla_success :: bool
  gla_status_code :: u16
  gla_error :: string
  gla_gate_node_id :: string
  gla_kcp_host :: string
  gla_kcp_port :: u16
  gla_conversation :: u32
  gla_issued_at_unix_ms :: u64
  gla_expires_at_unix_ms :: u64

definition default_GateAuthLoginResult :: GateAuthLoginResult where
  "default_GateAuthLoginResult = \<lparr>gla_success = False, gla_status_code = 200, gla_error = [],
     gla_gate_node_id = [], gla_kcp_host = [], gla_kcp_port = 0, gla_conversation = 0,
     gla_issued_at_unix_ms = 0, gla_expires_at_unix_ms = 0\<rparr>"

text \<open>The authentication service is either there or not; \<open>gt_auth_calls\<close> counts the calls of it.\<close>

record GateNode = ServerNode +
  gt_client_network :: "ClientNetwork ptr"
  gt_auth_http_service :: bool
  gt_auth_calls :: nat
  gt_reservations :: "(u32, ClientConversationReservation) std_map"
  gt_records :: "(u64, ClientSessionRecord) std_map"
  gt_session_ids_by_account :: "(string, u64) std_map"
  gt_session_ids_by_avatar :: "(string, u64) std_map"
  gt_started_at_unix_ms :: u64
  gt_cluster_ready_epoch :: u64
  gt_last_cluster_ready_server_now_unix_ms :: u64
  gt_next_client_conversation :: u32
  gt_cluster_ready :: bool

definition remote_session :: "string \<Rightarrow> 'a ServerNode_scheme \<Rightarrow> InnerNetworkSession ptr" where
  "remote_session remote_node_id s = FindByNodeId remote_node_id (sn_sessions s)"

definition gm_session :: "'a ServerNode_scheme \<Rightarrow> InnerNetworkSession ptr" where
  "gm_session s = remote_session kGmRemoteNodeId s"

text \<open>Assignment through a pointer to a session, and through the pointer of \<^verbatim>\<open>gm_session\<close>.\<close>

definition modify_remote ::
    "string \<Rightarrow> (InnerNetworkSession \<Rightarrow> InnerNetworkSession) \<Rightarrow> 'a ServerNode_scheme \<Rightarrow> 'a ServerNode_scheme" where
  "modify_remote remote_node_id f s = s\<lparr>sn_sessions := modify_session remote_node_id f (sn_sessions s)\<rparr>"

definition modify_gm :: "(InnerNetworkSession \<Rightarrow> InnerNetworkSession) \<Rightarrow> 'a ServerNode_scheme \<Rightarrow> 'a ServerNode_scheme" where
  "modify_gm f s = modify_remote kGmRemoteNodeId f s"

definition gm_protocol_error :: "string \<Rightarrow> 'a ServerNode_scheme \<Rightarrow> 'a ServerNode_scheme" where
  "gm_protocol_error text s = modify_gm (\<lambda>session. session\<lparr>ins_last_protocol_error := text\<rparr>) s"

text \<open>The game has no session, or one over which nothing can be sent.\<close>

definition game_unavailable :: "InnerNetworkSession ptr \<Rightarrow> bool" where
  "game_unavailable session \<longleftrightarrow> (case session of
     None \<Rightarrow> True
   | Some session \<Rightarrow> ins_process_type session \<noteq> Game \<or> ins_connection_state session \<noteq> Zmq_Connected \<or>
       \<not> ins_registered session \<or> \<not> ins_inner_network_ready session \<or> ins_routing_id session = [])"

definition gate_config :: "GateNode \<Rightarrow> (EndpointConfig \<times> EndpointConfig \<times> EndpointConfig) ptr" where
  "gate_config s = (case sn_node_config s of
     Some (GateNodeConfig inner_endpoint auth_endpoint client_endpoint) \<Rightarrow>
       Some (inner_endpoint, auth_endpoint, client_endpoint)
   | _ \<Rightarrow> None)"

definition client_session_record :: "u64 \<Rightarrow> GateNode \<Rightarrow> ClientSessionRecord ptr" where
  "client_session_record session_id s = map_find (gt_records s) session_id"

definition modify_record :: "u64 \<Rightarrow> (ClientSessionRecord \<Rightarrow> ClientSessionRecord) \<Rightarrow> GateNode \<Rightarrow> GateNode" where
  "modify_record session_id f s = s\<lparr>gt_records := map_modify session_id f (gt_records s)\<rparr>"

section \<open>The client network of the gate\<close>

definition gate_io :: "GateNode \<Rightarrow> client_io" where
  "gate_io s = \<lparr>io_timers = (case sn_event_loop s of Some timers \<Rightarrow> timers | None \<Rightarrow> new_TimerManager),
     io_clock_reads = sn_clock_reads s\<rparr>"

definition gate_set_io :: "client_io \<Rightarrow> GateNode \<Rightarrow> GateNode" where
  "gate_set_io io s = s\<lparr>sn_event_loop := map_option (\<lambda>_. io_timers io) (sn_event_loop s),
     sn_clock_reads := io_clock_reads io\<rparr>"

text \<open>A call of an operation of the client network.\<close>

definition client_call ::
    "(ClientNetwork \<Rightarrow> client_io \<Rightarrow> 'r \<times> ClientNetwork \<times> client_io) \<Rightarrow> ClientNetwork \<Rightarrow> GateNode \<Rightarrow> 'r \<times> GateNode" where
  "client_call f net s =
     (case f net (gate_io s) of (result, net, io) \<Rightarrow> (result, gate_set_io io (s\<lparr>gt_client_network := Some net\<rparr>)))"

definition client_error :: "GateNode \<Rightarrow> string" where
  "client_error s = (case gt_client_network s of None \<Rightarrow> [] | Some net \<Rightarrow> cn_last_error_message net)"

definition auth_call :: "gate_env \<Rightarrow> GateNode \<Rightarrow> (NodeErrorCode \<times> string) \<times> GateNode" where
  "auth_call env s = (ge_auth env (gt_auth_calls s), s\<lparr>gt_auth_calls := Suc (gt_auth_calls s)\<rparr>)"

section \<open>The session with the coordinator\<close>

definition gate_CancelHeartbeatTimer :: "GateNode \<Rightarrow> GateNode" where
  "gate_CancelHeartbeatTimer s =
     (case gm_session s of
        None \<Rightarrow> s
      | Some session \<Rightarrow>
          if ins_heartbeat_timer_id session > 0
          then modify_gm (\<lambda>session. session\<lparr>ins_heartbeat_timer_id := 0\<rparr>)
            (s\<lparr>sn_event_loop := map_option (\<lambda>timers. snd (Cancel (ins_heartbeat_timer_id session) timers)) (sn_event_loop s)\<rparr>)
          else s)"

definition gate_StartOrResetHeartbeatTimer :: "u32 \<Rightarrow> GateNode \<Rightarrow> GateNode" where
  "gate_StartOrResetHeartbeatTimer interval_ms s =
     (if gm_session s = None then s
      else let s = gate_CancelHeartbeatTimer s in
        case sn_event_loop s of
          None \<Rightarrow> s
        | Some timers \<Rightarrow>
            case CreateRepeating (uint interval_ms * 1000000) (Some ()) timers of (timer_result, timers) \<Rightarrow>
              let s = s\<lparr>sn_event_loop := Some timers\<rparr> in
              if \<not> IsTimerID timer_result
              then gm_protocol_error (''Failed to create GM heartbeat timer: '' @
                TimerErrorMessage (TimerErrorFromCreateResult timer_result)) s
              else modify_gm (\<lambda>session. session\<lparr>ins_heartbeat_timer_id := timer_result\<rparr>) s)"

definition gate_ConsumeNextInnerSequence :: "GateNode \<Rightarrow> u32 \<times> GateNode" where
  "gate_ConsumeNextInnerSequence s =
     (case gm_session s of
        None \<Rightarrow> (1, s)
      | Some session \<Rightarrow>
          let seq = (if ins_next_seq session = kPacketSeqNone then 1 else ins_next_seq session);
              next_seq = (if seq + 1 = kPacketSeqNone then 1 else seq + 1) in
          (seq, modify_gm (\<lambda>session. session\<lparr>ins_next_seq := next_seq\<rparr>) s))"

definition gate_ResetGmSessionState :: "GateNode \<Rightarrow> GateNode" where
  "gate_ResetGmSessionState s =
     (if gm_session s = None then s
      else modify_gm (\<lambda>session. session
        \<lparr>ins_registered := False, ins_register_in_flight := False, ins_register_seq := 0, ins_heartbeat_seq := 0,
         ins_heartbeat_interval_ms := 0, ins_heartbeat_timeout_ms := 0, ins_last_server_now_unix_ms := 0,
         ins_last_heartbeat_at_unix_ms := 0\<rparr>) (gate_CancelHeartbeatTimer s))"

text \<open>Encoding a packet and sending it through the connector to the coordinator, with the error text.\<close>

definition send_to_gm ::
    "gate_env \<Rightarrow> u32 \<Rightarrow> u32 \<Rightarrow> byte list \<Rightarrow> InnerNetwork \<Rightarrow> GateNode \<Rightarrow> string option \<times> GateNode" where
  "send_to_gm env msg_id seq payload net s =
     (case encode_packet msg_id seq 0 payload of (packet_result, packet) \<Rightarrow>
        if packet_result \<noteq> Pkt_None then (Some (PacketCodecErrorMessage packet_result), s)
        else case net_SendToConnector (env_zmq (ge_node env)) kGmRemoteNodeId packet net of (send_result, net) \<Rightarrow>
          let s = s\<lparr>sn_inner_network := Some net\<rparr> in
          if send_result \<noteq> Node_None then (Some (last_error_message net), s) else (None, s))"

definition gate_register_request :: "EndpointConfig \<Rightarrow> GateNode \<Rightarrow> RegisterRequest" where
  "gate_register_request inner_endpoint s =
     \<lparr>rr_process_type = inner_process_type_value Process_Gate, rr_process_flags = 0, rr_node_id = sn_node_id s,
      rr_pid = sn_pid s, rr_started_at_unix_ms = gt_started_at_unix_ms s,
      rr_inner_network_endpoint = ToNetEndpoint inner_endpoint, rr_build_version = kGateBuildVersion,
      rr_capability_tags = [], rr_load = zero_LoadSnapshot\<rparr>"

definition gate_SendRegisterRequest :: "gate_env \<Rightarrow> GateNode \<Rightarrow> bool \<times> GateNode" where
  "gate_SendRegisterRequest env s =
     (case (gm_session s, sn_inner_network s) of
        (Some session, Some net) \<Rightarrow>
          if ins_connection_state session \<noteq> Zmq_Connected \<or> ins_register_in_flight session then (False, s)
          else (case gate_config s of
            None \<Rightarrow> (False, gm_protocol_error ''Gate node configuration is unavailable.'' s)
          | Some (inner_endpoint, _, _) \<Rightarrow>
            let request = gate_register_request inner_endpoint s in
            case GetRegisterRequestWireSize request (Some 0) of (size_result, payload_size) \<Rightarrow>
            if size_result \<noteq> Reg_None then (False, gm_protocol_error (RegisterCodecErrorMessage size_result) s)
            else case EncodeRegisterRequest request (replicate (the payload_size) 0) of (encode_result, payload) \<Rightarrow>
              if encode_result \<noteq> Reg_None then (False, gm_protocol_error (RegisterCodecErrorMessage encode_result) s)
              else case gate_ConsumeNextInnerSequence s of (seq, s) \<Rightarrow>
                case send_to_gm env kInnerRegisterMsgId seq payload net s of
                  (Some text, s) \<Rightarrow> (False, gm_protocol_error text s)
                | (None, s) \<Rightarrow> (True, modify_gm (\<lambda>session. session
                    \<lparr>ins_register_in_flight := True, ins_register_seq := seq, ins_last_protocol_error := []\<rparr>) s))
      | _ \<Rightarrow> (False, s))"

definition gate_SendHeartbeatRequest :: "gate_env \<Rightarrow> GateNode \<Rightarrow> bool \<times> GateNode" where
  "gate_SendHeartbeatRequest env s =
     (case (gm_session s, sn_inner_network s) of
        (Some session, Some net) \<Rightarrow>
          if \<not> ins_registered session \<or> ins_connection_state session \<noteq> Zmq_Connected \<or> ins_heartbeat_seq session \<noteq> 0
          then (False, s)
          else case CurrentUnixTimeMilliseconds (ge_node env) s of (sent_at_unix_ms, s) \<Rightarrow>
            case EncodeHeartbeatRequest \<lparr>hr_sent_at_unix_ms = sent_at_unix_ms, hr_status_flags = 0, hr_load = zero_LoadSnapshot\<rparr>
              (replicate kHeartbeatRequestSize 0) of (encode_result, payload) \<Rightarrow>
            if encode_result \<noteq> Hb_None then (False, gm_protocol_error (HeartbeatCodecErrorMessage encode_result) s)
            else case gate_ConsumeNextInnerSequence s of (seq, s) \<Rightarrow>
              (case send_to_gm env kInnerHeartbeatMsgId seq payload net s of
                 (Some text, s) \<Rightarrow> (False, gm_protocol_error text s)
               | (None, s) \<Rightarrow> (True, modify_gm (\<lambda>session. session
                   \<lparr>ins_heartbeat_seq := seq, ins_last_protocol_error := []\<rparr>) s))
      | _ \<Rightarrow> (False, s))"

definition gate_HandleGmConnectionStateChanged :: "gate_env \<Rightarrow> ZmqConnectionState \<Rightarrow> GateNode \<Rightarrow> GateNode" where
  "gate_HandleGmConnectionStateChanged env state s =
     (case gm_session s of
        None \<Rightarrow> s
      | Some session \<Rightarrow>
          let s = modify_gm (\<lambda>session. session\<lparr>ins_connection_state := state\<rparr>) s in
          if state \<noteq> Zmq_Connected then gate_ResetGmSessionState s
          else if \<not> ins_registered session \<and> \<not> ins_register_in_flight session
          then snd (gate_SendRegisterRequest env s) else s)"

definition gate_HandleConnectorStateChanged :: "gate_env \<Rightarrow> string \<Rightarrow> ZmqConnectionState \<Rightarrow> GateNode \<Rightarrow> GateNode" where
  "gate_HandleConnectorStateChanged env remote_node_id state s =
     (if remote_node_id \<noteq> kGmRemoteNodeId then s else gate_HandleGmConnectionStateChanged env state s)"

text \<open>
  The notification that the cluster is ready starts the client network and the authentication service.
  When the service does not start, the client network is stopped again.
\<close>

definition run_clients :: "gate_env \<Rightarrow> GateNode \<Rightarrow> bool \<times> GateNode" where
  "run_clients env s =
     (case gt_client_network s of
        None \<Rightarrow> (True, s)
      | Some net \<Rightarrow>
          case client_call (cn_Run (client_env_of env)) net s of (client_result, s) \<Rightarrow>
            if client_result \<noteq> Node_None then (False, gm_protocol_error (client_error s) s) else (True, s))"

definition run_auth :: "gate_env \<Rightarrow> GateNode \<Rightarrow> bool \<times> GateNode" where
  "run_auth env s =
     (if \<not> gt_auth_http_service s then (True, s)
      else case auth_call env s of ((auth_result, error_message), s) \<Rightarrow>
        if auth_result \<noteq> Node_None
        then let s = gm_protocol_error error_message s in
          (False, case gt_client_network s of
             None \<Rightarrow> s
           | Some net \<Rightarrow> snd (client_call (cn_Stop (client_env_of env)) net s))
        else (True, s))"

definition gate_HandleClusterReadyNotify :: "gate_env \<Rightarrow> PacketView \<Rightarrow> GateNode \<Rightarrow> GateNode" where
  "gate_HandleClusterReadyNotify env packet s =
     (case gm_session s of
        None \<Rightarrow> s
      | Some session \<Rightarrow>
          if ph_flags (pv_header packet) \<noteq> 0 \<or> ph_seq (pv_header packet) \<noteq> kPacketSeqNone
          then gm_protocol_error ''GM clusterReady notify envelope is invalid.'' s
          else if \<not> ins_registered session
          then gm_protocol_error ''GM clusterReady notify arrived before Gate registration completed.'' s
          else case DecodeClusterReadyNotify (pv_payload packet) (Some zero_ClusterReadyNotify) of (decode_result, notify) \<Rightarrow>
            let notify = the notify in
            if decode_result \<noteq> Icl_None then gm_protocol_error (InnerClusterCodecErrorMessage decode_result) s
            else if cr_ready_epoch notify < gt_cluster_ready_epoch s then s
            else if \<not> cr_cluster_ready notify then s
            else case run_clients env s of (clients_run, s) \<Rightarrow>
              if \<not> clients_run then s
              else case run_auth env s of (auth_run, s) \<Rightarrow>
                if \<not> auth_run then s
                else gm_protocol_error [] (s\<lparr>gt_cluster_ready_epoch := cr_ready_epoch notify, gt_cluster_ready := True,
                  gt_last_cluster_ready_server_now_unix_ms := cr_server_now_unix_ms notify\<rparr>))"

definition gate_HandleRegisterResponse :: "gate_env \<Rightarrow> PacketView \<Rightarrow> GateNode \<Rightarrow> GateNode" where
  "gate_HandleRegisterResponse env packet s =
     (case gm_session s of
        None \<Rightarrow> s
      | Some session \<Rightarrow>
          if ins_register_seq session = 0 \<or> ph_seq (pv_header packet) \<noteq> ins_register_seq session then s
          else let s = modify_gm (\<lambda>session. session\<lparr>ins_register_in_flight := False, ins_register_seq := 0\<rparr>) s in
          if ph_flags (pv_header packet) = kErrorResponseFlags
          then (case DecodeRegisterErrorResponse (pv_payload packet) (Some zero_RegisterErrorResponse) of
              (decode_result, response) \<Rightarrow>
                if decode_result \<noteq> Reg_None then gm_protocol_error (RegisterCodecErrorMessage decode_result) s
                else modify_gm (\<lambda>session. session\<lparr>ins_registered := False, ins_last_protocol_error :=
                  ''GM rejected register request with error code '' @ to_string_signed (re_error_code (the response)) @ ''.''\<rparr>) s)
          else case DecodeRegisterSuccessResponse (pv_payload packet) (Some zero_RegisterSuccessResponse) of
              (decode_result, response) \<Rightarrow>
                let response = the response in
                if decode_result \<noteq> Reg_None
                then modify_gm (\<lambda>session. session\<lparr>ins_registered := False,
                  ins_last_protocol_error := RegisterCodecErrorMessage decode_result\<rparr>) s
                else case CurrentUnixTimeMilliseconds (ge_node env) s of (now_unix_ms, s) \<Rightarrow>
                  gate_StartOrResetHeartbeatTimer (rs_heartbeat_interval_ms response) (modify_gm (\<lambda>session. session
                    \<lparr>ins_registered := True, ins_heartbeat_interval_ms := rs_heartbeat_interval_ms response,
                     ins_heartbeat_timeout_ms := rs_heartbeat_timeout_ms response,
                     ins_last_server_now_unix_ms := rs_server_now_unix_ms response,
                     ins_last_heartbeat_at_unix_ms := now_unix_ms, ins_last_protocol_error := [],
                     ins_heartbeat_seq := 0\<rparr>) s))"

definition gate_HandleHeartbeatResponse :: "gate_env \<Rightarrow> PacketView \<Rightarrow> GateNode \<Rightarrow> GateNode" where
  "gate_HandleHeartbeatResponse env packet s =
     (case gm_session s of
        None \<Rightarrow> s
      | Some session \<Rightarrow>
          if ins_heartbeat_seq session = 0 \<or> ph_seq (pv_header packet) \<noteq> ins_heartbeat_seq session then s
          else let s = modify_gm (\<lambda>session. session\<lparr>ins_heartbeat_seq := 0\<rparr>) s in
            case DecodeHeartbeatSuccessResponse (pv_payload packet) (Some zero_HeartbeatSuccessResponse) of
              (decode_result, response) \<Rightarrow>
                let response = the response in
                if decode_result \<noteq> Hb_None then gm_protocol_error (HeartbeatCodecErrorMessage decode_result) s
                else let heartbeat_config_changed =
                      (ins_heartbeat_interval_ms session \<noteq> hs_heartbeat_interval_ms response \<or>
                       ins_heartbeat_timeout_ms session \<noteq> hs_heartbeat_timeout_ms response \<or>
                       ins_heartbeat_timer_id session = 0) in
                  case CurrentUnixTimeMilliseconds (ge_node env) s of (now_unix_ms, s) \<Rightarrow>
                    let s = modify_gm (\<lambda>session. session
                        \<lparr>ins_heartbeat_interval_ms := hs_heartbeat_interval_ms response,
                         ins_heartbeat_timeout_ms := hs_heartbeat_timeout_ms response,
                         ins_last_server_now_unix_ms := hs_server_now_unix_ms response,
                         ins_last_heartbeat_at_unix_ms := now_unix_ms, ins_last_protocol_error := []\<rparr>) s in
                    if heartbeat_config_changed
                    then gate_StartOrResetHeartbeatTimer (hs_heartbeat_interval_ms response) s else s)"

definition gate_HandleGmMessage :: "gate_env \<Rightarrow> byte list \<Rightarrow> GateNode \<Rightarrow> GateNode" where
  "gate_HandleGmMessage env payload s =
     (if gm_session s = None then s
      else case DecodePacket payload (Some empty_PacketView) of (packet_result, packet) \<Rightarrow>
        let packet = the packet; header = pv_header packet in
        if packet_result \<noteq> Pkt_None then gm_protocol_error (PacketCodecErrorMessage packet_result) s
        else if ph_msg_id header = kInnerClusterReadyNotifyMsgId then gate_HandleClusterReadyNotify env packet s
        else if ph_seq header = kPacketSeqNone then gm_protocol_error ''GM response envelope is invalid.'' s
        else if ph_msg_id header = kInnerRegisterMsgId
        then (if ph_flags header \<noteq> kResponseFlags \<and> ph_flags header \<noteq> kErrorResponseFlags
              then gm_protocol_error ''GM response envelope is invalid.'' s
              else gate_HandleRegisterResponse env packet s)
        else if ph_msg_id header = kInnerHeartbeatMsgId
        then (if ph_flags header \<noteq> kResponseFlags
              then gm_protocol_error ''GM heartbeat response envelope is invalid.'' s
              else gate_HandleHeartbeatResponse env packet s)
        else if ph_flags header \<noteq> kResponseFlags \<and> ph_flags header \<noteq> kErrorResponseFlags
        then gm_protocol_error ''GM response envelope is invalid.'' s
        else s)"

definition gate_HandleConnectorMessage :: "gate_env \<Rightarrow> string \<Rightarrow> byte list \<Rightarrow> GateNode \<Rightarrow> GateNode" where
  "gate_HandleConnectorMessage env remote_node_id payload s =
     (if remote_node_id \<noteq> kGmRemoteNodeId then s else gate_HandleGmMessage env payload s)"

section \<open>Conversations\<close>

definition reservation_expired :: "u64 \<Rightarrow> ClientConversationReservation \<Rightarrow> bool" where
  "reservation_expired now_unix_ms reservation \<longleftrightarrow>
     ccr_expires_at_unix_ms reservation \<noteq> 0 \<and> ccr_expires_at_unix_ms reservation \<le> now_unix_ms"

definition PruneExpiredClientConversationReservations :: "u64 \<Rightarrow> GateNode \<Rightarrow> GateNode" where
  "PruneExpiredClientConversationReservations now_unix_ms s =
     s\<lparr>gt_reservations := filter (\<lambda>(_, reservation). \<not> reservation_expired now_unix_ms reservation) (gt_reservations s)\<rparr>"

text \<open>The condition of the loop that looks for a conversation, and its step.\<close>

definition conversation_in_use :: "GateNode \<Rightarrow> u32 \<Rightarrow> bool" where
  "conversation_in_use s candidate \<longleftrightarrow> candidate = 0 \<or> map_find (gt_reservations s) candidate \<noteq> None \<or>
     (case gt_client_network s of None \<Rightarrow> False | Some net \<Rightarrow> FindSessionByConversation candidate net \<noteq> None)"

definition next_conversation_after :: "u32 \<Rightarrow> u32" where
  "next_conversation_after candidate = (let candidate = candidate + 1 in if candidate = 0 then 1 else candidate)"

text \<open>
  The loop: it returns zero when it has come back to where it started. It visits each of the conversations
  once, so that as many steps as there are conversations are enough.
\<close>

primrec search_conversation :: "nat \<Rightarrow> GateNode \<Rightarrow> u32 \<Rightarrow> u32 \<Rightarrow> u32" where
  "search_conversation 0 s start candidate = 0"
| "search_conversation (Suc n) s start candidate =
     (if \<not> conversation_in_use s candidate then candidate
      else let candidate = next_conversation_after candidate in
        if candidate = start then 0 else search_conversation n s start candidate)"

definition ConsumeNextClientConversation :: "GateNode \<Rightarrow> u32 \<times> GateNode" where
  "ConsumeNextClientConversation s =
     (let start = (if gt_next_client_conversation s = 0 then 1 else gt_next_client_conversation s);
          candidate = search_conversation (2 ^ 32 - 1) s start start in
      if candidate = 0 then (0, s)
      else (candidate, s\<lparr>gt_next_client_conversation := next_conversation_after candidate\<rparr>))"

definition ResolveAdvertisedClientHost :: "string \<Rightarrow> GateNode \<Rightarrow> string" where
  "ResolveAdvertisedClientHost remote_address s =
     (case gate_config s of
        None \<Rightarrow> remote_address
      | Some (_, _, client_endpoint) \<Rightarrow>
          if IsWildcardBindHost (ec_host client_endpoint)
          then (if remote_address = [] then NormalizeConnectorHost (ec_host client_endpoint) else remote_address)
          else NormalizeClientAddress (ec_host client_endpoint))"

definition gate_client_running :: "GateNode \<Rightarrow> bool" where
  "gate_client_running s \<longleftrightarrow> (case gt_client_network s of None \<Rightarrow> False | Some net \<Rightarrow> cn_running net)"

definition HandleAuthLogin :: "gate_env \<Rightarrow> GateAuthLoginRequest \<Rightarrow> GateNode \<Rightarrow> GateAuthLoginResult \<times> GateNode" where
  "HandleAuthLogin env request s =
     (let refuse = (\<lambda>status text s. (default_GateAuthLoginResult\<lparr>gla_status_code := status, gla_error := text\<rparr>, s)) in
      if \<not> gt_cluster_ready s \<or> \<not> gate_client_running s then refuse 503 ''Gate client admission is not ready.'' s
      else case gate_config s of
        None \<Rightarrow> refuse 500 ''Gate node configuration is unavailable.'' s
      | Some (_, _, client_endpoint) \<Rightarrow>
          case CurrentUnixTimeMilliseconds (ge_node env) s of (now_unix_ms, s) \<Rightarrow>
          case ConsumeNextClientConversation (PruneExpiredClientConversationReservations now_unix_ms s) of (conversation, s) \<Rightarrow>
            if conversation = 0 then refuse 503 ''Gate has no available client conversations.'' s
            else let remote_address = NormalizeClientAddress (glr_remote_address request);
                expires_at_unix_ms = now_unix_ms + kConversationReservationLifetimeMs in
              (\<lparr>gla_success = True, gla_status_code = 200, gla_error = [], gla_gate_node_id = sn_node_id s,
                gla_kcp_host = ResolveAdvertisedClientHost remote_address s,
                gla_kcp_port = ec_port client_endpoint, gla_conversation = conversation,
                gla_issued_at_unix_ms = now_unix_ms, gla_expires_at_unix_ms = expires_at_unix_ms\<rparr>,
               s\<lparr>gt_reservations := map_put conversation
                 \<lparr>ccr_account = glr_account request, ccr_remote_address = remote_address,
                  ccr_issued_at_unix_ms = now_unix_ms, ccr_expires_at_unix_ms = expires_at_unix_ms\<rparr>
                 (gt_reservations s)\<rparr>))"

section \<open>Opening client sessions\<close>

definition CanOpenClientSession :: "gate_env \<Rightarrow> u32 \<Rightarrow> Endpoint \<Rightarrow> GateNode \<Rightarrow> bool \<times> GateNode" where
  "CanOpenClientSession env conversation remote s =
     (case CurrentUnixTimeMilliseconds (ge_node env) s of (now_unix_ms, s) \<Rightarrow>
        let s = PruneExpiredClientConversationReservations now_unix_ms s in
        case map_find (gt_reservations s) conversation of
          None \<Rightarrow> (False, s)
        | Some reservation \<Rightarrow>
            if reservation_expired now_unix_ms reservation
            then (False, s\<lparr>gt_reservations := map_erase conversation (gt_reservations s)\<rparr>)
            else if ccr_remote_address reservation \<noteq> [] \<and>
              NormalizeClientAddress (ep_host remote) \<noteq> ccr_remote_address reservation then (False, s)
            else (True, s))"

definition erase_index :: "string \<Rightarrow> u64 \<Rightarrow> (string, u64) std_map \<Rightarrow> (string, u64) std_map" where
  "erase_index key session_id index =
     (if key \<noteq> [] \<and> map_find index key = Some session_id then map_erase key index else index)"

definition ClearClientSessionRecord :: "u64 \<Rightarrow> GateNode \<Rightarrow> GateNode" where
  "ClearClientSessionRecord session_id s =
     (case map_find (gt_records s) session_id of
        None \<Rightarrow> s
      | Some record' \<Rightarrow> s
          \<lparr>gt_session_ids_by_account := erase_index (csr_account_id record') session_id (gt_session_ids_by_account s),
           gt_session_ids_by_avatar := erase_index (csr_avatar_id record') session_id (gt_session_ids_by_avatar s),
           gt_records := map_erase session_id (gt_records s)\<rparr>)"

definition TryRegisterAuthenticatedClientSession ::
    "gate_env \<Rightarrow> ClientConversationReservation \<Rightarrow> ClientSession \<Rightarrow> GateNode \<Rightarrow> bool \<times> GateNode" where
  "TryRegisterAuthenticatedClientSession env reservation session s =
     (if ccr_account reservation = [] then (False, s)
      else case CurrentUnixTimeMilliseconds (ge_node env) (ClearClientSessionRecord (cs_session_id session) s) of
        (now_unix_ms, s) \<Rightarrow>
          (True, s\<lparr>gt_records := map_put (cs_session_id session)
               \<lparr>csr_session_id = cs_session_id session, csr_conversation = session_conversation session,
                csr_account_id = ccr_account reservation, csr_avatar_id = [], csr_game_node_id = [],
                csr_gate_node_id = sn_node_id s, csr_pending_select_avatar_seq = 0,
                csr_authenticated_at_unix_ms = now_unix_ms, csr_last_active_unix_ms = now_unix_ms,
                csr_closed = False\<rparr> (gt_records s),
             gt_session_ids_by_account := map_put (ccr_account reservation) (cs_session_id session)
               (gt_session_ids_by_account s)\<rparr>))"

text \<open>An operation on a session of the client network, through a pointer to it.\<close>

definition modify_client_session ::
    "u64 \<Rightarrow> (ClientSession \<Rightarrow> ClientSession) \<Rightarrow> GateNode \<Rightarrow> GateNode" where
  "modify_client_session session_id f s =
     s\<lparr>gt_client_network := map_option (modify_client session_id f) (gt_client_network s)\<rparr>"

definition find_client_session :: "u64 \<Rightarrow> GateNode \<Rightarrow> ClientSession ptr" where
  "find_client_session session_id s =
     (case gt_client_network s of None \<Rightarrow> None | Some net \<Rightarrow> cn_FindSession session_id net)"

text \<open>The handler is given a reference to a session of the network; the model looks it up.\<close>

definition HandleClientSessionOpened :: "gate_env \<Rightarrow> u64 \<Rightarrow> GateNode \<Rightarrow> bool \<times> GateNode" where
  "HandleClientSessionOpened env session_id s =
     (case find_client_session session_id s of
        None \<Rightarrow> (False, s)
      | Some session \<Rightarrow>
          case map_find (gt_reservations s) (session_conversation session) of
            None \<Rightarrow> (False, s)
          | Some reservation \<Rightarrow>
              if ccr_remote_address reservation \<noteq> [] \<and>
                NormalizeClientAddress (ep_host (cs_remote_endpoint session)) \<noteq> ccr_remote_address reservation
              then (False, s)
              else case CurrentUnixTimeMilliseconds (ge_node env) s of (now_unix_ms, s) \<Rightarrow>
                case Activate now_unix_ms session of (activate_result, session) \<Rightarrow>
                  let s = modify_client_session session_id (\<lambda>_. session) s in
                  if activate_result \<noteq> Cs_None then (False, s)
                  else case TryRegisterAuthenticatedClientSession env reservation session s of (registered, s) \<Rightarrow>
                    if \<not> registered then (False, s)
                    else (True, s\<lparr>gt_reservations := map_erase (session_conversation session) (gt_reservations s)\<rparr>))"

section \<open>Messages from clients\<close>

definition ready_games :: "GateNode \<Rightarrow> string list" where
  "ready_games s = filter (\<lambda>game_node_id. \<not> game_unavailable (remote_session game_node_id s))
     (map fst (cc_games (sn_cluster_config s)))"

definition ResolveAvatarGameNodeId :: "gate_env \<Rightarrow> GateNode \<Rightarrow> string \<times> GateNode" where
  "ResolveAvatarGameNodeId env s =
     (if ready_games s = [] then ([], s)
      else (ready_games s ! (env_random (ge_node env) (sn_random_draws s) mod length (ready_games s)),
        s\<lparr>sn_random_draws := Suc (sn_random_draws s)\<rparr>))"

definition SendClientSelectAvatarResult ::
    "gate_env \<Rightarrow> u64 \<Rightarrow> u32 \<Rightarrow> bool \<Rightarrow> string \<Rightarrow> string \<Rightarrow> string \<Rightarrow> string \<Rightarrow> GateNode \<Rightarrow> bool \<times> GateNode" where
  "SendClientSelectAvatarResult env session_id request_seq success account_id avatar_id game_node_id error_message s =
     (if request_seq = kPacketSeqNone then (False, s)
      else case gt_client_network s of
        None \<Rightarrow> (False, s)
      | Some net \<Rightarrow>
          let payload_json = Json_object ([(''action'', Json_string ''selectAvatarResult''), (''success'', Json_bool success),
                (''sessionId'', Json_unsigned session_id), (''accountId'', Json_string account_id),
                (''avatarId'', Json_string avatar_id), (''gameNodeId'', Json_string game_node_id)] @
                (if success then [] else [(''error'', Json_string error_message)])) in
          case encode_packet kClientSelectAvatarMsgId request_seq (if success then kResponseFlags else kErrorResponseFlags)
              (bytes_of_string (ge_dump_json env payload_json)) of (packet_result, packet) \<Rightarrow>
            if packet_result \<noteq> Pkt_None then (False, s)
            else case client_call (SendPayload (client_env_of env) session_id packet) net s of (send_result, s) \<Rightarrow>
              (send_result = Node_None, s))"

definition SendCreateAvatarEntityRequest ::
    "gate_env \<Rightarrow> ClientSessionRecord \<Rightarrow> GateNode \<Rightarrow> (string + unit) \<times> GateNode" where
  "SendCreateAvatarEntityRequest env session_record s =
     (case sn_inner_network s of
        None \<Rightarrow> (Inl ''Gate inner network is unavailable.'', s)
      | Some net \<Rightarrow>
          let target_session = remote_session (csr_game_node_id session_record) s in
          if game_unavailable target_session then (Inl ''Target Game node is unavailable for avatar creation.'', s)
          else let payload_json = Json_object [(''accountId'', Json_string (csr_account_id session_record)),
                (''avatarId'', Json_string (csr_avatar_id session_record)),
                (''gateNodeId'', Json_string (csr_gate_node_id session_record)),
                (''sessionId'', Json_unsigned (csr_session_id session_record))] in
            case encode_packet kGateCreateAvatarEntityMsgId kPacketSeqNone 0
                (bytes_of_string (ge_dump_json env payload_json)) of (packet_result, packet) \<Rightarrow>
              if packet_result \<noteq> Pkt_None
              then (Inl (''Failed to encode create-avatar packet: '' @ PacketCodecErrorMessage packet_result), s)
              else case net_Send (env_zmq (ge_node env)) (ins_routing_id (the target_session)) packet net of (send_result, net) \<Rightarrow>
                let s = s\<lparr>sn_inner_network := Some net\<rparr> in
                if send_result \<noteq> Node_None then (Inl (last_error_message net), s) else (Inr (), s))"

text \<open>The text of a required field.\<close>

definition json_text :: "json \<Rightarrow> string \<Rightarrow> string + string" where
  "json_text object field_name =
     (case TryReadRequiredJsonString object field_name (Some []) (Some []) of (ok, output, error_message) \<Rightarrow>
        if ok then Inr (the output) else Inl (the error_message))"

definition parse_select_avatar :: "gate_env \<Rightarrow> byte list \<Rightarrow> string + string" where
  "parse_select_avatar env payload =
     (case ge_parse_json env (string_of_bytes payload) of
        Inl json_error \<Rightarrow> Inl (''Select-avatar payload was not valid JSON: '' @ json_error)
      | Inr request_json \<Rightarrow>
          if \<not> json_is_object request_json then Inl ''Select-avatar payload must be a JSON object.''
          else case json_text request_json ''action'' of
            Inl error_message \<Rightarrow> Inl error_message
          | Inr action \<Rightarrow>
              if action \<noteq> ''selectAvatar''
              then Inl (''Select-avatar payload action must be '' @ [CHR 0x27] @ ''selectAvatar'' @ [CHR 0x27] @ ''.'')
              else case json_text request_json ''avatarId'' of
                Inl error_message \<Rightarrow> Inl error_message
              | Inr avatar_id \<Rightarrow>
                  if \<not> IsCanonicalGuidText avatar_id
                  then Inl ''Select-avatar payload avatarId must be a canonical GUID string.''
                  else Inr avatar_id)"

definition HandleClientSelectAvatarPacket ::
    "gate_env \<Rightarrow> u64 \<Rightarrow> PacketView \<Rightarrow> GateNode \<Rightarrow> (string + unit) \<times> GateNode" where
  "HandleClientSelectAvatarPacket env session_id packet s =
     (if ph_flags (pv_header packet) \<noteq> 0 \<or> ph_seq (pv_header packet) = kPacketSeqNone
      then (Inl ''Client select-avatar packet envelope is invalid.'', s)
      else case client_session_record session_id s of
        None \<Rightarrow> (Inl ''Authenticated client session record is missing.'', s)
      | Some record' \<Rightarrow>
          if csr_pending_select_avatar_seq record' \<noteq> 0
          then (Inl ''Client select-avatar request is already waiting for a server result.'', s)
          else if csr_avatar_id record' \<noteq> [] then (Inl ''Client session already has a bound avatar.'', s)
          else case parse_select_avatar env (pv_payload packet) of
            Inl error_message \<Rightarrow> (Inl error_message, s)
          | Inr avatar_id \<Rightarrow>
              if map_find (gt_session_ids_by_avatar s) avatar_id \<notin> {None, Some session_id}
              then (Inl ''Avatar is already bound to another active session.'', s)
              else case ResolveAvatarGameNodeId env s of (game_node_id, s) \<Rightarrow>
                if game_node_id = [] then (Inl ''No ready Game node is available for avatar creation.'', s)
                else case CurrentUnixTimeMilliseconds (ge_node env) s of (now_unix_ms, s) \<Rightarrow>
                  let next_record = record'\<lparr>csr_avatar_id := avatar_id, csr_game_node_id := game_node_id,
                        csr_pending_select_avatar_seq := ph_seq (pv_header packet), csr_last_active_unix_ms := now_unix_ms\<rparr> in
                  case SendCreateAvatarEntityRequest env next_record s of
                    (Inl error_message, s) \<Rightarrow> (Inl error_message, s)
                  | (Inr _, s) \<Rightarrow>
                      let s = (if csr_avatar_id record' \<noteq> [] \<and> csr_avatar_id record' \<noteq> avatar_id
                          then s\<lparr>gt_session_ids_by_avatar := map_erase (csr_avatar_id record') (gt_session_ids_by_avatar s)\<rparr>
                          else s) in
                      (Inr (), (modify_record session_id (\<lambda>_. next_record) s)
                        \<lparr>gt_session_ids_by_account := map_put (csr_account_id next_record) session_id (gt_session_ids_by_account s),
                         gt_session_ids_by_avatar := map_put (csr_avatar_id next_record) session_id (gt_session_ids_by_avatar s)\<rparr>))"

definition HandleClientEntityRpcPacket ::
    "gate_env \<Rightarrow> u64 \<Rightarrow> PacketView \<Rightarrow> GateNode \<Rightarrow> (string + unit) \<times> GateNode" where
  "HandleClientEntityRpcPacket env session_id packet s =
     (if ph_flags (pv_header packet) \<noteq> 0 \<or> ph_seq (pv_header packet) = kPacketSeqNone
      then (Inl ''Client entity RPC packet envelope is invalid.'', s)
      else case client_session_record session_id s of
        None \<Rightarrow> (Inl ''Authenticated client session record is missing.'', s)
      | Some record' \<Rightarrow>
          if csr_closed record' then (Inl ''Authenticated client session is already closed.'', s)
          else if csr_avatar_id record' = [] then (Inl ''Client session does not have a bound avatar yet.'', s)
          else if csr_game_node_id record' = [] then (Inl ''Client session does not have a target Game route yet.'', s)
          else if csr_gate_node_id record' \<noteq> sn_node_id s
          then (Inl ''Client session route gate does not match the current Gate.'', s)
          else if map_find (gt_session_ids_by_avatar s) (csr_avatar_id record') \<noteq> Some session_id
          then (Inl ''Client session avatar binding is stale.'', s)
          else let target_session = remote_session (csr_game_node_id record') s in
            if game_unavailable target_session
            then (Inl ''Target Game node is unavailable for client entity RPC forwarding.'', s)
            else case sn_inner_network s of
              None \<Rightarrow> (Inl ''Gate inner network is unavailable.'', s)
            | Some net \<Rightarrow>
                let relay_message = \<lparr>pc_source_game_node_id = csr_game_node_id record',
                      pc_route_gate_node_id = csr_gate_node_id record', pc_target_entity_id = csr_avatar_id record',
                      pc_proxy_call_msg_id = ph_msg_id (pv_header packet), pc_relay_flags = 0,
                      pc_payload = pv_payload packet\<rparr> in
                case GetRelayForwardProxyCallWireSize relay_message (Some 0) of (wire_size_result, relay_wire_size) \<Rightarrow>
                if wire_size_result \<noteq> Rly_None
                then (Inl (''Failed to size client entity RPC relay payload: '' @ RelayCodecErrorMessage wire_size_result), s)
                else case EncodeRelayForwardProxyCall relay_message (replicate (the relay_wire_size) 0) of
                  (encode_relay_result, relay_payload) \<Rightarrow>
                  if encode_relay_result \<noteq> Rly_None
                  then (Inl (''Failed to encode client entity RPC relay payload: '' @ RelayCodecErrorMessage encode_relay_result), s)
                  else case encode_packet kRelayForwardProxyCallMsgId kPacketSeqNone 0 relay_payload of
                    (encode_packet_result, relay_packet) \<Rightarrow>
                    if encode_packet_result \<noteq> Pkt_None
                    then (Inl (''Failed to encode client entity RPC relay packet: '' @ PacketCodecErrorMessage encode_packet_result), s)
                    else case net_Send (env_zmq (ge_node env)) (ins_routing_id (the target_session)) relay_packet net of
                      (send_result, net) \<Rightarrow>
                      let s = s\<lparr>sn_inner_network := Some net\<rparr> in
                      if send_result \<noteq> Node_None then (Inl (last_error_message net), s)
                      else case CurrentUnixTimeMilliseconds (ge_node env) s of (now_unix_ms, s) \<Rightarrow>
                        (Inr (), modify_record session_id (\<lambda>r. r\<lparr>csr_last_active_unix_ms := now_unix_ms\<rparr>) s))"

definition HandleClientPayloadReceived :: "gate_env \<Rightarrow> u64 \<Rightarrow> byte list \<Rightarrow> GateNode \<Rightarrow> GateNode" where
  "HandleClientPayloadReceived env session_id payload s =
     (let s = (if client_session_record session_id s = None then s
          else case CurrentUnixTimeMilliseconds (ge_node env) s of (now_unix_ms, s) \<Rightarrow>
            modify_record session_id (\<lambda>r. r\<lparr>csr_last_active_unix_ms := now_unix_ms\<rparr>) s) in
      case DecodePacket payload (Some empty_PacketView) of (packet_result, packet) \<Rightarrow>
        let packet = the packet in
        if packet_result \<noteq> Pkt_None then s
        else if ph_msg_id (pv_header packet) = kClientSelectAvatarMsgId
        then (case HandleClientSelectAvatarPacket env session_id packet s of
            (Inr _, s) \<Rightarrow> s
          | (Inl handler_error, s) \<Rightarrow>
              let text = (\<lambda>f. case client_session_record session_id s of None \<Rightarrow> [] | Some r \<Rightarrow> f r) in
              snd (SendClientSelectAvatarResult env session_id (ph_seq (pv_header packet)) False
                (text csr_account_id) (text csr_avatar_id) (text csr_game_node_id) handler_error s))
        else if ph_msg_id (pv_header packet) = kClientHelloMsgId then s
        else if ph_msg_id (pv_header packet) = kClientEntityRpcMsgId
        then snd (HandleClientEntityRpcPacket env session_id packet s)
        else s)"

section \<open>Messages from games\<close>

text \<open>
  What the three relay handlers and the handler of creation results check first: the packet decodes, it is
  a notification, and it comes over the channel of a registered session, which is the result.
\<close>

definition notification_of :: "byte list \<Rightarrow> PacketView option" where
  "notification_of payload =
     (case DecodePacket payload (Some empty_PacketView) of (packet_result, packet) \<Rightarrow>
        let header = pv_header (the packet) in
        if packet_result \<noteq> Pkt_None then None
        else if ph_flags header \<noteq> 0 \<or> ph_seq header \<noteq> kPacketSeqNone then None
        else packet)"

definition registered_source :: "RoutingID \<Rightarrow> GateNode \<Rightarrow> InnerNetworkSession option" where
  "registered_source routing_id s =
     (case FindMutableByRoutingId routing_id (sn_sessions s) of
        None \<Rightarrow> None
      | Some (_, source_session) \<Rightarrow> if \<not> ins_registered source_session then None else Some source_session)"

text \<open>The fields of a creation result, which must all be there.\<close>

record avatar_result =
  ar_action :: string
  ar_success :: bool
  ar_session_id :: u64
  ar_account_id :: string
  ar_avatar_id :: string
  ar_game_node_id :: string
  ar_gate_node_id :: string
  ar_error :: string

definition read_avatar_result :: "json \<Rightarrow> avatar_result option" where
  "read_avatar_result payload_json =
     (case TryReadRequiredJsonString payload_json ''action'' (Some []) (Some []) of (ok, action, error) \<Rightarrow>
      if \<not> ok then None else
      case TryReadRequiredJsonBoolean payload_json ''success'' (Some False) error of (ok, success, error) \<Rightarrow>
      if \<not> ok then None else
      case TryReadRequiredJsonUInt64 payload_json ''sessionId'' (Some 0) error of (ok, session_id, error) \<Rightarrow>
      if \<not> ok then None else
      case TryReadRequiredJsonString payload_json ''accountId'' (Some []) error of (ok, account_id, error) \<Rightarrow>
      if \<not> ok then None else
      case TryReadRequiredJsonString payload_json ''avatarId'' (Some []) error of (ok, avatar_id, error) \<Rightarrow>
      if \<not> ok then None else
      case TryReadRequiredJsonString payload_json ''gameNodeId'' (Some []) error of (ok, game_node_id, error) \<Rightarrow>
      if \<not> ok then None else
      case TryReadRequiredJsonString payload_json ''gateNodeId'' (Some []) error of (ok, gate_node_id, error) \<Rightarrow>
      if \<not> ok then None else
      Some \<lparr>ar_action = the action, ar_success = the success, ar_session_id = the session_id,
        ar_account_id = the account_id, ar_avatar_id = the avatar_id, ar_game_node_id = the game_node_id,
        ar_gate_node_id = the gate_node_id,
        ar_error = (case json_find payload_json ''error'' of Some (Json_string text) \<Rightarrow> text | _ \<Rightarrow> [])\<rparr>)"

text \<open>Undoing a selection that waits for its result: the avatar is free again, and the client is told if it can be.\<close>

definition rollback_pending_selection ::
    "gate_env \<Rightarrow> u64 \<Rightarrow> u32 \<Rightarrow> avatar_result \<Rightarrow> string \<Rightarrow> bool \<Rightarrow> GateNode \<Rightarrow> GateNode" where
  "rollback_pending_selection env session_id request_seq result rollback_error notify_client s =
     (let s = (case client_session_record session_id s of
            None \<Rightarrow> s
          | Some record' \<Rightarrow> (modify_record session_id
              (\<lambda>r. r\<lparr>csr_avatar_id := [], csr_game_node_id := [], csr_pending_select_avatar_seq := 0\<rparr>) s)
              \<lparr>gt_session_ids_by_avatar := erase_index (csr_avatar_id record') session_id (gt_session_ids_by_avatar s)\<rparr>) in
      if notify_client
      then snd (SendClientSelectAvatarResult env session_id request_seq False (ar_account_id result)
        (ar_avatar_id result) (ar_game_node_id result) rollback_error s)
      else s)"

text \<open>Binding the route of the client to the game, from wherever the route stands.\<close>

definition select_route :: "u64 \<Rightarrow> GateNode \<Rightarrow> (string + unit) \<times> GateNode" where
  "select_route session_id s =
     (case find_client_session session_id s of
        None \<Rightarrow> (Inr (), s)
      | Some client_session \<Rightarrow>
          if cs_route_state client_session \<noteq> Route_Unassigned then (Inr (), s)
          else case SetRouteSelecting client_session of (selecting_result, client_session) \<Rightarrow>
            (if selecting_result \<noteq> Cs_None then Inl (cs_last_error_message client_session) else Inr (),
             modify_client_session session_id (\<lambda>_. client_session) s))"

definition bind_route :: "u64 \<Rightarrow> string \<Rightarrow> Endpoint \<Rightarrow> GateNode \<Rightarrow> (string + unit) \<times> GateNode" where
  "bind_route session_id game_node_id endpoint s =
     (case find_client_session session_id s of
        None \<Rightarrow> (Inr (), s)
      | Some client_session \<Rightarrow>
          if cs_route_state client_session \<noteq> Route_Selecting \<and> cs_route_state client_session \<noteq> Route_RouteLost then (Inr (), s)
          else case BindRoute \<lparr>crt_game_node_id = game_node_id, crt_inner_network_endpoint = endpoint,
              crt_route_epoch = (if gt_cluster_ready_epoch s = 0 then 1 else gt_cluster_ready_epoch s)\<rparr> client_session of
            (bind_result, client_session) \<Rightarrow>
              (if bind_result \<noteq> Cs_None then Inl (cs_last_error_message client_session) else Inr (),
               modify_client_session session_id (\<lambda>_. client_session) s))"

definition confirm_avatar ::
    "gate_env \<Rightarrow> u32 \<Rightarrow> avatar_result \<Rightarrow> InnerNetworkSession \<Rightarrow> GateNode \<Rightarrow> GateNode" where
  "confirm_avatar env request_seq result source_session s =
     (let session_id = ar_session_id result; rollback = rollback_pending_selection env session_id request_seq result in
      if find_client_session session_id s = None
      then rollback ''Gate could not find the target client session for avatar confirmation.'' False s
      else case select_route session_id s of
        (Inl text, s) \<Rightarrow> rollback text True s
      | (Inr _, s) \<Rightarrow>
          case bind_route session_id (ar_game_node_id result) (ins_inner_network_endpoint source_session) s of
            (Inl text, s) \<Rightarrow> rollback text True s
          | (Inr _, s) \<Rightarrow>
              case CurrentUnixTimeMilliseconds (ge_node env) s of (now_unix_ms, s) \<Rightarrow>
                snd (SendClientSelectAvatarResult env session_id request_seq True (ar_account_id result)
                  (ar_avatar_id result) (ar_game_node_id result) []
                  (modify_record session_id (\<lambda>r. r\<lparr>csr_pending_select_avatar_seq := 0,
                     csr_game_node_id := ar_game_node_id result, csr_last_active_unix_ms := now_unix_ms\<rparr>) s)))"

definition HandleGameAvatarEntityCreateResultMessage :: "gate_env \<Rightarrow> RoutingID \<Rightarrow> byte list \<Rightarrow> GateNode \<Rightarrow> GateNode" where
  "HandleGameAvatarEntityCreateResultMessage env routing_id payload s =
     (case notification_of payload of
        None \<Rightarrow> s
      | Some packet \<Rightarrow>
          case registered_source routing_id s of
            None \<Rightarrow> s
          | Some source_session \<Rightarrow>
              case ge_parse_json env (string_of_bytes (pv_payload packet)) of
                Inl _ \<Rightarrow> s
              | Inr payload_json \<Rightarrow>
                  if \<not> json_is_object payload_json then s
                  else case read_avatar_result payload_json of
                    None \<Rightarrow> s
                  | Some result \<Rightarrow>
                      if ar_action result \<noteq> ''createAvatarResult'' then s
                      else if ar_gate_node_id result \<noteq> sn_node_id s then s
                      else if ins_node_id source_session \<noteq> ar_game_node_id result then s
                      else case client_session_record (ar_session_id result) s of
                        None \<Rightarrow> s
                      | Some record' \<Rightarrow>
                          let request_seq = csr_pending_select_avatar_seq record' in
                          if request_seq = 0 then s
                          else if \<not> ar_success result
                          then rollback_pending_selection env (ar_session_id result) request_seq result
                            (if ar_error result = [] then ''Game failed to create AvatarEntity.'' else ar_error result) True s
                          else confirm_avatar env request_seq result source_session s)"

definition HandleGamePushToClientMessage :: "gate_env \<Rightarrow> RoutingID \<Rightarrow> byte list \<Rightarrow> GateNode \<Rightarrow> GateNode" where
  "HandleGamePushToClientMessage env routing_id payload s =
     (case notification_of payload of
        None \<Rightarrow> s
      | Some packet \<Rightarrow>
          case DecodeRelayPushToClient (pv_payload packet) (Some zero_RelayPushToClient) of (decode_result, relay_message) \<Rightarrow>
            let relay_message = the relay_message in
            if decode_result \<noteq> Rly_None then s
            else case registered_source routing_id s of
              None \<Rightarrow> s
            | Some source_session \<Rightarrow>
                if ins_node_id source_session \<noteq> pu_source_game_node_id relay_message then s
                else if pu_route_gate_node_id relay_message \<noteq> sn_node_id s then s
                else case map_find (gt_session_ids_by_avatar s) (pu_target_entity_id relay_message) of
                  None \<Rightarrow> s
                | Some target_session_id \<Rightarrow>
                    case client_session_record target_session_id s of
                      None \<Rightarrow> s
                    | Some client_record \<Rightarrow>
                        if csr_closed client_record \<or> csr_avatar_id client_record \<noteq> pu_target_entity_id relay_message \<or>
                          csr_gate_node_id client_record \<noteq> sn_node_id s then s
                        else case gt_client_network s of
                          None \<Rightarrow> s
                        | Some net \<Rightarrow>
                            case encode_packet (pu_client_msg_id relay_message) kPacketSeqNone 0 (pu_payload relay_message) of
                              (encode_client_result, client_packet) \<Rightarrow>
                                if encode_client_result \<noteq> Pkt_None then s
                                else snd (client_call (SendPayload (client_env_of env) target_session_id client_packet) net s))"

text \<open>Sending the packet as it came to the game, if it is there.\<close>

definition forward_to_game :: "gate_env \<Rightarrow> string \<Rightarrow> byte list \<Rightarrow> GateNode \<Rightarrow> GateNode" where
  "forward_to_game env game_node_id payload s =
     (let target_session = remote_session game_node_id s in
      if game_unavailable target_session then s
      else case sn_inner_network s of
        None \<Rightarrow> s
      | Some net \<Rightarrow> snd (inner_Send (ge_node env) (ins_routing_id (the target_session)) payload net s))"

definition HandleGameForwardProxyCallMessage :: "gate_env \<Rightarrow> RoutingID \<Rightarrow> byte list \<Rightarrow> GateNode \<Rightarrow> GateNode" where
  "HandleGameForwardProxyCallMessage env routing_id payload s =
     (case notification_of payload of
        None \<Rightarrow> s
      | Some packet \<Rightarrow>
          case DecodeRelayForwardProxyCall (pv_payload packet) (Some zero_RelayForwardProxyCall) of (decode_result, relay_message) \<Rightarrow>
            let relay_message = the relay_message in
            if decode_result \<noteq> Rly_None then s
            else case registered_source routing_id s of
              None \<Rightarrow> s
            | Some source_session \<Rightarrow>
                if ins_node_id source_session \<noteq> pc_source_game_node_id relay_message then s
                else if pc_route_gate_node_id relay_message \<noteq> sn_node_id s then s
                else case map_find (gt_session_ids_by_avatar s) (pc_target_entity_id relay_message) of
                  None \<Rightarrow> s
                | Some target_session_id \<Rightarrow>
                    case client_session_record target_session_id s of
                      None \<Rightarrow> s
                    | Some client_record \<Rightarrow>
                        if csr_closed client_record \<or> csr_avatar_id client_record \<noteq> pc_target_entity_id relay_message \<or>
                          csr_game_node_id client_record = [] \<or> csr_gate_node_id client_record \<noteq> sn_node_id s then s
                        else forward_to_game env (csr_game_node_id client_record) payload s)"

definition HandleGameForwardStubCallMessage :: "gate_env \<Rightarrow> RoutingID \<Rightarrow> byte list \<Rightarrow> GateNode \<Rightarrow> GateNode" where
  "HandleGameForwardStubCallMessage env routing_id payload s =
     (case notification_of payload of
        None \<Rightarrow> s
      | Some packet \<Rightarrow>
          case DecodeRelayForwardMailboxCall (pv_payload packet) (Some zero_RelayForwardMailboxCall) of
            (decode_result, relay_message) \<Rightarrow>
            let relay_message = the relay_message in
            if decode_result \<noteq> Rly_None then s
            else case registered_source routing_id s of
              None \<Rightarrow> s
            | Some source_session \<Rightarrow>
                if ins_node_id source_session \<noteq> mc_source_game_node_id relay_message then s
                else forward_to_game env (mc_target_game_node_id relay_message) payload s)"

definition gate_send_register_error :: "gate_env \<Rightarrow> RoutingID \<Rightarrow> u32 \<Rightarrow> i32 \<Rightarrow> GateNode \<Rightarrow> GateNode" where
  "gate_send_register_error env routing_id seq error_code s =
     (case EncodeRegisterErrorResponse \<lparr>re_error_code = error_code, re_retry_after_ms = 0\<rparr>
         (replicate kRegisterErrorResponseSize 0) of (encode_result, payload_buffer) \<Rightarrow>
        if encode_result \<noteq> Reg_None then s
        else snd (send_packet (ge_node env) routing_id kInnerRegisterMsgId seq kErrorResponseFlags payload_buffer s))"

definition gate_apply_registration :: "RegisterRequest \<Rightarrow> RoutingID \<Rightarrow> u64 \<Rightarrow> InnerNetworkSession \<Rightarrow> InnerNetworkSession" where
  "gate_apply_registration request routing_id server_now_unix_ms session = session
     \<lparr>ins_pid := rr_pid request, ins_started_at_unix_ms := rr_started_at_unix_ms request,
      ins_inner_network_endpoint := rr_inner_network_endpoint request,
      ins_build_version := rr_build_version request, ins_capability_tags := rr_capability_tags request,
      ins_load := rr_load request, ins_routing_id := routing_id,
      ins_last_heartbeat_at_unix_ms := server_now_unix_ms, ins_inner_network_ready := False,
      ins_connection_state := Zmq_Connected, ins_heartbeat_timed_out := False, ins_registered := True,
      ins_heartbeat_interval_ms := kDefaultHeartbeatIntervalMs, ins_heartbeat_timeout_ms := kDefaultHeartbeatTimeoutMs,
      ins_last_server_now_unix_ms := server_now_unix_ms, ins_last_protocol_error := []\<rparr>"

definition HandleGameRegisterMessage :: "gate_env \<Rightarrow> RoutingID \<Rightarrow> byte list \<Rightarrow> GateNode \<Rightarrow> GateNode" where
  "HandleGameRegisterMessage env routing_id payload s =
     (case DecodePacket payload (Some empty_PacketView) of (packet_result, packet) \<Rightarrow>
        let header = pv_header (the packet); seq = ph_seq header in
        if packet_result \<noteq> Pkt_None then s
        else if ph_flags header \<noteq> 0 \<or> seq = kPacketSeqNone then s
        else case DecodeRegisterRequest (pv_payload (the packet)) (Some zero_RegisterRequest) of (decode_result, request) \<Rightarrow>
          let request = the request in
          if decode_result \<noteq> Reg_None then
            (case MapRegisterCodecErrorToInnerError decode_result of
               None \<Rightarrow> s
             | Some error_code \<Rightarrow> gate_send_register_error env routing_id seq error_code s)
          else if rr_process_type request \<noteq> inner_process_type_value Process_Game
          then gate_send_register_error env routing_id seq kInnerProcessTypeInvalid s
          else case remote_session (rr_node_id request) s of
            None \<Rightarrow> gate_send_register_error env routing_id seq kInnerNodeNotRegistered s
          | Some session \<Rightarrow>
              if ins_process_type session \<noteq> Game
              then gate_send_register_error env routing_id seq kInnerNodeNotRegistered s
              else if ins_routing_id session \<noteq> routing_id
              then gate_send_register_error env routing_id seq kInnerChannelInvalid s
              else case CurrentUnixTimeMilliseconds (ge_node env) s of (server_now_unix_ms, s) \<Rightarrow>
                let s = modify_remote (rr_node_id request)
                    (gate_apply_registration request routing_id server_now_unix_ms) s in
                case EncodeRegisterSuccessResponse \<lparr>rs_heartbeat_interval_ms = kDefaultHeartbeatIntervalMs,
                    rs_heartbeat_timeout_ms = kDefaultHeartbeatTimeoutMs, rs_server_now_unix_ms = server_now_unix_ms\<rparr>
                    (replicate kRegisterSuccessResponseSize 0) of (encode_result, payload_buffer) \<Rightarrow>
                  if encode_result \<noteq> Reg_None then s
                  else snd (send_packet (ge_node env) routing_id kInnerRegisterMsgId seq kResponseFlags payload_buffer s))"

definition gate_refresh_session :: "RoutingID \<Rightarrow> LoadSnapshot \<Rightarrow> u64 \<Rightarrow> InnerNetworkSession \<Rightarrow> InnerNetworkSession" where
  "gate_refresh_session routing_id load now_unix_ms session = session
     \<lparr>ins_routing_id := routing_id, ins_load := load, ins_last_heartbeat_at_unix_ms := now_unix_ms,
      ins_inner_network_ready := True, ins_heartbeat_timed_out := False, ins_registered := True,
      ins_connection_state := Zmq_Connected, ins_heartbeat_interval_ms := kDefaultHeartbeatIntervalMs,
      ins_heartbeat_timeout_ms := kDefaultHeartbeatTimeoutMs, ins_last_server_now_unix_ms := now_unix_ms,
      ins_last_protocol_error := []\<rparr>"

definition HandleGameHeartbeatMessage :: "gate_env \<Rightarrow> RoutingID \<Rightarrow> byte list \<Rightarrow> GateNode \<Rightarrow> GateNode" where
  "HandleGameHeartbeatMessage env routing_id payload s =
     (if routing_id = [] then s
      else case CurrentUnixTimeMilliseconds (ge_node env) s of (now_unix_ms, s) \<Rightarrow>
        case TryReadRawPacketHeader payload (Some zero_PacketHeader) of (header_ok, raw_header) \<Rightarrow>
        let raw_header = the raw_header in
        if \<not> header_ok then s
        else if \<not> IsHeartbeatRequestPacket raw_header then s
        else if \<not> IsValidPacketFlags (ph_flags raw_header) \<or> ph_flags raw_header \<noteq> 0 \<or>
          ph_seq raw_header = kPacketSeqNone then s
        else case DecodePacket payload (Some empty_PacketView) of (decode_packet_result, packet) \<Rightarrow>
          if decode_packet_result \<noteq> Pkt_None then s
          else case DecodeHeartbeatRequest (pv_payload (the packet)) (Some zero_HeartbeatRequest) of
            (decode_request_result, request) \<Rightarrow>
            if decode_request_result \<noteq> Hb_None then s
            else case FindMutableByRoutingId routing_id (sn_sessions s) of
              None \<Rightarrow> s
            | Some (key, session) \<Rightarrow>
                if ins_process_type session \<noteq> Game \<or> \<not> ins_registered session then s
                else
                  let s = modify_remote key (gate_refresh_session routing_id (hr_load (the request)) now_unix_ms) s in
                  case EncodeHeartbeatSuccessResponse \<lparr>hs_heartbeat_interval_ms = kDefaultHeartbeatIntervalMs,
                      hs_heartbeat_timeout_ms = kDefaultHeartbeatTimeoutMs, hs_server_now_unix_ms = now_unix_ms\<rparr>
                      (replicate kHeartbeatSuccessResponseSize 0) of (encode_result, response_body) \<Rightarrow>
                    if encode_result \<noteq> Hb_None then s
                    else snd (send_packet (ge_node env) routing_id kInnerHeartbeatMsgId (ph_seq (pv_header (the packet)))
                      kResponseFlags response_body s))"

definition HandleGameMessage :: "gate_env \<Rightarrow> RoutingID \<Rightarrow> byte list \<Rightarrow> GateNode \<Rightarrow> GateNode" where
  "HandleGameMessage env routing_id payload s =
     (case TryReadRawPacketHeader payload (Some zero_PacketHeader) of (header_ok, raw_header) \<Rightarrow>
        let msg_id = ph_msg_id (the raw_header) in
        if \<not> header_ok then s
        else if msg_id = kInnerRegisterMsgId then HandleGameRegisterMessage env routing_id payload s
        else if msg_id = kInnerHeartbeatMsgId then HandleGameHeartbeatMessage env routing_id payload s
        else if msg_id = kGameAvatarEntityCreateResultMsgId
        then HandleGameAvatarEntityCreateResultMessage env routing_id payload s
        else if msg_id = kRelayPushToClientMsgId then HandleGamePushToClientMessage env routing_id payload s
        else if msg_id = kRelayForwardProxyCallMsgId then HandleGameForwardProxyCallMessage env routing_id payload s
        else if msg_id = kRelayForwardMailboxCallMsgId then HandleGameForwardStubCallMessage env routing_id payload s
        else s)"

section \<open>Life cycle\<close>

definition reset_game_session :: "InnerNetworkSession \<Rightarrow> InnerNetworkSession" where
  "reset_game_session session = session
     \<lparr>ins_pid := 0, ins_started_at_unix_ms := 0, ins_build_version := [], ins_capability_tags := [],
      ins_load := zero_LoadSnapshot, ins_last_heartbeat_at_unix_ms := 0, ins_inner_network_ready := False,
      ins_connection_state := Zmq_Stopped, ins_register_seq := 0, ins_heartbeat_seq := 0,
      ins_heartbeat_interval_ms := 0, ins_heartbeat_timeout_ms := 0, ins_last_server_now_unix_ms := 0,
      ins_last_protocol_error := [], ins_heartbeat_timed_out := False, ins_registered := False,
      ins_register_in_flight := False\<rparr>"

definition ResetGameSessionStates :: "GateNode \<Rightarrow> GateNode" where
  "ResetGameSessionStates s =
     fold (\<lambda>entry s. if ins_process_type entry \<noteq> Game then s
         else modify_remote (ins_node_id entry) reset_game_session s)
       (Snapshot (sn_sessions s)) s"

definition ResetClusterReadyState :: "GateNode \<Rightarrow> GateNode" where
  "ResetClusterReadyState s = s
     \<lparr>gt_cluster_ready_epoch := 0, gt_last_cluster_ready_server_now_unix_ms := 0, gt_next_client_conversation := 1,
      gt_cluster_ready := False, gt_reservations := [], gt_records := [], gt_session_ids_by_account := [],
      gt_session_ids_by_avatar := []\<rparr>"

definition gate_registration :: "ProcessType \<Rightarrow> string \<Rightarrow> EndpointConfig \<Rightarrow> RoutingID \<Rightarrow> InnerNetworkSessionRegistration" where
  "gate_registration process_type node_id endpoint routing_id =
     \<lparr>isr_process_type = process_type, isr_node_id = node_id, isr_pid = 0, isr_started_at_unix_ms = 0,
      isr_inner_network_endpoint = ToNetEndpoint endpoint, isr_build_version = [], isr_capability_tags = [],
      isr_load = zero_LoadSnapshot, isr_routing_id = routing_id, isr_last_heartbeat_at_unix_ms = 0,
      isr_inner_network_ready = False\<rparr>"

definition gate_Register :: "InnerNetworkSessionRegistration \<Rightarrow> GateNode \<Rightarrow> NodeErrorCode \<times> GateNode" where
  "gate_Register registration s =
     (case Register registration (sn_sessions s) of (session_result, sessions) \<Rightarrow>
        let s = s\<lparr>sn_sessions := sessions\<rparr> in
        if session_result \<noteq> Ism_None
        then sn_SetError Node_NodeInitFailed (InnerNetworkSessionManagerErrorMessage session_result) s
        else (Node_None, s))"

fun register_games :: "(string \<times> GameConfig) list \<Rightarrow> GateNode \<Rightarrow> NodeErrorCode \<times> GateNode" where
  "register_games [] s = (Node_None, s)"
| "register_games ((game_node_id, game_config) # games) s =
     (let endpoint = gac_inner_network_listen_endpoint game_config in
      if ec_host endpoint = [] then sn_SetError Node_ConfigLoadFailed
        (''Game innerNetwork.listenEndpoint.host must not be empty for '' @ game_node_id @ ''.'') s
      else if ec_port endpoint = 0 then sn_SetError Node_ConfigLoadFailed
        (''Game innerNetwork.listenEndpoint.port must be greater than zero for '' @ game_node_id @ ''.'') s
      else case gate_Register (gate_registration Game game_node_id endpoint (ToRoutingId game_node_id)) s of (result, s) \<Rightarrow>
        if result \<noteq> Node_None then (result, s) else register_games games s)"

text \<open>The checks of the configured endpoints, in the order of the source; \<open>None\<close> when all are good.\<close>

definition endpoint_error :: "string \<Rightarrow> EndpointConfig \<Rightarrow> string option" where
  "endpoint_error name endpoint =
     (if ec_host endpoint = [] then Some (name @ ''.listenEndpoint.host must not be empty.'')
      else if ec_port endpoint = 0 then Some (name @ ''.listenEndpoint.port must be greater than zero.'')
      else None)"

definition gate_endpoint_error ::
    "EndpointConfig \<Rightarrow> EndpointConfig \<Rightarrow> EndpointConfig \<Rightarrow> EndpointConfig \<Rightarrow> string option" where
  "gate_endpoint_error gm_endpoint inner_endpoint auth_endpoint client_endpoint =
     (case endpoint_error ''GM innerNetwork'' gm_endpoint of Some text \<Rightarrow> Some text | None \<Rightarrow>
      case endpoint_error ''Gate innerNetwork'' inner_endpoint of Some text \<Rightarrow> Some text | None \<Rightarrow>
      case endpoint_error ''Gate authNetwork'' auth_endpoint of Some text \<Rightarrow> Some text | None \<Rightarrow>
      endpoint_error ''Gate clientNetwork'' client_endpoint)"

text \<open>What a failure after the inner network was initialised takes back.\<close>

definition drop_services :: "GateNode \<Rightarrow> GateNode" where
  "drop_services s = s\<lparr>gt_auth_http_service := False, gt_client_network := None,
     sn_sessions := sessions_Clear (sn_sessions s)\<rparr>"

text \<open>The rest of \<^verbatim>\<open>OnInit\<close>: the networks and the authentication service.\<close>

definition init_services ::
    "gate_env \<Rightarrow> EndpointConfig \<Rightarrow> EndpointConfig \<Rightarrow> EndpointConfig \<Rightarrow> GateNode \<Rightarrow> NodeErrorCode \<times> GateNode" where
  "init_services env gm_endpoint inner_endpoint client_endpoint s =
     (let net = new_ClientNetwork (sn_node_id s) (BuildEndpointText client_endpoint) (cc_kcp (sn_cluster_config s));
          s = s\<lparr>gt_client_network := Some net, gt_auth_http_service := True\<rparr> in
      case InitInnerNetwork (ge_node env) \<lparr>nno_local_endpoint = BuildTcpEndpoint inner_endpoint,
          nno_connectors = [\<lparr>nco_id = kGmRemoteNodeId, nco_remote_endpoint = BuildConnectorTcpEndpoint gm_endpoint,
            nco_routing_id = sn_node_id s\<rparr>]\<rparr> s of (inner_result, s) \<Rightarrow>
      if inner_result \<noteq> Node_None then (inner_result, drop_services s)
      else case cn_Init (client_env_of env) net of (client_result, net) \<Rightarrow>
        let s = s\<lparr>gt_client_network := Some net\<rparr> in
        if client_result \<noteq> Node_None
        then sn_SetError client_result (cn_last_error_message net) (drop_services (snd (UninitInnerNetwork s)))
        else case auth_call env s of ((auth_result, error_message), s) \<Rightarrow>
          if auth_result \<noteq> Node_None
          then sn_SetError auth_result error_message (drop_services (snd (UninitInnerNetwork
            (snd (client_call (cn_Uninit (client_env_of env)) net s)))))
          else (Node_None, sn_ClearError s))"

definition gate_OnInit :: "gate_env \<Rightarrow> GateNode \<Rightarrow> NodeErrorCode \<times> GateNode" where
  "gate_OnInit env s =
     (let gm_endpoint = gmc_inner_network_listen_endpoint (cc_gm (sn_cluster_config s)) in
      case gate_config s of
        None \<Rightarrow> sn_SetError Node_ConfigLoadFailed ''Gate node requires GateNodeConfig.'' s
      | Some (inner_endpoint, auth_endpoint, client_endpoint) \<Rightarrow>
          case gate_endpoint_error gm_endpoint inner_endpoint auth_endpoint client_endpoint of
            Some text \<Rightarrow> sn_SetError Node_ConfigLoadFailed text s
          | None \<Rightarrow>
              case CurrentUnixTimeMilliseconds (ge_node env) s of (started_at_unix_ms, s) \<Rightarrow>
              let s = ResetClusterReadyState (s\<lparr>gt_started_at_unix_ms := started_at_unix_ms,
                    sn_sessions := sessions_Clear (sn_sessions s)\<rparr>) in
              case gate_Register (gate_registration Gm kGmRemoteNodeId gm_endpoint []) s of (result, s) \<Rightarrow>
                if result \<noteq> Node_None then (result, s)
                else case register_games (cc_games (sn_cluster_config s)) s of (result, s) \<Rightarrow>
                  if result \<noteq> Node_None then (result, s)
                  else init_services env gm_endpoint inner_endpoint client_endpoint s)"

definition gate_OnRun :: "gate_env \<Rightarrow> GateNode \<Rightarrow> NodeErrorCode \<times> GateNode" where
  "gate_OnRun env s =
     (if sn_inner_network s = None \<or> gt_client_network s = None \<or> \<not> gt_auth_http_service s
      then sn_SetError Node_InvalidArgument ''Gate node must be initialized before Run().'' s
      else case RunInnerNetwork (ge_node env) s of (inner_result, s) \<Rightarrow>
        if inner_result \<noteq> Node_None then (inner_result, s) else (Node_None, sn_ClearError s))"

definition gate_OnUninit :: "gate_env \<Rightarrow> GateNode \<Rightarrow> NodeErrorCode \<times> GateNode" where
  "gate_OnUninit env s =
     (let s = modify_gm (\<lambda>session. session\<lparr>ins_connection_state := Zmq_Stopped\<rparr>) s;
          s = ResetClusterReadyState (gate_ResetGmSessionState (ResetGameSessionStates s)) in
      case (if gt_auth_http_service s then auth_call env (s\<lparr>gt_auth_http_service := False\<rparr>) else ((Node_None, []), s)) of
        ((auth_result, error_message), s) \<Rightarrow>
        if auth_result \<noteq> Node_None then sn_SetError auth_result error_message s
        else case (case gt_client_network s of
            None \<Rightarrow> ((Node_None, []), s)
          | Some net \<Rightarrow> (case client_call (cn_Uninit (client_env_of env)) net s of (result, s) \<Rightarrow>
              ((result, client_error s), s\<lparr>gt_client_network := None\<rparr>))) of
          ((client_result, error_message), s) \<Rightarrow>
          if client_result \<noteq> Node_None then sn_SetError client_result error_message s
          else case sn_inner_network s of
            None \<Rightarrow> (Node_None, sn_ClearError s)
          | Some _ \<Rightarrow> (case UninitInnerNetwork s of (result, s) \<Rightarrow>
              if result \<noteq> Node_None then (result, s) else (Node_None, sn_ClearError s)))"

section \<open>Running\<close>

text \<open>The gate as the owner of its client network, with the three handlers that \<^verbatim>\<open>OnInit\<close> installs.\<close>

definition gate_net :: "GateNode \<Rightarrow> ClientNetwork" where
  "gate_net s = (case gt_client_network s of Some net \<Rightarrow> net | None \<Rightarrow> new_ClientNetwork [] [] default_KcpConfig)"

definition gate_host :: "gate_env \<Rightarrow> GateNode client_host" where
  "gate_host env =
     \<lparr>ch_net = gate_net, ch_set_net = (\<lambda>net s. s\<lparr>gt_client_network := Some net\<rparr>), ch_io = gate_io, ch_set_io = gate_set_io,
      ch_admission = Some (CanOpenClientSession env), ch_opened = Some (HandleClientSessionOpened env),
      ch_payload = Some (HandleClientPayloadReceived env)\<rparr>"

text \<open>
  What happens to a running gate: the connector to the coordinator changes its state, a message comes
  over it or from a game, the client network receives a datagram or its receive operation fails, one of
  the two timers fires, or somebody logs in. The handling of a datagram is a loop, and a step only if it
  ends.
\<close>

inductive gate_step :: "gate_env \<Rightarrow> GateNode \<Rightarrow> GateNode \<Rightarrow> bool" for env where
  gate_connector_state: "gate_step env s (gate_HandleConnectorStateChanged env remote_node_id state s)"
| gate_connector_message: "gate_step env s (gate_HandleConnectorMessage env remote_node_id payload s)"
| gate_game_message: "gate_step env s (HandleGameMessage env routing_id payload s)"
| gate_datagram: "gt_client_network s \<noteq> None \<Longrightarrow>
    HandleReceive (client_env_of env) (gate_host env) error_code remote datagram s = Some s' \<Longrightarrow> gate_step env s s'"
| gate_heartbeat_timer: "gate_step env s (snd (gate_SendHeartbeatRequest env s))"
| gate_kcp_timer: "gate_step env s (s\<lparr>gt_client_network := map_option (TickKcpSessions (client_env_of env)) (gt_client_network s)\<rparr>)"
| gate_auth_login: "gate_step env s (snd (HandleAuthLogin env request s))"

inductive_cases gate_stepE: "gate_step env s s'"

end
