(* ===== verification/GateClients.thy ===== *)
theory GateClients
  imports GateNode
begin

text \<open>
  The clients of a gate. The books that the gate keeps about its clients, which are the reservations, the records and
  the two indices, agree with each other, and every session of the client network has a
  record and a conversation of its own. A session comes into being only for a conversation that was
  reserved, and every datagram is handled to its end.
\<close>

section \<open>What most operations leave alone\<close>

text \<open>
  The operations on the other nodes keep the books about the clients, and do to the client network what
  traffic does.
\<close>

definition same_books :: "GateNode \<Rightarrow> GateNode \<Rightarrow> bool" where
  "same_books s t \<longleftrightarrow> gt_reservations t = gt_reservations s \<and> gt_records t = gt_records s \<and>
     gt_session_ids_by_account t = gt_session_ids_by_account s \<and>
     gt_session_ids_by_avatar t = gt_session_ids_by_avatar s \<and> sn_node_id t = sn_node_id s"

definition gate_frame :: "GateNode \<Rightarrow> GateNode \<Rightarrow> bool" where
  "gate_frame s t \<longleftrightarrow> same_books s t \<and> rel_option clients_kept (gt_client_network s) (gt_client_network t)"

named_theorems frame_intros \<open>what an operation does to the frame\<close>

lemma clients_kept_refl [simp]: "clients_kept n n"
  by (rule clients.rel_refl)

lemma gate_frame_refl [frame_intros]: "gate_frame s s"
  by (cases "gt_client_network s") (simp_all add: gate_frame_def same_books_def)

lemma gate_frame_trans: "gate_frame s t \<Longrightarrow> gate_frame t u \<Longrightarrow> gate_frame s u"
  unfolding gate_frame_def same_books_def
  by (cases "gt_client_network s"; cases "gt_client_network t"; cases "gt_client_network u")
    (auto intro: clients.rel_trans)

text \<open>An update of fields that the frame does not look at.\<close>

lemma gate_frame_fields:
  "same_books t u \<Longrightarrow> gt_client_network u = gt_client_network t \<Longrightarrow> gate_frame s t \<Longrightarrow> gate_frame s u"
  by (auto simp: gate_frame_def same_books_def)

lemma frame_updates [frame_intros]:
  assumes "gate_frame s t"
  shows "gate_frame s (modify_remote k f t)" "gate_frame s (modify_gm f t)" "gate_frame s (gm_protocol_error text t)"
    "gate_frame s (t\<lparr>sn_inner_network := net\<rparr>)" "gate_frame s (t\<lparr>sn_event_loop := timers\<rparr>)"
    "gate_frame s (snd (CurrentUnixTimeMilliseconds env t))" "gate_frame s (snd (auth_call genv t))"
    "gate_frame s (t\<lparr>sn_random_draws := draws\<rparr>)"
    "gate_frame s (t\<lparr>gt_cluster_ready_epoch := e, gt_cluster_ready := b, gt_last_cluster_ready_server_now_unix_ms := n\<rparr>)"
  by (rule gate_frame_fields [OF _ _ assms]; simp add: same_books_def modify_gm_def modify_remote_def
      gm_protocol_error_def CurrentUnixTimeMilliseconds_def auth_call_def Let_def)+

lemma frame_client_call:
  assumes "gate_frame s t" "gt_client_network t = Some net" "\<And>io. clients_kept net (fst (snd (f net io)))"
  shows "gate_frame s (snd (client_call f net t))"
proof -
  obtain r n io where f: "f net (gate_io t) = (r, n, io)" by (metis prod_cases3)
  have "clients_kept net n" using assms(3) [of "gate_io t"] by (simp add: f)
  then have "gate_frame t (snd (client_call f net t))"
    using assms(2) by (simp add: client_call_def f gate_frame_def same_books_def gate_set_io_def)
  then show ?thesis by (rule gate_frame_trans [OF assms(1)])
qed

lemma kept_fields:
  "cn_transport_index n = cn_transport_index m \<Longrightarrow> cn_sessions n = cn_sessions m \<Longrightarrow> clients_kept m n"
  by (rule clients.rel_same)

lemma net_frames [simp]:
  "cn_sessions (snd (cn_SetError code text net)) = cn_sessions net"
  "cn_transport_index (snd (cn_SetError code text net)) = cn_transport_index net"
  "cn_sessions (cn_ClearError net) = cn_sessions net" "cn_transport_index (cn_ClearError net) = cn_transport_index net"
  "cn_sessions (snd (udp_call env net)) = cn_sessions net"
  "cn_transport_index (snd (udp_call env net)) = cn_transport_index net"
  "cn_sessions (StartReceive net) = cn_sessions net" "cn_transport_index (StartReceive net) = cn_transport_index net"
  "cn_sessions (fst (CancelKcpUpdateTimer net io)) = cn_sessions net"
  "cn_transport_index (fst (CancelKcpUpdateTimer net io)) = cn_transport_index net"
  by (simp_all add: cn_SetError_def cn_ClearError_def udp_call_def StartReceive_def CancelKcpUpdateTimer_def)

lemma StartKcpUpdateTimer_frame [simp]:
  "cn_sessions (fst (snd (StartKcpUpdateTimer net io))) = cn_sessions net"
  "cn_transport_index (fst (snd (StartKcpUpdateTimer net io))) = cn_transport_index net"
  by (simp_all add: StartKcpUpdateTimer_def Let_def split_def)

lemma kept_cn_Run: "clients_kept net (fst (snd (cn_Run env net io)))"
  by (rule kept_fields; simp add: cn_Run_def Let_def split_def split: sum.split option.split)

lemma kept_cn_Stop: "clients_kept net (fst (snd (cn_Stop env net io)))"
  by (rule kept_fields; simp add: cn_Stop_def Let_def split_def split: option.split)

lemma frame_CancelHeartbeatTimer [frame_intros]:
  "gate_frame s t \<Longrightarrow> gate_frame s (gate_CancelHeartbeatTimer t)"
  by (auto simp: gate_CancelHeartbeatTimer_def intro: frame_intros split: option.split)

lemma frame_StartOrResetHeartbeatTimer [frame_intros]:
  "gate_frame s t \<Longrightarrow> gate_frame s (gate_StartOrResetHeartbeatTimer interval t)"
  by (auto simp: gate_StartOrResetHeartbeatTimer_def Let_def split_def intro!: frame_intros split: option.split)

lemma frame_ConsumeNextInnerSequence [frame_intros]:
  "gate_frame s t \<Longrightarrow> gate_frame s (snd (gate_ConsumeNextInnerSequence t))"
  by (auto simp: gate_ConsumeNextInnerSequence_def Let_def intro!: frame_intros split: option.split)

lemma frame_ResetGmSessionState [frame_intros]:
  "gate_frame s t \<Longrightarrow> gate_frame s (gate_ResetGmSessionState t)"
  by (auto simp: gate_ResetGmSessionState_def intro!: frame_intros)

lemma frame_send_to_gm [frame_intros]:
  "gate_frame s t \<Longrightarrow> gate_frame s (snd (send_to_gm env msg_id seq payload net t))"
  by (auto simp: send_to_gm_def Let_def split_def intro!: frame_intros)

lemma frame_send_packet [frame_intros]:
  "gate_frame s t \<Longrightarrow> gate_frame s (snd (send_packet env routing_id msg_id seq flags body t))"
  by (auto simp: send_packet_def inner_Send_def split_def intro!: frame_intros split: option.split)

lemma snd_case_sent:
  "snd (case x of (Some text, s) \<Rightarrow> (False, f text s) | (None, s) \<Rightarrow> (True, g s)) =
    (case fst x of Some text \<Rightarrow> f text (snd x) | None \<Rightarrow> g (snd x))"
  by (cases x; cases "fst x") simp_all

lemma frame_SendRegisterRequest [frame_intros]:
  "gate_frame s t \<Longrightarrow> gate_frame s (snd (gate_SendRegisterRequest env t))"
  unfolding gate_SendRegisterRequest_def Let_def split_def
  by (auto simp: snd_case_sent intro!: frame_intros split: option.split)

lemma frame_SendHeartbeatRequest [frame_intros]:
  "gate_frame s t \<Longrightarrow> gate_frame s (snd (gate_SendHeartbeatRequest env t))"
  unfolding gate_SendHeartbeatRequest_def Let_def split_def
  by (auto simp: snd_case_sent intro!: frame_intros split: option.split)

lemma frame_connector_state [frame_intros]:
  "gate_frame s t \<Longrightarrow> gate_frame s (gate_HandleConnectorStateChanged env remote_node_id state t)"
  by (auto simp: gate_HandleConnectorStateChanged_def gate_HandleGmConnectionStateChanged_def Let_def
      intro!: frame_intros split: option.split)

lemma frame_run_clients [frame_intros]:
  "gate_frame s t \<Longrightarrow> gate_frame s (snd (run_clients env t))"
  by (auto simp: run_clients_def split_def intro!: frame_intros frame_client_call kept_cn_Run split: option.split)

lemma frame_run_auth [frame_intros]:
  "gate_frame s t \<Longrightarrow> gate_frame s (snd (run_auth env t))"
  by (auto simp: run_auth_def split_def Let_def intro!: frame_intros frame_client_call kept_cn_Stop split: option.split)

lemma frame_HandleClusterReadyNotify [frame_intros]:
  "gate_frame s t \<Longrightarrow> gate_frame s (gate_HandleClusterReadyNotify env packet t)"
  unfolding gate_HandleClusterReadyNotify_def Let_def split_def
  by (auto intro!: frame_intros split: option.split)

lemma frame_HandleRegisterResponse [frame_intros]:
  "gate_frame s t \<Longrightarrow> gate_frame s (gate_HandleRegisterResponse env packet t)"
  unfolding gate_HandleRegisterResponse_def Let_def split_def
  by (auto intro!: frame_intros split: option.split)

lemma frame_HandleHeartbeatResponse [frame_intros]:
  "gate_frame s t \<Longrightarrow> gate_frame s (gate_HandleHeartbeatResponse env packet t)"
  unfolding gate_HandleHeartbeatResponse_def Let_def split_def
  by (auto intro!: frame_intros split: option.split)

lemma frame_connector_message [frame_intros]:
  "gate_frame s t \<Longrightarrow> gate_frame s (gate_HandleConnectorMessage env remote_node_id payload t)"
  unfolding gate_HandleConnectorMessage_def gate_HandleGmMessage_def Let_def split_def
  by (auto intro!: frame_intros)

lemma frame_SendPayload [frame_intros]:
  "gate_frame s t \<Longrightarrow> gt_client_network t = Some net \<Longrightarrow>
   gate_frame s (snd (client_call (SendPayload env k packet) net t))"
  by (rule frame_client_call) (simp_all add: clients.rel_SendPayload)

lemma frame_SendClientSelectAvatarResult [frame_intros]:
  "gate_frame s t \<Longrightarrow>
   gate_frame s (snd (SendClientSelectAvatarResult env k seq ok account avatar game text t))"
  unfolding SendClientSelectAvatarResult_def Let_def split_def
  by (auto intro!: frame_intros split: option.split)

lemma frame_push [frame_intros]:
  "gate_frame s t \<Longrightarrow> gate_frame s (HandleGamePushToClientMessage env routing_id payload t)"
  unfolding HandleGamePushToClientMessage_def Let_def split_def
  by (auto intro!: frame_intros split: option.split)

lemma frame_forward_to_game [frame_intros]:
  "gate_frame s t \<Longrightarrow> gate_frame s (forward_to_game env k payload t)"
  by (auto simp: forward_to_game_def inner_Send_def Let_def split_def intro!: frame_intros split: option.split)

lemma frame_relays [frame_intros]:
  assumes "gate_frame s t"
  shows "gate_frame s (HandleGameForwardProxyCallMessage env routing_id payload t)"
    "gate_frame s (HandleGameForwardStubCallMessage env routing_id payload t)"
  unfolding HandleGameForwardProxyCallMessage_def HandleGameForwardStubCallMessage_def Let_def split_def
  by (auto intro!: frame_intros assms split: option.split)

lemma frame_send_register_error [frame_intros]:
  "gate_frame s t \<Longrightarrow> gate_frame s (gate_send_register_error env routing_id seq code t)"
  by (auto simp: gate_send_register_error_def split_def intro!: frame_intros)

lemma frame_HandleGameRegisterMessage [frame_intros]:
  "gate_frame s t \<Longrightarrow> gate_frame s (HandleGameRegisterMessage env routing_id payload t)"
  unfolding HandleGameRegisterMessage_def Let_def split_def
  by (auto intro!: frame_intros split: option.split)

lemma frame_HandleGameHeartbeatMessage [frame_intros]:
  "gate_frame s t \<Longrightarrow> gate_frame s (HandleGameHeartbeatMessage env routing_id payload t)"
  unfolding HandleGameHeartbeatMessage_def Let_def split_def
  by (auto intro!: frame_intros split: option.split)

section \<open>The books agree\<close>

definition record_ok :: "GateNode \<Rightarrow> u64 \<Rightarrow> ClientSessionRecord \<Rightarrow> bool" where
  "record_ok s k r \<longleftrightarrow> csr_session_id r = k \<and> csr_account_id r \<noteq> [] \<and> csr_gate_node_id r = sn_node_id s \<and> \<not> csr_closed r \<and>
     (csr_avatar_id r = [] \<longleftrightarrow> csr_game_node_id r = []) \<and> (csr_pending_select_avatar_seq r \<noteq> 0 \<longrightarrow> csr_avatar_id r \<noteq> []) \<and>
     (csr_avatar_id r \<noteq> [] \<longrightarrow> map_find (gt_session_ids_by_avatar s) (csr_avatar_id r) = Some k)"

text \<open>
  An avatar is in the index exactly when a record carries it, with the session of that record, and an
  account is in its index only with a session of that account.
\<close>

definition books_ok :: "GateNode \<Rightarrow> bool" where
  "books_ok s \<longleftrightarrow>
     map_wf (gt_reservations s) \<and> map_wf (gt_records s) \<and> map_wf (gt_session_ids_by_account s) \<and> map_wf (gt_session_ids_by_avatar s) \<and>
     (\<forall>k r. map_find (gt_records s) k = Some r \<longrightarrow> record_ok s k r) \<and>
     (\<forall>a k. map_find (gt_session_ids_by_avatar s) a = Some k \<longrightarrow>
        a \<noteq> [] \<and> (\<exists>r. map_find (gt_records s) k = Some r \<and> csr_avatar_id r = a)) \<and>
     (\<forall>a k. map_find (gt_session_ids_by_account s) a = Some k \<longrightarrow>
        (\<exists>r. map_find (gt_records s) k = Some r \<and> csr_account_id r = a))"

text \<open>What belongs to a client for as long as it is connected: its conversation and its account.\<close>

definition holder :: "GateNode \<Rightarrow> u64 \<Rightarrow> (u32 \<times> string) option" where
  "holder s k = map_option (\<lambda>r. (csr_conversation r, csr_account_id r)) (map_find (gt_records s) k)"

definition gate_kept :: "GateNode \<Rightarrow> GateNode \<Rightarrow> bool" where
  "gate_kept s t \<longleftrightarrow> (books_ok s \<longrightarrow> books_ok t) \<and> gt_reservations t = gt_reservations s \<and> holder t = holder s \<and>
     sn_node_id t = sn_node_id s \<and> rel_option clients_kept (gt_client_network s) (gt_client_network t)"

named_theorems kept_intros \<open>what an operation keeps of the books\<close>

lemma same_books_ok:
  assumes "same_books s t"
  shows "books_ok t = books_ok s" "holder t = holder s"
proof -
  have eq: "gt_reservations t = gt_reservations s" "gt_records t = gt_records s" "sn_node_id t = sn_node_id s"
    "gt_session_ids_by_account t = gt_session_ids_by_account s" "gt_session_ids_by_avatar t = gt_session_ids_by_avatar s"
    using assms by (simp_all add: same_books_def)
  have rec: "record_ok t = record_ok s" by (intro ext) (simp only: record_ok_def eq)
  show "books_ok t = books_ok s" by (simp only: books_ok_def rec eq)
  show "holder t = holder s" by (intro ext) (simp only: holder_def eq)
qed

lemma gate_kept_frame: "gate_frame s t \<Longrightarrow> gate_kept s t"
  using same_books_ok [of s t] by (simp add: gate_kept_def gate_frame_def same_books_def)

lemma rel_clients_trans:
  "rel_option clients_kept l m \<Longrightarrow> rel_option clients_kept m n \<Longrightarrow> rel_option clients_kept l n"
  by (cases l; cases m; cases n) (auto intro: clients.rel_trans)

lemma gate_kept_trans: "gate_kept s t \<Longrightarrow> gate_kept t u \<Longrightarrow> gate_kept s u"
  unfolding gate_kept_def using rel_clients_trans by metis

lemma gate_kept_refl [kept_intros]: "gate_kept s s"
  by (simp add: gate_kept_frame frame_intros)

text \<open>Whatever keeps the frame keeps the books.\<close>

lemma kept_of_frame: "gate_kept s t \<Longrightarrow> gate_frame t u \<Longrightarrow> gate_kept s u"
  by (blast intro: gate_kept_trans gate_kept_frame)

lemma books_okD:
  assumes "books_ok s"
  shows "map_find (gt_records s) k = Some r \<Longrightarrow> record_ok s k r"
    "map_find (gt_session_ids_by_avatar s) a = Some k \<Longrightarrow> a \<noteq> []"
    "map_find (gt_session_ids_by_avatar s) a = Some k \<Longrightarrow> \<exists>r. map_find (gt_records s) k = Some r \<and> csr_avatar_id r = a"
    "map_find (gt_session_ids_by_account s) a = Some k \<Longrightarrow> \<exists>r. map_find (gt_records s) k = Some r \<and> csr_account_id r = a"
    "map_wf (gt_reservations s)" "map_wf (gt_records s)" "map_wf (gt_session_ids_by_account s)"
    "map_wf (gt_session_ids_by_avatar s)"
  using assms unfolding books_ok_def by blast+

lemma books_okI:
  assumes "map_wf (gt_reservations s)" "map_wf (gt_records s)" "map_wf (gt_session_ids_by_account s)"
    "map_wf (gt_session_ids_by_avatar s)"
    and "\<And>k r. map_find (gt_records s) k = Some r \<Longrightarrow> record_ok s k r"
    and "\<And>a k. map_find (gt_session_ids_by_avatar s) a = Some k \<Longrightarrow>
      a \<noteq> [] \<and> (\<exists>r. map_find (gt_records s) k = Some r \<and> csr_avatar_id r = a)"
    and "\<And>a k. map_find (gt_session_ids_by_account s) a = Some k \<Longrightarrow>
      \<exists>r. map_find (gt_records s) k = Some r \<and> csr_account_id r = a"
  shows "books_ok s"
  using assms unfolding books_ok_def by blast

text \<open>Records change in three ways: the time of the last activity, a selection and its confirmation.\<close>

lemma kept_modify_record:
  assumes "gate_kept s t"
    and f: "\<And>r. map_find (gt_records t) k = Some r \<Longrightarrow> csr_conversation (f r) = csr_conversation r \<and>
      csr_account_id (f r) = csr_account_id r \<and> csr_avatar_id (f r) = csr_avatar_id r \<and>
      (record_ok t k r \<longrightarrow> record_ok t k (f r))"
  shows "gate_kept s (modify_record k f t)"
proof (rule gate_kept_trans [OF assms(1)])
  have rec: "map_find (gt_records (modify_record k f t)) = (map_find (gt_records t))(k := map_option f (map_find (gt_records t) k))"
    by (simp add: modify_record_def map_find_modify)
  have ok: "record_ok (modify_record k f t) = record_ok t"
    by (simp add: fun_eq_iff record_ok_def modify_record_def)
  have "holder (modify_record k f t) = holder t"
  proof (rule ext)
    show "holder (modify_record k f t) j = holder t j" for j
      using f by (cases "map_find (gt_records t) k") (simp_all add: holder_def rec)
  qed
  moreover have "books_ok (modify_record k f t)" if b: "books_ok t"
  proof -
    have now: "\<exists>r'. map_find (gt_records (modify_record k f t)) j = Some r' \<and>
        csr_avatar_id r' = csr_avatar_id r \<and> csr_account_id r' = csr_account_id r"
      if "map_find (gt_records t) j = Some r" for j r
      using that f by (cases "j = k") (simp_all add: rec)
    have same: "gt_reservations (modify_record k f t) = gt_reservations t"
        "gt_session_ids_by_account (modify_record k f t) = gt_session_ids_by_account t"
        "gt_session_ids_by_avatar (modify_record k f t) = gt_session_ids_by_avatar t"
      by (simp_all add: modify_record_def)
    show ?thesis
    proof (rule books_okI, unfold same ok)
      show "map_wf (gt_records (modify_record k f t))"
        using books_okD(6) [OF b] by (simp add: modify_record_def map_wf_modify)
    next
      fix j r
      assume "map_find (gt_records (modify_record k f t)) j = Some r"
      with f books_okD(1) [OF b] show "record_ok t j r" by (cases "j = k") (auto simp: rec)
    next
      fix a j
      assume "map_find (gt_session_ids_by_avatar t) a = Some j"
      from books_okD(2,3) [OF b this]
      show "a \<noteq> [] \<and> (\<exists>r. map_find (gt_records (modify_record k f t)) j = Some r \<and> csr_avatar_id r = a)"
        using now by metis
    next
      fix a j
      assume "map_find (gt_session_ids_by_account t) a = Some j"
      from books_okD(4) [OF b this]
      show "\<exists>r. map_find (gt_records (modify_record k f t)) j = Some r \<and> csr_account_id r = a"
        using now by metis
    qed (use books_okD(5,7,8) [OF b] in simp_all)
  qed
  ultimately show "gate_kept t (modify_record k f t)"
    by (cases "gt_client_network t") (simp_all add: gate_kept_def modify_record_def)
qed

lemma kept_touch_record [kept_intros]:
  "gate_kept s t \<Longrightarrow> gate_kept s (modify_record k (\<lambda>r. r\<lparr>csr_last_active_unix_ms := at_ms\<rparr>) t)"
  by (rule kept_modify_record) (auto simp: record_ok_def)

text \<open>A selection takes an avatar that nobody has; it is given back when the game could not create it.\<close>

lemma kept_select:
  assumes s: "gate_kept s t" and r: "map_find (gt_records t) k = Some r" "csr_avatar_id r = []"
    and a: "map_find (gt_session_ids_by_avatar t) a \<in> {None, Some k}" "a \<noteq> []" "g \<noteq> []"
  shows "gate_kept s ((modify_record k (\<lambda>_. r\<lparr>csr_avatar_id := a, csr_game_node_id := g,
        csr_pending_select_avatar_seq := q, csr_last_active_unix_ms := n\<rparr>) t)
      \<lparr>gt_session_ids_by_account := map_put (csr_account_id r) k (gt_session_ids_by_account t),
       gt_session_ids_by_avatar := map_put a k (gt_session_ids_by_avatar t)\<rparr>)" (is "gate_kept s ?t")
proof (rule gate_kept_trans [OF s])
  define u where "u = ?t"
  have same: "sn_node_id u = sn_node_id t" "gt_reservations u = gt_reservations t"
    by (simp_all add: u_def modify_record_def)
  have rec: "map_find (gt_records u) = (map_find (gt_records t))(k \<mapsto> r\<lparr>csr_avatar_id := a, csr_game_node_id := g,
        csr_pending_select_avatar_seq := q, csr_last_active_unix_ms := n\<rparr>)"
    by (simp add: u_def modify_record_def map_find_modify r)
  have "holder u j = holder t j" for j
    using r by (cases "j = k") (simp_all add: holder_def rec)
  moreover have "books_ok u" if b: "books_ok t"
  proof -
    have free: "map_find (gt_session_ids_by_avatar t) a = None"
      using a(1,2) books_okD(3) [OF b, of a k] r by auto
    have av: "map_find (gt_session_ids_by_avatar u) = (map_find (gt_session_ids_by_avatar t))(a \<mapsto> k)"
      and ac: "map_find (gt_session_ids_by_account u) = (map_find (gt_session_ids_by_account t))(csr_account_id r \<mapsto> k)"
      using books_okD(7,8) [OF b] by (simp_all add: u_def std_map_find)
    show ?thesis
    proof (rule books_okI)
      fix j r'
      assume j: "map_find (gt_records u) j = Some r'"
      show "record_ok u j r'"
      proof (cases "j = k")
        case True
        with j r books_okD(1) [OF b r(1)] a show ?thesis by (auto simp: rec record_ok_def av same)
      next
        case False
        with j have "map_find (gt_records t) j = Some r'" by (simp add: rec)
        from books_okD(1) [OF b this] free show ?thesis
          unfolding record_ok_def av by (auto simp: same)
      qed
    next
      fix a' j
      assume "map_find (gt_session_ids_by_avatar u) a' = Some j"
      then show "a' \<noteq> [] \<and> (\<exists>r. map_find (gt_records u) j = Some r \<and> csr_avatar_id r = a')"
        using books_okD(2,3) [OF b, of a' j] a r by (cases "a' = a"; cases "j = k") (auto simp: rec av)
    next
      fix a' j
      assume "map_find (gt_session_ids_by_account u) a' = Some j"
      then show "\<exists>r. map_find (gt_records u) j = Some r \<and> csr_account_id r = a'"
        using books_okD(4) [OF b, of a' j] r by (cases "a' = csr_account_id r"; cases "j = k") (auto simp: rec ac)
    qed (use books_okD(5-8) [OF b] in \<open>simp_all add: u_def modify_record_def map_wf_modify map_wf_put\<close>)
  qed
  moreover have "gt_client_network u = gt_client_network t" by (simp add: u_def modify_record_def)
  ultimately have "gate_kept t u"
    using same by (cases "gt_client_network t") (simp_all add: gate_kept_def fun_eq_iff)
  then show "gate_kept t ?t" by (simp only: u_def)
qed

lemma map_find_erase_index:
  "map_find (erase_index a k m) = (if a \<noteq> [] \<and> map_find m a = Some k then (map_find m)(a := None) else map_find m)"
  by (simp add: erase_index_def map_find_erase)

lemma map_wf_erase_index: "map_wf m \<Longrightarrow> map_wf (erase_index a k m)"
  by (simp add: erase_index_def map_wf_erase)

lemma kept_unselect:
  assumes s: "gate_kept s t" and r: "map_find (gt_records t) k = Some r"
  shows "gate_kept s ((modify_record k
        (\<lambda>r. r\<lparr>csr_avatar_id := [], csr_game_node_id := [], csr_pending_select_avatar_seq := 0\<rparr>) t)
      \<lparr>gt_session_ids_by_avatar := erase_index (csr_avatar_id r) k (gt_session_ids_by_avatar t)\<rparr>)" (is "gate_kept s ?t")
proof (rule gate_kept_trans [OF s])
  define u where "u = ?t"
  have same: "sn_node_id u = sn_node_id t" "gt_reservations u = gt_reservations t"
      "gt_session_ids_by_account u = gt_session_ids_by_account t"
    by (simp_all add: u_def modify_record_def)
  let ?r = "r\<lparr>csr_avatar_id := [], csr_game_node_id := [], csr_pending_select_avatar_seq := 0\<rparr>"
  have rec: "map_find (gt_records u) = (map_find (gt_records t))(k \<mapsto> ?r)"
    by (simp add: u_def modify_record_def map_find_modify r)
  have "holder u j = holder t j" for j
    using r by (cases "j = k") (simp_all add: holder_def rec)
  moreover have "books_ok u" if b: "books_ok t"
  proof -
    note rk = books_okD(1) [OF b r]
    have av: "map_find (gt_session_ids_by_avatar u) a = Some j \<longleftrightarrow>
        map_find (gt_session_ids_by_avatar t) a = Some j \<and> j \<noteq> k" for a j
      using rk books_okD(2,3) [OF b, of a j] r by (auto simp: u_def map_find_erase_index record_ok_def)
    show ?thesis
    proof (rule books_okI)
      fix j r'
      assume "map_find (gt_records u) j = Some r'"
      then show "record_ok u j r'"
        using rk books_okD(1) [OF b, of j r'] unfolding record_ok_def av
        by (cases "j = k") (auto simp: rec same)
    next
      fix a j
      assume "map_find (gt_session_ids_by_avatar u) a = Some j"
      then show "a \<noteq> [] \<and> (\<exists>r. map_find (gt_records u) j = Some r \<and> csr_avatar_id r = a)"
        using books_okD(2,3) [OF b, of a j] unfolding av by (auto simp: rec)
    next
      fix a j
      assume "map_find (gt_session_ids_by_account u) a = Some j"
      then show "\<exists>r. map_find (gt_records u) j = Some r \<and> csr_account_id r = a"
        using books_okD(4) [OF b, of a j] r by (cases "j = k") (auto simp: rec same)
    qed (use books_okD(5-8) [OF b] in \<open>simp_all add: u_def modify_record_def map_wf_modify map_wf_erase_index\<close>)
  qed
  moreover have "gt_client_network u = gt_client_network t" by (simp add: u_def modify_record_def)
  ultimately have "gate_kept t u"
    using same by (cases "gt_client_network t") (simp_all add: gate_kept_def fun_eq_iff)
  then show "gate_kept t ?t" by (simp only: u_def)
qed

section \<open>Messages of clients keep the books\<close>

lemma TryReadRequiredJsonString_nonempty:
  "TryReadRequiredJsonString j field_name output e = (True, Some text, e') \<Longrightarrow> text \<noteq> []"
  by (auto simp: TryReadRequiredJsonString_def Let_def split: if_splits option.splits json.splits)

lemma parse_select_avatar_nonempty: "parse_select_avatar env payload = Inr avatar_id \<Longrightarrow> avatar_id \<noteq> []"
  by (auto simp: parse_select_avatar_def IsCanonicalGuidText_def split: sum.splits if_splits)

lemma kept_SendClientSelectAvatarResult [kept_intros]:
  "gate_kept s t \<Longrightarrow> gate_kept s (snd (SendClientSelectAvatarResult env k seq ok account avatar game text t))"
  by (rule kept_of_frame, assumption) (intro frame_intros)

lemma frame_SendCreateAvatarEntityRequest [frame_intros]:
  "gate_frame s t \<Longrightarrow> gate_frame s (snd (SendCreateAvatarEntityRequest env r t))"
  unfolding SendCreateAvatarEntityRequest_def Let_def split_def
  by (auto intro!: frame_intros split: option.split)

lemma frame_ResolveAvatarGameNodeId [frame_intros]:
  "gate_frame s t \<Longrightarrow> gate_frame s (snd (ResolveAvatarGameNodeId env t))"
  by (auto simp: ResolveAvatarGameNodeId_def intro!: frame_intros)

text \<open>What a selection that is accepted has checked, and what it does.\<close>

lemma HandleClientSelectAvatarPacket_ok:
  assumes "HandleClientSelectAvatarPacket env k packet t = (Inr x, u)"
  obtains r a g n v where "map_find (gt_records t) k = Some r" "csr_avatar_id r = []"
    "map_find (gt_session_ids_by_avatar t) a \<in> {None, Some k}" "parse_select_avatar env (pv_payload packet) = Inr a"
    "g \<noteq> []" "gate_frame t v"
    "u = (modify_record k (\<lambda>_. r\<lparr>csr_avatar_id := a, csr_game_node_id := g,
        csr_pending_select_avatar_seq := ph_seq (pv_header packet), csr_last_active_unix_ms := n\<rparr>) v)
      \<lparr>gt_session_ids_by_account := map_put (csr_account_id r) k (gt_session_ids_by_account v),
       gt_session_ids_by_avatar := map_put a k (gt_session_ids_by_avatar v)\<rparr>"
proof -
  obtain r where r: "map_find (gt_records t) k = Some r" "csr_avatar_id r = []"
    using assms by (auto simp: HandleClientSelectAvatarPacket_def client_session_record_def split: if_splits option.splits)
  obtain a where a: "parse_select_avatar env (pv_payload packet) = Inr a"
      "map_find (gt_session_ids_by_avatar t) a \<in> {None, Some k}"
    using assms by (auto simp: HandleClientSelectAvatarPacket_def split: if_splits option.splits sum.splits)
  let ?g = "fst (ResolveAvatarGameNodeId env t)" and ?c = "CurrentUnixTimeMilliseconds (ge_node env) (snd (ResolveAvatarGameNodeId env t))"
  let ?r = "r\<lparr>csr_avatar_id := a, csr_game_node_id := ?g, csr_pending_select_avatar_seq := ph_seq (pv_header packet),
    csr_last_active_unix_ms := fst ?c\<rparr>"
  obtain y v where v: "SendCreateAvatarEntityRequest env ?r (snd ?c) = (y, v)" by fastforce
  have "?g \<noteq> [] \<and> u = (modify_record k (\<lambda>_. ?r) v)
      \<lparr>gt_session_ids_by_account := map_put (csr_account_id r) k (gt_session_ids_by_account v),
       gt_session_ids_by_avatar := map_put a k (gt_session_ids_by_avatar v)\<rparr>"
    using assms r a v unfolding HandleClientSelectAvatarPacket_def client_session_record_def Let_def split_def
    by (cases y) (auto split: if_splits)
  moreover have "gate_frame t v"
    using frame_SendCreateAvatarEntityRequest [of t "snd ?c" env ?r] by (simp add: v frame_intros(6) frame_intros)
  ultimately show ?thesis using that r a by blast
qed

lemma kept_HandleClientSelectAvatarPacket [kept_intros]:
  assumes "gate_kept s t"
  shows "gate_kept s (snd (HandleClientSelectAvatarPacket env k packet t))"
proof -
  obtain code u where h: "HandleClientSelectAvatarPacket env k packet t = (code, u)" by fastforce
  have "gate_kept t u"
  proof (cases code)
    case (Inl e)
    have "gate_frame t u"
      using h Inl unfolding HandleClientSelectAvatarPacket_def Let_def split_def
      by (auto intro!: frame_intros split: if_splits option.splits sum.splits)
    then show ?thesis by (rule gate_kept_frame)
  next
    case (Inr x)
    then have "HandleClientSelectAvatarPacket env k packet t = (Inr x, u)" using h by simp
    then show ?thesis
    proof (rule HandleClientSelectAvatarPacket_ok)
      fix r a g n v
      assume r: "map_find (gt_records t) k = Some r" "csr_avatar_id r = []" "map_find (gt_session_ids_by_avatar t) a \<in> {None, Some k}"
        and a: "parse_select_avatar env (pv_payload packet) = Inr a" "g \<noteq> []" and v: "gate_frame t v"
        and u: "u = (modify_record k (\<lambda>_. r\<lparr>csr_avatar_id := a, csr_game_node_id := g,
            csr_pending_select_avatar_seq := ph_seq (pv_header packet), csr_last_active_unix_ms := n\<rparr>) v)
          \<lparr>gt_session_ids_by_account := map_put (csr_account_id r) k (gt_session_ids_by_account v),
           gt_session_ids_by_avatar := map_put a k (gt_session_ids_by_avatar v)\<rparr>"
      have "gt_records v = gt_records t" "gt_session_ids_by_avatar v = gt_session_ids_by_avatar t"
        using v by (simp_all add: gate_frame_def same_books_def)
      with r show ?thesis
        unfolding u using a(2) parse_select_avatar_nonempty [OF a(1)]
        by (intro kept_select gate_kept_frame [OF v]) simp_all
    qed
  qed
  with assms show ?thesis by (simp add: h gate_kept_trans [OF assms])
qed

lemma kept_updates [kept_intros]:
  assumes "gate_kept s t"
  shows "gate_kept s (t\<lparr>sn_inner_network := net\<rparr>)" "gate_kept s (snd (CurrentUnixTimeMilliseconds nenv t))"
  by (rule kept_of_frame [OF assms], intro frame_intros)+

lemma kept_HandleClientEntityRpcPacket [kept_intros]:
  "gate_kept s t \<Longrightarrow> gate_kept s (snd (HandleClientEntityRpcPacket env k packet t))"
  unfolding HandleClientEntityRpcPacket_def Let_def split_def
  by (auto intro!: kept_intros split: option.split)

lemma kept_HandleClientPayloadReceived [kept_intros]:
  "gate_kept s t \<Longrightarrow> gate_kept s (HandleClientPayloadReceived env k payload t)"
  unfolding HandleClientPayloadReceived_def Let_def split_def
  by (auto intro!: kept_intros split: sum.split)

section \<open>Messages of games keep the books\<close>

lemma step_identity: "same_identity s (session_step op s)"
  by (cases op) (auto simp: session_step_def same_identity_def BeginAuthentication_def Activate_def BeginClosing_def
      session_Close_def SetRouteSelecting_def BindRoute_def MarkRouteLost_def ReleaseRoute_def Touch_def
      session_SetError_def session_ClearError_def Let_def)

lemma same_client_step: "same_client s (session_step op s)"
  using step_identity [of s op] session_step_keeps [of s op]
  by (auto simp: same_client_def same_identity_def session_conversation_def)

lemmas same_client_ops =
  same_client_step [of s "Do_Activate at_ms" for s at_ms, unfolded session_step_def session_do.simps]
  same_client_step [of s Do_SetRouteSelecting for s, unfolded session_step_def session_do.simps]
  same_client_step [of s "Do_BindRoute target" for s target, unfolded session_step_def session_do.simps]

lemma frame_modify_client_session:
  assumes "gate_frame s t" "find_client_session k t = Some c" "same_client c d"
  shows "gate_frame s (modify_client_session k (\<lambda>_. d) t)"
proof -
  obtain net where net: "gt_client_network t = Some net" "cn_FindSession k net = Some c"
    using assms(2) by (auto simp: find_client_session_def split: option.splits)
  have "clients_kept net (modify_client k (\<lambda>_. d) net)"
    by (rule clients.rel_modify) (use net(2) assms(3) in \<open>simp add: cn_FindSession_def\<close>)
  then have "gate_frame t (modify_client_session k (\<lambda>_. d) t)"
    using net(1) by (simp add: gate_frame_def same_books_def modify_client_session_def)
  then show ?thesis by (rule gate_frame_trans [OF assms(1)])
qed

lemma frame_select_route [frame_intros]:
  "gate_frame s t \<Longrightarrow> gate_frame s (snd (select_route k t))"
  by (auto simp: select_route_def split_def intro!: frame_modify_client_session same_client_ops split: option.split)

lemma frame_bind_route [frame_intros]:
  "gate_frame s t \<Longrightarrow> gate_frame s (snd (bind_route k game endpoint t))"
  by (auto simp: bind_route_def split_def intro!: frame_modify_client_session same_client_ops split: option.split)

lemma kept_rollback [kept_intros]:
  "gate_kept s t \<Longrightarrow> gate_kept s (rollback_pending_selection env k seq result text' notify t)"
  by (auto simp: rollback_pending_selection_def client_session_record_def Let_def
      intro!: kept_intros kept_unselect split: option.split)

lemma read_avatar_result_game: "read_avatar_result j = Some result \<Longrightarrow> ar_game_node_id result \<noteq> []"
  by (auto simp: read_avatar_result_def TryReadRequiredJsonString_def Let_def split: prod.splits if_splits option.splits json.splits)

lemma frame_records: "gate_frame s t \<Longrightarrow> gt_records t = gt_records s"
  by (simp add: gate_frame_def same_books_def)

lemma kept_confirm_avatar:
  assumes "map_find (gt_records t) (ar_session_id result) = Some r" "csr_pending_select_avatar_seq r \<noteq> 0"
    and "ar_game_node_id result \<noteq> []"
  shows "gate_kept t (confirm_avatar env seq result source t)"
proof -
  let ?k = "ar_session_id result"
  obtain sel t1 where t1: "select_route ?k t = (sel, t1)" by fastforce
  obtain bnd t2 where t2: "bind_route ?k (ar_game_node_id result) (ins_inner_network_endpoint source) t1 = (bnd, t2)" by fastforce
  obtain now t3 where t3: "CurrentUnixTimeMilliseconds (ge_node env) t2 = (now, t3)" by fastforce
  have f1: "gate_frame t t1" using frame_select_route [OF gate_frame_refl, of t ?k] by (simp add: t1)
  then have f2: "gate_frame t t2" using frame_bind_route [of t t1 ?k "ar_game_node_id result"] by (metis t2 snd_conv)
  then have f3: "gate_frame t t3" using frame_updates(6) [of t t2 "ge_node env"] by (simp add: t3)
  let ?t4 = "modify_record ?k (\<lambda>r. r\<lparr>csr_pending_select_avatar_seq := 0,
      csr_game_node_id := ar_game_node_id result, csr_last_active_unix_ms := now\<rparr>) t3"
  have "gate_kept t ?t4"
  proof (rule kept_modify_record [OF gate_kept_frame [OF f3]])
    fix r'
    assume "map_find (gt_records t3) ?k = Some r'"
    then have "r' = r" using assms(1) by (simp add: frame_records [OF f3])
    with assms(2,3) show "csr_conversation (r'\<lparr>csr_pending_select_avatar_seq := 0,
        csr_game_node_id := ar_game_node_id result, csr_last_active_unix_ms := now\<rparr>) = csr_conversation r' \<and>
      csr_account_id (r'\<lparr>csr_pending_select_avatar_seq := 0,
        csr_game_node_id := ar_game_node_id result, csr_last_active_unix_ms := now\<rparr>) = csr_account_id r' \<and>
      csr_avatar_id (r'\<lparr>csr_pending_select_avatar_seq := 0,
        csr_game_node_id := ar_game_node_id result, csr_last_active_unix_ms := now\<rparr>) = csr_avatar_id r' \<and>
      (record_ok t3 ?k r' \<longrightarrow> record_ok t3 ?k (r'\<lparr>csr_pending_select_avatar_seq := 0,
        csr_game_node_id := ar_game_node_id result, csr_last_active_unix_ms := now\<rparr>))"
      by (auto simp: record_ok_def)
  qed
  then show ?thesis
    using gate_kept_frame [OF f1] gate_kept_frame [OF f2]
    by (auto simp: confirm_avatar_def Let_def t1 t2 t3 intro!: kept_intros split: sum.split)
qed

lemma kept_create_result [kept_intros]:
  assumes "gate_kept s t"
  shows "gate_kept s (HandleGameAvatarEntityCreateResultMessage env routing_id payload t)"
proof (rule gate_kept_trans [OF assms])
  show "gate_kept t (HandleGameAvatarEntityCreateResultMessage env routing_id payload t)"
    unfolding HandleGameAvatarEntityCreateResultMessage_def Let_def client_session_record_def
    by (auto intro!: kept_intros dest: read_avatar_result_game intro: kept_confirm_avatar split: option.split sum.split)
qed

lemma kept_HandleGameMessage [kept_intros]:
  assumes "gate_kept s t"
  shows "gate_kept s (HandleGameMessage env routing_id payload t)"
proof -
  note f = gate_frame_refl [of t]
  note kept = frame_HandleGameRegisterMessage [OF f] frame_HandleGameHeartbeatMessage [OF f] frame_push [OF f] frame_relays [OF f]
  show ?thesis
    unfolding HandleGameMessage_def Let_def split_def
    by (simp add: assms kept_create_result [OF assms] kept [THEN kept_of_frame [OF assms]])
qed

section \<open>Opening a session\<close>

lemma map_find_filter:
  "map_wf m \<Longrightarrow> map_find (filter P m) k = (case map_find m k of None \<Rightarrow> None | Some v \<Rightarrow> if P (k, v) then Some v else None)"
  by (induction m) (auto simp: map_find_def map_wf_Cons map_of_eq_None_iff split: option.splits if_splits)

lemma map_wf_filter: "map_wf m \<Longrightarrow> map_wf (filter P m)"
  by (induction m) (auto simp: map_wf_Cons)

text \<open>A gate that only has fewer reservations.\<close>

lemma books_ok_reservations:
  assumes "books_ok s" "map_wf m"
  shows "books_ok (s\<lparr>gt_reservations := m\<rparr>)"
proof -
  have "record_ok (s\<lparr>gt_reservations := m\<rparr>) = record_ok s" by (intro ext) (simp add: record_ok_def)
  with books_okD [OF assms(1)] assms(2) show ?thesis by (intro books_okI) simp_all
qed

text \<open>When a reservation admits a client: it has not run out, and the client comes from where the login came from.\<close>

definition reservation_admits :: "u64 \<Rightarrow> Endpoint \<Rightarrow> ClientConversationReservation \<Rightarrow> bool" where
  "reservation_admits now remote r \<longleftrightarrow> \<not> reservation_expired now r \<and>
     (ccr_remote_address r = [] \<or> NormalizeClientAddress (ep_host remote) = ccr_remote_address r)"

lemma Prune_reservations:
  assumes "books_ok s"
  shows "books_ok (PruneExpiredClientConversationReservations now s)"
    and "map_find (gt_reservations (PruneExpiredClientConversationReservations now s)) c =
      (case map_find (gt_reservations s) c of None \<Rightarrow> None | Some r \<Rightarrow> if reservation_expired now r then None else Some r)"
  using assms books_okD(5) [OF assms]
  by (auto simp: PruneExpiredClientConversationReservations_def map_find_filter map_wf_filter intro: books_ok_reservations
      split: option.split)

text \<open>The books without the reservations.\<close>

definition same_records :: "GateNode \<Rightarrow> GateNode \<Rightarrow> bool" where
  "same_records s t \<longleftrightarrow> gt_records t = gt_records s \<and> gt_session_ids_by_account t = gt_session_ids_by_account s \<and>
     gt_session_ids_by_avatar t = gt_session_ids_by_avatar s \<and> sn_node_id t = sn_node_id s \<and>
     gt_client_network t = gt_client_network s"

lemma frame_books_ok: "gate_frame s t \<Longrightarrow> books_ok s \<Longrightarrow> books_ok t"
  using gate_kept_frame by (auto simp: gate_kept_def)

lemma CanOpenClientSession_effect:
  assumes b: "books_ok s" and h: "CanOpenClientSession env c remote s = (ok, t)"
  shows "books_ok t" "same_records s t"
    and "map_find (gt_reservations t) d \<in> {None, map_find (gt_reservations s) d}"
    and "ok \<Longrightarrow> \<exists>r. map_find (gt_reservations s) c = Some r \<and> map_find (gt_reservations t) c = Some r \<and>
      reservation_admits (fst (CurrentUnixTimeMilliseconds (ge_node env) s)) remote r"
proof -
  obtain now s1 where s1: "CurrentUnixTimeMilliseconds (ge_node env) s = (now, s1)" by fastforce
  have f: "gate_frame s s1" using frame_updates(6) [OF gate_frame_refl, of s "ge_node env"] by (simp add: s1)
  have same1: "gt_reservations s1 = gt_reservations s" "same_records s s1"
    using s1 by (auto simp: CurrentUnixTimeMilliseconds_def Let_def same_records_def)
  let ?p = "PruneExpiredClientConversationReservations now s1"
  note p = Prune_reservations [OF frame_books_ok [OF f b], of now]
  have same2: "same_records s ?p" using same1 by (simp add: PruneExpiredClientConversationReservations_def same_records_def)
  have t: "t = ?p \<or> t = ?p\<lparr>gt_reservations := map_erase c (gt_reservations ?p)\<rparr>"
    using h by (auto simp: CanOpenClientSession_def s1 Let_def split: option.splits if_splits)
  then show "books_ok t" using p(1) books_ok_reservations [OF p(1) map_wf_erase] books_okD(5) [OF p(1)] by auto
  show "same_records s t" using t same2 by (auto simp: same_records_def)
  show "map_find (gt_reservations t) d \<in> {None, map_find (gt_reservations s) d}"
    using t p(2) [of d] same1 by (auto simp: map_find_erase split: option.splits if_splits)
  assume ok
  with h obtain r where r: "map_find (gt_reservations ?p) c = Some r" "t = ?p" "reservation_admits now remote r"
    by (auto simp: CanOpenClientSession_def s1 Let_def reservation_admits_def split: option.splits if_splits)
  with p(2) [of c] same1
  show "\<exists>r. map_find (gt_reservations s) c = Some r \<and> map_find (gt_reservations t) c = Some r \<and>
      reservation_admits (fst (CurrentUnixTimeMilliseconds (ge_node env) s)) remote r"
    by (auto simp: s1 split: option.splits if_splits)
qed

text \<open>Clearing a record takes its avatar and its account out of the indices.\<close>

lemma clear_record_effect:
  assumes b: "books_ok s"
  shows "books_ok (ClearClientSessionRecord k s)"
    "map_find (gt_records (ClearClientSessionRecord k s)) = (map_find (gt_records s))(k := None)"
    "gt_reservations (ClearClientSessionRecord k s) = gt_reservations s"
    "sn_node_id (ClearClientSessionRecord k s) = sn_node_id s"
    "gt_client_network (ClearClientSessionRecord k s) = gt_client_network s"
proof -
  define u where "u = ClearClientSessionRecord k s"
  show rec: "map_find (gt_records (ClearClientSessionRecord k s)) = (map_find (gt_records s))(k := None)"
    by (auto simp: ClearClientSessionRecord_def map_find_erase fun_eq_iff split: option.split)
  have rec: "map_find (gt_records u) = (map_find (gt_records s))(k := None)" using rec by (simp add: u_def)
  show same: "gt_reservations (ClearClientSessionRecord k s) = gt_reservations s"
    "sn_node_id (ClearClientSessionRecord k s) = sn_node_id s"
    "gt_client_network (ClearClientSessionRecord k s) = gt_client_network s"
    by (simp_all add: ClearClientSessionRecord_def split: option.split)
  have av: "map_find (gt_session_ids_by_avatar u) a = Some j \<longleftrightarrow> map_find (gt_session_ids_by_avatar s) a = Some j \<and> j \<noteq> k" for a j
    using books_okD(2,3) [OF b, of a j]
    by (cases "map_find (gt_records s) k") (auto simp: u_def ClearClientSessionRecord_def map_find_erase_index)
  have ac: "map_find (gt_session_ids_by_account u) a = Some j \<longleftrightarrow> map_find (gt_session_ids_by_account s) a = Some j \<and> j \<noteq> k" for a j
    using books_okD(4) [OF b, of a j] books_okD(1) [OF b, of k]
    by (cases "map_find (gt_records s) k")
      (auto simp: u_def ClearClientSessionRecord_def map_find_erase_index record_ok_def)
  have "books_ok u"
  proof (rule books_okI)
    fix j r
    assume "map_find (gt_records u) j = Some r"
    then have "j \<noteq> k" "record_ok s j r" using books_okD(1) [OF b] by (auto simp: rec split: if_splits)
    moreover have "sn_node_id u = sn_node_id s" using same(2) by (simp add: u_def)
    ultimately show "record_ok u j r" by (auto simp: record_ok_def av)
  next
    fix a j
    assume "map_find (gt_session_ids_by_avatar u) a = Some j"
    then show "a \<noteq> [] \<and> (\<exists>r. map_find (gt_records u) j = Some r \<and> csr_avatar_id r = a)"
      using books_okD(2,3) [OF b, of a j] by (auto simp: av rec)
  next
    fix a j
    assume "map_find (gt_session_ids_by_account u) a = Some j"
    then show "\<exists>r. map_find (gt_records u) j = Some r \<and> csr_account_id r = a"
      using books_okD(4) [OF b, of a j] by (auto simp: ac rec)
  qed (use books_okD(5-8) [OF b] in
      \<open>simp_all add: u_def ClearClientSessionRecord_def map_wf_erase map_wf_erase_index split: option.split\<close>)
  then show "books_ok (ClearClientSessionRecord k s)" by (simp add: u_def)
qed

text \<open>Writing the record of a session that has none.\<close>

lemma books_ok_register:
  assumes b: "books_ok s" and free: "map_find (gt_records s) k = None"
    and r: "csr_session_id r = k" "csr_account_id r \<noteq> []" "csr_gate_node_id r = sn_node_id s" "\<not> csr_closed r"
      "csr_avatar_id r = []" "csr_game_node_id r = []" "csr_pending_select_avatar_seq r = 0"
  shows "books_ok (s\<lparr>gt_records := map_put k r (gt_records s),
    gt_session_ids_by_account := map_put (csr_account_id r) k (gt_session_ids_by_account s)\<rparr>)" (is "books_ok ?t")
proof -
  define u where "u = ?t"
  have rec: "map_find (gt_records u) = (map_find (gt_records s))(k \<mapsto> r)"
    and ac: "map_find (gt_session_ids_by_account u) = (map_find (gt_session_ids_by_account s))(csr_account_id r \<mapsto> k)"
    and same: "gt_session_ids_by_avatar u = gt_session_ids_by_avatar s" "sn_node_id u = sn_node_id s"
    using books_okD(6,7) [OF b] by (simp_all add: u_def std_map_find)
  have "books_ok u"
  proof (rule books_okI)
    fix j r'
    assume "map_find (gt_records u) j = Some r'"
    then show "record_ok u j r'"
      using books_okD(1) [OF b, of j r'] r by (cases "j = k") (auto simp: rec record_ok_def same)
  next
    fix a j
    assume "map_find (gt_session_ids_by_avatar u) a = Some j"
    then show "a \<noteq> [] \<and> (\<exists>r. map_find (gt_records u) j = Some r \<and> csr_avatar_id r = a)"
      using books_okD(2,3) [OF b, of a j] free by (auto simp: rec same)
  next
    fix a j
    assume "map_find (gt_session_ids_by_account u) a = Some j"
    then show "\<exists>r. map_find (gt_records u) j = Some r \<and> csr_account_id r = a"
      using books_okD(4) [OF b, of a j] free by (cases "a = csr_account_id r") (auto simp: rec ac)
  qed (use books_okD(5-8) [OF b] in \<open>simp_all add: u_def map_wf_put\<close>)
  then show ?thesis by (simp only: u_def)
qed

lemma TryRegister_effect:
  assumes b: "books_ok s" and h: "TryRegisterAuthenticatedClientSession env reservation session s = (ok, t)"
  shows "\<not> ok \<Longrightarrow> t = s"
    and "ok \<Longrightarrow> books_ok t \<and> gt_reservations t = gt_reservations s \<and> gt_client_network t = gt_client_network s \<and>
      sn_node_id t = sn_node_id s \<and> ccr_account reservation \<noteq> [] \<and>
      holder t = (holder s)(cs_session_id session \<mapsto> (session_conversation session, ccr_account reservation))"
proof -
  show "\<not> ok \<Longrightarrow> t = s" using h by (auto simp: TryRegisterAuthenticatedClientSession_def split: if_splits prod.splits)
  assume ok
  let ?k = "cs_session_id session"
  let ?c = "ClearClientSessionRecord ?k s"
  note c = clear_record_effect [OF b, of ?k]
  obtain now u where u: "CurrentUnixTimeMilliseconds (ge_node env) ?c = (now, u)" by fastforce
  have f: "gate_frame ?c u" using frame_updates(6) [OF gate_frame_refl, of ?c "ge_node env"] by (simp add: u)
  let ?r = "\<lparr>csr_session_id = ?k, csr_conversation = session_conversation session, csr_account_id = ccr_account reservation,
     csr_avatar_id = [], csr_game_node_id = [], csr_gate_node_id = sn_node_id u, csr_pending_select_avatar_seq = 0,
     csr_authenticated_at_unix_ms = now, csr_last_active_unix_ms = now, csr_closed = False\<rparr>"
  have acc: "ccr_account reservation \<noteq> []"
    and t: "t = u\<lparr>gt_records := map_put ?k ?r (gt_records u),
      gt_session_ids_by_account := map_put (csr_account_id ?r) ?k (gt_session_ids_by_account u)\<rparr>"
    using h \<open>ok\<close> by (auto simp: TryRegisterAuthenticatedClientSession_def u split: if_splits)
  have ub: "books_ok u" by (rule frame_books_ok [OF f c(1)])
  have urec: "map_find (gt_records u) = (map_find (gt_records s))(?k := None)"
    using c(2) frame_records [OF f] by simp
  have "books_ok t" unfolding t by (rule books_ok_register [OF ub]) (simp_all add: urec acc)
  moreover have "gt_reservations t = gt_reservations s" "gt_client_network t = gt_client_network s" "sn_node_id t = sn_node_id s"
    using c(3-5) u by (auto simp: t CurrentUnixTimeMilliseconds_def Let_def)
  moreover have "holder t j = ((holder s)(?k \<mapsto> (session_conversation session, ccr_account reservation))) j" for j
    using books_okD(6) [OF ub] by (simp add: holder_def t std_map_find urec)
  ultimately show "books_ok t \<and> gt_reservations t = gt_reservations s \<and> gt_client_network t = gt_client_network s \<and>
      sn_node_id t = sn_node_id s \<and> ccr_account reservation \<noteq> [] \<and>
      holder t = (holder s)(?k \<mapsto> (session_conversation session, ccr_account reservation))"
    using acc by blast
qed

lemma frame_client_network: "gate_frame s t \<Longrightarrow> rel_option clients_kept (gt_client_network s) (gt_client_network t)"
  by (simp add: gate_frame_def)

lemma frame_holder: "gate_frame s t \<Longrightarrow> holder t = holder s"
  by (intro ext) (simp add: holder_def frame_records)

lemma HandleClientSessionOpened_effect:
  assumes b: "books_ok s" and h: "HandleClientSessionOpened env k s = (ok, t)"
  shows "books_ok t" "rel_option clients_kept (gt_client_network s) (gt_client_network t)"
    and "\<not> ok \<Longrightarrow> gate_frame s t"
    and "ok \<Longrightarrow> \<exists>c r. find_client_session k s = Some c \<and> map_find (gt_reservations s) (session_conversation c) = Some r \<and>
      gt_reservations t = map_erase (session_conversation c) (gt_reservations s) \<and>
      holder t = (holder s)(cs_session_id c \<mapsto> (session_conversation c, ccr_account r)) \<and> ccr_account r \<noteq> []"
proof -
  have *: "books_ok t \<and> rel_option clients_kept (gt_client_network s) (gt_client_network t) \<and> (\<not> ok \<longrightarrow> gate_frame s t) \<and>
      (ok \<longrightarrow> (\<exists>c r. find_client_session k s = Some c \<and> map_find (gt_reservations s) (session_conversation c) = Some r \<and>
      gt_reservations t = map_erase (session_conversation c) (gt_reservations s) \<and>
      holder t = (holder s)(cs_session_id c \<mapsto> (session_conversation c, ccr_account r)) \<and> ccr_account r \<noteq> []))"
  proof (cases "t = s \<and> \<not> ok")
    case True
    then show ?thesis using b frame_client_network [OF gate_frame_refl] by (auto intro: frame_intros)
  next
    case False
    then obtain c r where c: "find_client_session k s = Some c" "map_find (gt_reservations s) (session_conversation c) = Some r"
        and adr: "\<not> (ccr_remote_address r \<noteq> [] \<and> NormalizeClientAddress (ep_host (cs_remote_endpoint c)) \<noteq> ccr_remote_address r)"
      using h by (auto simp: HandleClientSessionOpened_def split: option.splits if_splits)
    obtain now s1 where s1: "CurrentUnixTimeMilliseconds (ge_node env) s = (now, s1)" by fastforce
    obtain code d where d: "Activate now c = (code, d)" by fastforce
    have same: "same_client c d" using same_client_ops(1) [of c now] by (simp add: d)
    then have conv: "session_conversation d = session_conversation c" "cs_session_id d = cs_session_id c"
      by (simp_all add: same_client_def)
    let ?s2 = "modify_client_session k (\<lambda>_. d) s1"
    have "find_client_session k s1 = Some c"
      using c(1) s1 by (auto simp: find_client_session_def CurrentUnixTimeMilliseconds_def Let_def)
    moreover have "gate_frame s s1" using frame_updates(6) [OF gate_frame_refl, of s "ge_node env"] by (simp add: s1)
    ultimately have f2: "gate_frame s ?s2" using same frame_modify_client_session by blast
    obtain reg s3 where s3: "TryRegisterAuthenticatedClientSession env r d ?s2 = (reg, s3)" by fastforce
    note reg = TryRegister_effect [OF frame_books_ok [OF f2 b] s3]
    have res: "gt_reservations ?s2 = gt_reservations s" using f2 by (simp add: gate_frame_def same_books_def)
    show ?thesis
    proof (cases "code = Cs_None \<and> reg")
      case True
      then have "t = s3\<lparr>gt_reservations := map_erase (session_conversation c) (gt_reservations s3)\<rparr>" "ok"
        using h c adr by (auto simp: HandleClientSessionOpened_def s1 d s3 Let_def conv split: if_splits)
      moreover from True reg(2) have "books_ok s3" "gt_reservations s3 = gt_reservations s" "gt_client_network s3 = gt_client_network ?s2"
          "holder s3 = (holder s)(cs_session_id c \<mapsto> (session_conversation c, ccr_account r))" "ccr_account r \<noteq> []"
        by (simp_all add: res frame_holder [OF f2] conv)
      ultimately show ?thesis
        using c frame_client_network [OF f2] books_ok_reservations [OF \<open>books_ok s3\<close> map_wf_erase] books_okD(5) [OF \<open>books_ok s3\<close>]
        by (auto simp: holder_def fun_eq_iff)
    next
      case False
      then have "t = ?s2 \<and> \<not> ok"
        using h c adr reg(1) by (auto simp: HandleClientSessionOpened_def s1 d s3 Let_def conv split: if_splits)
      then show ?thesis using f2 frame_books_ok [OF f2 b] frame_client_network [OF f2] by auto
    qed
  qed
  then show "books_ok t" "rel_option clients_kept (gt_client_network s) (gt_client_network t)" "\<not> ok \<Longrightarrow> gate_frame s t"
    by simp_all
  assume ok
  with * show "\<exists>c r. find_client_session k s = Some c \<and> map_find (gt_reservations s) (session_conversation c) = Some r \<and>
      gt_reservations t = map_erase (session_conversation c) (gt_reservations s) \<and>
      holder t = (holder s)(cs_session_id c \<mapsto> (session_conversation c, ccr_account r)) \<and> ccr_account r \<noteq> []" by simp
qed

section \<open>The gate as the owner of its client network\<close>

definition gate_good :: "GateNode \<Rightarrow> bool" where
  "gate_good s \<longleftrightarrow> books_ok s \<and> gt_client_network s \<noteq> None"

text \<open>The network changes when the gate answers a client, and only then.\<close>

lemma client_network_same [simp]:
  "gt_client_network (snd (CurrentUnixTimeMilliseconds nenv s)) = gt_client_network s"
  "gt_client_network (modify_record k f s) = gt_client_network s"
  "gt_client_network (snd (ResolveAvatarGameNodeId env s)) = gt_client_network s"
  by (simp_all add: CurrentUnixTimeMilliseconds_def modify_record_def ResolveAvatarGameNodeId_def Let_def)

lemma client_network_requests [simp]:
  "gt_client_network (snd (SendCreateAvatarEntityRequest env r s)) = gt_client_network s"
  "gt_client_network (snd (HandleClientEntityRpcPacket env k packet s)) = gt_client_network s"
  unfolding SendCreateAvatarEntityRequest_def HandleClientEntityRpcPacket_def Let_def split_def
  by (auto split: option.split)

lemma client_network_select [simp]:
  "gt_client_network (snd (HandleClientSelectAvatarPacket env k packet s)) = gt_client_network s"
  unfolding HandleClientSelectAvatarPacket_def Let_def split_def
  by (auto split: option.split sum.split)

definition queues_kept :: "ikcp \<Rightarrow> ClientNetwork ptr \<Rightarrow> ClientNetwork ptr \<Rightarrow> bool" where
  "queues_kept lib m n \<longleftrightarrow> rel_option (sessions_rel (no_longer_queue lib)) m n"

lemma queues_kept_refl [simp]: "queues_kept lib m m"
  by (cases m) (simp_all add: queues_kept_def queues.rel_refl)

lemma queues_kept_answer:
  "queues_kept (ce_kcp (ge_client env)) (gt_client_network s)
    (gt_client_network (snd (SendClientSelectAvatarResult env k seq ok account avatar game text' s)))"
proof (cases "gt_client_network s")
  case None
  then show ?thesis by (simp add: SendClientSelectAvatarResult_def)
next
  case (Some net)
  have "sessions_rel (no_longer_queue (ce_kcp (ge_client env))) net
      (fst (snd (SendPayload (client_env_of env) k packet net io)))" for packet io
    using queues.rel_SendPayload [of "client_env_of env"] by (simp add: client_env_of_def)
  then show ?thesis
    using Some unfolding SendClientSelectAvatarResult_def Let_def split_def client_call_def
    by (simp add: queues_kept_def queues.rel_refl gate_set_io_def)
qed

lemma queues_kept_payload:
  "queues_kept (ce_kcp (ge_client env)) (gt_client_network s) (gt_client_network (HandleClientPayloadReceived env k payload s))"
proof -
  have "queues_kept (ce_kcp (ge_client env)) (gt_client_network s) (gt_client_network (snd
      (SendClientSelectAvatarResult env k seq False account avatar game text' (snd (HandleClientSelectAvatarPacket env k packet t)))))"
    if "gt_client_network t = gt_client_network s" for t seq account avatar game text' packet
    using queues_kept_answer [of env "snd (HandleClientSelectAvatarPacket env k packet t)"] that by simp
  then show ?thesis
    unfolding HandleClientPayloadReceived_def Let_def split_def by (auto split: sum.split)
qed

lemma gate_good_set_net [simp]: "gate_good s \<Longrightarrow> gate_good (s\<lparr>gt_client_network := Some net\<rparr>)"
  using same_books_ok [of s "s\<lparr>gt_client_network := Some net\<rparr>"] by (simp add: gate_good_def same_books_def)

lemma gate_good_set_io: "gate_good s \<Longrightarrow> gate_good (gate_set_io io s)"
  using same_books_ok [of s "gate_set_io io s"] by (simp add: gate_good_def same_books_def gate_set_io_def)

lemma gate_net_kept:
  assumes "gate_good s" "rel_option clients_kept (gt_client_network s) (gt_client_network t)" "books_ok t"
  shows "clients_kept (gate_net s) (gate_net t) \<and> gate_good t"
  using assms by (cases "gt_client_network s"; cases "gt_client_network t") (simp_all add: gate_good_def gate_net_def)

lemma gate_host_simps [simp]:
  "ch_net (gate_host env) = gate_net" "ch_set_net (gate_host env) net s = s\<lparr>gt_client_network := Some net\<rparr>"
  "ch_io (gate_host env) = gate_io" "ch_set_io (gate_host env) = gate_set_io"
  "CanOpenSession (gate_host env) = CanOpenClientSession env"
  "HandleSessionOpened (gate_host env) = HandleClientSessionOpened env"
  "HandleSessionPayload (gate_host env) = HandleClientPayloadReceived env"
  by (simp_all add: gate_host_def CanOpenSession_def HandleSessionOpened_def HandleSessionPayload_def fun_eq_iff)

lemma gate_net_simps [simp]:
  "gate_net (s\<lparr>gt_client_network := Some net\<rparr>) = net" "gate_net (gate_set_io io s) = gate_net s"
  by (simp_all add: gate_net_def gate_set_io_def)

interpretation gate: client_owner "gate_host env" "ce_kcp (ge_client env)" gate_good for env
proof (unfold_locales, unfold gate_host_simps)
  fix s c r
  assume good: "gate_good s"
  obtain ok t where t: "CanOpenClientSession env c r s = (ok, t)" by fastforce
  have b: "books_ok s" using good by (simp add: gate_good_def)
  have "gt_client_network t = gt_client_network s" "books_ok t"
    using CanOpenClientSession_effect(1,2) [OF b t] by (simp_all add: same_records_def)
  with good show "clients_kept (gate_net s) (gate_net (snd (CanOpenClientSession env c r s))) \<and>
      gate_good (snd (CanOpenClientSession env c r s))"
    by (simp add: t gate_net_def gate_good_def)
next
  fix s k
  assume good: "gate_good s"
  obtain ok t where t: "HandleClientSessionOpened env k s = (ok, t)" by fastforce
  have "books_ok s" using good by (simp add: gate_good_def)
  note h = HandleClientSessionOpened_effect [OF this t]
  show "clients_kept (gate_net s) (gate_net (snd (HandleClientSessionOpened env k s))) \<and>
      gate_good (snd (HandleClientSessionOpened env k s))"
    using gate_net_kept [OF good h(2,1)] by (simp add: t)
next
  fix s k p
  assume good: "gate_good s"
  let ?t = "HandleClientPayloadReceived env k p s"
  have "gate_kept s ?t" by (intro kept_intros)
  moreover from this good have "books_ok ?t" by (simp add: gate_kept_def gate_good_def)
  ultimately have "clients_kept (gate_net s) (gate_net ?t) \<and> gate_good ?t"
    by (intro gate_net_kept [OF good]) (simp_all add: gate_kept_def)
  moreover have "sessions_rel (no_longer_queue (ce_kcp (ge_client env))) (gate_net s) (gate_net ?t)"
    using queues_kept_payload [of env s k p] good calculation
    by (cases "gt_client_network s"; cases "gt_client_network ?t") (simp_all add: queues_kept_def gate_net_def gate_good_def)
  ultimately show "clients_kept (gate_net s) (gate_net ?t) \<and>
      sessions_rel (no_longer_queue (ce_kcp (ge_client env))) (gate_net s) (gate_net ?t) \<and> gate_good ?t"
    by simp
qed (simp_all add: gate_good_set_io)

section \<open>Every session has a record and a conversation of its own\<close>

text \<open>A conversation is reserved, or it belongs to one session, which has a record; never both.\<close>

definition clients_linked :: "GateNode \<Rightarrow> bool" where
  "clients_linked s \<longleftrightarrow>
     (\<forall>k c. cn_FindSession k (gate_net s) = Some c \<longrightarrow>
        map_find (gt_reservations s) (session_conversation c) = None \<and> (\<exists>a. holder s k = Some (session_conversation c, a))) \<and>
     (\<forall>k k' c c'. cn_FindSession k (gate_net s) = Some c \<longrightarrow> cn_FindSession k' (gate_net s) = Some c' \<longrightarrow>
        session_conversation c = session_conversation c' \<longrightarrow> k = k')"

lemma clients_linkedD:
  assumes "clients_linked s" "cn_FindSession k (gate_net s) = Some c"
  shows "map_find (gt_reservations s) (session_conversation c) = None" "\<exists>a. holder s k = Some (session_conversation c, a)"
    "cn_FindSession k' (gate_net s) = Some c' \<Longrightarrow> session_conversation c = session_conversation c' \<Longrightarrow> k = k'"
  using assms unfolding clients_linked_def by blast+

lemma clients_linked_kept:
  assumes "clients_linked s"
    and sub: "\<And>k d. cn_FindSession k (gate_net t) = Some d \<Longrightarrow> \<exists>c. cn_FindSession k (gate_net s) = Some c \<and> same_client c d"
    and res: "\<And>d. map_find (gt_reservations t) d \<in> {None, map_find (gt_reservations s) d}"
    and hold: "holder t = holder s"
  shows "clients_linked t"
proof -
  have conv: "\<exists>c. cn_FindSession k (gate_net s) = Some c \<and> session_conversation d = session_conversation c"
    if "cn_FindSession k (gate_net t) = Some d" for k d
    using sub [OF that] by (auto simp: same_client_def)
  show ?thesis
    unfolding clients_linked_def
  proof (intro conjI allI impI)
    fix k d
    assume "cn_FindSession k (gate_net t) = Some d"
    from conv [OF this] obtain c where c: "cn_FindSession k (gate_net s) = Some c" "session_conversation d = session_conversation c" by blast
    show "map_find (gt_reservations t) (session_conversation d) = None"
      using clients_linkedD(1) [OF assms(1) c(1)] res [of "session_conversation d"] c(2) by auto
    show "\<exists>a. holder t k = Some (session_conversation d, a)"
      using clients_linkedD(2) [OF assms(1) c(1)] c(2) by (simp add: hold)
  next
    fix k k' d d'
    assume "cn_FindSession k (gate_net t) = Some d" "cn_FindSession k' (gate_net t) = Some d'"
      "session_conversation d = session_conversation d'"
    with conv clients_linkedD(3) [OF assms(1)] show "k = k'" by metis
  qed
qed

text \<open>There are not more sessions than conversations.\<close>

lemma clients_linked_bound:
  assumes "clients_linked s" "clients_inv (gate_net s)"
  shows "length (cn_sessions (gate_net s)) < 2 ^ 64 - 1"
proof -
  let ?m = "map_find (cn_sessions (gate_net s))"
  have "inj_on (\<lambda>k. session_conversation (the (?m k))) (dom ?m)"
  proof (rule inj_onI)
    fix k k'
    assume "k \<in> dom ?m" "k' \<in> dom ?m" "session_conversation (the (?m k)) = session_conversation (the (?m k'))"
    then show "k = k'" using clients_linkedD(3) [OF assms(1)] by (auto simp: cn_FindSession_def)
  qed
  then have "card (dom ?m) \<le> card (UNIV :: u32 set)"
    by (rule card_inj_on_le) simp_all
  moreover have "length (cn_sessions (gate_net s)) = card (dom ?m)"
    using assms(2) by (simp add: clients_inv_def length_map_wf)
  ultimately show ?thesis by (simp add: card_word)
qed

lemma clients_linked_after:
  assumes "after_open (gate_host env) s t" "gate_good s" "clients_inv (gate_net s)" "clients_linked s"
  shows "clients_linked t \<and> gt_reservations t = gt_reservations s \<and> holder t = holder s"
  using assms
proof (induction rule: after_open.induct)
  case (after_traffic s t n)
  let ?t = "t\<lparr>gt_client_network := Some n\<rparr>"
  have "clients_linked ?t"
  proof (rule clients_linked_kept [of t])
    fix k d
    assume "cn_FindSession k (gate_net ?t) = Some d"
    then show "\<exists>c. cn_FindSession k (gate_net t) = Some c \<and> same_client c d"
      using sessions_rel_before after_traffic.hyps(2) by (auto simp del: split_paired_Ex)
  qed (use after_traffic in \<open>auto simp: holder_def fun_eq_iff\<close>)
  moreover have "holder ?t = holder t" by (simp add: holder_def fun_eq_iff)
  ultimately show ?case using after_traffic by simp
next
  case (after_remove s t k)
  let ?t = "ch_modify_net (gate_host env) (snd \<circ> RemoveSession k) t"
  have h: "holder ?t = holder t" "gt_reservations ?t = gt_reservations t"
    by (simp_all add: holder_def fun_eq_iff ch_modify_net_def)
  have "clients_linked ?t"
  proof (rule clients_linked_kept [of t])
    fix j d
    assume "cn_FindSession j (gate_net ?t) = Some d"
    then show "\<exists>c. cn_FindSession j (gate_net t) = Some c \<and> same_client c d"
      by (auto simp: ch_modify_net_def RemoveSession_def cn_FindSession_def map_find_erase split: option.splits if_splits)
  qed (use after_remove h in auto)
  with after_remove h show ?case by simp
next
  case (after_payload s t k p)
  let ?t = "HandleClientPayloadReceived env k p t"
  have k: "gate_kept t ?t" by (intro kept_intros)
  have "gate_good t" using gate.after_open_inv [OF after_payload.hyps(1)] after_payload.prems by simp
  with gate_net_kept [OF this, of ?t] k have "clients_kept (gate_net t) (gate_net ?t)"
    by (auto simp: gate_kept_def gate_good_def)
  from sessions_rel_before [OF this] have "clients_linked ?t"
    using after_payload k by (intro clients_linked_kept [of t ?t]) (auto simp: gate_kept_def)
  with after_payload k show ?case by (simp add: gate_kept_def)
qed simp

text \<open>
  The new session of a reserved conversation: it takes the conversation over from the reservation.
\<close>

lemma clients_linked_opened:
  assumes s: "clients_linked s" "clients_inv (gate_net s)"
    and new: "map_find (cn_sessions (gate_net s)) k = None" "map_find (gt_reservations s) (session_conversation c) = Some r"
    and kept: "\<And>j d. cn_FindSession j (gate_net t) = Some d \<Longrightarrow>
      \<exists>c'. ((map_find (cn_sessions (gate_net s)))(k \<mapsto> c)) j = Some c' \<and> same_client c' d"
    and t: "gt_reservations t = map_erase (session_conversation c) (gt_reservations s)"
      "holder t = (holder s)(k \<mapsto> (session_conversation c, a))"
  shows "clients_linked t"
proof -
  have other: "session_conversation c' \<noteq> session_conversation c" if "cn_FindSession j (gate_net s) = Some c'" for j c'
    using clients_linkedD(1) [OF s(1) that] new(2) by auto
  have before: "if j = k then session_conversation d = session_conversation c
      else \<exists>c'. cn_FindSession j (gate_net s) = Some c' \<and> session_conversation d = session_conversation c'"
    if "cn_FindSession j (gate_net t) = Some d" for j d
    using kept [OF that] by (auto simp: same_client_def cn_FindSession_def)
  show ?thesis
    unfolding clients_linked_def
  proof (intro conjI allI impI)
    fix j d
    assume d: "cn_FindSession j (gate_net t) = Some d"
    have "session_conversation d = session_conversation c \<and> j = k \<or>
        map_find (gt_reservations s) (session_conversation d) = None"
      using before [OF d] clients_linkedD(1) [OF s(1)] by (auto split: if_splits)
    then show "map_find (gt_reservations t) (session_conversation d) = None"
      by (auto simp: t(1) map_find_erase)
    show "\<exists>a. holder t j = Some (session_conversation d, a)"
      using before [OF d] clients_linkedD(2) [OF s(1)] by (auto simp: t(2) split: if_splits)
  next
    fix j j' d d'
    assume d: "cn_FindSession j (gate_net t) = Some d" "cn_FindSession j' (gate_net t) = Some d'"
      "session_conversation d = session_conversation d'"
    show "j = j'"
      using before [OF d(1)] before [OF d(2)] d(3) other clients_linkedD(3) [OF s(1)] by (metis (full_types))
  qed
qed

text \<open>What opening a session for a datagram does.\<close>

definition opened_for :: "GateNode \<Rightarrow> u64 \<Rightarrow> Endpoint \<Rightarrow> u32 \<Rightarrow> u64 \<Rightarrow> GateNode \<Rightarrow> bool" where
  "opened_for s now remote conversation k t \<longleftrightarrow> (\<exists>r. map_find (gt_reservations s) conversation = Some r \<and>
     reservation_admits now remote r \<and> map_find (gt_reservations t) conversation = None \<and>
     holder t k = Some (conversation, ccr_account r) \<and> ccr_account r \<noteq> [])"

lemma gate_open_session:
  assumes good: "gate_good s" and inv: "clients_inv (gate_net s)" and linked: "clients_linked s"
    and h: "open_session cenv (gate_host env) conversation remote now s = (result, t)"
  shows "clients_linked t"
    and "cn_FindSession k (gate_net t) = Some d \<Longrightarrow> cn_FindSession k (gate_net s) = None \<Longrightarrow>
      session_conversation d = conversation \<and>
      opened_for s (fst (CurrentUnixTimeMilliseconds (ge_node env) s)) remote conversation k t"
proof -
  have b: "books_ok s" using good by (simp add: gate_good_def)
  obtain adm s1 where s1: "CanOpenClientSession env conversation remote s = (adm, s1)" by fastforce
  note e = CanOpenClientSession_effect [OF b s1]
  have net1: "gate_net s1 = gate_net s" "holder s1 = holder s" "gt_client_network s1 = gt_client_network s"
    using e(2) by (simp_all add: same_records_def gate_net_def holder_def fun_eq_iff)
  have linked1: "clients_linked s1" by (rule clients_linked_kept [OF linked _ e(3) net1(2)]) (auto simp: net1)
  obtain code sid n io where cr: "CreateSession cenv conversation remote (Some 0) now (gate_net s) (gate_io s1) = (code, sid, n, io)"
    by (metis prod_cases4)
  let ?s2 = "gate_set_io io (s1\<lparr>gt_client_network := Some n\<rparr>)"
  have same2: "holder ?s2 = holder s1" "gt_reservations ?s2 = gt_reservations s1" "gt_client_network ?s2 = Some n"
      "books_ok ?s2 = books_ok s1"
    using same_books_ok [of s1 ?s2] good net1(3)
    by (simp_all add: holder_def fun_eq_iff gate_set_io_def same_books_def)
  obtain op s3 where s3: "HandleClientSessionOpened env (the sid) ?s2 = (op, s3)" by fastforce
  have b2: "books_ok ?s2" using e(1) same2 by simp
  note o = HandleClientSessionOpened_effect [OF b2 s3]
  have quiet: "clients_linked t \<and> (\<forall>k d. cn_FindSession k (gate_net t) = Some d \<longrightarrow> cn_FindSession k (gate_net s) \<noteq> None)"
    if sub: "\<And>j d. cn_FindSession j (gate_net t) = Some d \<Longrightarrow> \<exists>c. cn_FindSession j (gate_net s1) = Some c \<and> same_client c d"
      and "gt_reservations t = gt_reservations s1" "holder t = holder s1"
  proof (intro conjI allI impI)
    show "clients_linked t" by (rule clients_linked_kept [OF linked1 sub]) (simp_all add: that)
    show "cn_FindSession k (gate_net s) \<noteq> None" if "cn_FindSession k (gate_net t) = Some d" for k d
      using sub [OF that] net1(1) by auto
  qed
  have claim: "clients_linked t \<and> (\<forall>k d. cn_FindSession k (gate_net t) = Some d \<longrightarrow> cn_FindSession k (gate_net s) = None \<longrightarrow>
      session_conversation d = conversation \<and>
      opened_for s (fst (CurrentUnixTimeMilliseconds (ge_node env) s)) remote conversation k t)"
  proof (cases "FindSessionByTransport conversation remote (gate_net s) \<noteq> None \<or> \<not> adm")
    case True
    then have "t = s \<or> t = s1" using h s1 by (auto simp: open_session_def split: option.splits)
    then show ?thesis using linked linked1 net1 by auto
  next
    case False
    with e(4) obtain r where r: "map_find (gt_reservations s) conversation = Some r" "map_find (gt_reservations s1) conversation = Some r"
        "reservation_admits (fst (CurrentUnixTimeMilliseconds (ge_node env) s)) remote r" by auto
    have t: "t = (if code \<noteq> Node_None then ?s2 else if \<not> op then ch_modify_net (gate_host env) (snd \<circ> RemoveSession (the sid)) s3 else s3)"
      using h False s1 cr s3 net1(1) by (auto simp: open_session_def Let_def split: if_splits)
    from inv clients_linked_bound [OF linked inv] cr show ?thesis
    proof (cases rule: CreateSession_cases)
      case refused
      have "\<exists>c. cn_FindSession j (gate_net s1) = Some c \<and> same_client c d" if "cn_FindSession j (gate_net t) = Some d" for j d
        using sessions_rel_before [OF refused(2)] that by (auto simp: t refused(1) net1)
      with quiet same2 refused(1) t show ?thesis by auto
    next
      case (created k c)
      have wf: "map_wf (cn_sessions (gate_net s))" using inv by (simp add: clients_inv_def)
      have sid: "the sid = k" using created(2) by simp
      have find2: "cn_FindSession j n = ((map_find (cn_sessions (gate_net s)))(k \<mapsto> c)) j" for j
        by (simp add: cn_FindSession_def created(7) map_find_put [OF wf])
      have rel3: "clients_kept n (gate_net s3)" "gt_client_network s3 \<noteq> None"
        using o(2) by (auto simp: same2 gate_net_def elim: option.rel_cases)
      have before3: "\<exists>c'. ((map_find (cn_sessions (gate_net s)))(k \<mapsto> c)) j = Some c' \<and> same_client c' d"
        if "cn_FindSession j (gate_net s3) = Some d" for j d
        using sessions_rel_before [OF rel3(1) that] by (simp add: find2)
      show ?thesis
      proof (cases op)
        case True
        have "find_client_session k ?s2 = Some c" by (simp add: find_client_session_def same2 find2)
        with o(4) [OF True] sid created(11)
        have o: "gt_reservations s3 = map_erase conversation (gt_reservations s1)"
            "holder s3 = (holder s1)(k \<mapsto> (conversation, ccr_account r))" "ccr_account r \<noteq> []"
          by (auto simp: same2 r(2) created(9))
        have "clients_linked s3"
          using clients_linked_opened [OF linked1, of k c r s3 "ccr_account r"] inv created(5,11) r(2) before3 o net1(1) by simp
        moreover have "opened_for s (fst (CurrentUnixTimeMilliseconds (ge_node env) s)) remote conversation k s3"
          using r o by (auto simp: opened_for_def map_find_erase)
        moreover have "j = k \<and> session_conversation d = conversation"
          if "cn_FindSession j (gate_net s3) = Some d" "cn_FindSession j (gate_net s) = None" for j d
          using before3 [OF that(1)] that(2) created(11) by (auto simp: cn_FindSession_def same_client_def split: if_splits)
        ultimately show ?thesis using True created(1) by (auto simp: t)
      next
        case False
        note f = o(3) [OF False]
        let ?t = "ch_modify_net (gate_host env) (snd \<circ> RemoveSession k) s3"
        have "\<exists>c'. cn_FindSession j (gate_net s1) = Some c' \<and> same_client c' d" if "cn_FindSession j (gate_net ?t) = Some d" for j d
        proof -
          have "cn_FindSession j (gate_net s3) = Some d" "j \<noteq> k"
            using that by (auto simp: ch_modify_net_def RemoveSession_def cn_FindSession_def map_find_erase
                split: option.splits if_splits)
          with before3 [OF this(1)] show ?thesis by (simp add: net1 cn_FindSession_def)
        qed
        moreover have "gt_reservations ?t = gt_reservations s1" "holder ?t = holder s1"
          using f frame_holder [OF f] same2 by (simp_all add: ch_modify_net_def gate_frame_def same_books_def holder_def fun_eq_iff)
        moreover have "t = ?t" using False created(1) sid t by simp
        ultimately show ?thesis using quiet by auto
      qed
    qed
  qed
  then show "clients_linked t" by blast
  assume "cn_FindSession k (gate_net t) = Some d" "cn_FindSession k (gate_net s) = None"
  with claim show "session_conversation d = conversation \<and>
      opened_for s (fst (CurrentUnixTimeMilliseconds (ge_node env) s)) remote conversation k t" by blast
qed

section \<open>The invariant of a running gate\<close>

definition gate_inv :: "GateNode \<Rightarrow> bool" where
  "gate_inv s \<longleftrightarrow> gate_good s \<and> clients_inv (gate_net s) \<and> clients_linked s"

lemma gate_inv_kept:
  assumes "gate_kept s t" "gate_inv s"
  shows "gate_inv t"
proof -
  have "books_ok t" "gate_good s" using assms by (simp_all add: gate_kept_def gate_inv_def gate_good_def)
  with assms(1) have net: "clients_kept (gate_net s) (gate_net t)" "gate_good t"
    using gate_net_kept [of s t] by (auto simp: gate_kept_def)
  moreover have "clients_linked t"
    using assms sessions_rel_before [OF net(1)] by (intro clients_linked_kept [of s t]) (auto simp: gate_inv_def gate_kept_def)
  ultimately show ?thesis using assms(2) clients_inv_kept [OF _ net(1)] by (auto simp: gate_inv_def)
qed

lemma gate_clocks_read:
  assumes "gate_inv s"
  shows "gate_inv (clocks_read cenv (gate_host env) s)"
proof -
  let ?t = "clocks_read cenv (gate_host env) s"
  have "same_books s ?t" by (simp add: clocks_read_def same_books_def gate_set_io_def)
  moreover have "clients_kept (gate_net s) (gate_net ?t)" "gt_client_network s \<noteq> None" "gt_client_network ?t \<noteq> None"
    using gate.clocks_read_inv(2) [of s] assms by (simp_all add: gate_inv_def gate_good_def clocks_read_def gate_set_io_def)
  then have "rel_option clients_kept (gt_client_network s) (gt_client_network ?t)"
    by (auto simp: gate_net_def)
  ultimately show ?thesis using assms gate_inv_kept [OF gate_kept_frame] by (simp add: gate_frame_def)
qed

text \<open>Every datagram is handled to its end, and what it opens was reserved.\<close>

lemma gate_datagram_handled:
  assumes lib: "ikcp_drains q (ce_kcp (ge_client env))" and inv: "gate_inv s"
  obtains t where "HandleIncomingDatagram (client_env_of env) (gate_host env) remote datagram s = Some t" "gate_inv t"
    "\<And>k d. cn_FindSession k (gate_net t) = Some d \<Longrightarrow> cn_FindSession k (gate_net s) = None \<Longrightarrow>
      opened_for s (fst (CurrentUnixTimeMilliseconds (ge_node env) (clocks_read (client_env_of env) (gate_host env) s)))
        remote (session_conversation d) k t"
proof -
  have kcp: "ce_kcp (client_env_of env) = ce_kcp (ge_client env)" by (simp add: client_env_of_def)
  have s: "gate_good s" "clients_inv (gate_net s)" "clients_linked s" using inv by (simp_all add: gate_inv_def)
  let ?c = "clocks_read (client_env_of env) (gate_host env) s"
  let ?conv = "the (snd (TryReadKcpConversation datagram (Some 0)))"
  have c: "gate_good ?c" "clients_inv (gate_net ?c)" "clients_linked ?c"
    using gate_clocks_read [OF inv] by (simp_all add: gate_inv_def)
  obtain r u where u: "open_session (client_env_of env) (gate_host env) ?conv remote
      (fst (cn_CurrentUnixTimeMilliseconds (client_env_of env) (gate_io s))) ?c = (r, u)" by fastforce
  from gate.HandleIncomingDatagram_ends [where q = q and env = "client_env_of env" and enva = env and s = s and remote = remote and datagram = datagram] lib s clients_linked_bound [OF s(3,2)]
  obtain t where t: "HandleIncomingDatagram (client_env_of env) (gate_host env) remote datagram s = Some t"
      "t = s \<or> after_open (gate_host env) u t"
    by (auto simp: kcp u)
  have u_inv: "gate_good u" "clients_inv (gate_net u)"
    using gate.open_session_inv [OF c(1) _ _ u] c(2) clients_linked_bound [OF c(3,2)] by simp_all
  note opn = gate_open_session [OF c u]
  show ?thesis
  proof (rule that [OF t(1)])
    show "gate_inv t"
      using t(2) inv gate.after_open_inv [of env u t] clients_linked_after [of env u t] u_inv opn(1)
      by (auto simp: gate_inv_def)
  next
    fix k d
    assume d: "cn_FindSession k (gate_net t) = Some d" "cn_FindSession k (gate_net s) = None"
    then have a: "after_open (gate_host env) u t" using t(2) by auto
    obtain c' where c': "cn_FindSession k (gate_net u) = Some c'" "same_client c' d"
      using gate.after_open_sessions [OF a u_inv(1)] u_inv(2) d(1) by auto
    have new: "cn_FindSession k (gate_net ?c) = None"
      using d(2) by (simp add: clocks_read_def CurrentKcpClockMilliseconds_def cn_FindSession_def)
    have "gt_reservations ?c = gt_reservations s" by (simp add: clocks_read_def gate_set_io_def)
    with opn(2) [OF c'(1) new] clients_linked_after [OF a u_inv(1)] u_inv(2) opn(1) c'(2)
    show "opened_for s (fst (CurrentUnixTimeMilliseconds (ge_node env) ?c)) remote (session_conversation d) k t"
      by (auto simp: opened_for_def same_client_def)
  qed
qed

section \<open>The search for a conversation\<close>

lemma next_conversation_after_eq: "next_conversation_after = next_nonzero"
  by (simp add: next_conversation_after_def next_nonzero_def Let_def fun_eq_iff)

lemma conversation_round:
  fixes start :: u32
  assumes "start \<noteq> 0" "Suc j \<le> 2 ^ 32 - 1"
  shows "(next_nonzero ^^ Suc j) start = start \<longleftrightarrow> Suc j = 2 ^ 32 - 1"
proof -
  have start: "unat start = Suc ((unat start - 1) mod (2 ^ 32 - 1))"
    using funpow_next_nonzero [OF assms(1), of 0] by simp
  have "(next_nonzero ^^ Suc j) start = start \<longleftrightarrow> unat ((next_nonzero ^^ Suc j) start) = unat start"
    by (rule word_unat_eq_iff)
  also have "\<dots> \<longleftrightarrow> (unat start - 1 + Suc j) mod (2 ^ 32 - 1) = (unat start - 1 + 0) mod (2 ^ 32 - 1)"
    using funpow_next_nonzero [OF assms(1), of "Suc j"] start by (simp del: funpow.simps) linarith
  also have "\<dots> \<longleftrightarrow> Suc j = 2 ^ 32 - 1"
  proof
    assume eq: "(unat start - 1 + Suc j) mod (2 ^ 32 - 1) = (unat start - 1 + 0) mod (2 ^ 32 - 1)"
    show "Suc j = 2 ^ 32 - 1"
    proof (rule ccontr)
      assume "Suc j \<noteq> 2 ^ 32 - 1"
      with assms(2) have "Suc j < 2 ^ 32 - 1" by simp
      from mod_add_eq_nat [OF eq this] show False by simp
    qed
  next
    assume "Suc j = 2 ^ 32 - 1"
    then show "(unat start - 1 + Suc j) mod (2 ^ 32 - 1) = (unat start - 1 + 0) mod (2 ^ 32 - 1)"
      by (simp only: mod_add_self2 add_0_right)
  qed
  finally show ?thesis .
qed

text \<open>Every conversation is visited.\<close>

lemma conversations_visited:
  fixes start c :: u32
  assumes "start \<noteq> 0" "c \<noteq> 0"
  shows "\<exists>i<2 ^ 32 - 1. c = (next_nonzero ^^ i) start"
proof -
  let ?f = "\<lambda>k. (next_nonzero ^^ k) start"
  have "inj_on ?f {..<2 ^ 32 - 1}"
    by (rule inj_on_subset [OF visited_ids_distinct [OF assms(1), of "2 ^ 32 - 2"]]) auto
  then have "card (?f ` {..<2 ^ 32 - 1}) = 2 ^ 32 - 1" by (subst card_image) simp_all
  moreover have "?f ` {..<2 ^ 32 - 1} \<subseteq> UNIV - {0}" using funpow_next_nonzero [OF assms(1)] by auto
  moreover have "card (UNIV - {0 :: u32}) = 2 ^ 32 - 1" by (simp add: card_word)
  ultimately have "?f ` {..<2 ^ 32 - 1} = UNIV - {0}" by (intro card_subset_eq) simp_all
  with assms(2) show ?thesis by (metis (no_types, lifting) DiffI UNIV_I imageE lessThan_iff singletonD)
qed

text \<open>The loop of the source, with the flag of its early return.\<close>

definition conversation_loop :: "GateNode \<Rightarrow> u32 \<Rightarrow> u32 \<Rightarrow> (u32 \<times> bool) option" where
  "conversation_loop s start candidate =
     while_option (\<lambda>(c, returned). \<not> returned \<and> conversation_in_use s c)
       (\<lambda>(c, returned). (next_conversation_after c, next_conversation_after c = start)) (candidate, False)"

lemma search_conversation_loop:
  assumes "start \<noteq> 0" "j + n = 2 ^ 32 - 1" "n \<noteq> 0"
  shows "\<exists>c d. conversation_loop s start ((next_nonzero ^^ j) start) = Some (c, d) \<and>
    search_conversation n s start ((next_nonzero ^^ j) start) = (if d then 0 else c)"
  using assms(2,3)
proof (induction n arbitrary: j)
  case (Suc n)
  let ?c = "(next_nonzero ^^ j) start"
  have nxt: "next_conversation_after ?c = (next_nonzero ^^ Suc j) start" by (simp add: next_conversation_after_eq)
  show ?case
  proof (cases "conversation_in_use s ?c")
    case False
    then show ?thesis by (intro exI [of _ ?c] exI [of _ False]) (simp add: conversation_loop_def while_option_unfold)
  next
    case use: True
    show ?thesis
    proof (cases "next_conversation_after ?c = start")
      case True
      with use show ?thesis
        unfolding conversation_loop_def
        by (intro exI [of _ start] exI [of _ True]) (subst while_option_unfold, simp add: while_option_unfold)
    next
      case False
      have "n \<noteq> 0" using conversation_round [OF assms(1), of j] False Suc.prems(1) nxt by auto
      have "conversation_loop s start ?c = conversation_loop s start ((next_nonzero ^^ Suc j) start)"
        using use False nxt unfolding conversation_loop_def by (subst while_option_unfold) simp
      moreover have "search_conversation (Suc n) s start ?c = search_conversation n s start ((next_nonzero ^^ Suc j) start)"
        using use False nxt by simp
      ultimately show ?thesis using Suc.IH [of "Suc j"] Suc.prems(1) \<open>n \<noteq> 0\<close> by simp
    qed
  qed
qed simp

lemma search_conversation_free: "search_conversation n s start c \<noteq> 0 \<Longrightarrow> \<not> conversation_in_use s (search_conversation n s start c)"
  by (induction n arbitrary: c) (auto simp: Let_def split: if_splits)

lemma search_conversation_none:
  assumes "start \<noteq> 0" "j + n = 2 ^ 32 - 1" "search_conversation n s start ((next_nonzero ^^ j) start) = 0"
    and "j \<le> i" "i < 2 ^ 32 - 1"
  shows "conversation_in_use s ((next_nonzero ^^ i) start)"
  using assms(2-)
proof (induction n arbitrary: j)
  case (Suc n)
  let ?c = "(next_nonzero ^^ j) start"
  have nxt: "next_conversation_after ?c = (next_nonzero ^^ Suc j) start" by (simp add: next_conversation_after_eq)
  have use: "conversation_in_use s ?c"
    using Suc.prems(2) funpow_next_nonzero [OF assms(1), of j] by (auto split: if_splits)
  show ?case
  proof (cases "i = j")
    case False
    then have "Suc j \<noteq> 2 ^ 32 - 1" using Suc.prems by simp
    then have "next_conversation_after ?c \<noteq> start"
      using conversation_round [OF assms(1), of j] Suc.prems(1) nxt by simp
    with use Suc.prems nxt False show ?thesis by (intro Suc.IH [of "Suc j"]) simp_all
  qed (simp add: use)
qed simp

lemma ConsumeNextClientConversation_effect:
  assumes "ConsumeNextClientConversation s = (conversation, t)"
  shows "conversation = 0 \<longleftrightarrow> (\<forall>c. conversation_in_use s c)"
    "conversation \<noteq> 0 \<Longrightarrow> \<not> conversation_in_use s conversation"
    "t = s\<lparr>gt_next_client_conversation := gt_next_client_conversation t\<rparr>"
proof -
  let ?start = "if gt_next_client_conversation s = 0 then 1 else gt_next_client_conversation s"
  let ?c = "search_conversation (2 ^ 32 - 1) s ?start ?start"
  have c: "conversation = ?c" and t: "t = s\<lparr>gt_next_client_conversation := gt_next_client_conversation t\<rparr>"
    using assms by (auto simp only: ConsumeNextClientConversation_def Let_def split: if_splits) simp_all
  show "t = s\<lparr>gt_next_client_conversation := gt_next_client_conversation t\<rparr>" by (rule t)
  show free: "\<not> conversation_in_use s conversation" if "conversation \<noteq> 0"
    using search_conversation_free that unfolding c by blast
  have "conversation_in_use s d" if "conversation = 0" for d
  proof (cases "d = 0")
    case False
    have start: "?start \<noteq> 0" by simp
    obtain i where i: "i < 2 ^ 32 - 1" "d = (next_nonzero ^^ i) ?start" using conversations_visited [OF start False] by blast
    have "search_conversation (2 ^ 32 - 1) s ?start ((next_nonzero ^^ 0) ?start) = 0"
      using that unfolding c by (simp only: funpow_0)
    from search_conversation_none [OF start _ this _ i(1)] i(2) show ?thesis by simp
  qed (simp add: conversation_in_use_def)
  with free show "conversation = 0 \<longleftrightarrow> (\<forall>c. conversation_in_use s c)" by blast
qed

lemma FindSessionByConversation_None:
  assumes "clients_inv net" "FindSessionByConversation c net = None" "cn_FindSession k net = Some d"
  shows "session_conversation d \<noteq> c"
proof -
  have "(k, d) \<in> set (cn_sessions net)"
    using assms(1,3) by (simp add: clients_inv_def cn_FindSession_def map_find_Some_iff)
  with assms(2) show ?thesis by (auto simp: FindSessionByConversation_def find_None_iff)
qed

lemma gate_inv_reserve:
  assumes inv: "gate_inv s" and free: "\<not> conversation_in_use s c"
  shows "gate_inv (s\<lparr>gt_reservations := map_put c r (gt_reservations s)\<rparr>)" (is "gate_inv ?t")
proof -
  have b: "books_ok s" and net: "gt_client_network s = Some (gate_net s)" "clients_inv (gate_net s)" and linked: "clients_linked s"
    using inv by (auto simp: gate_inv_def gate_good_def gate_net_def)
  have t: "gate_net ?t = gate_net s" "holder ?t = holder s"
    by (simp_all add: gate_net_def holder_def fun_eq_iff)
  have "session_conversation d \<noteq> c" if "cn_FindSession k (gate_net s) = Some d" for k d
    using free net(1) FindSessionByConversation_None [OF net(2) _ that, of c] by (auto simp: conversation_in_use_def)
  then have "clients_linked ?t"
    using linked books_okD(5) [OF b] unfolding clients_linked_def t by (simp add: std_map_find)
  moreover have "gate_good ?t"
    using net(1) books_ok_reservations [OF b map_wf_put [OF books_okD(5) [OF b]]] by (simp add: gate_good_def)
  ultimately show ?thesis using net(2) by (simp add: gate_inv_def t)
qed

lemma gate_inv_Prune:
  assumes "gate_inv s"
  shows "gate_inv (PruneExpiredClientConversationReservations now s)" (is "gate_inv ?t")
proof -
  have b: "books_ok s" using assms by (simp add: gate_inv_def gate_good_def)
  have t: "gate_net ?t = gate_net s" "holder ?t = holder s" "gt_client_network ?t = gt_client_network s"
    by (simp_all add: PruneExpiredClientConversationReservations_def gate_net_def holder_def fun_eq_iff)
  have "map_find (gt_reservations ?t) d \<in> {None, map_find (gt_reservations s) d}" for d
    unfolding Prune_reservations(2) [OF b] by (simp split: option.split)
  then have "clients_linked ?t"
    using assms by (intro clients_linked_kept [of s ?t]) (simp_all only: t gate_inv_def, simp)
  then show ?thesis using assms Prune_reservations(1) [OF b] by (simp add: gate_inv_def gate_good_def t)
qed

text \<open>A login reserves a conversation that is free, for a while, and for the address it comes from.\<close>

lemma HandleAuthLogin_effect:
  assumes inv: "gate_inv s" and h: "HandleAuthLogin env request s = (result, t)"
  shows "gate_inv t"
    and "gla_success result \<Longrightarrow> gt_cluster_ready s \<and> gate_client_running s \<and> gla_conversation result \<noteq> 0 \<and>
      FindSessionByConversation (gla_conversation result) (gate_net s) = None \<and>
      map_find (gt_reservations t) (gla_conversation result) =
        Some \<lparr>ccr_account = glr_account request, ccr_remote_address = NormalizeClientAddress (glr_remote_address request),
          ccr_issued_at_unix_ms = gla_issued_at_unix_ms result, ccr_expires_at_unix_ms = gla_expires_at_unix_ms result\<rparr>"
proof -
  obtain now s1 where s1: "CurrentUnixTimeMilliseconds (ge_node env) s = (now, s1)" by fastforce
  let ?p = "PruneExpiredClientConversationReservations now s1"
  obtain c u where u: "ConsumeNextClientConversation ?p = (c, u)" by fastforce
  note e = ConsumeNextClientConversation_effect [OF u]
  have f: "gate_frame s s1" using frame_updates(6) [OF gate_frame_refl, of s "ge_node env"] by (simp add: s1)
  have "gate_inv ?p" by (rule gate_inv_Prune [OF gate_inv_kept [OF gate_kept_frame [OF f] inv]])
  moreover have fu: "gate_frame ?p u" "conversation_in_use u = conversation_in_use ?p"
    by (subst e(3), rule gate_frame_fields [OF _ _ gate_frame_refl], simp_all add: same_books_def)
      (subst e(3), simp add: conversation_in_use_def fun_eq_iff)
  ultimately have iu: "gate_inv u" by (blast intro: gate_inv_kept gate_kept_frame)
  have net: "gt_client_network ?p = gt_client_network s"
    using s1 by (auto simp: PruneExpiredClientConversationReservations_def CurrentUnixTimeMilliseconds_def Let_def)
  let ?ok = "gt_cluster_ready s \<and> gate_client_running s \<and> gate_config s \<noteq> None \<and> c \<noteq> 0"
  let ?r = "\<lparr>ccr_account = glr_account request, ccr_remote_address = NormalizeClientAddress (glr_remote_address request),
      ccr_issued_at_unix_ms = now, ccr_expires_at_unix_ms = now + kConversationReservationLifetimeMs\<rparr>"
  have ok: "?ok \<Longrightarrow> t = u\<lparr>gt_reservations := map_put c ?r (gt_reservations u)\<rparr> \<and> gla_conversation result = c \<and>
      gla_issued_at_unix_ms result = now \<and> gla_expires_at_unix_ms result = now + kConversationReservationLifetimeMs"
    and bad: "\<not> ?ok \<Longrightarrow> (t = s \<or> t = u) \<and> \<not> gla_success result"
    using h by (cases "gate_config s"; auto simp: HandleAuthLogin_def s1 u Let_def default_GateAuthLoginResult_def split: if_splits)+
  show "gate_inv t"
  proof (cases ?ok)
    case True
    then show ?thesis using ok gate_inv_reserve [OF iu, of c ?r] e(2) fu(2) by auto
  next
    case False
    then show ?thesis using bad inv iu by auto
  qed
  assume "gla_success result"
  then have k: ?ok using bad by blast
  then have "FindSessionByConversation c (gate_net s) = None"
    using e(2) inv by (auto simp: conversation_in_use_def net gate_net_def gate_inv_def gate_good_def split: option.splits)
  moreover have "map_wf (gt_reservations u)" using iu by (simp add: gate_inv_def gate_good_def books_okD(5))
  ultimately show "gt_cluster_ready s \<and> gate_client_running s \<and> gla_conversation result \<noteq> 0 \<and>
      FindSessionByConversation (gla_conversation result) (gate_net s) = None \<and>
      map_find (gt_reservations t) (gla_conversation result) =
        Some \<lparr>ccr_account = glr_account request, ccr_remote_address = NormalizeClientAddress (glr_remote_address request),
          ccr_issued_at_unix_ms = gla_issued_at_unix_ms result, ccr_expires_at_unix_ms = gla_expires_at_unix_ms result\<rparr>"
    using k ok by (simp add: std_map_find)
qed

end
