(* ===== verification/GateReach.thy ===== *)
theory GateReach
  imports GateClients
begin

text \<open>
  The states a gate can reach. The books about the clients agree in all of them, nobody is admitted before
  the coordinator has declared the cluster ready, and the completion of a receive operation always ends.
\<close>

section \<open>Whether the gate is open\<close>

definition openness :: "GateNode \<Rightarrow> bool \<times> bool option" where
  "openness s = (gt_cluster_ready s, map_option cn_running (gt_client_network s))"

lemma openness_updates [simp]:
  "openness (modify_remote node_id f s) = openness s" "openness (modify_gm f s) = openness s"
  "openness (gm_protocol_error e s) = openness s" "openness (snd (CurrentUnixTimeMilliseconds nenv s)) = openness s"
  "openness (snd (auth_call env s)) = openness s" "openness (modify_record k g s) = openness s"
  "openness (modify_client_session k h s) = openness s" "openness (snd (ResolveAvatarGameNodeId env s)) = openness s"
  by (simp_all add: openness_def modify_remote_def modify_gm_def gm_protocol_error_def CurrentUnixTimeMilliseconds_def
      auth_call_def modify_record_def modify_client_session_def modify_client_def option.map_comp comp_def
      ResolveAvatarGameNodeId_def Let_def)

lemma openness_fields [simp]:
  "openness (s\<lparr>sn_inner_network := net\<rparr>) = openness s" "openness (s\<lparr>sn_event_loop := timers\<rparr>) = openness s"
  "openness (s\<lparr>gt_session_ids_by_avatar := m\<rparr>) = openness s" "openness (s\<lparr>gt_session_ids_by_account := m\<rparr>) = openness s"
  "openness (s\<lparr>gt_reservations := m'\<rparr>) = openness s" "openness (s\<lparr>gt_next_client_conversation := c\<rparr>) = openness s"
  by (simp_all add: openness_def)

lemma openness_gm [simp]:
  "openness (gate_CancelHeartbeatTimer s) = openness s"
  "openness (snd (gate_ConsumeNextInnerSequence s)) = openness s"
  "openness (snd (send_to_gm env msg_id seq payload net s)) = openness s"
  "openness (snd (send_packet nenv routing_id msg_id seq flags body s)) = openness s"
  by (simp_all add: gate_CancelHeartbeatTimer_def gate_ConsumeNextInnerSequence_def send_to_gm_def send_packet_def
      inner_Send_def Let_def split_def split: option.split)

lemma openness_timers [simp]:
  "openness (gate_StartOrResetHeartbeatTimer interval s) = openness s" "openness (gate_ResetGmSessionState s) = openness s"
  by (simp_all add: gate_StartOrResetHeartbeatTimer_def gate_ResetGmSessionState_def Let_def split_def split: option.split)

lemma openness_requests [simp]:
  "openness (snd (gate_SendRegisterRequest env s)) = openness s"
  "openness (snd (gate_SendHeartbeatRequest env s)) = openness s"
  unfolding gate_SendRegisterRequest_def gate_SendHeartbeatRequest_def Let_def split_def
  by (auto simp: snd_case_sent split: option.split)

lemma openness_gm_state [simp]: "openness (gate_HandleConnectorStateChanged env k state s) = openness s"
  by (auto simp: gate_HandleConnectorStateChanged_def gate_HandleGmConnectionStateChanged_def Let_def split: option.split)

lemma openness_responses [simp]:
  "openness (gate_HandleRegisterResponse env packet s) = openness s"
  "openness (gate_HandleHeartbeatResponse env packet s) = openness s"
  unfolding gate_HandleRegisterResponse_def gate_HandleHeartbeatResponse_def Let_def split_def
  by (auto split: option.split)

lemma running_client_ops [simp]:
  "cn_running (modify_client k f net) = cn_running net"
  "cn_running (snd (with_peer k g c net)) = cn_running net"
  "cn_running (snd (update_peer env k now net)) = cn_running net"
  "cn_running (snd (CurrentKcpClockMilliseconds env net)) = cn_running net"
  "cn_running (snd (cn_SetError code e net)) = cn_running net" "cn_running (cn_ClearError net) = cn_running net"
  by (simp_all add: modify_client_def with_peer_def update_peer_def CurrentKcpClockMilliseconds_def cn_SetError_def
      cn_ClearError_def split_def split: option.split)

lemma running_send_datagrams [simp]: "cn_running (send_datagrams env remote ds net) = cn_running net"
  by (induction env remote ds net rule: send_datagrams.induct) (auto simp: udp_call_def split: prod.splits)

lemma running_Flush [simp]: "cn_running (FlushPendingDatagrams env k net) = cn_running net"
  by (simp add: FlushPendingDatagrams_def Let_def split_def split: option.split sum.split)

lemma running_SendPayload [simp]: "cn_running (fst (snd (SendPayload env k payload net io))) = cn_running net"
  unfolding SendPayload_def Let_def split_def by (auto split: option.split)

lemma running_tick [simp]: "cn_running (TickKcpSessions env net) = cn_running net"
proof -
  have "cn_running (fold (tick_session env now) ks net) = cn_running net" for now ks net
    by (induction ks arbitrary: net) (simp_all add: tick_session_def)
  then show ?thesis by (simp add: TickKcpSessions_def split_def)
qed

lemma openness_SendPayload [simp]:
  "gt_client_network s = Some net \<Longrightarrow> openness (snd (client_call (SendPayload env k packet) net s)) = openness s"
  by (simp add: openness_def client_call_def split_def gate_set_io_def)

lemma openness_answer [simp]:
  "openness (snd (SendClientSelectAvatarResult env k seq ok account avatar game e s)) = openness s"
  unfolding SendClientSelectAvatarResult_def Let_def split_def by (auto split: option.split)

lemma openness_routes [simp]:
  "openness (snd (select_route k s)) = openness s" "openness (snd (bind_route k game endpoint s)) = openness s"
  by (simp_all add: select_route_def bind_route_def split_def split: option.split)

lemma openness_rollback [simp]: "openness (rollback_pending_selection env k seq result e notify s) = openness s"
  by (simp add: rollback_pending_selection_def Let_def split: option.split)

lemma openness_confirm [simp]: "openness (confirm_avatar env seq result source s) = openness s"
  using openness_routes(1) [of "ar_session_id result" s]
    openness_routes(2) [of "ar_session_id result" "ar_game_node_id result" "ins_inner_network_endpoint source"
      "snd (select_route (ar_session_id result) s)"]
  unfolding confirm_avatar_def Let_def by (auto simp: split_def split: sum.split prod.split)

lemma openness_create_result [simp]:
  "openness (HandleGameAvatarEntityCreateResultMessage env routing_id payload s) = openness s"
  unfolding HandleGameAvatarEntityCreateResultMessage_def Let_def by (auto split: option.split sum.split)

lemma openness_relays [simp]:
  "openness (HandleGamePushToClientMessage env routing_id payload s) = openness s"
  "openness (HandleGameForwardProxyCallMessage env routing_id payload s) = openness s"
  "openness (HandleGameForwardStubCallMessage env routing_id payload s) = openness s"
  unfolding HandleGamePushToClientMessage_def HandleGameForwardProxyCallMessage_def HandleGameForwardStubCallMessage_def
    forward_to_game_def inner_Send_def Let_def split_def
  by (auto split: option.split)

lemma openness_game_sessions [simp]:
  "openness (HandleGameRegisterMessage env routing_id payload s) = openness s"
  "openness (HandleGameHeartbeatMessage env routing_id payload s) = openness s"
  unfolding HandleGameRegisterMessage_def HandleGameHeartbeatMessage_def gate_send_register_error_def Let_def split_def
  by (auto split: option.split)

lemma openness_HandleGameMessage [simp]: "openness (HandleGameMessage env routing_id payload s) = openness s"
  unfolding HandleGameMessage_def Let_def split_def by simp


text \<open>The network runs after the notification only when the notification has made the cluster ready, or it was already.\<close>

lemma cn_Run_running:
  assumes "cn_Run env net io = (code, net', io')"
  shows "code \<noteq> Node_None \<Longrightarrow> cn_running net' = cn_running net" "code = Node_None \<Longrightarrow> cn_initialized net' \<and> cn_running net'"
  using assms unfolding cn_Run_def Let_def
  by (auto simp: cn_SetError_def cn_ClearError_def udp_call_def StartReceive_def StartKcpUpdateTimer_def Let_def split_def
      split: if_splits sum.splits option.splits)

lemma cn_Stop_running: "cn_initialized net \<Longrightarrow> \<not> cn_running (fst (snd (cn_Stop env net io)))"
  unfolding cn_Stop_def CancelKcpUpdateTimer_def udp_call_def cn_SetError_def cn_ClearError_def
  by (auto simp: split_def split: option.split)

lemma openness_ready: "openness t = openness s \<Longrightarrow> gt_cluster_ready t = gt_cluster_ready s \<and> gate_client_running t = gate_client_running s"
  by (cases "gt_client_network s"; cases "gt_client_network t") (auto simp: openness_def gate_client_running_def)


lemma running_gm_updates [simp]:
  "gate_client_running (gm_protocol_error e s) = gate_client_running s"
  "gt_cluster_ready (gm_protocol_error e s) = gt_cluster_ready s"
  "gt_client_network (gm_protocol_error e s) = gt_client_network s"
  by (simp_all add: gate_client_running_def gm_protocol_error_def modify_gm_def modify_remote_def)

lemma run_clients_effect:
  assumes "run_clients env s = (ok, t)"
  shows "gt_cluster_ready t = gt_cluster_ready s" "\<not> ok \<Longrightarrow> gate_client_running t = gate_client_running s"
    "ok \<Longrightarrow> \<forall>net. gt_client_network t = Some net \<longrightarrow> cn_initialized net"
  using assms cn_Run_running
  by (auto simp: run_clients_def client_call_def gate_set_io_def gate_client_running_def split: option.splits prod.splits if_splits)

lemma run_auth_effect:
  assumes "run_auth env s = (ok, t)"
  shows "gt_cluster_ready t = gt_cluster_ready s"
    "\<not> ok \<Longrightarrow> \<forall>net. gt_client_network s = Some net \<longrightarrow> cn_initialized net \<Longrightarrow> \<not> gate_client_running t"
  using assms cn_Stop_running
  by (auto simp: run_auth_def client_call_def auth_call_def gate_set_io_def gate_client_running_def Let_def split_def
      split: option.splits if_splits)

lemma notify_opens_when_ready:
  assumes "gate_client_running s \<Longrightarrow> gt_cluster_ready s"
  shows "gate_client_running (gate_HandleClusterReadyNotify env packet s) \<Longrightarrow>
      gt_cluster_ready (gate_HandleClusterReadyNotify env packet s)"
    and "gt_cluster_ready s \<Longrightarrow> gt_cluster_ready (gate_HandleClusterReadyNotify env packet s)"
proof -
  obtain ok t where t: "run_clients env s = (ok, t)" by fastforce
  obtain ok' u where u: "run_auth env t = (ok', u)" by fastforce
  note e = run_clients_effect [OF t] run_auth_effect [OF u]
  show "gate_client_running (gate_HandleClusterReadyNotify env packet s) \<Longrightarrow>
      gt_cluster_ready (gate_HandleClusterReadyNotify env packet s)"
    "gt_cluster_ready s \<Longrightarrow> gt_cluster_ready (gate_HandleClusterReadyNotify env packet s)"
    using e assms unfolding gate_HandleClusterReadyNotify_def Let_def split_def t u
    by (auto simp: u split: option.splits if_splits)
qed

section \<open>Messages and datagrams of clients\<close>

lemma ready_client_call [simp]: "gt_cluster_ready (snd (client_call f net s)) = gt_cluster_ready s"
  by (simp add: client_call_def gate_set_io_def split_def)

lemma ready_updates [simp]:
  "gt_cluster_ready (modify_record k f s) = gt_cluster_ready s"
  "gt_cluster_ready (snd (CurrentUnixTimeMilliseconds nenv s)) = gt_cluster_ready s"
  "gt_cluster_ready (modify_client_session k g s) = gt_cluster_ready s"
  "gt_cluster_ready (PruneExpiredClientConversationReservations now s) = gt_cluster_ready s"
  "gt_cluster_ready (ClearClientSessionRecord k s) = gt_cluster_ready s"
  "gt_cluster_ready (gate_set_io io s) = gt_cluster_ready s"
  by (simp_all add: modify_record_def CurrentUnixTimeMilliseconds_def modify_client_session_def gate_set_io_def
      PruneExpiredClientConversationReservations_def ClearClientSessionRecord_def Let_def split: option.split)

lemma ready_answer [simp]:
  "gt_cluster_ready (snd (SendClientSelectAvatarResult env k seq ok account avatar game e s)) = gt_cluster_ready s"
  unfolding SendClientSelectAvatarResult_def Let_def split_def by (auto split: option.split)

lemma ready_requests [simp]:
  "gt_cluster_ready (snd (ResolveAvatarGameNodeId env s)) = gt_cluster_ready s"
  "gt_cluster_ready (snd (SendCreateAvatarEntityRequest env r s)) = gt_cluster_ready s"
  "gt_cluster_ready (snd (HandleClientEntityRpcPacket env k packet s)) = gt_cluster_ready s"
  unfolding ResolveAvatarGameNodeId_def SendCreateAvatarEntityRequest_def HandleClientEntityRpcPacket_def Let_def split_def
  by (auto split: option.split)

lemma ready_select [simp]: "gt_cluster_ready (snd (HandleClientSelectAvatarPacket env k packet s)) = gt_cluster_ready s"
  unfolding HandleClientSelectAvatarPacket_def Let_def split_def by (auto split: option.split sum.split)

lemma ready_payload [simp]: "gt_cluster_ready (HandleClientPayloadReceived env k payload s) = gt_cluster_ready s"
  unfolding HandleClientPayloadReceived_def Let_def split_def by (auto split: sum.split)

lemma ready_opening [simp]:
  "gt_cluster_ready (snd (CanOpenClientSession env c remote s)) = gt_cluster_ready s"
  "gt_cluster_ready (snd (TryRegisterAuthenticatedClientSession env r d s)) = gt_cluster_ready s"
  "gt_cluster_ready (snd (HandleClientSessionOpened env k s)) = gt_cluster_ready s"
  unfolding CanOpenClientSession_def HandleClientSessionOpened_def TryRegisterAuthenticatedClientSession_def Let_def split_def
  by (auto split: option.split)

lemma ready_open_session [simp]:
  "gt_cluster_ready (snd (open_session cenv (gate_host env) c remote now s)) = gt_cluster_ready s"
  unfolding open_session_def Let_def split_def by (auto simp: ch_modify_net_def split: option.split)

lemma ready_after_open: "after_open (gate_host env) s t \<Longrightarrow> gt_cluster_ready t = gt_cluster_ready s"
  by (induction rule: after_open.induct) (simp_all add: ch_modify_net_def)


section \<open>Reachable states\<close>

text \<open>The states of a gate from its initialisation to its end.\<close>

inductive gate_reach :: "gate_env \<Rightarrow> GateNode \<Rightarrow> bool" for env where
  gate_init: "gate_OnInit env s = (Node_None, t) \<Longrightarrow> gate_reach env t"
| gate_run: "gate_reach env s \<Longrightarrow> gate_OnRun env s = (code, t) \<Longrightarrow> gate_reach env t"
| gate_next: "gate_reach env s \<Longrightarrow> gate_step env s t \<Longrightarrow> gate_reach env t"

text \<open>Whatever happens around the sessions of the coordinator and of the games leaves the clients alone.\<close>

definition client_part :: "GateNode \<Rightarrow> ClientNetwork ptr \<times> bool \<times> (u32, ClientConversationReservation) std_map \<times>
    (u64, ClientSessionRecord) std_map \<times> (string, u64) std_map \<times> (string, u64) std_map" where
  "client_part s = (gt_client_network s, gt_cluster_ready s, gt_reservations s, gt_records s,
     gt_session_ids_by_account s, gt_session_ids_by_avatar s)"

lemma client_part_errors [simp]:
  "client_part (snd (sn_SetError code e s)) = client_part s" "client_part (sn_ClearError s) = client_part s"
  "client_part (s\<lparr>sn_inner_network := net\<rparr>) = client_part s" "client_part (s\<lparr>sn_zmq_tick := n\<rparr>) = client_part s"
  "client_part (s\<lparr>sn_sessions := m\<rparr>) = client_part s"
  by (simp_all add: client_part_def sn_SetError_def sn_ClearError_def)

lemma client_part_inner [simp]:
  "client_part (snd (InitInnerNetwork nenv options s)) = client_part s"
  "client_part (snd (RunInnerNetwork nenv s)) = client_part s"
  unfolding InitInnerNetwork_def RunInnerNetwork_def Let_def split_def
  by (auto simp: client_part_def sn_SetError_def sn_ClearError_def split: option.split)

lemma client_part_Register [simp]: "client_part (snd (gate_Register registration s)) = client_part s"
  by (simp add: gate_Register_def Let_def split_def)

lemma client_part_games [simp]: "client_part (snd (register_games games s)) = client_part s"
  by (induction games arbitrary: s) (auto simp: Let_def split_def)

lemma client_part_Run [simp]: "client_part (snd (gate_OnRun env s)) = client_part s"
  unfolding gate_OnRun_def split_def by simp

lemma cn_Init_clients:
  "cn_Init env net = (code, net') \<Longrightarrow> cn_sessions net' = cn_sessions net \<and> cn_transport_index net' = cn_transport_index net \<and>
     cn_running net' = cn_running net"
  unfolding cn_Init_def Let_def by (auto simp: cn_SetError_def cn_ClearError_def split: if_splits sum.splits)

lemma init_services_clients:
  assumes "init_services env gm inner client s = (Node_None, t)"
  shows "\<exists>net. client_part t = (Some net, snd (client_part s)) \<and> cn_sessions net = [] \<and> cn_transport_index net = [] \<and> \<not> cn_running net"
proof -
  let ?net = "new_ClientNetwork (sn_node_id s) (BuildEndpointText client) (cc_kcp (sn_cluster_config s))"
  obtain code net' where i: "cn_Init (client_env_of env) ?net = (code, net')" by fastforce
  have net: "cn_sessions net' = []" "cn_transport_index net' = []" "\<not> cn_running net'"
    using cn_Init_clients [OF i] by (simp_all add: new_ClientNetwork_def)
  let ?s = "s\<lparr>gt_client_network := Some ?net, gt_auth_http_service := True\<rparr>"
  let ?o = "\<lparr>nno_local_endpoint = BuildTcpEndpoint inner, nno_connectors = [\<lparr>nco_id = kGmRemoteNodeId,
      nco_remote_endpoint = BuildConnectorTcpEndpoint gm, nco_routing_id = sn_node_id s\<rparr>]\<rparr>"
  obtain code1 s1 where s1: "InitInnerNetwork (ge_node env) ?o ?s = (code1, s1)" by fastforce
  have "client_part s1 = client_part ?s" using client_part_inner(1) [of "ge_node env" ?o ?s] by (simp only: s1 snd_conv)
  then have "client_part (s1\<lparr>gt_client_network := Some net'\<rparr>) = (Some net', snd (client_part s))"
    by (simp add: client_part_def)
  moreover have "client_part t = client_part (s1\<lparr>gt_client_network := Some net'\<rparr>)"
    using assms unfolding init_services_def Let_def split_def
    by (auto simp: s1 i auth_call_def client_part_def sn_SetError_def sn_ClearError_def split: if_splits)
  ultimately show ?thesis using net by auto
qed

lemma gate_OnInit_clients:
  assumes "gate_OnInit env s = (Node_None, t)"
  shows "\<exists>net. client_part t = (Some net, False, [], [], [], []) \<and> cn_sessions net = [] \<and> cn_transport_index net = [] \<and> \<not> cn_running net"
proof -
  let ?gm = "gmc_inner_network_listen_endpoint (cc_gm (sn_cluster_config s))"
  obtain inner auth client where cfg: "gate_config s = Some (inner, auth, client)" "gate_endpoint_error ?gm inner auth client = None"
    using assms by (auto simp: gate_OnInit_def Let_def sn_SetError_def split: option.splits prod.splits)
  obtain now s1 where s1: "CurrentUnixTimeMilliseconds (ge_node env) s = (now, s1)" by fastforce
  let ?s2 = "ResetClusterReadyState (s1\<lparr>gt_started_at_unix_ms := now, sn_sessions := sessions_Clear (sn_sessions s1)\<rparr>)"
  obtain c3 s3 where s3: "gate_Register (gate_registration Gm kGmRemoteNodeId ?gm []) ?s2 = (c3, s3)" by fastforce
  obtain c4 s4 where s4: "register_games (cc_games (sn_cluster_config s3)) s3 = (c4, s4)" by fastforce
  have "init_services env ?gm inner client s4 = (Node_None, t)"
    using assms by (simp add: gate_OnInit_def Let_def cfg s1 s3 s4 split: if_splits)
  moreover have "snd (client_part s4) = (False, [], [], [], [])"
    using client_part_Register [of "gate_registration Gm kGmRemoteNodeId ?gm []" ?s2]
      client_part_games [of "cc_games (sn_cluster_config s3)" s3]
    by (simp add: s3 s4) (simp add: client_part_def ResetClusterReadyState_def)
  ultimately show ?thesis using init_services_clients by force
qed


text \<open>The clients wait for the cluster: no network runs, no session exists and nothing is reserved before it is ready.\<close>

definition clients_wait :: "GateNode \<Rightarrow> bool" where
  "clients_wait s \<longleftrightarrow> gt_cluster_ready s \<or> \<not> gate_client_running s \<and> cn_sessions (gate_net s) = [] \<and> gt_reservations s = []"

lemma gate_inv_init:
  assumes "gate_OnInit env s = (Node_None, t)"
  shows "gate_inv t \<and> clients_wait t"
proof -
  obtain net where "client_part t = (Some net, False, [], [], [], [])"
    and net: "cn_sessions net = []" "cn_transport_index net = []" "\<not> cn_running net"
    using gate_OnInit_clients [OF assms] by blast
  then have t: "gt_client_network t = Some net" "gt_cluster_ready t = False" "gt_reservations t = []" "gt_records t = []"
    "gt_session_ids_by_account t = []" "gt_session_ids_by_avatar t = []" by (simp_all add: client_part_def)
  then have "books_ok t" by (intro books_okI) (simp_all add: map_wf_Nil)
  with t net show ?thesis
    by (simp add: map_wf_Nil gate_inv_def gate_good_def clients_inv_def clients_linked_def cn_FindSession_def gate_net_def
        clients_wait_def gate_client_running_def)
qed

lemma gate_inv_run:
  assumes "gate_OnRun env s = (code, t)"
  shows "gate_inv s \<Longrightarrow> gate_inv t" "clients_wait s \<Longrightarrow> clients_wait t"
proof -
  have t: "client_part t = client_part s" using client_part_Run [of env s] by (simp add: assms)
  have "sn_node_id t = sn_node_id s"
    using assms by (auto simp: gate_OnRun_def RunInnerNetwork_def sn_SetError_def sn_ClearError_def Let_def
        split: if_splits prod.splits option.splits)
  with t have "gate_frame s t" by (cases "gt_client_network s") (simp_all add: client_part_def gate_frame_def same_books_def)
  then show "gate_inv s \<Longrightarrow> gate_inv t" by (blast intro: gate_inv_kept gate_kept_frame)
  show "clients_wait s \<Longrightarrow> clients_wait t"
    using t by (simp add: client_part_def clients_wait_def gate_client_running_def gate_net_def)
qed

text \<open>A step that keeps the books and whether the gate is open lets the clients wait.\<close>

lemma clients_wait_kept:
  assumes "gate_kept s t" "openness t = openness s" "clients_wait s"
  shows "clients_wait t"
proof -
  have "gate_client_running t = gate_client_running s" "gt_cluster_ready t = gt_cluster_ready s"
    using openness_ready [OF assms(2)] by simp_all
  moreover have "cn_sessions (gate_net t) = []" if "cn_sessions (gate_net s) = []"
    using assms(1) that sessions_rel_length
    by (cases "gt_client_network s"; cases "gt_client_network t") (fastforce simp: gate_kept_def gate_net_def)+
  ultimately show ?thesis using assms(1,3) by (auto simp: clients_wait_def gate_kept_def)
qed

lemma connector_message_cases:
  "openness (gate_HandleConnectorMessage env node_id payload s) = openness s \<or>
   (\<exists>packet. gate_HandleConnectorMessage env node_id payload s = gate_HandleClusterReadyNotify env packet s)"
  unfolding gate_HandleConnectorMessage_def gate_HandleGmMessage_def Let_def split_def by auto

lemma clients_wait_message:
  assumes "clients_wait s"
  shows "clients_wait (gate_HandleConnectorMessage env node_id payload s)" (is "clients_wait ?t")
  using connector_message_cases [of env node_id payload s]
proof
  assume "openness ?t = openness s"
  then show ?thesis by (intro clients_wait_kept [OF gate_kept_frame _ assms]) (intro frame_intros)
next
  assume "\<exists>packet. ?t = gate_HandleClusterReadyNotify env packet s"
  then obtain packet where t: "?t = gate_HandleClusterReadyNotify env packet s" by blast
  have k: "gate_kept s ?t" by (intro gate_kept_frame frame_intros)
  have run: "gate_client_running s \<Longrightarrow> gt_cluster_ready s" using assms by (auto simp: clients_wait_def)
  show ?thesis
  proof (cases "gt_cluster_ready ?t")
    case False
    then have "\<not> gate_client_running ?t" "\<not> gt_cluster_ready s" using notify_opens_when_ready [OF run] unfolding t by blast+
    then have "openness ?t = openness s"
      using assms False k by (cases "gt_client_network s"; cases "gt_client_network ?t")
        (auto simp: openness_def clients_wait_def gate_client_running_def gate_kept_def)
    then show ?thesis by (rule clients_wait_kept [OF k _ assms])
  qed (simp add: clients_wait_def)
qed


text \<open>Changes of the network around its sessions.\<close>

lemma modify_net_frame:
  assumes "gate_good s" "clients_kept (gate_net s) (f (gate_net s))"
  shows "gate_frame s (ch_modify_net (gate_host env) f s)"
  using assms by (auto simp: gate_frame_def same_books_def ch_modify_net_def gate_good_def gate_net_def)

lemma modify_net_openness:
  assumes "gate_good s" "cn_running (f (gate_net s)) = cn_running (gate_net s)"
  shows "openness (ch_modify_net (gate_host env) f s) = openness s"
  using assms by (auto simp: openness_def ch_modify_net_def gate_good_def gate_net_def)

lemma ready_datagram:
  assumes lib: "ikcp_drains q (ce_kcp (ge_client env))" and inv: "gate_inv s"
    and "HandleIncomingDatagram (client_env_of env) (gate_host env) remote datagram s = Some t"
  shows "gt_cluster_ready t = gt_cluster_ready s"
proof -
  have kcp: "ce_kcp (client_env_of env) = ce_kcp (ge_client env)" by (simp add: client_env_of_def)
  have s: "gate_good s" "clients_inv (gate_net s)" "clients_linked s" using inv by (simp_all add: gate_inv_def)
  have "gt_cluster_ready (clocks_read (client_env_of env) (gate_host env) s) = gt_cluster_ready s"
    by (simp add: clocks_read_def)
  with gate.HandleIncomingDatagram_ends [where q = q and env = "client_env_of env" and enva = env and s = s
      and remote = remote and datagram = datagram] lib s clients_linked_bound [OF s(3,2)] assms(3)
  show ?thesis by (auto simp: kcp dest!: ready_after_open)
qed

text \<open>The completion of a receive operation.\<close>

lemma gate_receive:
  assumes lib: "ikcp_drains q (ce_kcp (ge_client env))" and inv: "gate_inv s"
  obtains t where "HandleReceive (client_env_of env) (gate_host env) error_code remote datagram s = Some t"
    "gate_inv t" "clients_wait s \<Longrightarrow> clients_wait t"
    "\<And>k d. cn_FindSession k (gate_net t) = Some d \<Longrightarrow> cn_FindSession k (gate_net s) = None \<Longrightarrow>
      error_code = None \<and> gate_client_running s \<and>
      opened_for s (fst (CurrentUnixTimeMilliseconds (ge_node env) (clocks_read (client_env_of env) (gate_host env) s)))
        remote (session_conversation d) k t"
proof -
  let ?f = "\<lambda>net. net\<lparr>cn_receives := cn_receives net - 1\<rparr>"
  define u where "u = ch_modify_net (gate_host env) ?f s"
  have rcv: "HandleReceive (client_env_of env) (gate_host env) error_code remote datagram s =
     (if \<not> cn_running (gate_net u) then Some u
      else case error_code of
        Some (aborted, message) \<Rightarrow> Some (ch_modify_net (gate_host env) (\<lambda>net. StartReceive (if aborted then net
            else net\<lparr>cn_last_error_message := ''ClientNetwork UDP receive failed: '' @ message\<rparr>)) u)
      | None \<Rightarrow> map_option (ch_modify_net (gate_host env) StartReceive)
          (HandleIncomingDatagram (client_env_of env) (gate_host env) remote datagram u))"
    by (simp only: HandleReceive_def Let_def u_def gate_host_simps)
  have good: "gate_good s" using inv by (simp add: gate_inv_def)
  have fr: "gate_frame s u" "openness u = openness s"
    unfolding u_def by (rule modify_net_frame [OF good] modify_net_openness [OF good]; simp add: kept_fields)+
  have net: "gate_net u = ?f (gate_net s)" by (simp add: u_def ch_modify_net_def)
  have same: "cn_FindSession k (gate_net u) = cn_FindSession k (gate_net s)" for k by (simp add: net cn_FindSession_def)
  have inv_u: "gate_inv u" by (rule gate_inv_kept [OF gate_kept_frame [OF fr(1)] inv])
  have good_u: "gate_good u" using inv_u by (simp add: gate_inv_def)
  have "gate_client_running s \<longleftrightarrow> cn_running (gate_net s)"
    using good by (auto simp: gate_client_running_def gate_good_def gate_net_def)
  then have running: "gate_client_running s \<longleftrightarrow> cn_running (gate_net u)" by (simp add: net)
  have wait_u: "clients_wait s \<Longrightarrow> clients_wait u" by (rule clients_wait_kept [OF gate_kept_frame [OF fr(1)] fr(2)])
  consider (stopped) "\<not> cn_running (gate_net u)" | (failed) a m where "cn_running (gate_net u)" "error_code = Some (a, m)"
    | (received) "cn_running (gate_net u)" "error_code = None" by (cases error_code) auto
  then show thesis
  proof cases
    case stopped
    then show thesis
      by (intro that [of u]) (simp_all add: rcv inv_u wait_u same)
  next
    case failed
    let ?g = "\<lambda>net. StartReceive (if a then net else net\<lparr>cn_last_error_message := ''ClientNetwork UDP receive failed: '' @ m\<rparr>)"
    let ?t = "ch_modify_net (gate_host env) ?g u"
    have g: "gate_frame u ?t" "openness ?t = openness u"
      by (rule modify_net_frame [OF good_u] modify_net_openness [OF good_u]; simp add: kept_fields StartReceive_def)+
    have "HandleReceive (client_env_of env) (gate_host env) error_code remote datagram s = Some ?t"
      using failed unfolding rcv by simp
    moreover have "cn_FindSession k (gate_net ?t) = cn_FindSession k (gate_net s)" for k
      by (simp add: ch_modify_net_def cn_FindSession_def net)
    ultimately show thesis
      using gate_inv_kept [OF gate_kept_frame [OF g(1)] inv_u] clients_wait_kept [OF gate_kept_frame [OF g(1)] g(2) wait_u]
      by (intro that [of ?t]) simp_all
  next
    case received
    obtain v where v: "HandleIncomingDatagram (client_env_of env) (gate_host env) remote datagram u = Some v" "gate_inv v"
      "\<And>k d. cn_FindSession k (gate_net v) = Some d \<Longrightarrow> cn_FindSession k (gate_net u) = None \<Longrightarrow>
        opened_for u (fst (CurrentUnixTimeMilliseconds (ge_node env) (clocks_read (client_env_of env) (gate_host env) u)))
          remote (session_conversation d) k v"
      using gate_datagram_handled [OF lib inv_u, of remote datagram] by blast
    let ?t = "ch_modify_net (gate_host env) StartReceive v"
    have "gate_frame v ?t" using v(2) by (intro modify_net_frame) (simp_all add: gate_inv_def kept_fields)
    then have t: "gate_inv ?t" by (rule gate_inv_kept [OF gate_kept_frame v(2)])
    have "gt_cluster_ready ?t" if "clients_wait s"
      using that wait_u running received(1) ready_datagram [OF lib inv_u v(1)] openness_ready [OF fr(2)]
      by (simp add: clients_wait_def ch_modify_net_def)
    then have wait: "clients_wait s \<Longrightarrow> clients_wait ?t" by (simp add: clients_wait_def)
    have ret: "HandleReceive (client_env_of env) (gate_host env) error_code remote datagram s = Some ?t"
      using received v(1) unfolding rcv by simp
    have sessions: "cn_FindSession k (gate_net ?t) = cn_FindSession k (gate_net v)" for k
      by (simp add: ch_modify_net_def cn_FindSession_def)
    have books: "opened_for s now remote c k ?t" if "opened_for u now remote c k v" for now c k
      using that by (simp add: opened_for_def u_def ch_modify_net_def holder_def)
    have "fst (CurrentUnixTimeMilliseconds (ge_node env) (clocks_read (client_env_of env) (gate_host env) u)) =
        fst (CurrentUnixTimeMilliseconds (ge_node env) (clocks_read (client_env_of env) (gate_host env) s))"
      by (simp add: CurrentUnixTimeMilliseconds_def clocks_read_def gate_set_io_def gate_io_def u_def ch_modify_net_def Let_def
          cn_CurrentUnixTimeMilliseconds_def)
    with v(3) books received running same sessions show thesis
      by (intro that [OF ret t wait]) simp_all
  qed
qed


section \<open>The invariant of reachable states\<close>

lemma gate_tick:
  "gate_frame s (s\<lparr>gt_client_network := map_option (TickKcpSessions env) (gt_client_network s)\<rparr>)"
  "openness (s\<lparr>gt_client_network := map_option (TickKcpSessions env) (gt_client_network s)\<rparr>) = openness s"
  by (cases "gt_client_network s"; simp add: gate_frame_def same_books_def openness_def clients.rel_TickKcpSessions)+

lemma clients_wait_login:
  assumes "clients_wait s"
  shows "clients_wait (snd (HandleAuthLogin env request s))"
proof (cases "gt_cluster_ready s \<and> gate_client_running s")
  case True
  have c: "gt_cluster_ready (snd (ConsumeNextClientConversation t)) = gt_cluster_ready t" for t
    by (simp add: ConsumeNextClientConversation_def Let_def)
  have "gt_cluster_ready (snd (HandleAuthLogin env request s))"
    using True unfolding HandleAuthLogin_def Let_def split_def by (auto simp: c split: option.split)
  then show ?thesis by (simp add: clients_wait_def)
qed (use assms in \<open>auto simp: HandleAuthLogin_def Let_def\<close>)

lemma gate_step_inv:
  assumes "gate_step env s t" "ikcp_drains q (ce_kcp (ge_client env))" "gate_inv s" "clients_wait s"
  shows "gate_inv t \<and> clients_wait t"
proof -
  have kept: "gate_inv u \<and> clients_wait u" if "gate_kept s u" "openness u = openness s" for u
    using gate_inv_kept [OF that(1) assms(3)] clients_wait_kept [OF that assms(4)] ..
  from assms(1) show ?thesis
  proof cases
    case gate_connector_state
    show ?thesis unfolding gate_connector_state by (rule kept [OF gate_kept_frame]) (simp_all add: frame_intros)
  next
    case gate_connector_message
    show ?thesis
      unfolding gate_connector_message
      by (intro conjI gate_inv_kept [OF gate_kept_frame assms(3)] clients_wait_message [OF assms(4)] frame_intros)
  next
    case gate_game_message
    show ?thesis unfolding gate_game_message by (rule kept) (simp_all add: kept_intros)
  next
    case (gate_datagram error_code remote datagram)
    then show ?thesis using gate_receive [OF assms(2,3), of error_code remote datagram] assms(4) by (metis option.inject)
  next
    case gate_heartbeat_timer
    show ?thesis unfolding gate_heartbeat_timer by (rule kept [OF gate_kept_frame]) (simp_all add: frame_intros)
  next
    case gate_kcp_timer
    show ?thesis unfolding gate_kcp_timer by (rule kept [OF gate_kept_frame]) (rule gate_tick)+
  next
    case (gate_auth_login request)
    then show ?thesis
      using HandleAuthLogin_effect(1) [OF assms(3)] clients_wait_login [OF assms(4)] by (metis prod.collapse)
  qed
qed

lemma gate_reach_inv:
  assumes "gate_reach env s" "ikcp_drains q (ce_kcp (ge_client env))"
  shows "gate_inv s \<and> clients_wait s"
  using assms(1)
proof induction
  case (gate_init s t)
  then show ?case by (rule gate_inv_init)
next
  case (gate_run s code t)
  then show ?case using gate_inv_run by blast
next
  case (gate_next s t)
  then show ?case using gate_step_inv [OF _ assms(2)] by blast
qed

end
