(* ===== verification/GateAdmission.thy ===== *)
theory GateAdmission
  imports GateReach
begin

text \<open>
  The first datagram of a conversation that is reserved. It opens a session for the account, which stays when
  KCP takes the datagram; otherwise the session goes, but the reservation is used up all the same.
\<close>

lemma CanOpen_admits:
  assumes "books_ok s" "map_find (gt_reservations s) c = Some r"
    and "reservation_admits (fst (CurrentUnixTimeMilliseconds (ge_node env) s)) remote r"
  shows "fst (CanOpenClientSession env c remote s)"
proof -
  obtain now s1 where s1: "CurrentUnixTimeMilliseconds (ge_node env) s = (now, s1)" by fastforce
  have f: "gate_frame s s1" using frame_updates(6) [OF gate_frame_refl, of s "ge_node env"] by (simp add: s1)
  then have "map_find (gt_reservations (PruneExpiredClientConversationReservations now s1)) c = Some r"
    using Prune_reservations(2) [OF frame_books_ok [OF f assms(1)], of now c] assms(2,3)
    by (simp add: gate_frame_def same_books_def reservation_admits_def s1)
  then show ?thesis
    using assms(3) by (auto simp: CanOpenClientSession_def s1 Let_def reservation_admits_def split: if_splits)
qed

lemma Activate_created:
  assumes "session_wf c" "cs_session_state c = Session_Created"
  shows "fst (Activate now c) = Cs_None" "cs_kcp (snd (Activate now c)) = cs_kcp c"
  using assms by (simp_all add: Activate_def session_wf_def CanTransitionTo_def session_ClearError_def Let_def)

lemma find_client_session_same:
  "find_client_session k (s\<lparr>gt_reservations := m\<rparr>) = find_client_session k s"
  "find_client_session k (snd (CurrentUnixTimeMilliseconds nenv s)) = find_client_session k s"
  "find_client_session k (snd (TryRegisterAuthenticatedClientSession env r d s)) = find_client_session k s"
  by (simp_all add: find_client_session_def TryRegisterAuthenticatedClientSession_def ClearClientSessionRecord_def split_def
      CurrentUnixTimeMilliseconds_def Let_def split: option.split)

lemma Opened_accepts:
  assumes c: "find_client_session k s = Some c" "session_wf c" "cs_session_state c = Session_Created"
    and r: "map_find (gt_reservations s) (session_conversation c) = Some r" "ccr_account r \<noteq> []"
      "ccr_remote_address r = [] \<or> NormalizeClientAddress (ep_host (cs_remote_endpoint c)) = ccr_remote_address r"
  shows "fst (HandleClientSessionOpened env k s)"
    and "\<exists>d. find_client_session k (snd (HandleClientSessionOpened env k s)) = Some d \<and> cs_kcp d = cs_kcp c"
proof -
  obtain now s1 where s1: "CurrentUnixTimeMilliseconds (ge_node env) s = (now, s1)" by fastforce
  obtain d where d: "Activate now c = (Cs_None, d)" "cs_kcp d = cs_kcp c"
    using Activate_created [OF c(2,3), of now] by (metis prod.collapse)
  let ?s2 = "modify_client_session k (\<lambda>_. d) s1"
  obtain s3 where s3: "TryRegisterAuthenticatedClientSession env r d ?s2 = (True, s3)"
    using r(2) by (simp add: TryRegisterAuthenticatedClientSession_def split_def)
  have h: "HandleClientSessionOpened env k s =
      (True, s3\<lparr>gt_reservations := map_erase (session_conversation d) (gt_reservations s3)\<rparr>)"
    using c(1) r by (auto simp: HandleClientSessionOpened_def s1 d(1) s3 Let_def)
  then show "fst (HandleClientSessionOpened env k s)" by simp
  have "find_client_session k s1 = Some c"
    using find_client_session_same(2) [of k "ge_node env" s] c(1) by (simp add: s1)
  then have "find_client_session k ?s2 = Some d"
    by (auto simp: find_client_session_def modify_client_session_def modify_client_def cn_FindSession_def map_find_modify
        split: option.splits)
  then have "find_client_session k s3 = Some d" using find_client_session_same(3) [of k env r d ?s2] by (simp add: s3)
  then show "\<exists>d. find_client_session k (snd (HandleClientSessionOpened env k s)) = Some d \<and> cs_kcp d = cs_kcp c"
    using d(2) by (simp add: h find_client_session_same(1))
qed


text \<open>A reserved client gets its session.\<close>

lemma gate_admits:
  assumes inv: "gate_inv s" and r: "map_find (gt_reservations s) c = Some r" "ccr_account r \<noteq> []"
    and adm: "reservation_admits (fst (CurrentUnixTimeMilliseconds (ge_node env) s)) remote r"
    and new: "FindSessionByTransport c remote (gate_net s) = None" "plain_endpoint remote" "can_create cenv (gate_net s)"
  obtains k d u where "open_session cenv (gate_host env) c remote now s = (Some (k, True), u)" "gate_good u"
    "cn_FindSession k (gate_net u) = Some d" "cn_FindSession k (gate_net s) = None"
    "cs_kcp d = new_KcpPeer (ce_kcp cenv) \<lparr>kpo_conversation = c, kpo_config = cn_kcp (gate_net s)\<rparr>"
    "holder u k = Some (c, ccr_account r)" "map_find (gt_reservations u) c = None"
proof -
  have s: "gate_good s" "books_ok s" "clients_inv (gate_net s)" "clients_linked s"
    using inv by (simp_all add: gate_inv_def gate_good_def)
  obtain s1 where s1: "CanOpenClientSession env c remote s = (True, s1)"
    using CanOpen_admits [OF s(2) r(1) adm] by (metis prod.collapse)
  note e = CanOpenClientSession_effect [OF s(2) s1]
  have net1: "gate_net s1 = gate_net s" "gt_client_network s1 = gt_client_network s"
    using e(2) by (simp_all add: same_records_def gate_net_def)
  have r1: "map_find (gt_reservations s1) c = Some r" using e(4) r(1) by auto
  have len: "length (cn_sessions (gate_net s)) < 2 ^ 64 - 1" by (rule clients_linked_bound [OF s(4,3)])
  obtain sid n io where cr: "CreateSession cenv c remote (Some 0) now (gate_net s) (gate_io s1) = (Node_None, sid, n, io)"
    using CreateSession_ok [OF s(3) len new(3,2,1), of "Some 0" now "gate_io s1"] by (metis prod.collapse)
  let ?s2 = "gate_set_io io (s1\<lparr>gt_client_network := Some n\<rparr>)"
  have b2: "books_ok ?s2" "gt_reservations ?s2 = gt_reservations s1" "gt_client_network ?s2 = Some n"
    using same_books_ok [of s1 ?s2] e(1) by (simp_all add: gate_set_io_def same_books_def)
  from s(3) len cr show thesis
  proof (cases rule: CreateSession_cases)
    case (created k d)
    have find2: "find_client_session k ?s2 = Some d"
      using s(3) by (simp add: find_client_session_def b2 cn_FindSession_def created(7) map_find_put clients_inv_def)
    have host: "ep_host (cs_remote_endpoint d) = ep_host remote" using new(2) created(12) by (simp add: plain_endpoint_def)
    have res: "map_find (gt_reservations ?s2) (session_conversation d) = Some r" by (simp add: b2 created(11) r1)
    have adr: "ccr_remote_address r = [] \<or> NormalizeClientAddress (ep_host (cs_remote_endpoint d)) = ccr_remote_address r"
      using adm host by (auto simp: reservation_admits_def)
    note acc = Opened_accepts [OF find2 created(10,13) res r(2) adr, where env = env]
    obtain d' s3 where s3: "HandleClientSessionOpened env k ?s2 = (True, s3)" "find_client_session k s3 = Some d'" "cs_kcp d' = cs_kcp d"
      using acc by (metis prod.collapse)
    note o = HandleClientSessionOpened_effect [OF b2(1) s3(1)]
    have good3: "gt_client_network s3 = Some (gate_net s3)" "books_ok s3"
      using o(1,2) by (auto simp: b2 gate_net_def elim: option.rel_cases)
    from o(4) find2 have "holder s3 k = Some (c, ccr_account r)" "map_find (gt_reservations s3) c = None"
      by (auto simp: created(9,11) b2 r1 map_find_erase)
    moreover have "open_session cenv (gate_host env) c remote now s = (Some (k, True), s3)"
      using s3(1) created(2) by (simp add: open_session_def new(1) s1 net1 cr Let_def)
    moreover have "cn_FindSession k (gate_net s3) = Some d'" using s3(2) good3(1) by (simp add: find_client_session_def)
    ultimately show thesis
      using good3 created(5,14) s3(3) by (intro that [of k s3 d']) (simp_all add: gate_good_def cn_FindSession_def)
  qed simp
qed


text \<open>The reading of the clocks before the lookup changes nothing that the lookup looks at.\<close>

lemma clocks_read_same:
  "gt_reservations (clocks_read cenv (gate_host env) s) = gt_reservations s"
  "cn_sessions (gate_net (clocks_read cenv (gate_host env) s)) = cn_sessions (gate_net s)"
  "cn_transport_index (gate_net (clocks_read cenv (gate_host env) s)) = cn_transport_index (gate_net s)"
  "cn_kcp (gate_net (clocks_read cenv (gate_host env) s)) = cn_kcp (gate_net s)"
  "can_create cenv' (gate_net (clocks_read cenv (gate_host env) s)) = can_create cenv' (gate_net s)"
  by (simp_all add: clocks_read_def gate_set_io_def CurrentKcpClockMilliseconds_def can_create_def gate_net_def)

definition admission_time :: "gate_env \<Rightarrow> GateNode \<Rightarrow> u64" where
  "admission_time env s = fst (CurrentUnixTimeMilliseconds (ge_node env) (clocks_read (client_env_of env) (gate_host env) s))"

lemma after_open_books:
  "after_open (gate_host env) u t \<Longrightarrow> gt_reservations t = gt_reservations u \<and> holder t = holder u"
proof (induction rule: after_open.induct)
  case (after_payload s t k p)
  have "gate_kept t (HandleClientPayloadReceived env k p t)" by (intro kept_intros)
  then show ?case using after_payload.IH by (simp add: gate_kept_def)
qed (simp_all add: ch_modify_net_def holder_def fun_eq_iff)

lemma RemoveSession_gone: "cn_FindSession k (snd (RemoveSession k n)) = None"
  by (simp add: RemoveSession_def cn_FindSession_def map_find_erase split: option.split)

lemma first_incoming:
  assumes lib: "ikcp_drains q (ce_kcp (ge_client env))" and inv: "gate_inv s"
    and conv: "TryReadKcpConversation datagram (Some 0) = (True, Some c)"
    and r: "map_find (gt_reservations s) c = Some r" "ccr_account r \<noteq> []" "reservation_admits (admission_time env s) remote r"
    and new: "FindSessionByTransport c remote (gate_net s) = None" "plain_endpoint remote" "can_create (ge_client env) (gate_net s)"
  obtains t k where "HandleIncomingDatagram (client_env_of env) (gate_host env) remote datagram s = Some t"
    "cn_FindSession k (gate_net s) = None" "holder t k = Some (c, ccr_account r)" "map_find (gt_reservations t) c = None"
    "cn_FindSession k (gate_net t) \<noteq> None \<longleftrightarrow> fst (kcp_Input (ce_kcp (ge_client env)) datagram
      (new_KcpPeer (ce_kcp (ge_client env)) \<lparr>kpo_conversation = c, kpo_config = cn_kcp (gate_net s)\<rparr>)) = Kcp_None"
proof -
  let ?cenv = "client_env_of env" and ?lib = "ce_kcp (ge_client env)"
  let ?c = "clocks_read ?cenv (gate_host env) s" and ?now = "fst (cn_CurrentUnixTimeMilliseconds (client_env_of env) (gate_io s))"
  let ?peer = "new_KcpPeer ?lib \<lparr>kpo_conversation = c, kpo_config = cn_kcp (gate_net s)\<rparr>"
  have kcp: "ce_kcp ?cenv = ?lib" by (simp add: client_env_of_def)
  have create: "can_create ?cenv (gate_net ?c)" using new(3) by (simp add: clocks_read_same) (simp add: can_create_def kcp)
  have none: "FindSessionByTransport c remote (gate_net ?c) = None"
    using new(1) by (simp add: FindSessionByTransport_def cn_FindSession_def clocks_read_same split: option.splits)
  have rc: "map_find (gt_reservations ?c) c = Some r" by (simp add: clocks_read_same r(1))
  obtain k d u where u: "open_session ?cenv (gate_host env) c remote ?now ?c = (Some (k, True), u)" "gate_good u"
    "cn_FindSession k (gate_net u) = Some d" "cn_FindSession k (gate_net ?c) = None" "cs_kcp d = ?peer"
    "holder u k = Some (c, ccr_account r)" "map_find (gt_reservations u) c = None"
    using gate_admits [OF gate_clocks_read [OF inv] rc r(2) r(3) [unfolded admission_time_def] none new(2) create, of ?now,
        unfolded kcp clocks_read_same(4)] by blast
  from gate.HandleIncomingDatagram_found [where q = q and env = ?cenv and enva = env and s = s and remote = remote and u = u
      and datagram = datagram and conv = "Some c" and k = k and created = True and c = d] lib u conv
  obtain t where t: "HandleIncomingDatagram ?cenv (gate_host env) remote datagram s = Some t" "after_open (gate_host env) u t"
    "if fst (kcp_Input ?lib datagram ?peer) = Kcp_None then clients_kept (gate_net u) (gate_net t)
     else \<exists>n. clients_kept (gate_net u) n \<and> gate_net t = snd (RemoveSession k n)"
    by (auto simp: kcp cong: if_cong)
  have "cn_FindSession k (gate_net t) \<noteq> None \<longleftrightarrow> fst (kcp_Input ?lib datagram ?peer) = Kcp_None"
    using t(3) sessions_relD [OF _ u(3), of same_client "gate_net t"] RemoveSession_gone by (auto split: if_splits)
  with t(1) u after_open_books [OF t(2)] show thesis
    by (intro that [of t k]) (simp_all add: cn_FindSession_def clocks_read_same)
qed

lemma first_datagram:
  assumes lib: "ikcp_drains q (ce_kcp (ge_client env))" and inv: "gate_inv s" and run: "gate_client_running s"
    and conv: "TryReadKcpConversation datagram (Some 0) = (True, Some c)"
    and r: "map_find (gt_reservations s) c = Some r" "ccr_account r \<noteq> []" "reservation_admits (admission_time env s) remote r"
    and new: "FindSessionByTransport c remote (gate_net s) = None" "plain_endpoint remote" "can_create (ge_client env) (gate_net s)"
  obtains t k where "HandleReceive (client_env_of env) (gate_host env) None remote datagram s = Some t"
    "cn_FindSession k (gate_net s) = None" "holder t k = Some (c, ccr_account r)" "map_find (gt_reservations t) c = None"
    "cn_FindSession k (gate_net t) \<noteq> None \<longleftrightarrow> fst (kcp_Input (ce_kcp (ge_client env)) datagram
      (new_KcpPeer (ce_kcp (ge_client env)) \<lparr>kpo_conversation = c, kpo_config = cn_kcp (gate_net s)\<rparr>)) = Kcp_None"
proof -
  let ?f = "\<lambda>net. net\<lparr>cn_receives := cn_receives net - 1\<rparr>"
  define u where "u = ch_modify_net (gate_host env) ?f s"
  have good: "gate_good s" using inv by (simp add: gate_inv_def)
  have fr: "gate_frame s u" unfolding u_def by (rule modify_net_frame [OF good]) (simp add: kept_fields)
  have net: "gate_net u = ?f (gate_net s)" by (simp add: u_def ch_modify_net_def)
  have same: "admission_time env u = admission_time env s" "gt_reservations u = gt_reservations s"
    by (simp_all add: admission_time_def CurrentUnixTimeMilliseconds_def clocks_read_def gate_set_io_def gate_io_def u_def
        ch_modify_net_def Let_def cn_CurrentUnixTimeMilliseconds_def)
  have "cn_running (gate_net s)" using run by (auto simp: gate_client_running_def gate_net_def split: option.splits)
  then have kcp: "cn_kcp (gate_net u) = cn_kcp (gate_net s)" "cn_running (gate_net u)" by (simp_all add: net)
  have "FindSessionByTransport c remote (gate_net u) = None" "can_create (ge_client env) (gate_net u)"
    using new(1,3) by (simp_all add: net FindSessionByTransport_def cn_FindSession_def can_create_def split: option.splits)
  from first_incoming [OF lib gate_inv_kept [OF gate_kept_frame [OF fr] inv] conv _ r(2) _ this(1) new(2) this(2)]
  obtain t k where t: "HandleIncomingDatagram (client_env_of env) (gate_host env) remote datagram u = Some t"
    "cn_FindSession k (gate_net u) = None" "holder t k = Some (c, ccr_account r)" "map_find (gt_reservations t) c = None"
    "cn_FindSession k (gate_net t) \<noteq> None \<longleftrightarrow> fst (kcp_Input (ce_kcp (ge_client env)) datagram
      (new_KcpPeer (ce_kcp (ge_client env)) \<lparr>kpo_conversation = c, kpo_config = cn_kcp (gate_net s)\<rparr>)) = Kcp_None"
    unfolding same kcp(1) using r(1,3) by blast
  let ?t = "ch_modify_net (gate_host env) StartReceive t"
  have "HandleReceive (client_env_of env) (gate_host env) None remote datagram s = Some ?t"
    unfolding HandleReceive_def Let_def gate_host_simps u_def [symmetric] using kcp(2) t(1) by simp
  moreover have "holder ?t = holder t" "gt_reservations ?t = gt_reservations t" "cn_FindSession k (gate_net ?t) = cn_FindSession k (gate_net t)"
    by (simp_all add: ch_modify_net_def holder_def fun_eq_iff cn_FindSession_def)
  ultimately show thesis using t net by (intro that [of ?t k]) (simp_all add: cn_FindSession_def)
qed

end
