(* ===== verification/GateLogins.thy ===== *)
theory GateLogins
  imports GateAdmission
begin

text \<open>
  Where the reservations of a gate come from: every reservation was made by a login that succeeded at some earlier time,
  for the account and the address of that login. All that other steps do to reservations is to remove them.
\<close>

section \<open>Reservations only go away\<close>

definition no_new_reservation :: "GateNode \<Rightarrow> GateNode \<Rightarrow> bool" where
  "no_new_reservation s t \<longleftrightarrow> (\<forall>c r. map_find (gt_reservations t) c = Some r \<longrightarrow> map_find (gt_reservations s) c = Some r)"

lemma no_new_same: "gt_reservations t = gt_reservations s \<Longrightarrow> no_new_reservation s t"
  by (simp add: no_new_reservation_def)

lemma no_new_trans: "no_new_reservation s t \<Longrightarrow> no_new_reservation t u \<Longrightarrow> no_new_reservation s u"
  by (simp add: no_new_reservation_def)

lemma no_new_kept: "gate_kept s t \<Longrightarrow> no_new_reservation s t"
  by (simp add: gate_kept_def no_new_same)

lemma no_new_opened:
  assumes "books_ok s" "HandleClientSessionOpened env k s = (ok, t)"
  shows "no_new_reservation s t"
proof (cases ok)
  case True
  then obtain c where "gt_reservations t = map_erase c (gt_reservations s)"
    using HandleClientSessionOpened_effect(4) [OF assms] by blast
  then show ?thesis using books_okD(5) [OF assms(1)] by (simp add: no_new_reservation_def std_map_find)
next
  case False
  then show ?thesis using HandleClientSessionOpened_effect(3) [OF assms] no_new_kept [OF gate_kept_frame] by blast
qed

lemma no_new_open_session:
  assumes "gate_good s" "open_session cenv (gate_host env) c remote now s = (result, t)"
  shows "no_new_reservation s t"
proof -
  have b: "books_ok s" using assms(1) by (simp add: gate_good_def)
  obtain adm s1 where s1: "CanOpenClientSession env c remote s = (adm, s1)" by fastforce
  note e = CanOpenClientSession_effect [OF b s1]
  have "map_find (gt_reservations s) d = Some r" if "map_find (gt_reservations s1) d = Some r" for d r using e(3) [of d] that by simp
  then have n1: "no_new_reservation s s1" by (simp add: no_new_reservation_def)
  obtain code sid n io where cr: "CreateSession cenv c remote (Some 0) now (gate_net s1) (gate_io s1) = (code, sid, n, io)"
    by (metis prod_cases4)
  let ?s2 = "gate_set_io io (s1\<lparr>gt_client_network := Some n\<rparr>)"
  have s2: "books_ok ?s2" "gt_reservations ?s2 = gt_reservations s1"
    using e(1) same_books_ok [of s1 ?s2] e(2) assms(1)
    by (auto simp: gate_set_io_def same_books_def same_records_def gate_good_def)
  obtain op s3 where s3: "HandleClientSessionOpened env (the sid) ?s2 = (op, s3)" by fastforce
  have n3: "no_new_reservation s s3" by (rule no_new_trans [OF n1 no_new_trans [OF no_new_same [OF s2(2)] no_new_opened [OF s2(1) s3]]])
  from assms(2) have "t = s \<or> t = s1 \<or> t = ?s2 \<or> t = s3 \<or> t = ch_modify_net (gate_host env) (snd \<circ> RemoveSession (the sid)) s3"
    by (auto simp: open_session_def s1 cr s3 Let_def split: option.splits if_splits)
  then show ?thesis
    using n1 n3 no_new_same [OF refl, of s] no_new_trans [OF n1 no_new_same [OF s2(2)]]
    by (auto simp: no_new_reservation_def ch_modify_net_def)
qed

lemma no_new_datagram:
  assumes lib: "ikcp_drains q (ce_kcp (ge_client env))" and inv: "gate_inv s"
    and h: "HandleIncomingDatagram (client_env_of env) (gate_host env) remote datagram s = Some t"
  shows "no_new_reservation s t"
proof -
  have kcp: "ce_kcp (client_env_of env) = ce_kcp (ge_client env)" by (simp add: client_env_of_def)
  have s: "gate_good s" "clients_inv (gate_net s)" "clients_linked s" using inv by (simp_all add: gate_inv_def)
  let ?c = "clocks_read (client_env_of env) (gate_host env) s"
  obtain r u where u: "open_session (client_env_of env) (gate_host env) (the (snd (TryReadKcpConversation datagram (Some 0)))) remote
      (fst (cn_CurrentUnixTimeMilliseconds (client_env_of env) (gate_io s))) ?c = (r, u)" by fastforce
  from gate.HandleIncomingDatagram_ends [where q = q and env = "client_env_of env" and enva = env and s = s and remote = remote
      and datagram = datagram] lib s clients_linked_bound [OF s(3,2)] h
  have "t = s \<or> after_open (gate_host env) u t" by (auto simp: kcp u)
  moreover have "no_new_reservation s u"
    using gate_clocks_read [OF inv, of "client_env_of env" env] no_new_open_session [OF _ u]
      no_new_trans [OF no_new_same [OF clocks_read_same(1)]] by (simp add: gate_inv_def)
  ultimately show ?thesis
    using no_new_same [OF refl] after_open_books no_new_trans [OF _ no_new_same] by blast
qed

lemma no_new_receive:
  assumes lib: "ikcp_drains q (ce_kcp (ge_client env))" and inv: "gate_inv s"
    and h: "HandleReceive (client_env_of env) (gate_host env) error_code remote datagram s = Some t"
  shows "no_new_reservation s t"
proof -
  let ?f = "\<lambda>net. net\<lparr>cn_receives := cn_receives net - 1\<rparr>"
  define u where "u = ch_modify_net (gate_host env) ?f s"
  have good: "gate_good s" using inv by (simp add: gate_inv_def)
  have inv_u: "gate_inv u"
    unfolding u_def by (rule gate_inv_kept [OF gate_kept_frame inv], rule modify_net_frame [OF good]) (simp add: kept_fields)
  have same: "gt_reservations u = gt_reservations s" "gt_reservations (ch_modify_net (gate_host env) f v) = gt_reservations v" for f v
    by (simp_all add: u_def ch_modify_net_def)
  have "gt_reservations t = gt_reservations s \<or> (\<exists>v. HandleIncomingDatagram (client_env_of env) (gate_host env) remote datagram u = Some v \<and>
      gt_reservations t = gt_reservations v)"
    using h same(1) unfolding HandleReceive_def Let_def gate_host_simps u_def [symmetric]
    by (auto simp: same(2) split: if_splits option.splits)
  then show ?thesis
    using no_new_datagram [OF lib inv_u] same(1) by (auto simp: no_new_reservation_def)
qed

section \<open>Logins\<close>

text \<open>The reservation that a login with this result has made.\<close>

definition reservation_of :: "GateAuthLoginRequest \<Rightarrow> GateAuthLoginResult \<Rightarrow> ClientConversationReservation" where
  "reservation_of request result =
     \<lparr>ccr_account = glr_account request, ccr_remote_address = NormalizeClientAddress (glr_remote_address request),
      ccr_issued_at_unix_ms = gla_issued_at_unix_ms result, ccr_expires_at_unix_ms = gla_expires_at_unix_ms result\<rparr>"

lemma login_reservations:
  assumes inv: "gate_inv s" and h: "HandleAuthLogin env request s = (result, t)" and r: "map_find (gt_reservations t) c = Some r"
  shows "map_find (gt_reservations s) c = Some r \<or>
    gla_success result \<and> gla_conversation result = c \<and> r = reservation_of request result"
proof -
  have b: "books_ok s" using inv by (simp add: gate_inv_def gate_good_def)
  obtain now s1 where s1: "CurrentUnixTimeMilliseconds (ge_node env) s = (now, s1)" by fastforce
  let ?p = "PruneExpiredClientConversationReservations now s1"
  obtain d u where u: "ConsumeNextClientConversation ?p = (d, u)" by fastforce
  have f: "gate_frame s s1" using frame_updates(6) [OF gate_frame_refl, of s "ge_node env"] by (simp add: s1)
  have res1: "gt_reservations s1 = gt_reservations s" using f by (simp add: gate_frame_def same_books_def)
  have res: "gt_reservations u = gt_reservations ?p" by (subst ConsumeNextClientConversation_effect(3) [OF u]) simp
  note prune = Prune_reservations [OF frame_books_ok [OF f b], of now]
  have pu: "map_find (gt_reservations u) c = Some r \<Longrightarrow> map_find (gt_reservations s) c = Some r" for c r
    unfolding res prune(2) by (simp add: res1 split: option.splits if_splits)
  have wf: "map_wf (gt_reservations u)" unfolding res by (rule books_okD(5) [OF prune(1)])
  have "t = s \<or> t = u \<or> gla_success result \<and> gla_conversation result = d \<and>
      t = u\<lparr>gt_reservations := map_put d (reservation_of request result) (gt_reservations u)\<rparr>"
    using h by (cases "gate_config s") (auto simp: HandleAuthLogin_def s1 u Let_def reservation_of_def split: if_splits)
  then show ?thesis
  proof (elim disjE conjE)
    assume *: "gla_success result" "gla_conversation result = d"
      "t = u\<lparr>gt_reservations := map_put d (reservation_of request result) (gt_reservations u)\<rparr>"
    with r pu show ?thesis by (auto simp: std_map_find wf split: if_splits)
  qed (use r pu in auto)
qed

text \<open>
  The gate has gone from one state to the other by the events that happen to it; \<^verbatim>\<open>OnRun\<close> is one of them, since nothing
  here depends on when it is called.
\<close>

definition gate_moves :: "gate_env \<Rightarrow> GateNode \<Rightarrow> GateNode \<Rightarrow> bool" where
  "gate_moves env s t \<longleftrightarrow> gate_step env s t \<or> t = snd (gate_OnRun env s)"

lemma step_reservations:
  assumes lib: "ikcp_drains q (ce_kcp (ge_client env))" and inv: "gate_inv s" and step: "gate_step env s t"
  shows "no_new_reservation s t \<or> (\<exists>request. t = snd (HandleAuthLogin env request s))"
  using step
proof cases
  case gate_connector_state
  show ?thesis unfolding gate_connector_state by (intro disjI1 no_new_kept gate_kept_frame frame_intros)
next
  case gate_connector_message
  show ?thesis unfolding gate_connector_message by (intro disjI1 no_new_kept gate_kept_frame frame_intros)
next
  case gate_game_message
  show ?thesis unfolding gate_game_message by (intro disjI1 no_new_kept kept_intros)
next
  case (gate_datagram error_code remote datagram)
  then show ?thesis using no_new_receive [OF lib inv] by blast
next
  case gate_heartbeat_timer
  show ?thesis unfolding gate_heartbeat_timer by (intro disjI1 no_new_kept gate_kept_frame frame_intros)
next
  case gate_kcp_timer
  show ?thesis unfolding gate_kcp_timer by (intro disjI1 no_new_kept gate_kept_frame gate_tick)
next
  case gate_auth_login
  then show ?thesis by blast
qed

text \<open>Every reservation goes back to a login.\<close>

lemma reservation_from_login:
  assumes "gate_reach env s" "ikcp_drains q (ce_kcp (ge_client env))" "map_find (gt_reservations s) c = Some r"
  obtains s0 request result t0 where "gate_reach env s0" "HandleAuthLogin env request s0 = (result, t0)" "(gate_moves env)\<^sup>*\<^sup>* t0 s"
    "gla_success result" "gla_conversation result = c" "r = reservation_of request result"
proof -
  have "\<exists>s0 request result t0. gate_reach env s0 \<and> HandleAuthLogin env request s0 = (result, t0) \<and> (gate_moves env)\<^sup>*\<^sup>* t0 s \<and>
      gla_success result \<and> gla_conversation result = c \<and> r = reservation_of request result" (is "?from s")
    using assms(1,3)
  proof (induction arbitrary: )
    case (gate_init s t)
    then show ?case using gate_OnInit_clients [OF gate_init(1)] by (auto simp: client_part_def map_find_def)
  next
    case (gate_run s code t)
    have t: "t = snd (gate_OnRun env s)" using gate_run(2) by simp
    then have "map_find (gt_reservations s) c = Some r"
      using client_part_Run [of env s] gate_run(4) by (simp add: client_part_def)
    moreover have "gate_moves env s t" by (simp add: gate_moves_def t)
    ultimately show ?case using gate_run.IH rtranclp.rtrancl_into_rtrancl [of "gate_moves env"] by blast
  next
    case (gate_next s t)
    have inv: "gate_inv s" using gate_reach_inv [OF gate_next(1) assms(2)] by simp
    have move: "gate_moves env s t" using gate_next(2) by (simp add: gate_moves_def)
    show ?case
    proof (cases "map_find (gt_reservations s) c = Some r")
      case True
      then show ?thesis using gate_next.IH move rtranclp.rtrancl_into_rtrancl [of "gate_moves env"] by blast
    next
      case False
      then obtain request where "t = snd (HandleAuthLogin env request s)"
        using step_reservations [OF assms(2) inv gate_next(2)] gate_next(4) by (auto simp: no_new_reservation_def)
      then obtain result where l: "HandleAuthLogin env request s = (result, t)" by (metis prod.collapse)
      show ?thesis using login_reservations [OF inv l gate_next(4)] False gate_next(1) l by blast
    qed
  qed
  then show thesis using that by blast
qed

end
