(* ===== verification/GmNode.thy ===== *)
theory GmNode
  imports NodePackets
begin

text \<open>
  \<^verbatim>\<open>node/GmNode.h\<close>, \<^verbatim>\<open>.cpp\<close>: the coordinator of the cluster. It registers the nodes, answers
  their heartbeats, and leads the cluster through its start: when all expected nodes have
  registered the games are told; when all games have reported their mesh the server stubs are
  shared out among the games; when all stubs are ready the gates are told to open. Logging is left
  out. The managed runtime, the control service and the printing of JSON are parameters.
\<close>

unbundle bit_operations_syntax

section \<open>Constants and error codes\<close>

definition kDefaultTimeoutScanInterval :: int where "kDefaultTimeoutScanInterval = 1000 * 1000000"
definition kServerStubOwnershipAssignmentEpoch :: u64 where "kServerStubOwnershipAssignmentEpoch = 1"
definition kUnknownServerEntityId :: string where "kUnknownServerEntityId = ''unknown''"
definition kOnlineStubType :: string where "kOnlineStubType = ''OnlineStub''"

definition ToCoreProcessType :: "u16 \<Rightarrow> ProcessType option" where
  "ToCoreProcessType process_type =
     (if process_type = inner_process_type_value Process_Gate then Some Gate
      else if process_type = inner_process_type_value Process_Game then Some Game
      else None)"

definition InnerErrorName :: "i32 \<Rightarrow> string" where
  "InnerErrorName error_code =
     (if error_code = kInnerProcessTypeInvalid then ''Inner.ProcessTypeInvalid''
      else if error_code = kInnerNodeIdConflict then ''Inner.NodeIdConflict''
      else if error_code = kInnerNetworkEndpointInvalid then ''Inner.InnerNetworkEndpointInvalid''
      else if error_code = kInnerChannelInvalid then ''Inner.ChannelInvalid''
      else if error_code = kInnerRequestInvalid then ''Inner.RequestInvalid''
      else ''Inner.Unknown'')"

fun MapInnerNetworkSessionManagerErrorToInnerError :: "InnerNetworkSessionManagerErrorCode \<Rightarrow> i32 option" where
  "MapInnerNetworkSessionManagerErrorToInnerError Ism_None = None"
| "MapInnerNetworkSessionManagerErrorToInnerError Ism_InvalidProcessType = Some kInnerProcessTypeInvalid"
| "MapInnerNetworkSessionManagerErrorToInnerError Ism_InvalidInnerNetworkEndpointHost = Some kInnerNetworkEndpointInvalid"
| "MapInnerNetworkSessionManagerErrorToInnerError Ism_InvalidInnerNetworkEndpointPort = Some kInnerNetworkEndpointInvalid"
| "MapInnerNetworkSessionManagerErrorToInnerError Ism_NodeIdConflict = Some kInnerNodeIdConflict"
| "MapInnerNetworkSessionManagerErrorToInnerError Ism_RoutingIdConflict = Some kInnerChannelInvalid"
| "MapInnerNetworkSessionManagerErrorToInnerError Ism_NodeNotFound = Some kInnerChannelInvalid"
| "MapInnerNetworkSessionManagerErrorToInnerError Ism_RoutingIdNotFound = Some kInnerChannelInvalid"
| "MapInnerNetworkSessionManagerErrorToInnerError _ = Some kInnerRequestInvalid"

section \<open>State\<close>

datatype ServerStubState = Stub_Init | Stub_Ready

record GameMeshReadyEntry =
  gme_node_id :: string
  gme_mesh_ready :: bool
  gme_reported_at_unix_ms :: u64

record ServerStubEntry =
  sse_entity_type :: string
  sse_entity_id :: string
  sse_owner_game_node_id :: string
  sse_state :: ServerStubState

record ServerStubStateTable =
  sst_entries :: "ServerStubEntry list"
  sst_reflection_loaded :: bool
  sst_reflection_load_failed :: bool

record StartupState =
  ss_expected_gate_node_ids :: "string list"
  ss_expected_game_entries :: "GameMeshReadyEntry list"
  ss_registered_gate_node_ids :: "string list"
  ss_registered_game_node_ids :: "string list"
  ss_ready_epoch :: u64
  ss_last_all_nodes_online_server_now_unix_ms :: u64
  ss_last_cluster_ready_server_now_unix_ms :: u64
  ss_all_nodes_online :: bool
  ss_all_expected_games_mesh_ready :: bool
  ss_gate_open :: bool

definition new_ServerStubStateTable :: ServerStubStateTable where
  "new_ServerStubStateTable = \<lparr>sst_entries = [], sst_reflection_loaded = False, sst_reflection_load_failed = False\<rparr>"

definition new_StartupState :: StartupState where
  "new_StartupState = \<lparr>ss_expected_gate_node_ids = [], ss_expected_game_entries = [], ss_registered_gate_node_ids = [],
     ss_registered_game_node_ids = [], ss_ready_epoch = 0, ss_last_all_nodes_online_server_now_unix_ms = 0,
     ss_last_cluster_ready_server_now_unix_ms = 0, ss_all_nodes_online = False,
     ss_all_expected_games_mesh_ready = False, ss_gate_open = False\<rparr>"

text \<open>The control service is either there or not.\<close>

record GmNode = ServerNode +
  gm_timeout_scan_timer_id :: TimerID
  gm_control_http_service :: bool
  gm_stubs :: ServerStubStateTable
  gm_startup :: StartupState

text \<open>Assignment through a pointer that \<^verbatim>\<open>std::find_if\<close> has found.\<close>

fun update_first :: "('a \<Rightarrow> bool) \<Rightarrow> ('a \<Rightarrow> 'a) \<Rightarrow> 'a list \<Rightarrow> 'a list" where
  "update_first P f [] = []"
| "update_first P f (x # xs) = (if P x then f x # xs else x # update_first P f xs)"

definition mesh_ready_entry :: "string \<Rightarrow> GmNode \<Rightarrow> GameMeshReadyEntry ptr" where
  "mesh_ready_entry node_id s = find (\<lambda>entry. gme_node_id entry = node_id) (ss_expected_game_entries (gm_startup s))"

definition server_stub_entry :: "string \<Rightarrow> GmNode \<Rightarrow> ServerStubEntry ptr" where
  "server_stub_entry entity_type s = find (\<lambda>entry. sse_entity_type entry = entity_type) (sst_entries (gm_stubs s))"

definition registry_snapshot :: "GmNode \<Rightarrow> InnerNetworkSession list" where
  "registry_snapshot s = Snapshot (sn_sessions s)"

section \<open>Start state\<close>

definition InitializeStartupState :: "GmNode \<Rightarrow> GmNode" where
  "InitializeStartupState s = s\<lparr>gm_startup := new_StartupState
     \<lparr>ss_expected_gate_node_ids := map fst (cc_gates (sn_cluster_config s)),
      ss_expected_game_entries := map (\<lambda>(node_id, config).
        \<lparr>gme_node_id = node_id, gme_mesh_ready = False, gme_reported_at_unix_ms = 0\<rparr>) (cc_games (sn_cluster_config s))\<rparr>\<rparr>"

definition ResetServerStubStateTable :: "GmNode \<Rightarrow> GmNode" where
  "ResetServerStubStateTable s = s\<lparr>gm_stubs := new_ServerStubStateTable\<rparr>"

definition ResetServerStubStates :: "GmNode \<Rightarrow> GmNode" where
  "ResetServerStubStates s = s\<lparr>gm_stubs := (gm_stubs s)\<lparr>sst_entries :=
     map (\<lambda>entry. entry\<lparr>sse_entity_id := kUnknownServerEntityId, sse_state := Stub_Init\<rparr>) (sst_entries (gm_stubs s))\<rparr>\<rparr>"

definition AreAllExpectedNodesOnline :: "GmNode \<Rightarrow> bool" where
  "AreAllExpectedNodesOnline s \<longleftrightarrow>
     (let st = gm_startup s in
      length (ss_expected_gate_node_ids st) + length (ss_expected_game_entries st) \<noteq> 0 \<and>
      length (ss_registered_gate_node_ids st) = length (ss_expected_gate_node_ids st) \<and>
      length (ss_registered_game_node_ids st) = length (ss_expected_game_entries st))"

definition AreAllExpectedGamesMeshReady :: "GmNode \<Rightarrow> bool" where
  "AreAllExpectedGamesMeshReady s \<longleftrightarrow>
     ss_expected_game_entries (gm_startup s) \<noteq> [] \<and> list_all gme_mesh_ready (ss_expected_game_entries (gm_startup s))"

definition AreAllServerStubsReady :: "GmNode \<Rightarrow> bool" where
  "AreAllServerStubsReady s \<longleftrightarrow> sst_entries (gm_stubs s) \<noteq> [] \<and>
     list_all (\<lambda>entry. sse_owner_game_node_id entry \<noteq> [] \<and> sse_state entry = Stub_Ready) (sst_entries (gm_stubs s))"

definition ownership_active :: "GmNode \<Rightarrow> bool" where
  "ownership_active s \<longleftrightarrow> sst_entries (gm_stubs s) \<noteq> [] \<and>
     list_all (\<lambda>entry. sse_owner_game_node_id entry \<noteq> []) (sst_entries (gm_stubs s))"

definition RecordStartupRegistration :: "ProcessType \<Rightarrow> string \<Rightarrow> GmNode \<Rightarrow> GmNode" where
  "RecordStartupRegistration process_type node_id s =
     (let st = gm_startup s in
      if process_type = Game then
        if mesh_ready_entry node_id s = None \<or> node_id \<in> set (ss_registered_game_node_ids st) then s
        else s\<lparr>gm_startup := st\<lparr>ss_registered_game_node_ids := ss_registered_game_node_ids st @ [node_id]\<rparr>\<rparr>
      else if process_type \<noteq> Gate \<or> node_id \<notin> set (ss_expected_gate_node_ids st) \<or>
          node_id \<in> set (ss_registered_gate_node_ids st) then s
      else s\<lparr>gm_startup := st\<lparr>ss_registered_gate_node_ids := ss_registered_gate_node_ids st @ [node_id]\<rparr>\<rparr>)"

section \<open>The stubs that the managed code declares\<close>

text \<open>
  What the managed runtime offers: whether it loads for a configuration, whether its exports bind,
  and the two reflection functions, which may be missing. The count function returns a result code
  and the count; the entry function a result code and an entry, two buffers with their used lengths.
\<close>

record ManagedServerStubReflectionEntry =
  mse_entity_type_length :: u32
  mse_entity_type_utf8 :: "byte list"
  mse_entity_id_length :: u32
  mse_entity_id_utf8 :: "byte list"

record managed_exports =
  get_server_stub_reflection_count :: "(i32 \<times> u32) option"
  get_server_stub_reflection_entry :: "(nat \<Rightarrow> i32 \<times> ManagedServerStubReflectionEntry) option"

record managed_host =
  mh_load_ok :: "ManagedConfig \<Rightarrow> bool"
  mh_bind_ok :: bool
  mh_exports :: "managed_exports option"

definition TryReadManagedUtf8String :: "byte list \<Rightarrow> u32 \<Rightarrow> string option" where
  "TryReadManagedUtf8String utf8_buffer utf8_length =
     (if unat utf8_length > length utf8_buffer then None
      else Some (string_of_bytes (take (unat utf8_length) utf8_buffer)))"

text \<open>The loop over the indices; \<open>None\<close> is a failure.\<close>

fun read_reflection_entries ::
    "(nat \<Rightarrow> i32 \<times> ManagedServerStubReflectionEntry) \<Rightarrow> nat list \<Rightarrow> ServerStubEntry list \<Rightarrow> ServerStubEntry list option" where
  "read_reflection_entries get_entry [] reflection_entries = Some reflection_entries"
| "read_reflection_entries get_entry (index # indices) reflection_entries =
     (case get_entry index of (entry_result, e) \<Rightarrow>
        if entry_result \<noteq> 0 then None
        else case (TryReadManagedUtf8String (mse_entity_type_utf8 e) (mse_entity_type_length e),
            TryReadManagedUtf8String (mse_entity_id_utf8 e) (mse_entity_id_length e)) of
          (Some entity_type, Some entity_id) \<Rightarrow>
            let entity_id = (if entity_id = [] then kUnknownServerEntityId else entity_id) in
            if entity_type = [] then None
            else if list_ex (\<lambda>x. sse_entity_type x = entity_type \<and> sse_entity_id x = entity_id) reflection_entries then None
            else read_reflection_entries get_entry indices (reflection_entries @
              [\<lparr>sse_entity_type = entity_type, sse_entity_id = entity_id, sse_owner_game_node_id = [], sse_state = Stub_Init\<rparr>])
        | _ \<Rightarrow> None)"

definition reflect_stubs :: "managed_host \<Rightarrow> ManagedConfig \<Rightarrow> ServerStubEntry list option" where
  "reflect_stubs host managed_config =
     (if \<not> mh_load_ok host managed_config then None
      else if \<not> mh_bind_ok host then None
      else case mh_exports host of
        None \<Rightarrow> None
      | Some exports \<Rightarrow>
          case (get_server_stub_reflection_count exports, get_server_stub_reflection_entry exports) of
            (Some (count_result, reflection_count), Some get_entry) \<Rightarrow>
              if count_result \<noteq> 0 then None
              else if reflection_count = 0 then None
              else read_reflection_entries get_entry [0..<unat reflection_count] []
          | _ \<Rightarrow> None)"

definition LoadManagedServerStubReflection :: "managed_host \<Rightarrow> GmNode \<Rightarrow> bool \<times> GmNode" where
  "LoadManagedServerStubReflection host s =
     (if sst_reflection_loaded (gm_stubs s) then (True, s)
      else if sst_reflection_load_failed (gm_stubs s) then (False, s)
      else case reflect_stubs host (cc_managed (sn_cluster_config s)) of
        None \<Rightarrow> (False, s\<lparr>gm_stubs := \<lparr>sst_entries = [], sst_reflection_loaded = False, sst_reflection_load_failed = True\<rparr>\<rparr>)
      | Some reflection_entries \<Rightarrow> (True, ResetServerStubStates (s\<lparr>gm_stubs :=
          \<lparr>sst_entries = reflection_entries, sst_reflection_loaded = True, sst_reflection_load_failed = False\<rparr>\<rparr>)))"

text \<open>Every stub gets a random game; the random engine is read once per stub.\<close>

fun assign_owners :: "node_env \<Rightarrow> string list \<Rightarrow> nat \<Rightarrow> ServerStubEntry list \<Rightarrow> ServerStubEntry list" where
  "assign_owners env node_ids draw [] = []"
| "assign_owners env node_ids draw (entry # entries) =
     entry\<lparr>sse_owner_game_node_id := node_ids ! (env_random env draw mod length node_ids), sse_state := Stub_Init\<rparr>
       # assign_owners env node_ids (Suc draw) entries"

definition EnsureServerStubAssignments :: "node_env \<Rightarrow> managed_host \<Rightarrow> GmNode \<Rightarrow> bool \<times> GmNode" where
  "EnsureServerStubAssignments env host s =
     (case LoadManagedServerStubReflection host s of (loaded, s) \<Rightarrow>
        let entries = sst_entries (gm_stubs s); games = ss_expected_game_entries (gm_startup s) in
        if \<not> loaded then (False, s)
        else if entries = [] \<or> games = [] then (False, s)
        else if list_all (\<lambda>entry. sse_owner_game_node_id entry \<noteq> []) entries then (True, s)
        else (True, s\<lparr>gm_stubs := (gm_stubs s)\<lparr>sst_entries :=
            assign_owners env (map gme_node_id games) (sn_random_draws s) entries\<rparr>,
          sn_random_draws := sn_random_draws s + length entries\<rparr>))"

definition BuildServerStubDistributeTable :: "GmNode \<Rightarrow> ServerStubOwnershipEntry list" where
  "BuildServerStubDistributeTable s =
     map (\<lambda>entry. \<lparr>oe_entity_type = sse_entity_type entry, oe_entity_id = sse_entity_id entry,
         oe_owner_game_node_id = sse_owner_game_node_id entry, oe_entry_flags = 0\<rparr>)
       (filter (\<lambda>entry. sse_owner_game_node_id entry \<noteq> []) (sst_entries (gm_stubs s)))"

section \<open>Notifications\<close>

definition SendClusterNodesOnlineNotifyToGame ::
    "node_env \<Rightarrow> InnerNetworkSession \<Rightarrow> bool \<Rightarrow> u64 \<Rightarrow> GmNode \<Rightarrow> GmNode" where
  "SendClusterNodesOnlineNotifyToGame env session all_nodes_online server_now_unix_ms s =
     (if sn_inner_network s = None then s
      else case EncodeClusterNodesOnlineNotify
          \<lparr>no_all_nodes_online = all_nodes_online, no_status_flags = 0, no_server_now_unix_ms = server_now_unix_ms\<rparr>
          (replicate kClusterNodesOnlineNotifySize 0) of (body_result, body) \<Rightarrow>
        if body_result \<noteq> Icl_None then s
        else snd (send_packet env (ins_routing_id session) kInnerClusterNodesOnlineNotifyMsgId kPacketSeqNone 0 body s))"

definition SendOwnershipSyncToGame ::
    "node_env \<Rightarrow> ServerStubOwnershipSync \<Rightarrow> InnerNetworkSession \<Rightarrow> GmNode \<Rightarrow> GmNode" where
  "SendOwnershipSyncToGame env sync session s =
     (if sn_inner_network s = None then s
      else case GetServerStubOwnershipSyncWireSize sync (Some 0) of (size_result, wire_size) \<Rightarrow>
        if size_result \<noteq> Icl_None then s
        else case EncodeServerStubOwnershipSync sync (replicate (the wire_size) 0) of (body_result, body) \<Rightarrow>
          if body_result \<noteq> Icl_None then s
          else snd (send_packet env (ins_routing_id session) kInnerServerStubOwnershipSyncMsgId kPacketSeqNone 0 body s))"

definition SendClusterGateOpenNotifyToGate ::
    "node_env \<Rightarrow> ClusterReadyNotify \<Rightarrow> InnerNetworkSession \<Rightarrow> GmNode \<Rightarrow> GmNode" where
  "SendClusterGateOpenNotifyToGate env notify session s =
     (if sn_inner_network s = None then s
      else case EncodeClusterReadyNotify notify (replicate kClusterReadyNotifySize 0) of (body_result, body) \<Rightarrow>
        if body_result \<noteq> Icl_None then s
        else snd (send_packet env (ins_routing_id session) kInnerClusterReadyNotifyMsgId kPacketSeqNone 0 body s))"

text \<open>The loop over the nodes to notify: those with a session that is registered and alive.\<close>

definition notify_node :: "(InnerNetworkSession \<Rightarrow> GmNode \<Rightarrow> GmNode) \<Rightarrow> string \<Rightarrow> GmNode \<Rightarrow> GmNode" where
  "notify_node send node_id s =
     (case FindByNodeId node_id (sn_sessions s) of
        None \<Rightarrow> s
      | Some session \<Rightarrow>
          if \<not> ins_registered session \<or> ins_heartbeat_timed_out session then s else send session s)"

definition OnAllNodeOnline :: "node_env \<Rightarrow> GmNode \<Rightarrow> GmNode" where
  "OnAllNodeOnline env s =
     (if ss_all_nodes_online (gm_startup s) then s
      else case CurrentUnixTimeMilliseconds env s of (server_now_unix_ms, s) \<Rightarrow>
        let s = s\<lparr>gm_startup := (gm_startup s)\<lparr>ss_all_nodes_online := True,
            ss_last_all_nodes_online_server_now_unix_ms := server_now_unix_ms\<rparr>\<rparr> in
        fold (notify_node (\<lambda>session. SendClusterNodesOnlineNotifyToGame env session True server_now_unix_ms))
          (map gme_node_id (ss_expected_game_entries (gm_startup s))) s)"

definition OnAllGameReady :: "node_env \<Rightarrow> managed_host \<Rightarrow> GmNode \<Rightarrow> GmNode" where
  "OnAllGameReady env host s =
     (if ss_all_expected_games_mesh_ready (gm_startup s) then s
      else case EnsureServerStubAssignments env host
          (s\<lparr>gm_startup := (gm_startup s)\<lparr>ss_all_expected_games_mesh_ready := True\<rparr>\<rparr>) of (assigned, s) \<Rightarrow>
        if \<not> assigned then s
        else let s = ResetServerStubStates s; assignments = BuildServerStubDistributeTable s in
          if assignments = [] then s
          else case CurrentUnixTimeMilliseconds env s of (server_now_unix_ms, s) \<Rightarrow>
            fold (notify_node (SendOwnershipSyncToGame env
                \<lparr>os_assignment_epoch = kServerStubOwnershipAssignmentEpoch, os_status_flags = 0,
                 os_assignments = assignments, os_server_now_unix_ms = server_now_unix_ms\<rparr>))
              (map gme_node_id (ss_expected_game_entries (gm_startup s))) s)"

definition OnAllStubReady :: "node_env \<Rightarrow> GmNode \<Rightarrow> GmNode" where
  "OnAllStubReady env s =
     (if ss_gate_open (gm_startup s) \<or> \<not> AreAllServerStubsReady s then s
      else case CurrentUnixTimeMilliseconds env s of (server_now_unix_ms, s) \<Rightarrow>
        let s = s\<lparr>gm_startup := (gm_startup s)\<lparr>ss_gate_open := True,
            ss_last_cluster_ready_server_now_unix_ms := server_now_unix_ms,
            ss_ready_epoch := ss_ready_epoch (gm_startup s) + 1\<rparr>\<rparr> in
        fold (notify_node (SendClusterGateOpenNotifyToGate env
            \<lparr>cr_ready_epoch = ss_ready_epoch (gm_startup s), cr_cluster_ready = True, cr_status_flags = 0,
             cr_server_now_unix_ms = server_now_unix_ms\<rparr>))
          (ss_expected_gate_node_ids (gm_startup s)) s)"

section \<open>Messages\<close>

definition send_register_error ::
    "node_env \<Rightarrow> RoutingID \<Rightarrow> u32 \<Rightarrow> i32 \<Rightarrow> GmNode \<Rightarrow> GmNode" where
  "send_register_error env routing_id seq error_code s =
     (case EncodeRegisterErrorResponse \<lparr>re_error_code = error_code, re_retry_after_ms = 0\<rparr>
         (replicate kRegisterErrorResponseSize 0) of (encode_result, payload_buffer) \<Rightarrow>
        if encode_result \<noteq> Reg_None then s
        else snd (send_packet env routing_id kInnerRegisterMsgId seq
          (packet_flag_value Flag_Response OR packet_flag_value Flag_Error) payload_buffer s))"

definition registration_of :: "ProcessType \<Rightarrow> RegisterRequest \<Rightarrow> RoutingID \<Rightarrow> u64 \<Rightarrow> InnerNetworkSessionRegistration" where
  "registration_of process_type request routing_id server_now_unix_ms =
     \<lparr>isr_process_type = process_type, isr_node_id = rr_node_id request, isr_pid = rr_pid request,
      isr_started_at_unix_ms = rr_started_at_unix_ms request,
      isr_inner_network_endpoint = rr_inner_network_endpoint request,
      isr_build_version = rr_build_version request, isr_capability_tags = rr_capability_tags request,
      isr_load = rr_load request, isr_routing_id = routing_id,
      isr_last_heartbeat_at_unix_ms = server_now_unix_ms, isr_inner_network_ready = False\<rparr>"

definition apply_registration_state ::
    "InnerNetworkSessionRegistration \<Rightarrow> u64 \<Rightarrow> InnerNetworkSession \<Rightarrow> InnerNetworkSession" where
  "apply_registration_state registration server_now_unix_ms session = session
     \<lparr>ins_process_type := isr_process_type registration,
      ins_node_id := isr_node_id registration,
      ins_pid := isr_pid registration,
      ins_started_at_unix_ms := isr_started_at_unix_ms registration,
      ins_inner_network_endpoint := isr_inner_network_endpoint registration,
      ins_build_version := isr_build_version registration,
      ins_capability_tags := isr_capability_tags registration,
      ins_load := isr_load registration,
      ins_routing_id := isr_routing_id registration,
      ins_last_heartbeat_at_unix_ms := isr_last_heartbeat_at_unix_ms registration,
      ins_inner_network_ready := isr_inner_network_ready registration,
      ins_heartbeat_timed_out := False,
      ins_registered := True,
      ins_connection_state := Zmq_Connected,
      ins_heartbeat_interval_ms := kDefaultHeartbeatIntervalMs,
      ins_heartbeat_timeout_ms := kDefaultHeartbeatTimeoutMs,
      ins_last_server_now_unix_ms := server_now_unix_ms,
      ins_last_protocol_error := []\<rparr>"

text \<open>
  From the decoded request on. A node id that is known, even if its session has timed out, is
  refused. The registration is recorded for the start only when the reply could be sent.
\<close>

definition accept_registration ::
    "node_env \<Rightarrow> RoutingID \<Rightarrow> u32 \<Rightarrow> InnerNetworkSessionRegistration \<Rightarrow> u64 \<Rightarrow> GmNode \<Rightarrow> GmNode" where
  "accept_registration env routing_id seq registration server_now_unix_ms s =
     (case FindMutableByNodeId (isr_node_id registration) (sn_sessions s) of
        None \<Rightarrow> s
      | Some (key, _) \<Rightarrow>
          let s = s\<lparr>sn_sessions := modify_session key (apply_registration_state registration server_now_unix_ms) (sn_sessions s)\<rparr> in
          case EncodeRegisterSuccessResponse \<lparr>rs_heartbeat_interval_ms = kDefaultHeartbeatIntervalMs,
              rs_heartbeat_timeout_ms = kDefaultHeartbeatTimeoutMs, rs_server_now_unix_ms = server_now_unix_ms\<rparr>
              (replicate kRegisterSuccessResponseSize 0) of (encode_result, payload_buffer) \<Rightarrow>
            if encode_result \<noteq> Reg_None then s
            else case send_packet env routing_id kInnerRegisterMsgId seq (packet_flag_value Flag_Response)
                payload_buffer s of (sent, s) \<Rightarrow>
              if \<not> sent then s
              else let s = RecordStartupRegistration (isr_process_type registration) (isr_node_id registration) s in
                if \<not> ss_all_nodes_online (gm_startup s) \<and> AreAllExpectedNodesOnline s then OnAllNodeOnline env s
                else s)"

definition HandleRegisterMessage :: "node_env \<Rightarrow> RoutingID \<Rightarrow> byte list \<Rightarrow> GmNode \<Rightarrow> GmNode" where
  "HandleRegisterMessage env routing_id payload s =
     (case DecodePacket payload (Some empty_PacketView) of (packet_result, packet) \<Rightarrow>
        let header = pv_header (the packet); seq = ph_seq header in
        if packet_result \<noteq> Pkt_None then s
        else if HasPacketFlag (ph_flags header) Flag_Response \<or> HasPacketFlag (ph_flags header) Flag_Error \<or>
          seq = kPacketSeqNone then s
        else case DecodeRegisterRequest (pv_payload (the packet)) (Some zero_RegisterRequest) of (decode_result, request) \<Rightarrow>
          let request = the request in
          if decode_result \<noteq> Reg_None then
            (case MapRegisterCodecErrorToInnerError decode_result of
               None \<Rightarrow> s
             | Some error_code \<Rightarrow> send_register_error env routing_id seq error_code s)
          else case CurrentUnixTimeMilliseconds env s of (server_now_unix_ms, s) \<Rightarrow>
            case ToCoreProcessType (rr_process_type request) of
              None \<Rightarrow> send_register_error env routing_id seq kInnerProcessTypeInvalid s
            | Some process_type \<Rightarrow>
                let registration = registration_of process_type request routing_id server_now_unix_ms in
                if FindMutableByNodeId (rr_node_id request) (sn_sessions s) \<noteq> None then
                  send_register_error env routing_id seq kInnerNodeIdConflict s
                else case Register registration (sn_sessions s) of (register_result, sessions) \<Rightarrow>
                  let s = s\<lparr>sn_sessions := sessions\<rparr> in
                  if register_result \<noteq> Ism_None then
                    (case MapInnerNetworkSessionManagerErrorToInnerError register_result of
                       None \<Rightarrow> s
                     | Some error_code \<Rightarrow> send_register_error env routing_id seq error_code s)
                  else accept_registration env routing_id seq registration server_now_unix_ms s)"

definition refresh_session :: "LoadSnapshot \<Rightarrow> u64 \<Rightarrow> InnerNetworkSession \<Rightarrow> InnerNetworkSession" where
  "refresh_session load now_unix_ms session = session
     \<lparr>ins_load := load,
      ins_last_heartbeat_at_unix_ms := now_unix_ms,
      ins_inner_network_ready := True,
      ins_connection_state := Zmq_Connected,
      ins_heartbeat_interval_ms := kDefaultHeartbeatIntervalMs,
      ins_heartbeat_timeout_ms := kDefaultHeartbeatTimeoutMs,
      ins_last_server_now_unix_ms := now_unix_ms,
      ins_last_protocol_error := []\<rparr>"

definition HandleHeartbeatMessage :: "node_env \<Rightarrow> RoutingID \<Rightarrow> byte list \<Rightarrow> GmNode \<Rightarrow> GmNode" where
  "HandleHeartbeatMessage env routing_id payload s =
     (if routing_id = [] then s
      else case CurrentUnixTimeMilliseconds env s of (now_unix_ms, s) \<Rightarrow>
        case TryReadRawPacketHeader payload (Some zero_PacketHeader) of (header_ok, raw_header) \<Rightarrow>
        let raw_header = the raw_header in
        if \<not> header_ok then s
        else if \<not> IsHeartbeatRequestPacket raw_header then s
        else if \<not> IsValidPacketFlags (ph_flags raw_header) \<or> ph_flags raw_header \<noteq> 0 \<or>
          ph_seq raw_header = kPacketSeqNone then s
        else case DecodePacket payload (Some empty_PacketView) of (decode_packet_result, packet) \<Rightarrow>
          if decode_packet_result \<noteq> Pkt_None then s
          else case DecodeHeartbeatRequest (pv_payload (the packet)) (Some zero_HeartbeatRequest) of
            (decode_request_result, request) \<Rightarrow>
            if decode_request_result \<noteq> Hb_None then s
            else case FindMutableByRoutingId routing_id (sn_sessions s) of
              None \<Rightarrow> s
            | Some (key, session) \<Rightarrow>
                if \<not> ins_registered session \<or> ins_heartbeat_timed_out session then s
                else
                  let s = s\<lparr>sn_sessions := modify_session key (refresh_session (hr_load (the request)) now_unix_ms) (sn_sessions s)\<rparr> in
                  case EncodeHeartbeatSuccessResponse \<lparr>hs_heartbeat_interval_ms = kDefaultHeartbeatIntervalMs,
                      hs_heartbeat_timeout_ms = kDefaultHeartbeatTimeoutMs, hs_server_now_unix_ms = now_unix_ms\<rparr>
                      (replicate kHeartbeatSuccessResponseSize 0) of (encode_result, response_body) \<Rightarrow>
                    if encode_result \<noteq> Hb_None then s
                    else snd (send_packet env routing_id kInnerHeartbeatMsgId (ph_seq (pv_header (the packet)))
                      (packet_flag_value Flag_Response) response_body s))"

text \<open>The session that a report must come from: a game that is registered and alive.\<close>

definition reporting_game :: "RoutingID \<Rightarrow> GmNode \<Rightarrow> InnerNetworkSession option" where
  "reporting_game routing_id s =
     (case FindMutableByRoutingId routing_id (sn_sessions s) of
        None \<Rightarrow> None
      | Some (key, session) \<Rightarrow>
          if ins_process_type session \<noteq> Game \<or> \<not> ins_registered session \<or> ins_heartbeat_timed_out session
          then None else Some session)"

definition set_mesh_ready :: "string \<Rightarrow> u64 \<Rightarrow> GmNode \<Rightarrow> GmNode" where
  "set_mesh_ready node_id reported_at_unix_ms s =
     s\<lparr>gm_startup := (gm_startup s)\<lparr>ss_expected_game_entries :=
       update_first (\<lambda>entry. gme_node_id entry = node_id)
         (\<lambda>entry. entry\<lparr>gme_mesh_ready := True, gme_reported_at_unix_ms := reported_at_unix_ms\<rparr>)
         (ss_expected_game_entries (gm_startup s))\<rparr>\<rparr>"

definition HandleGameGateMeshReadyReport ::
    "node_env \<Rightarrow> managed_host \<Rightarrow> RoutingID \<Rightarrow> byte list \<Rightarrow> GmNode \<Rightarrow> GmNode" where
  "HandleGameGateMeshReadyReport env host routing_id payload s =
     (case DecodePacket payload (Some empty_PacketView) of (packet_result, packet) \<Rightarrow>
        let header = pv_header (the packet) in
        if packet_result \<noteq> Pkt_None then s
        else if ph_flags header \<noteq> 0 \<or> ph_seq header \<noteq> kPacketSeqNone then s
        else case DecodeGameGateMeshReadyReport (pv_payload (the packet)) (Some zero_GameGateMeshReadyReport) of
          (decode_result, report) \<Rightarrow>
          if decode_result \<noteq> Icl_None then s
          else case reporting_game routing_id s of
            None \<Rightarrow> s
          | Some session \<Rightarrow>
              if \<not> ss_all_nodes_online (gm_startup s) then s
              else if mesh_ready_entry (ins_node_id session) s = None then s
              else let s = set_mesh_ready (ins_node_id session) (mr_reported_at_unix_ms (the report)) s in
                if \<not> ss_all_expected_games_mesh_ready (gm_startup s) \<and> AreAllExpectedGamesMeshReady s
                then OnAllGameReady env host s else s)"

text \<open>
  One entry of a readiness report: the first stub of the game with the type and with an id that is
  still unknown or the same becomes ready with the reported id.
\<close>

definition mark_stub_ready :: "string \<Rightarrow> ServerStubReadyEntry \<Rightarrow> ServerStubEntry list \<Rightarrow> ServerStubEntry list" where
  "mark_stub_ready owner ready_entry entries =
     (if \<not> sre_ready ready_entry then entries
      else if sre_entity_id ready_entry = [] \<or> sre_entity_id ready_entry = kUnknownServerEntityId then entries
      else update_first (\<lambda>entry. sse_owner_game_node_id entry = owner \<and>
          sse_entity_type entry = sre_entity_type ready_entry \<and>
          (sse_entity_id entry = kUnknownServerEntityId \<or> sse_entity_id entry = sre_entity_id ready_entry))
        (\<lambda>entry. entry\<lparr>sse_entity_id := sre_entity_id ready_entry, sse_state := Stub_Ready\<rparr>) entries)"

definition HandleGameStubsReadyReport :: "node_env \<Rightarrow> RoutingID \<Rightarrow> byte list \<Rightarrow> GmNode \<Rightarrow> GmNode" where
  "HandleGameStubsReadyReport env routing_id payload s =
     (case DecodePacket payload (Some empty_PacketView) of (packet_result, packet) \<Rightarrow>
        let header = pv_header (the packet) in
        if packet_result \<noteq> Pkt_None then s
        else if ph_flags header \<noteq> 0 \<or> ph_seq header \<noteq> kPacketSeqNone then s
        else case DecodeGameServiceReadyReport (pv_payload (the packet)) (Some zero_GameServiceReadyReport) of
          (decode_result, report) \<Rightarrow>
          let report = the report in
          if decode_result \<noteq> Icl_None then s
          else case reporting_game routing_id s of
            None \<Rightarrow> s
          | Some session \<Rightarrow>
              if \<not> ss_all_expected_games_mesh_ready (gm_startup s) \<or> \<not> ownership_active s then s
              else if gs_assignment_epoch report \<noteq> kServerStubOwnershipAssignmentEpoch then s
              else if \<not> gs_local_ready report then s
              else if list_all (\<lambda>entry. sse_owner_game_node_id entry \<noteq> ins_node_id session) (sst_entries (gm_stubs s)) then s
              else let s = s\<lparr>gm_stubs := (gm_stubs s)\<lparr>sst_entries :=
                  fold (mark_stub_ready (ins_node_id session)) (gs_entries report) (sst_entries (gm_stubs s))\<rparr>\<rparr> in
                if \<not> ss_gate_open (gm_startup s) \<and> AreAllServerStubsReady s then OnAllStubReady env s else s)"

definition HandleInnerMessage :: "node_env \<Rightarrow> managed_host \<Rightarrow> RoutingID \<Rightarrow> byte list \<Rightarrow> GmNode \<Rightarrow> GmNode" where
  "HandleInnerMessage env host routing_id payload s =
     (case TryReadRawPacketHeader payload (Some zero_PacketHeader) of (header_ok, raw_header) \<Rightarrow>
        let msg_id = ph_msg_id (the raw_header) in
        if \<not> header_ok then s
        else if msg_id = kInnerRegisterMsgId then HandleRegisterMessage env routing_id payload s
        else if msg_id = kInnerHeartbeatMsgId then HandleHeartbeatMessage env routing_id payload s
        else if msg_id = kInnerGameGateMeshReadyReportMsgId then HandleGameGateMeshReadyReport env host routing_id payload s
        else if msg_id = kInnerGameServiceReadyReportMsgId then HandleGameStubsReadyReport env routing_id payload s
        else s)"

section \<open>Timeouts\<close>

definition expire_session :: "InnerNetworkSession \<Rightarrow> InnerNetworkSession" where
  "expire_session session = session
     \<lparr>ins_heartbeat_timed_out := True, ins_inner_network_ready := False, ins_registered := False,
      ins_connection_state := Zmq_Stopped, ins_last_protocol_error := ''Heartbeat timed out.''\<rparr>"

definition scan_entry :: "u64 \<Rightarrow> InnerNetworkSession \<Rightarrow> InnerNetworkSessionManager \<Rightarrow> InnerNetworkSessionManager" where
  "scan_entry now_unix_ms entry sessions =
     (if ins_last_heartbeat_at_unix_ms entry = 0 \<or> ins_last_heartbeat_at_unix_ms entry > now_unix_ms then sessions
      else if now_unix_ms - ins_last_heartbeat_at_unix_ms entry < ucast kDefaultHeartbeatTimeoutMs then sessions
      else case FindMutableByNodeId (ins_node_id entry) sessions of
        None \<Rightarrow> sessions
      | Some (key, session) \<Rightarrow>
          if ins_heartbeat_timed_out session then sessions else modify_session key expire_session sessions)"

definition HandleTimeoutScan :: "node_env \<Rightarrow> GmNode \<Rightarrow> GmNode" where
  "HandleTimeoutScan env s =
     (case CurrentUnixTimeMilliseconds env s of (now_unix_ms, s) \<Rightarrow>
        s\<lparr>sn_sessions := fold (scan_entry now_unix_ms) (Snapshot (sn_sessions s)) (sn_sessions s)\<rparr>)"

section \<open>Control service\<close>

record StartupFlowSnapshot =
  sfs_expected_game_count :: u64
  sfs_expected_gate_count :: u64
  sfs_registered_game_count :: u64
  sfs_registered_gate_count :: u64
  sfs_all_nodes_online :: bool
  sfs_last_all_nodes_online_server_now_unix_ms :: u64
  sfs_all_expected_games_mesh_ready :: bool
  sfs_reflection_loaded :: bool
  sfs_reflection_load_failed :: bool
  sfs_ownership_active :: bool
  sfs_assignment_epoch :: u64
  sfs_total_stub_count :: u64
  sfs_assigned_stub_count :: u64
  sfs_ready_stub_count :: u64
  sfs_ready_epoch :: u64
  sfs_cluster_ready :: bool
  sfs_last_cluster_ready_server_now_unix_ms :: u64

record NodeSnapshot =
  nss_node_id :: string
  nss_process_type :: string
  nss_pid :: u32
  nss_inner_network_endpoint :: string
  nss_last_heartbeat_at_unix_ms :: u64
  nss_last_server_now_unix_ms :: u64
  nss_last_protocol_error :: string
  nss_registered :: bool
  nss_heartbeat_timed_out :: bool
  nss_online :: bool
  nss_inner_network_ready :: bool

record StubSnapshot =
  sts_entity_type :: string
  sts_entity_id :: string
  sts_state :: string

record StubOwnerSnapshot =
  sos_node_id :: string
  sos_owned_stub_count :: u64
  sos_ready_stub_count :: u64
  sos_stubs :: "StubSnapshot list"

record GmControlHttpStatusSnapshot =
  gcs_inner_network_endpoint :: string
  gcs_registered_process_count :: u64
  gcs_running :: bool
  gcs_startup_flow :: StartupFlowSnapshot
  gcs_nodes :: "NodeSnapshot list"
  gcs_game_mesh_ready :: "GameMeshReadyEntry list"
  gcs_stub_distribution :: "StubOwnerSnapshot list"

definition node_snapshot :: "InnerNetworkSession list \<Rightarrow> ProcessType \<Rightarrow> string \<Rightarrow> NodeSnapshot" where
  "node_snapshot registry process_type node_id =
     (case find (\<lambda>entry. ins_node_id entry = node_id) registry of
        None \<Rightarrow> \<lparr>nss_node_id = node_id, nss_process_type = ProcessTypeName process_type, nss_pid = 0,
          nss_inner_network_endpoint = [], nss_last_heartbeat_at_unix_ms = 0, nss_last_server_now_unix_ms = 0,
          nss_last_protocol_error = [], nss_registered = False, nss_heartbeat_timed_out = False,
          nss_online = False, nss_inner_network_ready = False\<rparr>
      | Some session \<Rightarrow> \<lparr>nss_node_id = node_id, nss_process_type = ProcessTypeName process_type,
          nss_pid = ins_pid session,
          nss_inner_network_endpoint = BuildInnerNetworkEndpointText (ins_inner_network_endpoint session),
          nss_last_heartbeat_at_unix_ms = ins_last_heartbeat_at_unix_ms session,
          nss_last_server_now_unix_ms = ins_last_server_now_unix_ms session,
          nss_last_protocol_error = ins_last_protocol_error session,
          nss_registered = ins_registered session, nss_heartbeat_timed_out = ins_heartbeat_timed_out session,
          nss_online = (ins_registered session \<and> \<not> ins_heartbeat_timed_out session),
          nss_inner_network_ready = ins_inner_network_ready session\<rparr>)"

definition owner_snapshot :: "ServerStubEntry list \<Rightarrow> string \<Rightarrow> StubOwnerSnapshot" where
  "owner_snapshot entries node_id =
     (let owned = filter (\<lambda>entry. sse_owner_game_node_id entry = node_id) entries in
      \<lparr>sos_node_id = node_id, sos_owned_stub_count = word_of_nat (length owned),
       sos_ready_stub_count = word_of_nat (length (filter (\<lambda>entry. sse_state entry = Stub_Ready) owned)),
       sos_stubs = map (\<lambda>entry. \<lparr>sts_entity_type = sse_entity_type entry, sts_entity_id = sse_entity_id entry,
         sts_state = (if sse_state entry = Stub_Ready then ''Ready'' else ''Init'')\<rparr>) owned\<rparr>)"

definition BuildControlHttpStatusSnapshot :: "GmNode \<Rightarrow> GmControlHttpStatusSnapshot" where
  "BuildControlHttpStatusSnapshot s =
     (let st = gm_startup s; entries = sst_entries (gm_stubs s); registry = Snapshot (sn_sessions s);
          total_stub_count = word_of_nat (length entries);
          assigned_stub_count = word_of_nat (length (filter (\<lambda>entry. sse_owner_game_node_id entry \<noteq> []) entries));
          active = (total_stub_count > (0::u64) \<and> assigned_stub_count = total_stub_count);
          expected_game_node_ids = map gme_node_id (ss_expected_game_entries st) in
      \<lparr>gcs_inner_network_endpoint = (case sn_inner_network s of Some net \<Rightarrow> net_bound_endpoint net | None \<Rightarrow> []),
       gcs_registered_process_count = word_of_nat (sessions_size (sn_sessions s)),
       gcs_running = True,
       gcs_startup_flow =
         \<lparr>sfs_expected_game_count = word_of_nat (length (ss_expected_game_entries st)),
          sfs_expected_gate_count = word_of_nat (length (ss_expected_gate_node_ids st)),
          sfs_registered_game_count = word_of_nat (length (ss_registered_game_node_ids st)),
          sfs_registered_gate_count = word_of_nat (length (ss_registered_gate_node_ids st)),
          sfs_all_nodes_online = ss_all_nodes_online st,
          sfs_last_all_nodes_online_server_now_unix_ms = ss_last_all_nodes_online_server_now_unix_ms st,
          sfs_all_expected_games_mesh_ready = ss_all_expected_games_mesh_ready st,
          sfs_reflection_loaded = sst_reflection_loaded (gm_stubs s),
          sfs_reflection_load_failed = sst_reflection_load_failed (gm_stubs s),
          sfs_ownership_active = active,
          sfs_assignment_epoch = (if active then kServerStubOwnershipAssignmentEpoch else 0),
          sfs_total_stub_count = total_stub_count,
          sfs_assigned_stub_count = assigned_stub_count,
          sfs_ready_stub_count = word_of_nat (length (filter
            (\<lambda>entry. sse_owner_game_node_id entry \<noteq> [] \<and> sse_state entry = Stub_Ready) entries)),
          sfs_ready_epoch = ss_ready_epoch st,
          sfs_cluster_ready = ss_gate_open st,
          sfs_last_cluster_ready_server_now_unix_ms = ss_last_cluster_ready_server_now_unix_ms st\<rparr>,
       gcs_nodes = map (node_snapshot registry Game) expected_game_node_ids @
         map (node_snapshot registry Gate) (ss_expected_gate_node_ids st),
       gcs_game_mesh_ready = ss_expected_game_entries st,
       gcs_stub_distribution = map (owner_snapshot entries) expected_game_node_ids\<rparr>)"

definition TrySendStubCallToGame ::
    "node_env \<Rightarrow> string \<Rightarrow> string \<Rightarrow> string \<Rightarrow> u32 \<Rightarrow> byte list \<Rightarrow> GmNode \<Rightarrow> (string + unit) \<times> GmNode" where
  "TrySendStubCallToGame env target_game_node_id target_stub_type target_entity_id msg_id payload s =
     (if target_game_node_id = [] \<or> target_stub_type = [] \<or> msg_id = 0 then (Inl ''GM stub relay arguments are invalid.'', s)
      else case sn_inner_network s of
        None \<Rightarrow> (Inl ''GM inner network is unavailable.'', s)
      | Some net \<Rightarrow>
        case FindMutableByNodeId target_game_node_id (sn_sessions s) of
          None \<Rightarrow> (Inl ''OnlineStub owner Game is unavailable on the inner network.'', s)
        | Some (key, target_session) \<Rightarrow>
          if ins_process_type target_session \<noteq> Game \<or> ins_connection_state target_session \<noteq> Zmq_Connected \<or>
            \<not> ins_registered target_session \<or> \<not> ins_inner_network_ready target_session \<or> ins_routing_id target_session = []
          then (Inl ''OnlineStub owner Game is unavailable on the inner network.'', s)
          else let relay_message = \<lparr>mc_source_game_node_id = sn_node_id s, mc_target_game_node_id = target_game_node_id,
              mc_target_entity_id = target_entity_id, mc_target_mailbox_name = target_stub_type,
              mc_mailbox_call_msg_id = msg_id, mc_relay_flags = 0, mc_payload = payload\<rparr> in
            case GetRelayForwardMailboxCallWireSize relay_message (Some 0) of (wire_size_result, wire_size) \<Rightarrow>
            if wire_size_result \<noteq> Rly_None then (Inl (RelayCodecErrorMessage wire_size_result), s)
            else case EncodeRelayForwardMailboxCall relay_message (replicate (the wire_size) 0) of (encode_result, relay_payload) \<Rightarrow>
              if encode_result \<noteq> Rly_None then (Inl (RelayCodecErrorMessage encode_result), s)
              else case encode_packet kRelayForwardMailboxCallMsgId kPacketSeqNone 0 relay_payload of (packet_result, packet) \<Rightarrow>
                if packet_result \<noteq> Pkt_None then (Inl (PacketCodecErrorMessage packet_result), s)
                else case inner_Send env (ins_routing_id target_session) packet net s of (send_result, s) \<Rightarrow>
                  if send_result \<noteq> Node_None
                  then (Inl (case sn_inner_network s of Some net \<Rightarrow> last_error_message net | None \<Rightarrow> []), s)
                  else (Inr (), s))"

text \<open>A response of the control service; its body is a JSON object with text fields.\<close>

record GmControlHttpResponse =
  ghr_status_code :: nat
  ghr_body :: "(string \<times> string) list"

definition HandleBoardcaseRequest :: "node_env \<Rightarrow> string \<Rightarrow> GmNode \<Rightarrow> GmControlHttpResponse \<times> GmNode" where
  "HandleBoardcaseRequest env message s =
     (if message = [] then
        (\<lparr>ghr_status_code = 400, ghr_body = [(''error'', ''Broadcast message must not be empty.'')]\<rparr>, s)
      else let unavailable = (\<lparr>ghr_status_code = 503, ghr_body = [(''error'', ''OnlineStub owner is not available.''),
          (''stubType'', kOnlineStubType)]\<rparr>, s) in
      case server_stub_entry kOnlineStubType s of
        None \<Rightarrow> unavailable
      | Some online_stub_entry \<Rightarrow>
          if sse_owner_game_node_id online_stub_entry = [] \<or> sse_state online_stub_entry \<noteq> Stub_Ready then unavailable
          else case TrySendStubCallToGame env (sse_owner_game_node_id online_stub_entry) kOnlineStubType
              (if sse_entity_id online_stub_entry = kUnknownServerEntityId then [] else sse_entity_id online_stub_entry)
              kOnlineStubBroadcastMsgId (bytes_of_string message) s of
            (Inl error_message, s) \<Rightarrow>
              (\<lparr>ghr_status_code = 503, ghr_body = [(''error'', if error_message = []
                  then ''Failed to forward boardcase message to OnlineStub owner.'' else error_message),
                (''stubType'', kOnlineStubType), (''ownerGameNodeId'', sse_owner_game_node_id online_stub_entry)]\<rparr>, s)
          | (Inr _, s) \<Rightarrow>
              (\<lparr>ghr_status_code = 200, ghr_body = [(''status'', ''forwarded''), (''stubType'', kOnlineStubType),
                (''ownerGameNodeId'', sse_owner_game_node_id online_stub_entry), (''message'', message)]\<rparr>, s))"

section \<open>Life cycle\<close>

text \<open>
  The results of the control service's \<^verbatim>\<open>Init\<close>, \<^verbatim>\<open>Run\<close> and \<^verbatim>\<open>Uninit\<close>, each a code with the
  service's error text, are parameters. The timers of the event loop are there while the node is
  initialised.
\<close>

definition gm_OnInit :: "node_env \<Rightarrow> NodeErrorCode \<times> string \<Rightarrow> GmNode \<Rightarrow> NodeErrorCode \<times> GmNode" where
  "gm_OnInit env control_init s =
     (case sn_node_config s of
        Some (GmNodeConfig endpoint control_endpoint) \<Rightarrow>
          if ec_host endpoint = [] then
            sn_SetError Node_ConfigLoadFailed ''GM innerNetwork.listenEndpoint.host must not be empty.'' s
          else if ec_port endpoint = 0 then
            sn_SetError Node_ConfigLoadFailed ''GM innerNetwork.listenEndpoint.port must be greater than zero.'' s
          else if ec_host control_endpoint = [] then
            sn_SetError Node_ConfigLoadFailed ''GM controlNetwork.listenEndpoint.host must not be empty.'' s
          else if ec_port control_endpoint = 0 then
            sn_SetError Node_ConfigLoadFailed ''GM controlNetwork.listenEndpoint.port must be greater than zero.'' s
          else
            let s = s\<lparr>gm_timeout_scan_timer_id := 0, sn_sessions := sessions_Clear (sn_sessions s)\<rparr>;
                s = ResetServerStubStateTable (InitializeStartupState s);
                s = s\<lparr>gm_startup := (gm_startup s)\<lparr>ss_ready_epoch := 0\<rparr>\<rparr> in
            case InitInnerNetwork env \<lparr>nno_local_endpoint = BuildTcpEndpoint endpoint, nno_connectors = []\<rparr> s of
              (init_result, s) \<Rightarrow>
              if init_result \<noteq> Node_None then (init_result, s)
              else case control_init of (control_init_result, error_message) \<Rightarrow>
                if control_init_result \<noteq> Node_None then
                  let s = snd (UninitInnerNetwork (s\<lparr>gm_control_http_service := False\<rparr>)) in
                  sn_SetError control_init_result error_message (s\<lparr>sn_sessions := sessions_Clear (sn_sessions s)\<rparr>)
                else (Node_None, sn_ClearError (s\<lparr>gm_control_http_service := True\<rparr>))
      | _ \<Rightarrow> sn_SetError Node_ConfigLoadFailed ''GM node requires a GM-specific node configuration.'' s)"

definition gm_OnRun :: "node_env \<Rightarrow> NodeErrorCode \<times> string \<Rightarrow> GmNode \<Rightarrow> NodeErrorCode \<times> GmNode" where
  "gm_OnRun env control_run s =
     (case (sn_inner_network s, sn_event_loop s) of
        (Some _, Some timers) \<Rightarrow>
          if \<not> gm_control_http_service s then
            sn_SetError Node_InvalidArgument ''GM node must be initialized before Run().'' s
          else case RunInnerNetwork env s of (run_result, s) \<Rightarrow>
            if run_result \<noteq> Node_None then (run_result, s)
            else case CreateRepeating kDefaultTimeoutScanInterval (Some ()) timers of (timeout_scan_result, timers) \<Rightarrow>
              let s = s\<lparr>sn_event_loop := Some timers\<rparr> in
              if \<not> IsTimerID timeout_scan_result then
                sn_SetError Node_NodeRunFailed (''Failed to create GM timeout scan timer: '' @
                  TimerErrorMessage (TimerErrorFromCreateResult timeout_scan_result)) (snd (UninitInnerNetwork s))
              else let s = s\<lparr>gm_timeout_scan_timer_id := timeout_scan_result\<rparr> in
                case control_run of (control_run_result, error_message) \<Rightarrow>
                  if control_run_result \<noteq> Node_None then
                    let s = s\<lparr>sn_event_loop := Some (snd (Cancel timeout_scan_result timers)), gm_timeout_scan_timer_id := 0\<rparr> in
                    sn_SetError control_run_result error_message (snd (UninitInnerNetwork s))
                  else (Node_None, sn_ClearError s)
      | _ \<Rightarrow> sn_SetError Node_InvalidArgument ''GM node must be initialized before Run().'' s)"

definition gm_OnUninit :: "NodeErrorCode \<times> string \<Rightarrow> GmNode \<Rightarrow> NodeErrorCode \<times> GmNode" where
  "gm_OnUninit control_uninit s =
     (let s = (if gm_timeout_scan_timer_id s > 0
          then s\<lparr>sn_event_loop := map_option (\<lambda>timers. snd (Cancel (gm_timeout_scan_timer_id s) timers)) (sn_event_loop s),
            gm_timeout_scan_timer_id := 0\<rparr>
          else s) in
      if gm_control_http_service s \<and> fst control_uninit \<noteq> Node_None then
        sn_SetError (fst control_uninit) (snd control_uninit) (s\<lparr>gm_control_http_service := False\<rparr>)
      else case UninitInnerNetwork (s\<lparr>gm_control_http_service := False\<rparr>) of (result, s) \<Rightarrow>
        if result \<noteq> Node_None then (result, s)
        else (Node_None, sn_ClearError (ResetServerStubStateTable (s\<lparr>gm_startup := new_StartupState\<rparr>))))"

section \<open>Running\<close>

text \<open>
  What happens to a running node: an inner message arrives, the timeout timer fires, the control
  service asks for a broadcast.
\<close>

datatype gm_event =
    Inner_message RoutingID "byte list"
  | Timeout_scan
  | Boardcase_request string

fun gm_handle :: "node_env \<Rightarrow> managed_host \<Rightarrow> gm_event \<Rightarrow> GmNode \<Rightarrow> GmNode" where
  "gm_handle env host (Inner_message routing_id payload) s = HandleInnerMessage env host routing_id payload s"
| "gm_handle env host Timeout_scan s = HandleTimeoutScan env s"
| "gm_handle env host (Boardcase_request message) s = snd (HandleBoardcaseRequest env message s)"

end
