(* ===== verification/GmStartup.thy ===== *)
theory GmStartup
  imports GmNode
begin

text \<open>
  The start of the cluster as the coordinator leads it. The flags of the start state say exactly
  what has been recorded (\<open>gm_inv\<close>), no session is ever dropped or revived, and every handler
  keeps both.
\<close>

declare packet_flag_value.simps [simp del]

section \<open>What the handlers leave alone\<close>

lemma inner_Send_frame [simp]:
  fixes s :: GmNode
  shows "sn_sessions (snd (inner_Send env r p net s)) = sn_sessions s"
    "gm_startup (snd (inner_Send env r p net s)) = gm_startup s"
    "gm_stubs (snd (inner_Send env r p net s)) = gm_stubs s"
  by (simp_all add: inner_Send_def split: prod.split)

lemma send_packet_frame [simp]:
  fixes s :: GmNode
  shows "sn_sessions (snd (send_packet env r m q f b s)) = sn_sessions s"
    "gm_startup (snd (send_packet env r m q f b s)) = gm_startup s"
    "gm_stubs (snd (send_packet env r m q f b s)) = gm_stubs s"
  by (simp_all add: send_packet_def split_def split: option.split)

lemma Send_frame [simp]:
  "sn_sessions (SendClusterNodesOnlineNotifyToGame env session b t s) = sn_sessions s"
  "gm_startup (SendClusterNodesOnlineNotifyToGame env session b t s) = gm_startup s"
  "gm_stubs (SendClusterNodesOnlineNotifyToGame env session b t s) = gm_stubs s"
  "sn_sessions (SendOwnershipSyncToGame env sync session s) = sn_sessions s"
  "gm_startup (SendOwnershipSyncToGame env sync session s) = gm_startup s"
  "gm_stubs (SendOwnershipSyncToGame env sync session s) = gm_stubs s"
  "sn_sessions (SendClusterGateOpenNotifyToGate env notify session s) = sn_sessions s"
  "gm_startup (SendClusterGateOpenNotifyToGate env notify session s) = gm_startup s"
  "gm_stubs (SendClusterGateOpenNotifyToGate env notify session s) = gm_stubs s"
  "sn_sessions (send_register_error env r q e s) = sn_sessions s"
  "gm_startup (send_register_error env r q e s) = gm_startup s"
  "gm_stubs (send_register_error env r q e s) = gm_stubs s"
  by (simp_all add: SendClusterNodesOnlineNotifyToGame_def SendOwnershipSyncToGame_def
      SendClusterGateOpenNotifyToGate_def send_register_error_def split: prod.split)

lemma notify_nodes_frame:
  assumes "\<And>session s. view (send session s) = view s"
  shows "view (fold (notify_node send) node_ids s) = view s"
  by (induction node_ids arbitrary: s) (simp_all add: notify_node_def assms split: option.split)

lemma notify_frame [simp]:
  "sn_sessions (fold (notify_node (\<lambda>session. SendClusterNodesOnlineNotifyToGame env session b t)) ids s) = sn_sessions s"
  "gm_startup (fold (notify_node (\<lambda>session. SendClusterNodesOnlineNotifyToGame env session b t)) ids s) = gm_startup s"
  "gm_stubs (fold (notify_node (\<lambda>session. SendClusterNodesOnlineNotifyToGame env session b t)) ids s) = gm_stubs s"
  "sn_sessions (fold (notify_node (SendOwnershipSyncToGame env sync)) ids s) = sn_sessions s"
  "gm_startup (fold (notify_node (SendOwnershipSyncToGame env sync)) ids s) = gm_startup s"
  "gm_stubs (fold (notify_node (SendOwnershipSyncToGame env sync)) ids s) = gm_stubs s"
  "sn_sessions (fold (notify_node (SendClusterGateOpenNotifyToGate env notify)) ids s) = sn_sessions s"
  "gm_startup (fold (notify_node (SendClusterGateOpenNotifyToGate env notify)) ids s) = gm_startup s"
  "gm_stubs (fold (notify_node (SendClusterGateOpenNotifyToGate env notify)) ids s) = gm_stubs s"
  by (rule notify_nodes_frame, simp)+

lemma clock_frame [simp]:
  fixes s :: GmNode
  shows "sn_sessions (snd (CurrentUnixTimeMilliseconds env s)) = sn_sessions s"
    "gm_startup (snd (CurrentUnixTimeMilliseconds env s)) = gm_startup s"
    "gm_stubs (snd (CurrentUnixTimeMilliseconds env s)) = gm_stubs s"
  by (simp_all add: CurrentUnixTimeMilliseconds_def Let_def)

text \<open>What the three notifications do to the recorded state.\<close>

lemma OnAllNodeOnline_effect:
  "sn_sessions (OnAllNodeOnline env s) = sn_sessions s"
  "gm_stubs (OnAllNodeOnline env s) = gm_stubs s"
  "\<exists>t. gm_startup (OnAllNodeOnline env s) = (if ss_all_nodes_online (gm_startup s) then gm_startup s
     else (gm_startup s)\<lparr>ss_all_nodes_online := True, ss_last_all_nodes_online_server_now_unix_ms := t\<rparr>)"
  by (simp_all add: OnAllNodeOnline_def Let_def split_def exI)

lemma OnAllStubReady_effect:
  "sn_sessions (OnAllStubReady env s) = sn_sessions s"
  "gm_stubs (OnAllStubReady env s) = gm_stubs s"
  "\<exists>t. gm_startup (OnAllStubReady env s) =
     (if ss_gate_open (gm_startup s) \<or> \<not> AreAllServerStubsReady s then gm_startup s
      else (gm_startup s)\<lparr>ss_gate_open := True, ss_last_cluster_ready_server_now_unix_ms := t,
        ss_ready_epoch := ss_ready_epoch (gm_startup s) + 1\<rparr>)"
  by (simp_all add: OnAllStubReady_def Let_def split_def exI)

lemma LoadManagedServerStubReflection_frame [simp]:
  "sn_sessions (snd (LoadManagedServerStubReflection host s)) = sn_sessions s"
  "gm_startup (snd (LoadManagedServerStubReflection host s)) = gm_startup s"
  by (simp_all add: LoadManagedServerStubReflection_def ResetServerStubStates_def split: option.split)

lemma EnsureServerStubAssignments_frame [simp]:
  "sn_sessions (snd (EnsureServerStubAssignments env host s)) = sn_sessions s"
  "gm_startup (snd (EnsureServerStubAssignments env host s)) = gm_startup s"
  by (simp_all add: EnsureServerStubAssignments_def Let_def split_def)

lemma ResetServerStubStates_frame [simp]:
  "sn_sessions (ResetServerStubStates s) = sn_sessions s"
  "gm_startup (ResetServerStubStates s) = gm_startup s"
  by (simp_all add: ResetServerStubStates_def)

lemma OnAllGameReady_effect:
  "sn_sessions (OnAllGameReady env host s) = sn_sessions s"
  "gm_startup (OnAllGameReady env host s) = (gm_startup s)\<lparr>ss_all_expected_games_mesh_ready := True\<rparr>"
  by (simp_all add: OnAllGameReady_def Let_def split_def)

section \<open>No session is dropped or revived\<close>

text \<open>
  How the sessions may change: none disappears or changes its role or its routing id, and one that
  has timed out stays out.
\<close>

definition session_outlasts :: "InnerNetworkSession \<Rightarrow> InnerNetworkSession \<Rightarrow> bool" where
  "session_outlasts session session' \<longleftrightarrow>
     ins_process_type session' = ins_process_type session \<and> ins_routing_id session' = ins_routing_id session \<and>
     (ins_heartbeat_timed_out session \<and> \<not> ins_registered session \<longrightarrow>
        ins_heartbeat_timed_out session' \<and> \<not> ins_registered session')"

definition sessions_outlast :: "InnerNetworkSessionManager \<Rightarrow> InnerNetworkSessionManager \<Rightarrow> bool" where
  "sessions_outlast m m' \<longleftrightarrow> (\<forall>k session. FindByNodeId k m = Some session \<longrightarrow>
     (\<exists>session'. FindByNodeId k m' = Some session' \<and> session_outlasts session session'))"

lemma session_outlasts_refl [simp]: "session_outlasts x x"
  by (simp add: session_outlasts_def)

lemma sessions_outlast_refl [simp]: "sessions_outlast m m"
  by (simp add: sessions_outlast_def)

lemma session_outlasts_trans: "session_outlasts x y \<Longrightarrow> session_outlasts y z \<Longrightarrow> session_outlasts x z"
  by (auto simp: session_outlasts_def)

lemma sessions_outlast_trans [trans]: "sessions_outlast a b \<Longrightarrow> sessions_outlast b c \<Longrightarrow> sessions_outlast a c"
  unfolding sessions_outlast_def by (meson session_outlasts_trans)

lemma modify_outlasts:
  assumes "\<And>x. FindByNodeId k m = Some x \<Longrightarrow> session_outlasts x (f x)"
  shows "sessions_outlast m (modify_session k f m)"
  using assms by (auto simp: sessions_outlast_def FindByNodeId_modify)

lemma keeps_ids_role [simp]:
  "keeps_ids expire_session" "keeps_ids (refresh_session load now)"
  by (simp_all add: keeps_ids_def expire_session_def refresh_session_def)

definition sessions_ok :: "InnerNetworkSessionManager \<Rightarrow> InnerNetworkSessionManager \<Rightarrow> bool" where
  "sessions_ok m m' \<longleftrightarrow> sessions_inv m' \<and> sessions_outlast m m'"

text \<open>The timeout scan changes each session by itself, in whatever order they are visited.\<close>

definition stale :: "u64 \<Rightarrow> InnerNetworkSession \<Rightarrow> bool" where
  "stale now session \<longleftrightarrow> ins_last_heartbeat_at_unix_ms session \<noteq> 0 \<and> ins_last_heartbeat_at_unix_ms session \<le> now \<and>
     now - ins_last_heartbeat_at_unix_ms session \<ge> 15000"

definition scanned :: "u64 \<Rightarrow> InnerNetworkSession \<Rightarrow> InnerNetworkSession" where
  "scanned now session = (if stale now session \<and> \<not> ins_heartbeat_timed_out session then expire_session session else session)"

lemma scan_entry_eq:
  assumes "FindByNodeId (ins_node_id entry) m = Some entry"
  shows "scan_entry now entry m = (if stale now entry \<and> \<not> ins_heartbeat_timed_out entry
     then modify_session (ins_node_id entry) expire_session m else m)"
  using assms by (auto simp: scan_entry_def stale_def FindMutableByNodeId_def FindByNodeId_def
      kDefaultHeartbeatTimeoutMs_def not_less)

lemma scan_entry_inv: "sessions_inv m \<Longrightarrow> sessions_inv (scan_entry now entry m)"
  by (auto simp: scan_entry_def modify_sessions_inv split: option.splits)

lemma fold_scan_inv: "sessions_inv m \<Longrightarrow> sessions_inv (fold (scan_entry now) entries m)"
  by (induction entries arbitrary: m) (simp_all add: scan_entry_inv)

lemma fold_scan_FindByNodeId:
  assumes "distinct (map ins_node_id entries)"
    and "\<And>e. e \<in> set entries \<Longrightarrow> FindByNodeId (ins_node_id e) m = Some e"
  shows "FindByNodeId k (fold (scan_entry now) entries m) =
    (if k \<in> ins_node_id ` set entries then map_option (scanned now) (FindByNodeId k m) else FindByNodeId k m)"
  using assms
proof (induction entries arbitrary: m)
  case (Cons e entries)
  have e: "FindByNodeId (ins_node_id e) m = Some e" using Cons.prems(2) by simp
  have step: "FindByNodeId j (scan_entry now e m) =
      (if j = ins_node_id e then Some (scanned now e) else FindByNodeId j m)" for j
    by (simp add: scan_entry_eq [OF e] FindByNodeId_modify scanned_def e)
  have "FindByNodeId (ins_node_id x) (scan_entry now e m) = Some x" if "x \<in> set entries" for x
  proof -
    have "ins_node_id x \<noteq> ins_node_id e" using that Cons.prems(1) by (metis distinct.simps(2) image_eqI list.set_map list.simps(9))
    then show ?thesis using that Cons.prems(2) by (simp add: step)
  qed
  then have "FindByNodeId k (fold (scan_entry now) entries (scan_entry now e m)) =
      (if k \<in> ins_node_id ` set entries then map_option (scanned now) (FindByNodeId k (scan_entry now e m))
       else FindByNodeId k (scan_entry now e m))"
    using Cons.IH Cons.prems(1) by simp
  then show ?case using Cons.prems(1) e by (auto simp: step)
qed simp

lemma scan_FindByNodeId:
  assumes "sessions_inv m"
  shows "FindByNodeId k (fold (scan_entry now) (Snapshot m) m) = map_option (scanned now) (FindByNodeId k m)"
proof -
  have ids: "ins_node_id x = fst e" if "e \<in> set (sm_entries_by_node_id m)" "x = snd e" for e x
    using that sessions_invD(1,4) [OF assms] map_find_Some_iff by (metis FindByNodeId_def prod.collapse)
  have "map ins_node_id (Snapshot m) = map fst (sm_entries_by_node_id m)"
    by (simp add: Snapshot_def ids)
  moreover have "distinct (map fst (sm_entries_by_node_id m))"
    using sessions_invD(1) [OF assms] by (rule map_wf_distinct)
  ultimately have "distinct (map ins_node_id (Snapshot m))" by simp
  from fold_scan_FindByNodeId [OF this, of m k now] Snapshot_iff [OF assms]
  have *: "FindByNodeId k (fold (scan_entry now) (Snapshot m) m) =
    (if k \<in> ins_node_id ` set (Snapshot m) then map_option (scanned now) (FindByNodeId k m) else FindByNodeId k m)"
    by blast
  have "FindByNodeId k m = None" if "k \<notin> ins_node_id ` set (Snapshot m)"
  proof (rule ccontr)
    assume "FindByNodeId k m \<noteq> None"
    then obtain x where x: "FindByNodeId k m = Some x" by blast
    then have "ins_node_id x = k" using sessions_invD(4) [OF assms] by blast
    with x Snapshot_iff [OF assms, of x] that show False by force
  qed
  with * show ?thesis by simp
qed

lemma scan_sessions_ok:
  assumes "sessions_inv m" shows "sessions_ok m (fold (scan_entry now) (Snapshot m) m)"
  using assms by (auto simp: sessions_ok_def fold_scan_inv sessions_outlast_def scan_FindByNodeId scanned_def
      session_outlasts_def expire_session_def)

section \<open>The invariant of the start\<close>

definition has_role :: "InnerNetworkSessionManager \<Rightarrow> ProcessType \<Rightarrow> string \<Rightarrow> bool" where
  "has_role m role node_id \<longleftrightarrow> (\<exists>session. FindByNodeId node_id m = Some session \<and> ins_process_type session = role)"

definition registrations_ok :: "InnerNetworkSessionManager \<Rightarrow> StartupState \<Rightarrow> bool" where
  "registrations_ok m st \<longleftrightarrow>
     distinct (ss_expected_gate_node_ids st) \<and> distinct (map gme_node_id (ss_expected_game_entries st)) \<and>
     distinct (ss_registered_gate_node_ids st) \<and> distinct (ss_registered_game_node_ids st) \<and>
     set (ss_registered_gate_node_ids st) \<subseteq> set (ss_expected_gate_node_ids st) \<and>
     set (ss_registered_game_node_ids st) \<subseteq> gme_node_id ` set (ss_expected_game_entries st) \<and>
     (\<forall>k\<in>set (ss_registered_gate_node_ids st). has_role m Gate k) \<and>
     (\<forall>k\<in>set (ss_registered_game_node_ids st). has_role m Game k)"

definition nodes_online :: "StartupState \<Rightarrow> bool" where
  "nodes_online st \<longleftrightarrow>
     (ss_expected_gate_node_ids st \<noteq> [] \<or> ss_expected_game_entries st \<noteq> []) \<and>
     length (ss_registered_gate_node_ids st) = length (ss_expected_gate_node_ids st) \<and>
     length (ss_registered_game_node_ids st) = length (ss_expected_game_entries st)"

definition games_ready :: "StartupState \<Rightarrow> bool" where
  "games_ready st \<longleftrightarrow> ss_expected_game_entries st \<noteq> [] \<and> (\<forall>e\<in>set (ss_expected_game_entries st). gme_mesh_ready e)"

definition stubs_ready :: "ServerStubStateTable \<Rightarrow> bool" where
  "stubs_ready tab \<longleftrightarrow> sst_entries tab \<noteq> [] \<and>
     (\<forall>e\<in>set (sst_entries tab). sse_owner_game_node_id e \<noteq> [] \<and> sse_state e = Stub_Ready)"

definition flags_ok :: "StartupState \<Rightarrow> ServerStubStateTable \<Rightarrow> bool" where
  "flags_ok st tab \<longleftrightarrow>
     (ss_all_nodes_online st \<longleftrightarrow> nodes_online st) \<and>
     (ss_all_expected_games_mesh_ready st \<longleftrightarrow> games_ready st) \<and>
     (\<forall>e\<in>set (ss_expected_game_entries st). gme_mesh_ready e \<longrightarrow> ss_all_nodes_online st) \<and>
     (ss_gate_open st \<longleftrightarrow> stubs_ready tab) \<and>
     ss_ready_epoch st = (if ss_gate_open st then 1 else 0)"

definition stub_ok :: "string set \<Rightarrow> ServerStubEntry \<Rightarrow> bool" where
  "stub_ok games e \<longleftrightarrow> sse_owner_game_node_id e \<in> games \<and> sse_entity_id e \<noteq> [] \<and>
     (sse_state e = Stub_Ready \<longleftrightarrow> sse_entity_id e \<noteq> kUnknownServerEntityId)"

definition stubs_ok :: "StartupState \<Rightarrow> ServerStubStateTable \<Rightarrow> bool" where
  "stubs_ok st tab \<longleftrightarrow> (sst_entries tab \<noteq> [] \<longrightarrow> ss_all_expected_games_mesh_ready st) \<and>
     (\<forall>e\<in>set (sst_entries tab). stub_ok (gme_node_id ` set (ss_expected_game_entries st)) e)"

definition gm_inv :: "GmNode \<Rightarrow> bool" where
  "gm_inv s \<longleftrightarrow> sessions_inv (sn_sessions s) \<and> registrations_ok (sn_sessions s) (gm_startup s) \<and>
     flags_ok (gm_startup s) (gm_stubs s) \<and> stubs_ok (gm_startup s) (gm_stubs s)"

lemma AreAll_eq:
  "AreAllExpectedNodesOnline s \<longleftrightarrow> nodes_online (gm_startup s)"
  "AreAllExpectedGamesMeshReady s \<longleftrightarrow> games_ready (gm_startup s)"
  "AreAllServerStubsReady s \<longleftrightarrow> stubs_ready (gm_stubs s)"
  by (auto simp: AreAllExpectedNodesOnline_def AreAllExpectedGamesMeshReady_def AreAllServerStubsReady_def
      nodes_online_def games_ready_def stubs_ready_def Let_def list_all_iff)

lemma gm_invI:
  assumes "gm_inv s" "sessions_ok (sn_sessions s) (sn_sessions s')" "gm_startup s' = gm_startup s" "gm_stubs s' = gm_stubs s"
  shows "gm_inv s'"
proof -
  have "has_role (sn_sessions s) role k \<Longrightarrow> has_role (sn_sessions s') role k" for role k
    using assms(2) by (fastforce simp: has_role_def sessions_ok_def sessions_outlast_def session_outlasts_def)
  then show ?thesis using assms by (auto simp: gm_inv_def registrations_ok_def sessions_ok_def)
qed

lemma nodes_online_full:
  assumes "registrations_ok m st"
  shows "nodes_online st \<longleftrightarrow> (ss_expected_gate_node_ids st \<noteq> [] \<or> ss_expected_game_entries st \<noteq> []) \<and>
     set (ss_registered_gate_node_ids st) = set (ss_expected_gate_node_ids st) \<and>
     set (ss_registered_game_node_ids st) = gme_node_id ` set (ss_expected_game_entries st)"
proof -
  have card: "length xs = length ys \<longleftrightarrow> set xs = set ys" if "distinct xs" "distinct ys" "set xs \<subseteq> set ys"
    for xs ys :: "string list"
    using that by (metis List.finite_set card_subset_eq distinct_card)
  have "length (ss_registered_gate_node_ids st) = length (ss_expected_gate_node_ids st) \<longleftrightarrow>
      set (ss_registered_gate_node_ids st) = set (ss_expected_gate_node_ids st)"
    using assms by (intro card) (simp_all add: registrations_ok_def)
  moreover have "length (ss_registered_game_node_ids st) = length (map gme_node_id (ss_expected_game_entries st)) \<longleftrightarrow>
      set (ss_registered_game_node_ids st) = set (map gme_node_id (ss_expected_game_entries st))"
    using assms by (intro card) (simp_all add: registrations_ok_def)
  ultimately show ?thesis by (simp add: nodes_online_def)
qed

section \<open>Registration\<close>

lemma modify_session_cong:
  assumes "sessions_inv m" "\<And>x. FindByNodeId k m = Some x \<Longrightarrow> f x = g x"
  shows "modify_session k f m = modify_session k g m"
proof -
  have "f (snd e) = g (snd e)" if "e \<in> set (sm_entries_by_node_id m)" "fst e = k" for e
    using assms(2) [of "snd e"] that map_find_Some_iff [OF sessions_invD(1) [OF assms(1)], of k "snd e"]
    by (auto simp: FindByNodeId_def)
  then show ?thesis by (simp add: modify_session_def map_modify_def)
qed

text \<open>What the sessions are after a registration: the new one is added, the others stay.\<close>

lemma registered_sessions:
  fixes now :: u64
  assumes inv: "sessions_inv m" and ok: "registrable g m"
  defines "m' \<equiv> modify_session (isr_node_id g) (apply_registration_state g now) (snd (Register g m))"
  shows "sessions_inv m'"
    and "FindByNodeId k m' = (if k = isr_node_id g
      then Some (apply_registration_state g now (session_of_registration g)) else FindByNodeId k m)"
    and "sessions_ok m m'" and "has_role m' (isr_process_type g) (isr_node_id g)"
proof -
  let ?f = "\<lambda>x. (apply_registration_state g now x)\<lparr>ins_node_id := ins_node_id x, ins_routing_id := ins_routing_id x\<rparr>"
  note find = FindByNodeId_Register [OF inv, of _ g]
  have "m' = modify_session (isr_node_id g) ?f (snd (Register g m))"
    unfolding m'_def
    by (rule modify_session_cong) (auto simp: Register_sessions_inv inv find ok apply_registration_state_def)
  then show inv': "sessions_inv m'"
    by (simp add: modify_sessions_inv Register_sessions_inv inv keeps_ids_def)
  show find': "FindByNodeId k m' = (if k = isr_node_id g
      then Some (apply_registration_state g now (session_of_registration g)) else FindByNodeId k m)" for k
    by (simp add: m'_def FindByNodeId_modify find ok)
  have "FindByNodeId (isr_node_id g) m = None" using ok by (simp add: registrable_def)
  then show "sessions_ok m m'" by (auto simp: sessions_ok_def inv' sessions_outlast_def find')
  show "has_role m' (isr_process_type g) (isr_node_id g)"
    by (simp add: has_role_def find' apply_registration_state_def)
qed

lemma mesh_ready_entry_None: "mesh_ready_entry k s = None \<longleftrightarrow> k \<notin> gme_node_id ` set (ss_expected_game_entries (gm_startup s))"
  by (auto simp: mesh_ready_entry_def find_None_iff)

lemma RecordStartupRegistration_frame [simp]:
  "sn_sessions (RecordStartupRegistration role k s) = sn_sessions s"
  "gm_stubs (RecordStartupRegistration role k s) = gm_stubs s"
  "ss_expected_gate_node_ids (gm_startup (RecordStartupRegistration role k s)) = ss_expected_gate_node_ids (gm_startup s)"
  "ss_expected_game_entries (gm_startup (RecordStartupRegistration role k s)) = ss_expected_game_entries (gm_startup s)"
  "ss_all_nodes_online (gm_startup (RecordStartupRegistration role k s)) = ss_all_nodes_online (gm_startup s)"
  "ss_all_expected_games_mesh_ready (gm_startup (RecordStartupRegistration role k s)) =
     ss_all_expected_games_mesh_ready (gm_startup s)"
  "ss_gate_open (gm_startup (RecordStartupRegistration role k s)) = ss_gate_open (gm_startup s)"
  "ss_ready_epoch (gm_startup (RecordStartupRegistration role k s)) = ss_ready_epoch (gm_startup s)"
  by (simp_all add: RecordStartupRegistration_def Let_def)

lemma RecordStartupRegistration_ok:
  assumes "registrations_ok (sn_sessions s) (gm_startup s)" "has_role (sn_sessions s) role k"
  shows "registrations_ok (sn_sessions s) (gm_startup (RecordStartupRegistration role k s))"
  using assms by (auto simp: RecordStartupRegistration_def Let_def registrations_ok_def mesh_ready_entry_None)

lemma RecordStartupRegistration_full:
  assumes "registrations_ok (sn_sessions s) (gm_startup s)" "nodes_online (gm_startup s)"
  shows "RecordStartupRegistration role k s = s"
  using assms nodes_online_full [OF assms(1)] by (simp add: RecordStartupRegistration_def Let_def mesh_ready_entry_None)

text \<open>The end of a registration: record it, and announce when it was the last.\<close>

definition finish_registration :: "node_env \<Rightarrow> ProcessType \<Rightarrow> string \<Rightarrow> GmNode \<Rightarrow> GmNode" where
  "finish_registration env role k s =
     (let s = RecordStartupRegistration role k s in
      if \<not> ss_all_nodes_online (gm_startup s) \<and> AreAllExpectedNodesOnline s then OnAllNodeOnline env s else s)"

lemma finish_registration_inv:
  assumes inv: "gm_inv s" and role: "has_role (sn_sessions s) role k"
  shows "gm_inv (finish_registration env role k s)"
proof -
  let ?s = "RecordStartupRegistration role k s"
  have reg: "registrations_ok (sn_sessions s) (gm_startup s)" and flags: "flags_ok (gm_startup s) (gm_stubs s)"
    and stubs: "stubs_ok (gm_startup s) (gm_stubs s)" and sess: "sessions_inv (sn_sessions s)"
    using inv by (auto simp: gm_inv_def)
  have reg': "registrations_ok (sn_sessions s) (gm_startup ?s)" by (rule RecordStartupRegistration_ok [OF reg role])
  obtain t where t: "gm_startup (OnAllNodeOnline env ?s) = (if ss_all_nodes_online (gm_startup ?s) then gm_startup ?s
     else (gm_startup ?s)\<lparr>ss_all_nodes_online := True, ss_last_all_nodes_online_server_now_unix_ms := t\<rparr>)"
    using OnAllNodeOnline_effect(3) by blast
  show ?thesis
  proof (cases "ss_all_nodes_online (gm_startup s)")
    case True
    then have "?s = s" using RecordStartupRegistration_full [OF reg] flags by (simp add: flags_ok_def)
    with True inv show ?thesis by (simp add: finish_registration_def)
  next
    case False
    show ?thesis
    proof (cases "nodes_online (gm_startup ?s)")
      case online: True
      let ?st = "(gm_startup ?s)\<lparr>ss_all_nodes_online := True, ss_last_all_nodes_online_server_now_unix_ms := t\<rparr>"
      have "gm_startup (finish_registration env role k s) = ?st" "gm_stubs (finish_registration env role k s) = gm_stubs s"
        "sn_sessions (finish_registration env role k s) = sn_sessions s"
        using False online t by (simp_all add: finish_registration_def AreAll_eq OnAllNodeOnline_effect)
      moreover have "flags_ok ?st (gm_stubs s)"
        using flags online by (simp add: flags_ok_def games_ready_def nodes_online_def)
      moreover have "stubs_ok ?st (gm_stubs s)" using stubs by (simp add: stubs_ok_def)
      moreover have "registrations_ok (sn_sessions s) ?st" using reg' by (simp add: registrations_ok_def)
      ultimately show ?thesis using sess by (simp add: gm_inv_def)
    next
      case offline: False
      then have "finish_registration env role k s = ?s" by (simp add: finish_registration_def AreAll_eq)
      moreover have "flags_ok (gm_startup ?s) (gm_stubs s)"
        using flags False offline by (simp add: flags_ok_def games_ready_def)
      moreover have "stubs_ok (gm_startup ?s) (gm_stubs s)" using stubs by (simp add: stubs_ok_def)
      ultimately show ?thesis using sess reg' by (simp add: gm_inv_def)
    qed
  qed
qed

text \<open>
  The start never goes back, and a node that is still awaited although it has a session stays
  awaited.
\<close>

definition awaited :: "StartupState \<Rightarrow> string set" where
  "awaited st = set (ss_expected_gate_node_ids st) - set (ss_registered_gate_node_ids st) \<union>
     (gme_node_id ` set (ss_expected_game_entries st) - set (ss_registered_game_node_ids st))"

definition advances :: "StartupState \<Rightarrow> StartupState \<Rightarrow> bool" where
  "advances st st' \<longleftrightarrow> (ss_all_nodes_online st \<longrightarrow> ss_all_nodes_online st') \<and>
     (ss_all_expected_games_mesh_ready st \<longrightarrow> ss_all_expected_games_mesh_ready st') \<and>
     (ss_gate_open st \<longrightarrow> ss_gate_open st')"

lemma advances_refl [simp]: "advances st st"
  by (simp add: advances_def)

lemma awaited_online: "registrations_ok m st \<Longrightarrow> nodes_online st \<Longrightarrow> awaited st = {}"
  using nodes_online_full [of m st] by (simp add: awaited_def)

text \<open>What every handler keeps.\<close>

definition gm_keeps :: "GmNode \<Rightarrow> GmNode \<Rightarrow> bool" where
  "gm_keeps s s' \<longleftrightarrow> gm_inv s' \<and> sessions_ok (sn_sessions s) (sn_sessions s') \<and>
     advances (gm_startup s) (gm_startup s') \<and>
     (\<forall>k\<in>awaited (gm_startup s). FindByNodeId k (sn_sessions s) \<noteq> None \<longrightarrow> k \<in> awaited (gm_startup s'))"

lemma gm_keeps_sessions:
  assumes "gm_inv s" "sessions_ok (sn_sessions s) (sn_sessions s')" "gm_startup s' = gm_startup s" "gm_stubs s' = gm_stubs s"
  shows "gm_keeps s s'"
  using gm_invI [OF assms] assms by (simp add: gm_keeps_def)

lemma gm_keeps_same:
  assumes "gm_inv s" "sn_sessions s' = sn_sessions s" "gm_startup s' = gm_startup s" "gm_stubs s' = gm_stubs s"
  shows "gm_keeps s s'"
  using assms by (intro gm_keeps_sessions) (simp_all add: sessions_ok_def gm_inv_def)

lemma finish_registration_sessions [simp]: "sn_sessions (finish_registration env role k s) = sn_sessions s"
  by (simp add: finish_registration_def Let_def OnAllNodeOnline_effect)

lemma finish_registration_startup:
  "advances (gm_startup s) (gm_startup (finish_registration env role k s))"
  "awaited (gm_startup s) - {k} \<subseteq> awaited (gm_startup (finish_registration env role k s))"
proof -
  let ?s = "RecordStartupRegistration role k s"
  have rec: "awaited (gm_startup s) - {k} \<subseteq> awaited (gm_startup ?s)" "advances (gm_startup s) (gm_startup ?s)"
    by (auto simp: RecordStartupRegistration_def Let_def awaited_def advances_def)
  obtain t where t: "gm_startup (OnAllNodeOnline env ?s) = (if ss_all_nodes_online (gm_startup ?s) then gm_startup ?s
     else (gm_startup ?s)\<lparr>ss_all_nodes_online := True, ss_last_all_nodes_online_server_now_unix_ms := t\<rparr>)"
    using OnAllNodeOnline_effect(3) by blast
  have "awaited (gm_startup (OnAllNodeOnline env ?s)) = awaited (gm_startup ?s)"
    "advances (gm_startup ?s) (gm_startup (OnAllNodeOnline env ?s))"
    unfolding t by (simp_all add: awaited_def advances_def)
  with rec show "advances (gm_startup s) (gm_startup (finish_registration env role k s))"
    "awaited (gm_startup s) - {k} \<subseteq> awaited (gm_startup (finish_registration env role k s))"
    by (auto simp: finish_registration_def Let_def advances_def)
qed

lemma accept_registration_keeps:
  assumes inv: "gm_inv s" and ok: "registrable g (sn_sessions s)"
  shows "gm_keeps s (accept_registration env r q g now (s\<lparr>sn_sessions := snd (Register g (sn_sessions s))\<rparr>))"
proof -
  let ?m = "snd (Register g (sn_sessions s))" and ?k = "isr_node_id g"
  let ?s1 = "s\<lparr>sn_sessions := modify_session ?k (apply_registration_state g now) ?m\<rparr>"
  have "sessions_inv (sn_sessions s)" using inv by (simp add: gm_inv_def)
  note reg = registered_sessions [OF this ok, where now = now]
  obtain e body where e: "EncodeRegisterSuccessResponse \<lparr>rs_heartbeat_interval_ms = kDefaultHeartbeatIntervalMs,
      rs_heartbeat_timeout_ms = kDefaultHeartbeatTimeoutMs, rs_server_now_unix_ms = now\<rparr>
      (replicate kRegisterSuccessResponseSize 0) = (e, body)" by fastforce
  obtain sent s2 where send: "send_packet env r kInnerRegisterMsgId q (packet_flag_value Flag_Response) body ?s1 = (sent, s2)"
    by fastforce
  have found: "FindMutableByNodeId ?k ?m = Some (?k, session_of_registration g)"
    using \<open>sessions_inv (sn_sessions s)\<close> ok by (simp add: FindMutable_iff FindByNodeId_Register)
  have s1: "gm_inv ?s1" by (rule gm_invI [OF inv]) (simp_all add: reg)
  have frame: "sn_sessions s2 = sn_sessions ?s1" "gm_startup s2 = gm_startup ?s1" "gm_stubs s2 = gm_stubs ?s1"
    using send_packet_frame [of env r kInnerRegisterMsgId q "packet_flag_value Flag_Response" body ?s1]
    unfolding send by simp_all
  have s2: "gm_inv s2" using gm_keeps_same [OF s1 frame] by (simp add: gm_keeps_def)
  have "accept_registration env r q g now (s\<lparr>sn_sessions := ?m\<rparr>) =
      (if e \<noteq> Reg_None then ?s1 else if \<not> sent then s2 else finish_registration env (isr_process_type g) ?k s2)"
    by (simp add: accept_registration_def found e send finish_registration_def)
  moreover have "gm_inv (finish_registration env (isr_process_type g) ?k s2)"
    by (rule finish_registration_inv [OF s2]) (simp add: frame reg)
  moreover have "FindByNodeId ?k (sn_sessions s) = None" using ok by (simp add: registrable_def)
  ultimately show ?thesis
    using s1 s2 reg(3) finish_registration_startup [where s = s2 and env = env and role = "isr_process_type g" and k = ?k]
    by (auto simp: gm_keeps_def frame)
qed

lemma HandleRegisterMessage_keeps:
  assumes inv: "gm_inv s"
  shows "gm_keeps s (HandleRegisterMessage env r payload s)"
proof -
  obtain e packet where p: "DecodePacket payload (Some empty_PacketView) = (e, packet)" by fastforce
  let ?seq = "ph_seq (pv_header (the packet))"
  obtain d req where d: "DecodeRegisterRequest (pv_payload (the packet)) (Some zero_RegisterRequest) = (d, req)" by fastforce
  obtain now s0 where clock: "CurrentUnixTimeMilliseconds env s = (now, s0)" by fastforce
  have s0: "sn_sessions s0 = sn_sessions s" "gm_startup s0 = gm_startup s" "gm_stubs s0 = gm_stubs s"
    using clock_frame [of env s] clock by simp_all
  have inv0: "gm_inv s0" using gm_keeps_same [OF inv s0] by (simp add: gm_keeps_def)
  have same: "gm_keeps s s'" if "sn_sessions s' = sn_sessions s" "gm_startup s' = gm_startup s" "gm_stubs s' = gm_stubs s" for s'
    by (rule gm_keeps_same [OF inv that])
  have accepted: "gm_keeps s (accept_registration env r ?seq g now (s0\<lparr>sn_sessions := snd (Register g (sn_sessions s0))\<rparr>))"
    if "registrable g (sn_sessions s0)" for g
    using accept_registration_keeps [OF inv0 that] by (simp add: gm_keeps_def s0)
  have sinv: "sessions_inv (sn_sessions s0)" using inv0 by (simp add: gm_inv_def)
  have reg: "gm_keeps s (case Register g (sn_sessions s0) of (register_result, sessions) \<Rightarrow>
      let s = s0\<lparr>sn_sessions := sessions\<rparr> in
      if register_result \<noteq> Ism_None then
        (case MapInnerNetworkSessionManagerErrorToInnerError register_result of
           None \<Rightarrow> s | Some error_code \<Rightarrow> send_register_error env r ?seq error_code s)
      else accept_registration env r ?seq g now s)" for g
  proof (cases "registrable g (sn_sessions s0)")
    case True
    then have "fst (Register g (sn_sessions s0)) = Ism_None" by (simp add: Register_iff(1) [OF sinv])
    with accepted [OF True] show ?thesis by (simp add: split_def Let_def)
  next
    case False
    then have "fst (Register g (sn_sessions s0)) \<noteq> Ism_None" "snd (Register g (sn_sessions s0)) = sn_sessions s0"
      by (simp_all add: Register_iff [OF sinv])
    then show ?thesis by (auto simp: split_def Let_def s0 intro!: same split: option.split)
  qed
  show ?thesis
    unfolding HandleRegisterMessage_def p d clock prod.case Let_def
    using same s0 reg [unfolded Let_def]
    by (auto split: option.split)
qed

section \<open>Heartbeats and timeouts\<close>

lemma HandleHeartbeatMessage_keeps:
  assumes inv: "gm_inv s"
  shows "gm_keeps s (HandleHeartbeatMessage env r payload s)"
proof -
  obtain now s0 where clock: "CurrentUnixTimeMilliseconds env s = (now, s0)" by fastforce
  have s0: "sn_sessions s0 = sn_sessions s" "gm_startup s0 = gm_startup s" "gm_stubs s0 = gm_stubs s"
    using clock_frame [of env s] clock by simp_all
  have sinv: "sessions_inv (sn_sessions s)" using inv by (simp add: gm_inv_def)
  have same: "gm_keeps s s" "gm_keeps s s0" using gm_keeps_same [OF inv] s0 by simp_all
  have refresh: "gm_keeps s s'"
    if "FindMutableByRoutingId r (sn_sessions s) = Some (k, session)" "ins_registered session" "\<not> ins_heartbeat_timed_out session"
      "sn_sessions s' = modify_session k (refresh_session load now) (sn_sessions s)"
      "gm_startup s' = gm_startup s" "gm_stubs s' = gm_stubs s" for k session load s'
  proof (rule gm_keeps_sessions [OF inv _ that(5,6)])
    have k: "k = ins_node_id session" "FindByNodeId k (sn_sessions s) = Some session"
      using that(1) by (simp_all add: FindMutableByRoutingId_Some_iff [OF sinv] FindByRoutingId_Some_iff [OF sinv])
    have "sessions_outlast (sn_sessions s) (modify_session k (refresh_session load now) (sn_sessions s))"
      using that(2,3) k by (intro modify_outlasts) (auto simp: session_outlasts_def refresh_session_def)
    then show "sessions_ok (sn_sessions s) (sn_sessions s')"
      using sinv that(4) by (simp add: sessions_ok_def modify_sessions_inv)
  qed
  show ?thesis
    unfolding HandleHeartbeatMessage_def clock prod.case Let_def
    by (auto simp: same s0 intro: refresh split: prod.split option.split)
qed

lemma HandleTimeoutScan_keeps:
  assumes "gm_inv s" shows "gm_keeps s (HandleTimeoutScan env s)"
  using assms by (intro gm_keeps_sessions)
    (simp_all add: HandleTimeoutScan_def split_def scan_sessions_ok gm_inv_def)

section \<open>Reports of the games\<close>

lemma map_update_first: "(\<And>x. g (f x) = g x) \<Longrightarrow> map g (update_first P f xs) = map g xs"
  by (induction xs) simp_all

lemma image_update_first: "(\<And>x. g (f x) = g x) \<Longrightarrow> g ` set (update_first P f xs) = g ` set xs"
  by (metis list.set_map map_update_first)

lemma update_first_Nil [simp]: "update_first P f xs = [] \<longleftrightarrow> xs = []"
  by (cases xs) simp_all

lemma update_first_all:
  "(\<And>x. x \<in> set xs \<Longrightarrow> P x \<Longrightarrow> Q x \<Longrightarrow> Q (f x)) \<Longrightarrow> \<forall>x\<in>set xs. Q x \<Longrightarrow> \<forall>x\<in>set (update_first P f xs). Q x"
  by (induction xs) auto

lemma assign_owners_set:
  assumes "node_ids \<noteq> []" "e \<in> set (assign_owners env node_ids draw entries)"
  shows "sse_owner_game_node_id e \<in> set node_ids"
  using assms by (induction entries arbitrary: draw) auto

text \<open>The first time all games are ready the stubs are shared out; none is ready yet.\<close>

lemma EnsureServerStubAssignments_stubs:
  assumes "sst_entries (gm_stubs s) = []" "ss_expected_game_entries (gm_startup s) \<noteq> []"
    and "e \<in> set (sst_entries (gm_stubs (snd (EnsureServerStubAssignments env host s))))"
  shows "fst (EnsureServerStubAssignments env host s)"
    "sse_owner_game_node_id e \<in> gme_node_id ` set (ss_expected_game_entries (gm_startup s))"
proof -
  obtain loaded s1 where load: "LoadManagedServerStubReflection host s = (loaded, s1)" by fastforce
  have start: "gm_startup s1 = gm_startup s" using LoadManagedServerStubReflection_frame [of host s] load by simp
  have empty: "\<not> loaded \<Longrightarrow> sst_entries (gm_stubs s1) = []"
    using load assms(1) by (auto simp: LoadManagedServerStubReflection_def split: if_splits option.splits)
  have owners: "sse_owner_game_node_id x = []" if "x \<in> set (sst_entries (gm_stubs s1))" for x
  proof -
    have *: "read_reflection_entries get_entry indices acc = Some res \<Longrightarrow> x \<in> set res \<Longrightarrow>
        \<forall>y\<in>set acc. sse_owner_game_node_id y = [] \<Longrightarrow> sse_owner_game_node_id x = []" for get_entry indices acc res x
      by (induction get_entry indices acc rule: read_reflection_entries.induct)
        (auto simp: Let_def split: prod.splits if_splits option.splits)
    have "reflect_stubs host c = Some res \<Longrightarrow> x \<in> set res \<Longrightarrow> sse_owner_game_node_id x = []" for c res x
      using * [where acc = "[]"] by (auto simp: reflect_stubs_def split: if_splits option.splits)
    with that load assms(1) show ?thesis
      by (auto simp: LoadManagedServerStubReflection_def ResetServerStubStates_def split: if_splits option.splits)
  qed
  let ?ids = "map gme_node_id (ss_expected_game_entries (gm_startup s))"
  have "loaded" "sst_entries (gm_stubs s1) \<noteq> []" "sst_entries (gm_stubs (snd (EnsureServerStubAssignments env host s))) =
      assign_owners env ?ids (sn_random_draws s1) (sst_entries (gm_stubs s1))"
    using assms(2,3) owners empty by (auto simp: EnsureServerStubAssignments_def load start Let_def list_all_iff split: if_splits)
  with assms(2,3) show "sse_owner_game_node_id e \<in> gme_node_id ` set (ss_expected_game_entries (gm_startup s))"
    "fst (EnsureServerStubAssignments env host s)"
    using assign_owners_set [of ?ids e env "sn_random_draws s1"]
    by (simp_all add: EnsureServerStubAssignments_def load start Let_def)
qed

lemma OnAllGameReady_stubs:
  assumes "sst_entries (gm_stubs s) = []" "ss_expected_game_entries (gm_startup s) \<noteq> []"
    "\<not> ss_all_expected_games_mesh_ready (gm_startup s)"
    and e: "e \<in> set (sst_entries (gm_stubs (OnAllGameReady env host s)))"
  shows "stub_ok (gme_node_id ` set (ss_expected_game_entries (gm_startup s))) e \<and> sse_state e = Stub_Init"
proof -
  let ?s = "s\<lparr>gm_startup := (gm_startup s)\<lparr>ss_all_expected_games_mesh_ready := True\<rparr>\<rparr>"
  obtain assigned s1 where ensure: "EnsureServerStubAssignments env host ?s = (assigned, s1)" by fastforce
  have stubs: "gm_stubs (OnAllGameReady env host s) = (if assigned then gm_stubs (ResetServerStubStates s1) else gm_stubs s1)"
    using assms(3) by (simp add: OnAllGameReady_def ensure Let_def split_def)
  have *: "assigned" "sse_owner_game_node_id x \<in> gme_node_id ` set (ss_expected_game_entries (gm_startup s))"
    if "x \<in> set (sst_entries (gm_stubs s1))" for x
    using EnsureServerStubAssignments_stubs [of ?s x env host] ensure that assms(1,2) by auto
  from e stubs obtain x where "x \<in> set (sst_entries (gm_stubs s1))"
    "e = x\<lparr>sse_entity_id := kUnknownServerEntityId, sse_state := Stub_Init\<rparr>"
    using *(1) by (auto simp: ResetServerStubStates_def split: if_splits)
  with *(2) show ?thesis by (simp add: stub_ok_def kUnknownServerEntityId_def)
qed

lemma set_mesh_ready_frame [simp]:
  "sn_sessions (set_mesh_ready k t s) = sn_sessions s" "gm_stubs (set_mesh_ready k t s) = gm_stubs s"
  by (simp_all add: set_mesh_ready_def)

lemma set_mesh_ready_startup:
  "awaited (gm_startup (set_mesh_ready k t s)) = awaited (gm_startup s)"
  "advances (gm_startup s) (gm_startup (set_mesh_ready k t s))"
  "awaited ((gm_startup (set_mesh_ready k t s))\<lparr>ss_all_expected_games_mesh_ready := b\<rparr>) = awaited (gm_startup s)"
  "advances (gm_startup s) ((gm_startup (set_mesh_ready k t s))\<lparr>ss_all_expected_games_mesh_ready := True\<rparr>)"
  by (simp_all add: set_mesh_ready_def awaited_def advances_def image_update_first)

lemma set_mesh_ready_inv:
  fixes k :: string and t :: u64
  assumes inv: "gm_inv s" and online: "ss_all_nodes_online (gm_startup s)"
  defines "s' \<equiv> set_mesh_ready k t s"
  shows "registrations_ok (sn_sessions s) (gm_startup s')"
    and "games_ready (gm_startup s) \<Longrightarrow> games_ready (gm_startup s')"
    and "nodes_online (gm_startup s')"
    and "gme_node_id ` set (ss_expected_game_entries (gm_startup s')) = gme_node_id ` set (ss_expected_game_entries (gm_startup s))"
    and "gm_startup s' = (gm_startup s)\<lparr>ss_expected_game_entries := ss_expected_game_entries (gm_startup s')\<rparr>"
proof -
  let ?f = "\<lambda>entry. entry\<lparr>gme_mesh_ready := True, gme_reported_at_unix_ms := t\<rparr>"
  let ?P = "\<lambda>entry. gme_node_id entry = k"
  let ?games = "ss_expected_game_entries (gm_startup s)"
  have s': "gm_startup s' = (gm_startup s)\<lparr>ss_expected_game_entries := update_first ?P ?f ?games\<rparr>"
    by (simp add: s'_def set_mesh_ready_def)
  have ids: "map gme_node_id (update_first ?P ?f ?games) = map gme_node_id ?games"
    by (rule map_update_first) simp
  have len: "length (update_first ?P ?f ?games) = length ?games" using arg_cong [OF ids, of length] by simp
  have idset: "gme_node_id ` set (update_first ?P ?f ?games) = gme_node_id ` set ?games"
    using arg_cong [OF ids, of set] by simp
  show "registrations_ok (sn_sessions s) (gm_startup s')"
    using inv by (simp add: gm_inv_def registrations_ok_def s' ids idset)
  show "gme_node_id ` set (ss_expected_game_entries (gm_startup s')) = gme_node_id ` set ?games" by (simp add: s' idset)
  show "gm_startup s' = (gm_startup s)\<lparr>ss_expected_game_entries := ss_expected_game_entries (gm_startup s')\<rparr>" by (simp add: s')
  show "nodes_online (gm_startup s')"
    using inv online by (simp add: gm_inv_def flags_ok_def nodes_online_def s' len)
  show "games_ready (gm_startup s')" if "games_ready (gm_startup s)"
  proof -
    have "\<forall>e\<in>set (update_first ?P ?f ?games). gme_mesh_ready e"
      by (rule update_first_all) (use that in \<open>simp_all add: games_ready_def\<close>)
    with that show ?thesis by (simp add: games_ready_def s')
  qed
qed

lemma mesh_ready_inv:
  assumes inv: "gm_inv s" and online: "ss_all_nodes_online (gm_startup s)"
  shows "gm_inv (let s = set_mesh_ready k t s in
    if \<not> ss_all_expected_games_mesh_ready (gm_startup s) \<and> AreAllExpectedGamesMeshReady s
    then OnAllGameReady env host s else s)" (is "gm_inv ?r")
proof -
  let ?s = "set_mesh_ready k t s"
  note mesh = set_mesh_ready_inv [OF inv online, where k = k and t = t]
  have D: "sessions_inv (sn_sessions s)" "flags_ok (gm_startup s) (gm_stubs s)" "stubs_ok (gm_startup s) (gm_stubs s)"
    using inv by (auto simp: gm_inv_def)
  have flag: "ss_all_expected_games_mesh_ready (gm_startup ?s) = ss_all_expected_games_mesh_ready (gm_startup s)"
    "ss_all_nodes_online (gm_startup ?s)" "ss_gate_open (gm_startup ?s) = ss_gate_open (gm_startup s)"
    "ss_ready_epoch (gm_startup ?s) = ss_ready_epoch (gm_startup s)"
    using online by (subst mesh(5), simp)+
  show ?thesis
  proof (cases "\<not> ss_all_expected_games_mesh_ready (gm_startup s) \<and> games_ready (gm_startup ?s)")
    case True
    let ?st = "(gm_startup ?s)\<lparr>ss_all_expected_games_mesh_ready := True\<rparr>"
    have r: "?r = OnAllGameReady env host ?s" using True by (simp add: AreAll_eq flag)
    have empty: "sst_entries (gm_stubs ?s) = []" using D(3) True by (auto simp: stubs_ok_def)
    have games: "ss_expected_game_entries (gm_startup ?s) \<noteq> []" using True by (simp add: games_ready_def)
    have stubs: "stub_ok (gme_node_id ` set (ss_expected_game_entries ?st)) e \<and> sse_state e = Stub_Init"
      if "e \<in> set (sst_entries (gm_stubs ?r))" for e
      using OnAllGameReady_stubs [OF empty games, of e env host] that True by (simp add: r flag)
    have closed: "\<not> ss_gate_open (gm_startup s)"
      using D(2) empty by (simp add: flags_ok_def stubs_ready_def)
    have "\<not> stubs_ready (gm_stubs ?r)"
      using stubs by (fastforce simp: stubs_ready_def neq_Nil_conv)
    then have "flags_ok ?st (gm_stubs ?r)"
      using D(2) True mesh(3) closed flag(2-4) by (simp add: flags_ok_def games_ready_def nodes_online_def)
    moreover have "stubs_ok ?st (gm_stubs ?r)" using stubs by (simp add: stubs_ok_def)
    moreover have "registrations_ok (sn_sessions s) ?st" using mesh(1) by (simp add: registrations_ok_def)
    ultimately show ?thesis using D(1) unfolding gm_inv_def r OnAllGameReady_effect set_mesh_ready_frame by simp
  next
    case False
    then have r: "?r = ?s" by (auto simp: AreAll_eq flag)
    have games: "games_ready (gm_startup ?s) \<longleftrightarrow> ss_all_expected_games_mesh_ready (gm_startup ?s)"
      using False D(2) mesh(2) by (auto simp: flags_ok_def flag)
    have "flags_ok (gm_startup ?s) (gm_stubs s)"
      using D(2) mesh(3) games flag by (simp add: flags_ok_def)
    moreover have "stubs_ok (gm_startup ?s) (gm_stubs s)" using D(3) by (simp add: stubs_ok_def flag mesh(4))
    ultimately show ?thesis using D(1) mesh(1) by (simp add: gm_inv_def r)
  qed
qed

lemma HandleGameGateMeshReadyReport_keeps:
  assumes inv: "gm_inv s"
  shows "gm_keeps s (HandleGameGateMeshReadyReport env host r payload s)"
proof -
  have "gm_keeps s s" by (rule gm_keeps_same [OF inv]) simp_all
  moreover have "gm_keeps s (let s = set_mesh_ready k t s in
      if \<not> ss_all_expected_games_mesh_ready (gm_startup s) \<and> AreAllExpectedGamesMeshReady s
      then OnAllGameReady env host s else s)" if "ss_all_nodes_online (gm_startup s)" for k t
    using mesh_ready_inv [OF inv that, of k t env host] inv
    by (auto simp: gm_keeps_def Let_def OnAllGameReady_effect sessions_ok_def gm_inv_def set_mesh_ready_startup)
  ultimately show ?thesis
    by (simp add: HandleGameGateMeshReadyReport_def split_def Let_def split: option.split)
qed

lemma mark_stub_ready_Nil [simp]: "mark_stub_ready k r entries = [] \<longleftrightarrow> entries = []"
  by (simp add: mark_stub_ready_def)

lemma mark_stub_ready_all:
  assumes Q: "\<And>e i. Q e \<Longrightarrow> i \<noteq> [] \<Longrightarrow> i \<noteq> kUnknownServerEntityId \<Longrightarrow> Q (e\<lparr>sse_entity_id := i, sse_state := Stub_Ready\<rparr>)"
    and "\<forall>e\<in>set entries. Q e"
  shows "\<forall>e\<in>set (mark_stub_ready k r entries). Q e"
proof (cases "sre_ready r \<and> sre_entity_id r \<noteq> [] \<and> sre_entity_id r \<noteq> kUnknownServerEntityId")
  case True
  show ?thesis unfolding mark_stub_ready_def using True
    by (simp only: if_False not_True_eq_False simp_thms) (rule update_first_all [OF _ assms(2)], simp add: Q)
next
  case False
  then have "mark_stub_ready k r entries = entries" by (auto simp: mark_stub_ready_def)
  with assms(2) show ?thesis by simp
qed

lemma fold_mark_stub_ready:
  "fold (mark_stub_ready k) rs entries = [] \<longleftrightarrow> entries = []"
  "(\<And>e i. Q e \<Longrightarrow> i \<noteq> [] \<Longrightarrow> i \<noteq> kUnknownServerEntityId \<Longrightarrow> Q (e\<lparr>sse_entity_id := i, sse_state := Stub_Ready\<rparr>)) \<Longrightarrow>
     \<forall>e\<in>set entries. Q e \<Longrightarrow> \<forall>e\<in>set (fold (mark_stub_ready k) rs entries). Q e"
proof (induction rs arbitrary: entries)
  case (Cons r rs)
  { case 1 show ?case using Cons.IH(1) by simp
  next
    case 2
    have "\<forall>e\<in>set (mark_stub_ready k r entries). Q e" by (rule mark_stub_ready_all [OF 2])
    from Cons.IH(2) [OF 2(1) this] show ?case by simp }
qed simp_all

lemma stub_ready_inv:
  assumes inv: "gm_inv s"
  shows "gm_inv (let s = s\<lparr>gm_stubs := (gm_stubs s)\<lparr>sst_entries := fold (mark_stub_ready k) rs (sst_entries (gm_stubs s))\<rparr>\<rparr> in
    if \<not> ss_gate_open (gm_startup s) \<and> AreAllServerStubsReady s then OnAllStubReady env s else s)" (is "gm_inv ?r")
proof -
  let ?tab = "(gm_stubs s)\<lparr>sst_entries := fold (mark_stub_ready k) rs (sst_entries (gm_stubs s))\<rparr>"
  let ?s = "s\<lparr>gm_stubs := ?tab\<rparr>"
  have D: "sessions_inv (sn_sessions s)" "flags_ok (gm_startup s) (gm_stubs s)" "stubs_ok (gm_startup s) (gm_stubs s)"
    "registrations_ok (sn_sessions s) (gm_startup s)" using inv by (auto simp: gm_inv_def)
  let ?G = "gme_node_id ` set (ss_expected_game_entries (gm_startup s))"
  have "\<forall>e\<in>set (fold (mark_stub_ready k) rs (sst_entries (gm_stubs s))). stub_ok ?G e"
    using D(3) by (intro fold_mark_stub_ready(2)) (simp_all add: stub_ok_def stubs_ok_def)
  with D(3) have stubs: "stubs_ok (gm_startup s) ?tab" by (simp add: stubs_ok_def fold_mark_stub_ready(1))
  have ready: "stubs_ready ?tab" if "stubs_ready (gm_stubs s)"
  proof -
    have "\<forall>e\<in>set (fold (mark_stub_ready k) rs (sst_entries (gm_stubs s))). sse_owner_game_node_id e \<noteq> [] \<and> sse_state e = Stub_Ready"
      using that by (intro fold_mark_stub_ready(2)) (simp_all add: stubs_ready_def)
    with that show ?thesis by (simp add: stubs_ready_def fold_mark_stub_ready(1))
  qed
  obtain t where t: "gm_startup (OnAllStubReady env ?s) =
     (if ss_gate_open (gm_startup ?s) \<or> \<not> AreAllServerStubsReady ?s then gm_startup ?s
      else (gm_startup ?s)\<lparr>ss_gate_open := True, ss_last_cluster_ready_server_now_unix_ms := t,
        ss_ready_epoch := ss_ready_epoch (gm_startup ?s) + 1\<rparr>)" using OnAllStubReady_effect(3) by blast
  show ?thesis
  proof (cases "\<not> ss_gate_open (gm_startup s) \<and> stubs_ready ?tab")
    case True
    let ?st = "(gm_startup s)\<lparr>ss_gate_open := True, ss_last_cluster_ready_server_now_unix_ms := t,
        ss_ready_epoch := ss_ready_epoch (gm_startup s) + 1\<rparr>"
    from True have r: "?r = OnAllStubReady env ?s" by (simp add: AreAll_eq)
    have st: "gm_startup ?r = ?st" using True t by (simp add: r AreAll_eq)
    have "nodes_online ?st = nodes_online (gm_startup s)" "games_ready ?st = games_ready (gm_startup s)"
      by (simp_all add: nodes_online_def games_ready_def)
    then have "flags_ok ?st ?tab" using D(2) True by (auto simp: flags_ok_def)
    moreover have "stubs_ok ?st ?tab" using stubs by (simp add: stubs_ok_def)
    moreover have "registrations_ok (sn_sessions s) ?st" using D(4) by (simp add: registrations_ok_def)
    ultimately show ?thesis using D(1) unfolding gm_inv_def st by (simp add: r OnAllStubReady_effect)
  next
    case False
    then have r: "?r = ?s" by (auto simp: AreAll_eq)
    have "flags_ok (gm_startup s) ?tab" using D(2) False ready by (auto simp: flags_ok_def)
    then show ?thesis using D(1,4) stubs by (simp add: gm_inv_def r)
  qed
qed

lemma OnAllStubReady_startup:
  "awaited (gm_startup (OnAllStubReady env s)) = awaited (gm_startup s)"
  "advances (gm_startup s) (gm_startup (OnAllStubReady env s))"
proof -
  obtain t where t: "gm_startup (OnAllStubReady env s) =
     (if ss_gate_open (gm_startup s) \<or> \<not> AreAllServerStubsReady s then gm_startup s
      else (gm_startup s)\<lparr>ss_gate_open := True, ss_last_cluster_ready_server_now_unix_ms := t,
        ss_ready_epoch := ss_ready_epoch (gm_startup s) + 1\<rparr>)" using OnAllStubReady_effect(3) by blast
  show "awaited (gm_startup (OnAllStubReady env s)) = awaited (gm_startup s)"
    "advances (gm_startup s) (gm_startup (OnAllStubReady env s))"
    unfolding t by (simp_all add: awaited_def advances_def)
qed

lemma HandleGameStubsReadyReport_keeps:
  assumes inv: "gm_inv s"
  shows "gm_keeps s (HandleGameStubsReadyReport env r payload s)"
proof -
  have "gm_keeps s s" by (rule gm_keeps_same [OF inv]) simp_all
  moreover have "gm_keeps s (let s = s\<lparr>gm_stubs := (gm_stubs s)\<lparr>sst_entries :=
        fold (mark_stub_ready k) rs (sst_entries (gm_stubs s))\<rparr>\<rparr> in
      if \<not> ss_gate_open (gm_startup s) \<and> AreAllServerStubsReady s then OnAllStubReady env s else s)" for k rs
    using stub_ready_inv [OF inv, of k rs env] inv
      OnAllStubReady_startup [where env = env and s = "s\<lparr>gm_stubs := (gm_stubs s)\<lparr>sst_entries :=
        fold (mark_stub_ready k) rs (sst_entries (gm_stubs s))\<rparr>\<rparr>"]
    by (auto simp: gm_keeps_def Let_def OnAllStubReady_effect sessions_ok_def gm_inv_def)
  ultimately show ?thesis
    by (simp add: HandleGameStubsReadyReport_def split_def Let_def split: option.split)
qed

section \<open>All events\<close>

lemma HandleBoardcaseRequest_frame [simp]:
  "sn_sessions (snd (HandleBoardcaseRequest env message s)) = sn_sessions s"
  "gm_startup (snd (HandleBoardcaseRequest env message s)) = gm_startup s"
  "gm_stubs (snd (HandleBoardcaseRequest env message s)) = gm_stubs s"
proof -
  have "sn_sessions (snd (TrySendStubCallToGame env g t i m p s)) = sn_sessions s \<and>
    gm_startup (snd (TrySendStubCallToGame env g t i m p s)) = gm_startup s \<and>
    gm_stubs (snd (TrySendStubCallToGame env g t i m p s)) = gm_stubs s" for g t i m p
    by (simp add: TrySendStubCallToGame_def Let_def split_def split: option.split)
  then show "sn_sessions (snd (HandleBoardcaseRequest env message s)) = sn_sessions s"
    "gm_startup (snd (HandleBoardcaseRequest env message s)) = gm_startup s"
    "gm_stubs (snd (HandleBoardcaseRequest env message s)) = gm_stubs s"
    by (simp_all add: HandleBoardcaseRequest_def Let_def split_def split: option.split sum.split)
qed

lemma gm_handle_keeps:
  assumes inv: "gm_inv s"
  shows "gm_keeps s (gm_handle env host e s)"
proof (cases e)
  case (Inner_message r payload)
  have "gm_keeps s s" by (rule gm_keeps_same [OF inv]) simp_all
  then show ?thesis
    using HandleRegisterMessage_keeps [OF inv] HandleHeartbeatMessage_keeps [OF inv]
      HandleGameGateMeshReadyReport_keeps [OF inv] HandleGameStubsReadyReport_keeps [OF inv]
    by (simp add: Inner_message HandleInnerMessage_def Let_def split_def)
next
  case Timeout_scan
  then show ?thesis by (simp add: HandleTimeoutScan_keeps [OF inv])
next
  case (Boardcase_request message)
  then show ?thesis by (simp add: gm_keeps_same [OF inv])
qed

text \<open>The start: after \<^verbatim>\<open>OnInit\<close> has succeeded, with the two maps of the configuration in order.\<close>

lemma InitInnerNetwork_frame:
  fixes s :: GmNode
  shows "sn_sessions (snd (InitInnerNetwork env options s)) = sn_sessions s"
    "gm_startup (snd (InitInnerNetwork env options s)) = gm_startup s"
    "gm_stubs (snd (InitInnerNetwork env options s)) = gm_stubs s"
  by (simp_all add: InitInnerNetwork_def sn_SetError_def sn_ClearError_def Let_def split_def)

lemma gm_OnInit_inv:
  assumes "gm_OnInit env control_init s = (Node_None, s')"
    and "map_wf (cc_gates (sn_cluster_config s))" "map_wf (cc_games (sn_cluster_config s))"
  shows "gm_inv s'"
proof -
  define s1 where "s1 = (ResetServerStubStateTable (InitializeStartupState
      (s\<lparr>gm_timeout_scan_timer_id := 0, sn_sessions := sessions_Clear (sn_sessions s)\<rparr>)))"
  define s2 where "s2 = s1\<lparr>gm_startup := (gm_startup s1)\<lparr>ss_ready_epoch := 0\<rparr>\<rparr>"
  obtain endpoint control where cfg: "sn_node_config s = Some (GmNodeConfig endpoint control)"
  proof (cases "sn_node_config s")
    case None
    with assms(1) show ?thesis by (simp add: gm_OnInit_def sn_SetError_def)
  next
    case (Some c)
    show ?thesis
    proof (cases c)
      case (GmNodeConfig endpoint control)
      with Some that show ?thesis by blast
    qed (use assms(1) Some in \<open>simp_all add: gm_OnInit_def sn_SetError_def\<close>)
  qed
  define s3 where "s3 = snd (InitInnerNetwork env \<lparr>nno_local_endpoint = BuildTcpEndpoint endpoint, nno_connectors = []\<rparr> s2)"
  have "s' = sn_ClearError (s3\<lparr>gm_control_http_service := True\<rparr>)"
    using assms(1) unfolding gm_OnInit_def cfg option.case NodeConfig.case Let_def s1_def [symmetric] s2_def [symmetric] split_def
      s3_def [symmetric] sn_SetError_def
    by (simp split: if_splits)
  then have s': "sn_sessions s' = sn_sessions s2" "gm_startup s' = gm_startup s2" "gm_stubs s' = gm_stubs s2"
    by (simp_all add: sn_ClearError_def s3_def InitInnerNetwork_frame)
  have sess: "sessions_inv (sn_sessions s')"
    by (simp add: s' s2_def s1_def ResetServerStubStateTable_def InitializeStartupState_def Clear_sessions_inv)
  have tab: "gm_stubs s' = new_ServerStubStateTable"
    by (simp add: s' s2_def s1_def ResetServerStubStateTable_def)
  have st: "gm_startup s' = (gm_startup (InitializeStartupState s))\<lparr>ss_ready_epoch := 0\<rparr>"
    by (simp add: s' s2_def s1_def ResetServerStubStateTable_def InitializeStartupState_def)
  let ?entry = "\<lambda>(node_id, config). \<lparr>gme_node_id = node_id, gme_mesh_ready = False, gme_reported_at_unix_ms = 0\<rparr>"
  let ?games = "cc_games (sn_cluster_config s)"
  have ids: "map (gme_node_id \<circ> ?entry) ?games = map fst ?games" by auto
  have reg: "registrations_ok (sn_sessions s') (gm_startup s')"
    using assms(2,3) by (simp add: registrations_ok_def st InitializeStartupState_def new_StartupState_def ids map_wf_distinct)
  have mesh: "\<not> gme_mesh_ready e" if "e \<in> set (ss_expected_game_entries (gm_startup s'))" for e
    using that by (auto simp: st InitializeStartupState_def)
  then have "\<not> games_ready (gm_startup s')" by (auto simp: games_ready_def neq_Nil_conv)
  with mesh have "flags_ok (gm_startup s') (gm_stubs s')"
    by (auto simp: flags_ok_def nodes_online_def stubs_ready_def st tab new_ServerStubStateTable_def
        InitializeStartupState_def new_StartupState_def)
  then show ?thesis using sess reg by (simp add: gm_inv_def stubs_ok_def tab new_ServerStubStateTable_def)
qed

lemma gm_OnRun_frame:
  "sn_sessions (snd (gm_OnRun env control_run s)) = sn_sessions s"
  "gm_startup (snd (gm_OnRun env control_run s)) = gm_startup s"
  "gm_stubs (snd (gm_OnRun env control_run s)) = gm_stubs s"
  by (auto simp: gm_OnRun_def Let_def split_def sn_SetError_def sn_ClearError_def RunInnerNetwork_def
      UninitInnerNetwork_def split: option.split)

inductive gm_reachable :: "node_env \<Rightarrow> managed_host \<Rightarrow> GmNode \<Rightarrow> bool" for env host where
  reachable_init: "gm_OnInit env control_init s = (Node_None, s') \<Longrightarrow>
    map_wf (cc_gates (sn_cluster_config s)) \<Longrightarrow> map_wf (cc_games (sn_cluster_config s)) \<Longrightarrow> gm_reachable env host s'"
| reachable_run: "gm_reachable env host s \<Longrightarrow> gm_OnRun env control_run s = (Node_None, s') \<Longrightarrow> gm_reachable env host s'"
| reachable_event: "gm_reachable env host s \<Longrightarrow> gm_reachable env host (gm_handle env host e s)"

lemma gm_reachable_inv: "gm_reachable env host s \<Longrightarrow> gm_inv s"
proof (induction rule: gm_reachable.induct)
  case (reachable_run s control_run s')
  then show ?case using gm_keeps_same [of s s'] gm_OnRun_frame [of env control_run s] by (simp add: gm_keeps_def)
next
  case (reachable_event s e)
  then show ?case using gm_handle_keeps by (simp add: gm_keeps_def)
qed (rule gm_OnInit_inv)

end
