(* ===== verification/GmProtocol.thy ===== *)
theory GmProtocol
  imports GmStartup
begin

text \<open>
  What the coordinator does with the messages of the protocol: the bytes that the codecs write for
  a request reach the handler, which answers and records it. The properties of the coordinator are
  at the end, with a start of a small cluster as their example.
\<close>

section \<open>Sending goes on\<close>

lemma can_send_frame:
  assumes "can_send env s"
  shows "can_send env (SendClusterNodesOnlineNotifyToGame env session b t s)"
    "can_send env (SendOwnershipSyncToGame env sync session s)"
    "can_send env (SendClusterGateOpenNotifyToGate env notify session s)"
    "can_send env (send_register_error env r q e s)"
  using assms by (simp_all add: SendClusterNodesOnlineNotifyToGame_def SendOwnershipSyncToGame_def
      SendClusterGateOpenNotifyToGate_def send_register_error_def send_packet_ok(2) split_def)

lemma notify_nodes_inv:
  assumes "\<And>session s. P s \<Longrightarrow> P (send session s)" "P s"
  shows "P (fold (notify_node send) node_ids s)"
  using assms(2) by (induction node_ids arbitrary: s) (simp_all add: notify_node_def assms(1) split: option.split)

lemma can_send_cong [simp]:
  fixes s :: GmNode
  shows "can_send env (s\<lparr>gm_startup := x\<rparr>) = can_send env s"
    "can_send env (s\<lparr>gm_stubs := y\<rparr>) = can_send env s"
    "can_send env (s\<lparr>sn_sessions := z\<rparr>) = can_send env s"
    "can_send env (snd (CurrentUnixTimeMilliseconds env s)) = can_send env s"
    "can_send env (s\<lparr>gm_stubs := y, sn_random_draws := n\<rparr>) = can_send env s"
  by (simp_all add: can_send_def CurrentUnixTimeMilliseconds_def Let_def)

lemma can_send_OnAll:
  assumes "can_send env s"
  shows "can_send env (OnAllNodeOnline env s)" "can_send env (OnAllGameReady env host s)" "can_send env (OnAllStubReady env s)"
proof -
  note notify = notify_nodes_inv [where P = "can_send env"]
  show "can_send env (OnAllNodeOnline env s)" "can_send env (OnAllStubReady env s)"
    using assms by (simp_all add: OnAllNodeOnline_def OnAllStubReady_def Let_def split_def notify can_send_frame)
  have "can_send env (snd (LoadManagedServerStubReflection host s')) = can_send env s'" for s'
    by (simp add: LoadManagedServerStubReflection_def ResetServerStubStates_def split: option.split)
  then have "can_send env (snd (EnsureServerStubAssignments env host s')) = can_send env s'" for s'
    by (simp add: EnsureServerStubAssignments_def Let_def split_def)
  then show "can_send env (OnAllGameReady env host s)"
    using assms by (simp add: OnAllGameReady_def ResetServerStubStates_def Let_def split_def notify can_send_frame)
qed

lemma can_send_finish: "can_send env s \<Longrightarrow> can_send env (finish_registration env role k s)"
  by (auto simp: finish_registration_def Let_def RecordStartupRegistration_def can_send_OnAll)

section \<open>A registration on the wire\<close>

lemma Register_flags [simp]: "\<not> HasPacketFlag 0 flag"
  by (simp add: HasPacketFlag_def)

lemma MakePacketHeader_simps [simp]:
  "ph_msg_id (MakePacketHeader m q f n) = m" "ph_seq (MakePacketHeader m q f n) = q" "ph_flags (MakePacketHeader m q f n) = f"
  "ph_magic (MakePacketHeader m q f n) = kPacketMagic" "ph_version (MakePacketHeader m q f n) = kPacketVersion"
  by (simp_all add: MakePacketHeader_def)

text \<open>The handler sees the request that the sender encoded.\<close>

definition register_bytes :: "u32 \<Rightarrow> RegisterRequest \<Rightarrow> byte list" where
  "register_bytes seq request = packet_bytes kInnerRegisterMsgId seq 0 (wire_RegisterRequest request)"

definition role_of :: "RegisterRequest \<Rightarrow> ProcessType" where
  "role_of request = (if rr_process_type request = 1 then Gate else Game)"

lemma HandleInnerMessage_register:
  assumes "valid_RegisterRequest request" "fits32 (wire_RegisterRequest request)" "seq \<noteq> kPacketSeqNone"
  shows "HandleInnerMessage env host r (register_bytes seq request) s =
    (case CurrentUnixTimeMilliseconds env s of (now, s) \<Rightarrow>
       let registration = registration_of (role_of request) request r now in
       if FindByNodeId (rr_node_id request) (sn_sessions s) \<noteq> None then send_register_error env r seq kInnerNodeIdConflict s
       else case Register registration (sn_sessions s) of (register_result, sessions) \<Rightarrow>
         let s = s\<lparr>sn_sessions := sessions\<rparr> in
         if register_result \<noteq> Ism_None then
           (case MapInnerNetworkSessionManagerErrorToInnerError register_result of
              None \<Rightarrow> s | Some error_code \<Rightarrow> send_register_error env r seq error_code s)
         else accept_registration env r seq registration now s)"
proof -
  have "ToCoreProcessType (rr_process_type request) = Some (role_of request)"
    using assms(1) by (auto simp: valid_RegisterRequest_def ToCoreProcessType_def role_of_def)
  then show ?thesis
    using assms(3)
    by (simp add: HandleInnerMessage_def register_bytes_def TryReadRawPacketHeader_packet_bytes HandleRegisterMessage_def
        DecodePacket_packet_bytes [OF assms(2)] register_request.decode_wire [OF assms(1)] Let_def split_def
        FindMutableByNodeId_def FindByNodeId_def split: option.split)
qed

lemma send_packet_clock: "sn_clock_reads (snd (send_packet env r m q f b s)) = sn_clock_reads s"
  by (simp add: send_packet_def inner_Send_def split_def split: option.split)

lemma finish_registration_clock: "sn_clock_reads s \<le> sn_clock_reads (finish_registration env role k s)"
proof -
  have "sn_clock_reads (SendClusterNodesOnlineNotifyToGame env session b t s) = sn_clock_reads s" for session b t s
    by (simp add: SendClusterNodesOnlineNotifyToGame_def send_packet_clock split_def)
  then show ?thesis
    by (simp add: finish_registration_def OnAllNodeOnline_def RecordStartupRegistration_def Let_def split_def
        notify_nodes_frame [of sn_clock_reads] CurrentUnixTimeMilliseconds_def)
qed

text \<open>
  What a new node's registration leads to: the session is there in any case, and the registration
  is recorded for the start when the reply could be sent.
\<close>

definition register_reply :: "u64 \<Rightarrow> byte list" where
  "register_reply now = wire_RegisterSuccessResponse \<lparr>rs_heartbeat_interval_ms = kDefaultHeartbeatIntervalMs,
     rs_heartbeat_timeout_ms = kDefaultHeartbeatTimeoutMs, rs_server_now_unix_ms = now\<rparr>"

definition reply_to_register :: "node_env \<Rightarrow> RoutingID \<Rightarrow> u32 \<Rightarrow> u64 \<Rightarrow> GmNode \<Rightarrow> bool \<times> GmNode" where
  "reply_to_register env r seq now s =
     send_packet env r kInnerRegisterMsgId seq (packet_flag_value Flag_Response) (register_reply now) s"

lemma register_reply_encoded:
  "EncodeRegisterSuccessResponse \<lparr>rs_heartbeat_interval_ms = kDefaultHeartbeatIntervalMs,
     rs_heartbeat_timeout_ms = kDefaultHeartbeatTimeoutMs, rs_server_now_unix_ms = now\<rparr>
     (replicate kRegisterSuccessResponseSize 0) = (Reg_None, register_reply now)"
  unfolding register_reply_def
  by (rule register_success.encode_exact)
    (simp_all add: kRegisterSuccessResponseSize_def wire_RegisterSuccessResponse_def
      valid_RegisterSuccessResponse_def kDefaultHeartbeatIntervalMs_def kDefaultHeartbeatTimeoutMs_def)

lemma reply_to_register_ok: "can_send env s \<Longrightarrow> r \<noteq> [] \<Longrightarrow> fst (reply_to_register env r seq now s)"
  unfolding reply_to_register_def
  by (rule send_packet_ok(1))
    (simp_all add: fits32_def register_reply_def wire_RegisterSuccessResponse_def packet_flag_value.simps)

lemma register_effect:
  fixes host :: managed_host and env :: node_env
  assumes inv: "gm_inv s" and r: "r \<noteq> []" "FindByRoutingId r (sn_sessions s) = None"
    and fresh: "FindByNodeId (rr_node_id request) (sn_sessions s) = None"
    and req: "valid_RegisterRequest request" "fits32 (wire_RegisterRequest request)" "seq \<noteq> kPacketSeqNone"
  defines "now \<equiv> fst (CurrentUnixTimeMilliseconds env s)"
  defines "g \<equiv> registration_of (role_of request) request r now"
    and "s' \<equiv> HandleInnerMessage env host r (register_bytes seq request) s"
  shows "FindByNodeId k (sn_sessions s') = (if k = rr_node_id request
      then Some (apply_registration_state g now (session_of_registration g)) else FindByNodeId k (sn_sessions s))"
    and "\<exists>s1. gm_startup s1 = gm_startup s \<and> gm_stubs s1 = gm_stubs s \<and> sn_clock_reads s1 = Suc (sn_clock_reads s) \<and>
      sn_inner_network s1 = sn_inner_network s \<and>
      s' = (case reply_to_register env r seq now s1 of (sent, s2) \<Rightarrow>
        if sent then finish_registration env (role_of request) (rr_node_id request) s2 else s2)"
proof -
  let ?s0 = "snd (CurrentUnixTimeMilliseconds env s)"
  have sinv: "sessions_inv (sn_sessions s)" using inv by (simp add: gm_inv_def)
  have g: "isr_node_id g = rr_node_id request" "isr_process_type g = role_of request" by (simp_all add: g_def registration_of_def)
  have ok: "registrable g (sn_sessions s)"
    using req(1) r fresh by (simp add: registrable_def ValidateRegistration_None valid_RegisterRequest_def g_def registration_of_def)
  let ?m = "snd (Register g (sn_sessions s))" and ?k = "rr_node_id request"
  define s1 where "s1 = ?s0\<lparr>sn_sessions := modify_session ?k (apply_registration_state g now) ?m\<rparr>"
  have found: "FindMutableByNodeId ?k ?m = Some (?k, session_of_registration g)"
    using sinv ok g by (simp add: FindMutable_iff FindByNodeId_Register)
  have s': "s' = (case reply_to_register env r seq now s1 of (sent, s2) \<Rightarrow>
      if sent then finish_registration env (role_of request) ?k s2 else s2)"
    using fresh unfolding s'_def HandleInnerMessage_register [OF req] reply_to_register_def
    by (simp add: split_def Let_def now_def [symmetric] g_def [symmetric] Register_iff(1) [OF sinv] ok accept_registration_def
        found g register_reply_encoded s1_def [symmetric] finish_registration_def)
  moreover have "gm_startup s1 = gm_startup s" "gm_stubs s1 = gm_stubs s" "sn_inner_network s1 = sn_inner_network s"
    by (simp_all add: s1_def) (simp add: CurrentUnixTimeMilliseconds_def Let_def)
  moreover have "sn_clock_reads s1 = Suc (sn_clock_reads s)"
    by (simp add: s1_def CurrentUnixTimeMilliseconds_def Let_def)
  ultimately show "\<exists>s1. gm_startup s1 = gm_startup s \<and> gm_stubs s1 = gm_stubs s \<and> sn_clock_reads s1 = Suc (sn_clock_reads s) \<and>
      sn_inner_network s1 = sn_inner_network s \<and>
      s' = (case reply_to_register env r seq now s1 of (sent, s2) \<Rightarrow>
        if sent then finish_registration env (role_of request) ?k s2 else s2)" by blast
  have "sn_sessions s' = sn_sessions s1" by (simp add: s' split_def reply_to_register_def)
  then show "FindByNodeId k (sn_sessions s') = (if k = ?k then Some (apply_registration_state g now (session_of_registration g))
      else FindByNodeId k (sn_sessions s))"
    using registered_sessions(2) [OF sinv ok, where now = now and k = k] by (simp add: s1_def g)
qed

lemma register_new_node:
  fixes host :: managed_host
  assumes inv: "gm_inv s" and send: "can_send env s" and r: "r \<noteq> []" "FindByRoutingId r (sn_sessions s) = None"
    and fresh: "FindByNodeId (rr_node_id request) (sn_sessions s) = None"
    and req: "valid_RegisterRequest request" "fits32 (wire_RegisterRequest request)" "seq \<noteq> kPacketSeqNone"
  defines "s' \<equiv> HandleInnerMessage env host r (register_bytes seq request) s"
  shows "can_send env s'"
    and "\<exists>s2. gm_startup s2 = gm_startup s \<and> sn_clock_reads s2 = Suc (sn_clock_reads s) \<and>
      s' = finish_registration env (role_of request) (rr_node_id request) s2"
    and "gm_stubs s' = gm_stubs s"
proof -
  let ?now = "fst (CurrentUnixTimeMilliseconds env s)"
  obtain s1 where s1: "gm_startup s1 = gm_startup s" "gm_stubs s1 = gm_stubs s" "sn_clock_reads s1 = Suc (sn_clock_reads s)"
    "sn_inner_network s1 = sn_inner_network s" and s': "s' = (case reply_to_register env r seq ?now s1 of (sent, s2) \<Rightarrow>
        if sent then finish_registration env (role_of request) (rr_node_id request) s2 else s2)"
    unfolding s'_def using register_effect(2) [OF inv r fresh req, where env = env and host = host] by blast
  then have can: "can_send env s1 = can_send env s" by (simp add: can_send_def)
  let ?s2 = "snd (reply_to_register env r seq ?now s1)"
  have eq: "s' = finish_registration env (role_of request) (rr_node_id request) ?s2"
    using reply_to_register_ok [of env s1 r seq ?now] send can r(1) by (simp add: s' split_def)
  show "can_send env s'"
    unfolding eq reply_to_register_def using send can by (intro can_send_finish send_packet_ok(2)) simp
  show "\<exists>s2. gm_startup s2 = gm_startup s \<and> sn_clock_reads s2 = Suc (sn_clock_reads s) \<and>
      s' = finish_registration env (role_of request) (rr_node_id request) s2"
    using eq s1 by (intro exI [of _ ?s2]) (simp add: reply_to_register_def send_packet_clock)
  show "gm_stubs s' = gm_stubs s"
    by (simp add: eq finish_registration_def Let_def OnAllNodeOnline_effect reply_to_register_def s1)
qed

section \<open>Reports on the wire\<close>

definition mesh_report_bytes :: "GameGateMeshReadyReport \<Rightarrow> byte list" where
  "mesh_report_bytes report = packet_bytes kInnerGameGateMeshReadyReportMsgId kPacketSeqNone 0 (wire_GameGateMeshReadyReport report)"

definition stubs_report_bytes :: "GameServiceReadyReport \<Rightarrow> byte list" where
  "stubs_report_bytes report = packet_bytes kInnerGameServiceReadyReportMsgId kPacketSeqNone 0 (wire_GameServiceReadyReport report)"

lemma HandleInnerMessage_mesh_report:
  assumes "valid_GameGateMeshReadyReport report" "reporting_game r s = Some session"
    "ss_all_nodes_online (gm_startup s)" "mesh_ready_entry (ins_node_id session) s \<noteq> None"
  shows "HandleInnerMessage env host r (mesh_report_bytes report) s =
    (let s = set_mesh_ready (ins_node_id session) (mr_reported_at_unix_ms report) s in
     if \<not> ss_all_expected_games_mesh_ready (gm_startup s) \<and> AreAllExpectedGamesMeshReady s
     then OnAllGameReady env host s else s)"
proof -
  have "fits32 (wire_GameGateMeshReadyReport report)" by (simp add: fits32_def wire_GameGateMeshReadyReport_def)
  with assms show ?thesis
    by (simp add: HandleInnerMessage_def mesh_report_bytes_def TryReadRawPacketHeader_packet_bytes msg_id_defs
        HandleGameGateMeshReadyReport_def DecodePacket_packet_bytes mesh_ready_report.decode_wire Let_def
        del: not_None_eq)
qed

lemma HandleInnerMessage_stubs_report:
  assumes "valid_GameServiceReadyReport report" "fits32 (wire_GameServiceReadyReport report)"
    "reporting_game r s = Some session" "ss_all_expected_games_mesh_ready (gm_startup s)" "ownership_active s"
    "gs_assignment_epoch report = kServerStubOwnershipAssignmentEpoch" "gs_local_ready report"
    "\<not> list_all (\<lambda>entry. sse_owner_game_node_id entry \<noteq> ins_node_id session) (sst_entries (gm_stubs s))"
  shows "HandleInnerMessage env host r (stubs_report_bytes report) s =
    (let s = s\<lparr>gm_stubs := (gm_stubs s)\<lparr>sst_entries :=
        fold (mark_stub_ready (ins_node_id session)) (gs_entries report) (sst_entries (gm_stubs s))\<rparr>\<rparr> in
     if \<not> ss_gate_open (gm_startup s) \<and> AreAllServerStubsReady s then OnAllStubReady env s else s)"
  using assms
  by (simp add: HandleInnerMessage_def stubs_report_bytes_def TryReadRawPacketHeader_packet_bytes msg_id_defs
      HandleGameStubsReadyReport_def DecodePacket_packet_bytes service_ready_report.decode_wire Let_def)

section \<open>The start of a small cluster\<close>

definition sample_env :: node_env where
  "sample_env = \<lparr>env_zmq = sample_zmq, env_utc_now = (\<lambda>n. if n = 0 then 1000 else 90000), env_random = (\<lambda>n. 0)\<rparr>"

definition sample_host :: managed_host where
  "sample_host = \<lparr>mh_load_ok = (\<lambda>_. True), mh_bind_ok = True, mh_exports = Some
     \<lparr>get_server_stub_reflection_count = Some (0, 1),
      get_server_stub_reflection_entry = Some (\<lambda>index. (0,
        \<lparr>mse_entity_type_length = 1, mse_entity_type_utf8 = [79], mse_entity_id_length = 0, mse_entity_id_utf8 = []\<rparr>))\<rparr>\<rparr>"

definition sample_endpoint :: EndpointConfig where
  "sample_endpoint = \<lparr>ec_host = ''h'', ec_port = 1\<rparr>"

definition sample_config :: ClusterConfig where
  "sample_config = zero_ClusterConfig\<lparr>
     cc_gates := [(''Gate0'', \<lparr>gtc_inner_network_listen_endpoint = sample_endpoint,
       gtc_auth_network_listen_endpoint = sample_endpoint, gtc_client_network_listen_endpoint = sample_endpoint\<rparr>)],
     cc_games := [(''Game0'', \<lparr>gac_inner_network_listen_endpoint = sample_endpoint\<rparr>)]\<rparr>"

definition sample_gm :: GmNode where
  "sample_gm = \<lparr>sn_config_path = ''c'', sn_args_node_id = ''GM'', sn_cluster_config = sample_config, sn_process_type = Gm,
     sn_node_id = ''GM'', sn_pid = 1, sn_node_config = Some (GmNodeConfig sample_endpoint sample_endpoint),
     sn_event_loop = Some new_TimerManager, sn_inner_network = None, sn_sessions = new_InnerNetworkSessionManager,
     sn_last_error_message = [], sn_initialized = True, sn_zmq_tick = 0, sn_clock_reads = 0, sn_random_draws = 0,
     gm_timeout_scan_timer_id = 0, gm_control_http_service = False, gm_stubs = new_ServerStubStateTable,
     gm_startup = new_StartupState\<rparr>"

definition sample_request :: "u16 \<Rightarrow> string \<Rightarrow> RegisterRequest" where
  "sample_request role node_id = zero_RegisterRequest\<lparr>rr_process_type := role, rr_node_id := node_id,
     rr_inner_network_endpoint := \<lparr>ep_host = ''h'', ep_port = 1\<rparr>\<rparr>"

definition sample_started :: GmNode where
  "sample_started = snd (gm_OnRun sample_env (Node_None, []) (snd (gm_OnInit sample_env (Node_None, []) sample_gm)))"

lemma sample_codes:
  "fst (gm_OnInit sample_env (Node_None, []) sample_gm) = Node_None"
  "fst (gm_OnRun sample_env (Node_None, []) (snd (gm_OnInit sample_env (Node_None, []) sample_gm))) = Node_None"
  by code_simp+

lemma sample_started_reachable: "gm_reachable sample_env sample_host sample_started"
proof -
  let ?s = "snd (gm_OnInit sample_env (Node_None, []) sample_gm)"
  have "gm_reachable sample_env sample_host ?s"
    by (rule reachable_init [of _ "(Node_None, [])" sample_gm])
      (simp_all add: prod_eq_iff sample_codes, simp_all add: sample_gm_def sample_config_def map_wf_def)
  then show ?thesis unfolding sample_started_def
    by (rule reachable_run [of _ _ _ "(Node_None, [])"]) (simp add: prod_eq_iff sample_codes)
qed

lemma sample_started_state:
  "sn_sessions sample_started = new_InnerNetworkSessionManager"
  "gm_stubs sample_started = new_ServerStubStateTable"
  "gm_startup sample_started = new_StartupState\<lparr>ss_expected_gate_node_ids := [''Gate0''],
     ss_expected_game_entries := [\<lparr>gme_node_id = ''Game0'', gme_mesh_ready = False, gme_reported_at_unix_ms = 0\<rparr>]\<rparr>"
  "can_send sample_env sample_started" "sn_clock_reads sample_started = 0"
proof -
  show "sn_clock_reads sample_started = 0" by code_simp
  show "sn_sessions sample_started = new_InnerNetworkSessionManager" "gm_stubs sample_started = new_ServerStubStateTable"
    "gm_startup sample_started = new_StartupState\<lparr>ss_expected_gate_node_ids := [''Gate0''],
     ss_expected_game_entries := [\<lparr>gme_node_id = ''Game0'', gme_mesh_ready = False, gme_reported_at_unix_ms = 0\<rparr>]\<rparr>"
    by code_simp+
  have "case sn_inner_network sample_started of None \<Rightarrow> False
      | Some net \<Rightarrow> net_initialized net \<and> (case net_listener net of None \<Rightarrow> False | Some l \<Rightarrow> zl_running l \<and> zl_socket l)"
    by code_simp
  then show "can_send sample_env sample_started" by (simp add: can_send_def sample_env_def sample_zmq_def)
qed

definition sample_events :: "gm_event list" where
  "sample_events =
    [Inner_message [1] (register_bytes 1 (sample_request 1 ''Gate0'')),
     Inner_message [2] (register_bytes 1 (sample_request 2 ''Game0'')),
     Inner_message [2] (mesh_report_bytes zero_GameGateMeshReadyReport),
     Inner_message [2] (stubs_report_bytes \<lparr>gs_assignment_epoch = 1, gs_local_ready = True, gs_status_flags = 0,
       gs_entries = [\<lparr>sre_entity_type = ''O'', sre_entity_id = ''x'', sre_ready = True, sre_entry_flags = 0\<rparr>],
       gs_reported_at_unix_ms = 0\<rparr>)]"

lemma sample_request_valid:
  "valid_RegisterRequest (sample_request 1 ''Gate0'')" "valid_RegisterRequest (sample_request 2 ''Game0'')"
  "fits32 (wire_RegisterRequest (sample_request 1 ''Gate0''))" "fits32 (wire_RegisterRequest (sample_request 2 ''Game0''))"
  "role_of (sample_request 1 ''Gate0'') = Gate" "role_of (sample_request 2 ''Game0'') = Game"
  "rr_node_id (sample_request 1 ''Gate0'') = ''Gate0''" "rr_node_id (sample_request 2 ''Game0'') = ''Game0''"
  by (simp_all add: valid_RegisterRequest_def sample_request_def zero_RegisterRequest_def fits16_def fits32_def role_of_def
      wire_RegisterRequest_def wire_Endpoint_def wire_tags_def wire_load_def)

definition sample_at :: "nat \<Rightarrow> GmNode" where
  "sample_at n = fold (gm_handle sample_env sample_host) (take n sample_events) sample_started"

lemma sample_at_simps:
  "sample_at 0 = sample_started"
  "sample_at 1 = HandleInnerMessage sample_env sample_host [1] (register_bytes 1 (sample_request 1 ''Gate0'')) (sample_at 0)"
  "sample_at 2 = HandleInnerMessage sample_env sample_host [2] (register_bytes 1 (sample_request 2 ''Game0'')) (sample_at 1)"
  by (simp_all add: sample_at_def sample_events_def eval_nat_numeral)

lemma sample_at_reachable: "gm_reachable sample_env sample_host (sample_at n)"
proof -
  have "gm_reachable sample_env sample_host s \<Longrightarrow>
      gm_reachable sample_env sample_host (fold (gm_handle sample_env sample_host) es s)" for es s
    by (induction es arbitrary: s) (simp_all add: reachable_event)
  then show ?thesis by (simp add: sample_at_def sample_started_reachable)
qed

lemma finish_registration_cases:
  "gm_startup (finish_registration env role k s) = gm_startup (RecordStartupRegistration role k s) \<or>
   (\<exists>t. gm_startup (finish_registration env role k s) = (gm_startup (RecordStartupRegistration role k s))
      \<lparr>ss_all_nodes_online := True, ss_last_all_nodes_online_server_now_unix_ms := t\<rparr>)"
  using OnAllNodeOnline_effect(3) [of env "RecordStartupRegistration role k s"]
  by (auto simp: finish_registration_def Let_def)

lemma sample_registered:
  "can_send sample_env (sample_at 1)" "gm_stubs (sample_at 1) = new_ServerStubStateTable"
  "ss_registered_gate_node_ids (gm_startup (sample_at 1)) = [''Gate0'']"
  "ss_registered_game_node_ids (gm_startup (sample_at 1)) = []"
  "ss_expected_gate_node_ids (gm_startup (sample_at 1)) = [''Gate0'']"
  "ss_expected_game_entries (gm_startup (sample_at 1)) =
     [\<lparr>gme_node_id = ''Game0'', gme_mesh_ready = False, gme_reported_at_unix_ms = 0\<rparr>]"
  "FindByNodeId ''Game0'' (sn_sessions (sample_at 1)) = None" "FindByRoutingId [2] (sn_sessions (sample_at 1)) = None"
  "\<exists>session. FindByNodeId ''Gate0'' (sn_sessions (sample_at 1)) = Some session \<and> ins_registered session \<and>
     ins_last_heartbeat_at_unix_ms session = 1000 \<and> \<not> ins_heartbeat_timed_out session"
  "sn_clock_reads (sample_at 1) \<noteq> 0"
proof -
  have find0: "FindByNodeId k (sn_sessions (sample_at 0)) = None" for k
    by (simp add: sample_at_simps sample_started_state new_InnerNetworkSessionManager_def FindByNodeId_def)
  have route0: "FindByRoutingId r (sn_sessions (sample_at 0)) = None" for r
    by (simp add: sample_at_simps sample_started_state new_InnerNetworkSessionManager_def FindByRoutingId_def)
  have send: "can_send sample_env (sample_at 0)" by (simp add: sample_at_simps sample_started_state)
  have seq: "(1::u32) \<noteq> kPacketSeqNone" by (simp add: kPacketSeqNone_def)
  have inv: "gm_inv (sample_at 0)" by (rule gm_reachable_inv [OF sample_at_reachable])
  have r: "[1::byte] \<noteq> []" by simp
  note new = register_new_node [OF inv send r route0 find0 sample_request_valid(1,3) seq, where host = sample_host,
      folded sample_at_simps(2), unfolded sample_request_valid(5,7)]
  note find = register_effect(1) [OF inv r route0 find0 sample_request_valid(1,3) seq, where host = sample_host and env = sample_env,
      folded sample_at_simps(2), unfolded sample_request_valid(5,7)]
  show "can_send sample_env (sample_at 1)" "gm_stubs (sample_at 1) = new_ServerStubStateTable"
    using new(1,3) by (simp_all add: sample_at_simps(1) sample_started_state)
  show "FindByNodeId ''Game0'' (sn_sessions (sample_at 1)) = None" unfolding find by (simp add: find0)
  have "fst (CurrentUnixTimeMilliseconds sample_env (sample_at 0)) = 1000"
    by (simp add: CurrentUnixTimeMilliseconds_def sample_env_def sample_at_simps(1) sample_started_state)
  then show "\<exists>session. FindByNodeId ''Gate0'' (sn_sessions (sample_at 1)) = Some session \<and> ins_registered session \<and>
     ins_last_heartbeat_at_unix_ms session = 1000 \<and> \<not> ins_heartbeat_timed_out session"
    unfolding find by (simp add: apply_registration_state_def registration_of_def)
  obtain s2 where s2: "gm_startup s2 = gm_startup (sample_at 0)"
    "sample_at 1 = finish_registration sample_env Gate ''Gate0'' s2" "sn_clock_reads s2 \<noteq> 0" using new(2) by auto
  show "sn_clock_reads (sample_at 1) \<noteq> 0"
    using s2(3) finish_registration_clock [of s2 sample_env Gate "''Gate0''"] unfolding s2(2) by simp
  have st: "gm_startup (RecordStartupRegistration Gate ''Gate0'' s2) =
      (gm_startup sample_started)\<lparr>ss_registered_gate_node_ids := [''Gate0'']\<rparr>"
    using s2(1) by (simp add: RecordStartupRegistration_def sample_at_simps(1) sample_started_state new_StartupState_def)
  show "ss_registered_gate_node_ids (gm_startup (sample_at 1)) = [''Gate0'']"
    "ss_registered_game_node_ids (gm_startup (sample_at 1)) = []"
    "ss_expected_gate_node_ids (gm_startup (sample_at 1)) = [''Gate0'']"
    "ss_expected_game_entries (gm_startup (sample_at 1)) =
       [\<lparr>gme_node_id = ''Game0'', gme_mesh_ready = False, gme_reported_at_unix_ms = 0\<rparr>]"
    using finish_registration_cases [of sample_env Gate "''Gate0''" s2] unfolding s2(2) st
    by (auto simp: sample_started_state new_StartupState_def)
  show "FindByRoutingId [2] (sn_sessions (sample_at 1)) = None"
  proof (cases "FindByRoutingId [2] (sn_sessions (sample_at 1))")
    case (Some x)
    have "sessions_inv (sn_sessions (sample_at 1))"
      using gm_reachable_inv [OF sample_at_reachable] by (simp add: gm_inv_def)
    from Some [unfolded FindByRoutingId_Some_iff [OF this] find] show ?thesis
      by (auto simp: find0 apply_registration_state_def registration_of_def split: if_splits)
  qed simp
qed

lemma sample_online:
  "ss_all_nodes_online (gm_startup (sample_at 2))"
  "gm_stubs (sample_at 2) = new_ServerStubStateTable"
  "ss_expected_game_entries (gm_startup (sample_at 2)) =
     [\<lparr>gme_node_id = ''Game0'', gme_mesh_ready = False, gme_reported_at_unix_ms = 0\<rparr>]"
  "\<exists>session. reporting_game [2] (sample_at 2) = Some session \<and> ins_node_id session = ''Game0''"
proof -
  have seq: "(1::u32) \<noteq> kPacketSeqNone" by (simp add: kPacketSeqNone_def)
  have r: "[2::byte] \<noteq> []" by simp
  have fresh: "FindByNodeId (rr_node_id (sample_request 2 ''Game0'')) (sn_sessions (sample_at 1)) = None"
    using sample_registered(7) by (simp only: sample_request_valid)
  note new = register_new_node [OF gm_reachable_inv [OF sample_at_reachable] sample_registered(1) r sample_registered(8)
      fresh sample_request_valid(2,4) seq, where host = sample_host, folded sample_at_simps(3), unfolded sample_request_valid(6,8)]
  note find = register_effect(1) [OF gm_reachable_inv [OF sample_at_reachable] r sample_registered(8)
      fresh sample_request_valid(2,4) seq, where host = sample_host and env = sample_env, folded sample_at_simps(3),
      unfolded sample_request_valid(6,8)]
  have inv: "gm_inv (sample_at 2)" by (rule gm_reachable_inv [OF sample_at_reachable])
  show "gm_stubs (sample_at 2) = new_ServerStubStateTable" using new(3) sample_registered(2) by simp
  obtain s2 where s2: "gm_startup s2 = gm_startup (sample_at 1)"
    "sample_at 2 = finish_registration sample_env Game ''Game0'' s2" using new(2) by blast
  have st: "gm_startup (RecordStartupRegistration Game ''Game0'' s2) =
      (gm_startup (sample_at 1))\<lparr>ss_registered_game_node_ids := [''Game0'']\<rparr>"
    using s2(1) sample_registered(4,6) by (simp add: RecordStartupRegistration_def mesh_ready_entry_def)
  have start: "ss_registered_gate_node_ids (gm_startup (sample_at 2)) = [''Gate0'']"
    "ss_registered_game_node_ids (gm_startup (sample_at 2)) = [''Game0'']"
    "ss_expected_gate_node_ids (gm_startup (sample_at 2)) = [''Gate0'']"
    and games: "ss_expected_game_entries (gm_startup (sample_at 2)) =
       [\<lparr>gme_node_id = ''Game0'', gme_mesh_ready = False, gme_reported_at_unix_ms = 0\<rparr>]"
    using finish_registration_cases [of sample_env Game "''Game0''" s2] sample_registered(3-6) unfolding s2(2) st by auto
  show "ss_expected_game_entries (gm_startup (sample_at 2)) =
     [\<lparr>gme_node_id = ''Game0'', gme_mesh_ready = False, gme_reported_at_unix_ms = 0\<rparr>]" by (rule games)
  show "ss_all_nodes_online (gm_startup (sample_at 2))"
    using inv start games by (simp add: gm_inv_def flags_ok_def nodes_online_def)
  let ?now = "fst (CurrentUnixTimeMilliseconds sample_env (sample_at 1))"
  let ?g = "registration_of Game (sample_request 2 ''Game0'') [2] ?now"
  let ?session = "apply_registration_state ?g ?now (session_of_registration ?g)"
  have "FindByNodeId ''Game0'' (sn_sessions (sample_at 2)) = Some ?session" unfolding find by simp
  moreover have props: "ins_node_id ?session = ''Game0''" "ins_routing_id ?session = [2]" "ins_process_type ?session = Game"
    "ins_registered ?session" "\<not> ins_heartbeat_timed_out ?session"
    by (simp_all add: apply_registration_state_def registration_of_def sample_request_valid)
  moreover have sinv: "sessions_inv (sn_sessions (sample_at 2))" using inv by (simp add: gm_inv_def)
  ultimately have "FindMutableByRoutingId [2] (sn_sessions (sample_at 2)) = Some (''Game0'', ?session)"
    unfolding FindMutableByRoutingId_Some_iff [OF sinv] FindByRoutingId_Some_iff [OF sinv] by simp
  then show "\<exists>session. reporting_game [2] (sample_at 2) = Some session \<and> ins_node_id session = ''Game0''"
    using props by (simp add: reporting_game_def)
qed

lemma reporting_game_cong: "sn_sessions s = sn_sessions s' \<Longrightarrow> reporting_game r s = reporting_game r s'"
  by (simp add: reporting_game_def)

lemma sample_stubs:
  assumes "gm_stubs s = new_ServerStubStateTable" "\<not> ss_all_expected_games_mesh_ready (gm_startup s)"
    "map gme_node_id (ss_expected_game_entries (gm_startup s)) = [''Game0'']"
  shows "sst_entries (gm_stubs (OnAllGameReady sample_env sample_host s)) =
    [\<lparr>sse_entity_type = ''O'', sse_entity_id = ''unknown'', sse_owner_game_node_id = ''Game0'', sse_state = Stub_Init\<rparr>]"
proof -
  let ?s = "s\<lparr>gm_startup := (gm_startup s)\<lparr>ss_all_expected_games_mesh_ready := True\<rparr>\<rparr>"
  let ?e = "\<lparr>sse_entity_type = ''O'', sse_entity_id = ''unknown'', sse_owner_game_node_id = [], sse_state = Stub_Init\<rparr>"
  have reflect: "reflect_stubs sample_host c = Some [?e]" for c by code_simp
  have load: "LoadManagedServerStubReflection sample_host ?s =
      (True, ?s\<lparr>gm_stubs := \<lparr>sst_entries = [?e], sst_reflection_loaded = True, sst_reflection_load_failed = False\<rparr>\<rparr>)"
    using assms(1) by (simp add: LoadManagedServerStubReflection_def new_ServerStubStateTable_def reflect
        ResetServerStubStates_def kUnknownServerEntityId_def)
  have "ss_expected_game_entries (gm_startup s) \<noteq> []" using assms(3) by auto
  then have "EnsureServerStubAssignments sample_env sample_host ?s =
      (True, ?s\<lparr>gm_stubs := \<lparr>sst_entries = [?e\<lparr>sse_owner_game_node_id := ''Game0''\<rparr>], sst_reflection_loaded = True,
         sst_reflection_load_failed = False\<rparr>, sn_random_draws := Suc (sn_random_draws s)\<rparr>)"
    using assms(3) by (simp add: EnsureServerStubAssignments_def load sample_env_def)
  then show ?thesis
    using assms(2) by (simp add: OnAllGameReady_def Let_def split_def ResetServerStubStates_def
        BuildServerStubDistributeTable_def kUnknownServerEntityId_def)
qed

lemma sample_gate_open:
  "ss_gate_open (gm_startup (sample_at 4))"
proof -
  obtain session where session: "reporting_game [2] (sample_at 2) = Some session" "ins_node_id session = ''Game0''"
    using sample_online(4) by blast
  let ?r = zero_GameGateMeshReadyReport and ?s = "set_mesh_ready ''Game0'' 0 (sample_at 2)"
  have at: "sample_at 3 = HandleInnerMessage sample_env sample_host [2] (mesh_report_bytes ?r) (sample_at 2)"
    "sample_at 4 = HandleInnerMessage sample_env sample_host [2] (stubs_report_bytes \<lparr>gs_assignment_epoch = 1,
       gs_local_ready = True, gs_status_flags = 0,
       gs_entries = [\<lparr>sre_entity_type = ''O'', sre_entity_id = ''x'', sre_ready = True, sre_entry_flags = 0\<rparr>],
       gs_reported_at_unix_ms = 0\<rparr>) (sample_at 3)" (is "_ = HandleInnerMessage _ _ _ (stubs_report_bytes ?report) _")
    by (simp_all add: sample_at_def sample_events_def eval_nat_numeral)
  have closed: "\<not> ss_all_expected_games_mesh_ready (gm_startup (sample_at 2))"
    using gm_reachable_inv [OF sample_at_reachable [of 2]] sample_online(3)
    by (simp add: gm_inv_def flags_ok_def games_ready_def)
  have start: "gm_startup ?s = (gm_startup (sample_at 2))\<lparr>ss_expected_game_entries :=
      [\<lparr>gme_node_id = ''Game0'', gme_mesh_ready = True, gme_reported_at_unix_ms = 0\<rparr>]\<rparr>"
    by (simp add: set_mesh_ready_def sample_online(3))
  have "sample_at 3 = OnAllGameReady sample_env sample_host ?s"
    unfolding at(1)
    by (subst HandleInnerMessage_mesh_report [OF _ session(1)])
      (use closed in \<open>simp_all add: sample_online session(2) valid_GameGateMeshReadyReport_def ValidateGameGateMeshReadyReport_def
        zero_GameGateMeshReadyReport_def mesh_ready_entry_def start AreAll_eq games_ready_def\<close>)
  moreover have "map gme_node_id (ss_expected_game_entries (gm_startup ?s)) = [''Game0'']" by (simp add: start)
  ultimately have stubs: "sst_entries (gm_stubs (sample_at 3)) =
      [\<lparr>sse_entity_type = ''O'', sse_entity_id = ''unknown'', sse_owner_game_node_id = ''Game0'', sse_state = Stub_Init\<rparr>]"
    and mesh: "ss_all_expected_games_mesh_ready (gm_startup (sample_at 3))"
    and same: "sn_sessions (sample_at 3) = sn_sessions (sample_at 2)"
    using sample_stubs [of ?s] closed by (simp_all add: OnAllGameReady_effect sample_online(2) start)
  have shut: "\<not> ss_gate_open (gm_startup (sample_at 3))"
    using gm_reachable_inv [OF sample_at_reachable [of 3]] stubs by (simp add: gm_inv_def flags_ok_def stubs_ready_def)
  let ?t = "(sample_at 3)\<lparr>gm_stubs := (gm_stubs (sample_at 3))\<lparr>sst_entries :=
      fold (mark_stub_ready ''Game0'') (gs_entries ?report) (sst_entries (gm_stubs (sample_at 3)))\<rparr>\<rparr>"
  have "sample_at 4 = OnAllStubReady sample_env ?t"
    unfolding at(2)
    by (subst HandleInnerMessage_stubs_report [OF _ _ session(1) [folded reporting_game_cong [OF same]] mesh])
      (use shut in \<open>simp_all add: session(2) stubs ownership_active_def kServerStubOwnershipAssignmentEpoch_def AreAll_eq
        stubs_ready_def mark_stub_ready_def kUnknownServerEntityId_def valid_GameServiceReadyReport_def
        valid_ServerStubReadyEntry_def ValidateGameServiceReadyReport_def ValidateServerStubReadyEntry_def
        fits16_def fits32_def wire_GameServiceReadyReport_def wire_ServerStubReadyEntry_def\<close>)
  moreover have "AreAllServerStubsReady ?t"
    by (simp add: AreAll_eq stubs_ready_def stubs mark_stub_ready_def kUnknownServerEntityId_def)
  ultimately show ?thesis using OnAllStubReady_effect(3) [of sample_env ?t] shut by auto
qed

section \<open>Runs\<close>

lemma sessions_ok_trans: "sessions_ok a b \<Longrightarrow> sessions_ok b c \<Longrightarrow> sessions_ok a c"
  by (auto simp: sessions_ok_def intro: sessions_outlast_trans)

lemma gm_keeps_trans: "gm_keeps s s' \<Longrightarrow> gm_keeps s' s'' \<Longrightarrow> gm_keeps s s''"
proof -
  assume *: "gm_keeps s s'" "gm_keeps s' s''"
  have "FindByNodeId k (sn_sessions s') \<noteq> None" if "FindByNodeId k (sn_sessions s) \<noteq> None" for k
    using * that by (fastforce simp: gm_keeps_def sessions_ok_def sessions_outlast_def)
  with * show ?thesis
    by (auto simp: gm_keeps_def advances_def intro: sessions_ok_trans)
qed

interpretation gm_loop: role_loop "gm_handle env host" gm_inv gm_keeps
proof
  fix s e
  assume "gm_inv s"
  from gm_handle_keeps [OF this, of env host e]
  show "gm_keeps s (gm_handle env host e s)" "gm_inv (gm_handle env host e s)" by (simp_all add: gm_keeps_def)
next
  fix s
  assume "gm_inv s"
  then show "gm_keeps s s" by (rule gm_keeps_same) simp_all
qed (rule gm_keeps_trans)

section \<open>Properties\<close>

text \<open>
  C5. In every reachable state of the coordinator the flags of the start say exactly what has been
  recorded: all nodes are online iff every expected gate and game has registered, the games are
  ready iff each of them has reported its mesh, the gates are open iff every stub has an owner and
  is ready, and the ready epoch is 1 from then on and 0 before.
\<close>

theorem start_flags_exact:
  assumes "gm_reachable env host s"
  shows "(ss_all_nodes_online (gm_startup s) \<longleftrightarrow> AreAllExpectedNodesOnline s) \<and>
    (ss_all_expected_games_mesh_ready (gm_startup s) \<longleftrightarrow> AreAllExpectedGamesMeshReady s) \<and>
    (ss_gate_open (gm_startup s) \<longleftrightarrow> AreAllServerStubsReady s) \<and>
    ss_ready_epoch (gm_startup s) = (if ss_gate_open (gm_startup s) then 1 else 0)"
  using gm_reachable_inv [OF assms] by (simp add: gm_inv_def flags_ok_def AreAll_eq)

theorem start_flags_exact_witness: "AreAllServerStubsReady (sample_at 4) \<and> ss_ready_epoch (gm_startup (sample_at 4)) = 1"
  using start_flags_exact [OF sample_at_reachable [of 4]] sample_gate_open by simp

text \<open>
  C1. The gates are told to open only in a cluster that is complete: every expected gate and game
  is registered with a session of its role, every game has reported its mesh, and there is at least
  one stub, each of them owned by an expected game and ready under an entity id that is known. Registered is meant as
  the coordinator records it for the start; a node that has timed out since is not taken off that record.
\<close>

theorem gates_open_only_when_complete:
  assumes "gm_reachable env host s" "ss_gate_open (gm_startup s)"
  shows "set (ss_registered_gate_node_ids (gm_startup s)) = set (ss_expected_gate_node_ids (gm_startup s)) \<and>
    set (ss_registered_game_node_ids (gm_startup s)) = gme_node_id ` set (ss_expected_game_entries (gm_startup s)) \<and>
    (\<forall>k\<in>set (ss_expected_gate_node_ids (gm_startup s)). has_role (sn_sessions s) Gate k) \<and>
    (\<forall>e\<in>set (ss_expected_game_entries (gm_startup s)). has_role (sn_sessions s) Game (gme_node_id e) \<and> gme_mesh_ready e) \<and>
    sst_entries (gm_stubs s) \<noteq> [] \<and>
    (\<forall>e\<in>set (sst_entries (gm_stubs s)). sse_state e = Stub_Ready \<and>
       sse_owner_game_node_id e \<in> gme_node_id ` set (ss_expected_game_entries (gm_startup s)) \<and>
       sse_entity_id e \<noteq> [] \<and> sse_entity_id e \<noteq> kUnknownServerEntityId)"
proof -
  have inv: "gm_inv s" by (rule gm_reachable_inv [OF assms(1)])
  then have reg: "registrations_ok (sn_sessions s) (gm_startup s)" by (simp add: gm_inv_def)
  have ready: "stubs_ready (gm_stubs s)" and stubs: "stubs_ok (gm_startup s) (gm_stubs s)"
    using inv assms(2) by (simp_all add: gm_inv_def flags_ok_def)
  then have games: "games_ready (gm_startup s)" using inv by (simp add: gm_inv_def flags_ok_def stubs_ok_def stubs_ready_def)
  then obtain e where "e \<in> set (ss_expected_game_entries (gm_startup s))" "gme_mesh_ready e"
    unfolding games_ready_def by (meson last_in_set)
  then have "nodes_online (gm_startup s)" using inv by (auto simp: gm_inv_def flags_ok_def)
  then have full: "set (ss_registered_gate_node_ids (gm_startup s)) = set (ss_expected_gate_node_ids (gm_startup s))"
    "set (ss_registered_game_node_ids (gm_startup s)) = gme_node_id ` set (ss_expected_game_entries (gm_startup s))"
    by (simp_all add: nodes_online_full [OF reg])
  have roles: "\<forall>k\<in>set (ss_expected_gate_node_ids (gm_startup s)). has_role (sn_sessions s) Gate k"
    "\<forall>e\<in>set (ss_expected_game_entries (gm_startup s)). has_role (sn_sessions s) Game (gme_node_id e)"
    using reg unfolding registrations_ok_def full by auto
  have "\<forall>e\<in>set (sst_entries (gm_stubs s)). sse_state e = Stub_Ready \<and>
       sse_owner_game_node_id e \<in> gme_node_id ` set (ss_expected_game_entries (gm_startup s)) \<and>
       sse_entity_id e \<noteq> [] \<and> sse_entity_id e \<noteq> kUnknownServerEntityId"
    using ready stubs by (auto simp: stubs_ready_def stubs_ok_def stub_ok_def)
  with full roles games ready show ?thesis by (simp add: games_ready_def stubs_ready_def)
qed

theorem gates_open_only_when_complete_witness:
  "set (ss_registered_gate_node_ids (gm_startup (sample_at 4))) = set (ss_expected_gate_node_ids (gm_startup (sample_at 4))) \<and>
   sst_entries (gm_stubs (sample_at 4)) \<noteq> []"
  using gates_open_only_when_complete [OF sample_at_reachable sample_gate_open] by simp

text \<open>
  C15. The timeout scan, which visits a snapshot of the sessions and changes the table as it goes,
  is the pointwise reference: every session whose last heartbeat is at least 15 seconds old, and
  which has not timed out before, is marked as timed out, and every other session is left alone.
\<close>

theorem timeout_scan_pointwise:
  assumes "gm_reachable env host s"
  shows "FindByNodeId k (sn_sessions (HandleTimeoutScan env s)) =
    map_option (scanned (fst (CurrentUnixTimeMilliseconds env s))) (FindByNodeId k (sn_sessions s))"
proof -
  have "sessions_inv (sn_sessions s)" using gm_reachable_inv [OF assms] by (simp add: gm_inv_def)
  then show ?thesis by (simp add: HandleTimeoutScan_def split_def scan_FindByNodeId)
qed

theorem timeout_scan_pointwise_witness:
  "\<exists>session. FindByNodeId ''Gate0'' (sn_sessions (HandleTimeoutScan sample_env (sample_at 1))) = Some session \<and>
     ins_heartbeat_timed_out session \<and> \<not> ins_registered session"
proof -
  obtain session where session: "FindByNodeId ''Gate0'' (sn_sessions (sample_at 1)) = Some session"
    "ins_last_heartbeat_at_unix_ms session = 1000" "\<not> ins_heartbeat_timed_out session" using sample_registered(9) by blast
  have "fst (CurrentUnixTimeMilliseconds sample_env (sample_at 1)) = 90000"
    using sample_registered(10) by (simp add: CurrentUnixTimeMilliseconds_def sample_env_def)
  with session timeout_scan_pointwise [OF sample_at_reachable [of 1], of "''Gate0''"] show ?thesis
    by (simp add: scanned_def stale_def expire_session_def)
qed

text \<open>
  C12. A node that has timed out is out for good: whatever messages arrive and however often the
  timers fire, its session stays in the table, timed out and unregistered, under its role and
  routing id. No later registration of the node is accepted.
\<close>

theorem timed_out_node_stays_out:
  assumes "gm_reachable env host s" "FindByNodeId k (sn_sessions s) = Some session"
    and "ins_heartbeat_timed_out session" "\<not> ins_registered session"
  shows "\<exists>session'. FindByNodeId k (sn_sessions (fold (gm_handle env host) es s)) = Some session' \<and>
    ins_heartbeat_timed_out session' \<and> \<not> ins_registered session' \<and>
    ins_process_type session' = ins_process_type session \<and> ins_routing_id session' = ins_routing_id session"
proof -
  have "sessions_outlast (sn_sessions s) (sn_sessions (fold (gm_handle env host) es s))"
    using gm_loop.change_run [OF gm_reachable_inv [OF assms(1)], of env host es] by (simp add: gm_keeps_def sessions_ok_def)
  with assms(2-4) show ?thesis by (fastforce simp: sessions_outlast_def session_outlasts_def)
qed

lemma sample_expired:
  "gm_reachable sample_env sample_host (HandleTimeoutScan sample_env (sample_at 1))"
  "\<exists>session. FindByNodeId ''Gate0'' (sn_sessions (HandleTimeoutScan sample_env (sample_at 1))) = Some session \<and>
     ins_heartbeat_timed_out session \<and> \<not> ins_registered session"
proof -
  show "gm_reachable sample_env sample_host (HandleTimeoutScan sample_env (sample_at 1))"
    using reachable_event [OF sample_at_reachable [of 1], of Timeout_scan] by simp
  obtain session where session: "FindByNodeId ''Gate0'' (sn_sessions (sample_at 1)) = Some session"
    "ins_last_heartbeat_at_unix_ms session = 1000" "\<not> ins_heartbeat_timed_out session" using sample_registered(9) by blast
  have "fst (CurrentUnixTimeMilliseconds sample_env (sample_at 1)) = 90000"
    using sample_registered(10) by (simp add: CurrentUnixTimeMilliseconds_def sample_env_def)
  with session show "\<exists>session. FindByNodeId ''Gate0'' (sn_sessions (HandleTimeoutScan sample_env (sample_at 1))) = Some session \<and>
     ins_heartbeat_timed_out session \<and> \<not> ins_registered session"
    using gm_reachable_inv [OF sample_at_reachable [of 1]]
    by (simp add: HandleTimeoutScan_def split_def scan_FindByNodeId gm_inv_def scanned_def stale_def expire_session_def)
qed

theorem timed_out_node_stays_out_witness:
  "\<exists>session. FindByNodeId ''Gate0'' (sn_sessions (gm_handle sample_env sample_host
       (Inner_message [9] (register_bytes 1 (sample_request 1 ''Gate0'')))
       (HandleTimeoutScan sample_env (sample_at 1)))) = Some session \<and> \<not> ins_registered session"
proof -
  obtain session where "FindByNodeId ''Gate0'' (sn_sessions (HandleTimeoutScan sample_env (sample_at 1))) = Some session"
    "ins_heartbeat_timed_out session" "\<not> ins_registered session" using sample_expired(2) by blast
  from timed_out_node_stays_out [OF sample_expired(1) this,
      of "[Inner_message [9] (register_bytes 1 (sample_request 1 ''Gate0''))]"]
  show ?thesis by auto
qed

lemma unrecorded_blocks_start:
  assumes inv: "gm_inv s" and k: "k \<in> awaited (gm_startup s)" "FindByNodeId k (sn_sessions s) \<noteq> None"
  shows "\<not> ss_all_nodes_online (gm_startup (fold (gm_handle env host) es s)) \<and>
    \<not> ss_gate_open (gm_startup (fold (gm_handle env host) es s))"
proof -
  let ?s = "fold (gm_handle env host) es s"
  have "k \<in> awaited (gm_startup ?s)"
    using gm_loop.change_run [OF inv, of env host es] k by (simp add: gm_keeps_def)
  moreover have inv': "gm_inv ?s" by (rule gm_loop.inv_run [OF inv])
  ultimately have off: "\<not> ss_all_nodes_online (gm_startup ?s)"
    using awaited_online [of "sn_sessions ?s" "gm_startup ?s"] by (auto simp: gm_inv_def flags_ok_def)
  moreover have "\<not> ss_gate_open (gm_startup ?s)"
  proof
    assume "ss_gate_open (gm_startup ?s)"
    then have "games_ready (gm_startup ?s)" using inv' by (auto simp: gm_inv_def flags_ok_def stubs_ok_def stubs_ready_def)
    then obtain e where "e \<in> set (ss_expected_game_entries (gm_startup ?s))" "gme_mesh_ready e"
      unfolding games_ready_def by (meson last_in_set)
    with inv' off show False by (auto simp: gm_inv_def flags_ok_def)
  qed
  ultimately show ?thesis by simp
qed

lemma send_packet_lost:
  assumes "sn_inner_network s = Some net" "\<not> zmq_succeeds (env_zmq env) (net_tick net)"
  shows "\<not> fst (send_packet env r m q f b s)"
  using assms by (auto simp: send_packet_def inner_Send_def net_Send_def listener_Send_def listener_SetLastError_def
      net_SetError_def Let_def split_def split: option.split)

text \<open>
  C19. A lost reply blocks the start for good. When an expected node registers for the first time
  and libzmq refuses the reply, the session is kept but the registration is not recorded for the
  start; since every later registration of the node is refused as a conflict, no sequence of
  messages, timeouts and requests brings all nodes online or opens the gates.
\<close>

theorem lost_register_reply_blocks_start:
  assumes "gm_reachable env host s" "r \<noteq> []" "FindByRoutingId r (sn_sessions s) = None"
    and "FindByNodeId (rr_node_id request) (sn_sessions s) = None" "rr_node_id request \<in> awaited (gm_startup s)"
    and "valid_RegisterRequest request" "fits32 (wire_RegisterRequest request)" "seq \<noteq> kPacketSeqNone"
    and "sn_inner_network s = Some net" "\<not> zmq_succeeds (env_zmq env) (net_tick net)"
  shows "\<not> ss_all_nodes_online (gm_startup (fold (gm_handle env host) es
      (HandleInnerMessage env host r (register_bytes seq request) s))) \<and>
    \<not> ss_gate_open (gm_startup (fold (gm_handle env host) es
      (HandleInnerMessage env host r (register_bytes seq request) s)))"
proof (rule unrecorded_blocks_start)
  let ?s = "HandleInnerMessage env host r (register_bytes seq request) s"
  have inv: "gm_inv s" by (rule gm_reachable_inv [OF assms(1)])
  show "gm_inv ?s" using gm_handle_keeps [OF inv, of env host "Inner_message r (register_bytes seq request)"] by (simp add: gm_keeps_def)
  note effect = register_effect [OF inv assms(2-4,6-8), where env = env and host = host]
  show "FindByNodeId (rr_node_id request) (sn_sessions ?s) \<noteq> None" by (simp add: effect(1))
  obtain s1 where s1: "gm_startup s1 = gm_startup s" "sn_inner_network s1 = sn_inner_network s"
    "?s = (case reply_to_register env r seq (fst (CurrentUnixTimeMilliseconds env s)) s1 of (sent, s2) \<Rightarrow>
        if sent then finish_registration env (role_of request) (rr_node_id request) s2 else s2)" using effect(2) by blast
  have "\<not> fst (reply_to_register env r seq (fst (CurrentUnixTimeMilliseconds env s)) s1)"
    unfolding reply_to_register_def by (rule send_packet_lost [OF _ assms(10)]) (simp add: s1(2) assms(9))
  then have "gm_startup ?s = gm_startup s" using s1(1) by (simp add: s1(3) split_def) (simp add: reply_to_register_def)
  with assms(5) show "rr_node_id request \<in> awaited (gm_startup ?s)" by simp
qed

text \<open>A coordinator that starts, and whose libzmq takes no frame after that.\<close>

definition deaf_env :: node_env where
  "deaf_env = sample_env\<lparr>env_zmq := sample_zmq\<lparr>zmq_succeeds := (\<lambda>n. n < 15)\<rparr>\<rparr>"

definition deaf_started :: GmNode where
  "deaf_started = snd (gm_OnRun deaf_env (Node_None, []) (snd (gm_OnInit deaf_env (Node_None, []) sample_gm)))"

lemma deaf_started_reachable: "gm_reachable deaf_env sample_host deaf_started"
proof -
  let ?s = "snd (gm_OnInit deaf_env (Node_None, []) sample_gm)"
  have codes: "fst (gm_OnInit deaf_env (Node_None, []) sample_gm) = Node_None"
    "fst (gm_OnRun deaf_env (Node_None, []) ?s) = Node_None" by code_simp+
  have "gm_reachable deaf_env sample_host ?s"
    by (rule reachable_init [of _ "(Node_None, [])" sample_gm])
      (simp_all add: prod_eq_iff codes, simp_all add: sample_gm_def sample_config_def map_wf_def)
  then show ?thesis unfolding deaf_started_def
    by (rule reachable_run [of _ _ _ "(Node_None, [])"]) (simp add: prod_eq_iff codes)
qed

theorem lost_register_reply_blocks_start_witness:
  "\<not> ss_gate_open (gm_startup (gm_handle deaf_env sample_host Timeout_scan
     (HandleInnerMessage deaf_env sample_host [1] (register_bytes 1 (sample_request 1 ''Gate0'')) deaf_started)))"
proof -
  have sessions: "sn_sessions deaf_started = new_InnerNetworkSessionManager" by code_simp
  have start: "gm_startup deaf_started = new_StartupState\<lparr>ss_expected_gate_node_ids := [''Gate0''],
     ss_expected_game_entries := [\<lparr>gme_node_id = ''Game0'', gme_mesh_ready = False, gme_reported_at_unix_ms = 0\<rparr>]\<rparr>"
    by code_simp
  have "map_option net_tick (sn_inner_network deaf_started) = Some 15" by code_simp
  then obtain net where net: "sn_inner_network deaf_started = Some net" "net_tick net = 15" by auto
  have "\<not> ss_gate_open (gm_startup (fold (gm_handle deaf_env sample_host) [Timeout_scan]
     (HandleInnerMessage deaf_env sample_host [1] (register_bytes 1 (sample_request 1 ''Gate0'')) deaf_started)))"
    by (rule lost_register_reply_blocks_start [THEN conjunct2, OF deaf_started_reachable _ _ _ _ sample_request_valid(1,3) _ net(1)])
      (simp_all add: sessions start net(2) sample_request_valid new_InnerNetworkSessionManager_def FindByNodeId_def
        FindByRoutingId_def awaited_def new_StartupState_def kPacketSeqNone_def deaf_env_def)
  then show ?thesis by simp
qed

text \<open>
  C8. A valid registration of a node that is not known yet, over a channel that is not used yet,
  is accepted when the reply can be sent: the node has a registered session of its role on that
  channel with a fresh heartbeat, and it is no longer awaited when it was expected in that role.
\<close>

theorem registration_accepted:
  assumes "gm_reachable env host s" "can_send env s" "r \<noteq> []" "FindByRoutingId r (sn_sessions s) = None"
    and "FindByNodeId (rr_node_id request) (sn_sessions s) = None"
    and "valid_RegisterRequest request" "fits32 (wire_RegisterRequest request)" "seq \<noteq> kPacketSeqNone"
  defines "s' \<equiv> HandleInnerMessage env host r (register_bytes seq request) s"
  shows "(\<exists>session. FindByRoutingId r (sn_sessions s') = Some session \<and> ins_node_id session = rr_node_id request \<and>
      ins_registered session \<and> \<not> ins_heartbeat_timed_out session \<and> ins_process_type session = role_of request \<and>
      ins_last_heartbeat_at_unix_ms session = fst (CurrentUnixTimeMilliseconds env s)) \<and>
    ((if role_of request = Gate then rr_node_id request \<in> set (ss_expected_gate_node_ids (gm_startup s))
        else rr_node_id request \<in> gme_node_id ` set (ss_expected_game_entries (gm_startup s))) \<longrightarrow>
      (if role_of request = Gate then rr_node_id request \<in> set (ss_registered_gate_node_ids (gm_startup s'))
        else rr_node_id request \<in> set (ss_registered_game_node_ids (gm_startup s'))))"
proof (intro conjI impI)
  have inv: "gm_inv s" by (rule gm_reachable_inv [OF assms(1)])
  let ?now = "fst (CurrentUnixTimeMilliseconds env s)" and ?k = "rr_node_id request"
  let ?g = "registration_of (role_of request) request r ?now"
  let ?session = "apply_registration_state ?g ?now (session_of_registration ?g)"
  have "gm_inv s'"
    using gm_handle_keeps [OF inv, of env host "Inner_message r (register_bytes seq request)"] by (simp add: gm_keeps_def s'_def)
  then have sinv: "sessions_inv (sn_sessions s')" by (simp add: gm_inv_def)
  have "FindByNodeId ?k (sn_sessions s') = Some ?session"
    unfolding s'_def register_effect(1) [OF inv assms(3-8)] by simp
  moreover have "ins_node_id ?session = ?k" "ins_routing_id ?session = r"
    by (simp_all add: apply_registration_state_def registration_of_def)
  ultimately have "FindByRoutingId r (sn_sessions s') = Some ?session"
    using assms(3) by (simp add: FindByRoutingId_Some_iff [OF sinv])
  then show "\<exists>session. FindByRoutingId r (sn_sessions s') = Some session \<and> ins_node_id session = ?k \<and>
      ins_registered session \<and> \<not> ins_heartbeat_timed_out session \<and> ins_process_type session = role_of request \<and>
      ins_last_heartbeat_at_unix_ms session = ?now"
    by (intro exI [of _ ?session]) (simp add: apply_registration_state_def registration_of_def)
  obtain s2 where s2: "gm_startup s2 = gm_startup s" "s' = finish_registration env (role_of request) ?k s2"
    unfolding s'_def using register_new_node(2) [OF inv assms(2-8), where host = host] by blast
  have role: "role_of request = Gate \<or> role_of request = Game" by (simp add: role_of_def)
  assume "if role_of request = Gate then ?k \<in> set (ss_expected_gate_node_ids (gm_startup s))
      else ?k \<in> gme_node_id ` set (ss_expected_game_entries (gm_startup s))"
  then show "if role_of request = Gate then ?k \<in> set (ss_registered_gate_node_ids (gm_startup s'))
      else ?k \<in> set (ss_registered_game_node_ids (gm_startup s'))"
    using finish_registration_cases [of env "role_of request" ?k s2] role s2(1) unfolding s2(2)
    by (auto simp: RecordStartupRegistration_def Let_def mesh_ready_entry_None)
qed

theorem registration_accepted_witness:
  "\<exists>session. FindByRoutingId [1] (sn_sessions (sample_at 1)) = Some session \<and> ins_registered session \<and>
     ins_process_type session = Gate"
proof -
  have sessions: "sn_sessions (sample_at 0) = new_InnerNetworkSessionManager" by (simp add: sample_at_simps sample_started_state)
  have "can_send sample_env (sample_at 0)" by (simp add: sample_at_simps sample_started_state)
  then have "\<exists>session. FindByRoutingId [1] (sn_sessions (sample_at 1)) = Some session \<and>
      ins_node_id session = rr_node_id (sample_request 1 ''Gate0'') \<and>
      ins_registered session \<and> \<not> ins_heartbeat_timed_out session \<and> ins_process_type session = role_of (sample_request 1 ''Gate0'') \<and>
      ins_last_heartbeat_at_unix_ms session = fst (CurrentUnixTimeMilliseconds sample_env (sample_at 0))"
    unfolding sample_at_simps(2)
    by (intro registration_accepted [THEN conjunct1, OF sample_at_reachable])
      (simp_all add: sessions sample_request_valid new_InnerNetworkSessionManager_def FindByNodeId_def
        FindByRoutingId_def kPacketSeqNone_def)
  then show ?thesis unfolding sample_request_valid by blast
qed

end
