(* ===== verification/GateProtocol.thy ===== *)
theory GateProtocol
  imports GateLogins GmProtocol
begin

text \<open>
  The gate in operation. It registers with the coordinator as soon as the connection is there, and the
  two agree on it; the coordinator's notification opens it; a login and a datagram then make a client session.
  The properties of the role are at the end, with the start of a gate as their example.
\<close>

section \<open>Registration\<close>

lemma gm_session_modify [simp]:
  "gm_session (modify_gm f s) = map_option f (gm_session s)"
  "gm_session (gm_protocol_error e s) = map_option (\<lambda>g. g\<lparr>ins_last_protocol_error := e\<rparr>) (gm_session s)"
  by (simp_all add: gm_session_def remote_session_def modify_gm_def modify_remote_def gm_protocol_error_def FindByNodeId_modify)

lemma gm_session_fields [simp]:
  fixes s :: GateNode
  shows "gm_session (s\<lparr>sn_inner_network := n\<rparr>) = gm_session s" "gm_session (s\<lparr>sn_event_loop := t\<rparr>) = gm_session s"
    "gm_session (snd (CurrentUnixTimeMilliseconds nenv s)) = gm_session s"
  by (simp_all add: gm_session_def remote_session_def CurrentUnixTimeMilliseconds_def Let_def)

lemma modify_gm_fields [simp]:
  fixes s :: GateNode
  shows "sn_inner_network (modify_gm f s) = sn_inner_network s" "sn_event_loop (modify_gm f s) = sn_event_loop s"
    "sn_node_config (modify_gm f s) = sn_node_config s" "sn_node_id (modify_gm f s) = sn_node_id s"
    "sn_pid (modify_gm f s) = sn_pid s" "gt_started_at_unix_ms (modify_gm f s) = gt_started_at_unix_ms s"
    "gate_config (modify_gm f s) = gate_config s" "gate_register_request e (modify_gm f s) = gate_register_request e s"
  by (simp_all add: modify_gm_def modify_remote_def gate_config_def gate_register_request_def split: option.split NodeConfig.split)

text \<open>The connector to the coordinator runs and libzmq takes what it is given.\<close>

definition can_send_to_gm :: "gate_env \<Rightarrow> GateNode \<Rightarrow> bool" where
  "can_send_to_gm env s \<longleftrightarrow> (\<forall>n. zmq_succeeds (env_zmq (ge_node env)) n) \<and>
     (case sn_inner_network s of
        None \<Rightarrow> False
      | Some net \<Rightarrow> net_initialized net \<and> connector_running kGmRemoteNodeId net \<and> net_wf net)"

text \<open>What has been sent to the coordinator.\<close>

definition gm_sent :: "GateNode \<Rightarrow> byte list list" where
  "gm_sent s = (case sn_inner_network s of
     None \<Rightarrow> []
   | Some net \<Rightarrow> (case map_find (net_connectors net) kGmRemoteNodeId of None \<Rightarrow> [] | Some slot \<Rightarrow> zc_sent (slot_connector slot)))"

lemma net_SendToConnector_ok:
  assumes "\<And>n. zmq_succeeds zmq n" "net_initialized net" "connector_running k net" "net_wf net" "k \<noteq> []"
  obtains net' slot slot' where "net_SendToConnector zmq k p net = (Node_None, net')" "map_find (net_connectors net) k = Some slot"
    "map_find (net_connectors net') k = Some slot'" "zc_sent (slot_connector slot') = zc_sent (slot_connector slot) @ [p]"
    "net_initialized net'" "connector_running k net'"
proof -
  from assms(3) obtain slot where slot: "map_find (net_connectors net) k = Some slot" "zc_running (slot_connector slot)"
    by (auto simp: connector_running_def split: option.splits)
  have "zc_socket (slot_connector slot)"
    using net_wfD(2) [OF assms(4) slot(1)] slot(2) by (simp add: connector_wf_def)
  with slot assms(1,2,5) show thesis
    by (intro that [of "snd (net_SendToConnector zmq k p net)" slot "the (map_find (net_connectors (snd (net_SendToConnector zmq k p net))) k)"])
      (simp_all add: net_SendToConnector_def connector_Send_def Let_def net_ClearError_def map_find_modify connector_running_def)
qed

lemma send_to_gm_ok:
  assumes "can_send_to_gm env s" "sn_inner_network s = Some net" "fits32 payload"
  obtains t where "send_to_gm env msg_id seq payload net s = (None, t)" "gm_sent t = gm_sent s @ [packet_bytes msg_id seq 0 payload]"
    "can_send_to_gm env t" "t = s\<lparr>sn_inner_network := sn_inner_network t\<rparr>"
proof -
  let ?p = "packet_bytes msg_id seq 0 payload"
  have s: "\<And>n. zmq_succeeds (env_zmq (ge_node env)) n" "net_initialized net" "connector_running kGmRemoteNodeId net" "net_wf net"
    using assms(1,2) by (auto simp: can_send_to_gm_def)
  have gm: "kGmRemoteNodeId \<noteq> []" by (simp add: kGmRemoteNodeId_def)
  obtain net' slot slot' where n: "net_SendToConnector (env_zmq (ge_node env)) kGmRemoteNodeId ?p net = (Node_None, net')"
    "map_find (net_connectors net) kGmRemoteNodeId = Some slot" "map_find (net_connectors net') kGmRemoteNodeId = Some slot'"
    "zc_sent (slot_connector slot') = zc_sent (slot_connector slot) @ [?p]" "net_initialized net'" "connector_running kGmRemoteNodeId net'"
    by (rule net_SendToConnector_ok [OF s gm, of ?p])
  have "net_wf net'" using net_SendToConnector_wf [OF s(4), of "env_zmq (ge_node env)" kGmRemoteNodeId ?p] by (simp add: n(1))
  with n s(1) show thesis
    by (intro that [of "s\<lparr>sn_inner_network := Some net'\<rparr>"])
      (simp_all add: send_to_gm_def encode_packet_eq [OF assms(3)] gm_sent_def assms(2) can_send_to_gm_def)
qed


definition next_gm_seq :: "InnerNetworkSession \<Rightarrow> u32" where
  "next_gm_seq g = (if ins_next_seq g = kPacketSeqNone then 1 else ins_next_seq g)"

lemma next_gm_seq_neq_0: "next_gm_seq g \<noteq> 0"
  by (simp add: next_gm_seq_def kPacketSeqNone_def)

lemma gate_request_fits:
  assumes "valid_RegisterRequest (gate_register_request e s)"
  shows "fits32 (wire_RegisterRequest (gate_register_request e s))"
  using assms
  by (simp add: valid_RegisterRequest_def gate_register_request_def fits16_def fits32_def wire_RegisterRequest_def
      wire_Endpoint_def wire_tags_def kInnerLoadSnapshotSize_def)

text \<open>What talking to the coordinator leaves alone: everything but the session, the network, the timers and the clock.\<close>

definition standing :: "GateNode \<Rightarrow> _" where
  "standing s = (client_part s, sn_cluster_config s, sn_node_id s, sn_node_config s, gt_auth_http_service s, gt_auth_calls s,
     gt_cluster_ready_epoch s, gt_next_client_conversation s)"

lemma standing_fields [simp]:
  "standing (modify_gm f s) = standing s" "standing (gm_protocol_error e s) = standing s"
  "standing (s\<lparr>sn_inner_network := n\<rparr>) = standing s" "standing (s\<lparr>sn_event_loop := m\<rparr>) = standing s"
  "standing (snd (CurrentUnixTimeMilliseconds nenv s)) = standing s"
  by (simp_all add: standing_def client_part_def gm_protocol_error_def modify_gm_def modify_remote_def
      CurrentUnixTimeMilliseconds_def Let_def)

text \<open>As soon as the connection is there, the gate asks to be registered.\<close>

lemma gate_connects:
  assumes g: "gm_session s = Some g" "\<not> ins_registered g" "\<not> ins_register_in_flight g"
    and cfg: "gate_config s = Some (inner, auth, client)" "valid_RegisterRequest (gate_register_request inner s)"
    and send: "can_send_to_gm env s"
  defines "t \<equiv> gate_HandleConnectorStateChanged env kGmRemoteNodeId Zmq_Connected s"
  shows "gm_sent t = gm_sent s @ [register_bytes (next_gm_seq g) (gate_register_request inner s)]"
    and "\<exists>n. gm_session t = Some (g\<lparr>ins_connection_state := Zmq_Connected, ins_next_seq := n, ins_register_in_flight := True,
      ins_register_seq := next_gm_seq g, ins_last_protocol_error := []\<rparr>)"
    and "can_send_to_gm env t" "standing t = standing s" "sn_event_loop t = sn_event_loop s"
proof -
  obtain net where net: "sn_inner_network s = Some net" using send by (auto simp: can_send_to_gm_def split: option.splits)
  let ?s1 = "modify_gm (\<lambda>g. g\<lparr>ins_connection_state := Zmq_Connected\<rparr>) s"
  let ?req = "gate_register_request inner s"
  obtain n where n: "gate_ConsumeNextInnerSequence ?s1 = (next_gm_seq g, modify_gm (\<lambda>g. g\<lparr>ins_next_seq := n\<rparr>) ?s1)"
    using g(1) that [of "if next_gm_seq g + 1 = kPacketSeqNone then 1 else next_gm_seq g + 1"]
    by (simp add: gate_ConsumeNextInnerSequence_def next_gm_seq_def Let_def)
  let ?s2 = "modify_gm (\<lambda>g. g\<lparr>ins_next_seq := n\<rparr>) ?s1"
  have enc: "EncodeRegisterRequest ?req (replicate (length (wire_RegisterRequest ?req)) 0) = (Reg_None, wire_RegisterRequest ?req)"
    by (rule register_request.encode_exact [OF cfg(2)]) simp
  have "can_send_to_gm env ?s2" using send by (simp add: can_send_to_gm_def)
  from send_to_gm_ok [OF this _ gate_request_fits [OF cfg(2)], of net kInnerRegisterMsgId "next_gm_seq g"]
  obtain u where u: "send_to_gm env kInnerRegisterMsgId (next_gm_seq g) (wire_RegisterRequest ?req) net ?s2 = (None, u)"
    "gm_sent u = gm_sent ?s2 @ [register_bytes (next_gm_seq g) ?req]" "can_send_to_gm env u"
    "u = ?s2\<lparr>sn_inner_network := sn_inner_network u\<rparr>"
    using net by (auto simp: register_bytes_def)
  have t: "t = modify_gm (\<lambda>session. session\<lparr>ins_register_in_flight := True, ins_register_seq := next_gm_seq g,
      ins_last_protocol_error := []\<rparr>) u"
    using g cfg(1) net unfolding t_def gate_HandleConnectorStateChanged_def gate_HandleGmConnectionStateChanged_def
      gate_SendRegisterRequest_def
    by (simp add: Let_def GetRegisterRequestWireSize_value(2) [OF cfg(2)] enc n u(1))
  show "gm_sent t = gm_sent s @ [register_bytes (next_gm_seq g) ?req]" using u(2) by (simp add: t gm_sent_def)
  have "gm_session u = gm_session ?s2" by (subst u(4)) simp
  then show "\<exists>n. gm_session t = Some (g\<lparr>ins_connection_state := Zmq_Connected, ins_next_seq := n, ins_register_in_flight := True,
      ins_register_seq := next_gm_seq g, ins_last_protocol_error := []\<rparr>)"
    using g(1) by (intro exI [of _ n]) (simp add: t)
  show "can_send_to_gm env t" using u(3) by (simp add: t can_send_to_gm_def)
  show "standing t = standing s" unfolding t standing_fields by (subst u(4)) simp
  show "sn_event_loop t = sn_event_loop s" unfolding t modify_gm_fields by (subst u(4)) simp
qed


text \<open>The coordinator's reply registers it and starts the heartbeats.\<close>

definition register_reply_bytes :: "u32 \<Rightarrow> u64 \<Rightarrow> byte list" where
  "register_reply_bytes seq now = packet_bytes kInnerRegisterMsgId seq (packet_flag_value Flag_Response) (register_reply now)"

lemma gate_timer_started:
  assumes "gm_session s = Some g" "ins_heartbeat_timer_id g = 0"
  shows "\<exists>i e. gm_session (gate_StartOrResetHeartbeatTimer interval s) =
      Some (g\<lparr>ins_heartbeat_timer_id := i, ins_last_protocol_error := e\<rparr>)"
    "standing (gate_StartOrResetHeartbeatTimer interval s) = standing s"
    "sn_inner_network (gate_StartOrResetHeartbeatTimer interval s) = sn_inner_network s"
    "sn_event_loop (gate_StartOrResetHeartbeatTimer interval s) =
      map_option (\<lambda>m. snd (CreateRepeating (uint interval * 1000000) (Some ()) m)) (sn_event_loop s)"
proof -
  let ?t = "gate_StartOrResetHeartbeatTimer interval s"
  have eqs: "g = g\<lparr>ins_heartbeat_timer_id := 0, ins_last_protocol_error := ins_last_protocol_error g\<rparr>"
    "g\<lparr>ins_heartbeat_timer_id := i\<rparr> = g\<lparr>ins_heartbeat_timer_id := i, ins_last_protocol_error := ins_last_protocol_error g\<rparr>"
    "g\<lparr>ins_last_protocol_error := e\<rparr> = g\<lparr>ins_heartbeat_timer_id := 0, ins_last_protocol_error := e\<rparr>" for i e
    using assms(2) by (cases g; simp)+
  show "\<exists>i e. gm_session ?t = Some (g\<lparr>ins_heartbeat_timer_id := i, ins_last_protocol_error := e\<rparr>)"
  proof (cases "sn_event_loop s")
    case None
    then have "gm_session ?t = Some g"
      using assms by (simp add: gate_StartOrResetHeartbeatTimer_def gate_CancelHeartbeatTimer_def)
    with eqs(1) show ?thesis by metis
  next
    case (Some timers)
    obtain r m where cr: "CreateRepeating (uint interval * 1000000) (Some ()) timers = (r, m)" by fastforce
    define e where "e = ''Failed to create GM heartbeat timer: '' @ TimerErrorMessage (TimerErrorFromCreateResult r)"
    have "gm_session ?t = Some (if IsTimerID r then g\<lparr>ins_heartbeat_timer_id := r\<rparr> else g\<lparr>ins_last_protocol_error := e\<rparr>)"
      using assms Some cr by (simp add: gate_StartOrResetHeartbeatTimer_def gate_CancelHeartbeatTimer_def Let_def e_def)
    with eqs(2,3) show ?thesis by metis
  qed
  show "standing (gate_StartOrResetHeartbeatTimer interval s) = standing s"
    "sn_inner_network (gate_StartOrResetHeartbeatTimer interval s) = sn_inner_network s"
    "sn_event_loop (gate_StartOrResetHeartbeatTimer interval s) =
      map_option (\<lambda>m. snd (CreateRepeating (uint interval * 1000000) (Some ()) m)) (sn_event_loop s)"
    using assms
    by (simp_all add: gate_StartOrResetHeartbeatTimer_def gate_CancelHeartbeatTimer_def split_def Let_def
        gm_protocol_error_def split: option.split)
qed

lemma gate_reply:
  fixes env :: gate_env and now :: u64
  assumes g: "gm_session s = Some g" "ins_register_seq g = seq" "seq \<noteq> 0" "ins_heartbeat_timer_id g = 0"
  defines "t \<equiv> gate_HandleConnectorMessage env kGmRemoteNodeId (register_reply_bytes seq now) s"
  shows "\<exists>g'. gm_session t = Some g' \<and> ins_registered g' \<and> \<not> ins_register_in_flight g' \<and> ins_heartbeat_seq g' = 0 \<and>
      ins_connection_state g' = ins_connection_state g \<and> ins_heartbeat_interval_ms g' = kDefaultHeartbeatIntervalMs \<and>
      ins_heartbeat_timeout_ms g' = kDefaultHeartbeatTimeoutMs \<and> ins_last_server_now_unix_ms g' = now"
    and "standing t = standing s" "sn_inner_network t = sn_inner_network s"
      "sn_event_loop t = map_option (\<lambda>m. snd (CreateRepeating (uint kDefaultHeartbeatIntervalMs * 1000000) (Some ()) m)) (sn_event_loop s)"
proof -
  let ?r = "\<lparr>rs_heartbeat_interval_ms = kDefaultHeartbeatIntervalMs, rs_heartbeat_timeout_ms = kDefaultHeartbeatTimeoutMs,
      rs_server_now_unix_ms = now\<rparr>"
  have fits: "fits32 (register_reply now)" "unat (packet_flag_value Flag_Response) < 8"
    by (simp_all add: register_reply_def wire_RegisterSuccessResponse_def fits32_def packet_flag_value.simps)
  have dec: "DecodeRegisterSuccessResponse (register_reply now) (Some x) = (Reg_None, Some ?r)" for x
    unfolding register_reply_def
    by (rule register_success.decode_wire)
      (simp add: valid_RegisterSuccessResponse_def kDefaultHeartbeatIntervalMs_def kDefaultHeartbeatTimeoutMs_def)
  have dp: "DecodePacket (register_reply_bytes seq now) (Some x) = (Pkt_None, Some \<lparr>pv_header =
      MakePacketHeader kInnerRegisterMsgId seq (packet_flag_value Flag_Response) (word_of_nat (length (register_reply now))),
      pv_payload = register_reply now\<rparr>)" for x
    unfolding register_reply_bytes_def by (rule DecodePacket_packet_bytes [OF fits])
  have flags: "kResponseFlags \<noteq> kErrorResponseFlags" "packet_flag_value Flag_Response = kResponseFlags"
    by (simp_all add: kErrorResponseFlags_def kResponseFlags_def packet_flag_value.simps)
  let ?s1 = "modify_gm (\<lambda>session. session\<lparr>ins_register_in_flight := False, ins_register_seq := 0\<rparr>) s"
  obtain now' s2 where s2: "CurrentUnixTimeMilliseconds (ge_node env) ?s1 = (now', s2)" by fastforce
  then have s2': "s2 = ?s1\<lparr>sn_clock_reads := Suc (sn_clock_reads ?s1)\<rparr>" by (auto simp: CurrentUnixTimeMilliseconds_def Let_def)
  let ?f = "\<lambda>session. session\<lparr>ins_registered := True, ins_heartbeat_interval_ms := kDefaultHeartbeatIntervalMs,
      ins_heartbeat_timeout_ms := kDefaultHeartbeatTimeoutMs, ins_last_server_now_unix_ms := now,
      ins_last_heartbeat_at_unix_ms := now', ins_last_protocol_error := [], ins_heartbeat_seq := 0\<rparr>"
  let ?s3 = "modify_gm ?f s2"
  have "gm_session s2 = gm_session ?s1" by (simp add: s2' gm_session_def remote_session_def)
  then have g3: "gm_session ?s3 = Some (?f (g\<lparr>ins_register_in_flight := False, ins_register_seq := 0\<rparr>))" using g(1) by simp
  have t: "t = gate_StartOrResetHeartbeatTimer kDefaultHeartbeatIntervalMs ?s3"
    using g s2 unfolding t_def gate_HandleConnectorMessage_def gate_HandleGmMessage_def
    by (simp add: dp Let_def gate_HandleRegisterResponse_def flags dec kPacketSeqNone_def msg_id_defs
        del: packet_flag_value.simps)
  note tm = gate_timer_started [OF g3, of kDefaultHeartbeatIntervalMs, folded t]
  show "\<exists>g'. gm_session t = Some g' \<and> ins_registered g' \<and> \<not> ins_register_in_flight g' \<and> ins_heartbeat_seq g' = 0 \<and>
      ins_connection_state g' = ins_connection_state g \<and> ins_heartbeat_interval_ms g' = kDefaultHeartbeatIntervalMs \<and>
      ins_heartbeat_timeout_ms g' = kDefaultHeartbeatTimeoutMs \<and> ins_last_server_now_unix_ms g' = now"
    using tm(1) g(4) by auto
  show "standing t = standing s" using tm(2) g(4) standing_fields(5) [of "ge_node env" ?s1] by (simp add: s2)
  show "sn_inner_network t = sn_inner_network s" using tm(3) g(4) by (simp add: s2')
  show "sn_event_loop t = map_option (\<lambda>m. snd (CreateRepeating (uint kDefaultHeartbeatIntervalMs * 1000000) (Some ()) m)) (sn_event_loop s)"
    using tm(4) g(4) by (simp add: s2')
qed


section \<open>The gate opens\<close>

definition ready_notify_bytes :: "ClusterReadyNotify \<Rightarrow> byte list" where
  "ready_notify_bytes notify = packet_bytes kInnerClusterReadyNotifyMsgId kPacketSeqNone 0 (wire_ClusterReadyNotify notify)"

lemma cn_Run_ok:
  assumes "cn_initialized net" "\<not> cn_running net" "TryMakeUdpEndpoint env (cn_listen_endpoint net) = Inr e"
    "\<And>n. ce_udp_error env n = None" "kcp_interval_ms (cn_kcp net) \<noteq> 0"
    "0 < tm_next_timer_id (io_timers io)" "tm_next_timer_id (io_timers io) \<noteq> timer_id_max"
  obtains net' io' where "cn_Run env net io = (Node_None, net', io')" "cn_running net'" "cn_initialized net'"
    "cn_sessions net' = cn_sessions net" "cn_transport_index net' = cn_transport_index net" "cn_kcp net' = cn_kcp net"
    "cn_owner_node_id net' = cn_owner_node_id net" "io_clock_reads io' = io_clock_reads io"
proof -
  have pos: "0 < uint (kcp_interval_ms (cn_kcp net))" using assms(5) by (simp add: unsigned_eq_0_iff less_le)
  let ?net = "net\<lparr>cn_socket := Some True, cn_udp_calls := cn_udp_calls net + 3, cn_running := True\<rparr>"
  obtain code net1 io1 where st: "StartKcpUpdateTimer ?net io = (code, net1, io1)" by (metis prod_cases3)
  then have code: "code = Node_None" "io_clock_reads io1 = io_clock_reads io"
    and "net1 = ?net\<lparr>cn_kcp_update_timer_id := cn_kcp_update_timer_id net1\<rparr>"
    using pos assms(6,7) by (auto simp: StartKcpUpdateTimer_def CreateRepeating_def CreateTimer_def IsTimerID_def Let_def split: if_splits)
  then obtain i where net1: "net1 = ?net\<lparr>cn_kcp_update_timer_id := i\<rparr>" by blast
  have run: "cn_Run env net io = (Node_None, cn_ClearError (StartReceive net1), io1)"
    using assms(1-4) st code(1) by (simp add: cn_Run_def Let_def udp_call_def numeral_3_eq_3)
  show thesis
    using assms(1) code(2) by (intro that [OF run]) (simp_all add: net1 cn_ClearError_def StartReceive_def)
qed

text \<open>The notification that the coordinator sends opens a registered gate.\<close>

lemma gate_opens:
  fixes notify :: ClusterReadyNotify
  assumes g: "gm_session s = Some g" "ins_registered g"
    and n: "valid_ClusterReadyNotify notify" "cr_cluster_ready notify" "gt_cluster_ready_epoch s \<le> cr_ready_epoch notify"
    and run: "gt_client_network s = Some net" "cn_Run (client_env_of env) net (gate_io s) = (Node_None, net', io)"
    and auth: "gt_auth_http_service s" "fst (ge_auth env (gt_auth_calls s)) = Node_None"
  defines "t \<equiv> gate_HandleConnectorMessage env kGmRemoteNodeId (ready_notify_bytes notify) s"
  shows "gt_cluster_ready t" "gt_client_network t = Some net'" "gt_cluster_ready_epoch t = cr_ready_epoch notify"
    "same_books s t" "gate_config t = gate_config s" "gt_next_client_conversation t = gt_next_client_conversation s"
    "sn_clock_reads t = io_clock_reads io" "sn_cluster_config t = sn_cluster_config s"
proof -
  have fits: "fits32 (wire_ClusterReadyNotify notify)" "unat (0::u16) < 8" by (simp_all add: wire_ClusterReadyNotify_def fits32_def)
  have dp: "DecodePacket (ready_notify_bytes notify) (Some x) = (Pkt_None, Some \<lparr>pv_header =
      MakePacketHeader kInnerClusterReadyNotifyMsgId kPacketSeqNone 0 (word_of_nat (length (wire_ClusterReadyNotify notify))),
      pv_payload = wire_ClusterReadyNotify notify\<rparr>)" for x
    unfolding ready_notify_bytes_def by (rule DecodePacket_packet_bytes [OF fits])
  let ?s1 = "gate_set_io io (s\<lparr>gt_client_network := Some net'\<rparr>)"
  have "run_clients env s = (True, ?s1)" by (simp add: run_clients_def run client_call_def)
  moreover have "run_auth env ?s1 = (True, ?s1\<lparr>gt_auth_calls := Suc (gt_auth_calls s)\<rparr>)"
    using auth by (simp add: run_auth_def auth_call_def split_def gate_set_io_def)
  ultimately have t: "t = gm_protocol_error [] (?s1\<lparr>gt_auth_calls := Suc (gt_auth_calls s),
      gt_cluster_ready_epoch := cr_ready_epoch notify, gt_cluster_ready := True,
      gt_last_cluster_ready_server_now_unix_ms := cr_server_now_unix_ms notify\<rparr>)"
    using g n unfolding t_def gate_HandleConnectorMessage_def gate_HandleGmMessage_def gate_HandleClusterReadyNotify_def
    by (simp add: dp Let_def cluster_ready_notify.decode_wire not_less)
  show "gt_cluster_ready t" "gt_client_network t = Some net'" "gt_cluster_ready_epoch t = cr_ready_epoch notify"
    "same_books s t" "gate_config t = gate_config s" "gt_next_client_conversation t = gt_next_client_conversation s"
    "sn_clock_reads t = io_clock_reads io" "sn_cluster_config t = sn_cluster_config s"
    by (simp_all add: t gm_protocol_error_def modify_gm_def modify_remote_def gate_set_io_def same_books_def gate_config_def)
qed

section \<open>Logins\<close>

text \<open>A login is refused only before the gate is open, without a configuration, or when every conversation is taken.\<close>

lemma HandleAuthLogin_success:
  "gla_success (fst (HandleAuthLogin env request s)) \<longleftrightarrow> gt_cluster_ready s \<and> gate_client_running s \<and> gate_config s \<noteq> None \<and>
    (\<exists>c. \<not> conversation_in_use (PruneExpiredClientConversationReservations (fst (CurrentUnixTimeMilliseconds (ge_node env) s)) s) c)"
proof -
  obtain now s1 where s1: "CurrentUnixTimeMilliseconds (ge_node env) s = (now, s1)" by fastforce
  let ?p = "PruneExpiredClientConversationReservations now"
  obtain c u where u: "ConsumeNextClientConversation (?p s1) = (c, u)" by fastforce
  have "conversation_in_use (?p s1) = conversation_in_use (?p s)"
    using s1 by (auto simp: CurrentUnixTimeMilliseconds_def Let_def conversation_in_use_def
        PruneExpiredClientConversationReservations_def fun_eq_iff)
  then have "c = 0 \<longleftrightarrow> (\<forall>c. conversation_in_use (?p s) c)" using ConsumeNextClientConversation_effect(1) [OF u] by simp
  moreover have "gla_success (fst (HandleAuthLogin env request s)) \<longleftrightarrow>
      gt_cluster_ready s \<and> gate_client_running s \<and> gate_config s \<noteq> None \<and> c \<noteq> 0"
    by (cases "gate_config s"; auto simp: HandleAuthLogin_def s1 u Let_def default_GateAuthLoginResult_def)
  ultimately show ?thesis by (auto simp: s1)
qed


section \<open>The start of a gate\<close>

text \<open>A KCP library that makes one message out of every datagram and keeps the messages until they are taken.\<close>

primrec queued :: "ikcp_call list \<Rightarrow> nat" where
  "queued [] = 0"
| "queued (call # calls) = (case call of Call_input _ \<Rightarrow> Suc (queued calls) | Call_recv _ \<Rightarrow> queued calls - 1 | _ \<Rightarrow> queued calls)"

definition queue_ikcp :: ikcp where
  "queue_ikcp = sample_ikcp\<lparr>ikcp_peeksize := (\<lambda>kcp. if queued (cb_calls kcp) = 0 then - 1 else 1), ikcp_recv := (\<lambda>_ _. (1, [7]))\<rparr>"

lemma queue_ikcp_drains: "ikcp_drains (\<lambda>kcp. queued (cb_calls kcp)) queue_ikcp"
  by (simp add: ikcp_drains_def queue_ikcp_def)

lemma queue_ikcp_peer:
  assumes "kcp_config_ok (kpo_config opts)" "50 \<le> kcp_mtu (kpo_config opts)"
  shows "new_KcpPeer queue_ikcp opts = new_KcpPeer sample_ikcp opts"
  using new_KcpPeer_ok [OF assms, of sample_ikcp] new_KcpPeer_ok [OF assms, of queue_ikcp]
  by (simp add: kcp_memory_ok_def queue_ikcp_def sample_ikcp_def)

definition gate_sample_env :: gate_env where
  "gate_sample_env = \<lparr>ge_node = \<lparr>env_zmq = sample_zmq, env_utc_now = (\<lambda>_. 1000), env_random = (\<lambda>_. 0)\<rparr>,
     ge_client = \<lparr>ce_kcp = queue_ikcp, ce_utc_now = (\<lambda>_. 1000), ce_steady_ms = (\<lambda>_. 5), ce_udp_error = (\<lambda>_. None),
       ce_make_address = Inr\<rparr>,
     ge_auth = (\<lambda>_. (Node_None, [])), ge_parse_json = (\<lambda>_. Inl []), ge_dump_json = (\<lambda>_. [])\<rparr>"

definition gate_sample_config :: ClusterConfig where
  "gate_sample_config = zero_ClusterConfig
     \<lparr>cc_gm := \<lparr>gmc_inner_network_listen_endpoint = sample_endpoint, gmc_control_network_listen_endpoint = sample_endpoint\<rparr>,
      cc_games := [(''Game0'', \<lparr>gac_inner_network_listen_endpoint = sample_endpoint\<rparr>)]\<rparr>"

definition gate_sample :: GateNode where
  "gate_sample = \<lparr>sn_config_path = ''c'', sn_args_node_id = ''Gate0'', sn_cluster_config = gate_sample_config,
     sn_process_type = Gate, sn_node_id = ''Gate0'', sn_pid = 1,
     sn_node_config = Some (GateNodeConfig sample_endpoint sample_endpoint sample_endpoint),
     sn_event_loop = Some new_TimerManager, sn_inner_network = None, sn_sessions = new_InnerNetworkSessionManager,
     sn_last_error_message = [], sn_initialized = True, sn_zmq_tick = 0, sn_clock_reads = 0, sn_random_draws = 0,
     gt_client_network = None, gt_auth_http_service = False, gt_auth_calls = 0, gt_reservations = [], gt_records = [],
     gt_session_ids_by_account = [], gt_session_ids_by_avatar = [], gt_started_at_unix_ms = 0, gt_cluster_ready_epoch = 0,
     gt_last_cluster_ready_server_now_unix_ms = 0, gt_next_client_conversation = 1, gt_cluster_ready = False\<rparr>"

text \<open>The sessions, the inner network and the client network that the initialisation creates.\<close>

definition gate_sample_gm :: InnerNetworkSessionManager where
  "gate_sample_gm = snd (Register (gate_registration Gm kGmRemoteNodeId sample_endpoint []) new_InnerNetworkSessionManager)"

definition gate_sample_sessions :: InnerNetworkSessionManager where
  "gate_sample_sessions = snd (Register (gate_registration Game ''Game0'' sample_endpoint (ToRoutingId ''Game0'')) gate_sample_gm)"

definition gate_sample_options :: InnerNetworkOptions where
  "gate_sample_options = \<lparr>nno_local_endpoint = ''tcp://h:1'', nno_connectors = [\<lparr>nco_id = ''GM'',
     nco_remote_endpoint = ''tcp://h:1'', nco_routing_id = ''Gate0''\<rparr>]\<rparr>"

definition gate_sample_net :: InnerNetwork where
  "gate_sample_net = snd (net_Init sample_zmq (new_InnerNetwork gate_sample_options 0))"

definition gate_sample_client :: ClientNetwork where
  "gate_sample_client = (new_ClientNetwork ''Gate0'' ''h:1'' default_KcpConfig)
     \<lparr>cn_listen_endpoint := \<lparr>ep_host = ''h'', ep_port = 1\<rparr>, cn_initialized := True\<rparr>"

definition gate_sample_initialised :: GateNode where
  "gate_sample_initialised = gate_sample
     \<lparr>sn_clock_reads := 1, sn_sessions := gate_sample_sessions, sn_inner_network := Some gate_sample_net,
      sn_zmq_tick := net_tick gate_sample_net, gt_client_network := Some gate_sample_client, gt_auth_http_service := True,
      gt_auth_calls := 1, gt_started_at_unix_ms := 1000\<rparr>"

definition gate_sample_started :: GateNode where
  "gate_sample_started = gate_sample_initialised\<lparr>sn_inner_network := Some (snd (net_Run sample_zmq [] gate_sample_net))\<rparr>"

lemma gate_sample_registers:
  "Register (gate_registration Gm kGmRemoteNodeId sample_endpoint []) new_InnerNetworkSessionManager = (Ism_None, gate_sample_gm)"
  "Register (gate_registration Game ''Game0'' sample_endpoint (ToRoutingId ''Game0'')) gate_sample_gm = (Ism_None, gate_sample_sessions)"
proof -
  have "fst (Register (gate_registration Gm kGmRemoteNodeId sample_endpoint []) new_InnerNetworkSessionManager) = Ism_None"
    "fst (Register (gate_registration Game ''Game0'' sample_endpoint (ToRoutingId ''Game0'')) gate_sample_gm) = Ism_None"
    by code_simp+
  then show "Register (gate_registration Gm kGmRemoteNodeId sample_endpoint []) new_InnerNetworkSessionManager = (Ism_None, gate_sample_gm)"
    "Register (gate_registration Game ''Game0'' sample_endpoint (ToRoutingId ''Game0'')) gate_sample_gm = (Ism_None, gate_sample_sessions)"
    by (simp_all add: gate_sample_gm_def gate_sample_sessions_def prod_eq_iff)
qed

lemma gate_sample_texts:
  "BuildTcpEndpoint sample_endpoint = ''tcp://h:1''" "BuildConnectorTcpEndpoint sample_endpoint = ''tcp://h:1''"
  "BuildEndpointText sample_endpoint = ''h:1''"
  by code_simp+

lemma gate_sample_inner:
  "net_Init sample_zmq (new_InnerNetwork gate_sample_options 0) = (Node_None, gate_sample_net)"
  "net_Run sample_zmq [] gate_sample_net = (Node_None, snd (net_Run sample_zmq [] gate_sample_net))"
proof -
  have "fst (net_Init sample_zmq (new_InnerNetwork gate_sample_options 0)) = Node_None"
    "fst (net_Run sample_zmq [] gate_sample_net) = Node_None" by code_simp+
  then show "net_Init sample_zmq (new_InnerNetwork gate_sample_options 0) = (Node_None, gate_sample_net)"
    "net_Run sample_zmq [] gate_sample_net = (Node_None, snd (net_Run sample_zmq [] gate_sample_net))"
    by (simp_all add: gate_sample_net_def prod_eq_iff)
qed

lemma gate_sample_cn_Init:
  "cn_Init (client_env_of gate_sample_env) (new_ClientNetwork ''Gate0'' ''h:1'' default_KcpConfig) = (Node_None, gate_sample_client)"
proof -
  have parsed: "ParseConfiguredEndpoint ''h:1'' = Inr \<lparr>ep_host = ''h'', ep_port = 1\<rparr>"
    by (simp add: ParseConfiguredEndpoint_def rfind_def stoul_def NormalizeHost_def std_isspace_def is_digit_def Let_def)
  have "kcp_valid (new_KcpPeer queue_ikcp \<lparr>kpo_conversation = 0, kpo_config = default_KcpConfig\<rparr>)"
    using sample_kcp_usable(1,2) [of "\<lparr>kpo_conversation = 0, kpo_config = default_KcpConfig\<rparr>"] sample_kcp_options_ok
    by (simp add: kcp_valid_def sample_kcp_options_def queue_ikcp_peer)
  then show ?thesis
    by (simp add: cn_Init_def parsed new_ClientNetwork_def gate_sample_client_def client_env_of_def gate_sample_env_def
        cn_ClearError_def Let_def)
qed

text \<open>The successful course of the initialisation.\<close>

lemma gate_OnInit_steps:
  assumes "gate_config s = Some (inner, auth, client)"
    and "gate_endpoint_error (gmc_inner_network_listen_endpoint (cc_gm (sn_cluster_config s))) inner auth client = None"
    and "CurrentUnixTimeMilliseconds (ge_node env) s = (now, s1)"
    and "z = ResetClusterReadyState (s1\<lparr>gt_started_at_unix_ms := now, sn_sessions := sessions_Clear (sn_sessions s1)\<rparr>)"
    and "gate_Register (gate_registration Gm kGmRemoteNodeId (gmc_inner_network_listen_endpoint (cc_gm (sn_cluster_config s))) []) z =
      (Node_None, s3)"
    and "register_games (cc_games (sn_cluster_config s3)) s3 = (Node_None, s4)"
  shows "gate_OnInit env s = init_services env (gmc_inner_network_listen_endpoint (cc_gm (sn_cluster_config s))) inner client s4"
  using assms by (simp add: gate_OnInit_def Let_def)

lemma init_services_steps:
  assumes "net = new_ClientNetwork (sn_node_id s) (BuildEndpointText client) (cc_kcp (sn_cluster_config s))"
    and "InitInnerNetwork (ge_node env) \<lparr>nno_local_endpoint = BuildTcpEndpoint inner,
          nno_connectors = [\<lparr>nco_id = kGmRemoteNodeId, nco_remote_endpoint = BuildConnectorTcpEndpoint gm,
            nco_routing_id = sn_node_id s\<rparr>]\<rparr> (s\<lparr>gt_client_network := Some net, gt_auth_http_service := True\<rparr>) = (Node_None, s1)"
    and "cn_Init (client_env_of env) net = (Node_None, net')" "fst (ge_auth env (gt_auth_calls s1)) = Node_None"
  shows "init_services env gm inner client s =
    (Node_None, sn_ClearError (s1\<lparr>gt_client_network := Some net', gt_auth_calls := Suc (gt_auth_calls s1)\<rparr>))"
  using assms by (simp add: init_services_def Let_def auth_call_def split_def)

lemma gate_sample_endpoint: "ec_host sample_endpoint = ''h''" "ec_port sample_endpoint = 1"
  by (simp_all add: sample_endpoint_def)

lemma gate_sample_OnInit: "gate_OnInit gate_sample_env gate_sample = (Node_None, gate_sample_initialised)"
proof -
  let ?gm = "gmc_inner_network_listen_endpoint (cc_gm (sn_cluster_config gate_sample))"
  have cfg: "gate_config gate_sample = Some (sample_endpoint, sample_endpoint, sample_endpoint)" "?gm = sample_endpoint"
    by (simp_all add: gate_config_def gate_sample_def gate_sample_config_def)
  have ok: "gate_endpoint_error ?gm sample_endpoint sample_endpoint sample_endpoint = None"
    by (simp add: cfg gate_endpoint_error_def endpoint_error_def gate_sample_endpoint)
  have clock: "CurrentUnixTimeMilliseconds (ge_node gate_sample_env) gate_sample = (1000, gate_sample\<lparr>sn_clock_reads := 1\<rparr>)"
    by (simp add: CurrentUnixTimeMilliseconds_def gate_sample_env_def gate_sample_def)
  define z where "z = ResetClusterReadyState (gate_sample\<lparr>sn_clock_reads := 1, gt_started_at_unix_ms := 1000,
      sn_sessions := sessions_Clear (sn_sessions (gate_sample\<lparr>sn_clock_reads := 1\<rparr>))\<rparr>)"
  have z: "z = gate_sample\<lparr>sn_clock_reads := 1, gt_started_at_unix_ms := 1000\<rparr>" "sn_sessions z = new_InnerNetworkSessionManager"
    by (simp_all add: z_def ResetClusterReadyState_def gate_sample_def sessions_Clear_def new_InnerNetworkSessionManager_def)
  have r1: "gate_Register (gate_registration Gm kGmRemoteNodeId ?gm []) z = (Node_None, z\<lparr>sn_sessions := gate_sample_gm\<rparr>)"
    by (simp only: gate_Register_def cfg z(2) gate_sample_registers(1)) simp
  have games: "cc_games (sn_cluster_config (z\<lparr>sn_sessions := gate_sample_gm\<rparr>)) =
      [(''Game0'', \<lparr>gac_inner_network_listen_endpoint = sample_endpoint\<rparr>)]"
    by (simp add: z(1) gate_sample_def gate_sample_config_def)
  have r2: "register_games (cc_games (sn_cluster_config (z\<lparr>sn_sessions := gate_sample_gm\<rparr>))) (z\<lparr>sn_sessions := gate_sample_gm\<rparr>) =
      (Node_None, z\<lparr>sn_sessions := gate_sample_sessions\<rparr>)"
    unfolding games by (simp add: gate_Register_def gate_sample_registers(2) gate_sample_endpoint)
  have init: "gate_OnInit gate_sample_env gate_sample =
      init_services gate_sample_env ?gm sample_endpoint sample_endpoint (z\<lparr>sn_sessions := gate_sample_sessions\<rparr>)"
    by (rule gate_OnInit_steps [OF cfg(1) ok clock _ r1 r2]) (simp add: z_def)
  let ?s4 = "z\<lparr>sn_sessions := gate_sample_sessions\<rparr>"
  let ?c = "new_ClientNetwork ''Gate0'' ''h:1'' default_KcpConfig"
  let ?s5 = "?s4\<lparr>gt_client_network := Some ?c, gt_auth_http_service := True\<rparr>"
  let ?s6 = "sn_ClearError (?s5\<lparr>sn_zmq_tick := net_tick gate_sample_net, sn_inner_network := Some gate_sample_net\<rparr>)"
  have s4: "sn_node_id ?s4 = ''Gate0''" "cc_kcp (sn_cluster_config ?s4) = default_KcpConfig" "sn_inner_network ?s5 = None"
    "sn_zmq_tick ?s5 = 0"
    by (simp_all add: z(1) gate_sample_def gate_sample_config_def zero_ClusterConfig_def)
  have zmq: "env_zmq (ge_node gate_sample_env) = sample_zmq" by (simp add: gate_sample_env_def)
  have inner: "InitInnerNetwork (ge_node gate_sample_env) gate_sample_options ?s5 = (Node_None, ?s6)"
    unfolding InitInnerNetwork_def s4(3,4) zmq gate_sample_inner(1) by simp
  have "init_services gate_sample_env ?gm sample_endpoint sample_endpoint ?s4 =
      (Node_None, sn_ClearError (?s6\<lparr>gt_client_network := Some gate_sample_client, gt_auth_calls := Suc (gt_auth_calls ?s6)\<rparr>))"
  proof (rule init_services_steps [where net = ?c])
    show "?c = new_ClientNetwork (sn_node_id ?s4) (BuildEndpointText sample_endpoint) (cc_kcp (sn_cluster_config ?s4))"
      by (simp only: s4 gate_sample_texts)
    show "InitInnerNetwork (ge_node gate_sample_env) \<lparr>nno_local_endpoint = BuildTcpEndpoint sample_endpoint,
        nno_connectors = [\<lparr>nco_id = kGmRemoteNodeId, nco_remote_endpoint = BuildConnectorTcpEndpoint ?gm,
          nco_routing_id = sn_node_id ?s4\<rparr>]\<rparr> ?s5 = (Node_None, ?s6)"
      using inner by (simp only: gate_sample_texts cfg(2) s4(1) gate_sample_options_def kGmRemoteNodeId_def)
    show "cn_Init (client_env_of gate_sample_env) ?c = (Node_None, gate_sample_client)" by (rule gate_sample_cn_Init)
    show "fst (ge_auth gate_sample_env (gt_auth_calls ?s6)) = Node_None" by (simp add: gate_sample_env_def)
  qed
  also have "sn_ClearError (?s6\<lparr>gt_client_network := Some gate_sample_client, gt_auth_calls := Suc (gt_auth_calls ?s6)\<rparr>) =
      gate_sample_initialised"
    by (simp add: gate_sample_initialised_def z(1) sn_ClearError_def gate_sample_def)
  finally show ?thesis using init by simp
qed


lemma gate_sample_OnRun: "gate_OnRun gate_sample_env gate_sample_initialised = (Node_None, gate_sample_started)"
proof -
  let ?s = gate_sample_initialised and ?n = "snd (net_Run sample_zmq [] gate_sample_net)"
  have s: "sn_inner_network ?s = Some gate_sample_net" "gt_client_network ?s \<noteq> None" "gt_auth_http_service ?s"
    "sn_last_error_message ?s = []"
    by (simp_all add: gate_sample_initialised_def gate_sample_def)
  have zmq: "env_zmq (ge_node gate_sample_env) = sample_zmq" by (simp add: gate_sample_env_def)
  have "RunInnerNetwork (ge_node gate_sample_env) ?s = (Node_None, sn_ClearError (?s\<lparr>sn_inner_network := Some ?n\<rparr>))"
    using gate_sample_inner(2) by (simp add: RunInnerNetwork_def s(1) zmq split_def prod_eq_iff)
  then show ?thesis
    using s by (simp add: gate_OnRun_def gate_sample_started_def sn_ClearError_def gate_sample_initialised_def gate_sample_def)
qed

lemma gate_sample_started_reach: "gate_reach gate_sample_env gate_sample_started"
  by (rule gate_run [OF gate_init [OF gate_sample_OnInit] gate_sample_OnRun])

lemma gate_sample_connection: "can_send_to_gm gate_sample_env gate_sample_started"
proof -
  have "connector_running ''GM'' (snd (net_Run sample_zmq [] gate_sample_net))"
    "net_initialized (snd (net_Run sample_zmq [] gate_sample_net))" by code_simp+
  moreover have "net_reachable sample_zmq (snd (net_Run sample_zmq [] gate_sample_net))"
    unfolding gate_sample_net_def by (rule net_reachable_step [OF net_reachable_step [OF net_reachable_new net_step_Init] net_step_Run])
  from net_reachable_wf [OF this] have "net_wf (snd (net_Run sample_zmq [] gate_sample_net))" .
  ultimately show ?thesis
    by (simp add: can_send_to_gm_def gate_sample_started_def kGmRemoteNodeId_def) (simp add: gate_sample_env_def sample_zmq_def)
qed

text \<open>The states after the connection, the coordinator's reply, its notification and a login.\<close>

definition gate_sample_at :: "nat \<Rightarrow> GateNode" where
  "gate_sample_at n = fold (\<lambda>f s. f s) (take n
     [gate_HandleConnectorStateChanged gate_sample_env kGmRemoteNodeId Zmq_Connected,
      gate_HandleConnectorMessage gate_sample_env kGmRemoteNodeId (register_reply_bytes 1 1000),
      gate_HandleConnectorMessage gate_sample_env kGmRemoteNodeId (ready_notify_bytes
        \<lparr>cr_ready_epoch = 1, cr_cluster_ready = True, cr_status_flags = 0, cr_server_now_unix_ms = 1000\<rparr>),
      snd \<circ> HandleAuthLogin gate_sample_env \<lparr>glr_account = ''a'', glr_password = ''p'', glr_remote_address = ''c''\<rparr>])
     gate_sample_started"

lemma gate_sample_at_simps:
  "gate_sample_at 0 = gate_sample_started"
  "gate_sample_at 1 = gate_HandleConnectorStateChanged gate_sample_env kGmRemoteNodeId Zmq_Connected (gate_sample_at 0)"
  "gate_sample_at 2 = gate_HandleConnectorMessage gate_sample_env kGmRemoteNodeId (register_reply_bytes 1 1000) (gate_sample_at 1)"
  "gate_sample_at 3 = gate_HandleConnectorMessage gate_sample_env kGmRemoteNodeId (ready_notify_bytes
     \<lparr>cr_ready_epoch = 1, cr_cluster_ready = True, cr_status_flags = 0, cr_server_now_unix_ms = 1000\<rparr>) (gate_sample_at 2)"
  "gate_sample_at 4 = snd (HandleAuthLogin gate_sample_env
     \<lparr>glr_account = ''a'', glr_password = ''p'', glr_remote_address = ''c''\<rparr> (gate_sample_at 3))"
  by (simp_all add: gate_sample_at_def numeral_nat)

lemma gate_sample_reach:
  "gate_reach gate_sample_env (gate_sample_at 1)" "gate_reach gate_sample_env (gate_sample_at 2)"
  "gate_reach gate_sample_env (gate_sample_at 3)" "gate_reach gate_sample_env (gate_sample_at 4)"
proof -
  show 1: "gate_reach gate_sample_env (gate_sample_at 1)"
    unfolding gate_sample_at_simps by (rule gate_next [OF gate_sample_started_reach gate_connector_state])
  show 2: "gate_reach gate_sample_env (gate_sample_at 2)"
    unfolding gate_sample_at_simps(3) by (rule gate_next [OF 1 gate_connector_message])
  show 3: "gate_reach gate_sample_env (gate_sample_at 3)"
    unfolding gate_sample_at_simps(4) by (rule gate_next [OF 2 gate_connector_message])
  show "gate_reach gate_sample_env (gate_sample_at 4)"
    unfolding gate_sample_at_simps(5) by (rule gate_next [OF 3 gate_auth_login])
qed

lemma gate_sample_drains: "ikcp_drains (\<lambda>kcp. queued (cb_calls kcp)) (ce_kcp (ge_client gate_sample_env))"
  by (simp add: gate_sample_env_def queue_ikcp_drains)


lemma gate_sample_session:
  "\<exists>g. gm_session gate_sample_started = Some g \<and> \<not> ins_registered g \<and> \<not> ins_register_in_flight g \<and>
     ins_heartbeat_timer_id g = 0 \<and> ins_next_seq g = 1"
proof -
  have "case FindByNodeId ''GM'' gate_sample_sessions of None \<Rightarrow> False | Some g \<Rightarrow> \<not> ins_registered g \<and>
      \<not> ins_register_in_flight g \<and> ins_next_seq g = 1 \<and> ins_heartbeat_timer_id g = 0" by code_simp
  then show ?thesis
    by (auto simp: gm_session_def remote_session_def kGmRemoteNodeId_def gate_sample_started_def gate_sample_initialised_def
        split: option.splits)
qed

lemma gate_sample_request:
  "gate_config gate_sample_started = Some (sample_endpoint, sample_endpoint, sample_endpoint)"
  "valid_RegisterRequest (gate_register_request sample_endpoint gate_sample_started)"
  by (simp_all add: gate_config_def valid_RegisterRequest_def gate_register_request_def gate_sample_started_def gate_sample_initialised_def
      gate_sample_def ToNetEndpoint_def gate_sample_endpoint fits16_def kGateBuildVersion_def)

lemma gate_sample_registered:
  "\<exists>g. gm_session (gate_sample_at 1) = Some g \<and> ins_register_seq g = 1 \<and> ins_heartbeat_timer_id g = 0"
  "standing (gate_sample_at 1) = standing gate_sample_started" "sn_event_loop (gate_sample_at 1) = Some new_TimerManager"
  "can_send_to_gm gate_sample_env (gate_sample_at 1)"
  "gm_sent (gate_sample_at 1) = gm_sent gate_sample_started @ [register_bytes 1 (gate_register_request sample_endpoint gate_sample_started)]"
proof -
  obtain g where g: "gm_session gate_sample_started = Some g" "\<not> ins_registered g" "\<not> ins_register_in_flight g"
    "ins_heartbeat_timer_id g = 0" "ins_next_seq g = 1" using gate_sample_session by blast
  have seq: "next_gm_seq g = 1" by (simp add: next_gm_seq_def g(5) kPacketSeqNone_def)
  note c = gate_connects [OF g(1-3) gate_sample_request gate_sample_connection, unfolded seq, folded gate_sample_at_simps(1), folded gate_sample_at_simps(2)]
  show "\<exists>g. gm_session (gate_sample_at 1) = Some g \<and> ins_register_seq g = 1 \<and> ins_heartbeat_timer_id g = 0"
    using c(2) g(4) by auto
  show "standing (gate_sample_at 1) = standing gate_sample_started" "sn_event_loop (gate_sample_at 1) = Some new_TimerManager"
    "can_send_to_gm gate_sample_env (gate_sample_at 1)"
    "gm_sent (gate_sample_at 1) = gm_sent gate_sample_started @ [register_bytes 1 (gate_register_request sample_endpoint gate_sample_started)]"
    using c(1,3-5) by (simp_all add: gate_sample_at_simps(1) gate_sample_started_def gate_sample_initialised_def gate_sample_def)
qed


lemma gate_sample_answered:
  "\<exists>g. gm_session (gate_sample_at 2) = Some g \<and> ins_registered g"
  "gt_client_network (gate_sample_at 2) = Some gate_sample_client" "gt_cluster_ready_epoch (gate_sample_at 2) = 0"
  "gt_auth_http_service (gate_sample_at 2)" "gt_reservations (gate_sample_at 2) = []"
  "gate_config (gate_sample_at 2) = Some (sample_endpoint, sample_endpoint, sample_endpoint)"
  "gt_next_client_conversation (gate_sample_at 2) = 1" "fst (ge_auth gate_sample_env (gt_auth_calls (gate_sample_at 2))) = Node_None"
  "\<exists>net io. cn_Run (client_env_of gate_sample_env) gate_sample_client (gate_io (gate_sample_at 2)) = (Node_None, net, io) \<and>
     cn_running net \<and> cn_sessions net = [] \<and> cn_transport_index net = [] \<and> can_create (ge_client gate_sample_env) net"
proof -
  obtain g where g: "gm_session (gate_sample_at 1) = Some g" "ins_register_seq g = 1" "ins_heartbeat_timer_id g = 0"
    using gate_sample_registered(1) by blast
  note r = gate_reply [OF g(1,2) _ g(3), where env = gate_sample_env and now = 1000, folded gate_sample_at_simps(3), simplified]
  show "\<exists>g. gm_session (gate_sample_at 2) = Some g \<and> ins_registered g" using r(1) by blast
  have st: "standing (gate_sample_at 2) = standing gate_sample_started" using r(2) gate_sample_registered(2) by simp
  then show "gt_client_network (gate_sample_at 2) = Some gate_sample_client" "gt_cluster_ready_epoch (gate_sample_at 2) = 0"
    "gt_auth_http_service (gate_sample_at 2)" "gt_reservations (gate_sample_at 2) = []"
    "gate_config (gate_sample_at 2) = Some (sample_endpoint, sample_endpoint, sample_endpoint)"
    "gt_next_client_conversation (gate_sample_at 2) = 1"
    by (simp_all add: standing_def client_part_def gate_config_def gate_sample_started_def gate_sample_initialised_def gate_sample_def)
  show "fst (ge_auth gate_sample_env (gt_auth_calls (gate_sample_at 2))) = Node_None" by (simp add: gate_sample_env_def)
  define m where "m = snd (CreateRepeating (uint kDefaultHeartbeatIntervalMs * 1000000) (Some ()) (new_TimerManager :: unit TimerManager))"
  have loop: "sn_event_loop (gate_sample_at 2) = Some m" using r(4) gate_sample_registered(3) by (simp add: m_def)
  have m: "tm_next_timer_id m = 2"
    by (simp add: m_def CreateRepeating_def CreateTimer_def new_TimerManager_def timer_id_max_def kDefaultHeartbeatIntervalMs_def
        ArmTimer_def StopTimerWait_def)
  have net: "cn_initialized gate_sample_client" "\<not> cn_running gate_sample_client" "cn_kcp gate_sample_client = default_KcpConfig"
    "cn_sessions gate_sample_client = []" "cn_transport_index gate_sample_client = []" "cn_owner_node_id gate_sample_client = ''Gate0''"
    "cn_listen_endpoint gate_sample_client = \<lparr>ep_host = ''h'', ep_port = 1\<rparr>"
    by (simp_all add: gate_sample_client_def new_ClientNetwork_def)
  have udp: "TryMakeUdpEndpoint (client_env_of gate_sample_env) (cn_listen_endpoint gate_sample_client) = Inr \<lparr>ep_host = ''h'', ep_port = 1\<rparr>"
    by (simp add: TryMakeUdpEndpoint_def net NormalizeHost_def client_env_of_def gate_sample_env_def)
  have "io_timers (gate_io (gate_sample_at 2)) = m" by (simp add: gate_io_def loop)
  with m have timers: "0 < tm_next_timer_id (io_timers (gate_io (gate_sample_at 2)))"
    "tm_next_timer_id (io_timers (gate_io (gate_sample_at 2))) \<noteq> timer_id_max"
    by (simp_all add: timer_id_max_def)
  have calls: "ce_udp_error (client_env_of gate_sample_env) n = None" "kcp_interval_ms (cn_kcp gate_sample_client) \<noteq> 0" for n
    by (simp_all add: net client_env_of_def gate_sample_env_def default_KcpConfig_def)
  obtain net' io where run: "cn_Run (client_env_of gate_sample_env) gate_sample_client (gate_io (gate_sample_at 2)) = (Node_None, net', io)"
    "cn_running net'" "cn_initialized net'" "cn_sessions net' = []" "cn_transport_index net' = []" "cn_kcp net' = default_KcpConfig"
    "cn_owner_node_id net' = ''Gate0''"
    using cn_Run_ok [OF net(1,2) udp calls timers] unfolding net by blast
  have "can_create (ge_client gate_sample_env) net'"
    using sample_kcp_options_ok run
    by (simp add: can_create_def kcp_memory_ok_def sample_kcp_options_def) (simp add: gate_sample_env_def queue_ikcp_def sample_ikcp_def)
  with run show "\<exists>net io. cn_Run (client_env_of gate_sample_env) gate_sample_client (gate_io (gate_sample_at 2)) = (Node_None, net, io) \<and>
     cn_running net \<and> cn_sessions net = [] \<and> cn_transport_index net = [] \<and> can_create (ge_client gate_sample_env) net" by blast
qed

lemma gate_sample_open:
  "gt_cluster_ready (gate_sample_at 3)"
  "\<exists>net. gt_client_network (gate_sample_at 3) = Some net \<and> cn_running net \<and> cn_sessions net = [] \<and>
     cn_transport_index net = [] \<and> can_create (ge_client gate_sample_env) net"
  "gate_config (gate_sample_at 3) \<noteq> None" "gt_reservations (gate_sample_at 3) = []"
  "gt_next_client_conversation (gate_sample_at 3) = 1"
proof -
  note s = gate_sample_answered
  obtain g where g: "gm_session (gate_sample_at 2) = Some g" "ins_registered g" using s(1) by blast
  obtain net io where run: "cn_Run (client_env_of gate_sample_env) gate_sample_client (gate_io (gate_sample_at 2)) = (Node_None, net, io)"
    "cn_running net" "cn_sessions net = []" "cn_transport_index net = []" "can_create (ge_client gate_sample_env) net" using s(9) by blast
  let ?n = "\<lparr>cr_ready_epoch = 1, cr_cluster_ready = True, cr_status_flags = 0, cr_server_now_unix_ms = 1000\<rparr>"
  have n: "valid_ClusterReadyNotify ?n" "cr_cluster_ready ?n" "gt_cluster_ready_epoch (gate_sample_at 2) \<le> cr_ready_epoch ?n"
    by (simp_all add: valid_ClusterReadyNotify_def s)
  note o = gate_opens [OF g n s(2) run(1) s(4,8), folded gate_sample_at_simps(4)]
  show "gt_cluster_ready (gate_sample_at 3)" by (rule o(1))
  show "\<exists>net. gt_client_network (gate_sample_at 3) = Some net \<and> cn_running net \<and> cn_sessions net = [] \<and>
     cn_transport_index net = [] \<and> can_create (ge_client gate_sample_env) net"
    using o(2) run by blast
  show "gate_config (gate_sample_at 3) \<noteq> None" "gt_reservations (gate_sample_at 3) = []"
    "gt_next_client_conversation (gate_sample_at 3) = 1"
    using o(4-6) s(5-7) by (simp_all add: same_books_def)
qed

lemma search_conversation_first: "\<not> conversation_in_use s start \<Longrightarrow> n \<noteq> 0 \<Longrightarrow> search_conversation n s start start = start"
  by (cases n) simp_all

lemma gate_sample_clock: "fst (CurrentUnixTimeMilliseconds (ge_node gate_sample_env) s) = 1000"
  by (simp add: CurrentUnixTimeMilliseconds_def gate_sample_env_def)

lemma gate_sample_address: "NormalizeClientAddress ''c'' = ''c''"
  by code_simp

definition gate_sample_reservation :: ClientConversationReservation where
  "gate_sample_reservation = \<lparr>ccr_account = ''a'', ccr_remote_address = ''c'', ccr_issued_at_unix_ms = 1000,
     ccr_expires_at_unix_ms = 31000\<rparr>"

lemma gate_sample_login:
  "gt_reservations (gate_sample_at 4) = [(1, gate_sample_reservation)]"
  "gt_cluster_ready (gate_sample_at 4)"
  "\<exists>net. gt_client_network (gate_sample_at 4) = Some net \<and> cn_running net \<and> cn_sessions net = [] \<and>
     cn_transport_index net = [] \<and> can_create (ge_client gate_sample_env) net"
proof -
  obtain net where net: "gt_client_network (gate_sample_at 3) = Some net" "cn_running net" "cn_sessions net = []"
     "cn_transport_index net = []" "can_create (ge_client gate_sample_env) net"
    using gate_sample_open(2) by blast
  obtain e where cfg: "gate_config (gate_sample_at 3) = Some e" using gate_sample_open(3) by blast
  obtain s1 where s1: "CurrentUnixTimeMilliseconds (ge_node gate_sample_env) (gate_sample_at 3) = (1000, s1)"
    using gate_sample_clock [of "gate_sample_at 3"] by (metis prod.collapse)
  then have s1': "s1 = (gate_sample_at 3)\<lparr>sn_clock_reads := Suc (sn_clock_reads (gate_sample_at 3))\<rparr>"
    by (auto simp: CurrentUnixTimeMilliseconds_def Let_def)
  let ?p = "PruneExpiredClientConversationReservations 1000 s1"
  have p: "gt_reservations ?p = []" "gt_client_network ?p = Some net" "gt_next_client_conversation ?p = 1" "gt_cluster_ready ?p"
    by (simp_all add: PruneExpiredClientConversationReservations_def s1' gate_sample_open net(1))
  have "\<not> conversation_in_use ?p 1" by (simp add: conversation_in_use_def p FindSessionByConversation_def net(3))
  then have "search_conversation (2 ^ 32 - 1) ?p 1 1 = 1" by (rule search_conversation_first) simp
  then have c: "ConsumeNextClientConversation ?p = (1, ?p\<lparr>gt_next_client_conversation := next_conversation_after 1\<rparr>)"
    unfolding ConsumeNextClientConversation_def Let_def p by simp
  have run: "gate_client_running (gate_sample_at 3)" by (simp add: gate_client_running_def net)
  have t: "gate_sample_at 4 = ?p\<lparr>gt_next_client_conversation := next_conversation_after 1,
      gt_reservations := map_put 1 gate_sample_reservation []\<rparr>"
    unfolding gate_sample_at_simps(5) HandleAuthLogin_def
    by (cases e) (simp add: gate_sample_open run cfg s1 c p gate_sample_address gate_sample_reservation_def kConversationReservationLifetimeMs_def Let_def)
  show "gt_reservations (gate_sample_at 4) = [(1, gate_sample_reservation)]" by (simp add: t map_put_def)
  show "gt_cluster_ready (gate_sample_at 4)" using gate_sample_open(1) by (simp add: t s1')
  show "\<exists>net. gt_client_network (gate_sample_at 4) = Some net \<and> cn_running net \<and> cn_sessions net = [] \<and>
     cn_transport_index net = [] \<and> can_create (ge_client gate_sample_env) net"
    using net by (simp add: t p)
qed

definition gate_sample_remote :: Endpoint where
  "gate_sample_remote = \<lparr>ep_host = ''c'', ep_port = 5\<rparr>"

text \<open>What the first datagram of the reserved conversation meets.\<close>

lemma gate_sample_first:
  "gate_client_running (gate_sample_at 4)" "TryReadKcpConversation [1, 0, 0, 0] (Some 0) = (True, Some 1)"
  "map_find (gt_reservations (gate_sample_at 4)) 1 = Some gate_sample_reservation" "ccr_account gate_sample_reservation \<noteq> []"
  "reservation_admits (admission_time gate_sample_env (gate_sample_at 4)) gate_sample_remote gate_sample_reservation"
  "FindSessionByTransport 1 gate_sample_remote (gate_net (gate_sample_at 4)) = None" "plain_endpoint gate_sample_remote"
  "can_create (ge_client gate_sample_env) (gate_net (gate_sample_at 4))"
proof -
  obtain net where net: "gt_client_network (gate_sample_at 4) = Some net" "cn_running net" "cn_sessions net = []"
     "cn_transport_index net = []" "can_create (ge_client gate_sample_env) net"
    using gate_sample_login(3) by blast
  show "gate_client_running (gate_sample_at 4)" "can_create (ge_client gate_sample_env) (gate_net (gate_sample_at 4))"
    "FindSessionByTransport 1 gate_sample_remote (gate_net (gate_sample_at 4)) = None"
    by (simp_all add: gate_client_running_def gate_net_def net FindSessionByTransport_def map_find_def)
  show "TryReadKcpConversation [1, 0, 0, 0] (Some 0) = (True, Some 1)"
    by (simp add: TryReadKcpConversation_def kKcpConversationHeaderBytes_def)
  show "map_find (gt_reservations (gate_sample_at 4)) 1 = Some gate_sample_reservation" "ccr_account gate_sample_reservation \<noteq> []"
    by (simp_all add: gate_sample_login(1) map_find_def gate_sample_reservation_def)
  show "reservation_admits (admission_time gate_sample_env (gate_sample_at 4)) gate_sample_remote gate_sample_reservation"
    by (simp add: admission_time_def gate_sample_clock reservation_admits_def reservation_expired_def gate_sample_reservation_def
        gate_sample_remote_def gate_sample_address)
  show "plain_endpoint gate_sample_remote" by (simp add: plain_endpoint_def gate_sample_remote_def NormalizeHost_def)
qed


section \<open>Where sessions come from\<close>

lemma kept_sessions:
  assumes "gate_kept s t" "gate_good s"
  shows "cn_FindSession k (gate_net t) = None \<longleftrightarrow> cn_FindSession k (gate_net s) = None"
proof -
  have "clients_kept (gate_net s) (gate_net t)"
    using assms by (cases "gt_client_network s"; cases "gt_client_network t") (simp_all add: gate_kept_def gate_good_def gate_net_def)
  then show ?thesis using sessions_rel_find_None by (simp add: cn_FindSession_def)
qed

lemma login_network: "gt_client_network (snd (HandleAuthLogin env request s)) = gt_client_network s"
proof -
  have "gt_client_network (snd (ConsumeNextClientConversation t)) = gt_client_network t" for t
    by (simp add: ConsumeNextClientConversation_def Let_def)
  moreover have "gt_client_network (PruneExpiredClientConversationReservations now t) = gt_client_network t" for now t
    by (simp add: PruneExpiredClientConversationReservations_def)
  ultimately show ?thesis
    by (simp add: HandleAuthLogin_def Let_def split_def split: option.split)
qed

text \<open>Only the arrival of a datagram opens a session.\<close>

lemma new_session_step:
  assumes "gate_step env s t" "gate_inv s" "ikcp_drains q (ce_kcp (ge_client env))"
    and new: "cn_FindSession k (gate_net t) = Some d" "cn_FindSession k (gate_net s) = None"
  obtains remote datagram where "HandleReceive (client_env_of env) (gate_host env) None remote datagram s = Some t"
    "gate_client_running s" "opened_for s (admission_time env s) remote (session_conversation d) k t"
proof -
  have good: "gate_good s" using assms(2) by (simp add: gate_inv_def)
  have no: False if "gate_kept s t" using kept_sessions [OF that good, of k] new by simp
  from assms(1) show thesis
  proof cases
    case gate_connector_state
    then show thesis using no gate_kept_frame [OF frame_connector_state [OF gate_frame_refl]] by blast
  next
    case gate_connector_message
    then show thesis using no gate_kept_frame [OF frame_connector_message [OF gate_frame_refl]] by blast
  next
    case gate_game_message
    then show thesis using no kept_HandleGameMessage [OF gate_kept_refl] by blast
  next
    case (gate_datagram error_code remote datagram)
    from gate_receive [OF assms(3,2), of error_code remote datagram] gate_datagram(2) new
    have "error_code = None \<and> gate_client_running s \<and> opened_for s (admission_time env s) remote (session_conversation d) k t"
      unfolding admission_time_def by (metis option.inject)
    then show thesis using that gate_datagram(2) by blast
  next
    case gate_heartbeat_timer
    then show thesis using no gate_kept_frame [OF frame_SendHeartbeatRequest [OF gate_frame_refl]] by blast
  next
    case gate_kcp_timer
    then show thesis using no gate_kept_frame [OF gate_tick(1)] by blast
  next
    case (gate_auth_login request)
    then have "gate_net t = gate_net s" using login_network [of env request s] by (simp add: gate_net_def)
    then show thesis using new by simp
  qed
qed


section \<open>Properties\<close>

text \<open>
  C3. In every state that a gate can reach, its books about the clients agree. Every session of the client
  network has a record for its conversation; no two sessions have the same conversation, and the
  conversation of a session is not reserved. An avatar is in the index exactly when a record carries it, with the
  session of that record, so that an avatar belongs to at most one client; an account is in its index
  only with a session of that account. (As in all properties of reachable gates, taking a message out of KCP is
  assumed to make its queue shorter, so that the handling of datagrams ends.)
\<close>

theorem gate_books_agree:
  assumes "gate_reach env s" "ikcp_drains q (ce_kcp (ge_client env))"
  shows "(\<forall>k d. cn_FindSession k (gate_net s) = Some d \<longrightarrow>
        (\<exists>r. client_session_record k s = Some r \<and> csr_session_id r = k \<and> csr_conversation r = session_conversation d) \<and>
        map_find (gt_reservations s) (session_conversation d) = None) \<and>
     (\<forall>k k' d d'. cn_FindSession k (gate_net s) = Some d \<longrightarrow> cn_FindSession k' (gate_net s) = Some d' \<longrightarrow>
        session_conversation d = session_conversation d' \<longrightarrow> k = k') \<and>
     (\<forall>a k. map_find (gt_session_ids_by_avatar s) a = Some k \<longleftrightarrow>
        a \<noteq> [] \<and> (\<exists>r. client_session_record k s = Some r \<and> csr_avatar_id r = a)) \<and>
     (\<forall>a k. map_find (gt_session_ids_by_account s) a = Some k \<longrightarrow>
        (\<exists>r. client_session_record k s = Some r \<and> csr_account_id r = a))"
proof (intro conjI allI impI)
  have inv: "books_ok s" "clients_linked s"
    using gate_reach_inv [OF assms] by (simp_all add: gate_inv_def gate_good_def)
  note b = books_okD [OF inv(1)]
  fix k d
  assume d: "cn_FindSession k (gate_net s) = Some d"
  show "map_find (gt_reservations s) (session_conversation d) = None" by (rule clients_linkedD(1) [OF inv(2) d])
  obtain r where r: "map_find (gt_records s) k = Some r" "csr_conversation r = session_conversation d"
    using clients_linkedD(2) [OF inv(2) d] by (auto simp: holder_def)
  with b(1) show "\<exists>r. client_session_record k s = Some r \<and> csr_session_id r = k \<and> csr_conversation r = session_conversation d"
    by (auto simp: client_session_record_def record_ok_def)
  show "k = k'" if "cn_FindSession k' (gate_net s) = Some d'" "session_conversation d = session_conversation d'" for k' d'
    by (rule clients_linkedD(3) [OF inv(2) d that])
next
  have inv: "books_ok s" using gate_reach_inv [OF assms] by (simp add: gate_inv_def gate_good_def)
  note b = books_okD [OF inv]
  show "map_find (gt_session_ids_by_avatar s) a = Some k \<longleftrightarrow>
      a \<noteq> [] \<and> (\<exists>r. client_session_record k s = Some r \<and> csr_avatar_id r = a)" for a k
    using b(1-3) unfolding client_session_record_def record_ok_def by blast
  show "\<exists>r. client_session_record k s = Some r \<and> csr_account_id r = a" if "map_find (gt_session_ids_by_account s) a = Some k" for a k
    unfolding client_session_record_def by (rule b(4) [OF that])
qed

text \<open>The state of the example after the first datagram of the client, which the theorems below determine.\<close>

lemma gate_sample_connected:
  obtains t k d where "gate_reach gate_sample_env t" "gate_step gate_sample_env (gate_sample_at 4) t"
    "cn_FindSession k (gate_net t) = Some d" "cn_FindSession k (gate_net (gate_sample_at 4)) = None"
    "holder t k = Some (1, ''a'')"
proof -
  have inv: "gate_inv (gate_sample_at 4)" using gate_reach_inv [OF gate_sample_reach(4) gate_sample_drains] by simp
  obtain t k where t: "HandleReceive (client_env_of gate_sample_env) (gate_host gate_sample_env) None gate_sample_remote [1, 0, 0, 0]
      (gate_sample_at 4) = Some t" "cn_FindSession k (gate_net (gate_sample_at 4)) = None"
    "holder t k = Some (1, ccr_account gate_sample_reservation)"
    "cn_FindSession k (gate_net t) \<noteq> None \<longleftrightarrow> fst (kcp_Input (ce_kcp (ge_client gate_sample_env)) [1, 0, 0, 0]
      (new_KcpPeer (ce_kcp (ge_client gate_sample_env))
        \<lparr>kpo_conversation = 1, kpo_config = cn_kcp (gate_net (gate_sample_at 4))\<rparr>)) = Kcp_None"
    using first_datagram [OF gate_sample_drains inv gate_sample_first] by blast
  have "gt_client_network (gate_sample_at 4) \<noteq> None" using inv by (simp add: gate_inv_def gate_good_def)
  from gate_step.gate_datagram [OF this t(1)] have step: "gate_step gate_sample_env (gate_sample_at 4) t" .
  let ?opts = "\<lparr>kpo_conversation = 1, kpo_config = cn_kcp (gate_net (gate_sample_at 4))\<rparr>"
  have "kp_handle (new_KcpPeer queue_ikcp ?opts) \<noteq> None"
    using gate_sample_first(8) sample_kcp_usable(1) [of ?opts] by (simp add: can_create_def queue_ikcp_peer)
  then have "fst (kcp_Input queue_ikcp [1, 0, 0, 0] (new_KcpPeer queue_ikcp ?opts)) = Kcp_None"
    by (auto simp: kcp_Input_def queue_ikcp_def sample_ikcp_def Let_def)
  moreover have "ce_kcp (ge_client gate_sample_env) = queue_ikcp" by (simp add: gate_sample_env_def)
  ultimately obtain d where "cn_FindSession k (gate_net t) = Some d" using t(4) by auto
  with step t(2,3) show thesis
    by (intro that [OF gate_next [OF gate_sample_reach(4) step] step]) (simp_all add: gate_sample_reservation_def)
qed

theorem gate_books_agree_witness:
  "\<exists>s k r. gate_reach gate_sample_env s \<and> client_session_record k s = Some r \<and> csr_conversation r = 1 \<and>
     cn_FindSession k (gate_net s) \<noteq> None \<and> map_find (gt_reservations s) 1 = None"
proof -
  obtain t k d where t: "gate_reach gate_sample_env t" "cn_FindSession k (gate_net t) = Some d" "holder t k = Some (1, ''a'')"
    by (rule gate_sample_connected)
  then obtain r where r: "client_session_record k t = Some r" "csr_conversation r = 1"
    by (auto simp: holder_def client_session_record_def)
  with gate_books_agree [OF t(1) gate_sample_drains] t(2)
  have "session_conversation d = 1" "map_find (gt_reservations t) (session_conversation d) = None" by fastforce+
  with t r show ?thesis by force
qed


text \<open>
  C2. Nobody gets a session without a login. When a step of a reachable gate adds a session, the step
  is the arrival of a datagram while the client network runs and the cluster is ready, and some earlier login that succeeded has
  given out the conversation of the session. The reservation of that login is still there, has not run out and is gone afterwards, and the
  record of the session has the account of the login. The datagram comes from the address that the login
  came from, unless that address is empty: the gate admits a conversation that was reserved without an address from anywhere.
\<close>

theorem client_session_needs_reservation:
  assumes "gate_reach env s" "ikcp_drains q (ce_kcp (ge_client env))" "gate_step env s t"
    and "cn_FindSession k (gate_net s) = None" "cn_FindSession k (gate_net t) = Some d"
  shows "\<exists>remote datagram s0 request result t0.
    HandleReceive (client_env_of env) (gate_host env) None remote datagram s = Some t \<and> gate_client_running s \<and> gt_cluster_ready s \<and>
    gate_reach env s0 \<and> HandleAuthLogin env request s0 = (result, t0) \<and> (gate_moves env)\<^sup>*\<^sup>* t0 s \<and>
    gla_success result \<and> gla_conversation result = session_conversation d \<and>
    map_find (gt_reservations s) (session_conversation d) = Some (reservation_of request result) \<and>
    \<not> reservation_expired (admission_time env s) (reservation_of request result) \<and>
    map_find (gt_reservations t) (session_conversation d) = None \<and>
    map_option csr_account_id (client_session_record k t) = Some (glr_account request) \<and> glr_account request \<noteq> [] \<and>
    NormalizeClientAddress (glr_remote_address request) \<in> {[], NormalizeClientAddress (ep_host remote)}"
proof -
  have inv: "gate_inv s" "clients_wait s" using gate_reach_inv [OF assms(1,2)] by simp_all
  obtain remote datagram where d: "HandleReceive (client_env_of env) (gate_host env) None remote datagram s = Some t"
    "gate_client_running s" "opened_for s (admission_time env s) remote (session_conversation d) k t"
    by (rule new_session_step [OF assms(3) inv(1) assms(2,5,4)])
  obtain r where r: "map_find (gt_reservations s) (session_conversation d) = Some r"
    "reservation_admits (admission_time env s) remote r" "map_find (gt_reservations t) (session_conversation d) = None"
    "map_option csr_account_id (client_session_record k t) = Some (ccr_account r)" "ccr_account r \<noteq> []"
    using d(3) by (auto simp: opened_for_def holder_def client_session_record_def)
  obtain s0 request result t0 where l: "gate_reach env s0" "HandleAuthLogin env request s0 = (result, t0)" "(gate_moves env)\<^sup>*\<^sup>* t0 s"
    "gla_success result" "gla_conversation result = session_conversation d" "r = reservation_of request result"
    by (rule reservation_from_login [OF assms(1,2) r(1)])
  have "gt_cluster_ready s" using inv(2) d(2) by (auto simp: clients_wait_def)
  moreover have "\<not> reservation_expired (admission_time env s) (reservation_of request result)"
    "NormalizeClientAddress (glr_remote_address request) \<in> {[], NormalizeClientAddress (ep_host remote)}"
    using r(2) by (auto simp: reservation_admits_def l(6)) (simp_all add: reservation_of_def)
  moreover have "ccr_account r = glr_account request" by (simp add: l(6) reservation_of_def)
  ultimately show ?thesis
    using d(1,2) r l by (intro exI [of _ remote] exI [of _ datagram] exI [of _ s0] exI [of _ request] exI [of _ result] exI [of _ t0]) simp
qed

theorem client_session_needs_reservation_witness:
  "\<exists>t k d s0 request. gate_step gate_sample_env (gate_sample_at 4) t \<and> cn_FindSession k (gate_net t) = Some d \<and>
     gla_success (fst (HandleAuthLogin gate_sample_env request s0)) \<and>
     gla_conversation (fst (HandleAuthLogin gate_sample_env request s0)) = session_conversation d \<and>
     map_option csr_account_id (client_session_record k t) = Some (glr_account request) \<and>
     map_find (gt_reservations t) (session_conversation d) = None"
proof -
  obtain t k d where t: "gate_step gate_sample_env (gate_sample_at 4) t" "cn_FindSession k (gate_net t) = Some d"
    "cn_FindSession k (gate_net (gate_sample_at 4)) = None"
    by (rule gate_sample_connected)
  from client_session_needs_reservation [OF gate_sample_reach(4) gate_sample_drains t(1,3,2)]
  obtain s0 request result t0 where "HandleAuthLogin gate_sample_env request s0 = (result, t0)" "gla_success result"
    "gla_conversation result = session_conversation d" "map_find (gt_reservations t) (session_conversation d) = None"
    "map_option csr_account_id (client_session_record k t) = Some (glr_account request)" by blast
  with t(1,2) show ?thesis
    by (intro exI [of _ t] exI [of _ k] exI [of _ d] exI [of _ s0] exI [of _ request]) simp
qed

text \<open>
  C10. The handling of whatever the client socket delivers ends, for every datagram from anywhere and for every error,
  provided that taking a message out of KCP makes its queue shorter; the state it leads to is reachable.
\<close>

theorem every_datagram_is_handled:
  assumes "gate_reach env s" "ikcp_drains q (ce_kcp (ge_client env))"
  shows "\<exists>t. HandleReceive (client_env_of env) (gate_host env) error_code remote datagram s = Some t \<and> gate_reach env t"
proof -
  have inv: "gate_inv s" using gate_reach_inv [OF assms] by simp
  obtain t where t: "HandleReceive (client_env_of env) (gate_host env) error_code remote datagram s = Some t"
    by (rule gate_receive [OF assms(2) inv])
  moreover have "gate_step env s t" using inv t by (intro gate_step.gate_datagram) (simp_all add: gate_inv_def gate_good_def)
  ultimately show ?thesis using gate_next [OF assms(1)] by blast
qed

theorem every_datagram_is_handled_witness:
  "HandleReceive (client_env_of gate_sample_env) (gate_host gate_sample_env) None gate_sample_remote [1, 0, 0, 0]
     (gate_sample_at 4) \<noteq> None"
  using every_datagram_is_handled [OF gate_sample_reach(4) gate_sample_drains] by (metis option.distinct(1))

text \<open>
  C37. Until the coordinator has declared the cluster ready, the gate is closed: its client network does not run, there
  are neither sessions nor reservations, and every login is refused with the status 503. (KCP drains its queue.)
\<close>

theorem closed_until_cluster_ready:
  assumes "gate_reach env s" "ikcp_drains q (ce_kcp (ge_client env))" "\<not> gt_cluster_ready s"
  shows "\<not> gate_client_running s \<and> cn_sessions (gate_net s) = [] \<and> gt_reservations s = [] \<and>
    (\<forall>request. \<not> gla_success (fst (HandleAuthLogin env request s)) \<and> gla_status_code (fst (HandleAuthLogin env request s)) = 503 \<and>
      snd (HandleAuthLogin env request s) = s)"
  using gate_reach_inv [OF assms(1,2)] assms(3)
  by (simp add: clients_wait_def HandleAuthLogin_def default_GateAuthLoginResult_def Let_def)

theorem closed_until_cluster_ready_witness:
  "gla_status_code (fst (HandleAuthLogin gate_sample_env
     \<lparr>glr_account = ''a'', glr_password = ''p'', glr_remote_address = ''c''\<rparr> gate_sample_started)) = 503"
proof -
  have "\<not> gt_cluster_ready gate_sample_started"
    by (simp add: gate_sample_started_def gate_sample_initialised_def gate_sample_def)
  from closed_until_cluster_ready [OF gate_sample_started_reach gate_sample_drains this] show ?thesis by blast
qed

text \<open>
  C38. The search for a free conversation ends although it has no bound of its own: the loop of the source, run
  without a limit, stops, and its result is the one of the model. The result is zero exactly when every
  conversation is in use; otherwise it is a conversation that nobody has.
\<close>

theorem conversation_search_ends:
  "\<exists>c returned. conversation_loop s (if gt_next_client_conversation s = 0 then 1 else gt_next_client_conversation s)
       (if gt_next_client_conversation s = 0 then 1 else gt_next_client_conversation s) = Some (c, returned) \<and>
     fst (ConsumeNextClientConversation s) = (if returned then 0 else c) \<and>
     (fst (ConsumeNextClientConversation s) = 0 \<longleftrightarrow> (\<forall>d. conversation_in_use s d)) \<and>
     (fst (ConsumeNextClientConversation s) \<noteq> 0 \<longleftrightarrow> \<not> conversation_in_use s (fst (ConsumeNextClientConversation s)))"
proof -
  let ?start = "if gt_next_client_conversation s = 0 then 1 else gt_next_client_conversation s"
  obtain c t where ct: "ConsumeNextClientConversation s = (c, t)" by fastforce
  note e = ConsumeNextClientConversation_effect [OF ct]
  have start: "?start \<noteq> 0" by simp
  have n: "0 + (2 ^ 32 - 1) = (2 ^ 32 - 1 :: nat)" "(2 ^ 32 - 1 :: nat) \<noteq> 0" by simp_all
  obtain d r where d: "conversation_loop s ?start ?start = Some (d, r)"
    "search_conversation (2 ^ 32 - 1) s ?start ?start = (if r then 0 else d)"
    using search_conversation_loop [OF start n, of s, unfolded funpow_0] by blast
  have "c = search_conversation (2 ^ 32 - 1) s ?start ?start"
    using ct by (auto simp only: ConsumeNextClientConversation_def Let_def split: if_splits)
  then show ?thesis
    using d e by (intro exI [of _ d] exI [of _ r]) (auto simp only: ct fst_conv conversation_in_use_def simp_thms)
qed


text \<open>
  C40. What the first datagram of a reserved conversation does, when it comes from the right address in time. It opens
  a session under an id that was free, records the account of the login for it, and uses up the reservation.
  The session stays exactly when KCP takes the datagram: a first datagram that KCP does not take costs the client its login and
  leaves a record without a session behind. (KCP drains its queue, a peer can be created, and the remote endpoint has a host and a port.)
\<close>

theorem reserved_client_connects:
  assumes "gate_reach env s" "ikcp_drains q (ce_kcp (ge_client env))" "gate_client_running s"
    and "TryReadKcpConversation datagram (Some 0) = (True, Some c)" "map_find (gt_reservations s) c = Some r"
    and "ccr_account r \<noteq> []" "reservation_admits (admission_time env s) remote r"
    and "FindSessionByTransport c remote (gate_net s) = None" "plain_endpoint remote" "can_create (ge_client env) (gate_net s)"
  shows "\<exists>t k. HandleReceive (client_env_of env) (gate_host env) None remote datagram s = Some t \<and>
    cn_FindSession k (gate_net s) = None \<and> map_find (gt_reservations t) c = None \<and>
    map_option (\<lambda>r. (csr_conversation r, csr_account_id r)) (client_session_record k t) = Some (c, ccr_account r) \<and>
    (cn_FindSession k (gate_net t) \<noteq> None \<longleftrightarrow> fst (kcp_Input (ce_kcp (ge_client env)) datagram
      (new_KcpPeer (ce_kcp (ge_client env)) \<lparr>kpo_conversation = c, kpo_config = cn_kcp (gate_net s)\<rparr>)) = Kcp_None)"
proof -
  have inv: "gate_inv s" using gate_reach_inv [OF assms(1,2)] by simp
  show ?thesis
    by (rule first_datagram [OF assms(2) inv assms(3-10)]) (auto simp: holder_def client_session_record_def)
qed

theorem reserved_client_connects_witness:
  "\<exists>t k r. HandleReceive (client_env_of gate_sample_env) (gate_host gate_sample_env) None gate_sample_remote [1, 0, 0, 0]
      (gate_sample_at 4) = Some t \<and> client_session_record k t = Some r \<and> csr_conversation r = 1 \<and> csr_account_id r = ''a''"
proof -
  from reserved_client_connects [OF gate_sample_reach(4) gate_sample_drains gate_sample_first]
  obtain t k where "HandleReceive (client_env_of gate_sample_env) (gate_host gate_sample_env) None gate_sample_remote [1, 0, 0, 0]
      (gate_sample_at 4) = Some t"
    "map_option (\<lambda>r. (csr_conversation r, csr_account_id r)) (client_session_record k t) = Some (1, ccr_account gate_sample_reservation)"
    by blast
  then show ?thesis by (auto simp: gate_sample_reservation_def)
qed


text \<open>
  C39. The search for a session id ends although it has no bound of its own: in every state that a gate can reach, the loop of
  the source, run without a limit, stops at the id that the model gives out, which no session has and which is not
  zero. There are always free ids, because every session has a conversation of 32 bits of its own. (KCP drains its queue.)
\<close>

theorem session_id_search_ends:
  assumes "gate_reach env s" "ikcp_drains q (ce_kcp (ge_client env))"
  shows "while_option (\<lambda>k. map_find (cn_sessions (gate_net s)) k \<noteq> None) next_session_id_after
      (if cn_next_session_id (gate_net s) = 0 then 1 else cn_next_session_id (gate_net s)) =
      Some (fst (ConsumeNextSessionId (gate_net s))) \<and>
    fst (ConsumeNextSessionId (gate_net s)) \<noteq> 0 \<and>
    cn_FindSession (fst (ConsumeNextSessionId (gate_net s))) (gate_net s) = None"
proof -
  have inv: "clients_inv (gate_net s)" "clients_linked s" using gate_reach_inv [OF assms] by (simp_all add: gate_inv_def)
  have wf: "map_wf (cn_sessions (gate_net s))" using inv(1) by (simp add: clients_inv_def)
  note len = clients_linked_bound [OF inv(2,1)]
  obtain k net where k: "ConsumeNextSessionId (gate_net s) = (k, net)" by fastforce
  let ?start = "if cn_next_session_id (gate_net s) = 0 then 1 else cn_next_session_id (gate_net s)"
  have "k = skip_used (length (cn_sessions (gate_net s))) (cn_sessions (gate_net s)) ?start"
    using k by (auto simp: ConsumeNextSessionId_def Let_def)
  then have "while_option (\<lambda>k. map_find (cn_sessions (gate_net s)) k \<noteq> None) next_session_id_after ?start = Some k"
    using skip_used_while(1) [OF some_id_free [OF wf len, of ?start]] by simp
  then show ?thesis using ConsumeNextSessionId_fresh(1,2) [OF wf len k] by (simp add: k cn_FindSession_def)
qed

theorem session_id_search_ends_witness:
  "\<exists>s k. cn_sessions (gate_net s) \<noteq> [] \<and>
     while_option (\<lambda>k. map_find (cn_sessions (gate_net s)) k \<noteq> None) next_session_id_after
       (if cn_next_session_id (gate_net s) = 0 then 1 else cn_next_session_id (gate_net s)) = Some k"
proof -
  obtain t k d where t: "gate_reach gate_sample_env t" "cn_FindSession k (gate_net t) = Some d"
    by (rule gate_sample_connected)
  then have "cn_sessions (gate_net t) \<noteq> []" by (auto simp: cn_FindSession_def map_find_def)
  with session_id_search_ends [OF t(1) gate_sample_drains] show ?thesis by blast
qed

text \<open>
  A heartbeat that is not answered is the last one: as long as its sequence number is waited for, the timer sends nothing.
\<close>

lemma unanswered_heartbeat_is_last:
  assumes "gm_session s = Some g" "ins_heartbeat_seq g \<noteq> 0"
  shows "((snd \<circ> gate_SendHeartbeatRequest env) ^^ n) s = s"
proof -
  have "gate_SendHeartbeatRequest env s = (False, s)"
    using assms by (simp add: gate_SendHeartbeatRequest_def split: option.split)
  then show ?thesis by (induction n) simp_all
qed

end
