(* ===== verification/ClusterProtocol.thy ===== *)
theory ClusterProtocol
  imports GateProtocol
begin

text \<open>
  The gate and the coordinator together: what one of them sends is what the other one reads. The registration of
  a gate and the opening of the gates are followed from one node to the other, over the bytes that the codecs write.
\<close>

section \<open>What the coordinator has sent\<close>

definition listener_sent :: "'a ServerNode_scheme \<Rightarrow> (byte list \<times> byte list) list" where
  "listener_sent s = (case sn_inner_network s of None \<Rightarrow> [] | Some net \<Rightarrow> net_sent net)"

lemma net_Send_sent: "x \<in> set (net_sent net) \<Longrightarrow> x \<in> set (net_sent (snd (net_Send zmq r p net)))"
  unfolding net_Send_def listener_Send_def net_sent_def net_SetError_def net_ClearError_def listener_SetLastError_def Let_def split_def
  by (auto split: option.split)

lemma send_packet_sent:
  "x \<in> set (listener_sent s) \<Longrightarrow> x \<in> set (listener_sent (snd (send_packet env r m q f b s)))"
  by (auto simp: send_packet_def inner_Send_def listener_sent_def split_def net_Send_sent split: option.splits)

lemma send_packet_sends:
  assumes "can_send env s" "r \<noteq> []" "fits32 body" "unat flags < 8"
  shows "(r, packet_bytes msg_id seq flags body) \<in> set (listener_sent (snd (send_packet env r msg_id seq flags body s)))"
proof -
  from assms(1) obtain net l where net: "sn_inner_network s = Some net" "net_initialized net" "net_listener net = Some l"
    "zl_running l" "zl_socket l" and zmq: "\<And>n. zmq_succeeds (env_zmq env) n"
    by (auto simp: can_send_def split: option.splits)
  from net_Send_ok(3) [OF zmq net(2-5) assms(2), of "packet_bytes msg_id seq flags body"] net(1) show ?thesis
    by (auto simp: send_packet_def encode_packet_eq [OF assms(3,4)] inner_Send_def listener_sent_def net_sent_def split_def)
qed

lemma sent_fields [simp]:
  fixes s :: GmNode
  shows "listener_sent (s\<lparr>gm_startup := x\<rparr>) = listener_sent s"
    "listener_sent (snd (CurrentUnixTimeMilliseconds env s)) = listener_sent s"
    "listener_sent (RecordStartupRegistration role k s) = listener_sent s"
  by (simp_all add: listener_sent_def CurrentUnixTimeMilliseconds_def RecordStartupRegistration_def Let_def)

lemma notification_sent:
  "x \<in> set (listener_sent s) \<Longrightarrow> x \<in> set (listener_sent (SendClusterNodesOnlineNotifyToGame env session b t s))"
  "x \<in> set (listener_sent s) \<Longrightarrow> x \<in> set (listener_sent (SendClusterGateOpenNotifyToGate env notify session s))"
  by (auto simp: SendClusterNodesOnlineNotifyToGame_def SendClusterGateOpenNotifyToGate_def split_def intro: send_packet_sent)

lemma finish_registration_sent: "x \<in> set (listener_sent s) \<Longrightarrow> x \<in> set (listener_sent (finish_registration env role k s))"
  by (auto simp: finish_registration_def OnAllNodeOnline_def Let_def split_def
      intro!: notify_nodes_inv [where P = "\<lambda>s. x \<in> set (listener_sent s)"] notification_sent)


text \<open>The registration of a new node is answered.\<close>

lemma register_answered:
  fixes host :: managed_host
  assumes inv: "gm_inv m" and send: "can_send env m" and r: "r \<noteq> []" "FindByRoutingId r (sn_sessions m) = None"
    and fresh: "FindByNodeId (rr_node_id request) (sn_sessions m) = None"
    and req: "valid_RegisterRequest request" "fits32 (wire_RegisterRequest request)" "seq \<noteq> kPacketSeqNone"
  shows "(r, register_reply_bytes seq (fst (CurrentUnixTimeMilliseconds env m))) \<in>
    set (listener_sent (HandleInnerMessage env host r (register_bytes seq request) m))"
proof -
  let ?now = "fst (CurrentUnixTimeMilliseconds env m)"
  obtain m1 where m1: "sn_inner_network m1 = sn_inner_network m"
    and m': "HandleInnerMessage env host r (register_bytes seq request) m = (case reply_to_register env r seq ?now m1 of (sent, m2) \<Rightarrow>
        if sent then finish_registration env (role_of request) (rr_node_id request) m2 else m2)"
    using register_effect(2) [OF inv r fresh req, where env = env and host = host] by blast
  have "can_send env m1" using send m1 by (simp add: can_send_def)
  then have "(r, register_reply_bytes seq ?now) \<in> set (listener_sent (snd (reply_to_register env r seq ?now m1)))"
    unfolding reply_to_register_def register_reply_bytes_def
    by (rule send_packet_sends [OF _ r(1)])
      (simp_all add: register_reply_def wire_RegisterSuccessResponse_def fits32_def packet_flag_value.simps)
  then show ?thesis unfolding m' by (auto simp: split_def intro: finish_registration_sent)
qed

text \<open>The opening is announced to every gate that is registered and alive.\<close>

lemma notify_nodes_sent:
  assumes "node_id \<in> set node_ids" "can_send env m" "FindByNodeId node_id (sn_sessions m) = Some session"
    and "ins_registered session" "\<not> ins_heartbeat_timed_out session" "ins_routing_id session \<noteq> []" "valid_ClusterReadyNotify notify"
  shows "(ins_routing_id session, ready_notify_bytes notify) \<in>
    set (listener_sent (fold (notify_node (SendClusterGateOpenNotifyToGate env notify)) node_ids m))"
  using assms(1-3)
proof (induction node_ids arbitrary: m)
  case (Cons a node_ids)
  let ?send = "SendClusterGateOpenNotifyToGate env notify"
  have enc: "EncodeClusterReadyNotify notify (replicate kClusterReadyNotifySize 0) = (Icl_None, wire_ClusterReadyNotify notify)"
    using assms(7) by (intro cluster_ready_notify.encode_exact) (simp_all add: wire_ClusterReadyNotify_def kClusterReadyNotifySize_def)
  let ?m = "notify_node ?send a m"
  have m: "can_send env ?m" "sn_sessions ?m = sn_sessions m"
    using Cons.prems(2) can_send_frame(3)
    by (auto simp: notify_node_def SendClusterGateOpenNotifyToGate_def send_packet_def inner_Send_def split_def split: option.split)
  have now: "(ins_routing_id session, ready_notify_bytes notify) \<in> set (listener_sent ?m)" if "a = node_id"
  proof -
    obtain net where "sn_inner_network m = Some net" using Cons.prems(2) by (auto simp: can_send_def split: option.splits)
    then show ?thesis
      using that Cons.prems(3) assms(4,5) send_packet_sends [OF Cons.prems(2) assms(6), of "wire_ClusterReadyNotify notify" 0
          kInnerClusterReadyNotifyMsgId kPacketSeqNone]
      by (simp add: notify_node_def SendClusterGateOpenNotifyToGate_def enc ready_notify_bytes_def wire_ClusterReadyNotify_def fits32_def)
  qed
  show ?case
  proof (cases "a = node_id")
    case True
    then show ?thesis
      using notify_nodes_inv [where P = "\<lambda>m. (ins_routing_id session, ready_notify_bytes notify) \<in> set (listener_sent m)"]
        notification_sent(2) now by simp
  next
    case False
    then show ?thesis using Cons.IH [of ?m] Cons.prems m by simp
  qed
qed simp


section \<open>Properties\<close>

text \<open>
  C4. A gate joins the cluster. When a gate that is not registered gets its connection, it sends one message; a
  coordinator that knows neither the node nor the channel takes this message as the registration of a
  gate under the gate's node id and sends a reply over the channel; and this reply makes the gate
  registered, with the heartbeat times of the coordinator.
\<close>

theorem gate_joins_cluster:
  assumes gate: "gm_session s = Some g" "\<not> ins_registered g" "\<not> ins_register_in_flight g" "ins_heartbeat_timer_id g = 0"
      "gate_config s = Some (inner, auth, client)" "valid_RegisterRequest (gate_register_request inner s)" "can_send_to_gm env s"
    and gm: "gm_reachable genv host m" "can_send genv m" "r \<noteq> []" "FindByRoutingId r (sn_sessions m) = None"
      "FindByNodeId (sn_node_id s) (sn_sessions m) = None"
  defines "s1 \<equiv> gate_HandleConnectorStateChanged env kGmRemoteNodeId Zmq_Connected s"
  defines "m1 \<equiv> HandleInnerMessage genv host r (last (gm_sent s1)) m"
  shows "length (gm_sent s1) = Suc (length (gm_sent s)) \<and>
    (\<exists>session. FindByNodeId (sn_node_id s) (sn_sessions m1) = Some session \<and> ins_registered session \<and>
      ins_process_type session = Gate \<and> ins_routing_id session = r) \<and>
    (\<exists>reply g'. (r, reply) \<in> set (listener_sent m1) \<and>
      gm_session (gate_HandleConnectorMessage env kGmRemoteNodeId reply s1) = Some g' \<and> ins_registered g' \<and>
      ins_heartbeat_interval_ms g' = kDefaultHeartbeatIntervalMs \<and> ins_heartbeat_timeout_ms g' = kDefaultHeartbeatTimeoutMs)"
proof -
  let ?req = "gate_register_request inner s" and ?seq = "next_gm_seq g" and ?now = "fst (CurrentUnixTimeMilliseconds genv m)"
  note c = gate_connects [OF gate(1-3,5-7), folded s1_def]
  have inv: "gm_inv m" by (rule gm_reachable_inv [OF gm(1)])
  have req: "rr_node_id ?req = sn_node_id s" "role_of ?req = Gate" by (simp_all add: gate_register_request_def role_of_def)
  have seq: "?seq \<noteq> kPacketSeqNone" using next_gm_seq_neq_0 by (simp add: kPacketSeqNone_def)
  have m1: "m1 = HandleInnerMessage genv host r (register_bytes ?seq ?req) m" by (simp add: m1_def c(1))
  note fits = gate_request_fits [OF gate(6)]
  have fresh: "FindByNodeId (rr_node_id ?req) (sn_sessions m) = None" using gm(5) by (simp add: req)
  have "\<exists>session. FindByNodeId (sn_node_id s) (sn_sessions m1) = Some session \<and> ins_registered session \<and>
      ins_process_type session = Gate \<and> ins_routing_id session = r"
    using register_effect(1) [OF inv gm(3,4) fresh gate(6) fits seq, where host = host and env = genv and k = "sn_node_id s"]
    unfolding m1 req by (simp add: apply_registration_state_def registration_of_def)
  moreover have "(r, register_reply_bytes ?seq ?now) \<in> set (listener_sent m1)"
    unfolding m1 by (rule register_answered [OF inv gm(2-4) fresh gate(6) fits seq])
  moreover obtain g1 where g1: "gm_session s1 = Some g1" "ins_register_seq g1 = ?seq" "ins_heartbeat_timer_id g1 = 0"
    using c(2) gate(4) by auto
  from gate_reply(1) [OF g1(1,2) next_gm_seq_neq_0 g1(3), of env ?now] obtain g' where
    "gm_session (gate_HandleConnectorMessage env kGmRemoteNodeId (register_reply_bytes ?seq ?now) s1) = Some g'" "ins_registered g'"
    "ins_heartbeat_interval_ms g' = kDefaultHeartbeatIntervalMs" "ins_heartbeat_timeout_ms g' = kDefaultHeartbeatTimeoutMs" by blast
  ultimately show ?thesis using c(1) by auto
qed

theorem gate_joins_cluster_witness:
  "\<exists>session. FindByNodeId ''Gate0'' (sn_sessions (HandleInnerMessage sample_env sample_host [1]
     (last (gm_sent (gate_sample_at 1))) sample_started)) = Some session \<and> ins_registered session \<and> ins_process_type session = Gate"
proof -
  obtain g where g: "gm_session gate_sample_started = Some g" "\<not> ins_registered g" "\<not> ins_register_in_flight g"
    "ins_heartbeat_timer_id g = 0" using gate_sample_session by blast
  have node: "sn_node_id gate_sample_started = ''Gate0''"
    by (simp add: gate_sample_started_def gate_sample_initialised_def gate_sample_def)
  have gm: "can_send sample_env sample_started" "FindByRoutingId [1] (sn_sessions sample_started) = None"
    "FindByNodeId (sn_node_id gate_sample_started) (sn_sessions sample_started) = None"
    by (simp_all add: sample_started_state new_InnerNetworkSessionManager_def FindByRoutingId_def FindByNodeId_def)
  from gate_joins_cluster [OF g gate_sample_request gate_sample_connection sample_started_reachable gm(1) _ gm(2,3)]
  show ?thesis unfolding node gate_sample_at_simps by auto
qed


text \<open>
  C11. The gates open when the coordinator says so. When all server stubs have become ready, the coordinator sends a message to every
  expected gate that is registered and alive; and a registered gate whose client network and authentication
  service start takes this message as the declaration that the cluster is ready: its client network runs, it remembers the
  coordinator's epoch, and from then on a login succeeds exactly when some conversation is free.
\<close>

theorem opening_reaches_gates:
  assumes gm: "\<not> ss_gate_open (gm_startup m)" "AreAllServerStubsReady m" "can_send genv m"
      "node_id \<in> set (ss_expected_gate_node_ids (gm_startup m))" "FindByNodeId node_id (sn_sessions m) = Some session"
      "ins_registered session" "\<not> ins_heartbeat_timed_out session" "ins_routing_id session \<noteq> []"
    and gate: "gm_session s = Some g" "ins_registered g" "gate_config s \<noteq> None"
      "gt_cluster_ready_epoch s \<le> ss_ready_epoch (gm_startup m) + 1" "gt_client_network s = Some net"
      "cn_Run (client_env_of env) net (gate_io s) = (Node_None, net', io)"
      "gt_auth_http_service s" "fst (ge_auth env (gt_auth_calls s)) = Node_None"
  shows "\<exists>message. (ins_routing_id session, message) \<in> set (listener_sent (OnAllStubReady genv m)) \<and>
    (let t = gate_HandleConnectorMessage env kGmRemoteNodeId message s in
     gt_cluster_ready t \<and> gate_client_running t \<and> gt_cluster_ready_epoch t = ss_ready_epoch (gm_startup m) + 1 \<and>
     (\<forall>request. gla_success (fst (HandleAuthLogin env request t)) \<longleftrightarrow>
       (\<exists>c. \<not> conversation_in_use (PruneExpiredClientConversationReservations
         (fst (CurrentUnixTimeMilliseconds (ge_node env) t)) t) c)))"
proof -
  obtain now m1 where m1: "CurrentUnixTimeMilliseconds genv m = (now, m1)" by fastforce
  then have eq: "gm_startup m1 = gm_startup m" "sn_sessions m1 = sn_sessions m" "sn_inner_network m1 = sn_inner_network m"
    by (auto simp: CurrentUnixTimeMilliseconds_def Let_def)
  let ?n = "\<lparr>cr_ready_epoch = ss_ready_epoch (gm_startup m) + 1, cr_cluster_ready = True, cr_status_flags = 0,
      cr_server_now_unix_ms = now\<rparr>"
  let ?m2 = "m1\<lparr>gm_startup := (gm_startup m)\<lparr>ss_gate_open := True, ss_last_cluster_ready_server_now_unix_ms := now,
      ss_ready_epoch := ss_ready_epoch (gm_startup m) + 1\<rparr>\<rparr>"
  have n: "valid_ClusterReadyNotify ?n" "cr_cluster_ready ?n" "gt_cluster_ready_epoch s \<le> cr_ready_epoch ?n"
    using gate(4) by (simp_all add: valid_ClusterReadyNotify_def)
  have sent: "(ins_routing_id session, ready_notify_bytes ?n) \<in>
      set (listener_sent (fold (notify_node (SendClusterGateOpenNotifyToGate genv ?n)) (ss_expected_gate_node_ids (gm_startup m)) ?m2))"
    using gm(3-8) n(1) by (intro notify_nodes_sent [of node_id]) (simp_all add: eq can_send_def)
  have open_all: "OnAllStubReady genv m = fold (notify_node (SendClusterGateOpenNotifyToGate genv ?n))
      (ss_expected_gate_node_ids (gm_startup m)) ?m2"
    using gm(1,2) by (simp add: OnAllStubReady_def m1 eq Let_def)
  let ?t = "gate_HandleConnectorMessage env kGmRemoteNodeId (ready_notify_bytes ?n) s"
  note o = gate_opens [OF gate(1,2) n gate(5-8)]
  have "gate_client_running ?t" using o(2) cn_Run_running(2) [OF gate(6)] by (simp add: gate_client_running_def)
  with o(1,3,5) gate(3) sent show ?thesis
    unfolding open_all by (intro exI [of _ "ready_notify_bytes ?n"]) (simp add: HandleAuthLogin_success Let_def)
qed


text \<open>A coordinator with one gate and one stub, which has just become ready.\<close>

definition sample_stub_ready :: GmNode where
  "sample_stub_ready = (sample_at 1)\<lparr>gm_stubs := new_ServerStubStateTable\<lparr>sst_entries :=
     [\<lparr>sse_entity_type = ''O'', sse_entity_id = ''x'', sse_owner_game_node_id = ''Game0'', sse_state = Stub_Ready\<rparr>]\<rparr>\<rparr>"

lemma sample_gate_session:
  "\<exists>session. FindByNodeId ''Gate0'' (sn_sessions (sample_at 1)) = Some session \<and> ins_registered session \<and>
     \<not> ins_heartbeat_timed_out session \<and> ins_routing_id session \<noteq> []"
proof -
  have none: "FindByNodeId k (sn_sessions (sample_at 0)) = None" "FindByRoutingId r (sn_sessions (sample_at 0)) = None" for k r
    by (simp_all add: sample_at_simps sample_started_state new_InnerNetworkSessionManager_def FindByNodeId_def FindByRoutingId_def)
  have seq: "(1::u32) \<noteq> kPacketSeqNone" "[1::byte] \<noteq> []" by (simp_all add: kPacketSeqNone_def)
  note find = register_effect(1) [OF gm_reachable_inv [OF sample_at_reachable] seq(2) none(2,1) sample_request_valid(1,3) seq(1),
      where host = sample_host and env = sample_env, folded sample_at_simps(2), unfolded sample_request_valid(5,7)]
  show ?thesis unfolding find by (simp add: apply_registration_state_def registration_of_def)
qed

theorem opening_reaches_gates_witness:
  "\<exists>session message. FindByNodeId ''Gate0'' (sn_sessions sample_stub_ready) = Some session \<and>
     (ins_routing_id session, message) \<in> set (listener_sent (OnAllStubReady sample_env sample_stub_ready)) \<and>
     gate_client_running (gate_HandleConnectorMessage gate_sample_env kGmRemoteNodeId message (gate_sample_at 2))"
proof -
  have inv: "gm_inv (sample_at 1)" by (rule gm_reachable_inv [OF sample_at_reachable])
  obtain session where session: "FindByNodeId ''Gate0'' (sn_sessions sample_stub_ready) = Some session" "ins_registered session"
    "\<not> ins_heartbeat_timed_out session" "ins_routing_id session \<noteq> []"
    using sample_gate_session by (auto simp: sample_stub_ready_def)
  have gm: "\<not> ss_gate_open (gm_startup sample_stub_ready)" "AreAllServerStubsReady sample_stub_ready" "can_send sample_env sample_stub_ready"
    "''Gate0'' \<in> set (ss_expected_gate_node_ids (gm_startup sample_stub_ready))"
    using inv sample_registered(1,2,5)
    by (simp_all add: sample_stub_ready_def gm_inv_def flags_ok_def stubs_ready_def AreAllServerStubsReady_def new_ServerStubStateTable_def)
  note s = gate_sample_answered
  obtain g where g: "gm_session (gate_sample_at 2) = Some g" "ins_registered g" using s(1) by blast
  obtain net io where run: "cn_Run (client_env_of gate_sample_env) gate_sample_client (gate_io (gate_sample_at 2)) = (Node_None, net, io)"
    using s(9) by blast
  have gate: "gate_config (gate_sample_at 2) \<noteq> None"
    "gt_cluster_ready_epoch (gate_sample_at 2) \<le> ss_ready_epoch (gm_startup sample_stub_ready) + 1" by (simp_all add: s(3,6))
  from opening_reaches_gates [OF gm session g gate s(2) run s(4,8)] session(1) show ?thesis
    unfolding Let_def by blast
qed

end
