(* ===== verification/Spec2Isabelle.thy ===== *)
theory Spec2Isabelle
  imports MessageDispatcher ClusterProtocol
begin

text \<open>
  A verification development of the native core of the XServerByAI game server framework
  (\<^verbatim>\<open>src/src/native\<close>).

  \<^bold>\<open>The program.\<close> A cluster is one coordinator (GM), gates that clients connect to, and games that run
  the game logic in a managed runtime. All three are one executable: \<^verbatim>\<open>node/ServerNode.cpp\<close> loads the
  configuration, opens the inner network and runs the role. Between nodes run packets: a 20-byte
  header (\<^verbatim>\<open>net/PacketHeader.h\<close>) and a payload written by the codecs of \<^verbatim>\<open>net/message\<close> with the
  bounds-checked writer and reader of \<^verbatim>\<open>net/BinarySerialization.cpp\<close>. They travel over ZeroMQ sockets
  (\<^verbatim>\<open>ipc\<close>) that \<^verbatim>\<open>node/InnerNetwork.cpp\<close> groups into a listener and named connectors. A node keeps a
  session per peer (\<^verbatim>\<open>node/InnerNetworkSessionManager.cpp\<close>) and timers (\<^verbatim>\<open>core/Timer.cpp\<close>). The GM
  registers the nodes, watches their heartbeats and leads the cluster through its start. A gate
  (\<^verbatim>\<open>node/GateNode.cpp\<close>) registers with the GM, lets clients log in once the GM has opened it, and relays
  between clients and games. It talks to its clients over KCP (\<^verbatim>\<open>net/KcpPeer.cpp\<close>): \<^verbatim>\<open>node/ClientNetwork.cpp\<close>
  owns the UDP socket and one \<^verbatim>\<open>node/ClientSession.cpp\<close> per client.

  \<^bold>\<open>Theories, from the bottom up.\<close>
  \<^item> \<open>Prelude\<close>: machine integers, pointers to output variables, short-circuit chains, \<^verbatim>\<open>memcpy\<close>, byte
    strings, and the locale \<open>role_loop\<close> for components that handle events one after the other.
  \<^item> \<open>ByteOrder\<close>, \<open>BinarySerialization\<close>: byte order and the writer and reader. The locale \<open>wire_value\<close> is
    what a pair of a write and a read operation promises; every primitive interprets it. No sequence of
    operations leaves the span.
  \<^item> \<open>Codec\<close>: the theory of message codecs; the locales \<open>message_codec\<close> and \<open>strict_message_codec\<close> say what a
    codec promises. \<open>PacketCodec\<close>, \<open>HeartbeatCodec\<close>, \<open>RegisterCodec\<close>, \<open>InnerClusterCodec\<close>, \<open>RelayCodec\<close>:
    one codec each, with its round trips, sizes and error branches, as interpretations.
  \<^item> \<open>MessageDispatcher\<close>: the handler table, refining an abstract table.
  \<^item> \<open>StdMap\<close>: \<^verbatim>\<open>std::map\<close> as a sorted association list, behind the locale \<open>dictionary\<close>.
  \<^item> \<open>ZmqSockets\<close>, \<open>InnerNetwork\<close>: contexts, listener, connectors (locale \<open>zmq_endpoint\<close>) and their joint start
    and stop: a start that fails leaves everything as before.
  \<^item> \<open>InnerNetworkSessionManager\<close>: the two session maps and the invariant that they agree.
  \<^item> \<open>Timer\<close>: the timer manager over a store of shared entries and a list of outstanding waits: a
    cancelled timer never fires, a live one does.
  \<^item> \<open>NodeCommon\<close>, \<open>ClusterConfig\<close>, \<open>ServerNode\<close>, \<open>NodePackets\<close>: error codes, configuration structures and node
    ids, the life cycle of a node, and the packet helpers of the roles.
  \<^item> \<open>GmNode\<close>: every handler of the coordinator. \<open>GmStartup\<close>: its invariant and what a handler may change.
    \<open>GmProtocol\<close>: reachable states, the protocol at the level of bytes, and the properties: the gates open
    only in a complete cluster, a node that timed out stays out, a lost reply blocks the start.
  \<^item> \<open>KcpPeer\<close>, \<open>ClientSession\<close>: the client side: which configurations give a usable peer, datagrams reach
    the client once and in order, and the session refines an abstract state machine.
  \<^item> \<open>ClientNetwork\<close>: the socket, the session table and its index. The locale \<open>session_traffic\<close> says what an
    operation on the peers may do to the sessions, \<open>client_owner\<close> what the network needs of the node that owns
    it; both are interpreted on the model.
  \<^item> \<open>GateNode\<close>: every handler of the gate, and its steps as an inductive relation. \<open>GateClients\<close>: the books of
    the gate about its clients, as an invariant of every handler. \<open>GateReach\<close>: the states a gate can reach.
    \<open>GateAdmission\<close>: how a datagram becomes a session. \<open>GateLogins\<close>: every reservation goes back to a login. \<open>GateProtocol\<close>: the gate at the level of bytes, a sample run, and
    the properties: nobody gets a session without a login, the books agree, the gate is closed until the
    cluster is ready, and the loops end.
  \<^item> \<open>ClusterProtocol\<close>: the gate and the GM together: what one sends is what the other reads, from the
    registration of the gate to its opening.

  \<^bold>\<open>How the code is modelled.\<close> A class is a record, an enum a datatype, an operation a function that
  takes and returns the state; results are the source's error codes. Integers keep their width where
  they can wrap; \<^verbatim>\<open>std::size_t\<close> is a natural number with the code's own overflow checks against
  \<open>size_max\<close>. An output pointer is an option. The loops of the modelled code run over finite
  containers, with three exceptions. The searches for a free session id and a free conversation
  (\<open>skip_used\<close>, \<open>search_conversation\<close>) count their steps; that the counts are enough is shown against the loops run without a
  bound. The loop that takes messages out of KCP (\<open>receive_messages\<close>) is a partial function, and is shown to end.

  \<^bold>\<open>Parameters.\<close> What the code calls outside itself are arguments of the definitions: libzmq (which call
  succeeds), the KCP traffic functions, the clock, the random choice of owners, the managed runtime, the
  file reader of the configuration, the JSON library, the control and the authentication service. A theorem
  holds for all of them, with a named hypothesis where the code relies on the library: \<open>ikcp_output_ok\<close> (KCP emits
  what fits its buffer) and \<open>ikcp_drains\<close> (taking a message out of KCP shortens its queue; a queue of
  messages, \<open>queue_ikcp\<close>, satisfies it).

  \<^bold>\<open>Not modelled.\<close> Logging, threads and asio executors (an event is handled to its end before the next),
  exceptions thrown by the callbacks of a node,
  the scheduling of the ZeroMQ pump, the JSON reader and the fields of the configuration that only
  logging uses, the .NET host, the game role (\<^verbatim>\<open>node/GameNode.cpp\<close>, most of which marshals calls into the managed
  runtime), the creation of nodes, and the two HTTP services, which are parsers of requests over asio
  streams; what they call in the nodes (\<^verbatim>\<open>HandleAuthLogin\<close>, the status snapshot, the broadcast) is modelled.
\<close>

end
